(* ===== verification/Prelude.thy ===== *)
theory Prelude
  imports Main "HOL-Library.Word" "HOL-Library.List_Lexorder" "HOL-Library.Char_ord"
begin

text \<open>
  Shared vocabulary of the development: the machine integers of the Rust sources as words,
  the checked and saturating operations the sources call on them, \<^verbatim>\<open>Result\<close> as a sum
  with the propagation of the first error (the \<^verbatim>\<open>?\<close> operator), UTF-8 strings as byte lists
  with the two lengths Rust distinguishes (\<^verbatim>\<open>len()\<close> in bytes, \<^verbatim>\<open>chars().count()\<close> in scalar
  values), the decimal rendering of integers, and the list facts (sorting, deduplication,
  binary search, contiguous ranges) that several components use.
\<close>

named_theorems checked_simps \<open>facts about checked and saturating machine arithmetic\<close>
named_theorems result_simps \<open>inversion of results, option conversions and error propagation\<close>

section \<open>Machine integers\<close>

type_synonym u16 = "16 word"
type_synonym u32 = "32 word"
type_synonym u64 = "64 word"

text \<open>\<^verbatim>\<open>checked_add\<close>: \<open>None\<close> on overflow. \<^verbatim>\<open>saturating_add\<close>: the largest word on overflow.\<close>

definition checked_add :: "'a::len word \<Rightarrow> 'a word \<Rightarrow> 'a word option" where
  "checked_add a b = (if unat a + unat b < 2 ^ LENGTH('a) then Some (a + b) else None)"

definition saturating_add :: "'a::len word \<Rightarrow> 'a word \<Rightarrow> 'a word" where
  "saturating_add a b = (case checked_add a b of None \<Rightarrow> - 1 | Some c \<Rightarrow> c)"

definition saturating_sub :: "'a::len word \<Rightarrow> 'a word \<Rightarrow> 'a word" where
  "saturating_sub a b = (if a < b then 0 else a - b)"

definition max_safe_integer :: u64 where
  "max_safe_integer = 9007199254740991"

lemma checked_add_unat [checked_simps]:
  "checked_add a b = Some c \<longleftrightarrow> unat c = unat a + unat b"
proof (cases "unat a + unat b < 2 ^ LENGTH('a)")
  case True
  then show ?thesis
    by (auto simp: checked_add_def unat_word_ariths word_unat_eq_iff)
next
  case False
  have "unat c < 2 ^ LENGTH('a)" by (rule unsigned_less)
  with False have "unat c \<noteq> unat a + unat b" by linarith
  with False show ?thesis by (simp add: checked_add_def)
qed

lemma checked_add_None [checked_simps]:
  "checked_add a b = None \<longleftrightarrow> 2 ^ LENGTH('a) \<le> unat a + unat b" for a b :: "'a::len word"
  by (auto simp: checked_add_def)

lemma unat_max_word [checked_simps]: "unat (- 1 :: 'a::len word) = 2 ^ LENGTH('a) - 1"
  by (simp add: unsigned_minus_1_eq_mask mask_eq_exp_minus_1)

lemma checked_succ_None: "checked_add a 1 = None \<longleftrightarrow> a = - 1" for a :: "'a::len word"
proof -
  have "unat a < 2 ^ LENGTH('a)" by (rule unsigned_less)
  then have "2 ^ LENGTH('a) \<le> unat a + 1 \<longleftrightarrow> unat a = 2 ^ LENGTH('a) - 1" by linarith
  then show ?thesis
    by (simp add: checked_add_None unat_max_word word_unat_eq_iff)
qed

lemma checked_succ_Some: "checked_add a 1 = Some b \<longleftrightarrow> unat b = Suc (unat a)"
  by (simp add: checked_add_unat)

lemma checked_succ_if: "checked_add a 1 = (if a = - 1 then None else Some (a + 1))"
  for a :: "'a::len word"
  using checked_succ_None [of a] by (cases "checked_add a 1") (auto simp: checked_add_def split: if_splits)

lemma unat_succ_if: "a \<noteq> - 1 \<Longrightarrow> unat (a + 1) = Suc (unat a)" for a :: "'a::len word"
  by (metis checked_succ_if checked_succ_Some)

lemma unat_eq_Suc_iff: "unat s = Suc (unat a) \<longleftrightarrow> a \<noteq> - 1 \<and> s = a + 1"
  for a s :: "'a::len word"
  by (metis checked_succ_Some checked_succ_if option.inject option.simps(3))

lemma unat_saturating_add [checked_simps]:
  "unat (saturating_add a b) = min (unat a + unat b) (2 ^ LENGTH('a) - 1)" for a b :: "'a::len word"
proof (cases "checked_add a b")
  case None
  then have "2 ^ LENGTH('a) \<le> unat a + unat b" by (simp add: checked_add_None)
  with None show ?thesis
    by (simp add: saturating_add_def unat_max_word)
next
  case (Some c)
  then have "unat c = unat a + unat b" by (simp add: checked_add_unat)
  moreover have "unat c < 2 ^ LENGTH('a)" by (rule unsigned_less)
  then have "unat c \<le> 2 ^ LENGTH('a) - 1" by linarith
  ultimately show ?thesis
    using Some by (simp add: saturating_add_def)
qed

lemma unat_saturating_sub [checked_simps]: "unat (saturating_sub a b) = unat a - unat b"
  by (auto simp: saturating_sub_def word_less_nat_alt unat_sub_if')

lemma unat_minus_1: "a \<noteq> 0 \<Longrightarrow> unat (a - 1) = unat a - 1" for a :: "'a::len word"
  by (simp add: unat_minus_one)

lemma u64_bound: "unat w < 18446744073709551616" for w :: u64
  using unsigned_less [of w] by simp

lemmas word_order_unat = word_less_nat_alt word_le_nat_alt

section \<open>Results\<close>

text \<open>\<open>rbind\<close> is the \<^verbatim>\<open>?\<close> operator: the first error is returned, a value is passed on.\<close>

definition rbind :: "'e + 'a \<Rightarrow> ('a \<Rightarrow> 'e + 'b) \<Rightarrow> 'e + 'b" where
  "rbind r f = (case r of Inl e \<Rightarrow> Inl e | Inr a \<Rightarrow> f a)"

definition ok_or :: "'a option \<Rightarrow> 'e \<Rightarrow> 'e + 'a" where
  "ok_or m e = (case m of None \<Rightarrow> Inl e | Some a \<Rightarrow> Inr a)"

definition ensure :: "bool \<Rightarrow> 'e \<Rightarrow> 'e + unit" where
  "ensure b e = (if b then Inr () else Inl e)"

definition map_err :: "('e \<Rightarrow> 'f) \<Rightarrow> 'e + 'a \<Rightarrow> 'f + 'a" where
  "map_err g r = (case r of Inl e \<Rightarrow> Inl (g e) | Inr a \<Rightarrow> Inr a)"

text \<open>A chain of checks, each followed by \<^verbatim>\<open>?\<close>: the first failing check decides.\<close>

fun check_all :: "('e + unit) list \<Rightarrow> 'e + unit" where
  "check_all [] = Inr ()"
| "check_all (c # cs) = (case c of Inl e \<Rightarrow> Inl e | Inr _ \<Rightarrow> check_all cs)"

definition is_ok :: "'e + 'a \<Rightarrow> bool" where
  "is_ok r = (case r of Inl _ \<Rightarrow> False | Inr _ \<Rightarrow> True)"

lemma rbind_simps [simp]: "rbind (Inl e) f = Inl e" "rbind (Inr a) f = f a"
  by (simp_all add: rbind_def)

lemma rbind_Inr_iff [result_simps]: "rbind r f = Inr b \<longleftrightarrow> (\<exists>a. r = Inr a \<and> f a = Inr b)"
  by (cases r) auto

lemma rbind_Inl_iff [result_simps]:
  "rbind r f = Inl e \<longleftrightarrow> r = Inl e \<or> (\<exists>a. r = Inr a \<and> f a = Inl e)"
  by (cases r) auto

lemma ok_or_Inr_iff [result_simps]: "ok_or m e = Inr a \<longleftrightarrow> m = Some a"
  by (cases m) (auto simp: ok_or_def)

lemma ok_or_Inl_iff [result_simps]: "ok_or m e = Inl e' \<longleftrightarrow> m = None \<and> e' = e"
  by (cases m) (auto simp: ok_or_def)

lemma ok_or_simps [simp]: "ok_or None e = Inl e" "ok_or (Some a) e = Inr a"
  by (simp_all add: ok_or_def)

lemma ensure_Inr_iff [result_simps]: "ensure b e = Inr u \<longleftrightarrow> b"
  by (auto simp: ensure_def)

lemma ensure_Inl_iff [result_simps]: "ensure b e = Inl e' \<longleftrightarrow> \<not> b \<and> e' = e"
  by (auto simp: ensure_def)

lemma ensure_simps [simp]: "ensure True e = Inr ()" "ensure False e = Inl e"
  by (simp_all add: ensure_def)

lemma map_err_Inr_iff [result_simps]: "map_err g r = Inr a \<longleftrightarrow> r = Inr a"
  by (cases r) (auto simp: map_err_def)

lemma map_err_Inl_iff [result_simps]: "map_err g r = Inl f \<longleftrightarrow> (\<exists>e. r = Inl e \<and> f = g e)"
  by (cases r) (auto simp: map_err_def)

lemma map_err_simps [simp]: "map_err g (Inl e) = Inl (g e)" "map_err g (Inr a) = Inr a"
  by (simp_all add: map_err_def)

lemma is_ok_simps [simp]: "is_ok (Inl e) \<longleftrightarrow> False" "is_ok (Inr a) \<longleftrightarrow> True"
  by (simp_all add: is_ok_def)

lemma is_ok_ensure [simp]: "is_ok (ensure b e) \<longleftrightarrow> b"
  by (simp add: ensure_def)

lemma check_all_Inr_iff [result_simps]:
  "check_all cs = Inr u \<longleftrightarrow> (\<forall>c \<in> set cs. c = Inr ())"
  by (induction cs) (auto split: sum.splits)

declare check_all.simps [simp del]

lemma check_all_append:
  "check_all (cs @ ds) = (case check_all cs of Inl e \<Rightarrow> Inl e | Inr _ \<Rightarrow> check_all ds)"
  by (induction cs) (auto simp: check_all.simps split: sum.splits)

lemma check_all_Inl_mem: "check_all cs = Inl e \<Longrightarrow> Inl e \<in> set cs"
  by (induction cs) (auto simp: check_all.simps split: sum.splits)

section \<open>Strings\<close>

text \<open>
  A Rust string is its UTF-8 bytes; a HOL \<open>char\<close> is one byte. \<^verbatim>\<open>len()\<close> is \<open>length\<close>,
  \<^verbatim>\<open>chars().count()\<close> counts the bytes that do not continue a code point.
\<close>

definition byte :: "char \<Rightarrow> nat" where
  "byte c = of_char c"

definition is_continuation_byte :: "char \<Rightarrow> bool" where
  "is_continuation_byte c \<longleftrightarrow> 128 \<le> byte c \<and> byte c < 192"

definition chars_count :: "string \<Rightarrow> nat" where
  "chars_count s = length (filter (\<lambda>c. \<not> is_continuation_byte c) s)"

definition is_ascii_digit :: "char \<Rightarrow> bool" where
  "is_ascii_digit c \<longleftrightarrow> 48 \<le> byte c \<and> byte c \<le> 57"

definition is_ascii_alphabetic :: "char \<Rightarrow> bool" where
  "is_ascii_alphabetic c \<longleftrightarrow> 65 \<le> byte c \<and> byte c \<le> 90 \<or> 97 \<le> byte c \<and> byte c \<le> 122"

definition is_ascii_alphanumeric :: "char \<Rightarrow> bool" where
  "is_ascii_alphanumeric c \<longleftrightarrow> is_ascii_alphabetic c \<or> is_ascii_digit c"

definition strip_prefix :: "string \<Rightarrow> string \<Rightarrow> string option" where
  "strip_prefix p s = (if take (length p) s = p then Some (drop (length p) s) else None)"

lemmas ascii_defs = byte_def is_ascii_digit_def is_ascii_alphabetic_def is_ascii_alphanumeric_def

lemma chars_count_le_length: "chars_count s \<le> length s"
  by (simp add: chars_count_def)

lemma strip_prefix_Some_iff [result_simps]: "strip_prefix p s = Some r \<longleftrightarrow> s = p @ r"
proof
  assume "strip_prefix p s = Some r"
  then show "s = p @ r"
    by (auto simp: strip_prefix_def split: if_splits) (metis append_take_drop_id)
qed (simp add: strip_prefix_def)

text \<open>Decimal rendering of an unsigned integer, as \<^verbatim>\<open>Display\<close> and \<^verbatim>\<open>Debug\<close> write it.\<close>

fun decimal :: "nat \<Rightarrow> string" where
  "decimal n = (if n < 10 then [char_of (48 + n)] else decimal (n div 10) @ [char_of (48 + n mod 10)])"

declare decimal.simps [simp del]

fun decimal_value :: "nat \<Rightarrow> string \<Rightarrow> nat" where
  "decimal_value acc [] = acc"
| "decimal_value acc (c # cs) = decimal_value (10 * acc + (byte c - 48)) cs"

lemma decimal_value_append: "decimal_value acc (xs @ ys) = decimal_value (decimal_value acc xs) ys"
  by (induction xs arbitrary: acc) simp_all

lemma byte_char_of: "n < 256 \<Longrightarrow> byte (char_of n) = n"
  by (simp add: byte_def)

lemma decimal_value_decimal: "decimal_value 0 (decimal n) = n"
proof (induction n rule: decimal.induct)
  case (1 n)
  then show ?case
    by (cases "n < 10") (simp_all add: decimal.simps [of n] decimal_value_append byte_char_of)
qed

lemma decimal_inject: "decimal m = decimal n \<longleftrightarrow> m = n"
  by (metis decimal_value_decimal)

lemma decimal_digits: "c \<in> set (decimal n) \<Longrightarrow> is_ascii_digit c"
proof (induction n rule: decimal.induct)
  case (1 n)
  have digit: "is_ascii_digit (char_of (48 + m))" if "m < 10" for m :: nat
    using that by (simp add: is_ascii_digit_def byte_char_of)
  show ?case
  proof (cases "n < 10")
    case True
    with 1 digit [of n] show ?thesis by (simp add: decimal.simps [of n])
  next
    case False
    with 1 digit [of "n mod 10"] show ?thesis by (auto simp: decimal.simps [of n])
  qed
qed

lemma decimal_not_Nil: "decimal n \<noteq> []"
  by (simp add: decimal.simps [of n])

section \<open>Lists\<close>

lemma upt_glue: "i \<le> j \<Longrightarrow> j \<le> k \<Longrightarrow> [i ..< j] @ [j ..< k] = [i ..< k]"
  using upt_add_eq_append [of i j "k - j"] by simp

end
