(* ===== verification/Machines.thy ===== *)
theory Machines
  imports Prelude
begin

text \<open>
  The interfaces several components share, as locales. A \<open>fallible machine\<close> is a component whose
  methods take \<^verbatim>\<open>&mut self\<close> and return a \<^verbatim>\<open>Result\<close>: an error leaves the state as it was. A
  \<open>reactive machine\<close> is a component whose every input yields an output and a next state. The
  lemmas about whole runs are proved here once; each component interprets the locale on its own
  operations.
\<close>

section \<open>Fallible machines\<close>

text \<open>A run of calls: a call that returns an error is skipped, as its caller keeps the old value.\<close>

fun run_ops :: "('s \<Rightarrow> 'op \<Rightarrow> 'e + 's) \<Rightarrow> 's \<Rightarrow> 'op list \<Rightarrow> 's" where
  "run_ops step s [] = s"
| "run_ops step s (op # ops) =
     (case step s op of Inl _ \<Rightarrow> run_ops step s ops | Inr s' \<Rightarrow> run_ops step s' ops)"

lemma run_ops_append: "run_ops step s (xs @ ys) = run_ops step (run_ops step s xs) ys"
  by (induction xs arbitrary: s) (auto split: sum.splits)

locale fallible_machine =
  fixes step :: "'s \<Rightarrow> 'op \<Rightarrow> 'e + 's"
    and inv :: "'s \<Rightarrow> bool"
  assumes step_inv: "inv s \<Longrightarrow> step s op = Inr s' \<Longrightarrow> inv s'"
begin

lemma run_inv: "inv s \<Longrightarrow> inv (run_ops step s ops)"
  by (induction ops arbitrary: s) (auto split: sum.splits intro: step_inv)

end

text \<open>A fallible machine with a relation between the states before and after a call.\<close>

locale preordered_machine = fallible_machine step inv
  for step :: "'s \<Rightarrow> 'op \<Rightarrow> 'e + 's" and inv :: "'s \<Rightarrow> bool" +
  fixes le :: "'s \<Rightarrow> 's \<Rightarrow> bool"
  assumes le_refl: "le s s"
    and le_trans: "le s t \<Longrightarrow> le t u \<Longrightarrow> le s u"
    and step_le: "inv s \<Longrightarrow> step s op = Inr s' \<Longrightarrow> le s s'"
begin

lemma run_le: "inv s \<Longrightarrow> le s (run_ops step s ops)"
proof (induction ops arbitrary: s)
  case Nil
  then show ?case by (simp add: le_refl)
next
  case (Cons op ops)
  show ?case
  proof (cases "step s op")
    case (Inl e)
    with Cons show ?thesis by simp
  next
    case (Inr s')
    with Cons.prems have "le s s'" and "inv s'" by (auto intro: step_le step_inv)
    with Cons.IH [of s'] Inr show ?thesis by (auto intro: le_trans)
  qed
qed

end

section \<open>Reactive machines\<close>

text \<open>A run collects the outputs in order and threads the state through.\<close>

fun run_reactive :: "('s \<Rightarrow> 'i \<Rightarrow> 'o \<times> 's) \<Rightarrow> 's \<Rightarrow> 'i list \<Rightarrow> 'o list \<times> 's" where
  "run_reactive react s [] = ([], s)"
| "run_reactive react s (i # is) =
     (fst (react s i) # fst (run_reactive react (snd (react s i)) is),
      snd (run_reactive react (snd (react s i)) is))"

lemma run_reactive_append:
  "run_reactive react s (is @ js) =
     (fst (run_reactive react s is) @ fst (run_reactive react (snd (run_reactive react s is)) js),
      snd (run_reactive react (snd (run_reactive react s is)) js))"
  by (induction "is" arbitrary: s) simp_all

locale reactive_machine =
  fixes react :: "'s \<Rightarrow> 'i \<Rightarrow> 'o \<times> 's"
    and inv :: "'s \<Rightarrow> bool"
  assumes react_inv: "inv s \<Longrightarrow> inv (snd (react s i))"
begin

lemma run_reactive_inv: "inv s \<Longrightarrow> inv (snd (run_reactive react s is))"
  by (induction "is" arbitrary: s) (simp_all add: react_inv)

end

text \<open>
  A reactive machine with a position that each output extends: what the outputs emit along a run
  is the interval between the positions before and after it, each number once and in order.
\<close>

locale counting_machine = reactive_machine react inv
  for react :: "'s \<Rightarrow> 'i \<Rightarrow> 'o \<times> 's" and inv :: "'s \<Rightarrow> bool" +
  fixes pos :: "'s \<Rightarrow> nat"
    and emit :: "'i \<Rightarrow> 'o \<Rightarrow> nat list"
  assumes pos_mono: "inv s \<Longrightarrow> pos s \<le> pos (snd (react s i))"
    and react_emit: "inv s \<Longrightarrow> emit i (fst (react s i)) = [pos s ..< pos (snd (react s i))]"
begin

lemma run_pos_mono: "inv s \<Longrightarrow> pos s \<le> pos (snd (run_reactive react s is))"
proof (induction "is" arbitrary: s)
  case (Cons i "is")
  then have "pos s \<le> pos (snd (react s i))" and "inv (snd (react s i))"
    by (simp_all add: pos_mono react_inv)
  with Cons.IH [of "snd (react s i)"] show ?case by simp
qed simp

lemma run_emit:
  "inv s \<Longrightarrow>
     concat (map2 emit is (fst (run_reactive react s is))) =
       [pos s ..< pos (snd (run_reactive react s is))]"
proof (induction "is" arbitrary: s)
  case (Cons i "is")
  let ?s' = "snd (react s i)"
  from Cons.prems have inv': "inv ?s'" by (rule react_inv)
  with Cons.IH have "concat (map2 emit is (fst (run_reactive react ?s' is))) =
      [pos ?s' ..< pos (snd (run_reactive react ?s' is))]" .
  moreover have "pos s \<le> pos ?s'" using Cons.prems by (rule pos_mono)
  moreover have "pos ?s' \<le> pos (snd (run_reactive react ?s' is))" using inv' by (rule run_pos_mono)
  ultimately show ?case
    using Cons.prems by (simp add: react_emit upt_glue)
qed simp

end

end
