(* ===== verification/Exchange_Sequence.thy ===== *)
theory Exchange_Sequence
  imports Machines
begin

text \<open>
  \<^verbatim>\<open>crates/winwincode-client-port/src/exchange/sequence.rs\<close>: the sender's \<^verbatim>\<open>SequenceAllocator\<close>
  and the receiver's cumulative \<^verbatim>\<open>AckCursor\<close>. Sequences are \<^verbatim>\<open>u64\<close> and both types stop at the
  largest value instead of wrapping.
\<close>

section \<open>The allocator\<close>

datatype sequence_error = ZeroSequence | SeqOverflow

record sequence_allocator =
  sa_next :: u64

definition SequenceAllocator_new :: sequence_allocator where
  "SequenceAllocator_new = \<lparr>sa_next = 1\<rparr>"

definition from_next :: "u64 \<Rightarrow> sequence_error + sequence_allocator" where
  "from_next n = (if n = 0 then Inl ZeroSequence else Inr \<lparr>sa_next = n\<rparr>)"

definition peek_next :: "sequence_allocator \<Rightarrow> u64" where
  "peek_next a = sa_next a"

definition allocate :: "sequence_allocator \<Rightarrow> sequence_error + u64 \<times> sequence_allocator" where
  "allocate a =
     (let allocated = sa_next a
      in case checked_add (sa_next a) 1 of
           Some n \<Rightarrow> Inr (allocated, a\<lparr>sa_next := n\<rparr>)
         | None \<Rightarrow> Inl SeqOverflow)"

section \<open>The acknowledgement cursor\<close>

record ack_cursor =
  ac_ack_sequence :: u64

datatype sequence_verdict = SeqAccept | SeqDuplicate | SeqGap u64 | SeqZero

datatype ack_advance_error = AckOverflow | NotContiguous u64 u64

definition AckCursor_new :: ack_cursor where
  "AckCursor_new = \<lparr>ac_ack_sequence = 0\<rparr>"

definition from_ack :: "u64 \<Rightarrow> ack_cursor" where
  "from_ack n = \<lparr>ac_ack_sequence = n\<rparr>"

definition next_expected :: "ack_cursor \<Rightarrow> u64 option" where
  "next_expected c = checked_add (ac_ack_sequence c) 1"

definition seq_observe :: "ack_cursor \<Rightarrow> u64 \<Rightarrow> sequence_verdict" where
  "seq_observe c s =
     (if s = 0 then SeqZero
      else case next_expected c of
             Some expected \<Rightarrow>
               (if s = expected then SeqAccept
                else if s > expected then SeqGap expected
                else SeqDuplicate)
           | None \<Rightarrow> SeqDuplicate)"

definition advance :: "ack_cursor \<Rightarrow> u64 \<Rightarrow> ack_advance_error + ack_cursor" where
  "advance c s =
     (case next_expected c of
        None \<Rightarrow> Inl AckOverflow
      | Some expected \<Rightarrow>
          (if s = expected then Inr (c\<lparr>ac_ack_sequence := s\<rparr>)
           else Inl (NotContiguous (ac_ack_sequence c) s)))"

section \<open>The cursor over the naturals\<close>

text \<open>The verdict read over natural numbers, free of the width of the words.\<close>

lemma seq_observe_unat:
  "seq_observe c s =
     (if s = 0 then SeqZero
      else if unat s \<le> unat (ac_ack_sequence c) then SeqDuplicate
      else if unat s = Suc (unat (ac_ack_sequence c)) then SeqAccept
      else SeqGap (ac_ack_sequence c + 1))"
proof (cases "ac_ack_sequence c = - 1")
  case True
  have "unat s < 2 ^ 64" using unsigned_less [of s] by simp
  then have "unat s \<le> 2 ^ 64 - 1" by linarith
  with True show ?thesis
    by (simp add: seq_observe_def next_expected_def checked_succ_if unat_max_word)
next
  case False
  then have "unat (ac_ack_sequence c + 1) = Suc (unat (ac_ack_sequence c))"
    by (rule unat_succ_if)
  with False show ?thesis
    by (auto simp: seq_observe_def next_expected_def checked_succ_if word_unat_eq_iff
        word_less_nat_alt)
qed

lemma seq_observe_Accept_iff:
  "seq_observe c s = SeqAccept \<longleftrightarrow> unat s = Suc (unat (ac_ack_sequence c))"
  by (auto simp: seq_observe_unat)

lemma advance_Inr_iff:
  "advance c s = Inr c' \<longleftrightarrow>
     unat s = Suc (unat (ac_ack_sequence c)) \<and> c' = c\<lparr>ac_ack_sequence := s\<rparr>"
  by (auto simp: advance_def next_expected_def checked_succ_if unat_eq_Suc_iff)

section \<open>Properties\<close>

text \<open>A run of allocations, stopping at the first error.\<close>

fun allocate_run :: "nat \<Rightarrow> sequence_allocator \<Rightarrow> u64 list \<times> sequence_allocator" where
  "allocate_run 0 a = ([], a)"
| "allocate_run (Suc n) a =
     (case allocate a of
        Inl _ \<Rightarrow> ([], a)
      | Inr (s, a') \<Rightarrow> (s # fst (allocate_run n a'), snd (allocate_run n a')))"

lemma allocate_run_unat:
  "unat (sa_next a) + n < 2 ^ 64 \<Longrightarrow>
     map unat (fst (allocate_run n a)) = [unat (sa_next a) ..< unat (sa_next a) + n] \<and>
     unat (sa_next (snd (allocate_run n a))) = unat (sa_next a) + n"
proof (induction n arbitrary: a)
  case (Suc n)
  let ?a' = "a\<lparr>sa_next := sa_next a + 1\<rparr>"
  from Suc.prems have ne: "sa_next a \<noteq> - 1" by (auto simp: unat_max_word)
  then have next': "unat (sa_next ?a') = Suc (unat (sa_next a))" by (simp add: unat_succ_if)
  have alloc: "allocate a = Inr (sa_next a, ?a')"
    using ne by (simp add: allocate_def checked_succ_if)
  show ?case
    using Suc.IH [of ?a'] Suc.prems next' by (simp add: alloc upt_conv_Cons)
qed simp

text \<open>
  Allocation is contiguous: starting at any position that leaves room below \<^verbatim>\<open>u64::MAX\<close>, \<open>n\<close>
  allocations hand out the \<open>n\<close> consecutive sequences from that position, each once and in order,
  and leave the allocator at the following one.
\<close>

theorem allocate_contiguous:
  assumes "unat (sa_next a) + n < 2 ^ 64"
  shows "map unat (fst (allocate_run n a)) = [unat (peek_next a) ..< unat (peek_next a) + n]
    \<and> unat (peek_next (snd (allocate_run n a))) = unat (peek_next a) + n"
  using allocate_run_unat [OF assms] by (simp add: peek_next_def)

end
