(* ===== verification/Exchange_Frame.thy ===== *)
theory Exchange_Frame
  imports Prelude
begin

text \<open>
  \<^verbatim>\<open>crates/winwincode-client-port/src/exchange/frame.rs\<close>: frame identities, sealed frames and the
  bounded codec. JSON (\<^verbatim>\<open>serde_json\<close>) and SHA-256 (\<^verbatim>\<open>sha2\<close>) are not part of the repository: the
  serialiser, the deserialiser and the hash are arguments of the definitions that use them.
\<close>

section \<open>Frames\<close>

type_synonym bytes = string

definition DEFAULT_MAX_FRAME_BYTES :: nat where
  "DEFAULT_MAX_FRAME_BYTES = 256 * 1024"

definition payload_digest :: "(bytes \<Rightarrow> string) \<Rightarrow> bytes \<Rightarrow> string" where
  "payload_digest sha256_hex bs = ''sha256:'' @ sha256_hex bs"

record frame_identity =
  fi_message_id :: string
  fi_sequence :: u64
  fi_payload_digest :: string

record stored_frame =
  sf_message_id :: string
  sf_sequence :: u64
  sf_payload_digest :: string
  sf_frame :: bytes

definition stored_frame_identity :: "stored_frame \<Rightarrow> frame_identity" where
  "stored_frame_identity f =
     \<lparr>fi_message_id = sf_message_id f, fi_sequence = sf_sequence f,
      fi_payload_digest = sf_payload_digest f\<rparr>"

record 'm envelope =
  env_schema_version :: string
  env_message_id :: string
  env_client_node_id :: string
  env_client_instance_id :: string
  env_sequence :: u64
  env_occurred_at :: string
  env_message :: 'm

section \<open>The codec\<close>

datatype frame_codec_error =
    EmptyFrame
  | TooLarge nat nat
  | Serialization string
  | Deserialization string

record frame_codec =
  max_frame_bytes :: nat

definition FrameCodec_default :: frame_codec where
  "FrameCodec_default = \<lparr>max_frame_bytes = DEFAULT_MAX_FRAME_BYTES\<rparr>"

definition check_bound :: "frame_codec \<Rightarrow> nat \<Rightarrow> frame_codec_error + unit" where
  "check_bound codec sz =
     (if sz = 0 then Inl EmptyFrame
      else if sz > max_frame_bytes codec then Inl (TooLarge sz (max_frame_bytes codec))
      else Inr ())"

definition encode :: "('v \<Rightarrow> string + bytes) \<Rightarrow> frame_codec \<Rightarrow> 'v \<Rightarrow> frame_codec_error + bytes" where
  "encode to_vec codec v =
     rbind (map_err Serialization (to_vec v)) (\<lambda>frame.
     rbind (check_bound codec (length frame)) (\<lambda>_.
     Inr frame))"

definition decode :: "(bytes \<Rightarrow> string + 'v) \<Rightarrow> frame_codec \<Rightarrow> bytes \<Rightarrow> frame_codec_error + 'v" where
  "decode from_slice codec bs =
     rbind (check_bound codec (length bs)) (\<lambda>_. map_err Deserialization (from_slice bs))"

definition envelope_identity ::
    "(bytes \<Rightarrow> string) \<Rightarrow> ('m \<Rightarrow> string + bytes) \<Rightarrow> 'm envelope \<Rightarrow> frame_codec_error + frame_identity" where
  "envelope_identity sha256_hex message_to_vec env =
     rbind (map_err Serialization (message_to_vec (env_message env))) (\<lambda>payload.
     Inr \<lparr>fi_message_id = env_message_id env, fi_sequence = env_sequence env,
          fi_payload_digest = payload_digest sha256_hex payload\<rparr>)"

definition encode_envelope ::
    "(bytes \<Rightarrow> string) \<Rightarrow> ('m \<Rightarrow> string + bytes) \<Rightarrow> ('m envelope \<Rightarrow> string + bytes) \<Rightarrow>
     frame_codec \<Rightarrow> 'm envelope \<Rightarrow> frame_codec_error + stored_frame" where
  "encode_envelope sha256_hex message_to_vec envelope_to_vec codec env =
     rbind (envelope_identity sha256_hex message_to_vec env) (\<lambda>identity.
     rbind (encode envelope_to_vec codec env) (\<lambda>frame.
     Inr \<lparr>sf_message_id = fi_message_id identity, sf_sequence = fi_sequence identity,
          sf_payload_digest = fi_payload_digest identity, sf_frame = frame\<rparr>))"

definition decode_envelope ::
    "(bytes \<Rightarrow> string + 'm envelope) \<Rightarrow> frame_codec \<Rightarrow> bytes \<Rightarrow> frame_codec_error + 'm envelope" where
  "decode_envelope from_slice codec bs = decode from_slice codec bs"

section \<open>Properties\<close>

lemma check_bound_Inr_iff [result_simps]:
  "check_bound codec n = Inr u \<longleftrightarrow> 0 < n \<and> n \<le> max_frame_bytes codec"
  by (auto simp: check_bound_def)

lemma encode_Inr_iff [result_simps]:
  "encode to_vec codec v = Inr bs \<longleftrightarrow>
     to_vec v = Inr bs \<and> 0 < length bs \<and> length bs \<le> max_frame_bytes codec"
  by (auto simp: encode_def result_simps)

lemma encode_envelope_Inr_iff [result_simps]:
  "encode_envelope sha256_hex mv ev codec env = Inr f \<longleftrightarrow>
     (\<exists>payload. mv (env_message env) = Inr payload \<and> ev env = Inr (sf_frame f) \<and>
        0 < length (sf_frame f) \<and> length (sf_frame f) \<le> max_frame_bytes codec \<and>
        f = \<lparr>sf_message_id = env_message_id env, sf_sequence = env_sequence env,
             sf_payload_digest = payload_digest sha256_hex payload, sf_frame = sf_frame f\<rparr>)"
  by (auto simp: encode_envelope_def envelope_identity_def result_simps)

text \<open>
  C37. Sealing and reopening an envelope is a round trip, for any JSON implementation that reads back
  what it wrote: the stored frame carries exactly the identity computed from the envelope, its bytes
  are non-empty and within the codec's bound, and decoding them under the same codec returns the
  envelope, whose identity is again that of the frame.
\<close>

theorem encode_envelope_roundtrip:
  assumes serde: "\<And>env bs. envelope_to_vec env = Inr bs \<Longrightarrow> from_slice bs = Inr env"
    and sealed: "encode_envelope sha256_hex message_to_vec envelope_to_vec codec env = Inr f"
  shows "decode_envelope from_slice codec (sf_frame f) = Inr env
    \<and> envelope_identity sha256_hex message_to_vec env = Inr (stored_frame_identity f)
    \<and> 0 < length (sf_frame f) \<and> length (sf_frame f) \<le> max_frame_bytes codec"
proof -
  from sealed obtain payload where p: "message_to_vec (env_message env) = Inr payload"
    and ev: "envelope_to_vec env = Inr (sf_frame f)"
    and bound: "0 < length (sf_frame f)" "length (sf_frame f) \<le> max_frame_bytes codec"
    and f: "f = \<lparr>sf_message_id = env_message_id env, sf_sequence = env_sequence env,
        sf_payload_digest = payload_digest sha256_hex payload, sf_frame = sf_frame f\<rparr>"
    by (auto simp: encode_envelope_Inr_iff)
  have "check_bound codec (length (sf_frame f)) = Inr ()"
    using bound by (simp add: check_bound_Inr_iff)
  then have "decode_envelope from_slice codec (sf_frame f) = Inr env"
    by (simp add: decode_envelope_def decode_def serde [OF ev])
  moreover have "envelope_identity sha256_hex message_to_vec env = Inr (stored_frame_identity f)"
    by (subst f) (simp add: envelope_identity_def p stored_frame_identity_def)
  ultimately show ?thesis using bound by simp
qed

text \<open>An instance: messages are strings, an envelope is written as the concatenation of its fields,
  each preceded by its length in unary, and read back field by field.\<close>

definition write_field :: "string \<Rightarrow> string" where
  "write_field s = replicate (length s) (CHR ''i'') @ CHR '':'' # s"

definition read_field :: "string \<Rightarrow> string \<times> string" where
  "read_field bs =
     (let n = length (takeWhile (\<lambda>c. c = CHR ''i'') bs); rest = drop (Suc n) bs
      in (take n rest, drop n rest))"

definition write_envelope :: "string envelope \<Rightarrow> string + bytes" where
  "write_envelope env =
     Inr (concat (map write_field
       [env_schema_version env, env_message_id env, env_client_node_id env,
        env_client_instance_id env, decimal (unat (env_sequence env)), env_occurred_at env,
        env_message env]))"

definition read_envelope :: "bytes \<Rightarrow> string + string envelope" where
  "read_envelope b0 =
     (let (v, b1) = read_field b0; (m, b2) = read_field b1; (n, b3) = read_field b2;
          (i, b4) = read_field b3; (s, b5) = read_field b4; (t, b6) = read_field b5;
          (p, b7) = read_field b6
      in Inr \<lparr>env_schema_version = v, env_message_id = m, env_client_node_id = n,
              env_client_instance_id = i, env_sequence = word_of_nat (decimal_value 0 s),
              env_occurred_at = t, env_message = p\<rparr>)"

lemma takeWhile_replicate_append:
  "\<not> P b \<Longrightarrow> P a \<Longrightarrow> takeWhile P (replicate n a @ b # xs) = replicate n a"
  by (induction n) simp_all

lemma read_write_field: "read_field (write_field s @ rest) = (s, rest)"
  by (simp add: read_field_def write_field_def takeWhile_replicate_append Let_def)

lemma read_write_envelope: "write_envelope env = Inr bs \<Longrightarrow> read_envelope bs = Inr env"
  by (cases env)
    (auto simp: write_envelope_def read_envelope_def read_write_field
        read_write_field [where rest = "[]", simplified] decimal_value_decimal)

theorem encode_envelope_roundtrip_witness:
  "\<exists>f. encode_envelope (\<lambda>_. ''00'') Inr write_envelope FrameCodec_default
          \<lparr>env_schema_version = ''v1'', env_message_id = ''msg-1'', env_client_node_id = ''n'',
           env_client_instance_id = ''i'', env_sequence = 7, env_occurred_at = ''t'',
           env_message = ''hi''\<rparr> = Inr f \<and>
       decode_envelope read_envelope FrameCodec_default (sf_frame f) =
         Inr \<lparr>env_schema_version = ''v1'', env_message_id = ''msg-1'', env_client_node_id = ''n'',
              env_client_instance_id = ''i'', env_sequence = 7, env_occurred_at = ''t'',
              env_message = ''hi''\<rparr>"
proof -
  let ?env = "\<lparr>env_schema_version = ''v1'', env_message_id = ''msg-1'', env_client_node_id = ''n'',
    env_client_instance_id = ''i'', env_sequence = 7, env_occurred_at = ''t'', env_message = ''hi''\<rparr>"
  obtain f where f: "encode_envelope (\<lambda>_. ''00'') Inr write_envelope FrameCodec_default ?env = Inr f"
    by (simp add: encode_envelope_def envelope_identity_def encode_def write_envelope_def
        write_field_def check_bound_def FrameCodec_default_def DEFAULT_MAX_FRAME_BYTES_def
        decimal.simps [of 7])
  then have "decode_envelope read_envelope FrameCodec_default (sf_frame f) = Inr ?env"
    using encode_envelope_roundtrip [OF read_write_envelope f] by simp
  with f show ?thesis by (intro exI [of _ f]) simp
qed

end
