(* ===== verification/Exchange_Dedup.thy ===== *)
theory Exchange_Dedup
  imports Exchange_Frame "HOL-Library.AList"
begin

text \<open>
  \<^verbatim>\<open>crates/winwincode-client-port/src/exchange/dedup.rs\<close>: the register of accepted frame and
  command identities. A \<^verbatim>\<open>HashMap\<close> whose size the code reads is an association list with distinct
  keys; \<^verbatim>\<open>insert\<close> is \<open>AList.update\<close>, \<^verbatim>\<open>retain\<close> is \<open>filter\<close>.
\<close>

record command_identity =
  ci_idempotency_key :: string
  ci_payload_digest :: string

datatype dedup_verdict = DedupNew | DedupDuplicate | DedupConflict

record frame_key =
  fk_message_id :: string
  fk_sequence :: u64

record dedup_register =
  dr_frames :: "(frame_key \<times> string) list"
  dr_commands :: "(string \<times> string) list"

definition DedupRegister_new :: dedup_register where
  "DedupRegister_new = \<lparr>dr_frames = [], dr_commands = []\<rparr>"

definition frame_key_of :: "frame_identity \<Rightarrow> frame_key" where
  "frame_key_of identity =
     \<lparr>fk_message_id = fi_message_id identity, fk_sequence = fi_sequence identity\<rparr>"

definition check_frame :: "dedup_register \<Rightarrow> frame_identity \<Rightarrow> dedup_verdict" where
  "check_frame r identity =
     (case map_of (dr_frames r) (frame_key_of identity) of
        None \<Rightarrow> DedupNew
      | Some digest \<Rightarrow>
          (if digest = fi_payload_digest identity then DedupDuplicate else DedupConflict))"

definition record_frame :: "dedup_register \<Rightarrow> frame_identity \<Rightarrow> dedup_register" where
  "record_frame r identity =
     r\<lparr>dr_frames := AList.update (frame_key_of identity) (fi_payload_digest identity) (dr_frames r)\<rparr>"

definition check_command :: "dedup_register \<Rightarrow> command_identity \<Rightarrow> dedup_verdict" where
  "check_command r command =
     (case map_of (dr_commands r) (ci_idempotency_key command) of
        None \<Rightarrow> DedupNew
      | Some digest \<Rightarrow>
          (if digest = ci_payload_digest command then DedupDuplicate else DedupConflict))"

definition record_command :: "dedup_register \<Rightarrow> command_identity \<Rightarrow> dedup_register" where
  "record_command r command =
     r\<lparr>dr_commands :=
        AList.update (ci_idempotency_key command) (ci_payload_digest command) (dr_commands r)\<rparr>"

definition compact_frames_through :: "dedup_register \<Rightarrow> u64 \<Rightarrow> nat \<times> dedup_register" where
  "compact_frames_through r s =
     (let before = length (dr_frames r);
          frames = filter (\<lambda>(k, _). fk_sequence k > s) (dr_frames r)
      in (before - length frames, r\<lparr>dr_frames := frames\<rparr>))"

definition retained_frames :: "dedup_register \<Rightarrow> nat" where
  "retained_frames r = length (dr_frames r)"

definition retained_commands :: "dedup_register \<Rightarrow> nat" where
  "retained_commands r = length (dr_commands r)"

section \<open>Invariant and facts\<close>

definition dedup_wf :: "dedup_register \<Rightarrow> bool" where
  "dedup_wf r \<longleftrightarrow> distinct (map fst (dr_frames r)) \<and> distinct (map fst (dr_commands r))"

lemma dedup_wf_new [simp]: "dedup_wf DedupRegister_new"
  by (simp add: dedup_wf_def DedupRegister_new_def)

lemma dedup_wf_record_frame: "dedup_wf r \<Longrightarrow> dedup_wf (record_frame r i)"
  by (simp add: dedup_wf_def record_frame_def distinct_update)

lemma dedup_wf_record_command: "dedup_wf r \<Longrightarrow> dedup_wf (record_command r c)"
  by (simp add: dedup_wf_def record_command_def distinct_update)

lemma distinct_fst_filter: "distinct (map fst xs) \<Longrightarrow> distinct (map fst (filter P xs))"
  by (induction xs) (auto dest: in_set_zipE)

lemma dedup_wf_compact: "dedup_wf r \<Longrightarrow> dedup_wf (snd (compact_frames_through r s))"
  by (simp add: dedup_wf_def compact_frames_through_def Let_def distinct_fst_filter)

lemma map_of_filter_key:
  "distinct (map fst xs) \<Longrightarrow> map_of (filter (\<lambda>(k, _). P k) xs) k = (if P k then map_of xs k else None)"
  by (induction xs) (auto simp: map_of_eq_None_iff)

lemma check_frame_record:
  "check_frame (record_frame r i) j =
     (if frame_key_of i = frame_key_of j
      then (if fi_payload_digest i = fi_payload_digest j then DedupDuplicate else DedupConflict)
      else check_frame r j)"
  by (auto simp: check_frame_def record_frame_def update_conv')

lemma check_frame_record_command [simp]: "check_frame (record_command r c) j = check_frame r j"
  by (simp add: check_frame_def record_command_def)

lemma check_command_record:
  "check_command (record_command r c) d =
     (if ci_idempotency_key c = ci_idempotency_key d
      then (if ci_payload_digest c = ci_payload_digest d then DedupDuplicate else DedupConflict)
      else check_command r d)"
  by (auto simp: check_command_def record_command_def update_conv')

lemma check_command_record_frame [simp]: "check_command (record_frame r i) c = check_command r c"
  by (simp add: check_command_def record_frame_def)

lemma check_command_compact [simp]:
  "check_command (snd (compact_frames_through r s)) c = check_command r c"
  by (simp add: check_command_def compact_frames_through_def Let_def)

lemma check_frame_compact:
  "dedup_wf r \<Longrightarrow> check_frame (snd (compact_frames_through r s)) i =
     (if fi_sequence i > s then check_frame r i else DedupNew)"
  by (auto simp: check_frame_def compact_frames_through_def Let_def dedup_wf_def map_of_filter_key
      frame_key_of_def)

section \<open>Properties\<close>

lemma check_frame_after_record_compact:
  assumes "dedup_wf r"
  shows "check_frame (snd (compact_frames_through (record_frame r i) s)) j =
     (if fi_sequence j \<le> s then DedupNew
      else if frame_key_of i = frame_key_of j
      then (if fi_payload_digest i = fi_payload_digest j then DedupDuplicate else DedupConflict)
      else check_frame r j)"
  by (simp add: check_frame_compact [OF dedup_wf_record_frame [OF assms]] check_frame_record
      not_less [symmetric])

text \<open>
  What the register remembers: after recording a frame and compacting through any sequence, a
  probe at or below that sequence is new again, a probe with the recorded message and sequence is a
  duplicate exactly when its digest is the recorded one and a conflict otherwise, every other probe
  is judged as before; and recorded commands are never forgotten by compaction.
\<close>

theorem dedup_memory:
  assumes "dedup_wf r"
  shows "check_frame (snd (compact_frames_through (record_frame r i) s)) j =
     (if fi_sequence j \<le> s then DedupNew
      else if fi_message_id i = fi_message_id j \<and> fi_sequence i = fi_sequence j
      then (if fi_payload_digest i = fi_payload_digest j then DedupDuplicate else DedupConflict)
      else check_frame r j)
   \<and> check_command (snd (compact_frames_through (record_command r c) s)) d =
     (if ci_idempotency_key c = ci_idempotency_key d
      then (if ci_payload_digest c = ci_payload_digest d then DedupDuplicate else DedupConflict)
      else check_command r d)"
  by (simp add: check_frame_after_record_compact [OF assms] check_command_record frame_key_of_def)

end
