(* ===== verification/Exchange_Inbound.thy ===== *)
theory Exchange_Inbound
  imports Exchange_Sequence Exchange_Dedup
begin

text \<open>
  \<^verbatim>\<open>crates/winwincode-client-port/src/exchange/inbound.rs\<close>: the receiver of a frame stream. It
  follows one client instance, advances a cumulative acknowledgement one frame at a time, and
  recognises replays of frames and of commands.
\<close>

section \<open>Decisions\<close>

datatype command_outcome = Fresh | IdempotentReplay

datatype ingest_decision =
    Accepted u64 command_outcome
  | IngestDuplicate u64
  | RejectedConflict u64
  | RejectedMalformed u64
  | IngestGap u64 u64
  | ReacquireRequired u64

fun decision_ack_sequence :: "ingest_decision \<Rightarrow> u64" where
  "decision_ack_sequence (Accepted a _) = a"
| "decision_ack_sequence (IngestDuplicate a) = a"
| "decision_ack_sequence (RejectedConflict a) = a"
| "decision_ack_sequence (RejectedMalformed a) = a"
| "decision_ack_sequence (IngestGap a _) = a"
| "decision_ack_sequence (ReacquireRequired a) = a"

fun replay_from_sequence :: "ingest_decision \<Rightarrow> u64 option" where
  "replay_from_sequence (IngestGap _ r) = Some r"
| "replay_from_sequence _ = None"

fun accepted :: "ingest_decision \<Rightarrow> bool" where
  "accepted (Accepted _ _) = True"
| "accepted _ = False"

section \<open>Instances\<close>

record instance_tracker =
  it_current :: "string option"

datatype instance_verdict = FirstInstance | Resumed | Replaced string

definition InstanceTracker_new :: instance_tracker where
  "InstanceTracker_new = \<lparr>it_current = None\<rparr>"

definition with_initial :: "string \<Rightarrow> instance_tracker" where
  "with_initial i = \<lparr>it_current = Some i\<rparr>"

definition instance_observe :: "instance_tracker \<Rightarrow> string \<Rightarrow> instance_verdict \<times> instance_tracker" where
  "instance_observe t client_instance_id =
     (case it_current t of
        None \<Rightarrow> (FirstInstance, t\<lparr>it_current := Some client_instance_id\<rparr>)
      | Some current \<Rightarrow>
          (if current = client_instance_id then (Resumed, t\<lparr>it_current := Some current\<rparr>)
           else (Replaced current, t\<lparr>it_current := Some client_instance_id\<rparr>)))"

section \<open>The stream\<close>

record inbound_stream =
  ist_instances :: instance_tracker
  ist_ack :: ack_cursor
  ist_dedup :: dedup_register
  ist_instance_guard :: bool

definition InboundStream_new :: inbound_stream where
  "InboundStream_new =
     \<lparr>ist_instances = InstanceTracker_new, ist_ack = AckCursor_new,
      ist_dedup = DedupRegister_new, ist_instance_guard = True\<rparr>"

definition with_instance :: "string \<Rightarrow> inbound_stream" where
  "with_instance i = InboundStream_new\<lparr>ist_instances := with_initial i\<rparr>"

definition without_instance_guard :: "inbound_stream \<Rightarrow> inbound_stream" where
  "without_instance_guard st = st\<lparr>ist_instance_guard := False\<rparr>"

definition observe_instance :: "inbound_stream \<Rightarrow> string \<Rightarrow> instance_verdict \<times> inbound_stream" where
  "observe_instance st i =
     (fst (instance_observe (ist_instances st) i),
      st\<lparr>ist_instances := snd (instance_observe (ist_instances st) i)\<rparr>)"

definition current_instance :: "inbound_stream \<Rightarrow> string option" where
  "current_instance st = it_current (ist_instances st)"

definition stream_ack_sequence :: "inbound_stream \<Rightarrow> u64" where
  "stream_ack_sequence st = ac_ack_sequence (ist_ack st)"

definition stream_next_expected :: "inbound_stream \<Rightarrow> u64 option" where
  "stream_next_expected st = next_expected (ist_ack st)"

definition compact_dedup_through :: "inbound_stream \<Rightarrow> u64 \<Rightarrow> nat \<times> inbound_stream" where
  "compact_dedup_through st s =
     (fst (compact_frames_through (ist_dedup st) s),
      st\<lparr>ist_dedup := snd (compact_frames_through (ist_dedup st) s)\<rparr>)"

text \<open>The frame is judged against the cursor, after the instance guard let it through.\<close>

definition ingest_accept ::
    "inbound_stream \<Rightarrow> frame_identity \<Rightarrow> command_identity option \<Rightarrow> command_outcome \<Rightarrow>
     ingest_decision \<times> inbound_stream" where
  "ingest_accept st identity command outcome =
     (if check_frame (ist_dedup st) identity = DedupConflict
      then (RejectedConflict (ac_ack_sequence (ist_ack st)), st)
      else
        let d1 = record_frame (ist_dedup st) identity;
            d2 = (case command of None \<Rightarrow> d1 | Some c \<Rightarrow> record_command d1 c);
            ack' = (case advance (ist_ack st) (fi_sequence identity) of
                      Inl _ \<Rightarrow> ist_ack st
                    | Inr c \<Rightarrow> c)
        in (Accepted (ac_ack_sequence ack') outcome, st\<lparr>ist_dedup := d2, ist_ack := ack'\<rparr>))"

definition ingest_sequenced ::
    "inbound_stream \<Rightarrow> frame_identity \<Rightarrow> command_identity option \<Rightarrow>
     ingest_decision \<times> inbound_stream" where
  "ingest_sequenced st identity command =
     (let ack = ac_ack_sequence (ist_ack st)
      in case seq_observe (ist_ack st) (fi_sequence identity) of
           SeqZero \<Rightarrow> (RejectedMalformed ack, st)
         | SeqGap replay_from \<Rightarrow> (IngestGap ack replay_from, st)
         | SeqDuplicate \<Rightarrow>
             (case check_frame (ist_dedup st) identity of
                DedupConflict \<Rightarrow> (RejectedConflict ack, st)
              | _ \<Rightarrow> (IngestDuplicate ack, st))
         | SeqAccept \<Rightarrow>
             (case command of
                None \<Rightarrow> ingest_accept st identity command Fresh
              | Some c \<Rightarrow>
                  (case check_command (ist_dedup st) c of
                     DedupConflict \<Rightarrow> (RejectedConflict ack, st)
                   | DedupDuplicate \<Rightarrow> ingest_accept st identity command IdempotentReplay
                   | DedupNew \<Rightarrow> ingest_accept st identity command Fresh)))"

definition ingest ::
    "inbound_stream \<Rightarrow> string \<Rightarrow> frame_identity \<Rightarrow> command_identity option \<Rightarrow>
     ingest_decision \<times> inbound_stream" where
  "ingest st client_instance_id identity command =
     (let ack = ac_ack_sequence (ist_ack st)
      in if fi_sequence identity = 0 \<or> fi_message_id identity = [] \<or> fi_payload_digest identity = []
         then (RejectedMalformed ack, st)
         else if ist_instance_guard st
         then (case it_current (ist_instances st) of
                 None \<Rightarrow>
                   ingest_sequenced
                     (st\<lparr>ist_instances := snd (instance_observe (ist_instances st) client_instance_id)\<rparr>)
                     identity command
               | Some current \<Rightarrow>
                   (if current \<noteq> client_instance_id then (ReacquireRequired ack, st)
                    else ingest_sequenced st identity command))
         else ingest_sequenced st identity command)"

section \<open>Invariant\<close>

text \<open>
  The register remembers frames at or below the cursor only. It is what makes the frame check of the
  accepting branch pass always.
\<close>

definition inbound_inv :: "inbound_stream \<Rightarrow> bool" where
  "inbound_inv st \<longleftrightarrow> dedup_wf (ist_dedup st) \<and>
     (\<forall>k \<in> fst ` set (dr_frames (ist_dedup st)). fk_sequence k \<le> ac_ack_sequence (ist_ack st))"

lemma inbound_inv_new: "inbound_inv InboundStream_new"
  by (simp add: inbound_inv_def InboundStream_new_def DedupRegister_new_def dedup_wf_def)

lemma inbound_inv_with_instance: "inbound_inv (with_instance i)"
  by (simp add: inbound_inv_def with_instance_def InboundStream_new_def DedupRegister_new_def
      dedup_wf_def)

lemma inbound_inv_instances [simp]: "inbound_inv (st\<lparr>ist_instances := t\<rparr>) \<longleftrightarrow> inbound_inv st"
  by (simp add: inbound_inv_def)

lemma inbound_inv_compact: "inbound_inv st \<Longrightarrow> inbound_inv (snd (compact_dedup_through st s))"
  by (auto simp: inbound_inv_def compact_dedup_through_def dedup_wf_compact
      compact_frames_through_def Let_def distinct_fst_filter dedup_wf_def)

lemma check_frame_above_ack:
  assumes "inbound_inv st" and "ac_ack_sequence (ist_ack st) < fi_sequence i"
  shows "check_frame (ist_dedup st) i = DedupNew"
proof -
  have "frame_key_of i \<notin> fst ` set (dr_frames (ist_dedup st))"
    using assms by (force simp: inbound_inv_def frame_key_of_def)
  then have "map_of (dr_frames (ist_dedup st)) (frame_key_of i) = None"
    by (simp add: map_of_eq_None_iff)
  then show ?thesis by (simp add: check_frame_def)
qed

lemma accept_above_ack:
  "seq_observe c s = SeqAccept \<Longrightarrow> ac_ack_sequence c < s \<and> s = ac_ack_sequence c + 1 \<and> s \<noteq> 0"
  by (auto simp: seq_observe_Accept_iff word_less_nat_alt unat_eq_Suc_iff [THEN iffD1, THEN conjunct2])

text \<open>The accepting branch under the invariant: no conflict, no failed advance.\<close>

definition accept_state ::
    "inbound_stream \<Rightarrow> frame_identity \<Rightarrow> command_identity option \<Rightarrow> inbound_stream" where
  "accept_state st i command =
     st\<lparr>ist_dedup := (case command of None \<Rightarrow> record_frame (ist_dedup st) i
                      | Some c \<Rightarrow> record_command (record_frame (ist_dedup st) i) c),
        ist_ack := (ist_ack st)\<lparr>ac_ack_sequence := fi_sequence i\<rparr>\<rparr>"

lemma ingest_accept_inv:
  assumes "inbound_inv st" and "seq_observe (ist_ack st) (fi_sequence i) = SeqAccept"
  shows "ingest_accept st i command out = (Accepted (fi_sequence i) out, accept_state st i command)"
proof -
  have "check_frame (ist_dedup st) i = DedupNew"
    using assms accept_above_ack check_frame_above_ack by blast
  moreover have "advance (ist_ack st) (fi_sequence i) =
      Inr ((ist_ack st)\<lparr>ac_ack_sequence := fi_sequence i\<rparr>)"
    using assms(2) by (simp add: advance_Inr_iff seq_observe_Accept_iff)
  ultimately show ?thesis
    by (simp add: ingest_accept_def accept_state_def Let_def)
qed

lemma dr_frames_record_command [simp]: "dr_frames (record_command r c) = dr_frames r"
  by (simp add: record_command_def)

lemma inbound_inv_accept_state:
  assumes "inbound_inv st" and "ac_ack_sequence (ist_ack st) < fi_sequence i"
  shows "inbound_inv (accept_state st i command)"
proof -
  have "fk_sequence k \<le> fi_sequence i"
    if "k \<in> fst ` set (dr_frames (record_frame (ist_dedup st) i))" for k
  proof -
    from that have "k = frame_key_of i \<or> k \<in> fst ` set (dr_frames (ist_dedup st))"
      by (simp add: record_frame_def dom_update)
    then show ?thesis
      using assms by (auto simp: frame_key_of_def inbound_inv_def)
  qed
  with assms show ?thesis
    by (auto simp: inbound_inv_def accept_state_def dedup_wf_record_frame dedup_wf_record_command
        split: option.splits)
qed

text \<open>What one call can do: accept the next frame, or leave cursor and register alone.\<close>

definition instances_after :: "inbound_stream \<Rightarrow> string \<Rightarrow> inbound_stream" where
  "instances_after st inst =
     (if ist_instance_guard st \<and> it_current (ist_instances st) = None
      then st\<lparr>ist_instances := (ist_instances st)\<lparr>it_current := Some inst\<rparr>\<rparr> else st)"

lemma instances_after_simps [simp]:
  "ist_ack (instances_after st inst) = ist_ack st"
  "ist_dedup (instances_after st inst) = ist_dedup st"
  "ist_instance_guard (instances_after st inst) = ist_instance_guard st"
  "inbound_inv (instances_after st inst) \<longleftrightarrow> inbound_inv st"
  by (simp_all add: instances_after_def)

definition frame_well_formed :: "frame_identity \<Rightarrow> bool" where
  "frame_well_formed i \<longleftrightarrow> fi_sequence i \<noteq> 0 \<and> fi_message_id i \<noteq> [] \<and> fi_payload_digest i \<noteq> []"

definition instance_admits :: "inbound_stream \<Rightarrow> string \<Rightarrow> bool" where
  "instance_admits st inst \<longleftrightarrow>
     (ist_instance_guard st \<longrightarrow> it_current (ist_instances st) \<in> {None, Some inst})"

lemma ingest_alt:
  "ingest st inst i command =
     (if \<not> frame_well_formed i then (RejectedMalformed (ac_ack_sequence (ist_ack st)), st)
      else if \<not> instance_admits st inst then (ReacquireRequired (ac_ack_sequence (ist_ack st)), st)
      else ingest_sequenced (instances_after st inst) i command)"
  by (auto simp: ingest_def Let_def frame_well_formed_def instance_admits_def instances_after_def
      instance_observe_def split: option.splits)

definition outcome_of :: "dedup_register \<Rightarrow> command_identity option \<Rightarrow> command_outcome" where
  "outcome_of r command =
     (case command of
        None \<Rightarrow> Fresh
      | Some c \<Rightarrow> (if check_command r c = DedupDuplicate then IdempotentReplay else Fresh))"

definition command_admitted :: "dedup_register \<Rightarrow> command_identity option \<Rightarrow> bool" where
  "command_admitted r command \<longleftrightarrow>
     (case command of None \<Rightarrow> True | Some c \<Rightarrow> check_command r c \<noteq> DedupConflict)"

lemma ingest_sequenced_inv_cases:
  assumes "inbound_inv st"
  obtains (accept) out where "ingest_sequenced st i command =
        (Accepted (fi_sequence i) out, accept_state st i command)"
      and "seq_observe (ist_ack st) (fi_sequence i) = SeqAccept"
      and "out = outcome_of (ist_dedup st) command" and "command_admitted (ist_dedup st) command"
  | (reject) d where "ingest_sequenced st i command = (d, st)" and "\<not> accepted d"
      and "decision_ack_sequence d = ac_ack_sequence (ist_ack st)"
proof (cases "seq_observe (ist_ack st) (fi_sequence i) = SeqAccept")
  case True
  note acc = ingest_accept_inv [OF assms True]
  show ?thesis
  proof (cases "command_admitted (ist_dedup st) command")
    case False
    with \<open>seq_observe _ _ = SeqAccept\<close> show ?thesis
      by (intro reject [of "RejectedConflict (ac_ack_sequence (ist_ack st))"])
        (auto simp: ingest_sequenced_def Let_def command_admitted_def split: option.splits)
  next
    case True
    with \<open>seq_observe _ _ = SeqAccept\<close> show ?thesis
      by (intro accept) (auto simp: ingest_sequenced_def Let_def acc command_admitted_def
          outcome_of_def split: option.splits dedup_verdict.splits)
  qed
next
  case False
  then show ?thesis
    by (intro reject [of "fst (ingest_sequenced st i command)"])
      (auto simp: ingest_sequenced_def Let_def split: sequence_verdict.splits dedup_verdict.splits)
qed

section \<open>Runs\<close>

text \<open>The calls a stream receives, in any order, and what each returns.\<close>

datatype inbound_op =
    Ingest string frame_identity "command_identity option"
  | CompactDedup u64
  | ObserveInstance string

datatype inbound_event =
    Decided ingest_decision
  | Compacted nat
  | Observed instance_verdict

fun inbound_react :: "inbound_stream \<Rightarrow> inbound_op \<Rightarrow> inbound_event \<times> inbound_stream" where
  "inbound_react st (Ingest inst i command) =
     (Decided (fst (ingest st inst i command)), snd (ingest st inst i command))"
| "inbound_react st (CompactDedup s) =
     (Compacted (fst (compact_dedup_through st s)), snd (compact_dedup_through st s))"
| "inbound_react st (ObserveInstance inst) =
     (Observed (fst (observe_instance st inst)), snd (observe_instance st inst))"

fun accepted_sequence :: "inbound_op \<Rightarrow> inbound_event \<Rightarrow> nat list" where
  "accepted_sequence (Ingest _ i _) (Decided d) = (if accepted d then [unat (fi_sequence i)] else [])"
| "accepted_sequence _ _ = []"

definition inbound_pos :: "inbound_stream \<Rightarrow> nat" where
  "inbound_pos st = Suc (unat (stream_ack_sequence st))"

lemma ist_ack_compact [simp]: "ist_ack (snd (compact_dedup_through st s)) = ist_ack st"
  by (simp add: compact_dedup_through_def)

lemma ist_ack_observe [simp]: "ist_ack (snd (observe_instance st i)) = ist_ack st"
  by (simp add: observe_instance_def)

lemma ist_dedup_observe [simp]: "ist_dedup (snd (observe_instance st i)) = ist_dedup st"
  by (simp add: observe_instance_def)

lemma inbound_inv_observe: "inbound_inv (snd (observe_instance st i)) \<longleftrightarrow> inbound_inv st"
  by (simp add: observe_instance_def)

lemma ingest_inv_cases:
  assumes "inbound_inv st"
  obtains (accept) out where
      "ingest st inst i command =
         (Accepted (fi_sequence i) out, accept_state (instances_after st inst) i command)"
      and "seq_observe (ist_ack st) (fi_sequence i) = SeqAccept"
      and "out = outcome_of (ist_dedup st) command" and "command_admitted (ist_dedup st) command"
      and "frame_well_formed i" and "instance_admits st inst"
  | (reject) d st' where "ingest st inst i command = (d, st')" and "\<not> accepted d"
      and "decision_ack_sequence d = ac_ack_sequence (ist_ack st)"
      and "st' \<in> {st, instances_after st inst}"
proof (cases "frame_well_formed i \<and> instance_admits st inst")
  case True
  then have eq: "ingest st inst i command = ingest_sequenced (instances_after st inst) i command"
    by (simp add: ingest_alt)
  have "inbound_inv (instances_after st inst)" using assms by simp
  then show ?thesis
    using True by (cases rule: ingest_sequenced_inv_cases [where i = i and command = command])
      (auto simp: eq intro: accept reject)
next
  case False
  then show ?thesis
    by (intro reject [of "fst (ingest st inst i command)" st]) (auto simp: ingest_alt)
qed

lemma inbound_inv_ingest: "inbound_inv st \<Longrightarrow> inbound_inv (snd (ingest st inst i command))"
  by (rule ingest_inv_cases [of st inst i command])
    (auto intro!: inbound_inv_accept_state dest: accept_above_ack)

lemma unat_accepted:
  "seq_observe c s = SeqAccept \<Longrightarrow> unat s = Suc (unat (ac_ack_sequence c))"
  by (simp add: seq_observe_Accept_iff)

interpretation inbound: counting_machine inbound_react inbound_inv inbound_pos accepted_sequence
proof unfold_locales
  fix st op assume inv: "inbound_inv st"
  show "inbound_inv (snd (inbound_react st op))"
    using inv by (cases op) (simp_all add: inbound_inv_ingest inbound_inv_compact inbound_inv_observe)
  show "inbound_pos st \<le> inbound_pos (snd (inbound_react st op))"
  proof (cases op)
    case (Ingest inst i command)
    with inv show ?thesis
      by (elim ingest_inv_cases [where inst = inst and i = i and command = command])
        (auto simp: inbound_pos_def stream_ack_sequence_def accept_state_def unat_accepted)
  qed (simp_all add: inbound_pos_def stream_ack_sequence_def)
  show "accepted_sequence op (fst (inbound_react st op)) =
      [inbound_pos st ..< inbound_pos (snd (inbound_react st op))]"
  proof (cases op)
    case (Ingest inst i command)
    with inv show ?thesis
      by (elim ingest_inv_cases [where inst = inst and i = i and command = command])
        (auto simp: inbound_pos_def stream_ack_sequence_def accept_state_def unat_accepted)
  qed (simp_all add: inbound_pos_def stream_ack_sequence_def)
qed

section \<open>Properties\<close>

text \<open>
  In-order, exactly-once acceptance. Whatever frames arrive (replayed, reordered, forged, from
  other instances), with compactions and instance changes in between, the sequences of the accepted
  frames along the run are exactly the consecutive ones from the first after the initial
  acknowledgement to the final acknowledgement.
\<close>

theorem inbound_accepts_in_order:
  assumes "inbound_inv st"
  shows "concat (map2 accepted_sequence ops (fst (run_reactive inbound_react st ops))) =
      [Suc (unat (stream_ack_sequence st)) ..<
       Suc (unat (stream_ack_sequence (snd (run_reactive inbound_react st ops))))]"
  using inbound.run_emit [OF assms] by (simp add: inbound_pos_def)

section \<open>Commands\<close>

text \<open>The commands of the accepted frames along a run, with the outcome reported for each.\<close>

fun accepted_command :: "inbound_op \<Rightarrow> inbound_event \<Rightarrow> (command_identity \<times> command_outcome) list" where
  "accepted_command (Ingest _ _ (Some c)) (Decided (Accepted _ out)) = [(c, out)]"
| "accepted_command _ _ = []"

fun commands_ok :: "dedup_register \<Rightarrow> (command_identity \<times> command_outcome) list \<Rightarrow> bool" where
  "commands_ok r [] = True"
| "commands_ok r ((c, out) # cs) =
     (check_command r c \<noteq> DedupConflict \<and> out = outcome_of r (Some c) \<and>
      commands_ok (record_command r c) cs)"

lemma commands_ok_cong:
  "(\<And>d. check_command r d = check_command r' d) \<Longrightarrow> commands_ok r cs \<longleftrightarrow> commands_ok r' cs"
proof (induction cs arbitrary: r r')
  case (Cons co cs)
  obtain c out where "co = (c, out)" by (cases co)
  moreover have "commands_ok (record_command r c) cs \<longleftrightarrow> commands_ok (record_command r' c) cs"
    by (rule Cons.IH) (simp add: check_command_record Cons.prems)
  ultimately show ?case by (simp add: Cons.prems outcome_of_def)
qed simp

lemma commands_ok_recorded:
  "\<lbrakk>commands_ok r cs; check_command r d = DedupDuplicate; (c, out) \<in> set cs;
    ci_idempotency_key d = ci_idempotency_key c\<rbrakk> \<Longrightarrow>
   ci_payload_digest d = ci_payload_digest c \<and> out = IdempotentReplay"
proof (induction cs arbitrary: r)
  case (Cons co cs)
  obtain c' out' where co: "co = (c', out')" by (cases co)
  have same: "ci_payload_digest c' = ci_payload_digest d \<and> out' = IdempotentReplay"
    if "ci_idempotency_key d = ci_idempotency_key c'"
    using Cons.prems(1,2) that
    by (auto simp: co check_command_def outcome_of_def split: option.splits if_splits)
  show ?case
  proof (cases "(c, out) = co")
    case True
    with same Cons.prems(4) co show ?thesis by simp
  next
    case False
    with Cons.prems(3) have "(c, out) \<in> set cs" by simp
    moreover have "check_command (record_command r c') d = DedupDuplicate"
      using Cons.prems(2) same by (simp add: check_command_record)
    ultimately show ?thesis
      using Cons.IH [of "record_command r c'"] Cons.prems(1,4) by (simp add: co)
  qed
qed simp

lemma commands_ok_sorted:
  "commands_ok r cs \<Longrightarrow>
     sorted_wrt (\<lambda>(c, _) (c', out'). ci_idempotency_key c = ci_idempotency_key c' \<longrightarrow>
       ci_payload_digest c = ci_payload_digest c' \<and> out' = IdempotentReplay) cs"
proof (induction cs arbitrary: r)
  case (Cons co cs)
  obtain c out where co: "co = (c, out)" by (cases co)
  with Cons.prems have ok: "commands_ok (record_command r c) cs" by simp
  have "check_command (record_command r c) c = DedupDuplicate" by (simp add: check_command_record)
  then have "\<forall>(c', out') \<in> set cs. ci_idempotency_key c = ci_idempotency_key c' \<longrightarrow>
      ci_payload_digest c = ci_payload_digest c' \<and> out' = IdempotentReplay"
    using commands_ok_recorded [OF ok] by blast
  with Cons.IH [OF ok] show ?case by (simp add: co split_def)
qed simp

lemma run_commands_ok:
  "inbound_inv st \<Longrightarrow>
     commands_ok (ist_dedup st)
       (concat (map2 accepted_command ops (fst (run_reactive inbound_react st ops))))"
proof (induction ops arbitrary: st)
  case (Cons op ops)
  let ?st' = "snd (inbound_react st op)"
  let ?rest = "concat (map2 accepted_command ops (fst (run_reactive inbound_react ?st' ops)))"
  have rest: "commands_ok (ist_dedup ?st') ?rest"
    by (intro Cons.IH inbound.react_inv Cons.prems)
  show ?case
  proof (cases op)
    case (Ingest inst i command)
    from Cons.prems show ?thesis
    proof (cases rule: ingest_inv_cases [where inst = inst and i = i and command = command])
      case (accept out)
      with rest Ingest show ?thesis
        by (cases command)
          (auto simp: accept_state_def command_admitted_def check_command_record
            elim!: commands_ok_cong [THEN iffD1, rotated])
    next
      case (reject d st')
      then have "accepted_command op (Decided d) = []"
        by (cases d; cases command) (simp_all add: Ingest)
      with rest reject Ingest show ?thesis by auto
    qed
  next
    case (CompactDedup s)
    with rest show ?thesis
      by (auto simp: compact_dedup_through_def elim!: commands_ok_cong [THEN iffD1, rotated])
  next
    case (ObserveInstance inst)
    with rest show ?thesis by simp
  qed
qed simp

text \<open>
  Commands run at most once. Along any run, a command accepted after another with the same
  idempotency key carries the same payload digest and is reported as an idempotent replay: for every
  key at most one accepted frame is reported as fresh, the first one.
\<close>

theorem inbound_commands_once:
  assumes "inbound_inv st"
  shows "sorted_wrt (\<lambda>(c, _) (c', out'). ci_idempotency_key c = ci_idempotency_key c' \<longrightarrow>
      ci_payload_digest c = ci_payload_digest c' \<and> out' = IdempotentReplay)
    (concat (map2 accepted_command ops (fst (run_reactive inbound_react st ops))))"
  by (rule commands_ok_sorted [OF run_commands_ok [OF assms]])

section \<open>Replays and superseded instances\<close>

lemma ingest_replayed:
  assumes "inbound_inv st" and "accepted (fst (ingest st inst i command))"
    and "st' = snd (ingest st inst i command)"
    and "fi_message_id j = fi_message_id i" and "fi_sequence j = fi_sequence i"
    and "fi_payload_digest j \<noteq> []"
  shows "ingest st' inst j command' =
     (if fi_payload_digest j = fi_payload_digest i then IngestDuplicate (fi_sequence i)
      else RejectedConflict (fi_sequence i), st')"
  using assms(1)
proof (cases rule: ingest_inv_cases [where inst = inst and i = i and command = command])
  case (accept out)
  with assms have st': "st' = accept_state (instances_after st inst) i command" by simp
  have wf: "frame_well_formed j" using accept(5) assms by (simp add: frame_well_formed_def)
  have admits: "instance_admits st' inst" and after: "instances_after st' inst = st'"
    using accept(6)
    by (auto simp: st' accept_state_def instance_admits_def instances_after_def split: if_splits)
  have "seq_observe (ist_ack st') (fi_sequence j) = SeqDuplicate"
    using accept(5) assms(5)
    by (simp add: st' accept_state_def seq_observe_unat frame_well_formed_def)
  moreover have "check_frame (ist_dedup st') j =
      (if fi_payload_digest j = fi_payload_digest i then DedupDuplicate else DedupConflict)"
    using assms(4,5)
    by (auto simp: st' accept_state_def check_frame_record frame_key_of_def split: option.splits)
  moreover have "ac_ack_sequence (ist_ack st') = fi_sequence i"
    by (simp add: st' accept_state_def)
  ultimately show ?thesis
    by (simp add: ingest_alt wf admits after ingest_sequenced_def Let_def)
next
  case (reject d st')
  with assms show ?thesis by simp
qed

text \<open>
  Replaying an accepted frame is harmless. Ingesting again the message and sequence just accepted
  never changes the stream: with the accepted digest it is reported as a duplicate, with any other
  digest as a conflict, and the acknowledgement stays at the accepted sequence.
\<close>

theorem ingest_replay_idempotent:
  assumes "inbound_inv st" and "accepted (fst (ingest st inst i command))"
    and "fi_message_id j = fi_message_id i" and "fi_sequence j = fi_sequence i"
    and "fi_payload_digest j \<noteq> []"
  shows "ingest (snd (ingest st inst i command)) inst j command' =
     (if fi_payload_digest j = fi_payload_digest i then IngestDuplicate (fi_sequence i)
      else RejectedConflict (fi_sequence i), snd (ingest st inst i command))"
  using ingest_replayed [OF assms(1,2) refl assms(3-5)] .

text \<open>
  A superseded instance is fenced off. Once another instance was observed on a guarded stream,
  no frame of the old one is accepted, whatever it carries, and the stream stays exactly as it was.
\<close>

theorem superseded_instance_fenced:
  assumes "ist_instance_guard st" and "inst \<noteq> new_inst"
  shows "accepted (fst (ingest (snd (observe_instance st new_inst)) inst i command)) = False
    \<and> snd (ingest (snd (observe_instance st new_inst)) inst i command) =
        snd (observe_instance st new_inst)"
proof -
  have "\<not> instance_admits (snd (observe_instance st new_inst)) inst"
    using assms
    by (auto simp: instance_admits_def observe_instance_def instance_observe_def split: option.splits)
  then show ?thesis by (simp add: ingest_alt)
qed

end
