(* ===== verification/Sql_Table.thy ===== *)
theory Sql_Table
  imports Prelude
begin

text \<open>
  What the sources use of SQLite and \<^verbatim>\<open>rusqlite\<close>: a table is the list of its rows in rowid order,
  statements are functions on that list, and a 64-bit signed column is an integer that the code
  converts from and to \<^verbatim>\<open>u64\<close> with a check.
\<close>

section \<open>Columns\<close>

text \<open>\<^verbatim>\<open>i64::try_from\<close> on the way in, \<^verbatim>\<open>u64::try_from\<close> and \<^verbatim>\<open>u32::try_from\<close> on the way out.\<close>

definition i64_of_u64 :: "u64 \<Rightarrow> int option" where
  "i64_of_u64 x = (if uint x < 2 ^ 63 then Some (uint x) else None)"

definition u64_of_i64 :: "int \<Rightarrow> u64 option" where
  "u64_of_i64 i = (if 0 \<le> i then Some (word_of_int i) else None)"

definition u32_of_i64 :: "int \<Rightarrow> u32 option" where
  "u32_of_i64 i = (if 0 \<le> i \<and> i < 2 ^ 32 then Some (word_of_int i) else None)"

lemma i64_roundtrip [result_simps]: "i64_of_u64 x = Some i \<Longrightarrow> u64_of_i64 i = Some x"
  by (auto simp: i64_of_u64_def u64_of_i64_def split: if_splits)

lemma i64_safe: "x \<le> max_safe_integer \<Longrightarrow> i64_of_u64 x = Some (uint x)"
  by (simp add: i64_of_u64_def max_safe_integer_def word_le_def)

lemma i64_of_u64_Some_iff [result_simps]: "i64_of_u64 x = Some i \<longleftrightarrow> i = uint x \<and> uint x < 2 ^ 63"
  by (auto simp: i64_of_u64_def)

lemma u64_of_i64_uint [simp]: "u64_of_i64 (uint x) = Some x"
  by (simp add: u64_of_i64_def)

lemma u64_of_i64_small:
  assumes "0 \<le> i" and "i < 2 ^ 63"
  obtains c where "u64_of_i64 i = Some c" and "i = uint c"
proof
  show "u64_of_i64 i = Some (word_of_int i)" using assms by (simp add: u64_of_i64_def)
  have "take_bit 64 i = i" using assms by (simp add: take_bit_int_eq_self_iff)
  then show "i = uint (word_of_int i :: u64)" using assms(1) by (simp add: unsigned_of_int)
qed

lemma u32_roundtrip [simp]: "u32_of_i64 (uint x) = Some x"
  using unsigned_less [of x] by (simp add: u32_of_i64_def)

section \<open>Statements\<close>

definition tbl_find :: "('r \<Rightarrow> 'k) \<Rightarrow> 'k \<Rightarrow> 'r list \<Rightarrow> 'r option" where
  "tbl_find key k rows = find (\<lambda>r. key r = k) rows"

definition tbl_update :: "('r \<Rightarrow> bool) \<Rightarrow> ('r \<Rightarrow> 'r) \<Rightarrow> 'r list \<Rightarrow> 'r list" where
  "tbl_update p f rows = map (\<lambda>r. if p r then f r else r) rows"

definition tbl_count :: "('r \<Rightarrow> bool) \<Rightarrow> 'r list \<Rightarrow> nat" where
  "tbl_count p rows = length (filter p rows)"

definition tbl_delete :: "('r \<Rightarrow> bool) \<Rightarrow> 'r list \<Rightarrow> 'r list" where
  "tbl_delete p rows = filter (\<lambda>r. \<not> p r) rows"

text \<open>\<^verbatim>\<open>INSERT ... ON CONFLICT (key) DO UPDATE SET\<close>: \<open>merge old new\<close> is the row the update leaves.\<close>

definition tbl_upsert_with :: "('r \<Rightarrow> 'k) \<Rightarrow> ('r \<Rightarrow> 'r \<Rightarrow> 'r) \<Rightarrow> 'r \<Rightarrow> 'r list \<Rightarrow> 'r list" where
  "tbl_upsert_with key merge r rows =
     (case tbl_find key (key r) rows of
        None \<Rightarrow> rows @ [r]
      | Some _ \<Rightarrow> tbl_update (\<lambda>x. key x = key r) (\<lambda>x. merge x r) rows)"

abbreviation tbl_upsert :: "('r \<Rightarrow> 'k) \<Rightarrow> 'r \<Rightarrow> 'r list \<Rightarrow> 'r list" where
  "tbl_upsert key \<equiv> tbl_upsert_with key (\<lambda>_ new. new)"

text \<open>\<^verbatim>\<open>SELECT MAX(column)\<close>: \<open>None\<close> on no row.\<close>

definition tbl_max :: "('r \<Rightarrow> int) \<Rightarrow> 'r list \<Rightarrow> int option" where
  "tbl_max f rows = (if rows = [] then None else Some (Max (set (map f rows))))"

text \<open>\<^verbatim>\<open>collect::<Result<Vec<_>, _>>()\<close>.\<close>

fun collect_results :: "('e + 'a) list \<Rightarrow> 'e + 'a list" where
  "collect_results [] = Inr []"
| "collect_results (r # rs) = rbind r (\<lambda>a. rbind (collect_results rs) (\<lambda>as. Inr (a # as)))"

lemma collect_results_Inr_iff [result_simps]: "collect_results rs = Inr as \<longleftrightarrow> rs = map Inr as"
  by (induction rs arbitrary: "as") (auto simp: result_simps)

section \<open>Laws\<close>

lemma tbl_find_simps [simp]:
  "tbl_find key k [] = None"
  "tbl_find key k (r # rows) = (if key r = k then Some r else tbl_find key k rows)"
  by (simp_all add: tbl_find_def)

lemma tbl_find_Some_key: "tbl_find key k rows = Some r \<Longrightarrow> key r = k \<and> r \<in> set rows"
  by (auto simp: tbl_find_def find_Some_iff)

lemma tbl_find_None_iff: "tbl_find key k rows = None \<longleftrightarrow> k \<notin> key ` set rows"
  by (auto simp: tbl_find_def find_None_iff)

lemma tbl_find_append:
  "tbl_find key k (xs @ ys) = (case tbl_find key k xs of None \<Rightarrow> tbl_find key k ys | Some r \<Rightarrow> Some r)"
  by (induction xs) auto

lemma tbl_find_unique:
  "distinct (map key rows) \<Longrightarrow> r \<in> set rows \<Longrightarrow> tbl_find key (key r) rows = Some r"
  by (induction rows) (auto simp: image_iff)

lemma tbl_find_update:
  assumes "\<And>r. p r \<Longrightarrow> key (f r) = key r"
  shows "tbl_find key k (tbl_update p f rows) =
    map_option (\<lambda>r. if p r then f r else r) (tbl_find key k rows)"
  using assms by (induction rows) (auto simp: tbl_update_def)

lemma tbl_find_delete_key:
  "tbl_find key k (tbl_delete (\<lambda>r. key r = k') rows) = (if k = k' then None else tbl_find key k rows)"
  by (induction rows) (auto simp: tbl_delete_def)

lemma tbl_find_upsert_with:
  assumes "\<And>x. key (merge x r) = key r"
  shows "tbl_find key k (tbl_upsert_with key merge r rows) =
    (if k = key r
     then Some (case tbl_find key k rows of None \<Rightarrow> r | Some old \<Rightarrow> merge old r)
     else tbl_find key k rows)"
proof (cases "tbl_find key (key r) rows")
  case None
  then show ?thesis by (auto simp: tbl_upsert_with_def tbl_find_append split: option.splits)
next
  case (Some old)
  have "tbl_find key k (tbl_update (\<lambda>x. key x = key r) (\<lambda>x. merge x r) rows) =
      map_option (\<lambda>x. if key x = key r then merge x r else x) (tbl_find key k rows)"
    by (rule tbl_find_update) (simp add: assms)
  moreover have "key x = k" if "tbl_find key k rows = Some x" for x
    using tbl_find_Some_key [OF that] by simp
  ultimately show ?thesis
    using Some by (cases "tbl_find key k rows") (auto simp: tbl_upsert_with_def)
qed

lemma tbl_find_upsert:
  "tbl_find key k (tbl_upsert key r rows) = (if k = key r then Some r else tbl_find key k rows)"
  by (simp add: tbl_find_upsert_with split: option.splits)

lemma keys_update:
  "(\<And>r. p r \<Longrightarrow> key (f r) = key r) \<Longrightarrow> map key (tbl_update p f rows) = map key rows"
  by (simp add: tbl_update_def)

lemma keys_upsert_with:
  assumes "\<And>x. key (merge x r) = key r"
  shows "map key (tbl_upsert_with key merge r rows) =
    (if key r \<in> key ` set rows then map key rows else map key rows @ [key r])"
proof (cases "tbl_find key (key r) rows")
  case None
  then have "key r \<notin> key ` set rows" by (simp add: tbl_find_None_iff)
  with None show ?thesis by (simp add: tbl_upsert_with_def)
next
  case (Some old)
  then have "key r \<in> key ` set rows" using tbl_find_None_iff [of key "key r" rows] by force
  moreover have "map key (tbl_update (\<lambda>x. key x = key r) (\<lambda>x. merge x r) rows) = map key rows"
    by (rule keys_update) (simp add: assms)
  ultimately show ?thesis using Some by (simp add: tbl_upsert_with_def)
qed

lemma distinct_upsert_with:
  "(\<And>x. key (merge x r) = key r) \<Longrightarrow> distinct (map key rows) \<Longrightarrow>
     distinct (map key (tbl_upsert_with key merge r rows))"
  by (simp only: keys_upsert_with) (auto simp: distinct_map)

lemma set_update: "x \<in> set (tbl_update p f rows) \<longleftrightarrow> (\<exists>r \<in> set rows. x = (if p r then f r else r))"
  by (auto simp: tbl_update_def)

section \<open>Ordering\<close>

lemma insort_key_snoc: "f y \<le> f x \<Longrightarrow> insort_key f y (ys @ [x]) = insort_key f y ys @ [x]"
  by (induction ys) auto

lemma sort_key_snoc:
  "(\<And>y. y \<in> set xs \<Longrightarrow> f y \<le> f x) \<Longrightarrow> sort_key f (xs @ [x]) = sort_key f xs @ [x]"
  by (induction xs) (simp_all add: insort_key_snoc)

lemma tbl_max_simps [simp]: "tbl_max f [] = None" "tbl_max f rows = None \<longleftrightarrow> rows = []"
  by (simp_all add: tbl_max_def)

lemma tbl_max_Some_iff:
  "tbl_max f rows = Some m \<longleftrightarrow> (\<exists>r \<in> set rows. f r = m) \<and> (\<forall>r \<in> set rows. f r \<le> m)"
proof (cases "rows = []")
  case False
  then have "m = Max (set (map f rows)) \<longleftrightarrow> m \<in> set (map f rows) \<and> (\<forall>x \<in> set (map f rows). x \<le> m)"
    by (intro eq_Max_iff) auto
  with False show ?thesis by (auto simp: tbl_max_def)
qed simp

end
