(* ===== verification/Device_Store.thy ===== *)
theory Device_Store
  imports Sql_Table Machines Exchange_Frame
begin

text \<open>
  \<^verbatim>\<open>crates/winwincode-device-client/src/store.rs\<close>: the device's durable store. This theory holds the
  error type, the records and their rows, the vocabularies of the text columns, the store itself,
  and the operations on profiles, path mappings, repository states, the inbox cursor, the connect
  code and the connection policy. SQLite is modelled as far as the statements of the source need
  it; failures of the database itself (disk, locks) are outside the model.
\<close>

section \<open>Errors\<close>

datatype device_store_error_kind = KInvalidInput | KConflict | KNotFound | KClosed | KAdapter

text \<open>The driver's own failures; their text is the driver's, so the cause is kept instead.\<close>

datatype sqlite_failure =
    FromSqlConversionFailure nat string
  | UniqueViolation string

datatype error_message =
    Text string
  | SqliteFailureText sqlite_failure
  | CodecErrorText string frame_codec_error

record device_store_error =
  dse_kind :: device_store_error_kind
  dse_message :: error_message

definition invalid :: "string \<Rightarrow> device_store_error" where
  "invalid message = \<lparr>dse_kind = KInvalidInput, dse_message = Text message\<rparr>"

definition conflict :: "string \<Rightarrow> device_store_error" where
  "conflict message = \<lparr>dse_kind = KConflict, dse_message = Text message\<rparr>"

definition not_found :: "string \<Rightarrow> device_store_error" where
  "not_found message = \<lparr>dse_kind = KNotFound, dse_message = Text message\<rparr>"

definition adapter :: "string \<Rightarrow> device_store_error" where
  "adapter message = \<lparr>dse_kind = KAdapter, dse_message = Text message\<rparr>"

definition closed :: device_store_error where
  "closed = \<lparr>dse_kind = KClosed, dse_message = Text ''device client store is closed''\<rparr>"

definition sql_error :: "sqlite_failure \<Rightarrow> device_store_error" where
  "sql_error f = \<lparr>dse_kind = KAdapter, dse_message = SqliteFailureText f\<rparr>"

definition MAX_ID_BYTES :: nat where "MAX_ID_BYTES = 200"

definition MAX_URL_BYTES :: nat where "MAX_URL_BYTES = 2048"

definition MAX_PATH_BYTES :: nat where "MAX_PATH_BYTES = 4096"

definition require_non_empty :: "string \<Rightarrow> string \<Rightarrow> nat \<Rightarrow> device_store_error + unit" where
  "require_non_empty s label max_bytes =
     (if s = [] then Inl (invalid (label @ '' must not be empty''))
      else if length s > max_bytes
      then Inl (invalid (label @ '' must contain at most '' @ decimal max_bytes @ '' bytes''))
      else Inr ())"

text \<open>\<^verbatim>\<open>if let Some(x) = ... { require_non_empty(x, ...)?; }\<close>\<close>

definition require_optional :: "string option \<Rightarrow> string \<Rightarrow> nat \<Rightarrow> device_store_error + unit" where
  "require_optional v label max_bytes =
     (case v of None \<Rightarrow> Inr () | Some s \<Rightarrow> require_non_empty s label max_bytes)"

section \<open>Vocabularies\<close>

datatype repository_dirty_state = Clean | DirtyState

datatype repository_availability =
    Available | DirtyAvailability | Unavailable | Moved | InvalidGit | PermissionDenied | ScanFailed

datatype connect_code_phase = Active | Consumed | Expired | Revoked

datatype client_lock_state = Unlocked | Locked

datatype release_mode = Immediate | DrainThenRelease | CancelTasksAndRelease

datatype worker_stop_reason =
    OccupantRequested | DrainingComplete | LeaseRecovered | GrantRevoked | Superseded

fun availability_wire_name :: "repository_availability \<Rightarrow> string" where
  "availability_wire_name Available = ''available''"
| "availability_wire_name DirtyAvailability = ''dirty''"
| "availability_wire_name Unavailable = ''unavailable''"
| "availability_wire_name Moved = ''moved''"
| "availability_wire_name InvalidGit = ''invalid_git''"
| "availability_wire_name PermissionDenied = ''permission_denied''"
| "availability_wire_name ScanFailed = ''scan_failed''"

definition parse_availability_wire_name :: "string \<Rightarrow> sqlite_failure + repository_availability" where
  "parse_availability_wire_name s =
     (if s = ''available'' then Inr Available
      else if s = ''dirty'' then Inr DirtyAvailability
      else if s = ''unavailable'' then Inr Unavailable
      else if s = ''moved'' then Inr Moved
      else if s = ''invalid_git'' then Inr InvalidGit
      else if s = ''permission_denied'' then Inr PermissionDenied
      else if s = ''scan_failed'' then Inr ScanFailed
      else Inl (FromSqlConversionFailure 2
        (''stored availability '' @ s @ '' is not in the plan 13.5 vocabulary'')))"

fun dirty_state_wire_name :: "repository_dirty_state \<Rightarrow> string" where
  "dirty_state_wire_name Clean = ''clean''"
| "dirty_state_wire_name DirtyState = ''dirty''"

definition parse_dirty_state_wire_name :: "string \<Rightarrow> sqlite_failure + repository_dirty_state" where
  "parse_dirty_state_wire_name s =
     (if s = ''clean'' then Inr Clean
      else if s = ''dirty'' then Inr DirtyState
      else Inl (FromSqlConversionFailure 1
        (''stored dirty state '' @ s @ '' is not clean or dirty'')))"

fun worker_stop_reason_wire_name :: "worker_stop_reason \<Rightarrow> string" where
  "worker_stop_reason_wire_name OccupantRequested = ''occupant_requested''"
| "worker_stop_reason_wire_name DrainingComplete = ''draining_complete''"
| "worker_stop_reason_wire_name LeaseRecovered = ''lease_recovered''"
| "worker_stop_reason_wire_name GrantRevoked = ''grant_revoked''"
| "worker_stop_reason_wire_name Superseded = ''superseded''"

definition parse_worker_stop_reason_wire_name :: "string \<Rightarrow> sqlite_failure + worker_stop_reason" where
  "parse_worker_stop_reason_wire_name s =
     (if s = ''occupant_requested'' then Inr OccupantRequested
      else if s = ''draining_complete'' then Inr DrainingComplete
      else if s = ''lease_recovered'' then Inr LeaseRecovered
      else if s = ''grant_revoked'' then Inr GrantRevoked
      else if s = ''superseded'' then Inr Superseded
      else Inl (FromSqlConversionFailure 4
        (''stored worker stop reason '' @ s @ '' is not in the vocabulary'')))"

fun connect_code_state_to_str :: "connect_code_phase \<Rightarrow> string" where
  "connect_code_state_to_str Active = ''active''"
| "connect_code_state_to_str Consumed = ''consumed''"
| "connect_code_state_to_str Expired = ''expired''"
| "connect_code_state_to_str Revoked = ''revoked''"

definition parse_connect_code_state :: "string \<Rightarrow> sqlite_failure + connect_code_phase" where
  "parse_connect_code_state s =
     (if s = ''active'' then Inr Active
      else if s = ''consumed'' then Inr Consumed
      else if s = ''expired'' then Inr Expired
      else if s = ''revoked'' then Inr Revoked
      else Inl (FromSqlConversionFailure 0
        (''stored connect code state '' @ s @ '' is not a lifecycle state'')))"

fun lock_state_to_str :: "client_lock_state \<Rightarrow> string" where
  "lock_state_to_str Unlocked = ''unlocked''"
| "lock_state_to_str Locked = ''locked''"

definition parse_lock_state :: "string \<Rightarrow> sqlite_failure + client_lock_state" where
  "parse_lock_state s =
     (if s = ''unlocked'' then Inr Unlocked
      else if s = ''locked'' then Inr Locked
      else Inl (FromSqlConversionFailure 0 (''stored lock state '' @ s @ '' is not a lock state'')))"

fun release_mode_to_str :: "release_mode \<Rightarrow> string" where
  "release_mode_to_str Immediate = ''immediate''"
| "release_mode_to_str DrainThenRelease = ''drain_then_release''"
| "release_mode_to_str CancelTasksAndRelease = ''cancel_tasks_and_release''"

definition parse_release_mode :: "string \<Rightarrow> sqlite_failure + release_mode" where
  "parse_release_mode s =
     (if s = ''immediate'' then Inr Immediate
      else if s = ''drain_then_release'' then Inr DrainThenRelease
      else if s = ''cancel_tasks_and_release'' then Inr CancelTasksAndRelease
      else Inl (FromSqlConversionFailure 0
        (''stored release mode '' @ s @ '' is not a release mode'')))"

lemma wire_names_roundtrip [simp]:
  "parse_availability_wire_name (availability_wire_name a) = Inr a"
  "parse_dirty_state_wire_name (dirty_state_wire_name d) = Inr d"
  "parse_worker_stop_reason_wire_name (worker_stop_reason_wire_name r) = Inr r"
  "parse_connect_code_state (connect_code_state_to_str c) = Inr c"
  "parse_lock_state (lock_state_to_str l) = Inr l"
  "parse_release_mode (release_mode_to_str m) = Inr m"
       apply (cases a; simp add: parse_availability_wire_name_def)
      apply (cases d; simp add: parse_dirty_state_wire_name_def)
     apply (cases r; simp add: parse_worker_stop_reason_wire_name_def)
    apply (cases c; simp add: parse_connect_code_state_def)
   apply (cases l; simp add: parse_lock_state_def)
  apply (cases m; simp add: parse_release_mode_def)
  done

section \<open>Records and rows\<close>

text \<open>A record whose columns are stored as they are is its own row.\<close>

record path_mapping_record =
  pm_repository_binding_id :: string
  pm_canonical_path :: string
  pm_git_common_directory :: "string option"
  pm_last_canonicalized_at :: "string option"
  pm_local_state :: string

record repository_local_state_record =
  rl_repository_binding_id :: string
  rl_dirty_state :: repository_dirty_state
  rl_availability :: repository_availability
  rl_head_commit :: "string option"
  rl_last_scanned_at :: "string option"
  rl_updated_at :: string

record repository_local_state_row =
  rlr_repository_binding_id :: string
  rlr_dirty_state :: string
  rlr_availability :: string
  rlr_head_commit :: "string option"
  rlr_last_scanned_at :: "string option"
  rlr_updated_at :: string

record server_profile_record =
  sp_server_profile_id :: string
  sp_base_url :: string
  sp_display_name :: string
  sp_created_at :: string
  sp_last_connected_at :: "string option"

record client_inbox_cursor =
  ic_server_profile_id :: string
  ic_last_sequence :: u64
  ic_last_message_id :: "string option"
  ic_updated_at :: string

record inbox_cursor_row =
  icr_server_profile_id :: string
  icr_last_sequence :: int
  icr_last_message_id :: "string option"
  icr_updated_at :: string

record connect_code_state_record =
  cc_connect_code_id :: string
  cc_code_digest :: string
  cc_generation :: u64
  cc_issued_by_instance_id :: string
  cc_expires_at :: string
  cc_state :: connect_code_phase
  cc_created_at :: string
  cc_updated_at :: string

record connect_code_row =
  ccr_connect_code_id :: string
  ccr_code_digest :: string
  ccr_generation :: int
  ccr_issued_by_instance_id :: string
  ccr_expires_at :: string
  ccr_state :: string
  ccr_created_at :: string
  ccr_updated_at :: string

record connection_policy_record =
  cp_accepting_connections :: bool
  cp_lock_state :: client_lock_state
  cp_updated_at :: string

record connection_policy_row =
  cpr_accepting_connections :: int
  cpr_lock_state :: string
  cpr_updated_at :: string

record occupancy_mirror_record =
  om_occupancy_lease_id :: string
  om_fencing_token :: u64
  om_holder_user_id :: "string option"
  om_mirror_revision :: u64
  om_claim_request_id :: "string option"
  om_idle_expires_at :: "string option"
  om_acknowledged_at :: string
  om_updated_at :: string

record occupancy_mirror_row =
  omr_occupancy_lease_id :: string
  omr_fencing_token :: int
  omr_holder_user_id :: "string option"
  omr_mirror_revision :: int
  omr_claim_request_id :: "string option"
  omr_idle_expires_at :: "string option"
  omr_acknowledged_at :: string
  omr_updated_at :: string

record release_intent_record =
  ri_idempotency_key :: string
  ri_command_message_id :: string
  ri_occupancy_lease_id :: string
  ri_fencing_token :: u64
  ri_mode :: release_mode
  ri_affected_worker_sessions :: u64
  ri_recorded_at :: string

record release_intent_row =
  rir_idempotency_key :: string
  rir_command_message_id :: string
  rir_occupancy_lease_id :: string
  rir_fencing_token :: int
  rir_mode :: string
  rir_affected_worker_sessions :: int
  rir_recorded_at :: string

record worker_stop_intent_record =
  ws_command_message_id :: string
  ws_idempotency_key :: string
  ws_worker_session_id :: string
  ws_worker_id :: string
  ws_reason :: worker_stop_reason
  ws_occupancy_lease_id :: string
  ws_fencing_token :: u64
  ws_expected_revision :: u64
  ws_receipt_payload :: "bytes option"
  ws_recorded_at :: string
  ws_completed_at :: "string option"

record worker_stop_intent_row =
  wsr_command_message_id :: string
  wsr_idempotency_key :: string
  wsr_worker_session_id :: string
  wsr_worker_id :: string
  wsr_reason :: string
  wsr_occupancy_lease_id :: string
  wsr_fencing_token :: int
  wsr_expected_revision :: int
  wsr_receipt_payload :: "bytes option"
  wsr_recorded_at :: string
  wsr_completed_at :: "string option"

record worker_process_record =
  wp_worker_session_id :: string
  wp_worker_id :: string
  wp_worker_instance_id :: string
  wp_pid :: u32
  wp_process_start_identity :: string
  wp_repository_binding_id :: string
  wp_occupancy_lease_id :: string
  wp_launch_grant_id :: string
  wp_data_directory :: string
  wp_state :: string
  wp_exit_code :: "int option"
  wp_last_observed_at :: string

record worker_process_row =
  wpr_worker_session_id :: string
  wpr_worker_id :: string
  wpr_worker_instance_id :: string
  wpr_pid :: int
  wpr_process_start_identity :: string
  wpr_repository_binding_id :: string
  wpr_occupancy_lease_id :: string
  wpr_launch_grant_id :: string
  wpr_data_directory :: string
  wpr_state :: string
  wpr_exit_code :: "int option"
  wpr_last_observed_at :: string

record outbox_row =
  obr_outbox_sequence :: int
  obr_message_id :: string
  obr_client_node_id :: string
  obr_client_instance_id :: string
  obr_envelope_sequence :: int
  obr_kind :: string
  obr_payload :: bytes
  obr_occurred_at :: string
  obr_published :: bool

record outbox_stream =
  os_client_node_id :: string
  os_client_instance_id :: string

record application_row =
  ap_application_id :: string
  ap_approval_id :: string
  ap_repository_binding_id :: string
  ap_candidate_ref :: string
  ap_candidate_digest :: string
  ap_target_branch :: string
  ap_base_commit :: string
  ap_strategy :: string
  ap_original_lease_id :: string
  ap_original_epoch :: int
  ap_started_at :: string
  ap_finished_receipt_json :: "string option"
  ap_recovery_outcome :: "string option"
  ap_reported_epoch :: "int option"

text \<open>The store: an open connection or not, the bound outbox stream, and the tables. The pending
  reports are pairs of a family and a worker session.\<close>

record device_store =
  ds_open :: bool
  ds_outbox_stream :: "outbox_stream option"
  ds_command_results :: "(string \<times> bytes) list"
  ds_server_profile :: "server_profile_record list"
  ds_path_mapping :: "path_mapping_record list"
  ds_repository_state :: "repository_local_state_row list"
  ds_inbox_cursor :: "inbox_cursor_row list"
  ds_client_outbox :: "outbox_row list"
  ds_outbox_autoincrement :: int
  ds_connect_code :: "connect_code_row option"
  ds_connection_policy :: "connection_policy_row option"
  ds_occupancy_mirror :: "occupancy_mirror_row option"
  ds_release_intents :: "release_intent_row list"
  ds_worker_process :: "worker_process_row list"
  ds_report_pending :: "(string \<times> string) list"
  ds_stop_intents :: "worker_stop_intent_row list"
  ds_applications :: "application_row list"

definition empty_store :: device_store where
  "empty_store =
     \<lparr>ds_open = True, ds_outbox_stream = None, ds_command_results = [], ds_server_profile = [],
      ds_path_mapping = [], ds_repository_state = [], ds_inbox_cursor = [], ds_client_outbox = [],
      ds_outbox_autoincrement = 0, ds_connect_code = None, ds_connection_policy = None,
      ds_occupancy_mirror = None, ds_release_intents = [], ds_worker_process = [],
      ds_report_pending = [], ds_stop_intents = [], ds_applications = []\<rparr>"

definition connection :: "device_store \<Rightarrow> device_store_error + unit" where
  "connection s = ensure (ds_open s) closed"

end
