(* ===== verification/Device_Tables.thy ===== *)
theory Device_Tables
  imports Device_Store
begin

text \<open>
  \<^verbatim>\<open>store.rs\<close>: server profiles, path mappings, repository states, the inbox cursor, the connect
  code and the connection policy. Each write is read back; the inbox cursor never moves back and
  the connect code generation strictly advances.
\<close>

section \<open>Operations\<close>

definition put_path_mapping :: "device_store \<Rightarrow> path_mapping_record \<Rightarrow> device_store_error + device_store" where
  "put_path_mapping s record =
     rbind (check_all
       [require_non_empty (pm_repository_binding_id record) ''repository binding id'' MAX_ID_BYTES,
        require_non_empty (pm_canonical_path record) ''canonical path'' MAX_PATH_BYTES,
        require_non_empty (pm_local_state record) ''local state'' MAX_ID_BYTES,
        require_optional (pm_git_common_directory record) ''git common directory'' MAX_PATH_BYTES]) (\<lambda>_.
     rbind (connection s) (\<lambda>_.
     Inr (s\<lparr>ds_path_mapping := tbl_upsert pm_repository_binding_id record (ds_path_mapping s)\<rparr>)))"

definition path_mapping :: "device_store \<Rightarrow> string \<Rightarrow> device_store_error + path_mapping_record option" where
  "path_mapping s repository_binding_id =
     rbind (connection s) (\<lambda>_.
     Inr (tbl_find pm_repository_binding_id repository_binding_id (ds_path_mapping s)))"

definition path_mappings :: "device_store \<Rightarrow> device_store_error + path_mapping_record list" where
  "path_mappings s =
     rbind (connection s) (\<lambda>_. Inr (sort_key pm_repository_binding_id (ds_path_mapping s)))"

definition delete_path_mapping :: "device_store \<Rightarrow> string \<Rightarrow> device_store_error + bool \<times> device_store" where
  "delete_path_mapping s repository_binding_id =
     rbind (connection s) (\<lambda>_.
     let p = (\<lambda>r. pm_repository_binding_id r = repository_binding_id)
     in Inr (tbl_count p (ds_path_mapping s) > 0,
             s\<lparr>ds_path_mapping := tbl_delete p (ds_path_mapping s)\<rparr>))"

definition repository_local_state_to_row :: "repository_local_state_record \<Rightarrow> repository_local_state_row" where
  "repository_local_state_to_row r =
     \<lparr>rlr_repository_binding_id = rl_repository_binding_id r,
      rlr_dirty_state = dirty_state_wire_name (rl_dirty_state r),
      rlr_availability = availability_wire_name (rl_availability r),
      rlr_head_commit = rl_head_commit r, rlr_last_scanned_at = rl_last_scanned_at r,
      rlr_updated_at = rl_updated_at r\<rparr>"

definition row_to_repository_local_state ::
    "repository_local_state_row \<Rightarrow> sqlite_failure + repository_local_state_record" where
  "row_to_repository_local_state r =
     rbind (parse_dirty_state_wire_name (rlr_dirty_state r)) (\<lambda>dirty.
     rbind (parse_availability_wire_name (rlr_availability r)) (\<lambda>availability.
     Inr \<lparr>rl_repository_binding_id = rlr_repository_binding_id r, rl_dirty_state = dirty,
          rl_availability = availability, rl_head_commit = rlr_head_commit r,
          rl_last_scanned_at = rlr_last_scanned_at r, rl_updated_at = rlr_updated_at r\<rparr>))"

definition put_repository_local_state ::
    "device_store \<Rightarrow> repository_local_state_record \<Rightarrow> device_store_error + device_store" where
  "put_repository_local_state s record =
     rbind (check_all
       [require_non_empty (rl_repository_binding_id record) ''repository binding id'' MAX_ID_BYTES,
        require_non_empty (rl_updated_at record) ''repository state updated at'' MAX_ID_BYTES]) (\<lambda>_.
     rbind (connection s) (\<lambda>_.
     Inr (s\<lparr>ds_repository_state := tbl_upsert rlr_repository_binding_id
       (repository_local_state_to_row record) (ds_repository_state s)\<rparr>)))"

text \<open>\<^verbatim>\<open>query_row(...).optional()\<close> with a row conversion.\<close>

definition read_optional ::
    "('r \<Rightarrow> sqlite_failure + 'a) \<Rightarrow> 'r option \<Rightarrow> device_store_error + 'a option" where
  "read_optional conv row =
     (case row of None \<Rightarrow> Inr None | Some r \<Rightarrow> rbind (map_err sql_error (conv r)) (\<lambda>x. Inr (Some x)))"

definition repository_local_state ::
    "device_store \<Rightarrow> string \<Rightarrow> device_store_error + repository_local_state_record option" where
  "repository_local_state s repository_binding_id =
     rbind (connection s) (\<lambda>_.
     read_optional row_to_repository_local_state
       (tbl_find rlr_repository_binding_id repository_binding_id (ds_repository_state s)))"

definition repository_local_states ::
    "device_store \<Rightarrow> device_store_error + repository_local_state_record list" where
  "repository_local_states s =
     rbind (connection s) (\<lambda>_.
     map_err sql_error (collect_results (map row_to_repository_local_state
       (sort_key rlr_repository_binding_id (ds_repository_state s)))))"

definition delete_repository_binding :: "device_store \<Rightarrow> string \<Rightarrow> device_store_error + bool \<times> device_store" where
  "delete_repository_binding s repository_binding_id =
     rbind (require_non_empty repository_binding_id ''repository binding id'' MAX_ID_BYTES) (\<lambda>_.
     rbind (connection s) (\<lambda>_.
     let p = (\<lambda>r. pm_repository_binding_id r = repository_binding_id);
         q = (\<lambda>r. rlr_repository_binding_id r = repository_binding_id)
     in Inr (tbl_count p (ds_path_mapping s) > 0,
             s\<lparr>ds_repository_state := tbl_delete q (ds_repository_state s),
               ds_path_mapping := tbl_delete p (ds_path_mapping s)\<rparr>)))"

text \<open>\<^verbatim>\<open>ClientInboxCursorUpdate\<close> has the fields of \<^verbatim>\<open>ClientInboxCursor\<close>.\<close>

type_synonym client_inbox_cursor_update = client_inbox_cursor

definition advance_inbox_cursor ::
    "device_store \<Rightarrow> client_inbox_cursor_update \<Rightarrow> device_store_error + device_store" where
  "advance_inbox_cursor s upd =
     rbind (check_all
       [require_non_empty (ic_server_profile_id upd) ''server profile id'' MAX_ID_BYTES,
        require_non_empty (ic_updated_at upd) ''updated at'' MAX_ID_BYTES,
        ensure (\<not> ic_last_sequence upd > max_safe_integer)
          (invalid ''inbox cursor last_sequence exceeds the SQLite integer range''),
        ensure (\<not> (ic_last_sequence upd = 0 \<and> ic_last_message_id upd \<noteq> None))
          (invalid ''inbox cursor position 0 must not name a message id'')]) (\<lambda>_.
     rbind (connection s) (\<lambda>_.
     let write =
       rbind (ok_or (i64_of_u64 (ic_last_sequence upd))
         (adapter ''inbox cursor sequence is outside the SQLite integer range'')) (\<lambda>n.
       Inr (s\<lparr>ds_inbox_cursor := tbl_upsert icr_server_profile_id
         \<lparr>icr_server_profile_id = ic_server_profile_id upd, icr_last_sequence = n,
          icr_last_message_id = ic_last_message_id upd, icr_updated_at = ic_updated_at upd\<rparr>
         (ds_inbox_cursor s)\<rparr>))
     in case tbl_find icr_server_profile_id (ic_server_profile_id upd) (ds_inbox_cursor s) of
          None \<Rightarrow> write
        | Some current \<Rightarrow>
            rbind (ok_or (u64_of_i64 (icr_last_sequence current))
              (adapter ''stored inbox cursor is negative'')) (\<lambda>current_sequence.
            if ic_last_sequence upd < current_sequence
               \<or> (ic_last_sequence upd = current_sequence
                  \<and> ic_last_message_id upd \<noteq> icr_last_message_id current)
            then Inl (conflict ''inbox cursor update must not move behind the durable position'')
            else if ic_last_sequence upd = current_sequence then Inr s
            else write)))"

definition row_to_inbox_cursor :: "inbox_cursor_row \<Rightarrow> sqlite_failure + client_inbox_cursor" where
  "row_to_inbox_cursor r =
     rbind (ok_or (u64_of_i64 (icr_last_sequence r))
       (FromSqlConversionFailure 0 ''stored inbox cursor is negative'')) (\<lambda>n.
     Inr \<lparr>ic_server_profile_id = icr_server_profile_id r, ic_last_sequence = n,
          ic_last_message_id = icr_last_message_id r, ic_updated_at = icr_updated_at r\<rparr>)"

definition inbox_cursor :: "device_store \<Rightarrow> string \<Rightarrow> device_store_error + client_inbox_cursor option" where
  "inbox_cursor s server_profile_id =
     rbind (connection s) (\<lambda>_.
     read_optional row_to_inbox_cursor
       (tbl_find icr_server_profile_id server_profile_id (ds_inbox_cursor s)))"

definition validate_connect_code_record :: "connect_code_state_record \<Rightarrow> device_store_error + unit" where
  "validate_connect_code_record record = check_all
     [require_non_empty (cc_connect_code_id record) ''connect code id'' MAX_ID_BYTES,
      require_non_empty (cc_code_digest record) ''connect code digest'' MAX_ID_BYTES,
      require_non_empty (cc_issued_by_instance_id record) ''issued by instance id'' MAX_ID_BYTES,
      require_non_empty (cc_expires_at record) ''connect code expires at'' MAX_ID_BYTES,
      require_non_empty (cc_created_at record) ''connect code created at'' MAX_ID_BYTES,
      require_non_empty (cc_updated_at record) ''connect code updated at'' MAX_ID_BYTES,
      ensure (cc_generation record \<noteq> 0) (invalid ''connect code generation must be positive'')]"

definition row_to_connect_code_state :: "connect_code_row \<Rightarrow> sqlite_failure + connect_code_state_record" where
  "row_to_connect_code_state r =
     rbind (ok_or (u64_of_i64 (ccr_generation r))
       (FromSqlConversionFailure 0 ''stored connect code generation is negative'')) (\<lambda>g.
     rbind (parse_connect_code_state (ccr_state r)) (\<lambda>st.
     Inr \<lparr>cc_connect_code_id = ccr_connect_code_id r, cc_code_digest = ccr_code_digest r,
          cc_generation = g, cc_issued_by_instance_id = ccr_issued_by_instance_id r,
          cc_expires_at = ccr_expires_at r, cc_state = st, cc_created_at = ccr_created_at r,
          cc_updated_at = ccr_updated_at r\<rparr>))"

definition connect_code_state :: "device_store \<Rightarrow> device_store_error + connect_code_state_record option" where
  "connect_code_state s =
     rbind (connection s) (\<lambda>_. read_optional row_to_connect_code_state (ds_connect_code s))"

definition replace_connect_code_state ::
    "device_store \<Rightarrow> connect_code_state_record \<Rightarrow> device_store_error + device_store" where
  "replace_connect_code_state s record =
     rbind (validate_connect_code_record record) (\<lambda>_.
     rbind (connection s) (\<lambda>_.
     if (case ds_connect_code s of
           None \<Rightarrow> False
         | Some row \<Rightarrow>
             (case u64_of_i64 (ccr_generation row) of
                None \<Rightarrow> False
              | Some stored \<Rightarrow> stored \<ge> cc_generation record))
     then Inl (conflict (''connect code generation '' @ decimal (unat (cc_generation record))
            @ '' does not advance past the stored generation''))
     else
       rbind (ok_or (i64_of_u64 (cc_generation record))
         (invalid ''connect code generation is out of range'')) (\<lambda>g.
       Inr (s\<lparr>ds_connect_code := Some
         \<lparr>ccr_connect_code_id = cc_connect_code_id record, ccr_code_digest = cc_code_digest record,
          ccr_generation = g, ccr_issued_by_instance_id = cc_issued_by_instance_id record,
          ccr_expires_at = cc_expires_at record,
          ccr_state = connect_code_state_to_str (cc_state record),
          ccr_created_at = cc_created_at record, ccr_updated_at = cc_updated_at record\<rparr>\<rparr>))))"

definition row_to_connection_policy :: "connection_policy_row \<Rightarrow> sqlite_failure + connection_policy_record" where
  "row_to_connection_policy r =
     rbind (parse_lock_state (cpr_lock_state r)) (\<lambda>l.
     Inr \<lparr>cp_accepting_connections = (cpr_accepting_connections r \<noteq> 0), cp_lock_state = l,
          cp_updated_at = cpr_updated_at r\<rparr>)"

definition connection_policy :: "device_store \<Rightarrow> device_store_error + connection_policy_record option" where
  "connection_policy s =
     rbind (connection s) (\<lambda>_. read_optional row_to_connection_policy (ds_connection_policy s))"

definition put_connection_policy ::
    "device_store \<Rightarrow> connection_policy_record \<Rightarrow> device_store_error + device_store" where
  "put_connection_policy s record =
     rbind (require_non_empty (cp_updated_at record) ''policy updated at'' MAX_ID_BYTES) (\<lambda>_.
     rbind (connection s) (\<lambda>_.
     Inr (s\<lparr>ds_connection_policy := Some
       \<lparr>cpr_accepting_connections = (if cp_accepting_connections record then 1 else 0),
        cpr_lock_state = lock_state_to_str (cp_lock_state record),
        cpr_updated_at = cp_updated_at record\<rparr>\<rparr>)))"

text \<open>The update of a profile keeps its creation time; \<^verbatim>\<open>base_url\<close> is a unique column.\<close>

definition upsert_server_profile ::
    "device_store \<Rightarrow> server_profile_record \<Rightarrow> device_store_error + device_store" where
  "upsert_server_profile s record =
     rbind (check_all
       [require_non_empty (sp_server_profile_id record) ''server profile id'' MAX_ID_BYTES,
        require_non_empty (sp_base_url record) ''server base url'' MAX_URL_BYTES,
        require_non_empty (sp_display_name record) ''server display name'' MAX_ID_BYTES,
        require_non_empty (sp_created_at record) ''server profile created at'' MAX_ID_BYTES,
        require_optional (sp_last_connected_at record) ''server last connected at'' MAX_ID_BYTES]) (\<lambda>_.
     rbind (connection s) (\<lambda>_.
     if list_ex (\<lambda>r. sp_base_url r = sp_base_url record
                     \<and> sp_server_profile_id r \<noteq> sp_server_profile_id record) (ds_server_profile s)
     then Inl (sql_error (UniqueViolation ''server_profile.base_url''))
     else Inr (s\<lparr>ds_server_profile := tbl_upsert_with sp_server_profile_id
       (\<lambda>old new. new\<lparr>sp_created_at := sp_created_at old\<rparr>) record (ds_server_profile s)\<rparr>)))"

definition server_profile :: "device_store \<Rightarrow> string \<Rightarrow> device_store_error + server_profile_record option" where
  "server_profile s server_profile_id =
     rbind (connection s) (\<lambda>_.
     Inr (tbl_find sp_server_profile_id server_profile_id (ds_server_profile s)))"

section \<open>Reading back\<close>

lemma uint_gt_0: "x \<noteq> 0 \<Longrightarrow> 0 < uint x" for x :: u64
  by (simp add: order.strict_iff_order uint_0_iff)

lemma connection_Inr_iff [result_simps]: "connection s = Inr u \<longleftrightarrow> ds_open s"
  by (auto simp: connection_def result_simps)

lemma repository_row_roundtrip [simp]:
  "row_to_repository_local_state (repository_local_state_to_row r) = Inr r"
  "rlr_repository_binding_id (repository_local_state_to_row r) = rl_repository_binding_id r"
  by (simp_all add: row_to_repository_local_state_def repository_local_state_to_row_def)

lemma read_optional_Some [simp]:
  "read_optional conv None = Inr None"
  "conv r = Inr x \<Longrightarrow> read_optional conv (Some r) = Inr (Some x)"
  by (simp_all add: read_optional_def)

text \<open>
  A repository state that is stored is read back exactly, whatever its vocabulary values, and
  the states of the other repositories read as before.
\<close>

theorem put_repository_local_state_read:
  assumes "put_repository_local_state s record = Inr s'"
  shows "repository_local_state s' (rl_repository_binding_id record) = Inr (Some record)
    \<and> (b \<noteq> rl_repository_binding_id record \<longrightarrow>
        repository_local_state s' b = repository_local_state s b)"
  using assms
  by (auto simp: put_repository_local_state_def repository_local_state_def connection_def
      result_simps tbl_find_upsert)

definition sample_state :: repository_local_state_record where
  "sample_state = \<lparr>rl_repository_binding_id = ''rb1'', rl_dirty_state = DirtyState,
     rl_availability = InvalidGit, rl_head_commit = None, rl_last_scanned_at = Some ''t0'',
     rl_updated_at = ''t1''\<rparr>"

lemmas require_defs = require_non_empty_def require_optional_def check_all.simps connection_def
  MAX_ID_BYTES_def MAX_PATH_BYTES_def MAX_URL_BYTES_def

text \<open>
  Deleting a repository binding removes its path mapping and its state together, and leaves
  every other binding readable as before.
\<close>

theorem delete_repository_binding_complete:
  assumes "delete_repository_binding s b = Inr (found, s')"
  shows "path_mapping s' b = Inr None \<and> repository_local_state s' b = Inr None
    \<and> (b' \<noteq> b \<longrightarrow> path_mapping s' b' = path_mapping s b'
        \<and> repository_local_state s' b' = repository_local_state s b')
    \<and> (found \<longleftrightarrow> path_mapping s b \<noteq> Inr None)"
proof -
  have "tbl_count (\<lambda>r. pm_repository_binding_id r = b) rows > 0 \<longleftrightarrow>
      tbl_find pm_repository_binding_id b rows \<noteq> None" for rows
    by (induction rows) (auto simp: tbl_count_def)
  with assms show ?thesis
    by (auto simp: delete_repository_binding_def path_mapping_def repository_local_state_def
        connection_def result_simps tbl_find_delete_key Let_def)
qed

section \<open>The inbox cursor and the connect code only advance\<close>

definition inbox_position :: "device_store \<Rightarrow> string \<Rightarrow> int" where
  "inbox_position s p =
     (case tbl_find icr_server_profile_id p (ds_inbox_cursor s) of
        None \<Rightarrow> - 1 | Some row \<Rightarrow> icr_last_sequence row)"

definition code_generation :: "device_store \<Rightarrow> int" where
  "code_generation s = (case ds_connect_code s of None \<Rightarrow> 0 | Some row \<Rightarrow> ccr_generation row)"

definition cursors_inv :: "device_store \<Rightarrow> bool" where
  "cursors_inv s \<longleftrightarrow> list_all (\<lambda>r. 0 \<le> icr_last_sequence r \<and> icr_last_sequence r < 2 ^ 63) (ds_inbox_cursor s)
     \<and> distinct (map icr_server_profile_id (ds_inbox_cursor s))
     \<and> (case ds_connect_code s of None \<Rightarrow> True | Some row \<Rightarrow> 0 < ccr_generation row \<and> ccr_generation row < 2 ^ 63)"

definition cursors_le :: "device_store \<Rightarrow> device_store \<Rightarrow> bool" where
  "cursors_le s t \<longleftrightarrow>
     (\<forall>p. inbox_position s p \<le> inbox_position t p
        \<and> (inbox_position s p = inbox_position t p \<longrightarrow>
            tbl_find icr_server_profile_id p (ds_inbox_cursor s) =
              tbl_find icr_server_profile_id p (ds_inbox_cursor t)))
     \<and> code_generation s \<le> code_generation t
     \<and> (code_generation s = code_generation t \<longrightarrow> ds_connect_code s = ds_connect_code t)"

datatype cursor_op =
    AdvanceInbox client_inbox_cursor_update
  | ReplaceCode connect_code_state_record

fun cursor_step :: "device_store \<Rightarrow> cursor_op \<Rightarrow> device_store_error + device_store" where
  "cursor_step s (AdvanceInbox upd) = advance_inbox_cursor s upd"
| "cursor_step s (ReplaceCode record) = replace_connect_code_state s record"

lemma minus_1_less_uint [simp]: "- 1 < uint x" for x :: u64
  using uint_ge_0 [of x] by linarith

lemma advance_inbox_cursor_cases:
  assumes "cursors_inv s" and "advance_inbox_cursor s upd = Inr s'"
  obtains "s' = s"
  | row where "s' = s\<lparr>ds_inbox_cursor := tbl_upsert icr_server_profile_id row (ds_inbox_cursor s)\<rparr>"
      "icr_server_profile_id row = ic_server_profile_id upd"
      "icr_last_sequence row = uint (ic_last_sequence upd)"
      "uint (ic_last_sequence upd) < 2 ^ 63"
      "inbox_position s (ic_server_profile_id upd) < uint (ic_last_sequence upd)"
proof (cases "tbl_find icr_server_profile_id (ic_server_profile_id upd) (ds_inbox_cursor s)")
  case None
  with assms(2) show thesis
    by (intro that(2) [of "\<lparr>icr_server_profile_id = ic_server_profile_id upd,
          icr_last_sequence = uint (ic_last_sequence upd),
          icr_last_message_id = ic_last_message_id upd, icr_updated_at = ic_updated_at upd\<rparr>"])
       (auto simp: advance_inbox_cursor_def result_simps Let_def inbox_position_def)
next
  case (Some row)
  then have "0 \<le> icr_last_sequence row" "icr_last_sequence row < 2 ^ 63"
    using assms(1) tbl_find_Some_key [OF Some] by (auto simp: cursors_inv_def list_all_iff)
  then obtain c where c: "u64_of_i64 (icr_last_sequence row) = Some c" "icr_last_sequence row = uint c"
    by (rule u64_of_i64_small)
  show thesis
  proof (cases "s' = s")
    case True
    then show thesis by (rule that(1))
  next
    case False
    with Some assms(2) c show thesis
      by (intro that(2) [of "\<lparr>icr_server_profile_id = ic_server_profile_id upd,
            icr_last_sequence = uint (ic_last_sequence upd),
            icr_last_message_id = ic_last_message_id upd, icr_updated_at = ic_updated_at upd\<rparr>"])
         (auto simp: advance_inbox_cursor_def result_simps Let_def inbox_position_def
            not_less_iff_gr_or_eq simp flip: word_less_def split: if_splits)
  qed
qed

lemma tbl_upsert_all:
  "list_all p rows \<Longrightarrow> p r \<Longrightarrow> list_all p (tbl_upsert key r rows)"
  by (auto simp: tbl_upsert_with_def tbl_update_def list_all_iff split: option.splits)

lemma advance_inbox_cursor_step:
  assumes "cursors_inv s" and "advance_inbox_cursor s upd = Inr s'"
  shows "cursors_inv s' \<and> cursors_le s s'"
  using assms
proof (cases rule: advance_inbox_cursor_cases)
  case 1
  with assms show ?thesis by (simp add: cursors_le_def)
next
  case (2 row)
  have "distinct (map icr_server_profile_id (tbl_upsert icr_server_profile_id row (ds_inbox_cursor s)))"
    using assms(1) by (intro distinct_upsert_with) (simp_all add: cursors_inv_def)
  then have "cursors_inv s'"
    using assms(1) 2 by (simp add: cursors_inv_def tbl_upsert_all)
  moreover have "cursors_le s s'"
    using 2 by (auto simp: cursors_le_def inbox_position_def code_generation_def tbl_find_upsert)
  ultimately show ?thesis ..
qed

lemma replace_connect_code_state_step:
  assumes "cursors_inv s" and "replace_connect_code_state s record = Inr s'"
  shows "cursors_inv s' \<and> cursors_le s s' \<and> code_generation s < code_generation s'"
proof -
  from assms(2) obtain row where s': "s' = s\<lparr>ds_connect_code := Some row\<rparr>"
    and g: "ccr_generation row = uint (cc_generation record)" "uint (cc_generation record) < 2 ^ 63"
    and pos: "cc_generation record \<noteq> 0"
    by (auto simp: replace_connect_code_state_def validate_connect_code_record_def result_simps
        split: if_splits)
  have "code_generation s < ccr_generation row"
  proof (cases "ds_connect_code s")
    case None
    with g pos show ?thesis by (simp add: code_generation_def uint_gt_0)
  next
    case (Some old)
    then have "0 < ccr_generation old" "ccr_generation old < 2 ^ 63"
      using assms(1) by (auto simp: cursors_inv_def)
    then obtain c where "u64_of_i64 (ccr_generation old) = Some c" "ccr_generation old = uint c"
      using u64_of_i64_small [OF less_imp_le] by blast
    with Some assms(2) g show ?thesis
      by (auto simp: replace_connect_code_state_def code_generation_def result_simps
          word_le_def split: if_splits)
  qed
  moreover have "0 < ccr_generation row" using g pos by (simp add: uint_gt_0)
  ultimately show ?thesis
    using assms(1) s' g by (auto simp: cursors_inv_def cursors_le_def inbox_position_def code_generation_def)
qed

lemma cursors_le_trans:
  assumes "cursors_le s t" and "cursors_le t u"
  shows "cursors_le s u"
proof -
  have "inbox_position s p \<le> inbox_position u p
      \<and> (inbox_position s p = inbox_position u p \<longrightarrow>
          tbl_find icr_server_profile_id p (ds_inbox_cursor s) =
            tbl_find icr_server_profile_id p (ds_inbox_cursor u))" for p
  proof -
    from assms have "inbox_position s p \<le> inbox_position t p" "inbox_position t p \<le> inbox_position u p"
      and "inbox_position s p = inbox_position t p \<longrightarrow>
        tbl_find icr_server_profile_id p (ds_inbox_cursor s) = tbl_find icr_server_profile_id p (ds_inbox_cursor t)"
      and "inbox_position t p = inbox_position u p \<longrightarrow>
        tbl_find icr_server_profile_id p (ds_inbox_cursor t) = tbl_find icr_server_profile_id p (ds_inbox_cursor u)"
      by (auto simp: cursors_le_def)
    then show ?thesis by auto
  qed
  moreover have "code_generation s \<le> code_generation u
      \<and> (code_generation s = code_generation u \<longrightarrow> ds_connect_code s = ds_connect_code u)"
  proof -
    from assms have "code_generation s \<le> code_generation t" "code_generation t \<le> code_generation u"
      and "code_generation s = code_generation t \<longrightarrow> ds_connect_code s = ds_connect_code t"
      and "code_generation t = code_generation u \<longrightarrow> ds_connect_code t = ds_connect_code u"
      by (simp_all add: cursors_le_def)
    then show ?thesis by auto
  qed
  ultimately show ?thesis by (simp add: cursors_le_def)
qed

interpretation cursors: preordered_machine cursor_step cursors_inv cursors_le
proof unfold_locales
  fix s call s' assume inv: "cursors_inv s" and step: "cursor_step s call = Inr s'"
  have "cursors_inv s' \<and> cursors_le s s'"
  proof (cases call)
    case (AdvanceInbox upd)
    with step show ?thesis using advance_inbox_cursor_step [OF inv] by simp
  next
    case (ReplaceCode r)
    with step show ?thesis using replace_connect_code_state_step [OF inv] by simp
  qed
  then show "cursors_inv s'" and "cursors_le s s'" by simp_all
next
  fix s show "cursors_le s s" by (simp add: cursors_le_def)
next
  fix s t u assume "cursors_le s t" and "cursors_le t u"
  then show "cursors_le s u" by (rule cursors_le_trans)
qed

text \<open>
  However cursor updates and connect codes arrive, stale ones included, the durable inbox
  position of every server profile never moves back, and the connect code on file is replaced only
  by one of a later generation.
\<close>

theorem cursors_only_advance:
  "let s = run_ops cursor_step empty_store calls; t = run_ops cursor_step empty_store (calls @ later)
   in inbox_position s p \<le> inbox_position t p
      \<and> code_generation s \<le> code_generation t
      \<and> (code_generation s = code_generation t \<longrightarrow> ds_connect_code s = ds_connect_code t)"
proof -
  have "cursors_inv empty_store" by (simp add: cursors_inv_def empty_store_def)
  then have "cursors_le (run_ops cursor_step empty_store calls)
      (run_ops cursor_step (run_ops cursor_step empty_store calls) later)"
    by (intro cursors.run_le cursors.run_inv)
  then show ?thesis by (simp add: cursors_le_def run_ops_append Let_def)
qed

end
