(* ===== verification/Exchange_Outbox.thy ===== *)
theory Exchange_Outbox
  imports Machines Exchange_Frame
begin

text \<open>
  \<^verbatim>\<open>crates/winwincode-client-port/src/exchange/outbox.rs\<close>: the sender's durable outbox. The traits
  \<^verbatim>\<open>FrameOutbox\<close> and \<^verbatim>\<open>CompactingOutbox\<close> are a record of operations over a store; \<^verbatim>\<open>OutboxSession\<close>
  is the validated client of that interface; \<^verbatim>\<open>InMemoryOutbox\<close> is one store. The laws a store
  promises are a locale, in which the client's lemmas are proved once.
\<close>

section \<open>Snapshots\<close>

record outbox_snapshot =
  ob_ack_sequence :: u64
  ob_highest_sequence :: u64
  ob_frames :: "stored_frame list"

definition OutboxSnapshot_default :: outbox_snapshot where
  "OutboxSnapshot_default = \<lparr>ob_ack_sequence = 0, ob_highest_sequence = 0, ob_frames = []\<rparr>"

datatype outbox_state_error =
    StateZeroSequence
  | StateEmptyMessageId
  | StateEmptyDigest
  | StateEmptyFrame
  | StateDuplicateMessageId string
  | NonContiguous u64 u64
  | HighestMismatch u64 u64
  | AckExceedsHighest u64 u64
  | SequenceOverflow

text \<open>The loop of \<^verbatim>\<open>validate\<close> over the frames, with its two accumulators.\<close>

fun validate_frames :: "u64 \<Rightarrow> string set \<Rightarrow> stored_frame list \<Rightarrow> outbox_state_error + unit" where
  "validate_frames expected ids [] = Inr ()"
| "validate_frames expected ids (f # fs) =
     (if sf_sequence f = 0 then Inl StateZeroSequence
      else if sf_message_id f = [] then Inl StateEmptyMessageId
      else if sf_payload_digest f = [] then Inl StateEmptyDigest
      else if sf_frame f = [] then Inl StateEmptyFrame
      else if sf_message_id f \<in> ids then Inl (StateDuplicateMessageId (sf_message_id f))
      else if sf_sequence f \<noteq> expected then Inl (NonContiguous expected (sf_sequence f))
      else case checked_add expected 1 of
             None \<Rightarrow> Inl SequenceOverflow
           | Some e \<Rightarrow> validate_frames e (insert (sf_message_id f) ids) fs)"

definition first_sequence :: "stored_frame list \<Rightarrow> u64" where
  "first_sequence fs = (case fs of [] \<Rightarrow> 1 | f # _ \<Rightarrow> sf_sequence f)"

definition validate_snapshot :: "outbox_snapshot \<Rightarrow> outbox_state_error + unit" where
  "validate_snapshot s =
     (if ob_ack_sequence s > ob_highest_sequence s
      then Inl (AckExceedsHighest (ob_ack_sequence s) (ob_highest_sequence s))
      else
        let first = first_sequence (ob_frames s)
        in rbind (validate_frames first {} (ob_frames s)) (\<lambda>_.
           if (case checked_add (ob_ack_sequence s) 1 of
                 None \<Rightarrow> False
               | Some first_unacknowledged \<Rightarrow> first > first_unacknowledged)
           then Inl (NonContiguous (saturating_add (ob_ack_sequence s) 1) first)
           else
             let derived = (case ob_frames s of [] \<Rightarrow> ob_ack_sequence s
                            | _ \<Rightarrow> sf_sequence (last (ob_frames s)))
             in if ob_highest_sequence s \<noteq> derived
                then Inl (HighestMismatch (ob_highest_sequence s) derived)
                else Inr ()))"

section \<open>The store interface\<close>

record ('s, 'e) frame_outbox =
  fo_load :: "'s \<Rightarrow> 'e + outbox_snapshot option"
  fo_append :: "'s \<Rightarrow> u64 \<Rightarrow> stored_frame \<Rightarrow> 'e + 's"
  fo_record_acknowledgement :: "'s \<Rightarrow> u64 \<Rightarrow> u64 \<Rightarrow> 'e + 's"
  fo_compact_through :: "'s \<Rightarrow> u64 \<Rightarrow> 'e + nat \<times> 's"

datatype outbox_input_error =
    InEmptyMessageId
  | InZeroSequence
  | InEmptyDigest
  | InEmptyFrame
  | InDuplicateMessageId string
  | ZeroMaxFrames

datatype 'e outbox_error =
    Store 'e
  | InvalidInput outbox_input_error
  | CorruptState outbox_state_error
  | SequenceMismatch u64 u64
  | SequenceExhausted
  | CursorAhead u64 u64
  | AckAhead u64 u64
  | AckRegression u64 u64

record outbox_batch =
  bt_ack_sequence :: u64
  bt_highest_sequence :: u64
  bt_frames :: "stored_frame list"

section \<open>The session\<close>

definition snapshot_of :: "('s, 'e) frame_outbox \<Rightarrow> 's \<Rightarrow> 'e outbox_error + outbox_snapshot" where
  "snapshot_of ops store =
     rbind (map_err Store (fo_load ops store)) (\<lambda>loaded.
     let snapshot = (case loaded of None \<Rightarrow> OutboxSnapshot_default | Some x \<Rightarrow> x)
     in rbind (map_err CorruptState (validate_snapshot snapshot)) (\<lambda>_. Inr snapshot))"

definition validate_frame_shape :: "stored_frame \<Rightarrow> outbox_input_error + unit" where
  "validate_frame_shape f =
     (if sf_sequence f = 0 then Inl InZeroSequence
      else if sf_message_id f = [] then Inl InEmptyMessageId
      else if sf_payload_digest f = [] then Inl InEmptyDigest
      else if sf_frame f = [] then Inl InEmptyFrame
      else Inr ())"

definition next_sequence :: "('s, 'e) frame_outbox \<Rightarrow> 's \<Rightarrow> 'e outbox_error + u64" where
  "next_sequence ops store =
     rbind (snapshot_of ops store) (\<lambda>snapshot.
     ok_or (checked_add (ob_highest_sequence snapshot) 1) SequenceExhausted)"

definition enqueue ::
    "('s, 'e) frame_outbox \<Rightarrow> 's \<Rightarrow> u64 \<Rightarrow> stored_frame \<Rightarrow> 'e outbox_error + u64 \<times> 's" where
  "enqueue ops store expected_next_sequence frame =
     rbind (map_err InvalidInput (validate_frame_shape frame)) (\<lambda>_.
     if sf_sequence frame \<noteq> expected_next_sequence
     then Inl (SequenceMismatch expected_next_sequence (sf_sequence frame))
     else
       rbind (snapshot_of ops store) (\<lambda>snapshot.
       rbind (ok_or (checked_add (ob_highest_sequence snapshot) 1) SequenceExhausted) (\<lambda>stream_expected.
       if sf_sequence frame \<noteq> stream_expected
       then Inl (SequenceMismatch stream_expected (sf_sequence frame))
       else if list_ex (\<lambda>retained. sf_message_id retained = sf_message_id frame) (ob_frames snapshot)
       then Inl (InvalidInput (InDuplicateMessageId (sf_message_id frame)))
       else
         rbind (map_err Store (fo_append ops store (sf_sequence frame - 1) frame)) (\<lambda>store'.
         Inr (sf_sequence frame, store')))))"

definition deliverable ::
    "('s, 'e) frame_outbox \<Rightarrow> 's \<Rightarrow> u64 \<Rightarrow> nat \<Rightarrow> 'e outbox_error + outbox_batch" where
  "deliverable ops store after_sequence max_frames =
     (if max_frames = 0 then Inl (InvalidInput ZeroMaxFrames)
      else
        rbind (snapshot_of ops store) (\<lambda>snapshot.
        if after_sequence > ob_highest_sequence snapshot
        then Inl (CursorAhead after_sequence (ob_highest_sequence snapshot))
        else Inr \<lparr>bt_ack_sequence = ob_ack_sequence snapshot,
                  bt_highest_sequence = ob_highest_sequence snapshot,
                  bt_frames = take max_frames
                    (filter (\<lambda>f. sf_sequence f > after_sequence) (ob_frames snapshot))\<rparr>))"

definition acknowledge ::
    "('s, 'e) frame_outbox \<Rightarrow> 's \<Rightarrow> u64 \<Rightarrow> 'e outbox_error + u64 \<times> 's" where
  "acknowledge ops store ack_sequence =
     rbind (snapshot_of ops store) (\<lambda>snapshot.
     if ack_sequence > ob_highest_sequence snapshot
     then Inl (AckAhead ack_sequence (ob_highest_sequence snapshot))
     else if ack_sequence < ob_ack_sequence snapshot
     then Inl (AckRegression ack_sequence (ob_ack_sequence snapshot))
     else if ack_sequence = ob_ack_sequence snapshot
     then Inr (ack_sequence, store)
     else
       rbind (map_err Store
         (fo_record_acknowledgement ops store (ob_ack_sequence snapshot) ack_sequence)) (\<lambda>store'.
       Inr (ack_sequence, store')))"

definition compact_confirmed :: "('s, 'e) frame_outbox \<Rightarrow> 's \<Rightarrow> 'e outbox_error + nat \<times> 's" where
  "compact_confirmed ops store =
     rbind (snapshot_of ops store) (\<lambda>snapshot.
     map_err Store (fo_compact_through ops store (ob_ack_sequence snapshot)))"

section \<open>The in-memory store\<close>

record in_memory_outbox =
  im_state :: "outbox_snapshot option"

typedecl infallible

definition InMemoryOutbox_new :: in_memory_outbox where
  "InMemoryOutbox_new = \<lparr>im_state = None\<rparr>"

definition from_snapshot :: "outbox_snapshot \<Rightarrow> in_memory_outbox" where
  "from_snapshot snapshot = \<lparr>im_state = Some snapshot\<rparr>"

definition in_memory_load :: "in_memory_outbox \<Rightarrow> infallible + outbox_snapshot option" where
  "in_memory_load m = Inr (im_state m)"

definition in_memory_append ::
    "in_memory_outbox \<Rightarrow> u64 \<Rightarrow> stored_frame \<Rightarrow> infallible + in_memory_outbox" where
  "in_memory_append m expected_highest_sequence frame =
     (let state = (case im_state m of None \<Rightarrow> OutboxSnapshot_default | Some x \<Rightarrow> x)
      in Inr (m\<lparr>im_state := Some (state\<lparr>ob_frames := ob_frames state @ [frame],
                                        ob_highest_sequence := sf_sequence frame\<rparr>)\<rparr>))"

definition in_memory_record_acknowledgement ::
    "in_memory_outbox \<Rightarrow> u64 \<Rightarrow> u64 \<Rightarrow> infallible + in_memory_outbox" where
  "in_memory_record_acknowledgement m expected_ack_sequence ack_sequence =
     Inr (case im_state m of
            None \<Rightarrow> m
          | Some state \<Rightarrow> m\<lparr>im_state := Some (state\<lparr>ob_ack_sequence := ack_sequence\<rparr>)\<rparr>)"

definition in_memory_compact_through ::
    "in_memory_outbox \<Rightarrow> u64 \<Rightarrow> infallible + nat \<times> in_memory_outbox" where
  "in_memory_compact_through m ack_sequence =
     (case im_state m of
        None \<Rightarrow> Inr (0, m)
      | Some state \<Rightarrow>
          let before = length (ob_frames state);
              frames = filter (\<lambda>f. sf_sequence f > ack_sequence) (ob_frames state)
          in Inr (before - length frames, m\<lparr>im_state := Some (state\<lparr>ob_frames := frames\<rparr>)\<rparr>))"

definition in_memory_ops :: "(in_memory_outbox, infallible) frame_outbox" where
  "in_memory_ops =
     \<lparr>fo_load = in_memory_load, fo_append = in_memory_append,
      fo_record_acknowledgement = in_memory_record_acknowledgement,
      fo_compact_through = in_memory_compact_through\<rparr>"

section \<open>Valid snapshots\<close>

definition frame_ok :: "stored_frame \<Rightarrow> bool" where
  "frame_ok f \<longleftrightarrow> sf_sequence f \<noteq> 0 \<and> sf_message_id f \<noteq> [] \<and> sf_payload_digest f \<noteq> [] \<and> sf_frame f \<noteq> []"

abbreviation seqs :: "stored_frame list \<Rightarrow> nat list" where
  "seqs fs \<equiv> map (\<lambda>f. unat (sf_sequence f)) fs"

text \<open>The mathematical reading of a valid snapshot: an interval of sequences that starts no later
  than the first unacknowledged one and ends at the highest, with room for one more.\<close>

definition snapshot_ok :: "outbox_snapshot \<Rightarrow> bool" where
  "snapshot_ok s \<longleftrightarrow>
     (let first = unat (first_sequence (ob_frames s)); n = length (ob_frames s)
      in list_all frame_ok (ob_frames s)
         \<and> distinct (map sf_message_id (ob_frames s))
         \<and> seqs (ob_frames s) = [first ..< first + n]
         \<and> first + n < 2 ^ 64
         \<and> first \<le> Suc (unat (ob_ack_sequence s))
         \<and> ob_ack_sequence s \<le> ob_highest_sequence s
         \<and> unat (ob_highest_sequence s) =
             (if n = 0 then unat (ob_ack_sequence s) else first + n - 1))"

lemma validate_frame_shape_Inr_iff [result_simps]: "validate_frame_shape f = Inr u \<longleftrightarrow> frame_ok f"
  by (auto simp: validate_frame_shape_def frame_ok_def)

lemma validate_frames_Inr_iff:
  "unat expected + length fs < 2 ^ 64 \<or> fs \<noteq> [] \<Longrightarrow> 
   validate_frames expected ids fs = Inr () \<longleftrightarrow>
     list_all frame_ok fs \<and> distinct (map sf_message_id fs) \<and> ids \<inter> sf_message_id ` set fs = {}
     \<and> seqs fs = [unat expected ..< unat expected + length fs]
     \<and> unat expected + length fs < 2 ^ 64"
proof (induction fs arbitrary: expected ids)
  case (Cons f fs)
  show ?case
  proof (cases "expected = - 1")
    case True
    then show ?thesis by (auto simp: checked_succ_if unat_max_word)
  next
    case False
    then have succ: "unat (expected + 1) = Suc (unat expected)" by (rule unat_succ_if)
    have bound: "unat expected + 1 < 2 ^ 64"
      using u64_bound [of "expected + 1"] by (simp add: succ)
    then have "unat (expected + 1) + length fs < 2 ^ 64 \<or> fs \<noteq> []"
      by (cases fs) (simp_all add: succ)
    note IH = Cons.IH [OF this, of "insert (sf_message_id f) ids"]
    have interval: "[unat expected ..< unat expected + length (f # fs)] =
        unat expected # [unat (expected + 1) ..< unat (expected + 1) + length fs]"
      by (simp add: succ upt_conv_Cons del: upt_Suc)
    have seq: "unat (sf_sequence f) = unat expected \<longleftrightarrow> sf_sequence f = expected"
      by (simp add: word_unat_eq_iff)
    show ?thesis
      unfolding interval
      using False by (simp add: checked_succ_if IH succ seq del: upt_Suc) (auto simp: frame_ok_def)
  qed
qed simp

lemma unat_first_pos: "list_all frame_ok fs \<Longrightarrow> 0 < unat (first_sequence fs)"
  by (cases fs) (auto simp: first_sequence_def frame_ok_def unat_gt_0)

lemma unat_last_seq:
  assumes "seqs fs = [n ..< n + length fs]" and "fs \<noteq> []"
  shows "unat (sf_sequence (last fs)) = n + length fs - 1"
proof -
  have "unat (sf_sequence (last fs)) = last (seqs fs)" using assms(2) by (simp add: last_map)
  also have "\<dots> = n + length fs - 1" using assms by simp
  finally show ?thesis .
qed

lemma unacked_gap_iff:
  "(case checked_add a 1 of None \<Rightarrow> False | Some b \<Rightarrow> b < f) \<longleftrightarrow> Suc (unat a) < unat f"
  for a f :: u64
proof (cases "a = - 1")
  case True
  then show ?thesis using u64_bound [of f] by (simp add: checked_succ_if unat_max_word)
next
  case False
  then show ?thesis by (simp add: checked_succ_if unat_succ_if word_less_nat_alt)
qed

lemma validate_snapshot_Inr_iff: "validate_snapshot s = Inr u \<longleftrightarrow> snapshot_ok s"
proof -
  let ?first = "first_sequence (ob_frames s)"
  have loop: "validate_frames ?first {} (ob_frames s) = Inr () \<longleftrightarrow>
      list_all frame_ok (ob_frames s) \<and> distinct (map sf_message_id (ob_frames s))
      \<and> seqs (ob_frames s) = [unat ?first ..< unat ?first + length (ob_frames s)]
      \<and> unat ?first + length (ob_frames s) < 2 ^ 64"
    by (subst validate_frames_Inr_iff) (auto simp: first_sequence_def split: list.splits)
  have derived: "(ob_highest_sequence s = (case ob_frames s of [] \<Rightarrow> ob_ack_sequence s
        | _ \<Rightarrow> sf_sequence (last (ob_frames s)))) \<longleftrightarrow>
      unat (ob_highest_sequence s) = (if length (ob_frames s) = 0 then unat (ob_ack_sequence s)
        else unat ?first + length (ob_frames s) - 1)"
    if "seqs (ob_frames s) = [unat ?first ..< unat ?first + length (ob_frames s)]"
    using unat_last_seq [OF that]
    by (cases "ob_frames s") (simp_all add: word_unat_eq_iff)
  show ?thesis
    unfolding validate_snapshot_def snapshot_ok_def Let_def
    using derived by (auto simp: result_simps loop unacked_gap_iff not_le not_less split: if_splits)
qed

section \<open>Operations on valid snapshots\<close>

definition push_frame :: "outbox_snapshot \<Rightarrow> stored_frame \<Rightarrow> outbox_snapshot" where
  "push_frame x f = x\<lparr>ob_frames := ob_frames x @ [f], ob_highest_sequence := sf_sequence f\<rparr>"

definition confirm :: "outbox_snapshot \<Rightarrow> u64 \<Rightarrow> nat \<Rightarrow> outbox_snapshot" where
  "confirm x n k = x\<lparr>ob_ack_sequence := n, ob_frames := drop k (ob_frames x)\<rparr>"

lemma filter_after_drop:
  "seqs fs = [a ..< a + length fs] \<Longrightarrow>
     filter (\<lambda>f. c < sf_sequence f) fs = drop (Suc (unat c) - a) fs"
proof (induction fs arbitrary: a)
  case (Cons f fs)
  then have f: "unat (sf_sequence f) = a" and fs: "seqs fs = [Suc a ..< Suc a + length fs]"
    by (simp_all add: upt_conv_Cons del: upt_Suc)
  note IH = Cons.IH [OF fs]
  show ?case
  proof (cases "unat c < a")
    case True
    then have "drop (Suc (unat c) - Suc a) fs = fs" by simp
    with True IH f show ?thesis by (simp add: word_less_nat_alt)
  next
    case False
    with IH f show ?thesis by (simp add: word_less_nat_alt Suc_diff_le)
  qed
qed simp

lemma snapshot_ok_seqs:
  "snapshot_ok x \<Longrightarrow> seqs (ob_frames x) =
     [unat (first_sequence (ob_frames x)) ..< unat (first_sequence (ob_frames x)) + length (ob_frames x)]"
  by (simp add: snapshot_ok_def Let_def)

lemma snapshot_ok_highest:
  "snapshot_ok x \<Longrightarrow> ob_frames x \<noteq> [] \<Longrightarrow> Suc (unat (ob_highest_sequence x)) =
     unat (first_sequence (ob_frames x)) + length (ob_frames x)"
  using unat_first_pos [of "ob_frames x"] by (auto simp: snapshot_ok_def Let_def)

lemma filter_after:
  "snapshot_ok x \<Longrightarrow> filter (\<lambda>f. c < sf_sequence f) (ob_frames x) =
     drop (Suc (unat c) - unat (first_sequence (ob_frames x))) (ob_frames x)"
  by (rule filter_after_drop [OF snapshot_ok_seqs])

lemma snapshot_ok_default: "snapshot_ok OutboxSnapshot_default"
  by (simp add: snapshot_ok_def OutboxSnapshot_default_def first_sequence_def)

lemma first_sequence_append [simp]:
  "first_sequence (fs @ [f]) = (if fs = [] then sf_sequence f else first_sequence fs)"
  by (cases fs) (simp_all add: first_sequence_def)

lemma snapshot_ok_push:
  assumes ok: "snapshot_ok x" and f: "frame_ok f" "sf_sequence f \<noteq> - 1"
    and seq: "unat (sf_sequence f) = Suc (unat (ob_highest_sequence x))"
    and fresh: "sf_message_id f \<notin> sf_message_id ` set (ob_frames x)"
  shows "snapshot_ok (push_frame x f)"
proof -
  have bound: "Suc (unat (sf_sequence f)) < 2 ^ 64"
    using u64_bound [of "sf_sequence f + 1"] by (simp add: unat_succ_if [OF f(2)])
  show ?thesis
  proof (cases "ob_frames x = []")
    case True
    with ok f seq bound show ?thesis
      by (auto simp: snapshot_ok_def push_frame_def Let_def word_le_nat_alt first_sequence_def)
  next
    case False
    note hi = snapshot_ok_highest [OF ok False]
    with False ok f seq fresh bound show ?thesis
      by (auto simp: snapshot_ok_def push_frame_def Let_def word_le_nat_alt)
  qed
qed

lemma first_sequence_drop:
  assumes "seqs fs = [a ..< a + length fs]" and "k < length fs"
  shows "unat (first_sequence (drop k fs)) = a + k"
proof -
  have "drop k fs = fs ! k # drop (Suc k) fs" using assms(2) by (simp add: Cons_nth_drop_Suc)
  moreover have "unat (sf_sequence (fs ! k)) = seqs fs ! k" using assms(2) by simp
  ultimately show ?thesis using assms by (simp add: first_sequence_def)
qed

lemma snapshot_ok_ack_le: "snapshot_ok x \<Longrightarrow> ob_ack_sequence x \<le> ob_highest_sequence x"
  by (simp add: snapshot_ok_def Let_def)

lemma snapshot_ok_confirm:
  assumes ok: "snapshot_ok x" and n: "ob_ack_sequence x \<le> n" "n \<le> ob_highest_sequence x"
    and k: "k \<le> Suc (unat n) - unat (first_sequence (ob_frames x))"
  shows "snapshot_ok (confirm x n k)"
proof (cases "k < length (ob_frames x)")
  case True
  then have ne: "ob_frames x \<noteq> []" by auto
  let ?a = "unat (first_sequence (ob_frames x))"
  have sq: "seqs (drop k (ob_frames x)) = [?a + k ..< ?a + length (ob_frames x)]"
    using snapshot_ok_seqs [OF ok] by (simp add: drop_map [symmetric])
  have first: "unat (first_sequence (drop k (ob_frames x))) = ?a + k"
    by (rule first_sequence_drop [OF snapshot_ok_seqs [OF ok] True])
  have "list_all frame_ok (drop k (ob_frames x))"
    using ok by (auto simp: snapshot_ok_def Let_def list_all_iff dest: in_set_dropD)
  moreover have "distinct (map sf_message_id (drop k (ob_frames x)))"
    using ok by (simp add: snapshot_ok_def Let_def drop_map [symmetric])
  ultimately show ?thesis
    using ok n k True snapshot_ok_highest [OF ok ne] sq
    by (auto simp: snapshot_ok_def Let_def confirm_def first word_le_nat_alt ne)
next
  case False
  have "unat n = unat (ob_highest_sequence x)"
  proof (cases "ob_frames x = []")
    case True
    with ok n show ?thesis by (simp add: snapshot_ok_def Let_def word_le_nat_alt)
  next
    case ne: False
    then have "0 < length (ob_frames x)" by simp
    with False k n snapshot_ok_highest [OF ok ne] show ?thesis
      unfolding word_le_nat_alt by arith
  qed
  then have "n = ob_highest_sequence x" by (simp add: word_unat_eq_iff)
  with False show ?thesis
    by (simp add: snapshot_ok_def Let_def confirm_def first_sequence_def)
qed

section \<open>The contract of a store\<close>

text \<open>
  A store represents a snapshot. \<^verbatim>\<open>append\<close> pushes a frame when it follows the highest one (a store
  may keep other bytes of it, never another identity),
  \<^verbatim>\<open>record_acknowledgement\<close> moves the cursor and may drop confirmed frames, \<^verbatim>\<open>compact_through\<close>
  drops the frames up to the cursor. A call may fail; the laws speak of the calls that succeed.
\<close>

definition same_frame :: "stored_frame \<Rightarrow> stored_frame \<Rightarrow> bool" where
  "same_frame f g \<longleftrightarrow> stored_frame_identity f = stored_frame_identity g \<and> frame_ok f = frame_ok g"

lemma same_frame_fields:
  "same_frame f g \<Longrightarrow> sf_sequence g = sf_sequence f \<and> sf_message_id g = sf_message_id f
     \<and> frame_ok g = frame_ok f"
  by (simp add: same_frame_def stored_frame_identity_def)

lemma same_frame_refl [simp]: "same_frame f f"
  by (simp add: same_frame_def)

locale outbox_store =
  fixes ops :: "('s, 'e) frame_outbox"
    and abs :: "'s \<Rightarrow> outbox_snapshot"
    and inv :: "'s \<Rightarrow> bool"
  assumes load_abs: "inv s \<Longrightarrow> fo_load ops s = Inr m \<Longrightarrow>
      (case m of None \<Rightarrow> OutboxSnapshot_default | Some x \<Rightarrow> x) = abs s"
    and append_abs: "\<lbrakk>inv s; snapshot_ok (abs s); h = ob_highest_sequence (abs s);
      unat (sf_sequence f) = Suc (unat h); frame_ok f; fo_append ops s h f = Inr s'\<rbrakk> \<Longrightarrow>
      inv s' \<and> (\<exists>g. same_frame f g \<and> abs s' = push_frame (abs s) g)"
    and record_abs: "\<lbrakk>inv s; snapshot_ok (abs s); a = ob_ack_sequence (abs s); a < n;
      n \<le> ob_highest_sequence (abs s); fo_record_acknowledgement ops s a n = Inr s'\<rbrakk> \<Longrightarrow>
      inv s' \<and> (\<exists>k \<le> Suc (unat n) - unat (first_sequence (ob_frames (abs s))).
        abs s' = confirm (abs s) n k)"
    and compact_abs: "\<lbrakk>inv s; snapshot_ok (abs s); a = ob_ack_sequence (abs s);
      fo_compact_through ops s a = Inr (c, s')\<rbrakk> \<Longrightarrow>
      inv s' \<and> abs s' = confirm (abs s) a (Suc (unat a) - unat (first_sequence (ob_frames (abs s))))
      \<and> c = length (ob_frames (abs s)) - length (ob_frames (abs s'))"
begin

lemma snapshot_of_abs: "inv s \<Longrightarrow> snapshot_of ops s = Inr x \<Longrightarrow> x = abs s \<and> snapshot_ok (abs s)"
  using load_abs by (auto simp: snapshot_of_def Let_def result_simps validate_snapshot_Inr_iff)

lemma enqueue_abs:
  assumes "inv s" and "enqueue ops s n f = Inr (q, s')"
  shows "inv s' \<and> snapshot_ok (abs s) \<and> (\<exists>g. same_frame f g \<and> abs s' = push_frame (abs s) g)
    \<and> q = n \<and> n = sf_sequence f
    \<and> frame_ok f \<and> unat (sf_sequence f) = Suc (unat (ob_highest_sequence (abs s)))
    \<and> sf_message_id f \<notin> sf_message_id ` set (ob_frames (abs s))"
proof -
  from assms(2) obtain x e where x: "snapshot_of ops s = Inr x"
    and e: "checked_add (ob_highest_sequence x) 1 = Some e" "sf_sequence f = e"
    and f: "frame_ok f" "sf_sequence f = n" "q = n"
    and fresh: "\<not> list_ex (\<lambda>r. sf_message_id r = sf_message_id f) (ob_frames x)"
    and app: "fo_append ops s (sf_sequence f - 1) f = Inr s'"
    by (auto simp: enqueue_def result_simps split: if_splits)
  from snapshot_of_abs [OF assms(1) x] have x': "x = abs s" and ok: "snapshot_ok (abs s)" by auto
  have seq: "unat (sf_sequence f) = Suc (unat (ob_highest_sequence (abs s)))"
    using e by (simp add: checked_succ_Some x')
  have "sf_sequence f - 1 = ob_highest_sequence (abs s)"
    using seq by (simp add: unat_eq_Suc_iff)
  with append_abs [OF assms(1) ok refl seq f(1)] app
  have "inv s' \<and> (\<exists>g. same_frame f g \<and> abs s' = push_frame (abs s) g)" by simp
  with ok seq f fresh x' show ?thesis by (auto simp: list_ex_iff)
qed

lemma acknowledge_abs:
  assumes "inv s" and "acknowledge ops s n = Inr (q, s')"
  shows "inv s' \<and> snapshot_ok (abs s) \<and> q = n \<and> ob_ack_sequence (abs s) \<le> n
    \<and> n \<le> ob_highest_sequence (abs s)
    \<and> (\<exists>k \<le> Suc (unat n) - unat (first_sequence (ob_frames (abs s))). abs s' = confirm (abs s) n k)"
proof -
  from assms(2) obtain x where x: "snapshot_of ops s = Inr x"
    by (auto simp: acknowledge_def result_simps)
  from snapshot_of_abs [OF assms(1) x] have x': "x = abs s" and ok: "snapshot_ok (abs s)" by auto
  show ?thesis
  proof (cases "n = ob_ack_sequence (abs s)")
    case True
    have "abs s = confirm (abs s) n 0" by (simp add: confirm_def True)
    moreover have "s' = s \<and> q = n \<and> n \<le> ob_highest_sequence (abs s)"
      using assms(2) x x' True by (auto simp: acknowledge_def split: if_splits)
    ultimately show ?thesis using assms(1) ok True by auto
  next
    case False
    with assms(2) x x' have n: "ob_ack_sequence (abs s) < n" "n \<le> ob_highest_sequence (abs s)" "q = n"
      and rec: "fo_record_acknowledgement ops s (ob_ack_sequence (abs s)) n = Inr s'"
      by (auto simp: acknowledge_def result_simps split: if_splits)
    from record_abs [OF assms(1) ok refl n(1,2) rec] ok n show ?thesis by auto
  qed
qed

lemma compact_confirmed_abs:
  assumes "inv s" and "compact_confirmed ops s = Inr (c, s')"
  shows "inv s' \<and> snapshot_ok (abs s)
    \<and> abs s' = confirm (abs s) (ob_ack_sequence (abs s))
        (Suc (unat (ob_ack_sequence (abs s))) - unat (first_sequence (ob_frames (abs s))))
    \<and> c = length (ob_frames (abs s)) - length (ob_frames (abs s'))"
proof -
  from assms(2) obtain x where x: "snapshot_of ops s = Inr x"
    and c: "fo_compact_through ops s (ob_ack_sequence x) = Inr (c, s')"
    by (auto simp: compact_confirmed_def result_simps)
  from snapshot_of_abs [OF assms(1) x] have x': "x = abs s" and ok: "snapshot_ok (abs s)" by auto
  from compact_abs [OF assms(1) ok refl] c x' ok show ?thesis by simp
qed

lemma deliverable_abs:
  assumes "inv s" and "deliverable ops s after m = Inr b"
  shows "snapshot_ok (abs s) \<and> 0 < m \<and> after \<le> ob_highest_sequence (abs s)
    \<and> b = \<lparr>bt_ack_sequence = ob_ack_sequence (abs s), bt_highest_sequence = ob_highest_sequence (abs s),
           bt_frames = take m (filter (\<lambda>f. after < sf_sequence f) (ob_frames (abs s)))\<rparr>"
proof -
  from assms(2) obtain x where x: "snapshot_of ops s = Inr x"
    by (auto simp: deliverable_def result_simps split: if_splits)
  with assms snapshot_of_abs [OF assms(1) x] show ?thesis
    by (auto simp: deliverable_def split: if_splits)
qed

end

section \<open>Runs of a session\<close>

datatype outbox_op = Enqueue u64 stored_frame | Acknowledge u64 | CompactConfirmed

fun outbox_step :: "('s, 'e) frame_outbox \<Rightarrow> 's \<Rightarrow> outbox_op \<Rightarrow> 'e outbox_error + 's" where
  "outbox_step ops s (Enqueue n f) = rbind (enqueue ops s n f) (\<lambda>(_, s'). Inr s')"
| "outbox_step ops s (Acknowledge n) = rbind (acknowledge ops s n) (\<lambda>(_, s'). Inr s')"
| "outbox_step ops s CompactConfirmed = rbind (compact_confirmed ops s) (\<lambda>(_, s'). Inr s')"

text \<open>
  The one way out of validity: a frame at \<^verbatim>\<open>u64::MAX\<close>. Every later call then reports a corrupt
  state and changes nothing.
\<close>

definition snapshot_exhausted :: "outbox_snapshot \<Rightarrow> bool" where
  "snapshot_exhausted x \<longleftrightarrow>
     (\<exists>y f. snapshot_ok y \<and> x = push_frame y f \<and> frame_ok f \<and> sf_sequence f = - 1
        \<and> unat (sf_sequence f) = Suc (unat (ob_highest_sequence y)))"

definition snapshot_le :: "outbox_snapshot \<Rightarrow> outbox_snapshot \<Rightarrow> bool" where
  "snapshot_le x y \<longleftrightarrow>
     ob_ack_sequence x \<le> ob_ack_sequence y \<and> ob_highest_sequence x \<le> ob_highest_sequence y
     \<and> (\<forall>f \<in> set (ob_frames x). ob_ack_sequence y < sf_sequence f \<longrightarrow> f \<in> set (ob_frames y))"

lemma snapshot_le_refl [simp]: "snapshot_le x x"
  by (simp add: snapshot_le_def)

lemma snapshot_le_trans: "snapshot_le x y \<Longrightarrow> snapshot_le y z \<Longrightarrow> snapshot_le x z"
  by (fastforce simp: snapshot_le_def)

lemma snapshot_le_push:
  "unat (sf_sequence f) = Suc (unat (ob_highest_sequence x)) \<Longrightarrow> snapshot_le x (push_frame x f)"
  by (simp add: snapshot_le_def push_frame_def word_le_nat_alt)

lemma snapshot_le_confirm:
  assumes "snapshot_ok x" and "ob_ack_sequence x \<le> n"
    and k: "k \<le> Suc (unat n) - unat (first_sequence (ob_frames x))"
  shows "snapshot_le x (confirm x n k)"
proof -
  have "filter (\<lambda>f. n < sf_sequence f) (ob_frames x) =
      drop (Suc (unat n) - unat (first_sequence (ob_frames x))) (ob_frames x)"
    by (rule filter_after [OF assms(1)])
  also have "set \<dots> \<subseteq> set (drop k (ob_frames x))"
    by (rule set_drop_subset_set_drop [OF k])
  finally have "f \<in> set (drop k (ob_frames x))" if "f \<in> set (ob_frames x)" "n < sf_sequence f" for f
    using that by (auto dest: subsetD)
  with assms show ?thesis by (simp add: snapshot_le_def confirm_def)
qed

lemma exhausted_not_ok: "snapshot_exhausted x \<Longrightarrow> \<not> snapshot_ok x"
proof
  assume "snapshot_exhausted x" and ok: "snapshot_ok x"
  then obtain y f where x: "x = push_frame y f" and f: "sf_sequence f = - 1"
    by (auto simp: snapshot_exhausted_def)
  then have "Suc (unat (- 1 :: u64)) =
      unat (first_sequence (ob_frames x)) + length (ob_frames x)"
    using snapshot_ok_highest [OF ok] by (simp add: push_frame_def)
  with ok show False by (simp add: snapshot_ok_def Let_def unat_max_word)
qed

context outbox_store
begin

definition session_inv :: "'s \<Rightarrow> bool" where
  "session_inv s \<longleftrightarrow> inv s \<and> (snapshot_ok (abs s) \<or> snapshot_exhausted (abs s))"

lemma step_session:
  assumes "inv s" and "outbox_step ops s op = Inr s'"
  shows "session_inv s' \<and> snapshot_le (abs s) (abs s')"
proof (cases op)
  case (Enqueue n f)
  with assms(2) obtain q where "enqueue ops s n f = Inr (q, s')"
    by (auto simp: result_simps)
  from enqueue_abs [OF assms(1) this] obtain g where g: "same_frame f g"
    and e: "inv s'" "snapshot_ok (abs s)" "abs s' = push_frame (abs s) g" "frame_ok f"
      "unat (sf_sequence f) = Suc (unat (ob_highest_sequence (abs s)))"
      "sf_message_id f \<notin> sf_message_id ` set (ob_frames (abs s))" by auto
  from same_frame_fields [OF g] e have g': "frame_ok g"
    "unat (sf_sequence g) = Suc (unat (ob_highest_sequence (abs s)))"
    "sf_message_id g \<notin> sf_message_id ` set (ob_frames (abs s))" by simp_all
  have "snapshot_ok (abs s') \<or> snapshot_exhausted (abs s')"
    using e(2,3) g' snapshot_ok_push [OF e(2) g'(1) _ g'(2,3)] by (auto simp: snapshot_exhausted_def)
  then show ?thesis using e(1,3) g' by (simp add: session_inv_def snapshot_le_push)
next
  case (Acknowledge n)
  with assms(2) obtain q where "acknowledge ops s n = Inr (q, s')"
    by (auto simp: result_simps)
  from acknowledge_abs [OF assms(1) this] show ?thesis
    by (auto simp: session_inv_def intro: snapshot_ok_confirm snapshot_le_confirm)
next
  case CompactConfirmed
  with assms(2) obtain c where "compact_confirmed ops s = Inr (c, s')"
    by (auto simp: result_simps)
  from compact_confirmed_abs [OF assms(1) this] show ?thesis
    by (auto simp: session_inv_def snapshot_ok_ack_le
        intro!: snapshot_ok_confirm snapshot_le_confirm)
qed

end

sublocale outbox_store \<subseteq> session: preordered_machine "outbox_step ops" session_inv
  "\<lambda>s t. snapshot_le (abs s) (abs t)"
proof unfold_locales
  fix s op s' assume "session_inv s" and step: "outbox_step ops s op = Inr s'"
  then have "inv s" by (simp add: session_inv_def)
  from step_session [OF this step]
  show "session_inv s'" and "snapshot_le (abs s) (abs s')" by auto
next
  fix s show "snapshot_le (abs s) (abs s)" by simp
next
  fix s t u assume "snapshot_le (abs s) (abs t)" and "snapshot_le (abs t) (abs u)"
  then show "snapshot_le (abs s) (abs u)" by (rule snapshot_le_trans)
qed

section \<open>The in-memory store keeps the contract\<close>

definition in_memory_abs :: "in_memory_outbox \<Rightarrow> outbox_snapshot" where
  "in_memory_abs m = (case im_state m of None \<Rightarrow> OutboxSnapshot_default | Some x \<Rightarrow> x)"

lemmas in_memory_defs = in_memory_load_def in_memory_append_def
  in_memory_record_acknowledgement_def in_memory_compact_through_def in_memory_abs_def

lemma in_memory_ops_simps [simp]:
  "fo_load in_memory_ops = in_memory_load" "fo_append in_memory_ops = in_memory_append"
  "fo_record_acknowledgement in_memory_ops = in_memory_record_acknowledgement"
  "fo_compact_through in_memory_ops = in_memory_compact_through"
  by (simp_all add: in_memory_ops_def)

interpretation mem: outbox_store in_memory_ops in_memory_abs "\<lambda>_. True"
proof unfold_locales
  fix s a n s'
  assume ok: "snapshot_ok (in_memory_abs s)" and a: "a = ob_ack_sequence (in_memory_abs s)" "a < n"
    and "n \<le> ob_highest_sequence (in_memory_abs s)"
    and rec: "fo_record_acknowledgement in_memory_ops s a n = Inr s'"
  then obtain x where "im_state s = Some x"
    by (cases "im_state s") (auto simp: in_memory_abs_def OutboxSnapshot_default_def)
  with rec have "in_memory_abs s' = confirm (in_memory_abs s) n 0"
    by (auto simp: in_memory_defs confirm_def)
  then show "True \<and> (\<exists>k \<le> Suc (unat n) - unat (first_sequence (ob_frames (in_memory_abs s))).
      in_memory_abs s' = confirm (in_memory_abs s) n k)"
    by blast
next
  fix s a c s'
  assume ok: "snapshot_ok (in_memory_abs s)" and a: "a = ob_ack_sequence (in_memory_abs s)"
    and com: "fo_compact_through in_memory_ops s a = Inr (c, s')"
  then show "True \<and> in_memory_abs s' = confirm (in_memory_abs s) a
        (Suc (unat a) - unat (first_sequence (ob_frames (in_memory_abs s))))
      \<and> c = length (ob_frames (in_memory_abs s)) - length (ob_frames (in_memory_abs s'))"
    using filter_after [OF ok, of a]
    by (auto simp: in_memory_defs confirm_def OutboxSnapshot_default_def Let_def
        split: option.splits)
next
  fix s h f s'
  assume "fo_append in_memory_ops s h f = Inr s'"
  then have "in_memory_abs s' = push_frame (in_memory_abs s) f"
    by (auto simp: in_memory_defs push_frame_def Let_def)
  then show "True \<and> (\<exists>g. same_frame f g \<and> in_memory_abs s' = push_frame (in_memory_abs s) g)"
    using same_frame_refl by blast
qed (auto simp: in_memory_defs split: option.splits)

section \<open>Properties\<close>

lemma snapshot_of_in_memory:
  "snapshot_of in_memory_ops s =
     rbind (map_err CorruptState (validate_snapshot (in_memory_abs s))) (\<lambda>_. Inr (in_memory_abs s))"
  by (simp add: snapshot_of_def in_memory_defs Let_def)

lemma snapshot_of_valid: "snapshot_ok (in_memory_abs s) \<Longrightarrow> snapshot_of in_memory_ops s = Inr (in_memory_abs s)"
  using validate_snapshot_Inr_iff [of "in_memory_abs s"] by (simp add: snapshot_of_in_memory)

lemma in_memory_abs_new [simp]: "in_memory_abs InMemoryOutbox_new = OutboxSnapshot_default"
  by (simp add: in_memory_abs_def InMemoryOutbox_new_def)

lemma session_inv_new: "mem.session_inv InMemoryOutbox_new"
  by (simp add: mem.session_inv_def snapshot_ok_default)

text \<open>
  The loop of \<^verbatim>\<open>OutboxSnapshot::validate\<close> accepts exactly the snapshots whose frames are
  well formed, carry distinct message ids, form an interval of sequences that starts no later than
  the first unacknowledged one and ends at the recorded highest sequence, and leave the next
  sequence representable.
\<close>

theorem validate_snapshot_spec: "validate_snapshot s = Inr () \<longleftrightarrow> snapshot_ok s"
  by (rule validate_snapshot_Inr_iff)

text \<open>
  Whatever calls are made on a new outbox, and whichever of them are refused, the stored
  snapshot is valid, or it has just been exhausted by a frame at the largest sequence.
\<close>

theorem outbox_runs_valid:
  "let x = in_memory_abs (run_ops (outbox_step in_memory_ops) InMemoryOutbox_new calls)
   in snapshot_ok x \<or> snapshot_exhausted x"
  using mem.session.run_inv [OF session_inv_new, of calls]
  by (simp add: mem.session_inv_def Let_def)

text \<open>
  No call loses an unacknowledged frame: a frame retained at some moment of a session is still
  retained, unchanged, at every later moment at which the acknowledgement cursor is below it.
\<close>

theorem unacknowledged_frames_kept:
  assumes "f \<in> set (ob_frames (in_memory_abs
      (run_ops (outbox_step in_memory_ops) InMemoryOutbox_new calls)))"
    and "ob_ack_sequence (in_memory_abs
      (run_ops (outbox_step in_memory_ops) InMemoryOutbox_new (calls @ later))) < sf_sequence f"
  shows "f \<in> set (ob_frames (in_memory_abs
      (run_ops (outbox_step in_memory_ops) InMemoryOutbox_new (calls @ later))))"
  using assms mem.session.run_le [OF mem.session.run_inv [OF session_inv_new], of calls later]
  by (auto simp: run_ops_append snapshot_le_def)

lemma batch_interval:
  assumes ok: "snapshot_ok x" and "ob_ack_sequence x \<le> after" "after \<le> ob_highest_sequence x"
  shows "seqs (take m (filter (\<lambda>f. after < sf_sequence f) (ob_frames x))) =
      [Suc (unat after) ..< min (Suc (unat after) + m) (Suc (unat (ob_highest_sequence x)))]"
proof (cases "ob_frames x = []")
  case True
  with assms show ?thesis by (simp add: snapshot_ok_def Let_def word_le_nat_alt)
next
  case False
  have first: "unat (first_sequence (ob_frames x)) \<le> Suc (unat after)"
    using assms by (simp add: snapshot_ok_def Let_def word_le_nat_alt)
  have "seqs (take m (drop k (ob_frames x))) = take m (drop k (seqs (ob_frames x)))" for k
    by (simp add: take_map drop_map)
  then show ?thesis
    using first snapshot_ok_highest [OF ok False]
    by (simp add: filter_after [OF ok] snapshot_ok_seqs [OF ok] take_upt min_def del: upt_Suc)
qed

text \<open>
  A delivery that resumes at or after the acknowledged sequence succeeds and returns the
  frames that follow the cursor, without a gap and in order, up to the requested number.
\<close>

theorem deliverable_contiguous:
  assumes "snapshot_ok (in_memory_abs s)" and "ob_ack_sequence (in_memory_abs s) \<le> after"
    and "after \<le> ob_highest_sequence (in_memory_abs s)" and "0 < m"
  shows "\<exists>b. deliverable in_memory_ops s after m = Inr b
    \<and> seqs (bt_frames b) =
        [Suc (unat after) ..<
          min (Suc (unat after) + m) (Suc (unat (ob_highest_sequence (in_memory_abs s))))]"
  using assms batch_interval [OF assms(1-3), of m]
  by (simp add: deliverable_def snapshot_of_valid not_less del: upt_Suc)

definition frame_at :: "u64 \<Rightarrow> string \<Rightarrow> stored_frame" where
  "frame_at n i = \<lparr>sf_message_id = i, sf_sequence = n, sf_payload_digest = ''d'', sf_frame = ''x''\<rparr>"

lemma frame_at_simps [simp]:
  "sf_sequence (frame_at n i) = n" "sf_message_id (frame_at n i) = i"
  "frame_ok (frame_at n i) \<longleftrightarrow> n \<noteq> 0 \<and> i \<noteq> []"
  by (simp_all add: frame_at_def frame_ok_def)

definition sample_outbox :: in_memory_outbox where
  "sample_outbox = from_snapshot \<lparr>ob_ack_sequence = 1, ob_highest_sequence = 3,
     ob_frames = [frame_at 2 ''b'', frame_at 3 ''c'']\<rparr>"

lemma in_memory_abs_from_snapshot [simp]: "in_memory_abs (from_snapshot x) = x"
  by (simp add: in_memory_abs_def from_snapshot_def)

lemma sample_outbox_ok: "snapshot_ok (in_memory_abs sample_outbox)"
  by (simp add: sample_outbox_def snapshot_ok_def first_sequence_def upt_rec)

text \<open>
  A frame the outbox accepts is the next one it delivers: after a successful enqueue that
  leaves the sequence space open, a delivery resumed just below it returns exactly that frame.
\<close>

theorem enqueue_then_deliver:
  assumes "enqueue in_memory_ops s n f = Inr (q, s')" and "n \<noteq> - 1" and "0 < m"
  shows "\<exists>b. deliverable in_memory_ops s' (n - 1) m = Inr b \<and> bt_frames b = [f]"
proof -
  from mem.enqueue_abs [OF TrueI assms(1)] have ok: "snapshot_ok (in_memory_abs s)"
    and n: "sf_sequence f = n"
    and f: "frame_ok f" "sf_message_id f \<notin> sf_message_id ` set (ob_frames (in_memory_abs s))"
    and seq: "unat (sf_sequence f) = Suc (unat (ob_highest_sequence (in_memory_abs s)))" by auto
  have s': "in_memory_abs s' = push_frame (in_memory_abs s) f"
    using assms(1)
    by (auto simp: enqueue_def result_simps in_memory_append_def in_memory_abs_def push_frame_def Let_def
        split: if_splits)
  have ok': "snapshot_ok (in_memory_abs s')"
    unfolding s' using assms(2) n by (intro snapshot_ok_push ok f seq) simp_all
  have before: "n - 1 = ob_highest_sequence (in_memory_abs s)"
    using seq n by (auto simp: unat_eq_Suc_iff)
  have "filter (\<lambda>g. ob_highest_sequence (in_memory_abs s) < sf_sequence g) (ob_frames (in_memory_abs s)) = []"
    using snapshot_ok_highest [OF ok] by (cases "ob_frames (in_memory_abs s) = []") (simp_all add: filter_after [OF ok])
  moreover have "n - 1 < n" and "n - 1 \<le> n" using seq n before by (simp_all add: word_order_unat)
  ultimately show ?thesis
    using ok' s' n before assms(3)
    by (simp add: deliverable_def snapshot_of_valid push_frame_def not_less)
qed

lemma enqueue_valid:
  assumes "snapshot_ok (in_memory_abs s)" and "frame_ok f"
    and "unat (sf_sequence f) = Suc (unat (ob_highest_sequence (in_memory_abs s)))"
    and "sf_message_id f \<notin> sf_message_id ` set (ob_frames (in_memory_abs s))"
  shows "\<exists>s'. enqueue in_memory_ops s (sf_sequence f) f = Inr (sf_sequence f, s')
    \<and> in_memory_abs s' = push_frame (in_memory_abs s) f"
proof -
  have "validate_frame_shape f = Inr ()" using assms(2) by (simp add: result_simps)
  moreover have "checked_add (ob_highest_sequence (in_memory_abs s)) 1 = Some (sf_sequence f)"
    using assms(3) by (simp add: checked_succ_Some)
  ultimately show ?thesis
    using assms(4)
    by (auto simp: enqueue_def snapshot_of_valid [OF assms(1)] list_ex_iff image_iff
        in_memory_append_def in_memory_abs_def push_frame_def Let_def)
qed

text \<open>
  C39. The boundary of the sequence space: when the highest sequence is one below the largest,
  the outbox accepts a frame at \<^verbatim>\<open>u64::MAX\<close>, and the snapshot it then holds is one that
  \<^verbatim>\<open>validate\<close> rejects, so every later call of the session reports a corrupt state.
\<close>

theorem enqueue_at_max_corrupts:
  assumes "snapshot_ok (in_memory_abs s)" and "ob_highest_sequence (in_memory_abs s) = - 2"
    and "frame_ok f" and "sf_sequence f = - 1"
    and "sf_message_id f \<notin> sf_message_id ` set (ob_frames (in_memory_abs s))"
  shows "\<exists>s' e. enqueue in_memory_ops s (- 1) f = Inr (- 1, s')
    \<and> snapshot_of in_memory_ops s' = Inl (CorruptState e)"
proof -
  have seq: "unat (sf_sequence f) = Suc (unat (ob_highest_sequence (in_memory_abs s)))"
    using assms(2,4) by (simp add: unat_max_word)
  from enqueue_valid [OF assms(1,3) seq assms(5)] obtain s'
    where s': "enqueue in_memory_ops s (sf_sequence f) f = Inr (sf_sequence f, s')"
      "in_memory_abs s' = push_frame (in_memory_abs s) f" by blast
  have "snapshot_exhausted (in_memory_abs s')"
    unfolding snapshot_exhausted_def using assms(1,3,4) seq s'(2) by blast
  then have "\<not> snapshot_ok (in_memory_abs s')" by (rule exhausted_not_ok)
  then obtain e where "validate_snapshot (in_memory_abs s') = Inl e"
    using validate_snapshot_Inr_iff [of "in_memory_abs s'"]
    by (cases "validate_snapshot (in_memory_abs s')") auto
  with s' assms(4) show ?thesis by (simp add: snapshot_of_in_memory)
qed

theorem enqueue_at_max_corrupts_witness:
  "\<exists>s' e. enqueue in_memory_ops
       (from_snapshot \<lparr>ob_ack_sequence = - 2, ob_highest_sequence = - 2, ob_frames = []\<rparr>)
       (- 1) (frame_at (- 1) ''z'') = Inr (- 1, s')
     \<and> snapshot_of in_memory_ops s' = Inl (CorruptState e)"
  by (rule enqueue_at_max_corrupts) (auto simp: snapshot_ok_def first_sequence_def)

end
