(* ===== verification/Exchange_Link.thy ===== *)
theory Exchange_Link
  imports Exchange_Inbound Exchange_Outbox
begin

text \<open>
  The two ends of an exchange together: an \<^verbatim>\<open>OutboxSession\<close> over any store, an \<^verbatim>\<open>InboundStream\<close>, and
  between them a network that may lose, repeat, delay and reorder frames and acknowledgements. The
  ends are the definitions of \<^verbatim>\<open>outbox.rs\<close> and \<^verbatim>\<open>inbound.rs\<close>; the relation only says who may call
  whom with what. Frames on the wire and acknowledgements on the wire are sets from which nothing is
  ever taken, so any of them may arrive any number of times, or never.
\<close>

section \<open>The link\<close>

text \<open>\<open>lk_sent\<close> and \<open>lk_log\<close> record what was enqueued and what was accepted; no step reads them.\<close>

record 's link =
  lk_store :: 's
  lk_sent :: "frame_identity list"
  lk_wire :: "frame_identity set"
  lk_acks :: "u64 set"
  lk_recv :: inbound_stream
  lk_log :: "frame_identity list"

definition link_start :: "'s \<Rightarrow> string \<Rightarrow> 's link" where
  "link_start store inst =
     \<lparr>lk_store = store, lk_sent = [], lk_wire = {}, lk_acks = {}, lk_recv = with_instance inst, lk_log = []\<rparr>"

inductive link_step :: "('s, 'e) frame_outbox \<Rightarrow> string \<Rightarrow> 's link \<Rightarrow> 's link \<Rightarrow> bool"
  for ops :: "('s, 'e) frame_outbox" and inst :: string where
  enqueued: "enqueue ops (lk_store l) n f = Inr (q, s') \<Longrightarrow>
     link_step ops inst l (l\<lparr>lk_store := s', lk_sent := lk_sent l @ [stored_frame_identity f]\<rparr>)"
| transmitted: "deliverable ops (lk_store l) after m = Inr b \<Longrightarrow>
     link_step ops inst l (l\<lparr>lk_wire := lk_wire l \<union> stored_frame_identity ` set (bt_frames b)\<rparr>)"
| received: "i \<in> lk_wire l \<Longrightarrow> ingest (lk_recv l) inst i command = (d, recv') \<Longrightarrow>
     link_step ops inst l (l\<lparr>lk_recv := recv', lk_log := lk_log l @ (if accepted d then [i] else []),
       lk_acks := insert (decision_ack_sequence d) (lk_acks l)\<rparr>)"
| forgot: "compact_dedup_through (lk_recv l) n = (c, recv') \<Longrightarrow>
     link_step ops inst l (l\<lparr>lk_recv := recv'\<rparr>)"
| confirmed: "a \<in> lk_acks l \<Longrightarrow> acknowledge ops (lk_store l) a = Inr (q, s') \<Longrightarrow>
     link_step ops inst l (l\<lparr>lk_store := s'\<rparr>)"
| compacted: "compact_confirmed ops (lk_store l) = Inr (c, s') \<Longrightarrow>
     link_step ops inst l (l\<lparr>lk_store := s'\<rparr>)"

abbreviation link_run :: "('s, 'e) frame_outbox \<Rightarrow> string \<Rightarrow> 's link \<Rightarrow> 's link \<Rightarrow> bool" where
  "link_run ops inst \<equiv> (link_step ops inst)\<^sup>*\<^sup>*"

definition recv_ack :: "'s link \<Rightarrow> nat" where
  "recv_ack l = unat (stream_ack_sequence (lk_recv l))"

section \<open>The invariant\<close>

text \<open>The sequences of the frames sent are an interval from one, so a frame is found at its sequence.\<close>

definition numbered :: "frame_identity list \<Rightarrow> bool" where
  "numbered sent \<longleftrightarrow> map (\<lambda>i. unat (fi_sequence i)) sent = [1 ..< Suc (length sent)]"

lemma numbered_nth: "numbered sent \<Longrightarrow> k < length sent \<Longrightarrow> unat (fi_sequence (sent ! k)) = Suc k"
proof -
  assume "numbered sent" and k: "k < length sent"
  then have "map (\<lambda>i. unat (fi_sequence i)) sent ! k = [1 ..< Suc (length sent)] ! k"
    by (simp only: numbered_def)
  with k show ?thesis by (simp del: upt_Suc)
qed

lemma numbered_mem:
  assumes "numbered sent" and "i \<in> set sent"
  shows "sent ! (unat (fi_sequence i) - 1) = i \<and> 1 \<le> unat (fi_sequence i) \<and> unat (fi_sequence i) \<le> length sent"
proof -
  from assms(2) obtain k where "k < length sent" "i = sent ! k" by (auto simp: in_set_conv_nth)
  with numbered_nth [OF assms(1), of k] show ?thesis by simp
qed

lemma numbered_inj:
  "numbered sent \<Longrightarrow> i \<in> set sent \<Longrightarrow> j \<in> set sent \<Longrightarrow> fi_sequence i = fi_sequence j \<Longrightarrow> i = j"
  by (metis numbered_mem)

lemma numbered_snoc: "numbered sent \<Longrightarrow> unat (fi_sequence i) = Suc (length sent) \<Longrightarrow> numbered (sent @ [i])"
  by (simp add: numbered_def)

context outbox_store
begin

definition link_inv :: "string \<Rightarrow> 's link \<Rightarrow> bool" where
  "link_inv inst l \<longleftrightarrow> session_inv (lk_store l) \<and> inbound_inv (lk_recv l)
     \<and> instance_admits (lk_recv l) inst
     \<and> numbered (lk_sent l)
     \<and> length (lk_sent l) = unat (ob_highest_sequence (abs (lk_store l)))
     \<and> stored_frame_identity ` set (ob_frames (abs (lk_store l))) \<subseteq> set (lk_sent l)
     \<and> lk_wire l \<subseteq> set (lk_sent l)
     \<and> recv_ack l \<le> length (lk_sent l) \<and> lk_log l = take (recv_ack l) (lk_sent l)
     \<and> (\<forall>a \<in> lk_acks l. unat a \<le> recv_ack l)
     \<and> unat (ob_ack_sequence (abs (lk_store l))) \<le> recv_ack l"

lemma link_inv_start:
  assumes "inv s" and "abs s = OutboxSnapshot_default"
  shows "link_inv inst (link_start s inst)"
proof -
  have "session_inv s" using assms by (simp add: session_inv_def snapshot_ok_default)
  moreover have "stream_ack_sequence (with_instance inst) = 0" "instance_admits (with_instance inst) inst"
    by (simp_all add: stream_ack_sequence_def with_instance_def with_initial_def InboundStream_new_def
        AckCursor_new_def instance_admits_def)
  ultimately show ?thesis
    using assms(2) inbound_inv_with_instance
    by (simp add: link_inv_def link_start_def numbered_def OutboxSnapshot_default_def recv_ack_def)
qed

lemma link_inv_log: "link_inv inst l \<Longrightarrow> length (lk_log l) = recv_ack l"
  by (simp add: link_inv_def)

lemma link_inv_store:
  assumes "link_inv inst l" and "session_inv s'"
    and "ob_highest_sequence (abs s') = ob_highest_sequence (abs (lk_store l))"
    and "set (ob_frames (abs s')) \<subseteq> set (ob_frames (abs (lk_store l)))"
    and "unat (ob_ack_sequence (abs s')) \<le> recv_ack l"
  shows "link_inv inst (l\<lparr>lk_store := s'\<rparr>)"
  using assms by (auto simp: link_inv_def recv_ack_def)

lemma confirm_fields [simp]:
  "ob_highest_sequence (confirm x n k) = ob_highest_sequence x" "ob_ack_sequence (confirm x n k) = n"
  "set (ob_frames (confirm x n k)) \<subseteq> set (ob_frames x)"
  by (simp_all add: confirm_def set_drop_subset)

lemma link_inv_enqueued:
  assumes l: "link_inv inst l" and q: "enqueue ops (lk_store l) n f = Inr (q, s')"
  shows "link_inv inst (l\<lparr>lk_store := s', lk_sent := lk_sent l @ [stored_frame_identity f]\<rparr>)"
proof -
  have i: "inv (lk_store l)" using l by (simp add: link_inv_def session_inv_def)
  from enqueue_abs [OF i q] obtain g where g: "same_frame f g" "abs s' = push_frame (abs (lk_store l)) g"
    and f: "unat (sf_sequence f) = Suc (unat (ob_highest_sequence (abs (lk_store l))))" by auto
  have "outbox_step ops (lk_store l) (Enqueue n f) = Inr s'" using q by simp
  from step_session [OF i this] have "session_inv s'" by simp
  moreover have "stored_frame_identity g = stored_frame_identity f" "sf_sequence g = sf_sequence f"
    using g(1) same_frame_fields [OF g(1)] by (simp_all add: same_frame_def)
  moreover have "numbered (lk_sent l @ [stored_frame_identity f])"
    using l f by (intro numbered_snoc) (simp_all add: link_inv_def stored_frame_identity_def)
  ultimately show ?thesis
    using l g(2) f by (auto simp: link_inv_def recv_ack_def push_frame_def)
qed

lemma link_inv_received:
  assumes l: "link_inv inst l" and i: "i \<in> lk_wire l"
    and d: "ingest (lk_recv l) inst i command = (d, recv')"
  shows "link_inv inst (l\<lparr>lk_recv := recv', lk_log := lk_log l @ (if accepted d then [i] else []),
      lk_acks := insert (decision_ack_sequence d) (lk_acks l)\<rparr>)"
proof -
  have inv: "inbound_inv (lk_recv l)" using l by (simp add: link_inv_def)
  then have inv': "inbound_inv recv'" using inbound_inv_ingest [OF inv, of inst i command] d by simp
  have admits: "instance_admits (instances_after (lk_recv l) inst) inst"
    using l by (auto simp: link_inv_def instance_admits_def instances_after_def)
  show ?thesis
    using inv
  proof (cases rule: ingest_inv_cases [where inst = inst and i = i and command = command])
    case (accept out)
    then have d': "d = Accepted (fi_sequence i) out" and r: "recv' = accept_state (instances_after (lk_recv l) inst) i command"
      using d by simp_all
    have seq: "unat (fi_sequence i) = Suc (recv_ack l)"
      using accept(2) by (simp add: recv_ack_def stream_ack_sequence_def unat_accepted)
    have mem: "i \<in> set (lk_sent l)" and num: "numbered (lk_sent l)" using l i by (auto simp: link_inv_def)
    from numbered_mem [OF num mem] seq
    have "Suc (recv_ack l) \<le> length (lk_sent l)" and "take (Suc (recv_ack l)) (lk_sent l) = take (recv_ack l) (lk_sent l) @ [i]"
      by (auto simp: take_Suc_conv_app_nth)
    moreover have "instance_admits recv' inst"
      using admits by (simp add: r accept_state_def instance_admits_def)
    ultimately show ?thesis
      using l inv' seq by (auto simp: link_inv_def recv_ack_def d' r accept_state_def stream_ack_sequence_def)
  next
    case (reject e st')
    then have "d = e" "recv' = st'" using d by simp_all
    moreover have "instance_admits st' inst" using reject(4) admits l by (auto simp: link_inv_def)
    ultimately show ?thesis
      using l inv' reject by (auto simp: link_inv_def recv_ack_def stream_ack_sequence_def)
  qed
qed

lemma link_step_inv: "link_step ops inst l l' \<Longrightarrow> link_inv inst l \<Longrightarrow> link_inv inst l'"
proof (induction rule: link_step.induct)
  case (enqueued l n f q s')
  then show ?case by (intro link_inv_enqueued)
next
  case (transmitted l after m b)
  then have "inv (lk_store l)" by (simp add: link_inv_def session_inv_def)
  from deliverable_abs [OF this transmitted(1)]
  have "set (bt_frames b) \<subseteq> set (ob_frames (abs (lk_store l)))" by (auto dest: in_set_takeD)
  with transmitted(2) show ?case by (auto simp: link_inv_def recv_ack_def)
next
  case (received i l command d recv')
  then show ?case by (intro link_inv_received)
next
  case (forgot l n c recv')
  then have r: "recv' = snd (compact_dedup_through (lk_recv l) n)" by simp
  with forgot(2) show ?case
    by (simp add: link_inv_def recv_ack_def stream_ack_sequence_def inbound_inv_compact)
       (simp add: instance_admits_def compact_dedup_through_def)
next
  case (confirmed a l q s')
  then have i: "inv (lk_store l)" and a: "unat a \<le> recv_ack l" by (simp_all add: link_inv_def session_inv_def)
  have "outbox_step ops (lk_store l) (Acknowledge a) = Inr s'" using confirmed(2) by simp
  from step_session [OF i this] acknowledge_abs [OF i confirmed(2)] a confirmed(3) show ?case
    by (auto intro!: link_inv_store dest: subsetD [OF confirm_fields(3)])
next
  case (compacted l c s')
  then have i: "inv (lk_store l)" by (simp add: link_inv_def session_inv_def)
  have "outbox_step ops (lk_store l) CompactConfirmed = Inr s'" using compacted(1) by simp
  from step_session [OF i this] compact_confirmed_abs [OF i compacted(1)] compacted(2) show ?case
    by (intro link_inv_store) (auto simp: link_inv_def dest: subsetD [OF confirm_fields(3)])
qed

lemma link_run_inv: "link_run ops inst l l' \<Longrightarrow> link_inv inst l \<Longrightarrow> link_inv inst l'"
  by (induction rule: rtranclp_induct) (auto intro: link_step_inv)

text \<open>What the sender has not confirmed it still holds.\<close>

lemma link_unconfirmed_retained:
  assumes l: "link_inv inst l" and ok: "snapshot_ok (abs (lk_store l))"
    and i: "i \<in> set (lk_sent l)" "ob_ack_sequence (abs (lk_store l)) < fi_sequence i"
  shows "\<exists>f \<in> set (ob_frames (abs (lk_store l))). stored_frame_identity f = i"
proof -
  let ?x = "abs (lk_store l)"
  let ?first = "unat (first_sequence (ob_frames ?x))"
  have num: "numbered (lk_sent l)" and hi: "unat (fi_sequence i) \<le> unat (ob_highest_sequence ?x)"
    using l numbered_mem [OF _ i(1)] by (auto simp: link_inv_def)
  have lo: "unat (ob_ack_sequence ?x) < unat (fi_sequence i)" using i(2) by (simp add: word_less_nat_alt)
  have ne: "ob_frames ?x \<noteq> []" using ok lo hi by (auto simp: snapshot_ok_def Let_def)
  have "?first \<le> Suc (unat (ob_ack_sequence ?x))" using ok by (simp add: snapshot_ok_def Let_def)
  with lo hi snapshot_ok_highest [OF ok ne]
  have "unat (fi_sequence i) \<in> set [?first ..< ?first + length (ob_frames ?x)]" by simp
  then have "unat (fi_sequence i) \<in> set (seqs (ob_frames ?x))" using snapshot_ok_seqs [OF ok] by simp
  then obtain f where f: "f \<in> set (ob_frames ?x)" "sf_sequence f = fi_sequence i"
    by (auto simp: word_unat_eq_iff)
  then have "stored_frame_identity f \<in> set (lk_sent l)" using l by (auto simp: link_inv_def)
  then have "stored_frame_identity f = i"
    using f(2) by (intro numbered_inj [OF num _ i(1)]) (simp_all add: stored_frame_identity_def)
  with f(1) show ?thesis by blast
qed

lemma link_unconfirmed_held:
  assumes l: "link_inv inst l" and ok: "snapshot_ok (abs (lk_store l))"
    and i: "i \<in> set (drop (unat (ob_ack_sequence (abs (lk_store l)))) (lk_sent l))"
  shows "\<exists>f \<in> set (ob_frames (abs (lk_store l))). stored_frame_identity f = i"
proof -
  let ?a = "unat (ob_ack_sequence (abs (lk_store l)))"
  have num: "numbered (lk_sent l)" using l by (simp add: link_inv_def)
  from i obtain k where "k < length (lk_sent l) - ?a" "i = lk_sent l ! (?a + k)" by (auto simp: in_set_conv_nth)
  then have "unat (fi_sequence i) = Suc (?a + k)" using numbered_nth [OF num] by simp
  then have "ob_ack_sequence (abs (lk_store l)) < fi_sequence i" by (simp add: word_less_nat_alt)
  with link_unconfirmed_retained [OF l ok] i show ?thesis by (blast dest: in_set_dropD)
qed

lemma ingest_next_accepted:
  assumes "inbound_inv st" and "instance_admits st inst" and "frame_well_formed i"
    and "unat (fi_sequence i) = Suc (unat (stream_ack_sequence st))"
  shows "\<exists>d st'. ingest st inst i None = (d, st') \<and> accepted d"
proof -
  have "seq_observe (ist_ack (instances_after st inst)) (fi_sequence i) = SeqAccept"
    using assms(4) by (simp add: seq_observe_Accept_iff stream_ack_sequence_def)
  with assms show ?thesis
    by (simp add: ingest_alt ingest_sequenced_def Let_def ingest_accept_inv)
qed

text \<open>A transmission of one frame and its arrival extend the log by the next frame.\<close>

lemma link_progress:
  assumes l: "link_inv inst l" and load: "snapshot_of ops (lk_store l) = Inr (abs (lk_store l))"
    and ok: "snapshot_ok (abs (lk_store l))" and more: "recv_ack l < length (lk_sent l)"
  shows "\<exists>l'. link_run ops inst l l' \<and> lk_store l' = lk_store l \<and> lk_sent l' = lk_sent l
    \<and> recv_ack l' = Suc (recv_ack l)"
proof -
  let ?i = "lk_sent l ! recv_ack l" and ?s = "lk_store l" and ?ack = "stream_ack_sequence (lk_recv l)"
  have num: "numbered (lk_sent l)" and i: "?i \<in> set (lk_sent l)" using l more by (simp_all add: link_inv_def)
  have seq: "unat (fi_sequence ?i) = Suc (unat ?ack)"
    using numbered_nth [OF num more] by (simp add: recv_ack_def)
  have "ob_ack_sequence (abs ?s) < fi_sequence ?i"
    using l seq by (simp add: link_inv_def recv_ack_def word_less_nat_alt)
  from link_unconfirmed_retained [OF l ok i this] obtain f
    where f: "f \<in> set (ob_frames (abs ?s))" "stored_frame_identity f = ?i" by blast
  have "\<not> ob_highest_sequence (abs ?s) < ?ack" using l by (simp add: link_inv_def recv_ack_def word_less_nat_alt)
  then obtain b where b: "deliverable ops ?s ?ack (Suc (length (ob_frames (abs ?s)))) = Inr b"
    and fs: "bt_frames b = filter (\<lambda>f. ?ack < sf_sequence f) (ob_frames (abs ?s))"
    by (simp add: deliverable_def load order_trans [OF length_filter_le])
  have "?ack < sf_sequence f" using seq f(2) by (simp add: stored_frame_identity_def word_less_nat_alt flip: f(2))
  then have w: "?i \<in> stored_frame_identity ` set (bt_frames b)" using f fs by (force simp: image_iff)
  let ?m = "l\<lparr>lk_wire := lk_wire l \<union> stored_frame_identity ` set (bt_frames b)\<rparr>"
  have wf: "frame_well_formed ?i"
    using f(1) ok unfolding f(2) [symmetric]
    by (auto simp: frame_well_formed_def stored_frame_identity_def snapshot_ok_def Let_def list_all_iff frame_ok_def)
  obtain d st' where d: "ingest (lk_recv ?m) inst ?i None = (d, st')" "accepted d"
    using ingest_next_accepted [OF _ _ wf seq, of inst] l by (auto simp: link_inv_def)
  let ?n = "?m\<lparr>lk_recv := st', lk_log := lk_log ?m @ (if accepted d then [?i] else []),
      lk_acks := insert (decision_ack_sequence d) (lk_acks ?m)\<rparr>"
  have s1: "link_step ops inst l ?m" by (rule transmitted [OF b])
  moreover have s2: "link_step ops inst ?m ?n" by (rule received [OF _ d(1)]) (simp add: w)
  ultimately have run: "link_run ops inst l ?n" by (meson converse_rtranclp_into_rtranclp rtranclp.rtrancl_refl)
  have "link_inv inst ?n" by (rule link_run_inv [OF run l])
  then have "length (lk_log ?n) = recv_ack ?n" by (rule link_inv_log)
  moreover have "length (lk_log ?n) = Suc (recv_ack l)" using link_inv_log [OF l] d(2) by simp
  ultimately show ?thesis using run by (intro exI [of _ ?n]) simp
qed

lemma link_catches_up:
  assumes "link_inv inst l" and "snapshot_of ops (lk_store l) = Inr (abs (lk_store l))"
    and "snapshot_ok (abs (lk_store l))"
  shows "\<exists>l'. link_run ops inst l l' \<and> lk_store l' = lk_store l \<and> lk_sent l' = lk_sent l \<and> lk_log l' = lk_sent l"
  using assms
proof (induction "length (lk_sent l) - recv_ack l" arbitrary: l)
  case 0
  then have "lk_log l = lk_sent l" by (simp add: link_inv_def)
  then show ?case by blast
next
  case (Suc n)
  then have "recv_ack l < length (lk_sent l)" by simp
  from link_progress [OF Suc.prems this] obtain m where m: "link_run ops inst l m"
    "lk_store m = lk_store l" "lk_sent m = lk_sent l" "recv_ack m = Suc (recv_ack l)" by blast
  have "\<exists>l'. link_run ops inst m l' \<and> lk_store l' = lk_store m \<and> lk_sent l' = lk_sent m \<and> lk_log l' = lk_sent m"
    using Suc.hyps(2) Suc.prems m link_run_inv [OF m(1)] by (intro Suc.hyps(1)) simp_all
  with m show ?case by (auto intro: rtranclp_trans)
qed

end

section \<open>Properties\<close>

lemma link_started: "mem.link_inv inst (link_start InMemoryOutbox_new inst)"
  by (rule mem.link_inv_start) simp_all

text \<open>
  C6. Reliable, ordered, exactly-once delivery over an unreliable network. Whatever the sender enqueues,
  transmits, confirms and compacts, and whichever frames and acknowledgements are lost, repeated, delayed
  or reordered, the frames the receiver has accepted are a prefix of the frames enqueued, in their order and each
  once; the sender never takes a frame as confirmed that the receiver has not accepted; and every frame
  it has not taken as confirmed it still holds, until the last sequence is used up.
\<close>

theorem exchange_delivers_prefix:
  assumes "link_run in_memory_ops inst (link_start InMemoryOutbox_new inst) l"
  shows "lk_log l = take (recv_ack l) (lk_sent l) \<and> recv_ack l \<le> length (lk_sent l)
    \<and> unat (ob_ack_sequence (in_memory_abs (lk_store l))) \<le> length (lk_log l)
    \<and> (snapshot_of in_memory_ops (lk_store l) = Inr x \<longrightarrow>
         (\<forall>i \<in> set (drop (unat (ob_ack_sequence x)) (lk_sent l)).
            \<exists>f \<in> set (ob_frames x). stored_frame_identity f = i))"
proof -
  have l: "mem.link_inv inst l" by (rule mem.link_run_inv [OF assms link_started])
  have "\<exists>f \<in> set (ob_frames x). stored_frame_identity f = i"
    if "snapshot_of in_memory_ops (lk_store l) = Inr x"
      and "i \<in> set (drop (unat (ob_ack_sequence x)) (lk_sent l))" for i
    using mem.snapshot_of_abs [OF TrueI that(1)] mem.link_unconfirmed_held [OF l, of i] that(2) by simp
  with l show ?thesis by (auto simp: mem.link_inv_def)
qed

definition sample_link :: "in_memory_outbox link" where
  "sample_link =
     (let s = run_ops (outbox_step in_memory_ops) InMemoryOutbox_new [Enqueue 1 (frame_at 1 ''a'')]
      in (link_start InMemoryOutbox_new ''c'')\<lparr>lk_store := s, lk_sent := [stored_frame_identity (frame_at 1 ''a'')]\<rparr>)"

lemma sample_link_run: "link_run in_memory_ops ''c'' (link_start InMemoryOutbox_new ''c'') sample_link"
proof -
  let ?l = "link_start InMemoryOutbox_new ''c''"
  obtain s where s: "enqueue in_memory_ops (lk_store ?l) 1 (frame_at 1 ''a'') = Inr (1, s)"
    using enqueue_valid [of "lk_store ?l" "frame_at 1 ''a''"] snapshot_ok_default
    by (auto simp: link_start_def OutboxSnapshot_default_def)
  then have "sample_link = ?l\<lparr>lk_store := s, lk_sent := lk_sent ?l @ [stored_frame_identity (frame_at 1 ''a'')]\<rparr>"
    by (simp add: sample_link_def link_start_def)
  with enqueued [OF s, of "''c''"] show ?thesis by (simp add: r_into_rtranclp)
qed

theorem exchange_delivers_prefix_witness:
  "link_run in_memory_ops ''c'' (link_start InMemoryOutbox_new ''c'') sample_link
   \<and> lk_log sample_link = take (recv_ack sample_link) (lk_sent sample_link)"
  using exchange_delivers_prefix [OF sample_link_run] sample_link_run by blast



end
