(* ===== verification/Device_Outbox.thy ===== *)
theory Device_Outbox
  imports Device_Tables Exchange_Link
begin

text \<open>
  \<^verbatim>\<open>store.rs\<close>: the client outbox table as a \<^verbatim>\<open>FrameOutbox\<close>. A row is an envelope with its JSON bytes
  and a published flag; the acknowledged sequence is the largest published one, and the frames are
  decoded from the unpublished rows. The store keeps the contract of the exchange's outbox for any
  JSON implementation that reads back what it wrote.
\<close>

section \<open>Envelopes in rows\<close>

text \<open>\<^verbatim>\<open>serde_json\<close> and SHA-256 as the source calls them: envelopes to and from bytes, a message to bytes,
  the string under the key \<^verbatim>\<open>kind\<close> of a message's value, and the hexadecimal digest.\<close>

record 'm outbox_codec =
  oc_to_vec :: "'m envelope \<Rightarrow> string + bytes"
  oc_from_slice :: "bytes \<Rightarrow> string + 'm envelope"
  oc_message_to_vec :: "'m \<Rightarrow> string + bytes"
  oc_message_kind :: "'m \<Rightarrow> string + string option"
  oc_sha256_hex :: "bytes \<Rightarrow> string"

definition CLIENT_CONTROL_PORT_SCHEMA_VERSION :: string where
  "CLIENT_CONTROL_PORT_SCHEMA_VERSION = ''winwincode/v1''"

definition bound_outbox_stream :: "device_store \<Rightarrow> device_store_error + outbox_stream" where
  "bound_outbox_stream s = ok_or (ds_outbox_stream s)
     (invalid ''the durable outbox stream is not bound; call bind_outbox_stream first'')"

definition bind_outbox_stream :: "device_store \<Rightarrow> string \<Rightarrow> string \<Rightarrow> device_store_error + device_store" where
  "bind_outbox_stream s client_node_id client_instance_id =
     rbind (check_all
       [require_non_empty client_node_id ''client node id'' MAX_ID_BYTES,
        require_non_empty client_instance_id ''client instance id'' MAX_ID_BYTES,
        connection s]) (\<lambda>_.
     Inr (s\<lparr>ds_outbox_stream := Some
       \<lparr>os_client_node_id = client_node_id, os_client_instance_id = client_instance_id\<rparr>\<rparr>))"

definition decode_outbox_envelope :: "'m outbox_codec \<Rightarrow> bytes \<Rightarrow> device_store_error + 'm envelope" where
  "decode_outbox_envelope c payload =
     rbind (map_err (\<lambda>e. invalid (''stored envelope is corrupt: '' @ e)) (oc_from_slice c payload)) (\<lambda>env.
     if env_schema_version env \<noteq> CLIENT_CONTROL_PORT_SCHEMA_VERSION
     then Inl (invalid ''stored envelope schema version is not the current ClientControlPort contract'')
     else Inr env)"

definition envelope_kind :: "'m outbox_codec \<Rightarrow> 'm \<Rightarrow> device_store_error + string" where
  "envelope_kind c message =
     rbind (map_err (\<lambda>e. invalid (''message is not encodable: '' @ e)) (oc_message_kind c message)) (\<lambda>kind.
     ok_or kind (invalid ''encoded message carries no kind string''))"

definition codec_error :: "device_store_error_kind \<Rightarrow> string \<Rightarrow> frame_codec_error \<Rightarrow> device_store_error" where
  "codec_error kind prefix e = \<lparr>dse_kind = kind, dse_message = CodecErrorText prefix e\<rparr>"

definition row_identity :: "'m outbox_codec \<Rightarrow> 'm envelope \<Rightarrow> frame_codec_error + frame_identity" where
  "row_identity c env = envelope_identity (oc_sha256_hex c) (oc_message_to_vec c) env"

definition stored_frame_from_row :: "'m outbox_codec \<Rightarrow> string \<Rightarrow> outbox_row \<Rightarrow> device_store_error + stored_frame" where
  "stored_frame_from_row c client_node_id r =
     rbind (decode_outbox_envelope c (obr_payload r)) (\<lambda>env.
     if env_client_node_id env \<noteq> client_node_id \<or> env_message_id env \<noteq> obr_message_id r
        \<or> env_occurred_at env \<noteq> obr_occurred_at r
     then Inl (adapter ''stored outbox row disagrees with its encoded envelope identity'')
     else
       rbind (ok_or (u64_of_i64 (obr_envelope_sequence r))
         (adapter ''stored outbox sequence is negative'')) (\<lambda>sequence.
       if env_sequence env \<noteq> sequence
       then Inl (adapter ''stored outbox row disagrees with its encoded envelope sequence'')
       else
         rbind (envelope_kind c (env_message env)) (\<lambda>kind.
         if kind \<noteq> obr_kind r
         then Inl (adapter ''stored outbox row disagrees with its encoded envelope kind'')
         else
           rbind (map_err (codec_error KAdapter ''stored frame digest: '') (row_identity c env)) (\<lambda>identity.
           Inr \<lparr>sf_message_id = fi_message_id identity, sf_sequence = fi_sequence identity,
                sf_payload_digest = fi_payload_digest identity, sf_frame = obr_payload r\<rparr>))))"

section \<open>The table\<close>

definition insert_outbox_row ::
    "device_store \<Rightarrow> 'm envelope \<Rightarrow> string \<Rightarrow> bytes \<Rightarrow> device_store_error + device_store" where
  "insert_outbox_row s env kind payload =
     rbind (ok_or (i64_of_u64 (env_sequence env))
       (adapter ''envelope sequence is outside the SQLite integer range'')) (\<lambda>sequence.
     if env_message_id env \<in> obr_message_id ` set (ds_client_outbox s) \<or> sequence = 0
     then Inl (conflict (''outbox message id '' @ env_message_id env @ '' already exists''))
     else Inr (s\<lparr>ds_client_outbox := ds_client_outbox s @
         [\<lparr>obr_outbox_sequence = ds_outbox_autoincrement s + 1, obr_message_id = env_message_id env,
           obr_client_node_id = env_client_node_id env,
           obr_client_instance_id = env_client_instance_id env, obr_envelope_sequence = sequence,
           obr_kind = kind, obr_payload = payload, obr_occurred_at = env_occurred_at env,
           obr_published = False\<rparr>],
       ds_outbox_autoincrement := ds_outbox_autoincrement s + 1\<rparr>))"

definition append_outbox_envelope ::
    "'m outbox_codec \<Rightarrow> device_store \<Rightarrow> 'm envelope \<Rightarrow> string \<Rightarrow> device_store_error + u64 \<times> device_store" where
  "append_outbox_envelope c s env kind =
     rbind (check_all
       [ensure (env_schema_version env = CLIENT_CONTROL_PORT_SCHEMA_VERSION)
          (invalid ''outbox envelope schema version is not the current ClientControlPort contract''),
        require_non_empty (env_client_node_id env) ''client node id'' MAX_ID_BYTES,
        require_non_empty (env_client_instance_id env) ''client instance id'' MAX_ID_BYTES,
        require_non_empty (env_message_id env) ''message id'' MAX_ID_BYTES,
        require_non_empty (env_occurred_at env) ''occurred at'' MAX_ID_BYTES,
        require_non_empty kind ''outbox kind'' MAX_ID_BYTES,
        ensure (\<not> (env_sequence env = 0 \<or> env_sequence env > max_safe_integer))
          (invalid ''outbox envelope sequence must be a positive SQLite-range integer'')]) (\<lambda>_.
     rbind (map_err (\<lambda>e. invalid (''envelope is not encodable: '' @ e)) (oc_to_vec c env)) (\<lambda>payload.
     rbind (connection s) (\<lambda>_.
     let highest = tbl_max obr_envelope_sequence
           (filter (\<lambda>r. obr_client_node_id r = env_client_node_id env
                        \<and> obr_client_instance_id r = env_client_instance_id env) (ds_client_outbox s))
     in if (case highest of None \<Rightarrow> False
            | Some h \<Rightarrow> (case u64_of_i64 h of None \<Rightarrow> False | Some h' \<Rightarrow> h' \<ge> env_sequence env))
        then Inl (conflict ''outbox envelope sequence must strictly advance per sender'')
        else
          rbind (insert_outbox_row s env kind payload) (\<lambda>s'.
          rbind (ok_or (u64_of_i64 (ds_outbox_autoincrement s'))
            (adapter ''outbox sequence is negative'')) (\<lambda>n.
          Inr (n, s'))))))"

record client_outbox_entry =
  oe_outbox_sequence :: u64
  oe_message_id :: string
  oe_client_node_id :: string
  oe_client_instance_id :: string
  oe_envelope_sequence :: u64
  oe_kind :: string
  oe_payload :: bytes
  oe_occurred_at :: string

definition row_to_outbox_entry :: "outbox_row \<Rightarrow> sqlite_failure + client_outbox_entry" where
  "row_to_outbox_entry r =
     rbind (ok_or (u64_of_i64 (obr_outbox_sequence r))
       (FromSqlConversionFailure 0 ''stored outbox sequence is negative'')) (\<lambda>outbox_sequence.
     rbind (ok_or (u64_of_i64 (obr_envelope_sequence r))
       (FromSqlConversionFailure 0 ''stored envelope sequence is negative'')) (\<lambda>envelope_sequence.
     Inr \<lparr>oe_outbox_sequence = outbox_sequence, oe_message_id = obr_message_id r,
          oe_client_node_id = obr_client_node_id r, oe_client_instance_id = obr_client_instance_id r,
          oe_envelope_sequence = envelope_sequence, oe_kind = obr_kind r, oe_payload = obr_payload r,
          oe_occurred_at = obr_occurred_at r\<rparr>))"

definition pending_outbox_envelopes :: "device_store \<Rightarrow> device_store_error + client_outbox_entry list" where
  "pending_outbox_envelopes s =
     rbind (connection s) (\<lambda>_.
     map_err sql_error (collect_results (map row_to_outbox_entry
       (sort_key obr_outbox_sequence (filter (\<lambda>r. \<not> obr_published r) (ds_client_outbox s))))))"

definition mark_outbox_published :: "device_store \<Rightarrow> string \<Rightarrow> device_store_error + device_store" where
  "mark_outbox_published s message_id =
     rbind (require_non_empty message_id ''message id'' MAX_ID_BYTES) (\<lambda>_.
     rbind (connection s) (\<lambda>_.
     if tbl_count (\<lambda>r. obr_message_id r = message_id) (ds_client_outbox s) = 0
     then Inl (not_found (''outbox message id '' @ message_id @ '' does not exist''))
     else Inr (s\<lparr>ds_client_outbox := tbl_update (\<lambda>r. obr_message_id r = message_id)
       (\<lambda>r. r\<lparr>obr_published := True\<rparr>) (ds_client_outbox s)\<rparr>)))"

definition node_rows :: "device_store \<Rightarrow> string \<Rightarrow> outbox_row list" where
  "node_rows s client_node_id = filter (\<lambda>r. obr_client_node_id r = client_node_id) (ds_client_outbox s)"

definition outbox_stream_cursor ::
    "device_store \<Rightarrow> string \<Rightarrow> device_store_error + u64 option \<times> u64 option" where
  "outbox_stream_cursor s client_node_id =
     (let to_cursor = (\<lambda>stored :: int option. case stored of
            None \<Rightarrow> Inr None
          | Some i \<Rightarrow> rbind (ok_or (u64_of_i64 i) (adapter ''stored outbox sequence is negative''))
                        (\<lambda>n. Inr (Some n)));
          highest = tbl_max obr_envelope_sequence (node_rows s client_node_id);
          acknowledgement = tbl_max obr_envelope_sequence (filter obr_published (node_rows s client_node_id))
      in rbind (to_cursor acknowledgement) (\<lambda>a.
         rbind (to_cursor highest) (\<lambda>h. Inr (a, h))))"

definition i64_prefix :: "u64 \<Rightarrow> device_store_error + int" where
  "i64_prefix sequence = ok_or (i64_of_u64 sequence)
     (adapter ''outbox sequence is outside the SQLite integer range'')"

definition unwrap_or_0 :: "u64 option \<Rightarrow> u64" where
  "unwrap_or_0 m = (case m of None \<Rightarrow> 0 | Some x \<Rightarrow> x)"

section \<open>The frame outbox\<close>

definition device_load :: "'m outbox_codec \<Rightarrow> device_store \<Rightarrow> device_store_error + outbox_snapshot option" where
  "device_load c s =
     rbind (bound_outbox_stream s) (\<lambda>stream.
     rbind (connection s) (\<lambda>_.
     rbind (outbox_stream_cursor s (os_client_node_id stream)) (\<lambda>(ack_sequence, highest).
     case highest of
       None \<Rightarrow> Inr None
     | Some highest_sequence \<Rightarrow>
         rbind (collect_results (map (stored_frame_from_row c (os_client_node_id stream))
           (sort_key obr_envelope_sequence
             (filter (\<lambda>r. \<not> obr_published r) (node_rows s (os_client_node_id stream)))))) (\<lambda>frames.
         Inr (Some \<lparr>ob_ack_sequence = unwrap_or_0 ack_sequence, ob_highest_sequence = highest_sequence,
                    ob_frames = frames\<rparr>)))))"

definition device_append ::
    "'m outbox_codec \<Rightarrow> device_store \<Rightarrow> u64 \<Rightarrow> stored_frame \<Rightarrow> device_store_error + device_store" where
  "device_append c s expected_highest_sequence frame =
     rbind (bound_outbox_stream s) (\<lambda>stream.
     rbind (decode_outbox_envelope c (sf_frame frame)) (\<lambda>env.
     if env_client_node_id env \<noteq> os_client_node_id stream
     then Inl (invalid (''outbox frame names client node '' @ env_client_node_id env
            @ '' but the stream is bound to '' @ os_client_node_id stream))
     else if env_client_instance_id env \<noteq> os_client_instance_id stream
     then Inl (invalid (''outbox frame names client instance '' @ env_client_instance_id env
            @ '' but the stream is bound to '' @ os_client_instance_id stream))
     else if env_message_id env \<noteq> sf_message_id frame \<or> env_sequence env \<noteq> sf_sequence frame
     then Inl (invalid ''outbox frame identity disagrees with its encoded envelope'')
     else
       rbind (map_err (codec_error KInvalidInput ''outbox frame digest: '') (row_identity c env)) (\<lambda>identity.
       if fi_payload_digest identity \<noteq> sf_payload_digest frame
       then Inl (invalid ''outbox frame payload digest does not match its encoded envelope'')
       else
         rbind (envelope_kind c (env_message env)) (\<lambda>kind.
         rbind (map_err (\<lambda>e. invalid (''outbox envelope is not encodable: '' @ e)) (oc_to_vec c env)) (\<lambda>payload.
         rbind (connection s) (\<lambda>_.
         rbind (outbox_stream_cursor s (os_client_node_id stream)) (\<lambda>(_, stored_highest).
         if unwrap_or_0 stored_highest \<noteq> expected_highest_sequence
         then Inl (conflict (''outbox append expected the durable high-water mark ''
                @ decimal (unat expected_highest_sequence) @ '', found ''
                @ decimal (unat (unwrap_or_0 stored_highest))))
         else insert_outbox_row s env kind payload)))))))"

definition device_record_acknowledgement ::
    "device_store \<Rightarrow> u64 \<Rightarrow> u64 \<Rightarrow> device_store_error + device_store" where
  "device_record_acknowledgement s expected_ack_sequence ack_sequence =
     rbind (bound_outbox_stream s) (\<lambda>stream.
     rbind (connection s) (\<lambda>_.
     rbind (outbox_stream_cursor s (os_client_node_id stream)) (\<lambda>(stored_ack, stored_highest).
     if unwrap_or_0 stored_ack \<noteq> expected_ack_sequence
     then Inl (conflict (''outbox acknowledgement raced with the durable cursor: expected ''
            @ decimal (unat expected_ack_sequence) @ '', found '' @ decimal (unat (unwrap_or_0 stored_ack))))
     else if ack_sequence > unwrap_or_0 stored_highest
     then Inl (conflict (''outbox acknowledgement '' @ decimal (unat ack_sequence)
            @ '' is beyond the retained high-water mark '' @ decimal (unat (unwrap_or_0 stored_highest))))
     else
       rbind (i64_prefix ack_sequence) (\<lambda>n.
       Inr (s\<lparr>ds_client_outbox := tbl_update
         (\<lambda>r. obr_client_node_id r = os_client_node_id stream \<and> obr_envelope_sequence r \<le> n)
         (\<lambda>r. r\<lparr>obr_published := True\<rparr>) (ds_client_outbox s)\<rparr>)))))"

definition device_compact_through :: "device_store \<Rightarrow> u64 \<Rightarrow> device_store_error + nat \<times> device_store" where
  "device_compact_through s ack_sequence =
     rbind (bound_outbox_stream s) (\<lambda>stream.
     rbind (connection s) (\<lambda>_.
     rbind (outbox_stream_cursor s (os_client_node_id stream)) (\<lambda>(_, stored_highest).
     if ack_sequence > unwrap_or_0 stored_highest
     then Inl (conflict (''outbox compaction '' @ decimal (unat ack_sequence)
            @ '' is beyond the retained high-water mark '' @ decimal (unat (unwrap_or_0 stored_highest))))
     else
       rbind (i64_prefix ack_sequence) (\<lambda>n.
       let p = (\<lambda>r. obr_client_node_id r = os_client_node_id stream \<and> \<not> obr_published r
                    \<and> obr_envelope_sequence r \<le> n)
       in Inr (tbl_count p (ds_client_outbox s),
               s\<lparr>ds_client_outbox := tbl_update p (\<lambda>r. r\<lparr>obr_published := True\<rparr>) (ds_client_outbox s)\<rparr>)))))"

definition device_ops :: "'m outbox_codec \<Rightarrow> (device_store, device_store_error) frame_outbox" where
  "device_ops c =
     \<lparr>fo_load = device_load c, fo_append = device_append c,
      fo_record_acknowledgement = device_record_acknowledgement,
      fo_compact_through = device_compact_through\<rparr>"

section \<open>Adoption of the enrolled stream\<close>

fun adopt_rows ::
    "'m outbox_codec \<Rightarrow> string \<Rightarrow> string \<Rightarrow> outbox_row list \<Rightarrow> device_store \<Rightarrow> device_store_error + device_store" where
  "adopt_rows c placeholder enrolled [] s = Inr s"
| "adopt_rows c placeholder enrolled (r # rs) s =
     rbind (map_err (\<lambda>e. adapter (''published outbox row '' @ obr_message_id r @ '' is corrupt: '' @ e))
       (oc_from_slice c (obr_payload r))) (\<lambda>env.
     rbind (if env_client_node_id env \<noteq> placeholder \<or> env_message_id env \<noteq> obr_message_id r
            then Inr True
            else rbind (envelope_kind c (env_message env)) (\<lambda>kind. Inr (kind \<noteq> obr_kind r))) (\<lambda>disagrees.
     if disagrees
     then Inl (adapter (''published outbox row '' @ obr_message_id r
            @ '' disagrees with its encoded envelope''))
     else
       rbind (ok_or (u64_of_i64 (obr_envelope_sequence r))
         (adapter ''stored outbox sequence is negative'')) (\<lambda>sequence.
       if env_sequence env \<noteq> sequence
       then Inl (adapter (''published outbox row '' @ obr_message_id r
              @ '' disagrees with its encoded sequence''))
       else
         let adopted = env\<lparr>env_client_node_id := enrolled\<rparr>
         in rbind (map_err (\<lambda>e. adapter (''adopted outbox row for '' @ enrolled
              @ '' is not encodable: '' @ e)) (oc_to_vec c adopted)) (\<lambda>payload.
            let message_id = enrolled @ ''-'' @ obr_kind r @ ''-'' @ decimal (unat sequence)
            in if message_id \<in> obr_message_id ` set (ds_client_outbox s)
               then Inl (conflict ''the adopted outbox message id already exists'')
               else adopt_rows c placeholder enrolled rs
                 (s\<lparr>ds_client_outbox := ds_client_outbox s @
                    [\<lparr>obr_outbox_sequence = ds_outbox_autoincrement s + 1, obr_message_id = message_id,
                      obr_client_node_id = enrolled,
                      obr_client_instance_id = env_client_instance_id adopted,
                      obr_envelope_sequence = obr_envelope_sequence r, obr_kind = obr_kind r,
                      obr_payload = payload, obr_occurred_at = obr_occurred_at r,
                      obr_published = True\<rparr>],
                    ds_outbox_autoincrement := ds_outbox_autoincrement s + 1\<rparr>)))))"

definition adopt_enrolled_stream ::
    "'m outbox_codec \<Rightarrow> device_store \<Rightarrow> string \<Rightarrow> string \<Rightarrow> device_store_error + device_store" where
  "adopt_enrolled_stream c s placeholder_node_id enrolled_node_id =
     rbind (check_all
       [require_non_empty placeholder_node_id ''placeholder node id'' MAX_ID_BYTES,
        require_non_empty enrolled_node_id ''enrolled node id'' MAX_ID_BYTES]) (\<lambda>_.
     rbind (bound_outbox_stream s) (\<lambda>stream.
     rbind (connection s) (\<lambda>_.
     if tbl_max obr_envelope_sequence (node_rows s enrolled_node_id) \<noteq> None
     then Inl (conflict ''the enrolled node stream already has rows'')
     else
       rbind (adopt_rows c placeholder_node_id enrolled_node_id
         (sort_key obr_envelope_sequence (filter obr_published (node_rows s placeholder_node_id))) s) (\<lambda>s'.
       Inr (s'\<lparr>ds_outbox_stream := Some
         \<lparr>os_client_node_id = enrolled_node_id,
          os_client_instance_id = os_client_instance_id stream\<rparr>\<rparr>)))))"

section \<open>The snapshot a table stands for\<close>

definition row_frame :: "'m outbox_codec \<Rightarrow> string \<Rightarrow> outbox_row \<Rightarrow> stored_frame" where
  "row_frame c node r =
     (case stored_frame_from_row c node r of
        Inr f \<Rightarrow> f
      | Inl _ \<Rightarrow> \<lparr>sf_message_id = obr_message_id r, sf_sequence = word_of_int (obr_envelope_sequence r),
                  sf_payload_digest = [], sf_frame = obr_payload r\<rparr>)"

definition unpublished :: "device_store \<Rightarrow> string \<Rightarrow> outbox_row list" where
  "unpublished s node = sort_key obr_envelope_sequence (filter (\<lambda>r. \<not> obr_published r) (node_rows s node))"

definition max_or_0 :: "outbox_row list \<Rightarrow> int" where
  "max_or_0 rows = (case tbl_max obr_envelope_sequence rows of None \<Rightarrow> 0 | Some m \<Rightarrow> m)"

definition device_abs :: "'m outbox_codec \<Rightarrow> device_store \<Rightarrow> outbox_snapshot" where
  "device_abs c s =
     (case ds_outbox_stream s of
        None \<Rightarrow> OutboxSnapshot_default
      | Some stream \<Rightarrow>
          let node = os_client_node_id stream
          in \<lparr>ob_ack_sequence = word_of_int (max_or_0 (filter obr_published (node_rows s node))),
              ob_highest_sequence = word_of_int (max_or_0 (node_rows s node)),
              ob_frames = map (row_frame c node) (unpublished s node)\<rparr>)"

definition row_in_range :: "outbox_row \<Rightarrow> bool" where
  "row_in_range r \<longleftrightarrow> 0 < obr_envelope_sequence r \<and> obr_envelope_sequence r < 2 ^ 63"

definition device_inv :: "device_store \<Rightarrow> bool" where
  "device_inv s \<longleftrightarrow> list_all row_in_range (ds_client_outbox s)"

lemma max_or_0_cases:
  "rows = [] \<and> max_or_0 rows = 0 \<or>
     (\<exists>r \<in> set rows. obr_envelope_sequence r = max_or_0 rows)
     \<and> (\<forall>r \<in> set rows. obr_envelope_sequence r \<le> max_or_0 rows)"
proof (cases "tbl_max obr_envelope_sequence rows")
  case None
  then show ?thesis by (simp add: max_or_0_def)
next
  case (Some m)
  then have "max_or_0 rows = m" by (simp add: max_or_0_def)
  with Some show ?thesis by (simp add: tbl_max_Some_iff)
qed

lemma max_or_0_bounds: "list_all row_in_range rows \<Longrightarrow> 0 \<le> max_or_0 rows \<and> max_or_0 rows < 2 ^ 63"
  using max_or_0_cases [of rows] by (fastforce simp: list_all_iff row_in_range_def)

lemma max_or_0_ge: "r \<in> set rows \<Longrightarrow> obr_envelope_sequence r \<le> max_or_0 rows"
  using max_or_0_cases [of rows] by auto

lemma max_or_0_attained: "0 < max_or_0 rows \<Longrightarrow> \<exists>r \<in> set rows. obr_envelope_sequence r = max_or_0 rows"
  using max_or_0_cases [of rows] by auto

lemma max_or_0_eqI:
  assumes "list_all row_in_range rows" and "\<And>r. r \<in> set rows \<Longrightarrow> obr_envelope_sequence r \<le> m"
    and "m = 0 \<or> (\<exists>r \<in> set rows. obr_envelope_sequence r = m)"
  shows "max_or_0 rows = m"
proof (cases "rows = []")
  case True
  with assms(3) show ?thesis by (auto simp: max_or_0_def)
next
  case False
  with assms have "\<exists>r \<in> set rows. obr_envelope_sequence r = m"
    by (cases rows) (fastforce simp: row_in_range_def)+
  with assms(2) have "tbl_max obr_envelope_sequence rows = Some m" by (auto simp: tbl_max_Some_iff)
  then show ?thesis by (simp add: max_or_0_def)
qed

lemma node_rows_in_range: "device_inv s \<Longrightarrow> list_all row_in_range (filter p (node_rows s node))"
  by (auto simp: device_inv_def node_rows_def list_all_iff)

lemma node_rows_all: "device_inv s \<Longrightarrow> list_all row_in_range (node_rows s node)"
  using node_rows_in_range [of s "\<lambda>_. True"] by simp

lemma uint_word_small: "0 \<le> i \<Longrightarrow> i < 2 ^ 63 \<Longrightarrow> uint (word_of_int i :: u64) = i"
proof -
  assume i: "0 \<le> i" "i < 2 ^ 63"
  then have "take_bit 64 i = i" by (simp add: take_bit_int_eq_self_iff)
  with i show ?thesis by (simp add: unsigned_of_int)
qed

lemma cursor_abs:
  assumes "device_inv s" and "outbox_stream_cursor s node = Inr (a, h)"
  shows "unwrap_or_0 a = word_of_int (max_or_0 (filter obr_published (node_rows s node)))
    \<and> unwrap_or_0 h = word_of_int (max_or_0 (node_rows s node))
    \<and> (h = None \<longleftrightarrow> node_rows s node = [])"
  using assms(2)
  by (auto simp: outbox_stream_cursor_def unwrap_or_0_def max_or_0_def result_simps Let_def
      u64_of_i64_def split: option.splits if_splits)

lemma row_frame_sequence: "sf_sequence (row_frame c node r) = word_of_int (obr_envelope_sequence r)"
  by (cases "stored_frame_from_row c node r")
     (auto simp: row_frame_def stored_frame_from_row_def result_simps row_identity_def
        envelope_identity_def u64_of_i64_def split: if_splits)

lemma frames_after:
  assumes "list_all row_in_range rows"
  shows "filter (\<lambda>f. n < sf_sequence f) (map (row_frame c node) rows) =
    map (row_frame c node) (filter (\<lambda>r. uint n < obr_envelope_sequence r) rows)"
  using assms
  by (induction rows) (auto simp: row_frame_sequence word_less_def uint_word_small row_in_range_def)

lemma unpublished_in_range: "device_inv s \<Longrightarrow> list_all row_in_range (unpublished s node)"
  by (auto simp: unpublished_def device_inv_def node_rows_def list_all_iff)

section \<open>The table keeps the contract\<close>

lemma device_load_abs:
  assumes inv: "device_inv s" and load: "device_load c s = Inr m"
  shows "(case m of None \<Rightarrow> OutboxSnapshot_default | Some x \<Rightarrow> x) = device_abs c s"
proof -
  from load obtain stream a h where stream: "ds_outbox_stream s = Some stream"
    and cur: "outbox_stream_cursor s (os_client_node_id stream) = Inr (a, h)"
    by (auto simp: device_load_def bound_outbox_stream_def result_simps)
  let ?node = "os_client_node_id stream"
  note cur' = cursor_abs [OF inv cur]
  show ?thesis
  proof (cases h)
    case None
    with cur' have "node_rows s ?node = []" by simp
    moreover have "m = None"
      using load stream cur None by (auto simp: device_load_def bound_outbox_stream_def result_simps)
    ultimately show ?thesis
      using stream by (simp add: device_abs_def unpublished_def max_or_0_def OutboxSnapshot_default_def)
  next
    case (Some hi)
    with load stream cur obtain frames where
      fr: "map (stored_frame_from_row c ?node) (unpublished s ?node) = map Inr frames"
      and m: "m = Some \<lparr>ob_ack_sequence = unwrap_or_0 a, ob_highest_sequence = hi, ob_frames = frames\<rparr>"
      by (auto simp: device_load_def bound_outbox_stream_def result_simps unpublished_def)
    have "map (row_frame c ?node) (unpublished s ?node) =
        map (\<lambda>x. case x of Inr f \<Rightarrow> f | Inl _ \<Rightarrow> undefined) (map (stored_frame_from_row c ?node) (unpublished s ?node))"
      unfolding map_map
    proof (rule map_cong [OF refl])
      fix r assume "r \<in> set (unpublished s ?node)"
      then have "stored_frame_from_row c ?node r \<in> set (map Inr frames)" unfolding fr [symmetric] by simp
      then show "row_frame c ?node r =
          ((\<lambda>x. case x of Inr f \<Rightarrow> f | Inl _ \<Rightarrow> undefined) \<circ> stored_frame_from_row c ?node) r"
        by (auto simp: row_frame_def)
    qed
    also have "\<dots> = frames" unfolding fr by (simp add: comp_def)
    finally show ?thesis
      using m stream cur' Some by (simp add: device_abs_def Let_def unwrap_or_0_def)
  qed
qed

text \<open>The row an append writes decodes to a frame with the identity of the one it was given.\<close>

lemma appended_row_frame:
  assumes serde: "\<And>env b. oc_to_vec c env = Inr b \<Longrightarrow> oc_from_slice c b = Inr env \<and> b \<noteq> []"
    and dec: "decode_outbox_envelope c (sf_frame f) = Inr env"
    and node: "env_client_node_id env = node"
    and id: "env_message_id env = sf_message_id f" "env_sequence env = sf_sequence f"
    and ident: "row_identity c env = Inr i" "fi_payload_digest i = sf_payload_digest f"
    and kind: "envelope_kind c (env_message env) = Inr k" and vec: "oc_to_vec c env = Inr payload"
    and row: "obr_message_id r = env_message_id env" "obr_occurred_at r = env_occurred_at env"
      "obr_envelope_sequence r = uint (env_sequence env)" "obr_kind r = k" "obr_payload r = payload"
  shows "frame_ok f \<longrightarrow> same_frame f (row_frame c node r) \<and> sf_frame (row_frame c node r) = payload"
proof -
  have "decode_outbox_envelope c payload = Inr env"
    using dec serde [OF vec] by (auto simp: decode_outbox_envelope_def result_simps split: if_splits)
  moreover have "i = \<lparr>fi_message_id = sf_message_id f, fi_sequence = sf_sequence f,
      fi_payload_digest = sf_payload_digest f\<rparr>"
    using ident id by (auto simp: row_identity_def envelope_identity_def result_simps)
  ultimately have "row_frame c node r =
      \<lparr>sf_message_id = sf_message_id f, sf_sequence = sf_sequence f,
       sf_payload_digest = sf_payload_digest f, sf_frame = payload\<rparr>"
    using node id ident kind row by (simp add: row_frame_def stored_frame_from_row_def)
  then show ?thesis
    using serde [OF vec] by (auto simp: same_frame_def stored_frame_identity_def frame_ok_def)
qed

lemma insert_outbox_row_shape:
  assumes "insert_outbox_row s env k payload = Inr s'"
  obtains r where "ds_client_outbox s' = ds_client_outbox s @ [r]"
    "ds_outbox_stream s' = ds_outbox_stream s" "row_in_range r" "\<not> obr_published r"
    "obr_client_node_id r = env_client_node_id env" "obr_message_id r = env_message_id env"
    "obr_occurred_at r = env_occurred_at env" "obr_envelope_sequence r = uint (env_sequence env)"
    "obr_kind r = k" "obr_payload r = payload"
  using assms
  by (auto simp: insert_outbox_row_def result_simps row_in_range_def uint_0_iff uint_gt_0 split: if_splits)

lemma device_append_abs:
  assumes serde: "\<And>env b. oc_to_vec c env = Inr b \<Longrightarrow> oc_from_slice c b = Inr env \<and> b \<noteq> []"
    and inv: "device_inv s" and h: "h = ob_highest_sequence (device_abs c s)"
    and seq: "unat (sf_sequence f) = Suc (unat h)" and ok: "frame_ok f"
    and app: "device_append c s h f = Inr s'"
  shows "device_inv s' \<and> (\<exists>g env. same_frame f g \<and> decode_outbox_envelope c (sf_frame f) = Inr env
    \<and> oc_to_vec c env = Inr (sf_frame g) \<and> device_abs c s' = push_frame (device_abs c s) g)"
proof -
  from app obtain stream env i k payload where stream: "ds_outbox_stream s = Some stream"
    and dec: "decode_outbox_envelope c (sf_frame f) = Inr env"
    and node: "env_client_node_id env = os_client_node_id stream"
    and id: "env_message_id env = sf_message_id f" "env_sequence env = sf_sequence f"
    and ident: "row_identity c env = Inr i" "fi_payload_digest i = sf_payload_digest f"
    and kind: "envelope_kind c (env_message env) = Inr k" and vec: "oc_to_vec c env = Inr payload"
    and ins: "insert_outbox_row s env k payload = Inr s'"
    by (auto simp: device_append_def bound_outbox_stream_def result_simps split: if_splits)
  from ins obtain r where r: "ds_client_outbox s' = ds_client_outbox s @ [r]"
    "ds_outbox_stream s' = ds_outbox_stream s" "row_in_range r" "\<not> obr_published r"
    "obr_client_node_id r = env_client_node_id env" and cols: "obr_message_id r = env_message_id env"
    "obr_occurred_at r = env_occurred_at env" "obr_envelope_sequence r = uint (env_sequence env)"
    "obr_kind r = k" "obr_payload r = payload"
    by (rule insert_outbox_row_shape)
  let ?node = "os_client_node_id stream" and ?g = "row_frame c (os_client_node_id stream) r"
  have same: "same_frame f ?g" "sf_frame ?g = payload"
    using appended_row_frame [OF serde dec node id ident kind vec cols] ok by auto
  have rows: "node_rows s' ?node = node_rows s ?node @ [r]" using r node by (simp add: node_rows_def)
  have "uint h = max_or_0 (node_rows s ?node)"
    using max_or_0_bounds [OF node_rows_all [OF inv, of ?node]] stream
    by (simp add: h device_abs_def Let_def uint_word_small)
  moreover have "obr_envelope_sequence r = uint h + 1"
    using arg_cong [OF seq, of int] cols id by simp
  ultimately have top: "\<And>q. q \<in> set (node_rows s ?node) \<Longrightarrow> obr_envelope_sequence q \<le> obr_envelope_sequence r"
    using max_or_0_ge by fastforce
  have inv': "device_inv s'" using inv r by (simp add: device_inv_def)
  have "max_or_0 (node_rows s' ?node) = obr_envelope_sequence r"
    by (rule max_or_0_eqI [OF node_rows_all [OF inv']]) (auto simp: rows top)
  moreover have "unpublished s' ?node = unpublished s ?node @ [r]"
    unfolding unpublished_def rows using r(4) by simp (rule sort_key_snoc, auto intro: top)
  moreover have "filter obr_published (node_rows s' ?node) = filter obr_published (node_rows s ?node)"
    using r(4) by (simp add: rows)
  ultimately have "device_abs c s' = push_frame (device_abs c s) ?g"
    using stream r(2) by (simp add: device_abs_def push_frame_def Let_def row_frame_sequence)
  with inv' same dec vec show ?thesis by (metis (no_types))
qed

text \<open>Publishing a set of rows of a stream: sequences stay, frames leave.\<close>

lemma publish_rows:
  assumes p: "\<forall>r. p r \<longrightarrow> obr_client_node_id r = node"
    and s': "s' = s\<lparr>ds_client_outbox := tbl_update p (\<lambda>r. r\<lparr>obr_published := True\<rparr>) (ds_client_outbox s)\<rparr>"
  shows "device_inv s \<Longrightarrow> device_inv s'"
    and "map obr_envelope_sequence (node_rows s' node) = map obr_envelope_sequence (node_rows s node)"
    and "filter (\<lambda>r. \<not> obr_published r) (node_rows s' node) =
      filter (\<lambda>r. \<not> p r) (filter (\<lambda>r. \<not> obr_published r) (node_rows s node))"
    and "obr_envelope_sequence ` set (filter obr_published (node_rows s' node)) =
      obr_envelope_sequence ` set (filter (\<lambda>r. obr_published r \<or> p r) (node_rows s node))"
proof -
  let ?u = "\<lambda>r. if p r then r\<lparr>obr_published := True\<rparr> else r"
  have rows: "node_rows s' node = map ?u (node_rows s node)"
    unfolding node_rows_def s' tbl_update_def
    using p by (auto simp: filter_map comp_def intro!: arg_cong [where f = "map ?u"] filter_cong)
  show "device_inv s \<Longrightarrow> device_inv s'"
    by (auto simp: device_inv_def s' list_all_iff tbl_update_def row_in_range_def)
  show "map obr_envelope_sequence (node_rows s' node) = map obr_envelope_sequence (node_rows s node)"
    by (simp add: rows)
  have "filter (\<lambda>r. \<not> obr_published r) (map ?u xs) = filter (\<lambda>r. \<not> p r) (filter (\<lambda>r. \<not> obr_published r) xs)" for xs
    by (induction xs) auto
  then show "filter (\<lambda>r. \<not> obr_published r) (node_rows s' node) =
      filter (\<lambda>r. \<not> p r) (filter (\<lambda>r. \<not> obr_published r) (node_rows s node))"
    unfolding rows .
  have "obr_envelope_sequence ` set (filter obr_published (map ?u xs)) =
      obr_envelope_sequence ` set (filter (\<lambda>r. obr_published r \<or> p r) xs)" for xs
    by (induction xs) auto
  then show "obr_envelope_sequence ` set (filter obr_published (node_rows s' node)) =
      obr_envelope_sequence ` set (filter (\<lambda>r. obr_published r \<or> p r) (node_rows s node))"
    unfolding rows .
qed

lemma max_or_0_cong:
  "obr_envelope_sequence ` set xs = obr_envelope_sequence ` set ys \<Longrightarrow> max_or_0 xs = max_or_0 ys"
  by (auto simp: max_or_0_def tbl_max_def)

text \<open>After rows of the stream up to \<open>n\<close> have been published, the frames above \<open>n\<close> remain and the
  cursor is \<open>n\<close>, when a row at \<open>n\<close> is among the published ones and none above it is.\<close>

lemma publish_abs:
  assumes inv: "device_inv s" and stream: "ds_outbox_stream s = Some stream"
    and p: "\<And>r. p r \<Longrightarrow> obr_client_node_id r = os_client_node_id stream"
    and above: "\<And>r. r \<in> set (node_rows s (os_client_node_id stream)) \<Longrightarrow> \<not> obr_published r \<Longrightarrow>
      p r \<longleftrightarrow> obr_envelope_sequence r \<le> uint n"
    and top: "max_or_0 (filter (\<lambda>r. obr_published r \<or> p r) (node_rows s (os_client_node_id stream))) = uint n"
    and s': "s' = s\<lparr>ds_client_outbox := tbl_update p (\<lambda>r. r\<lparr>obr_published := True\<rparr>) (ds_client_outbox s)\<rparr>"
    and ok: "snapshot_ok (device_abs c s)"
  shows "device_inv s' \<and> device_abs c s' = confirm (device_abs c s) n
    (Suc (unat n) - unat (first_sequence (ob_frames (device_abs c s))))"
proof -
  let ?node = "os_client_node_id stream"
  have "\<forall>r. p r \<longrightarrow> obr_client_node_id r = ?node" using p by blast
  note pub = publish_rows [OF this s']
  have "max_or_0 (node_rows s' ?node) = max_or_0 (node_rows s ?node)"
    by (rule max_or_0_cong) (metis list.set_map pub(2))
  moreover have "max_or_0 (filter obr_published (node_rows s' ?node)) = uint n"
    using max_or_0_cong [OF pub(4)] top by simp
  moreover have "unpublished s' ?node = filter (\<lambda>r. uint n < obr_envelope_sequence r) (unpublished s ?node)"
  proof -
    have "filter (\<lambda>r. \<not> obr_published r) (node_rows s' ?node) =
        filter (\<lambda>r. \<not> p r) (filter (\<lambda>r. \<not> obr_published r) (node_rows s ?node))"
      by (rule pub(3))
    also have "\<dots> =
        filter (\<lambda>r. uint n < obr_envelope_sequence r) (filter (\<lambda>r. \<not> obr_published r) (node_rows s ?node))"
      using above by (intro filter_cong) auto
    finally show ?thesis unfolding unpublished_def by (simp add: filter_sort)
  qed
  then have "map (row_frame c ?node) (unpublished s' ?node) =
      filter (\<lambda>f. n < sf_sequence f) (map (row_frame c ?node) (unpublished s ?node))"
    by (simp add: frames_after [OF unpublished_in_range [OF inv]])
  then have "map (row_frame c ?node) (unpublished s' ?node) =
      filter (\<lambda>f. n < sf_sequence f) (ob_frames (device_abs c s))"
    using stream by (simp add: device_abs_def Let_def)
  ultimately have "device_abs c s' = confirm (device_abs c s) n
      (Suc (unat n) - unat (first_sequence (ob_frames (device_abs c s))))"
    using stream s' filter_after [OF ok, of n]
    by (simp add: device_abs_def confirm_def Let_def)
  with pub(1) [OF inv] show ?thesis by simp
qed

lemma device_record_abs:
  assumes inv: "device_inv s" and ok: "snapshot_ok (device_abs c s)"
    and a: "a = ob_ack_sequence (device_abs c s)" "a < n" and n: "n \<le> ob_highest_sequence (device_abs c s)"
    and rec: "device_record_acknowledgement s a n = Inr s'"
  shows "device_inv s' \<and> (\<exists>k \<le> Suc (unat n) - unat (first_sequence (ob_frames (device_abs c s))).
    device_abs c s' = confirm (device_abs c s) n k)"
proof -
  from rec obtain stream where stream: "ds_outbox_stream s = Some stream"
    and s': "s' = s\<lparr>ds_client_outbox := tbl_update
      (\<lambda>r. obr_client_node_id r = os_client_node_id stream \<and> obr_envelope_sequence r \<le> uint n)
      (\<lambda>r. r\<lparr>obr_published := True\<rparr>) (ds_client_outbox s)\<rparr>"
    by (auto simp: device_record_acknowledgement_def bound_outbox_stream_def i64_prefix_def result_simps
        split: if_splits)
  let ?node = "os_client_node_id stream"
  have ack: "uint a = max_or_0 (filter obr_published (node_rows s ?node))"
    using max_or_0_bounds [OF node_rows_in_range [OF inv, of obr_published ?node]] stream
    by (simp add: a device_abs_def Let_def uint_word_small)
  have "unat n \<in> set (seqs (ob_frames (device_abs c s)))"
  proof -
    have ne: "ob_frames (device_abs c s) \<noteq> []"
      using ok a n by (auto simp: snapshot_ok_def Let_def word_order_unat)
    have "unat (first_sequence (ob_frames (device_abs c s))) \<le> Suc (unat a)"
      using ok a(1) by (simp add: snapshot_ok_def Let_def)
    with snapshot_ok_highest [OF ok ne] a(2) n show ?thesis
      unfolding snapshot_ok_seqs [OF ok] by (simp add: word_order_unat)
  qed
  then obtain r where r: "r \<in> set (node_rows s ?node)" "unat n = unat (word_of_int (obr_envelope_sequence r) :: u64)"
    using stream by (auto simp: device_abs_def Let_def unpublished_def row_frame_sequence)
  then have "row_in_range r" using node_rows_all [OF inv, of ?node] by (auto simp: list_all_iff)
  with r(2) have seq: "obr_envelope_sequence r = uint n"
    by (auto simp: row_in_range_def uint_word_small simp flip: word_unat_eq_iff)
  have "max_or_0 (filter (\<lambda>r. obr_published r \<or> obr_client_node_id r = ?node \<and> obr_envelope_sequence r \<le> uint n)
      (node_rows s ?node)) = uint n"
  proof (rule max_or_0_eqI [OF node_rows_in_range [OF inv]])
    fix q assume "q \<in> set (filter (\<lambda>r. obr_published r \<or> obr_client_node_id r = ?node
        \<and> obr_envelope_sequence r \<le> uint n) (node_rows s ?node))"
    then show "obr_envelope_sequence q \<le> uint n"
      using max_or_0_ge [of q "filter obr_published (node_rows s ?node)"] ack a(2)
      by (auto simp: word_less_def)
  next
    show "uint n = 0 \<or> (\<exists>q \<in> set (filter (\<lambda>r. obr_published r \<or> obr_client_node_id r = ?node
        \<and> obr_envelope_sequence r \<le> uint n) (node_rows s ?node)). obr_envelope_sequence q = uint n)"
      using r(1) seq by (auto simp: node_rows_def)
  qed
  from publish_abs [OF inv stream _ _ this s' ok] show ?thesis by (auto simp: node_rows_def)
qed

lemma filter_count: "length (filter p xs) = length xs - length (filter (\<lambda>x. \<not> p x) xs)"
  using sum_length_filter_compl [of p xs] by simp

lemma device_compact_abs:
  assumes inv: "device_inv s" and ok: "snapshot_ok (device_abs c s)"
    and a: "a = ob_ack_sequence (device_abs c s)"
    and com: "device_compact_through s a = Inr (k, s')"
  shows "device_inv s' \<and> device_abs c s' = confirm (device_abs c s) a
      (Suc (unat a) - unat (first_sequence (ob_frames (device_abs c s))))
    \<and> k = length (ob_frames (device_abs c s)) - length (ob_frames (device_abs c s'))"
proof -
  define p where "p = (\<lambda>(stream :: outbox_stream) (r :: outbox_row). obr_client_node_id r = os_client_node_id stream \<and> \<not> obr_published r
      \<and> obr_envelope_sequence r \<le> uint a)"
  from com obtain stream where stream: "ds_outbox_stream s = Some stream"
    and s': "s' = s\<lparr>ds_client_outbox := tbl_update (p stream) (\<lambda>r. r\<lparr>obr_published := True\<rparr>) (ds_client_outbox s)\<rparr>"
    and k: "k = tbl_count (p stream) (ds_client_outbox s)"
    by (auto simp: device_compact_through_def bound_outbox_stream_def i64_prefix_def result_simps Let_def p_def
        split: if_splits)
  let ?node = "os_client_node_id stream"
  have ack: "uint a = max_or_0 (filter obr_published (node_rows s ?node))"
    using max_or_0_bounds [OF node_rows_in_range [OF inv, of obr_published ?node]] stream
    by (simp add: a device_abs_def Let_def uint_word_small)
  have "max_or_0 (filter (\<lambda>r. obr_published r \<or> p stream r) (node_rows s ?node)) = uint a"
  proof (rule max_or_0_eqI [OF node_rows_in_range [OF inv]])
    fix q assume "q \<in> set (filter (\<lambda>r. obr_published r \<or> p stream r) (node_rows s ?node))"
    then show "obr_envelope_sequence q \<le> uint a"
      using max_or_0_ge [of q "filter obr_published (node_rows s ?node)"] ack by (auto simp: p_def)
  next
    show "uint a = 0 \<or> (\<exists>q \<in> set (filter (\<lambda>r. obr_published r \<or> p stream r) (node_rows s ?node)).
        obr_envelope_sequence q = uint a)"
      using max_or_0_attained [of "filter obr_published (node_rows s ?node)"] ack uint_ge_0 [of a]
      by (cases "uint a = 0") auto
  qed
  then have main: "device_inv s' \<and> device_abs c s' = confirm (device_abs c s) a
      (Suc (unat a) - unat (first_sequence (ob_frames (device_abs c s))))"
    by (intro publish_abs [OF inv stream _ _ _ s' ok]) (auto simp: p_def node_rows_def)
  have "ob_frames (device_abs c s') = filter (\<lambda>f. a < sf_sequence f) (ob_frames (device_abs c s))"
    using main filter_after [OF ok, of a] by (simp add: confirm_def)
  also have "length \<dots> = length (filter (\<lambda>r. uint a < obr_envelope_sequence r) (unpublished s ?node))"
    using stream by (simp add: device_abs_def Let_def frames_after [OF unpublished_in_range [OF inv]])
  finally have "length (ob_frames (device_abs c s)) - length (ob_frames (device_abs c s')) =
      length (filter (\<lambda>r. obr_envelope_sequence r \<le> uint a) (unpublished s ?node))"
    using stream filter_count [of "\<lambda>r. obr_envelope_sequence r \<le> uint a" "unpublished s ?node"]
    by (simp add: device_abs_def Let_def not_le)
  also have "\<dots> = k"
    unfolding k tbl_count_def unpublished_def p_def node_rows_def
    by (simp add: filter_sort conj_commute conj_left_commute)
  finally show ?thesis using main by simp
qed

text \<open>What the store needs of \<^verbatim>\<open>serde_json\<close>: an encoded envelope is read back, and is not empty.\<close>

locale device_outbox_codec =
  fixes c :: "'m outbox_codec"
  assumes serde: "oc_to_vec c env = Inr b \<Longrightarrow> oc_from_slice c b = Inr env \<and> b \<noteq> []"

sublocale device_outbox_codec \<subseteq> device: outbox_store "device_ops c" "device_abs c" device_inv
proof unfold_locales
  fix s m assume "device_inv s" and "fo_load (device_ops c) s = Inr m"
  then show "(case m of None \<Rightarrow> OutboxSnapshot_default | Some x \<Rightarrow> x) = device_abs c s"
    by (intro device_load_abs) (simp_all add: device_ops_def)
next
  fix s h f s'
  assume "device_inv s" and "h = ob_highest_sequence (device_abs c s)"
    and "unat (sf_sequence f) = Suc (unat h)" and "frame_ok f" and "fo_append (device_ops c) s h f = Inr s'"
  then show "device_inv s' \<and> (\<exists>g. same_frame f g \<and> device_abs c s' = push_frame (device_abs c s) g)"
    using device_append_abs [OF serde, of s h f s'] by (auto simp: device_ops_def)
next
  fix s a n s'
  assume "device_inv s" and "snapshot_ok (device_abs c s)" and "a = ob_ack_sequence (device_abs c s)"
    and "a < n" and "n \<le> ob_highest_sequence (device_abs c s)"
    and "fo_record_acknowledgement (device_ops c) s a n = Inr s'"
  then show "device_inv s' \<and> (\<exists>k \<le> Suc (unat n) - unat (first_sequence (ob_frames (device_abs c s))).
      device_abs c s' = confirm (device_abs c s) n k)"
    by (intro device_record_abs) (simp_all add: device_ops_def)
next
  fix s a k s'
  assume "device_inv s" and "snapshot_ok (device_abs c s)" and "a = ob_ack_sequence (device_abs c s)"
    and "fo_compact_through (device_ops c) s a = Inr (k, s')"
  then show "device_inv s' \<and> device_abs c s' = confirm (device_abs c s) a
      (Suc (unat a) - unat (first_sequence (ob_frames (device_abs c s))))
      \<and> k = length (ob_frames (device_abs c s)) - length (ob_frames (device_abs c s'))"
    by (intro device_compact_abs) (simp_all add: device_ops_def)
qed

text \<open>The sequences of the table fit a signed column, so the exhausted snapshot is out of reach.\<close>

lemma device_not_exhausted: "device_inv s \<Longrightarrow> \<not> snapshot_exhausted (device_abs c s)"
proof
  assume inv: "device_inv s" and "snapshot_exhausted (device_abs c s)"
  then have hi: "ob_highest_sequence (device_abs c s) = - 1"
    by (auto simp: snapshot_exhausted_def push_frame_def)
  show False
  proof (cases "ds_outbox_stream s")
    case None
    with hi show False by (simp add: device_abs_def OutboxSnapshot_default_def)
  next
    case (Some stream)
    let ?m = "max_or_0 (node_rows s (os_client_node_id stream))"
    have m: "0 \<le> ?m" "?m < 2 ^ 63" using max_or_0_bounds [OF node_rows_all [OF inv]] by auto
    from hi Some have "(word_of_int ?m :: u64) = - 1" by (simp add: device_abs_def Let_def)
    then have "?m = uint (- 1 :: u64)" using uint_word_small [OF m] by simp
    with m show False by (simp add: unsigned_minus_1_eq_mask mask_eq_exp_minus_1)
  qed
qed

context device_outbox_codec
begin

lemma run_sound:
  assumes "device_inv s" and "snapshot_ok (device_abs c s)"
  shows "device_inv (run_ops (outbox_step (device_ops c)) s calls)
    \<and> snapshot_ok (device_abs c (run_ops (outbox_step (device_ops c)) s calls))
    \<and> snapshot_le (device_abs c s) (device_abs c (run_ops (outbox_step (device_ops c)) s calls))"
proof -
  have "device.session_inv s" using assms by (simp add: device.session_inv_def)
  from device.session.run_inv [OF this, of calls] device.session.run_le [OF this, of calls]
  show ?thesis by (auto simp: device.session_inv_def dest: device_not_exhausted)
qed

end

context device_outbox_codec
begin

lemma device_link_inv:
  assumes "device_inv s" and "device_abs c s = OutboxSnapshot_default"
    and "link_run (device_ops c) inst (link_start s inst) l"
  shows "device.link_inv inst l \<and> snapshot_ok (device_abs c (lk_store l))"
proof -
  have "device.link_inv inst l"
    by (rule device.link_run_inv [OF assms(3) device.link_inv_start [OF assms(1,2)]])
  then show ?thesis
    by (auto simp: device.link_inv_def device.session_inv_def dest: device_not_exhausted)
qed

lemma device_link_run:
  assumes "device_inv s" and "device_abs c s = OutboxSnapshot_default"
    and "link_run (device_ops c) inst (link_start s inst) l"
  shows "lk_log l = take (recv_ack l) (lk_sent l) \<and> recv_ack l \<le> length (lk_sent l)
    \<and> unat (ob_ack_sequence (device_abs c (lk_store l))) \<le> length (lk_log l)"
  using device_link_inv [OF assms] by (simp add: device.link_inv_def)

lemma device_link_held:
  assumes "device_inv s" and "device_abs c s = OutboxSnapshot_default"
    and "link_run (device_ops c) inst (link_start s inst) l"
  shows "\<forall>i \<in> set (drop (unat (ob_ack_sequence (device_abs c (lk_store l)))) (lk_sent l)).
    \<exists>f \<in> set (ob_frames (device_abs c (lk_store l))). stored_frame_identity f = i"
  using device_link_inv [OF assms] device.link_unconfirmed_held by blast

end

definition sample_codec :: "string outbox_codec" where
  "sample_codec = \<lparr>oc_to_vec = write_envelope, oc_from_slice = read_envelope, oc_message_to_vec = Inr,
     oc_message_kind = (\<lambda>_. Inr (Some ''client.hello'')), oc_sha256_hex = (\<lambda>_. ''00'')\<rparr>"

interpretation sample: device_outbox_codec sample_codec
proof
  fix env b assume "oc_to_vec sample_codec env = Inr b"
  then have b: "write_envelope env = Inr b" by (simp add: sample_codec_def)
  then have "b \<noteq> []" by (auto simp: write_envelope_def write_field_def)
  with read_write_envelope [OF b] show "oc_from_slice sample_codec b = Inr env \<and> b \<noteq> []"
    by (simp add: sample_codec_def)
qed

text \<open>
  C12. The device's SQLite outbox keeps the exchange's contract, for any JSON implementation that
  reads back what it wrote: along every run of session calls the snapshot it stands for stays
  valid, the acknowledged and the highest sequence never go back, and no frame above the
  acknowledged one is lost.
\<close>

theorem device_outbox_sound:
  assumes serde: "\<forall>env b. oc_to_vec c env = Inr b \<longrightarrow> oc_from_slice c b = Inr env \<and> b \<noteq> []"
    and inv: "device_inv s" and ok: "snapshot_ok (device_abs c s)"
    and t: "t = run_ops (outbox_step (device_ops c)) s calls"
  shows "snapshot_ok (device_abs c t)
    \<and> ob_ack_sequence (device_abs c s) \<le> ob_ack_sequence (device_abs c t)
    \<and> ob_highest_sequence (device_abs c s) \<le> ob_highest_sequence (device_abs c t)
    \<and> (\<forall>f \<in> set (ob_frames (device_abs c s)).
         ob_ack_sequence (device_abs c t) < sf_sequence f \<longrightarrow> f \<in> set (ob_frames (device_abs c t)))"
proof -
  have "device_outbox_codec c" by (rule device_outbox_codec.intro) (use serde in blast)
  from device_outbox_codec.run_sound [OF this inv ok, of calls] show ?thesis
    by (simp add: t snapshot_le_def)
qed

definition bound_store :: device_store where
  "bound_store = empty_store\<lparr>ds_outbox_stream := Some
     \<lparr>os_client_node_id = ''n'', os_client_instance_id = ''i''\<rparr>\<rparr>"

definition hello_envelope :: "u64 \<Rightarrow> string \<Rightarrow> string envelope" where
  "hello_envelope n m = \<lparr>env_schema_version = ''winwincode/v1'', env_message_id = m,
     env_client_node_id = ''n'', env_client_instance_id = ''i'', env_sequence = n,
     env_occurred_at = ''t'', env_message = ''hi''\<rparr>"

definition hello_frame :: "u64 \<Rightarrow> string \<Rightarrow> stored_frame" where
  "hello_frame n m = \<lparr>sf_message_id = m, sf_sequence = n, sf_payload_digest = ''sha256:00'',
     sf_frame = (case write_envelope (hello_envelope n m) of Inr b \<Rightarrow> b | Inl _ \<Rightarrow> [])\<rparr>"

theorem device_outbox_sound_witness:
  "snapshot_ok (device_abs sample_codec (run_ops (outbox_step (device_ops sample_codec)) bound_store
     [Enqueue 1 (hello_frame 1 ''m1''), Enqueue 2 (hello_frame 2 ''m2''), Acknowledge 1]))"
proof -
  have "\<forall>env b. oc_to_vec sample_codec env = Inr b \<longrightarrow> oc_from_slice sample_codec b = Inr env \<and> b \<noteq> []"
    using sample.serde by blast
  moreover have "device_inv bound_store" by (simp add: device_inv_def bound_store_def empty_store_def)
  moreover have "device_abs sample_codec bound_store = OutboxSnapshot_default"
    by (simp add: device_abs_def bound_store_def empty_store_def node_rows_def unpublished_def
        max_or_0_def OutboxSnapshot_default_def)
  ultimately show ?thesis
    using device_outbox_sound [OF _ _ _ refl, of sample_codec bound_store] snapshot_ok_default
    by (metis (no_types, lifting))
qed

text \<open>
  A frame whose bytes are the encoding of its envelope is stored byte for byte: once the
  device's store has accepted it, the frames the store stands for are the ones it had loaded before
  with exactly this frame at the end, and the highest sequence is its own.
\<close>

theorem device_enqueue_stores_frame:
  assumes serde: "\<forall>env b. oc_to_vec c env = Inr b \<longrightarrow> oc_from_slice c b = Inr env \<and> b \<noteq> []"
    and inv: "device_inv s" and loaded: "snapshot_of (device_ops c) s = Inr x"
    and enq: "enqueue (device_ops c) s n f = Inr (n, s')"
    and sealed: "oc_from_slice c (sf_frame f) = Inr env" "oc_to_vec c env = Inr (sf_frame f)"
  shows "ob_frames (device_abs c s') = ob_frames x @ [f]
    \<and> ob_highest_sequence (device_abs c s') = n"
proof -
  have x: "x = device_abs c s" 
    using device_load_abs [OF inv, of c] loaded
    by (auto simp: snapshot_of_def device_ops_def result_simps Let_def)
  from enq have app: "device_append c s (sf_sequence f - 1) f = Inr s'" and n: "sf_sequence f = n"
    and fok: "frame_ok f" and hi: "checked_add (ob_highest_sequence x) 1 = Some (sf_sequence f)"
    using loaded by (auto simp: enqueue_def device_ops_def result_simps split: if_splits)
  have seq: "unat (sf_sequence f) = Suc (unat (ob_highest_sequence x))"
    using hi by (simp add: checked_succ_Some)
  have h: "sf_sequence f - 1 = ob_highest_sequence (device_abs c s)"
    using seq x by (simp add: unat_eq_Suc_iff)
  have "\<And>env b. oc_to_vec c env = Inr b \<Longrightarrow> oc_from_slice c b = Inr env \<and> b \<noteq> []" using serde by blast
  from device_append_abs [OF this inv h _ fok app] seq x h obtain g env' where g: "same_frame f g"
    "device_abs c s' = push_frame (device_abs c s) g"
    and env': "decode_outbox_envelope c (sf_frame f) = Inr env'" "oc_to_vec c env' = Inr (sf_frame g)" by auto
  have "env' = env" using env'(1) sealed(1) by (auto simp: decode_outbox_envelope_def split: if_splits)
  with env'(2) sealed(2) have "sf_frame g = sf_frame f" by simp
  with g(1) have "g = f" by (simp add: same_frame_def stored_frame_identity_def)
  with g x n show ?thesis by (simp add: push_frame_def)
qed

lemma hello_frame_sealed:
  "oc_from_slice sample_codec (sf_frame (hello_frame n m)) = Inr (hello_envelope n m)"
  "oc_to_vec sample_codec (hello_envelope n m) = Inr (sf_frame (hello_frame n m))"
proof -
  obtain b where b: "write_envelope (hello_envelope n m) = Inr b" by (simp add: write_envelope_def)
  with read_write_envelope [OF b] show
    "oc_from_slice sample_codec (sf_frame (hello_frame n m)) = Inr (hello_envelope n m)"
    "oc_to_vec sample_codec (hello_envelope n m) = Inr (sf_frame (hello_frame n m))"
    by (simp_all add: sample_codec_def hello_frame_def)
qed

lemma hello_frame_ok: "n \<noteq> 0 \<Longrightarrow> m \<noteq> [] \<Longrightarrow> frame_ok (hello_frame n m)"
  by (simp add: frame_ok_def hello_frame_def write_envelope_def write_field_def)

lemma bound_store_inv: "device_inv bound_store" "device_abs sample_codec bound_store = OutboxSnapshot_default"
  by (simp_all add: device_inv_def device_abs_def bound_store_def empty_store_def node_rows_def unpublished_def
      max_or_0_def OutboxSnapshot_default_def)

lemma sample_serde: "\<forall>env b. oc_to_vec sample_codec env = Inr b \<longrightarrow> oc_from_slice sample_codec b = Inr env \<and> b \<noteq> []"
  using sample.serde by blast

lemma bound_store_enqueue:
  "\<exists>s'. snapshot_of (device_ops sample_codec) bound_store = Inr OutboxSnapshot_default
    \<and> enqueue (device_ops sample_codec) bound_store 1 (hello_frame 1 ''m1'') = Inr (1, s')"
proof -
  have cur: "outbox_stream_cursor bound_store ''n'' = Inr (None, None)"
    by (simp add: outbox_stream_cursor_def bound_store_def empty_store_def node_rows_def)
  have stream: "bound_outbox_stream bound_store = Inr \<lparr>os_client_node_id = ''n'', os_client_instance_id = ''i''\<rparr>"
    and conn: "connection bound_store = Inr ()"
    by (simp_all add: bound_outbox_stream_def connection_def bound_store_def empty_store_def)
  have "validate_snapshot OutboxSnapshot_default = Inr ()"
    using validate_snapshot_Inr_iff snapshot_ok_default by blast
  then have loaded: "snapshot_of (device_ops sample_codec) bound_store = Inr OutboxSnapshot_default"
    by (simp add: snapshot_of_def device_ops_def device_load_def stream conn cur)
  have shape: "validate_frame_shape (hello_frame 1 ''m1'') = Inr ()"
    by (simp add: result_simps hello_frame_ok)
  have ident: "row_identity sample_codec (hello_envelope 1 ''m1'') =
      Inr \<lparr>fi_message_id = ''m1'', fi_sequence = 1, fi_payload_digest = ''sha256:00''\<rparr>"
    by (simp add: row_identity_def envelope_identity_def sample_codec_def hello_envelope_def payload_digest_def)
  have kind: "envelope_kind sample_codec x = Inr ''client.hello''" for x
    by (simp add: envelope_kind_def sample_codec_def)
  have dec: "decode_outbox_envelope sample_codec (sf_frame (hello_frame 1 ''m1'')) = Inr (hello_envelope 1 ''m1'')"
    by (simp add: decode_outbox_envelope_def hello_frame_sealed CLIENT_CONTROL_PORT_SCHEMA_VERSION_def)
       (simp add: hello_envelope_def)
  have fields: "env_client_node_id (hello_envelope 1 ''m1'') = ''n''"
    "env_client_instance_id (hello_envelope 1 ''m1'') = ''i''" "env_message_id (hello_envelope 1 ''m1'') = ''m1''"
    "env_sequence (hello_envelope 1 ''m1'') = 1" "sf_message_id (hello_frame 1 ''m1'') = ''m1''"
    "sf_sequence (hello_frame 1 ''m1'') = 1" "sf_payload_digest (hello_frame 1 ''m1'') = ''sha256:00''"
    by (simp_all add: hello_envelope_def hello_frame_def)
  obtain s' where app: "device_append sample_codec bound_store 0 (hello_frame 1 ''m1'') = Inr s'"
    by (simp add: device_append_def stream conn cur dec ident kind fields hello_frame_sealed
        insert_outbox_row_def i64_of_u64_def unwrap_or_0_def)
       (simp add: bound_store_def empty_store_def)
  then have enq: "enqueue (device_ops sample_codec) bound_store 1 (hello_frame 1 ''m1'') = Inr (1, s')"
    using shape by (simp add: enqueue_def loaded fields checked_succ_if)
      (simp add: OutboxSnapshot_default_def device_ops_def checked_succ_if)
  with loaded show ?thesis by blast
qed

end
