(* ===== verification/Device_Workers.thy ===== *)
theory Device_Workers
  imports Device_Tables
begin

text \<open>
  \<^verbatim>\<open>store.rs\<close>: the worker process registry with the triggers that queue its reports, the durable
  stop intents of workers, and the durable release intents of an occupancy.
\<close>

section \<open>The worker process registry\<close>

definition validate_worker_process_record :: "worker_process_record \<Rightarrow> device_store_error + unit" where
  "validate_worker_process_record record = check_all
     [require_non_empty (wp_worker_session_id record) ''worker session id'' MAX_ID_BYTES,
      require_non_empty (wp_worker_id record) ''worker id'' MAX_ID_BYTES,
      require_non_empty (wp_worker_instance_id record) ''worker instance id'' MAX_ID_BYTES,
      ensure (wp_pid record \<noteq> 0) (invalid ''worker pid must be positive''),
      require_non_empty (wp_process_start_identity record) ''process start identity'' MAX_ID_BYTES,
      require_non_empty (wp_repository_binding_id record) ''repository binding id'' MAX_ID_BYTES,
      require_non_empty (wp_occupancy_lease_id record) ''occupancy lease id'' MAX_ID_BYTES,
      require_non_empty (wp_launch_grant_id record) ''launch grant id'' MAX_ID_BYTES,
      require_non_empty (wp_data_directory record) ''worker data directory'' MAX_PATH_BYTES,
      require_non_empty (wp_state record) ''worker state'' MAX_ID_BYTES,
      require_non_empty (wp_last_observed_at record) ''observed at'' MAX_ID_BYTES]"

definition worker_process_to_row :: "worker_process_record \<Rightarrow> worker_process_row" where
  "worker_process_to_row r =
     \<lparr>wpr_worker_session_id = wp_worker_session_id r, wpr_worker_id = wp_worker_id r,
      wpr_worker_instance_id = wp_worker_instance_id r, wpr_pid = uint (wp_pid r),
      wpr_process_start_identity = wp_process_start_identity r,
      wpr_repository_binding_id = wp_repository_binding_id r,
      wpr_occupancy_lease_id = wp_occupancy_lease_id r, wpr_launch_grant_id = wp_launch_grant_id r,
      wpr_data_directory = wp_data_directory r, wpr_state = wp_state r,
      wpr_exit_code = wp_exit_code r, wpr_last_observed_at = wp_last_observed_at r\<rparr>"

definition row_to_worker_process :: "worker_process_row \<Rightarrow> sqlite_failure + worker_process_record" where
  "row_to_worker_process r =
     rbind (ok_or (u32_of_i64 (wpr_pid r))
       (FromSqlConversionFailure 3 ''stored worker pid is outside the platform pid range'')) (\<lambda>pid.
     Inr \<lparr>wp_worker_session_id = wpr_worker_session_id r, wp_worker_id = wpr_worker_id r,
          wp_worker_instance_id = wpr_worker_instance_id r, wp_pid = pid,
          wp_process_start_identity = wpr_process_start_identity r,
          wp_repository_binding_id = wpr_repository_binding_id r,
          wp_occupancy_lease_id = wpr_occupancy_lease_id r,
          wp_launch_grant_id = wpr_launch_grant_id r, wp_data_directory = wpr_data_directory r,
          wp_state = wpr_state r, wp_exit_code = wpr_exit_code r,
          wp_last_observed_at = wpr_last_observed_at r\<rparr>)"

text \<open>The triggers of \<^verbatim>\<open>WORKER_REPORT_SCHEMA\<close>: a pending report is a row of \<^verbatim>\<open>worker_report_pending\<close>,
  inserted unless it is already there.\<close>

definition terminal_states :: "string list" where
  "terminal_states = [''exited'', ''crashed'', ''missing'']"

definition add_pending :: "string \<Rightarrow> string \<Rightarrow> (string \<times> string) list \<Rightarrow> (string \<times> string) list" where
  "add_pending family session pending =
     (if (family, session) \<in> set pending then pending else pending @ [(family, session)])"

definition worker_report_after_insert ::
    "worker_process_row \<Rightarrow> (string \<times> string) list \<Rightarrow> (string \<times> string) list" where
  "worker_report_after_insert new pending =
     (let p = add_pending ''reconcile'' (wpr_worker_session_id new) pending
      in if wpr_state new \<in> set terminal_states
         then add_pending ''exit'' (wpr_worker_session_id new) p else p)"

definition worker_report_after_update ::
    "worker_process_row \<Rightarrow> worker_process_row \<Rightarrow> (string \<times> string) list \<Rightarrow> (string \<times> string) list" where
  "worker_report_after_update old new pending =
     (if wpr_worker_instance_id old \<noteq> wpr_worker_instance_id new \<or> wpr_state old \<noteq> wpr_state new
         \<or> wpr_exit_code old \<noteq> wpr_exit_code new
      then worker_report_after_insert new pending else pending)"

text \<open>An upsert fires the insert trigger for a new key and the update trigger for a known one.\<close>

definition put_worker_process :: "device_store \<Rightarrow> worker_process_record \<Rightarrow> device_store_error + device_store" where
  "put_worker_process s record =
     rbind (validate_worker_process_record record) (\<lambda>_.
     rbind (connection s) (\<lambda>_.
     let row = worker_process_to_row record;
         fired = (case tbl_find wpr_worker_session_id (wp_worker_session_id record) (ds_worker_process s) of
                    None \<Rightarrow> worker_report_after_insert row (ds_report_pending s)
                  | Some old \<Rightarrow> worker_report_after_update old row (ds_report_pending s))
     in Inr (s\<lparr>ds_worker_process := tbl_upsert wpr_worker_session_id row (ds_worker_process s),
               ds_report_pending := fired\<rparr>)))"

definition worker_process :: "device_store \<Rightarrow> string \<Rightarrow> device_store_error + worker_process_record option" where
  "worker_process s worker_session_id =
     rbind (require_non_empty worker_session_id ''worker session id'' MAX_ID_BYTES) (\<lambda>_.
     rbind (connection s) (\<lambda>_.
     read_optional row_to_worker_process
       (tbl_find wpr_worker_session_id worker_session_id (ds_worker_process s))))"

definition worker_processes :: "device_store \<Rightarrow> device_store_error + worker_process_record list" where
  "worker_processes s =
     rbind (connection s) (\<lambda>_.
     map_err sql_error (collect_results (map row_to_worker_process
       (sort_key wpr_worker_session_id (ds_worker_process s)))))"

definition worker_report_candidates ::
    "device_store \<Rightarrow> string \<Rightarrow> string option \<Rightarrow> device_store_error + worker_process_record list" where
  "worker_report_candidates s family lease =
     (if family \<noteq> ''reconcile'' \<and> family \<noteq> ''exit''
      then Inl (adapter ''unknown worker report family'')
      else
        rbind (connection s) (\<lambda>_.
        let of_lease = (\<lambda>r. case lease of None \<Rightarrow> True | Some l \<Rightarrow> wpr_occupancy_lease_id r = l);
            active = (\<lambda>r. family = ''reconcile'' \<and> wpr_state r \<notin> set terminal_states);
            pending = (\<lambda>r. (family, wpr_worker_session_id r) \<in> set (ds_report_pending s))
        in map_err sql_error (collect_results (map row_to_worker_process
             (sort_key wpr_worker_session_id
               (filter (\<lambda>r. (active r \<or> pending r) \<and> of_lease r) (ds_worker_process s)))))))"

definition worker_report_queued ::
    "device_store \<Rightarrow> string \<Rightarrow> worker_process_record \<Rightarrow> device_store_error + device_store" where
  "worker_report_queued s family record =
     (if family \<noteq> ''reconcile'' \<and> family \<noteq> ''exit''
      then Inl (adapter ''unknown worker report family'')
      else
        rbind (connection s) (\<lambda>_.
        let current = list_ex (\<lambda>r. wpr_worker_session_id r = wp_worker_session_id record
              \<and> wpr_worker_instance_id r = wp_worker_instance_id record
              \<and> wpr_pid r = uint (wp_pid record)
              \<and> wpr_process_start_identity r = wp_process_start_identity record
              \<and> wpr_occupancy_lease_id r = wp_occupancy_lease_id record
              \<and> wpr_state r = wp_state record
              \<and> wpr_exit_code r = wp_exit_code record) (ds_worker_process s)
        in Inr (s\<lparr>ds_report_pending :=
             tbl_delete (\<lambda>p. p = (family, wp_worker_session_id record) \<and> current) (ds_report_pending s)\<rparr>)))"

definition count_lease_worker_sessions :: "device_store \<Rightarrow> string \<Rightarrow> device_store_error + nat" where
  "count_lease_worker_sessions s occupancy_lease_id =
     rbind (require_non_empty occupancy_lease_id ''occupancy lease id'' MAX_ID_BYTES) (\<lambda>_.
     rbind (connection s) (\<lambda>_.
     Inr (tbl_count (\<lambda>r. wpr_occupancy_lease_id r = occupancy_lease_id) (ds_worker_process s))))"

definition has_running_worker_for_lease :: "device_store \<Rightarrow> string \<Rightarrow> device_store_error + bool" where
  "has_running_worker_for_lease s lease =
     rbind (require_non_empty lease ''occupancy lease id'' MAX_ID_BYTES) (\<lambda>_.
     rbind (connection s) (\<lambda>_.
     Inr (list_ex (\<lambda>r. wpr_state r = ''running'' \<and> wpr_occupancy_lease_id r = lease) (ds_worker_process s))))"

definition worker_processes_for_lease ::
    "device_store \<Rightarrow> string \<Rightarrow> device_store_error + worker_process_record list" where
  "worker_processes_for_lease s occupancy_lease_id =
     rbind (require_non_empty occupancy_lease_id ''occupancy lease id'' MAX_ID_BYTES) (\<lambda>_.
     rbind (connection s) (\<lambda>_.
     map_err sql_error (collect_results (map row_to_worker_process
       (sort_key wpr_worker_session_id
         (filter (\<lambda>r. wpr_occupancy_lease_id r = occupancy_lease_id) (ds_worker_process s)))))))"

definition count_worker_processes_in_state :: "device_store \<Rightarrow> string \<Rightarrow> device_store_error + nat" where
  "count_worker_processes_in_state s state =
     rbind (require_non_empty state ''worker state'' MAX_ID_BYTES) (\<lambda>_.
     rbind (connection s) (\<lambda>_.
     Inr (tbl_count (\<lambda>r. wpr_state r = state) (ds_worker_process s))))"

definition mark_worker_process_state ::
    "device_store \<Rightarrow> string \<Rightarrow> string \<Rightarrow> int option \<Rightarrow> string \<Rightarrow> device_store_error + bool \<times> device_store" where
  "mark_worker_process_state s worker_session_id state exit_code observed_at =
     rbind (check_all
       [require_non_empty worker_session_id ''worker session id'' MAX_ID_BYTES,
        require_non_empty state ''worker state'' MAX_ID_BYTES,
        require_non_empty observed_at ''observed at'' MAX_ID_BYTES]) (\<lambda>_.
     rbind (connection s) (\<lambda>_.
     let f = (\<lambda>r. r\<lparr>wpr_state := state, wpr_exit_code := exit_code, wpr_last_observed_at := observed_at\<rparr>)
     in case tbl_find wpr_worker_session_id worker_session_id (ds_worker_process s) of
          None \<Rightarrow> Inr (False, s)
        | Some old \<Rightarrow>
            Inr (True, s\<lparr>ds_worker_process :=
                tbl_update (\<lambda>r. wpr_worker_session_id r = worker_session_id) f (ds_worker_process s),
              ds_report_pending := worker_report_after_update old (f old) (ds_report_pending s)\<rparr>)))"

section \<open>Release intents\<close>

definition validate_release_intent :: "release_intent_record \<Rightarrow> device_store_error + unit" where
  "validate_release_intent intent = check_all
     [require_non_empty (ri_idempotency_key intent) ''idempotency key'' MAX_ID_BYTES,
      require_non_empty (ri_command_message_id intent) ''command message id'' MAX_ID_BYTES,
      require_non_empty (ri_occupancy_lease_id intent) ''occupancy lease id'' MAX_ID_BYTES,
      require_non_empty (ri_recorded_at intent) ''recorded at'' MAX_ID_BYTES,
      ensure (\<not> (ri_fencing_token intent = 0 \<or> ri_fencing_token intent > max_safe_integer))
        (invalid ''release fencing token must be a positive SQLite-range integer'')]"

definition row_to_release_intent :: "release_intent_row \<Rightarrow> sqlite_failure + release_intent_record" where
  "row_to_release_intent r =
     rbind (ok_or (u64_of_i64 (rir_fencing_token r))
       (FromSqlConversionFailure 3 ''stored release fencing token is negative'')) (\<lambda>token.
     rbind (parse_release_mode (rir_mode r)) (\<lambda>mode.
     rbind (ok_or (u64_of_i64 (rir_affected_worker_sessions r))
       (FromSqlConversionFailure 5 ''stored affected worker count is negative'')) (\<lambda>affected.
     Inr \<lparr>ri_idempotency_key = rir_idempotency_key r, ri_command_message_id = rir_command_message_id r,
          ri_occupancy_lease_id = rir_occupancy_lease_id r, ri_fencing_token = token, ri_mode = mode,
          ri_affected_worker_sessions = affected, ri_recorded_at = rir_recorded_at r\<rparr>)))"

definition read_release_intent :: "device_store \<Rightarrow> string \<Rightarrow> device_store_error + release_intent_record option" where
  "read_release_intent s idempotency_key =
     read_optional row_to_release_intent
       (tbl_find rir_idempotency_key idempotency_key (ds_release_intents s))"

datatype release_intent_outcome =
    ReleaseRecorded release_intent_record
  | ReleaseDuplicate release_intent_record

definition record_occupancy_release_intent ::
    "device_store \<Rightarrow> release_intent_record \<Rightarrow> device_store_error + release_intent_outcome \<times> device_store" where
  "record_occupancy_release_intent s intent =
     rbind (validate_release_intent intent) (\<lambda>_.
     rbind (connection s) (\<lambda>_.
     rbind (read_release_intent s (ri_idempotency_key intent)) (\<lambda>existing.
     case existing of
       Some stored \<Rightarrow> Inr (ReleaseDuplicate stored, s)
     | None \<Rightarrow>
         rbind (ok_or (i64_of_u64 (ri_fencing_token intent))
           (invalid ''release fencing token is out of range'')) (\<lambda>token.
         rbind (ok_or (i64_of_u64 (ri_affected_worker_sessions intent))
           (invalid ''affected worker count is out of range'')) (\<lambda>affected.
         Inr (ReleaseRecorded intent, s\<lparr>ds_release_intents := ds_release_intents s @
           [\<lparr>rir_idempotency_key = ri_idempotency_key intent,
             rir_command_message_id = ri_command_message_id intent,
             rir_occupancy_lease_id = ri_occupancy_lease_id intent, rir_fencing_token = token,
             rir_mode = release_mode_to_str (ri_mode intent),
             rir_affected_worker_sessions = affected,
             rir_recorded_at = ri_recorded_at intent\<rparr>]\<rparr>))))))"

definition occupancy_release_intent ::
    "device_store \<Rightarrow> string \<Rightarrow> device_store_error + release_intent_record option" where
  "occupancy_release_intent s idempotency_key =
     rbind (require_non_empty idempotency_key ''idempotency key'' MAX_ID_BYTES) (\<lambda>_.
     rbind (connection s) (\<lambda>_. read_release_intent s idempotency_key))"

definition occupancy_release_intents :: "device_store \<Rightarrow> device_store_error + release_intent_record list" where
  "occupancy_release_intents s =
     rbind (connection s) (\<lambda>_.
     map_err sql_error (collect_results (map row_to_release_intent (ds_release_intents s))))"

section \<open>Stop intents\<close>

definition validate_worker_stop_intent :: "worker_stop_intent_record \<Rightarrow> device_store_error + unit" where
  "validate_worker_stop_intent intent = check_all
     [require_non_empty (ws_command_message_id intent) ''worker stop command message id'' MAX_ID_BYTES,
      require_non_empty (ws_idempotency_key intent) ''idempotency key'' MAX_ID_BYTES,
      require_non_empty (ws_worker_session_id intent) ''worker session id'' MAX_ID_BYTES,
      require_non_empty (ws_worker_id intent) ''worker id'' MAX_ID_BYTES,
      require_non_empty (ws_occupancy_lease_id intent) ''occupancy lease id'' MAX_ID_BYTES,
      require_non_empty (ws_recorded_at intent) ''recorded at'' MAX_ID_BYTES,
      ensure (\<not> (ws_fencing_token intent = 0 \<or> ws_fencing_token intent > max_safe_integer))
        (invalid ''worker stop fencing token must be a positive SQLite-range integer''),
      ensure (\<not> ws_expected_revision intent > max_safe_integer)
        (invalid ''worker stop revision must be a SQLite-range integer''),
      ensure (\<not> (case ws_receipt_payload intent of None \<Rightarrow> False
                 | Some payload \<Rightarrow> payload = [] \<or> length payload > 64 * 1024))
        (invalid ''worker stop receipt payload must be between 1 and 65536 bytes''),
      require_optional (ws_completed_at intent) ''worker stop completed at'' MAX_ID_BYTES]"

definition row_to_worker_stop_intent :: "worker_stop_intent_row \<Rightarrow> sqlite_failure + worker_stop_intent_record" where
  "row_to_worker_stop_intent r =
     rbind (parse_worker_stop_reason_wire_name (wsr_reason r)) (\<lambda>reason.
     rbind (ok_or (u64_of_i64 (wsr_fencing_token r))
       (FromSqlConversionFailure 6 ''stored worker stop fencing token is negative'')) (\<lambda>token.
     rbind (ok_or (u64_of_i64 (wsr_expected_revision r))
       (FromSqlConversionFailure 7 ''stored worker stop revision is negative'')) (\<lambda>revision.
     Inr \<lparr>ws_command_message_id = wsr_command_message_id r, ws_idempotency_key = wsr_idempotency_key r,
          ws_worker_session_id = wsr_worker_session_id r, ws_worker_id = wsr_worker_id r,
          ws_reason = reason, ws_occupancy_lease_id = wsr_occupancy_lease_id r,
          ws_fencing_token = token, ws_expected_revision = revision,
          ws_receipt_payload = wsr_receipt_payload r, ws_recorded_at = wsr_recorded_at r,
          ws_completed_at = wsr_completed_at r\<rparr>)))"

definition read_worker_stop_intent ::
    "device_store \<Rightarrow> string \<Rightarrow> device_store_error + worker_stop_intent_record option" where
  "read_worker_stop_intent s command_message_id =
     read_optional row_to_worker_stop_intent
       (tbl_find wsr_command_message_id command_message_id (ds_stop_intents s))"

definition read_worker_stop_intent_by_idempotency ::
    "device_store \<Rightarrow> string \<Rightarrow> device_store_error + worker_stop_intent_record option" where
  "read_worker_stop_intent_by_idempotency s idempotency_key =
     read_optional row_to_worker_stop_intent
       (tbl_find wsr_idempotency_key idempotency_key (ds_stop_intents s))"

definition same_worker_stop_intent :: "worker_stop_intent_record \<Rightarrow> worker_stop_intent_record \<Rightarrow> bool" where
  "same_worker_stop_intent stored incoming \<longleftrightarrow>
     ws_idempotency_key stored = ws_idempotency_key incoming
     \<and> ws_worker_session_id stored = ws_worker_session_id incoming
     \<and> ws_worker_id stored = ws_worker_id incoming
     \<and> ws_reason stored = ws_reason incoming
     \<and> ws_occupancy_lease_id stored = ws_occupancy_lease_id incoming
     \<and> ws_fencing_token stored = ws_fencing_token incoming
     \<and> ws_expected_revision stored = ws_expected_revision incoming"

datatype worker_stop_intent_outcome =
    StopRecorded worker_stop_intent_record
  | StopDuplicate worker_stop_intent_record

definition insert_worker_stop_intent ::
    "device_store \<Rightarrow> worker_stop_intent_record \<Rightarrow> device_store_error + worker_stop_intent_outcome \<times> device_store" where
  "insert_worker_stop_intent s intent =
     rbind (ok_or (i64_of_u64 (ws_fencing_token intent))
       (invalid ''worker stop fencing token is out of range'')) (\<lambda>token.
     rbind (ok_or (i64_of_u64 (ws_expected_revision intent))
       (invalid ''worker stop revision is out of range'')) (\<lambda>revision.
     Inr (StopRecorded intent, s\<lparr>ds_stop_intents := ds_stop_intents s @
       [\<lparr>wsr_command_message_id = ws_command_message_id intent,
         wsr_idempotency_key = ws_idempotency_key intent,
         wsr_worker_session_id = ws_worker_session_id intent, wsr_worker_id = ws_worker_id intent,
         wsr_reason = worker_stop_reason_wire_name (ws_reason intent),
         wsr_occupancy_lease_id = ws_occupancy_lease_id intent, wsr_fencing_token = token,
         wsr_expected_revision = revision, wsr_receipt_payload = None,
         wsr_recorded_at = ws_recorded_at intent, wsr_completed_at = None\<rparr>]\<rparr>)))"

definition record_worker_stop_intent ::
    "device_store \<Rightarrow> worker_stop_intent_record \<Rightarrow> device_store_error + worker_stop_intent_outcome \<times> device_store" where
  "record_worker_stop_intent s intent =
     rbind (validate_worker_stop_intent intent) (\<lambda>_.
     rbind (connection s) (\<lambda>_.
     rbind (read_worker_stop_intent s (ws_command_message_id intent)) (\<lambda>existing.
     case existing of
       Some stored \<Rightarrow>
         (if \<not> same_worker_stop_intent stored intent
          then Inl (conflict ''worker stop command identity changed during replay'')
          else Inr (StopDuplicate stored, s))
     | None \<Rightarrow>
         rbind (read_worker_stop_intent_by_idempotency s (ws_idempotency_key intent)) (\<lambda>by_key.
         case by_key of
           Some stored \<Rightarrow>
             (if \<not> same_worker_stop_intent stored intent
              then Inl (conflict ''worker stop idempotency key is bound to another command'')
              else Inr (StopDuplicate stored, s))
         | None \<Rightarrow> insert_worker_stop_intent s intent))))"

definition worker_stop_intent ::
    "device_store \<Rightarrow> string \<Rightarrow> device_store_error + worker_stop_intent_record option" where
  "worker_stop_intent s command_message_id =
     rbind (require_non_empty command_message_id ''worker stop command message id'' MAX_ID_BYTES) (\<lambda>_.
     rbind (connection s) (\<lambda>_. read_worker_stop_intent s command_message_id))"

definition worker_stop_intent_by_idempotency ::
    "device_store \<Rightarrow> string \<Rightarrow> device_store_error + worker_stop_intent_record option" where
  "worker_stop_intent_by_idempotency s idempotency_key =
     rbind (require_non_empty idempotency_key ''worker stop idempotency key'' MAX_ID_BYTES) (\<lambda>_.
     rbind (connection s) (\<lambda>_. read_worker_stop_intent_by_idempotency s idempotency_key))"

definition pending_worker_stop_intents :: "device_store \<Rightarrow> device_store_error + worker_stop_intent_record list" where
  "pending_worker_stop_intents s =
     rbind (connection s) (\<lambda>_.
     map_err sql_error (collect_results (map row_to_worker_stop_intent
       (sort_key wsr_recorded_at (filter (\<lambda>r. wsr_receipt_payload r = None) (ds_stop_intents s))))))"

definition complete_worker_stop_intent ::
    "device_store \<Rightarrow> string \<Rightarrow> bytes \<Rightarrow> string \<Rightarrow> device_store_error + device_store" where
  "complete_worker_stop_intent s command_message_id receipt_payload completed_at =
     rbind (check_all
       [require_non_empty command_message_id ''worker stop command message id'' MAX_ID_BYTES,
        ensure (\<not> (receipt_payload = [] \<or> length receipt_payload > 64 * 1024))
          (invalid ''worker stop receipt payload must be between 1 and 65536 bytes''),
        require_non_empty completed_at ''worker stop completed at'' MAX_ID_BYTES]) (\<lambda>_.
     rbind (connection s) (\<lambda>_.
     rbind (read_worker_stop_intent s command_message_id) (\<lambda>existing.
     case existing of
       None \<Rightarrow> Inl (not_found (''worker stop command '' @ command_message_id
                 @ '' does not have a durable intent''))
     | Some stored \<Rightarrow>
         (case ws_receipt_payload stored of
            Some receipt \<Rightarrow>
              (if receipt \<noteq> receipt_payload
               then Inl (conflict ''worker stop receipt changed during replay'')
               else Inr s)
          | None \<Rightarrow>
              Inr (s\<lparr>ds_stop_intents := tbl_update (\<lambda>r. wsr_command_message_id r = command_message_id)
                (\<lambda>r. r\<lparr>wsr_receipt_payload := Some receipt_payload, wsr_completed_at := Some completed_at\<rparr>)
                (ds_stop_intents s)\<rparr>)))))"

section \<open>Reports are not lost\<close>

datatype worker_op =
    PutWorker worker_process_record
  | MarkWorker string string "int option" string
  | ReportQueued string worker_process_record

fun worker_step :: "device_store \<Rightarrow> worker_op \<Rightarrow> device_store_error + device_store" where
  "worker_step s (PutWorker r) = put_worker_process s r"
| "worker_step s (MarkWorker sid st ec at) =
     rbind (mark_worker_process_state s sid st ec at) (\<lambda>(_, s'). Inr s')"
| "worker_step s (ReportQueued family r) = worker_report_queued s family r"

text \<open>What a queued report says: the family, the session, and the observation it carries.\<close>

type_synonym report = "string \<times> string \<times> string \<times> string \<times> int option"

definition row_report :: "string \<Rightarrow> worker_process_row \<Rightarrow> report" where
  "row_report family r =
     (family, wpr_worker_session_id r, wpr_worker_instance_id r, wpr_state r, wpr_exit_code r)"

fun op_reports :: "worker_op \<Rightarrow> report set" where
  "op_reports (ReportQueued family r) =
     {(family, wp_worker_session_id r, wp_worker_instance_id r, wp_state r, wp_exit_code r)}"
| "op_reports _ = {}"

definition covered :: "report set \<Rightarrow> (string \<times> string) list \<Rightarrow> string \<Rightarrow> worker_process_row \<Rightarrow> bool" where
  "covered R pending family r \<longleftrightarrow>
     (family, wpr_worker_session_id r) \<in> set pending \<or> row_report family r \<in> R"

definition row_covered :: "report set \<Rightarrow> (string \<times> string) list \<Rightarrow> worker_process_row \<Rightarrow> bool" where
  "row_covered R pending r \<longleftrightarrow> covered R pending ''reconcile'' r
     \<and> (wpr_state r \<in> set terminal_states \<longrightarrow> covered R pending ''exit'' r)"

definition reports_inv :: "report set \<Rightarrow> device_store \<Rightarrow> bool" where
  "reports_inv R s \<longleftrightarrow> distinct (map wpr_worker_session_id (ds_worker_process s))
     \<and> list_all (row_covered R (ds_report_pending s)) (ds_worker_process s)"

lemma set_add_pending: "set (add_pending f x p) = insert (f, x) (set p)"
  by (auto simp: add_pending_def)

lemma set_after_insert:
  "set (worker_report_after_insert r p) =
     insert (''reconcile'', wpr_worker_session_id r)
       (if wpr_state r \<in> set terminal_states then insert (''exit'', wpr_worker_session_id r) (set p) else set p)"
  by (auto simp: worker_report_after_insert_def set_add_pending Let_def)

lemma after_update_mono: "set p \<subseteq> set (worker_report_after_update old r p)"
  by (auto simp: worker_report_after_update_def set_after_insert)

lemma row_covered_mono:
  "row_covered R p r \<Longrightarrow> R \<subseteq> R' \<Longrightarrow> set p \<subseteq> set p' \<Longrightarrow> row_covered R' p' r"
  by (auto simp: row_covered_def covered_def)

lemma row_covered_insert: "row_covered R (worker_report_after_insert r p) r"
  by (auto simp: row_covered_def covered_def set_after_insert)

lemma row_covered_update:
  assumes "row_covered R p old" and "wpr_worker_session_id old = wpr_worker_session_id r"
  shows "row_covered R (worker_report_after_update old r p) r"
proof (cases "wpr_worker_instance_id old = wpr_worker_instance_id r \<and> wpr_state old = wpr_state r
    \<and> wpr_exit_code old = wpr_exit_code r")
  case True
  with assms show ?thesis
    by (simp add: worker_report_after_update_def row_covered_def covered_def row_report_def)
next
  case False
  then have "worker_report_after_update old r p = worker_report_after_insert r p"
    by (auto simp: worker_report_after_update_def)
  then show ?thesis by (simp add: row_covered_insert)
qed

lemma put_worker_process_reports:
  assumes inv: "reports_inv R s" and put: "put_worker_process s record = Inr s'"
  shows "reports_inv R s'"
proof -
  let ?row = "worker_process_to_row record"
  have key: "wpr_worker_session_id ?row = wp_worker_session_id record"
    by (simp add: worker_process_to_row_def)
  have dist: "distinct (map wpr_worker_session_id (ds_worker_process s))"
    and cov: "\<And>r. r \<in> set (ds_worker_process s) \<Longrightarrow> row_covered R (ds_report_pending s) r"
    using inv by (auto simp: reports_inv_def list_all_iff)
  have rows: "ds_worker_process s' = tbl_upsert wpr_worker_session_id ?row (ds_worker_process s)"
    and pend: "ds_report_pending s' =
      (case tbl_find wpr_worker_session_id (wp_worker_session_id record) (ds_worker_process s) of
         None \<Rightarrow> worker_report_after_insert ?row (ds_report_pending s)
       | Some old \<Rightarrow> worker_report_after_update old ?row (ds_report_pending s))"
    using put by (auto simp: put_worker_process_def result_simps Let_def)
  have dist': "distinct (map wpr_worker_session_id (ds_worker_process s'))"
    unfolding rows by (rule distinct_upsert_with) (simp_all add: dist)
  have "row_covered R (ds_report_pending s') r" if r: "r \<in> set (ds_worker_process s')" for r
  proof (cases "tbl_find wpr_worker_session_id (wp_worker_session_id record) (ds_worker_process s)")
    case None
    with r rows key have "r \<in> set (ds_worker_process s) \<or> r = ?row"
      by (auto simp: tbl_upsert_with_def)
    moreover have "set (ds_report_pending s) \<subseteq> set (ds_report_pending s')"
      using pend None by (auto simp: set_after_insert)
    moreover have "row_covered R (ds_report_pending s') ?row"
      using pend None by (simp add: row_covered_insert)
    ultimately show ?thesis
      using row_covered_mono [OF cov order_refl] by blast
  next
    case (Some old)
    have pend': "ds_report_pending s' = worker_report_after_update old ?row (ds_report_pending s)"
      using pend Some by simp
    from Some r rows key have "r \<in> set (ds_worker_process s) \<or> r = ?row"
      by (auto simp: tbl_upsert_with_def tbl_update_def)
    then show ?thesis
    proof
      assume "r = ?row"
      then show ?thesis unfolding pend'
        using tbl_find_Some_key [OF Some] cov key by (auto intro: row_covered_update)
    next
      assume "r \<in> set (ds_worker_process s)"
      then show ?thesis unfolding pend'
        by (intro row_covered_mono [OF cov order_refl] after_update_mono)
    qed
  qed
  with dist' show ?thesis by (simp add: reports_inv_def list_all_iff)
qed

lemma mark_worker_process_reports:
  assumes inv: "reports_inv R s" and mark: "mark_worker_process_state s sid st ec at = Inr (b, s')"
  shows "reports_inv R s'"
proof (cases "tbl_find wpr_worker_session_id sid (ds_worker_process s)")
  case None
  with mark inv show ?thesis by (auto simp: mark_worker_process_state_def result_simps Let_def)
next
  case (Some old)
  let ?f = "\<lambda>r. r\<lparr>wpr_state := st, wpr_exit_code := ec, wpr_last_observed_at := at\<rparr>"
  have dist: "distinct (map wpr_worker_session_id (ds_worker_process s))"
    and cov: "\<And>r. r \<in> set (ds_worker_process s) \<Longrightarrow> row_covered R (ds_report_pending s) r"
    using inv by (auto simp: reports_inv_def list_all_iff)
  have rows: "ds_worker_process s' =
      tbl_update (\<lambda>r. wpr_worker_session_id r = sid) ?f (ds_worker_process s)"
    and pend: "ds_report_pending s' = worker_report_after_update old (?f old) (ds_report_pending s)"
    using mark Some by (auto simp: mark_worker_process_state_def result_simps Let_def)
  have dist': "distinct (map wpr_worker_session_id (ds_worker_process s'))"
    unfolding rows by (subst keys_update) (simp_all add: dist)
  have "row_covered R (ds_report_pending s') r" if "r \<in> set (ds_worker_process s')" for r
  proof -
    from that obtain q where q: "q \<in> set (ds_worker_process s)"
      and r: "r = (if wpr_worker_session_id q = sid then ?f q else q)"
      unfolding rows by (auto simp: tbl_update_def)
    show ?thesis
    proof (cases "wpr_worker_session_id q = sid")
      case True
      then have "q = old" using tbl_find_unique [OF dist q] Some by simp
      then show ?thesis
        unfolding pend using True r cov [OF q] by (auto intro: row_covered_update)
    next
      case False
      then show ?thesis
        unfolding pend using r by (simp add: row_covered_mono [OF cov [OF q] order_refl after_update_mono])
    qed
  qed
  with dist' show ?thesis by (simp add: reports_inv_def list_all_iff)
qed

lemma report_queued_reports:
  assumes inv: "reports_inv R s" and queued: "worker_report_queued s family record = Inr s'"
  shows "reports_inv (R \<union> op_reports (ReportQueued family record)) s'"
proof -
  let ?R = "R \<union> op_reports (ReportQueued family record)"
  let ?sid = "wp_worker_session_id record"
  have dist: "distinct (map wpr_worker_session_id (ds_worker_process s))"
    and cov: "\<And>r. r \<in> set (ds_worker_process s) \<Longrightarrow> row_covered R (ds_report_pending s) r"
    using inv by (auto simp: reports_inv_def list_all_iff)
  have rows: "ds_worker_process s' = ds_worker_process s"
    using queued by (auto simp: worker_report_queued_def result_simps Let_def split: if_splits)
  have removed: "\<exists>q \<in> set (ds_worker_process s). wpr_worker_session_id q = ?sid
      \<and> row_report family q \<in> op_reports (ReportQueued family record)"
    if "(family, ?sid) \<in> set (ds_report_pending s)" "(family, ?sid) \<notin> set (ds_report_pending s')"
    using that queued
    by (fastforce simp: worker_report_queued_def result_simps Let_def tbl_delete_def list_ex_iff
        row_report_def split: if_splits)
  have kept: "(f, x) \<in> set (ds_report_pending s')"
    if "(f, x) \<in> set (ds_report_pending s)" "(f, x) \<noteq> (family, ?sid)" for f x
    using that queued
    by (auto simp: worker_report_queued_def result_simps Let_def tbl_delete_def split: if_splits)
  have one: "covered ?R (ds_report_pending s') f r"
    if r: "r \<in> set (ds_worker_process s)" and c: "covered R (ds_report_pending s) f r" for f r
  proof (cases "row_report f r \<in> R \<or> (f, wpr_worker_session_id r) \<in> set (ds_report_pending s')")
    case True
    then show ?thesis by (auto simp: covered_def)
  next
    case False
    with c have gone: "(f, wpr_worker_session_id r) \<in> set (ds_report_pending s)"
      and f: "(f, wpr_worker_session_id r) = (family, ?sid)"
      using kept by (auto simp: covered_def)
    with False removed obtain q where q: "q \<in> set (ds_worker_process s)" "wpr_worker_session_id q = ?sid"
      "row_report family q \<in> op_reports (ReportQueued family record)" by auto
    then have "q = r"
      using tbl_find_unique [OF dist q(1)] tbl_find_unique [OF dist r] f by simp
    with q f show ?thesis by (auto simp: covered_def)
  qed
  have "row_covered ?R (ds_report_pending s') r" if r: "r \<in> set (ds_worker_process s)" for r
    using one [OF r] cov [OF r] by (simp add: row_covered_def)
  with dist show ?thesis by (simp add: reports_inv_def rows list_all_iff)
qed

lemma reports_inv_mono: "reports_inv R s \<Longrightarrow> R \<subseteq> R' \<Longrightarrow> reports_inv R' s"
  by (auto simp: reports_inv_def list_all_iff intro: row_covered_mono)

lemma worker_step_reports:
  assumes inv: "reports_inv R s" and step: "worker_step s call = Inr s'"
  shows "reports_inv (R \<union> op_reports call) s'"
proof (cases call)
  case (PutWorker r)
  with step put_worker_process_reports [OF inv] show ?thesis by simp
next
  case (MarkWorker sid st ec at)
  with step obtain b where "mark_worker_process_state s sid st ec at = Inr (b, s')"
    by (auto simp: result_simps)
  from mark_worker_process_reports [OF inv this] MarkWorker show ?thesis by simp
next
  case (ReportQueued family r)
  with step report_queued_reports [OF inv] show ?thesis by simp
qed

lemma run_worker_reports:
  "reports_inv R s \<Longrightarrow>
     reports_inv (R \<union> (\<Union>call \<in> set calls. op_reports call)) (run_ops worker_step s calls)"
proof (induction calls arbitrary: R s)
  case (Cons call calls)
  show ?case
  proof (cases "worker_step s call")
    case (Inl e)
    with Cons.IH [OF Cons.prems] show ?thesis by (auto intro: reports_inv_mono)
  next
    case (Inr s')
    with Cons.IH [OF worker_step_reports [OF Cons.prems Inr]] show ?thesis
      by (auto intro: reports_inv_mono)
  qed
qed simp

text \<open>
  C25. No observation of a worker goes unreported: at any moment, for every registered worker, either
  a reconcile report is pending or one was queued that carried exactly the worker's present
  instance, state and exit code; and the same holds of exit reports once the worker has ended.
\<close>

theorem worker_reports_not_lost:
  "let s = run_ops worker_step empty_store calls; queued = (\<Union>call \<in> set calls. op_reports call)
   in \<forall>r \<in> set (ds_worker_process s).
        ((''reconcile'', wpr_worker_session_id r) \<in> set (ds_report_pending s)
           \<or> row_report ''reconcile'' r \<in> queued)
        \<and> (wpr_state r \<in> set terminal_states \<longrightarrow>
             (''exit'', wpr_worker_session_id r) \<in> set (ds_report_pending s)
             \<or> row_report ''exit'' r \<in> queued)"
proof -
  have "reports_inv {} empty_store" by (simp add: reports_inv_def empty_store_def)
  from run_worker_reports [OF this, of calls] show ?thesis
    by (auto simp: reports_inv_def list_all_iff row_covered_def covered_def Let_def)
qed

definition sample_worker :: worker_process_record where
  "sample_worker = \<lparr>wp_worker_session_id = ''w1'', wp_worker_id = ''k1'', wp_worker_instance_id = ''i1'',
     wp_pid = 42, wp_process_start_identity = ''st'', wp_repository_binding_id = ''rb'',
     wp_occupancy_lease_id = ''ocl'', wp_launch_grant_id = ''lg'', wp_data_directory = ''/d'',
     wp_state = ''running'', wp_exit_code = None, wp_last_observed_at = ''t0''\<rparr>"

theorem worker_reports_not_lost_witness:
  "let calls = [PutWorker sample_worker, ReportQueued ''reconcile'' sample_worker,
                MarkWorker ''w1'' ''exited'' (Some 0) ''t1'', ReportQueued ''reconcile'' sample_worker];
       s = run_ops worker_step empty_store calls
   in (''reconcile'', ''w1'') \<in> set (ds_report_pending s)"
proof -
  let ?calls = "[PutWorker sample_worker, ReportQueued ''reconcile'' sample_worker,
    MarkWorker ''w1'' ''exited'' (Some 0) ''t1'', ReportQueued ''reconcile'' sample_worker]"
  let ?row = "worker_process_to_row (sample_worker\<lparr>wp_state := ''exited'', wp_exit_code := Some 0,
    wp_last_observed_at := ''t1''\<rparr>)"
  have "?row \<in> set (ds_worker_process (run_ops worker_step empty_store ?calls))"
    by (simp add: put_worker_process_def validate_worker_process_record_def worker_report_queued_def
        mark_worker_process_state_def require_defs empty_store_def sample_worker_def
        worker_process_to_row_def tbl_upsert_with_def tbl_update_def Let_def)
  then show ?thesis
    using worker_reports_not_lost [of ?calls]
    by (auto simp: Let_def row_report_def worker_process_to_row_def sample_worker_def
        simp del: run_ops.simps)
qed

section \<open>Intents are durable and replays change nothing\<close>

text \<open>
  Recording a stop intent is idempotent: once a call has succeeded, the same call again finds
  the stored intent, reports it as a duplicate, and changes nothing.
\<close>

theorem worker_stop_intent_replay:
  assumes "record_worker_stop_intent s intent = Inr (outcome, s')"
  shows "\<exists>stored. record_worker_stop_intent s' intent = Inr (StopDuplicate stored, s')
    \<and> same_worker_stop_intent stored intent"
proof -
  have valid: "validate_worker_stop_intent intent = Inr ()" and opened: "connection s = Inr ()"
    using assms by (auto simp: record_worker_stop_intent_def result_simps)
  show ?thesis
  proof (cases outcome)
    case (StopDuplicate stored)
    with assms have "s' = s \<and> same_worker_stop_intent stored intent"
      by (auto simp: record_worker_stop_intent_def insert_worker_stop_intent_def result_simps
          split: option.splits if_splits)
    with assms StopDuplicate show ?thesis by auto
  next
    case (StopRecorded r)
    from assms obtain existing where ex: "read_worker_stop_intent s (ws_command_message_id intent) = Inr existing"
      by (auto simp: record_worker_stop_intent_def result_simps)
    with assms StopRecorded have none: "existing = None"
      by (cases existing) (auto simp: record_worker_stop_intent_def result_simps split: if_splits)
    with assms ex obtain by_key where
      key: "read_worker_stop_intent_by_idempotency s (ws_idempotency_key intent) = Inr by_key"
      by (auto simp: record_worker_stop_intent_def result_simps)
    with assms StopRecorded ex none have "insert_worker_stop_intent s intent = Inr (outcome, s')"
      by (cases by_key) (auto simp: record_worker_stop_intent_def result_simps split: if_splits)
    note ins = this and none = ex [unfolded none]
    from none have "tbl_find wsr_command_message_id (ws_command_message_id intent) (ds_stop_intents s) = None"
      by (auto simp: read_worker_stop_intent_def read_optional_def result_simps split: option.splits)
    with ins have "read_worker_stop_intent s' (ws_command_message_id intent) =
        Inr (Some (intent\<lparr>ws_receipt_payload := None, ws_completed_at := None\<rparr>))"
      by (auto simp: insert_worker_stop_intent_def read_worker_stop_intent_def result_simps
          tbl_find_append read_optional_def row_to_worker_stop_intent_def)
    moreover have "connection s' = Inr ()"
      using ins opened by (auto simp: insert_worker_stop_intent_def result_simps connection_def)
    ultimately show ?thesis
      using valid by (simp add: record_worker_stop_intent_def same_worker_stop_intent_def)
  qed
qed

text \<open>
  The first receipt of a stop intent is final: after a completion has succeeded, completing the
  same command again succeeds without a change when the receipt is the same, and is refused as a
  conflict when it differs.
\<close>

theorem worker_stop_receipt_final:
  assumes "complete_worker_stop_intent s cid receipt at = Inr s'"
    and "receipt' \<noteq> []" and "length receipt' \<le> 64 * 1024"
    and "at' \<noteq> []" and "length at' \<le> MAX_ID_BYTES"
  shows "complete_worker_stop_intent s' cid receipt' at' =
    (if receipt' = receipt then Inr s'
     else Inl (conflict ''worker stop receipt changed during replay''))"
proof -
  from assms(1) obtain row stored where
    cid: "require_non_empty cid ''worker stop command message id'' MAX_ID_BYTES = Inr ()"
    and opened: "connection s = Inr ()"
    and row: "tbl_find wsr_command_message_id cid (ds_stop_intents s) = Some row"
    and stored: "row_to_worker_stop_intent row = Inr stored"
    by (auto simp: complete_worker_stop_intent_def read_worker_stop_intent_def read_optional_def
        result_simps split: option.splits)
  let ?upd = "\<lambda>r. r\<lparr>wsr_receipt_payload := Some receipt, wsr_completed_at := Some at\<rparr>"
  have "\<exists>again. read_worker_stop_intent s' cid = Inr (Some again) \<and> ws_receipt_payload again = Some receipt"
  proof (cases "ws_receipt_payload stored")
    case None
    then have "ds_stop_intents s' = tbl_update (\<lambda>r. wsr_command_message_id r = cid) ?upd (ds_stop_intents s)"
      using assms(1) row stored
      by (auto simp: complete_worker_stop_intent_def read_worker_stop_intent_def read_optional_def result_simps)
    moreover have "tbl_find wsr_command_message_id cid
        (tbl_update (\<lambda>r. wsr_command_message_id r = cid) ?upd (ds_stop_intents s)) = Some (?upd row)"
      using row tbl_find_Some_key [OF row] by (subst tbl_find_update) simp_all
    moreover have "row_to_worker_stop_intent (?upd row) =
        Inr (stored\<lparr>ws_receipt_payload := Some receipt, ws_completed_at := Some at\<rparr>)"
      using stored by (auto simp: row_to_worker_stop_intent_def result_simps)
    ultimately show ?thesis by (simp add: read_worker_stop_intent_def read_optional_def)
  next
    case (Some old)
    then have "s' = s \<and> old = receipt"
      using assms(1) row stored
      by (auto simp: complete_worker_stop_intent_def read_worker_stop_intent_def read_optional_def
          result_simps split: if_splits)
    with Some row stored show ?thesis by (simp add: read_worker_stop_intent_def read_optional_def)
  qed
  then obtain again where again: "read_worker_stop_intent s' cid = Inr (Some again)"
    "ws_receipt_payload again = Some receipt" by blast
  have "ds_open s'" using assms(1) opened
    by (auto simp: complete_worker_stop_intent_def result_simps split: option.splits if_splits)
  then have "connection s' = Inr ()" by (simp add: connection_def)
  moreover have "require_non_empty at' ''worker stop completed at'' MAX_ID_BYTES = Inr ()"
    using assms(4,5) by (simp add: require_non_empty_def)
  ultimately show ?thesis
    using again cid assms(2,3)
    by (simp add: complete_worker_stop_intent_def check_all.simps not_less)
qed

text \<open>
  Recording a release intent is idempotent by its key: whatever intent a later call carries
  under the same key, the first one is reported as the duplicate and stays on file.
\<close>

theorem release_intent_first_wins:
  assumes "record_occupancy_release_intent s intent = Inr (ReleaseRecorded r, s')"
    and "validate_release_intent later = Inr ()" and "ri_idempotency_key later = ri_idempotency_key intent"
  shows "r = intent \<and> record_occupancy_release_intent s' later = Inr (ReleaseDuplicate intent, s')"
proof -
  from assms(1) have none: "read_release_intent s (ri_idempotency_key intent) = Inr None"
    and opened: "connection s = Inr ()"
    by (auto simp: record_occupancy_release_intent_def result_simps split: option.splits)
  then have "tbl_find rir_idempotency_key (ri_idempotency_key intent) (ds_release_intents s) = None"
    by (auto simp: read_release_intent_def read_optional_def result_simps split: option.splits)
  with assms(1) none have "read_release_intent s' (ri_idempotency_key intent) = Inr (Some intent)"
    and "r = intent" and "connection s' = Inr ()"
    by (auto simp: record_occupancy_release_intent_def read_release_intent_def result_simps
        tbl_find_append read_optional_def row_to_release_intent_def connection_def)
  then show ?thesis using assms(2,3) by (simp add: record_occupancy_release_intent_def)
qed

definition sample_stop :: worker_stop_intent_record where
  "sample_stop = \<lparr>ws_command_message_id = ''c1'', ws_idempotency_key = ''k1'',
     ws_worker_session_id = ''w1'', ws_worker_id = ''k'', ws_reason = GrantRevoked,
     ws_occupancy_lease_id = ''ocl'', ws_fencing_token = 7, ws_expected_revision = 1,
     ws_receipt_payload = None, ws_recorded_at = ''t0'', ws_completed_at = None\<rparr>"

definition sample_stop_store :: device_store where
  "sample_stop_store = empty_store\<lparr>ds_stop_intents :=
     [\<lparr>wsr_command_message_id = ''c1'', wsr_idempotency_key = ''k1'', wsr_worker_session_id = ''w1'',
       wsr_worker_id = ''k'', wsr_reason = ''grant_revoked'', wsr_occupancy_lease_id = ''ocl'',
       wsr_fencing_token = 7, wsr_expected_revision = 1, wsr_receipt_payload = None,
       wsr_recorded_at = ''t0'', wsr_completed_at = None\<rparr>]\<rparr>"

lemmas stop_defs = record_worker_stop_intent_def validate_worker_stop_intent_def
  read_worker_stop_intent_def read_worker_stop_intent_by_idempotency_def insert_worker_stop_intent_def
  complete_worker_stop_intent_def row_to_worker_stop_intent_def parse_worker_stop_reason_wire_name_def
  i64_of_u64_def u64_of_i64_def max_safe_integer_def require_defs

lemma sample_stop_recorded:
  "record_worker_stop_intent empty_store sample_stop = Inr (StopRecorded sample_stop, sample_stop_store)"
  by (simp add: stop_defs sample_stop_def sample_stop_store_def empty_store_def)

definition sample_release :: release_intent_record where
  "sample_release = \<lparr>ri_idempotency_key = ''k1'', ri_command_message_id = ''c1'',
     ri_occupancy_lease_id = ''ocl'', ri_fencing_token = 7, ri_mode = Immediate,
     ri_affected_worker_sessions = 2, ri_recorded_at = ''t0''\<rparr>"

end
