(* ===== verification/Device_Fencing.thy ===== *)
theory Device_Fencing
  imports Device_Tables
begin

text \<open>
  \<^verbatim>\<open>store.rs\<close> (the durable occupancy mirror) and \<^verbatim>\<open>fencing.rs\<close> (the guard that authorises commands
  against it). A ticket is issued under the mirror's present lease, token and revision; every
  advance of the mirror takes a larger token and the next revision, so it fences the tickets
  issued before it.
\<close>

section \<open>The occupancy mirror\<close>

record occupancy_mirror_update =
  mu_occupancy_lease_id :: string
  mu_fencing_token :: u64
  mu_holder_user_id :: "string option"
  mu_claim_request_id :: "string option"
  mu_idle_expires_at :: "string option"
  mu_acknowledged_at :: string

datatype occupancy_mirror_advance =
    MirrorAdvanced occupancy_mirror_record
  | MirrorUnchanged occupancy_mirror_record

definition validate_mirror_update :: "occupancy_mirror_update \<Rightarrow> device_store_error + unit" where
  "validate_mirror_update upd = check_all
     [require_non_empty (mu_occupancy_lease_id upd) ''occupancy lease id'' MAX_ID_BYTES,
      require_non_empty (mu_acknowledged_at upd) ''acknowledged at'' MAX_ID_BYTES,
      ensure (\<not> (mu_fencing_token upd = 0 \<or> mu_fencing_token upd > max_safe_integer))
        (invalid ''occupancy fencing token must be a positive SQLite-range integer''),
      require_optional (mu_holder_user_id upd) ''holder user id'' MAX_ID_BYTES,
      require_optional (mu_claim_request_id upd) ''claim request id'' MAX_ID_BYTES]"

definition row_to_occupancy_mirror :: "occupancy_mirror_row \<Rightarrow> sqlite_failure + occupancy_mirror_record" where
  "row_to_occupancy_mirror r =
     rbind (ok_or (u64_of_i64 (omr_fencing_token r))
       (FromSqlConversionFailure 1 ''stored occupancy fencing token is negative'')) (\<lambda>token.
     rbind (ok_or (u64_of_i64 (omr_mirror_revision r))
       (FromSqlConversionFailure 3 ''stored occupancy mirror revision is negative'')) (\<lambda>revision.
     Inr \<lparr>om_occupancy_lease_id = omr_occupancy_lease_id r, om_fencing_token = token,
          om_holder_user_id = omr_holder_user_id r, om_mirror_revision = revision,
          om_claim_request_id = omr_claim_request_id r, om_idle_expires_at = omr_idle_expires_at r,
          om_acknowledged_at = omr_acknowledged_at r, om_updated_at = omr_updated_at r\<rparr>))"

definition read_occupancy_mirror :: "device_store \<Rightarrow> device_store_error + occupancy_mirror_record option" where
  "read_occupancy_mirror s = read_optional row_to_occupancy_mirror (ds_occupancy_mirror s)"

definition occupancy_mirror :: "device_store \<Rightarrow> device_store_error + occupancy_mirror_record option" where
  "occupancy_mirror s = rbind (connection s) (\<lambda>_. read_occupancy_mirror s)"

definition write_occupancy_mirror ::
    "device_store \<Rightarrow> occupancy_mirror_record \<Rightarrow> device_store_error + device_store" where
  "write_occupancy_mirror s record =
     rbind (ok_or (i64_of_u64 (om_fencing_token record))
       (invalid ''occupancy fencing token is outside the SQLite integer range'')) (\<lambda>token.
     rbind (ok_or (i64_of_u64 (om_mirror_revision record))
       (invalid ''occupancy mirror revision is outside the SQLite integer range'')) (\<lambda>revision.
     Inr (s\<lparr>ds_occupancy_mirror := Some
       \<lparr>omr_occupancy_lease_id = om_occupancy_lease_id record, omr_fencing_token = token,
        omr_holder_user_id = om_holder_user_id record, omr_mirror_revision = revision,
        omr_claim_request_id = om_claim_request_id record,
        omr_idle_expires_at = om_idle_expires_at record,
        omr_acknowledged_at = om_acknowledged_at record, omr_updated_at = om_updated_at record\<rparr>\<rparr>)))"

definition mirror_record_from_update :: "occupancy_mirror_update \<Rightarrow> occupancy_mirror_record" where
  "mirror_record_from_update upd =
     \<lparr>om_occupancy_lease_id = mu_occupancy_lease_id upd, om_fencing_token = mu_fencing_token upd,
      om_holder_user_id = mu_holder_user_id upd, om_mirror_revision = 1,
      om_claim_request_id = mu_claim_request_id upd, om_idle_expires_at = mu_idle_expires_at upd,
      om_acknowledged_at = mu_acknowledged_at upd, om_updated_at = mu_acknowledged_at upd\<rparr>"

definition advance_occupancy_mirror ::
    "device_store \<Rightarrow> occupancy_mirror_update \<Rightarrow> device_store_error + occupancy_mirror_advance \<times> device_store" where
  "advance_occupancy_mirror s upd =
     rbind (validate_mirror_update upd) (\<lambda>_.
     rbind (connection s) (\<lambda>_.
     rbind (read_occupancy_mirror s) (\<lambda>existing.
     case existing of
       Some stored \<Rightarrow>
         (if om_occupancy_lease_id stored = mu_occupancy_lease_id upd
             \<and> om_fencing_token stored = mu_fencing_token upd
          then if om_holder_user_id stored \<noteq> mu_holder_user_id upd
               then Inl (conflict (''occupancy mirror update for lease '' @ mu_occupancy_lease_id upd
                 @ '' token '' @ decimal (unat (mu_fencing_token upd))
                 @ '' names a different holder than the stored mirror''))
               else Inr (MirrorUnchanged stored, s)
          else if mu_fencing_token upd \<le> om_fencing_token stored
          then Inl (conflict (''occupancy mirror token '' @ decimal (unat (mu_fencing_token upd))
                 @ '' does not advance past the stored token '' @ decimal (unat (om_fencing_token stored))))
          else
            let record = (mirror_record_from_update upd)\<lparr>om_mirror_revision := om_mirror_revision stored + 1\<rparr>
            in rbind (write_occupancy_mirror s record) (\<lambda>s'. Inr (MirrorAdvanced record, s')))
     | None \<Rightarrow>
         let record = (mirror_record_from_update upd)\<lparr>om_mirror_revision := 1\<rparr>
         in rbind (write_occupancy_mirror s record) (\<lambda>s'. Inr (MirrorAdvanced record, s')))))"

section \<open>The fencing guard\<close>

datatype fenced_command_kind =
    WorkerLaunch | WorkerStop | CandidateApply | RepositoryMutation | ManagedApp

fun fenced_command_name :: "fenced_command_kind \<Rightarrow> string" where
  "fenced_command_name WorkerLaunch = ''worker_launch''"
| "fenced_command_name WorkerStop = ''worker_stop''"
| "fenced_command_name CandidateApply = ''candidate_apply''"
| "fenced_command_name RepositoryMutation = ''repository_mutation''"
| "fenced_command_name ManagedApp = ''managed_app''"

datatype fencing_rejection = MirrorNotSet | StaleFencingToken | SupersededIntent

datatype client_control_error_code =
    ProtocolVersionUnsupported | DeviceNotEnrolled | DeviceInstanceChanged | UnknownLease
  | StaleFencingTokenCode | RevisionConflict | IdempotencyConflict | CapacityExhausted
  | RepositoryUnavailable | GrantInvalid | WrongState | RateLimitedCode | InternalError

fun wire_error_code :: "fencing_rejection \<Rightarrow> client_control_error_code" where
  "wire_error_code MirrorNotSet = UnknownLease"
| "wire_error_code StaleFencingToken = StaleFencingTokenCode"
| "wire_error_code SupersededIntent = StaleFencingTokenCode"

record fencing_ticket =
  ft_kind :: fenced_command_kind
  ft_occupancy_lease_id :: string
  ft_occupancy_fencing_token :: u64
  ft_mirror_revision :: u64

datatype fencing_verdict = Authorized fencing_ticket | Rejected fencing_rejection

record fencing_guard =
  fg_mirror :: "occupancy_mirror_record option"

definition FencingGuard_new :: "occupancy_mirror_record option \<Rightarrow> fencing_guard" where
  "FencingGuard_new mirror = \<lparr>fg_mirror = mirror\<rparr>"

definition from_store :: "device_store \<Rightarrow> device_store_error + fencing_guard" where
  "from_store s = rbind (occupancy_mirror s) (\<lambda>m. Inr (FencingGuard_new m))"

definition mirror_revision :: "fencing_guard \<Rightarrow> u64 option" where
  "mirror_revision g = map_option om_mirror_revision (fg_mirror g)"

definition check_stamp :: "fencing_guard \<Rightarrow> string \<Rightarrow> u64 \<Rightarrow> fencing_rejection + occupancy_mirror_record" where
  "check_stamp g occupancy_lease_id occupancy_fencing_token =
     (case fg_mirror g of
        None \<Rightarrow> Inl MirrorNotSet
      | Some mirror \<Rightarrow>
          (if om_occupancy_lease_id mirror = occupancy_lease_id
              \<and> om_fencing_token mirror = occupancy_fencing_token
           then Inr mirror else Inl StaleFencingToken))"

definition authorize_command :: "fencing_guard \<Rightarrow> fenced_command_kind \<Rightarrow> string \<Rightarrow> u64 \<Rightarrow> fencing_verdict" where
  "authorize_command g kind occupancy_lease_id occupancy_fencing_token =
     (case check_stamp g occupancy_lease_id occupancy_fencing_token of
        Inr mirror \<Rightarrow> Authorized
          \<lparr>ft_kind = kind, ft_occupancy_lease_id = om_occupancy_lease_id mirror,
           ft_occupancy_fencing_token = om_fencing_token mirror,
           ft_mirror_revision = om_mirror_revision mirror\<rparr>
      | Inl rejection \<Rightarrow> Rejected rejection)"

definition verify_ticket :: "fencing_guard \<Rightarrow> fencing_ticket \<Rightarrow> fencing_rejection + unit" where
  "verify_ticket g ticket =
     rbind (check_stamp g (ft_occupancy_lease_id ticket) (ft_occupancy_fencing_token ticket)) (\<lambda>mirror.
     if om_mirror_revision mirror \<noteq> ft_mirror_revision ticket then Inl SupersededIntent else Inr ())"

section \<open>The mirror only advances\<close>

definition mirror_step :: "device_store \<Rightarrow> occupancy_mirror_update \<Rightarrow> device_store_error + device_store" where
  "mirror_step s upd = rbind (advance_occupancy_mirror s upd) (\<lambda>(_, s'). Inr s')"

definition mirror_inv :: "device_store \<Rightarrow> bool" where
  "mirror_inv s \<longleftrightarrow>
     (case ds_occupancy_mirror s of
        None \<Rightarrow> True
      | Some r \<Rightarrow> 0 < omr_fencing_token r \<and> omr_fencing_token r \<le> uint max_safe_integer
                 \<and> 0 < omr_mirror_revision r \<and> omr_mirror_revision r < 2 ^ 63)"

text \<open>Either the row is as it was, or its token and its revision have both grown.\<close>

definition mirror_le :: "device_store \<Rightarrow> device_store \<Rightarrow> bool" where
  "mirror_le s t \<longleftrightarrow>
     ds_open t = ds_open s \<and>
     (ds_occupancy_mirror t = ds_occupancy_mirror s \<or>
      (case (ds_occupancy_mirror s, ds_occupancy_mirror t) of
         (_, None) \<Rightarrow> False
       | (None, Some _) \<Rightarrow> True
       | (Some a, Some b) \<Rightarrow> omr_fencing_token a < omr_fencing_token b
                             \<and> omr_mirror_revision a < omr_mirror_revision b))"

lemma mirror_le_trans: "mirror_le s t \<Longrightarrow> mirror_le t u \<Longrightarrow> mirror_le s u"
  by (auto simp: mirror_le_def split: option.splits prod.splits)

lemma read_mirror_Some:
  assumes "mirror_inv s" and "ds_occupancy_mirror s = Some r"
  obtains m where "row_to_occupancy_mirror r = Inr m" and "read_occupancy_mirror s = Inr (Some m)"
    and "omr_fencing_token r = uint (om_fencing_token m)"
    and "omr_mirror_revision r = uint (om_mirror_revision m)"
    and "omr_occupancy_lease_id r = om_occupancy_lease_id m"
proof -
  have bounds: "0 < omr_fencing_token r" "omr_fencing_token r < 2 ^ 63"
    "0 < omr_mirror_revision r" "omr_mirror_revision r < 2 ^ 63"
    using assms by (auto simp: mirror_inv_def max_safe_integer_def)
  obtain t where t: "u64_of_i64 (omr_fencing_token r) = Some t" "omr_fencing_token r = uint t"
    using u64_of_i64_small [of "omr_fencing_token r"] bounds by auto
  obtain v where v: "u64_of_i64 (omr_mirror_revision r) = Some v" "omr_mirror_revision r = uint v"
    using u64_of_i64_small [of "omr_mirror_revision r"] bounds by auto
  show thesis
    using t v assms(2)
    by (intro that [of "\<lparr>om_occupancy_lease_id = omr_occupancy_lease_id r, om_fencing_token = t,
          om_holder_user_id = omr_holder_user_id r, om_mirror_revision = v,
          om_claim_request_id = omr_claim_request_id r, om_idle_expires_at = omr_idle_expires_at r,
          om_acknowledged_at = omr_acknowledged_at r, om_updated_at = omr_updated_at r\<rparr>"])
       (auto simp: row_to_occupancy_mirror_def read_occupancy_mirror_def read_optional_def)
qed

lemma write_occupancy_mirror_row:
  assumes "write_occupancy_mirror s m = Inr s'"
  obtains r where "s' = s\<lparr>ds_occupancy_mirror := Some r\<rparr>" "omr_fencing_token r = uint (om_fencing_token m)"
    "omr_mirror_revision r = uint (om_mirror_revision m)" "uint (om_mirror_revision m) < 2 ^ 63"
  using assms by (auto simp: write_occupancy_mirror_def result_simps)

lemma validated_token:
  "validate_mirror_update upd = Inr () \<Longrightarrow>
     0 < uint (mu_fencing_token upd) \<and> uint (mu_fencing_token upd) \<le> uint max_safe_integer"
  by (auto simp: validate_mirror_update_def result_simps uint_gt_0 not_less word_le_def)

lemma mirror_step_advance:
  assumes inv: "mirror_inv s" and step: "mirror_step s upd = Inr s'"
  shows "mirror_inv s' \<and> mirror_le s s'"
proof -
  from step obtain a where adv: "advance_occupancy_mirror s upd = Inr (a, s')"
    by (auto simp: mirror_step_def result_simps)
  then have valid: "validate_mirror_update upd = Inr ()"
    by (auto simp: advance_occupancy_mirror_def result_simps)
  show ?thesis
  proof (cases "ds_occupancy_mirror s")
    case None
    with adv obtain m where w: "write_occupancy_mirror s m = Inr s'"
      and m: "om_fencing_token m = mu_fencing_token upd" "om_mirror_revision m = 1"
      by (auto simp: advance_occupancy_mirror_def result_simps read_occupancy_mirror_def
          mirror_record_from_update_def Let_def)
    from w show ?thesis
      by (rule write_occupancy_mirror_row)
         (use None m validated_token [OF valid] in \<open>auto simp: mirror_inv_def mirror_le_def\<close>)
  next
    case (Some r)
    from read_mirror_Some [OF inv Some] obtain stored where
      read: "read_occupancy_mirror s = Inr (Some stored)"
      and r: "omr_fencing_token r = uint (om_fencing_token stored)"
        "omr_mirror_revision r = uint (om_mirror_revision stored)" by blast
    have "uint (om_mirror_revision stored) < 2 ^ 63" using inv Some r by (simp add: mirror_inv_def)
    then have succ: "uint (om_mirror_revision stored + 1) = uint (om_mirror_revision stored) + 1"
      by (simp add: uint_word_ariths)
    show ?thesis
    proof (cases "s' = s")
      case True
      with inv show ?thesis by (simp add: mirror_le_def)
    next
      case False
      with adv read obtain m where w: "write_occupancy_mirror s m = Inr s'"
        and m: "om_fencing_token m = mu_fencing_token upd" "om_mirror_revision m = om_mirror_revision stored + 1"
        and less: "\<not> mu_fencing_token upd \<le> om_fencing_token stored"
        by (auto simp: advance_occupancy_mirror_def result_simps mirror_record_from_update_def Let_def
            split: if_splits)
      from w show ?thesis
        by (rule write_occupancy_mirror_row)
           (use inv Some r m less succ validated_token [OF valid] in
             \<open>auto simp: mirror_inv_def mirror_le_def word_le_def\<close>)
    qed
  qed
qed

interpretation mirror: preordered_machine mirror_step mirror_inv mirror_le
proof unfold_locales
  fix s upd s' assume "mirror_inv s" and "mirror_step s upd = Inr s'"
  from mirror_step_advance [OF this] show "mirror_inv s'" and "mirror_le s s'" by simp_all
next
  fix s show "mirror_le s s" by (simp add: mirror_le_def)
next
  fix s t u assume "mirror_le s t" and "mirror_le t u"
  then show "mirror_le s u" by (rule mirror_le_trans)
qed

text \<open>An update that was accepted leaves its token in the mirror, and any token below it is stale from then on.\<close>

lemma mirror_step_token:
  assumes inv: "mirror_inv s" and step: "mirror_step s upd = Inr s'"
  shows "\<exists>r. ds_occupancy_mirror s' = Some r \<and> omr_fencing_token r = uint (mu_fencing_token upd)"
proof (cases "ds_occupancy_mirror s")
  case None
  with step show ?thesis
    by (auto simp: mirror_step_def advance_occupancy_mirror_def result_simps read_occupancy_mirror_def
        mirror_record_from_update_def Let_def elim!: write_occupancy_mirror_row)
next
  case (Some r)
  from read_mirror_Some [OF inv Some] obtain stored where "read_occupancy_mirror s = Inr (Some stored)"
    "omr_fencing_token r = uint (om_fencing_token stored)" by blast
  with step Some show ?thesis
    by (auto simp: mirror_step_def advance_occupancy_mirror_def result_simps mirror_record_from_update_def Let_def
        split: if_splits elim!: write_occupancy_mirror_row)
qed

lemma older_token_stale:
  assumes inv: "mirror_inv s" and step: "mirror_step s upd = Inr s'"
    and guard: "from_store (run_ops mirror_step s' later) = Inr g" and old: "token < mu_fencing_token upd"
  shows "authorize_command g kind lease token = Rejected StaleFencingToken"
proof -
  let ?t = "run_ops mirror_step s' later"
  have inv': "mirror_inv s'" using mirror_step_advance [OF inv step] by simp
  obtain r where r: "ds_occupancy_mirror s' = Some r" "omr_fencing_token r = uint (mu_fencing_token upd)"
    using mirror_step_token [OF inv step] by blast
  from mirror.run_le [OF inv', of later] r obtain r' where r': "ds_occupancy_mirror ?t = Some r'"
    and le: "omr_fencing_token r \<le> omr_fencing_token r'"
    by (auto simp: mirror_le_def split: option.splits)
  from read_mirror_Some [OF mirror.run_inv [OF inv'] r'] obtain m where
    m: "read_occupancy_mirror ?t = Inr (Some m)" "omr_fencing_token r' = uint (om_fencing_token m)" by blast
  from guard m(1) have "fg_mirror g = Some m"
    by (auto simp: from_store_def occupancy_mirror_def result_simps FencingGuard_new_def)
  moreover have "om_fencing_token m \<noteq> token" using old le r(2) m(2) by (auto simp: word_less_def)
  ultimately show ?thesis by (simp add: authorize_command_def check_stamp_def)
qed

section \<open>Tickets are fenced\<close>

text \<open>
  C11. A ticket stays valid exactly as long as the mirror does not move: whatever updates arrive
  after it was issued, stale and repeated ones included, the ticket verifies if and only if the
  durable mirror is still the row it was issued under.
\<close>

theorem ticket_valid_iff_mirror_unmoved:
  assumes inv: "mirror_inv s" and guard: "from_store s = Inr g"
    and auth: "authorize_command g kind lease token = Authorized ticket"
  shows "\<exists>g'. from_store (run_ops mirror_step s updates) = Inr g'
    \<and> (verify_ticket g' ticket = Inr () \<longleftrightarrow>
        ds_occupancy_mirror (run_ops mirror_step s updates) = ds_occupancy_mirror s)"
proof -
  let ?t = "run_ops mirror_step s updates"
  have inv': "mirror_inv ?t" by (rule mirror.run_inv [OF inv])
  have le: "mirror_le s ?t" by (rule mirror.run_le [OF inv])
  from guard have opened: "ds_open s" and g: "read_occupancy_mirror s = Inr (fg_mirror g)"
    by (auto simp: from_store_def occupancy_mirror_def result_simps FencingGuard_new_def)
  from auth obtain m where m: "fg_mirror g = Some m" and ticket:
    "ft_occupancy_lease_id ticket = om_occupancy_lease_id m"
    "ft_occupancy_fencing_token ticket = om_fencing_token m" "ft_mirror_revision ticket = om_mirror_revision m"
    by (auto simp: authorize_command_def check_stamp_def split: option.splits if_splits sum.splits)
  from g m obtain r where r: "ds_occupancy_mirror s = Some r"
    by (cases "ds_occupancy_mirror s") (auto simp: read_occupancy_mirror_def)
  from le r obtain r' where r': "ds_occupancy_mirror ?t = Some r'"
    by (auto simp: mirror_le_def split: option.splits)
  from read_mirror_Some [OF inv r] g m have row: "row_to_occupancy_mirror r = Inr m"
    and tok: "omr_fencing_token r = uint (om_fencing_token m)" by auto
  from read_mirror_Some [OF inv' r'] obtain m' where m': "row_to_occupancy_mirror r' = Inr m'"
    "read_occupancy_mirror ?t = Inr (Some m')" "omr_fencing_token r' = uint (om_fencing_token m')" by blast
  have "connection ?t = Inr ()" using le opened by (simp add: mirror_le_def connection_def)
  then have g': "from_store ?t = Inr (FencingGuard_new (Some m'))"
    using m'(2) by (simp add: from_store_def occupancy_mirror_def)
  have "verify_ticket (FencingGuard_new (Some m')) ticket = Inr () \<longleftrightarrow> r' = r"
  proof
    assume "r' = r"
    with row m'(1) ticket show "verify_ticket (FencingGuard_new (Some m')) ticket = Inr ()"
      by (simp add: verify_ticket_def check_stamp_def FencingGuard_new_def)
  next
    assume "verify_ticket (FencingGuard_new (Some m')) ticket = Inr ()"
    then have "om_fencing_token m' = om_fencing_token m"
      using ticket by (auto simp: verify_ticket_def check_stamp_def FencingGuard_new_def result_simps
          split: if_splits)
    with tok m'(3) le r r' show "r' = r" by (auto simp: mirror_le_def)
  qed
  with g' r r' show ?thesis by auto
qed

text \<open>
  The durable token and the mirror's revision never go back, and any change to the mirror takes
  a strictly larger token and a strictly larger revision, along every run of updates.
\<close>

theorem mirror_token_monotone:
  "let s = run_ops mirror_step empty_store updates; t = run_ops mirror_step empty_store (updates @ later)
   in case (ds_occupancy_mirror s, ds_occupancy_mirror t) of
        (Some a, Some b) \<Rightarrow> a = b \<or> omr_fencing_token a < omr_fencing_token b
                                   \<and> omr_mirror_revision a < omr_mirror_revision b
      | (Some _, None) \<Rightarrow> False
      | (None, _) \<Rightarrow> True"
proof -
  have "mirror_inv empty_store" by (simp add: mirror_inv_def empty_store_def)
  then have "mirror_le (run_ops mirror_step empty_store updates)
      (run_ops mirror_step (run_ops mirror_step empty_store updates) later)"
    by (intro mirror.run_le mirror.run_inv)
  then show ?thesis by (auto simp: mirror_le_def run_ops_append Let_def split: option.splits)
qed

definition sample_mirror :: occupancy_mirror_update where
  "sample_mirror = \<lparr>mu_occupancy_lease_id = ''ocl'', mu_fencing_token = 7, mu_holder_user_id = None,
     mu_claim_request_id = None, mu_idle_expires_at = None, mu_acknowledged_at = ''t0''\<rparr>"

lemmas mirror_defs = mirror_step_def advance_occupancy_mirror_def validate_mirror_update_def
  read_occupancy_mirror_def write_occupancy_mirror_def mirror_record_from_update_def
  i64_of_u64_def u64_of_i64_def max_safe_integer_def require_defs

theorem ticket_valid_iff_mirror_unmoved_witness:
  "\<exists>g ticket g'. from_store (run_ops mirror_step empty_store [sample_mirror]) = Inr g
    \<and> authorize_command g WorkerStop ''ocl'' 7 = Authorized ticket
    \<and> from_store (run_ops mirror_step (run_ops mirror_step empty_store [sample_mirror])
        [sample_mirror\<lparr>mu_fencing_token := 9\<rparr>]) = Inr g'
    \<and> verify_ticket g' ticket \<noteq> Inr ()"
proof -
  let ?s = "run_ops mirror_step empty_store [sample_mirror]"
  let ?upd = "[sample_mirror\<lparr>mu_fencing_token := 9\<rparr>]"
  have inv: "mirror_inv ?s"
    by (rule mirror.run_inv) (simp add: mirror_inv_def empty_store_def)
  obtain g where g: "from_store ?s = Inr g"
    and m: "\<exists>m. fg_mirror g = Some m \<and> om_occupancy_lease_id m = ''ocl'' \<and> om_fencing_token m = 7"
    by (simp add: from_store_def occupancy_mirror_def mirror_defs sample_mirror_def empty_store_def
        FencingGuard_new_def row_to_occupancy_mirror_def)
  then obtain ticket where t: "authorize_command g WorkerStop ''ocl'' 7 = Authorized ticket"
    by (auto simp: authorize_command_def check_stamp_def)
  have "ds_occupancy_mirror (run_ops mirror_step ?s ?upd) \<noteq> ds_occupancy_mirror ?s"
    by (simp add: mirror_defs sample_mirror_def empty_store_def row_to_occupancy_mirror_def)
  with g t ticket_valid_iff_mirror_unmoved [OF inv g t, of ?upd] show ?thesis by blast
qed

end
