(* ===== verification/Application_Journal.thy ===== *)
theory Application_Journal
  imports Device_Tables Device_Fencing
begin

text \<open>
  \<^verbatim>\<open>crates/winwincode-device-client/src/application_journal.rs\<close>: the durable journal of candidate
  applications, with the request and error types of \<^verbatim>\<open>apply_engine.rs\<close>. The journal is what makes an
  apply command safe to repeat: a finished receipt is final, and an application whose outcome is
  unknown blocks the others on its candidate.
\<close>

section \<open>Types\<close>

datatype apply_strategy = CreateBranch | FastForward | CherryPick | Merge

datatype apply_result =
    Retained | BranchCreated | Applied | BaseStale | WorkingTreeDirty | MergeConflict
  | CandidateMissing | ApplyPermissionDenied | Discarded | Failed

record candidate_apply_request =
  rq_application_id :: string
  rq_approval_id :: string
  rq_candidate_digest :: string
  rq_reconciled_retry :: bool
  rq_repository_binding_id :: string
  rq_candidate_ref :: string
  rq_target_branch :: string
  rq_expected_head :: string
  rq_strategy :: apply_strategy
  rq_occupancy_lease_id :: string
  rq_occupancy_fencing_token :: u64

record local_apply_receipt =
  lr_local_apply_receipt_id :: string
  lr_candidate_ref :: string
  lr_repository_binding_id :: string
  lr_target_branch :: string
  lr_expected_head :: string
  lr_strategy :: apply_strategy
  lr_result :: apply_result
  lr_resulting_commit :: "string option"
  lr_conflict_artifact_ref :: "string option"
  lr_created_at :: string
  lr_revision :: u64

datatype candidate_apply_error_kind =
    CInvalidInput | CFencingRejected fencing_rejection | CUnknownCandidate | CTerminalCandidate
  | COutcomeUnknown | CReconciliationRequired | CStore

datatype apply_message = ApplyText string | StoreFailure device_store_error

record candidate_apply_error =
  cae_kind :: candidate_apply_error_kind
  cae_message :: apply_message

definition cae_invalid :: "string \<Rightarrow> candidate_apply_error" where
  "cae_invalid message = \<lparr>cae_kind = CInvalidInput, cae_message = ApplyText message\<rparr>"

definition cae_store :: "string \<Rightarrow> candidate_apply_error" where
  "cae_store message = \<lparr>cae_kind = CStore, cae_message = ApplyText message\<rparr>"

definition cae_from_store :: "device_store_error \<Rightarrow> candidate_apply_error" where
  "cae_from_store e = \<lparr>cae_kind = CStore, cae_message = StoreFailure e\<rparr>"

record application_record =
  ar_request :: candidate_apply_request
  ar_started_at :: string
  ar_finished_receipt :: "local_apply_receipt option"
  ar_recovery_outcome :: "string option"
  ar_reported_epoch :: "u64 option"

text \<open>\<^verbatim>\<open>serde_json\<close> on strategies and receipts; \<open>Inl\<close> is the text of its error.\<close>

record journal_codec =
  jc_strategy_to_string :: "apply_strategy \<Rightarrow> string + string"
  jc_strategy_from_str :: "string \<Rightarrow> string + apply_strategy"
  jc_receipt_to_string :: "local_apply_receipt \<Rightarrow> string + string"
  jc_receipt_from_str :: "string \<Rightarrow> string + local_apply_receipt"

definition TRY_FROM_INT_ERROR :: string where
  "TRY_FROM_INT_ERROR = ''out of range integral type conversion attempted''"

section \<open>Operations\<close>

text \<open>\<^verbatim>\<open>Option::map(f).transpose()\<close>\<close>

definition map_transpose :: "('a \<Rightarrow> 'e + 'b) \<Rightarrow> 'a option \<Rightarrow> 'e + 'b option" where
  "map_transpose f m = (case m of None \<Rightarrow> Inr None | Some a \<Rightarrow> rbind (f a) (\<lambda>b. Inr (Some b)))"

definition row_to_application :: "journal_codec \<Rightarrow> application_row \<Rightarrow> candidate_apply_error + application_record" where
  "row_to_application c r =
     rbind (map_err cae_store (jc_strategy_from_str c (ap_strategy r))) (\<lambda>strategy.
     rbind (ok_or (u64_of_i64 (ap_original_epoch r)) (cae_store TRY_FROM_INT_ERROR)) (\<lambda>token.
     rbind (map_transpose (\<lambda>i. ok_or (u64_of_i64 i) (cae_store TRY_FROM_INT_ERROR)) (ap_reported_epoch r)) (\<lambda>reported.
     rbind (map_transpose (\<lambda>j. map_err cae_store (jc_receipt_from_str c j)) (ap_finished_receipt_json r)) (\<lambda>receipt.
     Inr \<lparr>ar_request = \<lparr>rq_application_id = ap_application_id r, rq_approval_id = ap_approval_id r,
            rq_candidate_digest = ap_candidate_digest r, rq_reconciled_retry = False,
            rq_repository_binding_id = ap_repository_binding_id r, rq_candidate_ref = ap_candidate_ref r,
            rq_target_branch = ap_target_branch r, rq_expected_head = ap_base_commit r,
            rq_strategy = strategy, rq_occupancy_lease_id = ap_original_lease_id r,
            rq_occupancy_fencing_token = token\<rparr>,
          ar_started_at = ap_started_at r, ar_finished_receipt = receipt,
          ar_recovery_outcome = ap_recovery_outcome r, ar_reported_epoch = reported\<rparr>))))"

definition application ::
    "journal_codec \<Rightarrow> device_store \<Rightarrow> string \<Rightarrow> candidate_apply_error + application_record option" where
  "application c s application_id =
     rbind (map_err cae_from_store (connection s)) (\<lambda>_.
     map_transpose (row_to_application c) (tbl_find ap_application_id application_id (ds_applications s)))"

definition blocked_application ::
    "journal_codec \<Rightarrow> device_store \<Rightarrow> string \<Rightarrow> string \<Rightarrow> candidate_apply_error + application_record option" where
  "blocked_application c s binding candidate_ref =
     rbind (map_err cae_from_store (connection s)) (\<lambda>_.
     case find (\<lambda>r. ap_repository_binding_id r = binding \<and> ap_candidate_ref r = candidate_ref
                    \<and> ap_recovery_outcome r = Some ''outcome_unknown''
                    \<and> ap_finished_receipt_json r = None) (ds_applications s) of
       None \<Rightarrow> Inr None
     | Some r \<Rightarrow> application c s (ap_application_id r))"

definition start_application ::
    "journal_codec \<Rightarrow> device_store \<Rightarrow> candidate_apply_request \<Rightarrow> string \<Rightarrow> candidate_apply_error + device_store" where
  "start_application c s request started_at =
     rbind (map_err cae_store (jc_strategy_to_string c (rq_strategy request))) (\<lambda>strategy.
     rbind (map_err cae_from_store (connection s)) (\<lambda>_.
     rbind (ok_or (i64_of_u64 (rq_occupancy_fencing_token request)) (cae_store TRY_FROM_INT_ERROR)) (\<lambda>token.
     if rq_application_id request \<in> ap_application_id ` set (ds_applications s)
     then Inl (cae_from_store (sql_error (UniqueViolation ''candidate_applications.application_id'')))
     else Inr (s\<lparr>ds_applications := ds_applications s @
       [\<lparr>ap_application_id = rq_application_id request, ap_approval_id = rq_approval_id request,
         ap_repository_binding_id = rq_repository_binding_id request,
         ap_candidate_ref = rq_candidate_ref request, ap_candidate_digest = rq_candidate_digest request,
         ap_target_branch = rq_target_branch request, ap_base_commit = rq_expected_head request,
         ap_strategy = strategy, ap_original_lease_id = rq_occupancy_lease_id request,
         ap_original_epoch = token, ap_started_at = started_at, ap_finished_receipt_json = None,
         ap_recovery_outcome = None, ap_reported_epoch = None\<rparr>]\<rparr>))))"

definition finish_application ::
    "journal_codec \<Rightarrow> device_store \<Rightarrow> local_apply_receipt \<Rightarrow> candidate_apply_error + device_store" where
  "finish_application c s receipt =
     rbind (map_err cae_store (jc_receipt_to_string c receipt)) (\<lambda>json.
     rbind (map_err cae_from_store (connection s)) (\<lambda>_.
     let p = (\<lambda>r. ap_application_id r = lr_local_apply_receipt_id receipt
               \<and> (ap_finished_receipt_json r = None \<or> ap_finished_receipt_json r = Some json));
         f = (\<lambda>r. r\<lparr>ap_reported_epoch :=
                      (if ap_finished_receipt_json r = None then None else ap_reported_epoch r),
                    ap_finished_receipt_json := Some json\<rparr>)
     in if tbl_count p (ds_applications s) \<noteq> 1
        then Inl (cae_store ''application result conflicts with its durable journal'')
        else Inr (s\<lparr>ds_applications := tbl_update p f (ds_applications s)\<rparr>)))"

definition begin_application_attempt :: "device_store \<Rightarrow> string \<Rightarrow> candidate_apply_error + device_store" where
  "begin_application_attempt s application_id =
     rbind (map_err cae_from_store (connection s)) (\<lambda>_.
     Inr (s\<lparr>ds_applications := tbl_update
       (\<lambda>r. ap_application_id r = application_id \<and> ap_finished_receipt_json r = None)
       (\<lambda>r. r\<lparr>ap_recovery_outcome := None\<rparr>) (ds_applications s)\<rparr>))"

text \<open>\<^verbatim>\<open>ORDER BY started_at, application_id\<close>\<close>

definition all_applications :: "journal_codec \<Rightarrow> device_store \<Rightarrow> candidate_apply_error + application_record list" where
  "all_applications c s =
     rbind (map_err cae_from_store (connection s)) (\<lambda>_.
     collect_results (map (\<lambda>application_id.
       rbind (application c s application_id) (\<lambda>m.
       ok_or m (cae_store ''application journal entry disappeared'')))
       (map ap_application_id (sort_key ap_started_at (sort_key ap_application_id (ds_applications s))))))"

definition unfinished_applications ::
    "journal_codec \<Rightarrow> device_store \<Rightarrow> candidate_apply_error + application_record list" where
  "unfinished_applications c s =
     rbind (all_applications c s) (\<lambda>records.
     Inr (filter (\<lambda>record. ar_finished_receipt record = None) records))"

definition mark_reported :: "device_store \<Rightarrow> string \<Rightarrow> u64 \<Rightarrow> candidate_apply_error + device_store" where
  "mark_reported s application_id epoch =
     rbind (map_err cae_from_store (connection s)) (\<lambda>_.
     rbind (ok_or (i64_of_u64 epoch) (cae_store TRY_FROM_INT_ERROR)) (\<lambda>e.
     Inr (s\<lparr>ds_applications := tbl_update (\<lambda>r. ap_application_id r = application_id)
       (\<lambda>r. r\<lparr>ap_reported_epoch := Some e\<rparr>) (ds_applications s)\<rparr>)))"

definition note_recovery_outcome :: "device_store \<Rightarrow> string \<Rightarrow> string \<Rightarrow> candidate_apply_error + device_store" where
  "note_recovery_outcome s application_id outcome =
     rbind (map_err cae_from_store (connection s)) (\<lambda>_.
     Inr (s\<lparr>ds_applications := tbl_update
       (\<lambda>r. ap_application_id r = application_id \<and> ap_finished_receipt_json r = None)
       (\<lambda>r. r\<lparr>ap_reported_epoch :=
                (if ap_recovery_outcome r = Some outcome then ap_reported_epoch r else None),
              ap_recovery_outcome := Some outcome\<rparr>) (ds_applications s)\<rparr>))"

definition application_receipt ::
    "candidate_apply_request \<Rightarrow> apply_result \<Rightarrow> string option \<Rightarrow> string option \<Rightarrow> string \<Rightarrow> local_apply_receipt" where
  "application_receipt request result resulting_commit conflict_artifact_ref started_at =
     \<lparr>lr_local_apply_receipt_id = rq_application_id request, lr_candidate_ref = rq_candidate_ref request,
      lr_repository_binding_id = rq_repository_binding_id request,
      lr_target_branch = rq_target_branch request, lr_expected_head = rq_expected_head request,
      lr_strategy = rq_strategy request, lr_result = result, lr_resulting_commit = resulting_commit,
      lr_conflict_artifact_ref = conflict_artifact_ref, lr_created_at = started_at, lr_revision = 1\<rparr>"

definition ensure_application_binding ::
    "candidate_apply_request \<Rightarrow> candidate_apply_request \<Rightarrow> candidate_apply_error + unit" where
  "ensure_application_binding original request =
     ensure (rq_application_id original = rq_application_id request
       \<and> rq_approval_id original = rq_approval_id request
       \<and> rq_repository_binding_id original = rq_repository_binding_id request
       \<and> rq_candidate_ref original = rq_candidate_ref request
       \<and> rq_candidate_digest original = rq_candidate_digest request
       \<and> rq_target_branch original = rq_target_branch request
       \<and> rq_expected_head original = rq_expected_head request
       \<and> rq_strategy original = rq_strategy request)
     (cae_invalid ''the application id is already bound to a different approval or candidate'')"

section \<open>The journal along a run\<close>

datatype journal_op =
    StartApplication candidate_apply_request string
  | FinishApplication local_apply_receipt
  | BeginAttempt string
  | MarkReported string u64
  | NoteRecovery string string

fun journal_step :: "journal_codec \<Rightarrow> device_store \<Rightarrow> journal_op \<Rightarrow> candidate_apply_error + device_store" where
  "journal_step c s (StartApplication request at) = start_application c s request at"
| "journal_step c s (FinishApplication receipt) = finish_application c s receipt"
| "journal_step c s (BeginAttempt i) = begin_application_attempt s i"
| "journal_step c s (MarkReported i e) = mark_reported s i e"
| "journal_step c s (NoteRecovery i x) = note_recovery_outcome s i x"

text \<open>The columns an application is started with, and what may happen to a row.\<close>

definition application_identity :: "application_row \<Rightarrow> application_row" where
  "application_identity r =
     r\<lparr>ap_finished_receipt_json := None, ap_recovery_outcome := None, ap_reported_epoch := None\<rparr>"

definition row_evolves :: "application_row \<Rightarrow> application_row \<Rightarrow> bool" where
  "row_evolves r r' \<longleftrightarrow> application_identity r' = application_identity r
     \<and> (ap_finished_receipt_json r \<noteq> None \<longrightarrow>
          ap_finished_receipt_json r' = ap_finished_receipt_json r
          \<and> ap_recovery_outcome r' = ap_recovery_outcome r)"

definition journal_inv :: "device_store \<Rightarrow> bool" where
  "journal_inv s \<longleftrightarrow> distinct (map ap_application_id (ds_applications s))"

definition journal_le :: "device_store \<Rightarrow> device_store \<Rightarrow> bool" where
  "journal_le s t \<longleftrightarrow>
     (\<forall>i r. tbl_find ap_application_id i (ds_applications s) = Some r \<longrightarrow>
        (\<exists>r'. tbl_find ap_application_id i (ds_applications t) = Some r' \<and> row_evolves r r'))"

lemma row_evolves_refl [simp]: "row_evolves r r"
  by (simp add: row_evolves_def)

lemma row_evolves_trans: "row_evolves a b \<Longrightarrow> row_evolves b c \<Longrightarrow> row_evolves a c"
  by (auto simp: row_evolves_def)

lemma journal_le_trans: "journal_le s t \<Longrightarrow> journal_le t u \<Longrightarrow> journal_le s u"
  unfolding journal_le_def by (meson row_evolves_trans)

lemma application_identity_id: "ap_application_id (application_identity r) = ap_application_id r"
  by (simp add: application_identity_def)

lemma row_evolves_id: "row_evolves r r' \<Longrightarrow> ap_application_id r' = ap_application_id r"
  unfolding row_evolves_def by (metis application_identity_id)

lemma journal_update:
  assumes "s' = s\<lparr>ds_applications := tbl_update p f (ds_applications s)\<rparr>"
    and ev: "\<And>r. p r \<Longrightarrow> row_evolves r (f r)" and "journal_inv s"
  shows "journal_inv s' \<and> journal_le s s'"
proof -
  have id: "p r \<Longrightarrow> ap_application_id (f r) = ap_application_id r" for r
    using row_evolves_id [OF ev] .
  have keys: "map ap_application_id (tbl_update p f rows) = map ap_application_id rows" for rows
    by (rule keys_update) (rule id)
  have find: "tbl_find ap_application_id i (tbl_update p f rows) =
      map_option (\<lambda>r. if p r then f r else r) (tbl_find ap_application_id i rows)" for i rows
    by (rule tbl_find_update) (rule id)
  show ?thesis
    using assms(1,3) ev by (auto simp: journal_inv_def journal_le_def keys find)
qed

lemma journal_step_le:
  assumes inv: "journal_inv s" and step: "journal_step c s call = Inr s'"
  shows "journal_inv s' \<and> journal_le s s'"
proof (cases call)
  case (StartApplication request at)
  with step obtain row where s': "s' = s\<lparr>ds_applications := ds_applications s @ [row]\<rparr>"
    and fresh: "ap_application_id row \<notin> ap_application_id ` set (ds_applications s)"
    by (auto simp: start_application_def result_simps split: if_splits)
  then show ?thesis
    using inv by (auto simp: journal_inv_def journal_le_def tbl_find_append)
next
  case (FinishApplication receipt)
  with step obtain json where s': "s' = s\<lparr>ds_applications := tbl_update
      (\<lambda>r. ap_application_id r = lr_local_apply_receipt_id receipt
         \<and> (ap_finished_receipt_json r = None \<or> ap_finished_receipt_json r = Some json))
      (\<lambda>r. r\<lparr>ap_reported_epoch := (if ap_finished_receipt_json r = None then None else ap_reported_epoch r),
             ap_finished_receipt_json := Some json\<rparr>) (ds_applications s)\<rparr>"
    by (auto simp: finish_application_def result_simps Let_def split: if_splits)
  then show ?thesis
    by (rule journal_update) (auto simp: row_evolves_def application_identity_def inv)
next
  case (BeginAttempt i)
  with step have "s' = s\<lparr>ds_applications := tbl_update
       (\<lambda>r. ap_application_id r = i \<and> ap_finished_receipt_json r = None)
       (\<lambda>r. r\<lparr>ap_recovery_outcome := None\<rparr>) (ds_applications s)\<rparr>"
    by (auto simp: begin_application_attempt_def result_simps)
  then show ?thesis
    by (rule journal_update) (auto simp: row_evolves_def application_identity_def inv)
next
  case (MarkReported i e)
  with step obtain e' where "s' = s\<lparr>ds_applications := tbl_update (\<lambda>r. ap_application_id r = i)
       (\<lambda>r. r\<lparr>ap_reported_epoch := Some e'\<rparr>) (ds_applications s)\<rparr>"
    by (auto simp: mark_reported_def result_simps)
  then show ?thesis
    by (rule journal_update) (auto simp: row_evolves_def application_identity_def inv)
next
  case (NoteRecovery i x)
  with step have "s' = s\<lparr>ds_applications := tbl_update
       (\<lambda>r. ap_application_id r = i \<and> ap_finished_receipt_json r = None)
       (\<lambda>r. r\<lparr>ap_reported_epoch := (if ap_recovery_outcome r = Some x then ap_reported_epoch r else None),
              ap_recovery_outcome := Some x\<rparr>) (ds_applications s)\<rparr>"
    by (auto simp: note_recovery_outcome_def result_simps)
  then show ?thesis
    by (rule journal_update) (auto simp: row_evolves_def application_identity_def inv)
qed

interpretation journal: preordered_machine "journal_step c" journal_inv journal_le
proof unfold_locales
  fix s call s' assume "journal_inv s" and "journal_step c s call = Inr s'"
  from journal_step_le [OF this] show "journal_inv s'" and "journal_le s s'" by simp_all
next
  fix s show "journal_le s s" by (simp add: journal_le_def)
next
  fix s t u assume "journal_le s t" and "journal_le t u"
  then show "journal_le s u" by (rule journal_le_trans)
qed

text \<open>
  C34. A journal entry is durable and its receipt final: whatever calls follow, the entry of an
  application keeps the request it was started with, and once a receipt is on file neither it nor
  the recovery outcome beside it changes.
\<close>

theorem journal_receipts_final:
  assumes "tbl_find ap_application_id i
      (ds_applications (run_ops (journal_step c) empty_store calls)) = Some r"
  shows "\<exists>r'. tbl_find ap_application_id i
      (ds_applications (run_ops (journal_step c) empty_store (calls @ later))) = Some r'
    \<and> application_identity r' = application_identity r
    \<and> (ap_finished_receipt_json r \<noteq> None \<longrightarrow>
        ap_finished_receipt_json r' = ap_finished_receipt_json r
        \<and> ap_recovery_outcome r' = ap_recovery_outcome r)"
proof -
  have "journal_inv empty_store" by (simp add: journal_inv_def empty_store_def)
  then have "journal_le (run_ops (journal_step c) empty_store calls)
      (run_ops (journal_step c) (run_ops (journal_step c) empty_store calls) later)"
    by (intro journal.run_le journal.run_inv)
  with assms show ?thesis by (auto simp: journal_le_def row_evolves_def run_ops_append)
qed

text \<open>
  An application that was started is read back with the request it was started with: after a
  restart the journal returns the original lease and token, and no retry authorisation.
\<close>

theorem started_application_read:
  assumes strategy: "\<forall>x j. jc_strategy_to_string c x = Inr j \<longrightarrow> jc_strategy_from_str c j = Inr x"
    and start: "start_application c s request at = Inr s'"
  shows "application c s' (rq_application_id request) =
    Inr (Some \<lparr>ar_request = request\<lparr>rq_reconciled_retry := False\<rparr>, ar_started_at = at,
      ar_finished_receipt = None, ar_recovery_outcome = None, ar_reported_epoch = None\<rparr>)"
proof -
  from start obtain j where j: "jc_strategy_to_string c (rq_strategy request) = Inr j"
    and opened: "ds_open s" and fresh: "rq_application_id request \<notin> ap_application_id ` set (ds_applications s)"
    by (auto simp: start_application_def result_simps split: if_splits)
  then have none: "tbl_find ap_application_id (rq_application_id request) (ds_applications s) = None"
    by (simp add: tbl_find_None_iff)
  have "jc_strategy_from_str c j = Inr (rq_strategy request)" using strategy j by blast
  with start j opened none show ?thesis
    by (auto simp: start_application_def result_simps application_def connection_def map_transpose_def
        row_to_application_def tbl_find_append split: if_splits)
qed

text \<open>
  An unresolved outcome blocks its candidate: once an unfinished application is noted as
  having an unknown outcome, a query for a blocking application on its repository and candidate
  never answers that there is none.
\<close>

theorem unknown_outcome_blocks:
  assumes row: "tbl_find ap_application_id i (ds_applications s) = Some r"
    and unfinished: "ap_finished_receipt_json r = None"
    and noted: "note_recovery_outcome s i ''outcome_unknown'' = Inr s'"
  shows "blocked_application c s' (ap_repository_binding_id r) (ap_candidate_ref r) \<noteq> Inr None"
proof -
  let ?f = "\<lambda>r. r\<lparr>ap_reported_epoch := (if ap_recovery_outcome r = Some ''outcome_unknown''
      then ap_reported_epoch r else None), ap_recovery_outcome := Some ''outcome_unknown''\<rparr>"
  let ?p = "\<lambda>r. ap_application_id r = i \<and> ap_finished_receipt_json r = None"
  let ?b = "\<lambda>q. ap_repository_binding_id q = ap_repository_binding_id r \<and> ap_candidate_ref q = ap_candidate_ref r
      \<and> ap_recovery_outcome q = Some ''outcome_unknown'' \<and> ap_finished_receipt_json q = None"
  from noted have s': "ds_applications s' = tbl_update ?p ?f (ds_applications s)" and opened: "ds_open s'"
    by (auto simp: note_recovery_outcome_def result_simps)
  have p: "?p r" and mem: "r \<in> set (ds_applications s)"
    using tbl_find_Some_key [OF row] unfinished by simp_all
  from mem have "(if ?p r then ?f r else r) \<in> set (ds_applications s')"
    unfolding s' tbl_update_def set_map by (rule imageI)
  then have "?f r \<in> set (ds_applications s')" unfolding if_P [OF p] .
  moreover have "?b (?f r)" using unfinished by simp
  ultimately have "\<exists>q \<in> set (ds_applications s'). ?b q" by blast
  then obtain q where q: "find ?b (ds_applications s') = Some q"
    by (cases "find ?b (ds_applications s')") (auto simp: find_None_iff)
  then have "q \<in> set (ds_applications s')" by (auto simp: find_Some_iff)
  then have "tbl_find ap_application_id (ap_application_id q) (ds_applications s') \<noteq> None"
    by (auto simp: tbl_find_None_iff)
  then have "application c s' (ap_application_id q) \<noteq> Inr None"
    by (auto simp: application_def result_simps map_transpose_def split: option.splits)
  with q opened show ?thesis by (simp add: blocked_application_def connection_def)
qed

definition sample_journal_codec :: journal_codec where
  "sample_journal_codec =
     \<lparr>jc_strategy_to_string = (\<lambda>x. Inr (case x of CreateBranch \<Rightarrow> ''create_branch''
        | FastForward \<Rightarrow> ''fast_forward'' | CherryPick \<Rightarrow> ''cherry_pick'' | Merge \<Rightarrow> ''merge'')),
      jc_strategy_from_str = (\<lambda>j. if j = ''create_branch'' then Inr CreateBranch
        else if j = ''fast_forward'' then Inr FastForward else if j = ''cherry_pick'' then Inr CherryPick
        else if j = ''merge'' then Inr Merge else Inl ''unknown variant''),
      jc_receipt_to_string = (\<lambda>r. Inr (lr_created_at r)), jc_receipt_from_str = (\<lambda>j. Inl j)\<rparr>"

definition sample_request :: candidate_apply_request where
  "sample_request = \<lparr>rq_application_id = ''a1'', rq_approval_id = ''ap'', rq_candidate_digest = ''d'',
     rq_reconciled_retry = False, rq_repository_binding_id = ''rb'', rq_candidate_ref = ''c'',
     rq_target_branch = ''main'', rq_expected_head = ''h'', rq_strategy = Merge,
     rq_occupancy_lease_id = ''ocl'', rq_occupancy_fencing_token = 7\<rparr>"

definition started_store :: device_store where
  "started_store = run_ops (journal_step sample_journal_codec) empty_store [StartApplication sample_request ''t0'']"

lemma started_store_ok:
  "start_application sample_journal_codec empty_store sample_request ''t0'' = Inr started_store"
  by (simp add: started_store_def start_application_def sample_journal_codec_def sample_request_def
      connection_def i64_of_u64_def empty_store_def)

lemma started_row:
  "\<exists>r. tbl_find ap_application_id ''a1'' (ds_applications started_store) = Some r
     \<and> ap_finished_receipt_json r = None \<and> ap_repository_binding_id r = ''rb'' \<and> ap_candidate_ref r = ''c''
     \<and> ds_open started_store"
  by (simp add: started_store_def start_application_def sample_journal_codec_def sample_request_def
      connection_def i64_of_u64_def empty_store_def)

theorem journal_receipts_final_witness:
  "\<exists>r'. tbl_find ap_application_id ''a1'' (ds_applications (run_ops (journal_step sample_journal_codec)
      empty_store ([StartApplication sample_request ''t0''] @ [NoteRecovery ''a1'' ''not_started'']))) = Some r'
    \<and> ap_candidate_ref (application_identity r') = ''c''"
proof -
  from started_row obtain r where "tbl_find ap_application_id ''a1'' (ds_applications started_store) = Some r"
    and c: "ap_candidate_ref r = ''c''" by blast
  then have "tbl_find ap_application_id ''a1'' (ds_applications (run_ops (journal_step sample_journal_codec)
      empty_store [StartApplication sample_request ''t0''])) = Some r" by (simp only: started_store_def)
  from journal_receipts_final [OF this, of "[NoteRecovery ''a1'' ''not_started'']"]
  obtain r' where r': "tbl_find ap_application_id ''a1'' (ds_applications (run_ops (journal_step sample_journal_codec)
      empty_store ([StartApplication sample_request ''t0''] @ [NoteRecovery ''a1'' ''not_started'']))) = Some r'"
    and same: "application_identity r' = application_identity r" by blast
  have "ap_candidate_ref (application_identity r) = ''c''" using c by (simp add: application_identity_def)
  with r' same show ?thesis by metis
qed

end
