(* ===== verification/Product_Session.thy ===== *)
theory Product_Session
  imports Machines
begin

text \<open>
  \<^verbatim>\<open>crates/winwincode-session/src/product_session.rs\<close>: the lifecycle of a product session. Identities
  are the strings of the domain's newtypes; a session is changed only through its operations, each
  of which bumps the revision by one or leaves the session as it was.
\<close>

section \<open>Validation\<close>

definition MAX_TITLE_LENGTH :: nat where "MAX_TITLE_LENGTH = 500"

definition MAX_REASON_LENGTH :: nat where "MAX_REASON_LENGTH = 2000"

text \<open>The alphabet of identifiers: digits and upper case letters without I, L, O and U.\<close>

definition id_byte :: "char \<Rightarrow> bool" where
  "id_byte c \<longleftrightarrow> is_ascii_digit c
     \<or> 65 \<le> byte c \<and> byte c \<le> 72 \<or> 74 \<le> byte c \<and> byte c \<le> 75 \<or> 77 \<le> byte c \<and> byte c \<le> 78
     \<or> 80 \<le> byte c \<and> byte c \<le> 84 \<or> 86 \<le> byte c \<and> byte c \<le> 90"

definition canonical_id :: "string \<Rightarrow> string \<Rightarrow> bool" where
  "canonical_id s prefix =
     (case strip_prefix prefix s of
        None \<Rightarrow> False
      | Some suffix \<Rightarrow> length suffix = 26 \<and> list_all id_byte suffix)"

definition instant_separators :: "(nat \<times> char) list" where
  "instant_separators = [(4, CHR ''-''), (7, CHR ''-''), (10, CHR ''T''), (13, CHR '':''), (16, CHR '':''),
     (19, CHR ''.''), (23, CHR ''Z'')]"

definition valid_instant :: "string \<Rightarrow> bool" where
  "valid_instant s \<longleftrightarrow> length s = 24
     \<and> list_all (\<lambda>(i, c). s ! i = c) instant_separators
     \<and> list_all (\<lambda>i. i \<in> fst ` set instant_separators \<or> is_ascii_digit (s ! i)) [0 ..< length s]"

datatype product_session_state =
    Idle | Running | WaitingForInput | WaitingForApproval | Cancelled | Closed | SessionFailed

datatype product_session_error =
    InvalidIdentity string
  | InvalidTitle
  | InvalidReason
  | InvalidInstant
  | InvalidTransition product_session_state string
  | RevisionOverflow

definition validate_title :: "string \<Rightarrow> product_session_error + unit" where
  "validate_title title = ensure (\<not> (title = [] \<or> chars_count title > MAX_TITLE_LENGTH)) InvalidTitle"

definition validate_reason :: "string \<Rightarrow> product_session_error + unit" where
  "validate_reason reason = ensure (\<not> (reason = [] \<or> chars_count reason > MAX_REASON_LENGTH)) InvalidReason"

definition validate_id :: "string \<Rightarrow> string \<Rightarrow> string \<Rightarrow> product_session_error + unit" where
  "validate_id s field prefix = ensure (canonical_id s prefix) (InvalidIdentity field)"

definition validate_instant :: "string \<Rightarrow> product_session_error + unit" where
  "validate_instant instant = ensure (valid_instant instant) InvalidInstant"

section \<open>Sessions\<close>

record product_session_create =
  pc_product_session_id :: string
  pc_project_id :: string
  pc_repository_id :: string
  pc_title :: string
  pc_now :: string

record product_session =
  ps_product_session_id :: string
  ps_project_id :: string
  ps_repository_id :: string
  ps_title :: string
  ps_state :: product_session_state
  ps_revision :: u64
  ps_updated_at :: string

definition create_session :: "product_session_create \<Rightarrow> product_session_error + product_session" where
  "create_session input =
     rbind (check_all
       [validate_id (pc_product_session_id input) ''productSessionId'' ''psn_'',
        validate_id (pc_project_id input) ''projectId'' ''prj_'',
        validate_id (pc_repository_id input) ''repositoryId'' ''rep_'',
        validate_title (pc_title input),
        validate_instant (pc_now input)]) (\<lambda>_.
     Inr \<lparr>ps_product_session_id = pc_product_session_id input, ps_project_id = pc_project_id input,
          ps_repository_id = pc_repository_id input, ps_title = pc_title input, ps_state = Idle,
          ps_revision = 1, ps_updated_at = pc_now input\<rparr>)"

definition next_revision :: "u64 \<Rightarrow> product_session_error + u64" where
  "next_revision r =
     ok_or (case checked_add r 1 of
              None \<Rightarrow> None
            | Some n \<Rightarrow> if n \<le> max_safe_integer then Some n else None) RevisionOverflow"

definition transition ::
    "product_session \<Rightarrow> product_session_state \<Rightarrow> string \<Rightarrow> string \<Rightarrow> (product_session_state \<Rightarrow> bool) \<Rightarrow>
     product_session_error + product_session" where
  "transition s next operation now allowed =
     rbind (validate_instant now) (\<lambda>_.
     if \<not> allowed (ps_state s) then Inl (InvalidTransition (ps_state s) operation)
     else
       rbind (next_revision (ps_revision s)) (\<lambda>revision.
       Inr (s\<lparr>ps_revision := revision, ps_state := next, ps_updated_at := now\<rparr>)))"

definition rename :: "product_session \<Rightarrow> string \<Rightarrow> string \<Rightarrow> product_session_error + product_session" where
  "rename s title now =
     rbind (validate_title title) (\<lambda>_.
     rbind (transition s (ps_state s) ''rename'' now (\<lambda>_. True)) (\<lambda>s'.
     Inr (s'\<lparr>ps_title := title\<rparr>)))"

definition begin_turn :: "product_session \<Rightarrow> string \<Rightarrow> product_session_error + product_session" where
  "begin_turn s now = transition s Running ''begin_turn'' now (\<lambda>st. st = Idle \<or> st = SessionFailed)"

definition wait_for_input :: "product_session \<Rightarrow> string \<Rightarrow> product_session_error + product_session" where
  "wait_for_input s now = transition s WaitingForInput ''wait_for_input'' now (\<lambda>st. st = Running)"

definition wait_for_approval :: "product_session \<Rightarrow> string \<Rightarrow> product_session_error + product_session" where
  "wait_for_approval s now = transition s WaitingForApproval ''wait_for_approval'' now (\<lambda>st. st = Running)"

definition resume :: "product_session \<Rightarrow> string \<Rightarrow> product_session_error + product_session" where
  "resume s now = transition s Running ''resume'' now (\<lambda>st. st = WaitingForInput \<or> st = WaitingForApproval)"

definition complete_turn :: "product_session \<Rightarrow> string \<Rightarrow> product_session_error + product_session" where
  "complete_turn s now = transition s Idle ''complete_turn'' now (\<lambda>st. st = Running)"

definition fail_session :: "product_session \<Rightarrow> string \<Rightarrow> string \<Rightarrow> product_session_error + product_session" where
  "fail_session s reason now =
     rbind (validate_reason reason) (\<lambda>_.
     transition s SessionFailed ''fail'' now
       (\<lambda>st. st = Running \<or> st = WaitingForInput \<or> st = WaitingForApproval))"

definition cancel :: "product_session \<Rightarrow> string \<Rightarrow> string \<Rightarrow> product_session_error + product_session" where
  "cancel s reason now =
     rbind (validate_reason reason) (\<lambda>_.
     if ps_state s = Cancelled then Inr s
     else transition s Cancelled ''cancel'' now (\<lambda>st. st \<noteq> Closed))"

definition close :: "product_session \<Rightarrow> string \<Rightarrow> product_session_error + product_session" where
  "close s now =
     (if ps_state s = Closed then Inr s
      else transition s Closed ''close'' now (\<lambda>st. st = Idle \<or> st = Cancelled \<or> st = SessionFailed))"

text \<open>The checks of \<^verbatim>\<open>deserialize\<close> on the fields the deserializer has read; a rejected value carries the text
  of the error.\<close>

definition product_session_error_text :: "product_session_error \<Rightarrow> string" where
  "product_session_error_text e =
     (case e of
        InvalidIdentity field \<Rightarrow> ''invalid ProductSession identity: '' @ field
      | InvalidTitle \<Rightarrow> ''ProductSession title is invalid''
      | InvalidReason \<Rightarrow> ''ProductSession reason is invalid''
      | InvalidInstant \<Rightarrow> ''ProductSession instant is invalid''
      | InvalidTransition from operation \<Rightarrow>
          ''cannot '' @ operation @ '' from ProductSession state '' @
          (case from of Idle \<Rightarrow> ''Idle'' | Running \<Rightarrow> ''Running'' | WaitingForInput \<Rightarrow> ''WaitingForInput''
             | WaitingForApproval \<Rightarrow> ''WaitingForApproval'' | Cancelled \<Rightarrow> ''Cancelled''
             | Closed \<Rightarrow> ''Closed'' | SessionFailed \<Rightarrow> ''Failed'')
      | RevisionOverflow \<Rightarrow> ''ProductSession revision overflowed'')"

definition deserialize_session :: "product_session \<Rightarrow> string + product_session" where
  "deserialize_session wire =
     rbind (map_err product_session_error_text (check_all
       [validate_id (ps_product_session_id wire) ''productSessionId'' ''psn_'',
        validate_id (ps_project_id wire) ''projectId'' ''prj_'',
        validate_id (ps_repository_id wire) ''repositoryId'' ''rep_'',
        validate_title (ps_title wire),
        validate_instant (ps_updated_at wire)])) (\<lambda>_.
     if ps_revision wire = 0 \<or> ps_revision wire > max_safe_integer
     then Inl ''ProductSession revision is invalid''
     else Inr wire)"

section \<open>Runs\<close>

datatype session_op =
    Rename string string | BeginTurn string | WaitForInput string | WaitForApproval string
  | Resume string | CompleteTurn string | FailSession string string | Cancel string string | Close string

fun session_step :: "product_session \<Rightarrow> session_op \<Rightarrow> product_session_error + product_session" where
  "session_step s (Rename title now) = rename s title now"
| "session_step s (BeginTurn now) = begin_turn s now"
| "session_step s (WaitForInput now) = wait_for_input s now"
| "session_step s (WaitForApproval now) = wait_for_approval s now"
| "session_step s (Resume now) = resume s now"
| "session_step s (CompleteTurn now) = complete_turn s now"
| "session_step s (FailSession reason now) = fail_session s reason now"
| "session_step s (Cancel reason now) = cancel s reason now"
| "session_step s (Close now) = close s now"

text \<open>What \<^verbatim>\<open>deserialize\<close> accepts is the invariant every operation keeps.\<close>

definition session_ok :: "product_session \<Rightarrow> bool" where
  "session_ok s \<longleftrightarrow> canonical_id (ps_product_session_id s) ''psn_'' \<and> canonical_id (ps_project_id s) ''prj_''
     \<and> canonical_id (ps_repository_id s) ''rep_'' \<and> is_ok (validate_title (ps_title s))
     \<and> valid_instant (ps_updated_at s) \<and> ps_revision s \<noteq> 0 \<and> ps_revision s \<le> max_safe_integer"

text \<open>The graph of the lifecycle, apart from staying put.\<close>

inductive lifecycle :: "product_session_state \<Rightarrow> product_session_state \<Rightarrow> bool" where
  turn: "st = Idle \<or> st = SessionFailed \<Longrightarrow> lifecycle st Running"
| input: "lifecycle Running WaitingForInput"
| approval: "lifecycle Running WaitingForApproval"
| resumed: "st = WaitingForInput \<or> st = WaitingForApproval \<Longrightarrow> lifecycle st Running"
| complete: "lifecycle Running Idle"
| failed: "st = Running \<or> st = WaitingForInput \<or> st = WaitingForApproval \<Longrightarrow> lifecycle st SessionFailed"
| cancelled: "st \<noteq> Closed \<Longrightarrow> lifecycle st Cancelled"
| closed: "st = Idle \<or> st = Cancelled \<or> st = SessionFailed \<Longrightarrow> lifecycle st Closed"

inductive_cases lifecycle_from_Closed [elim!]: "lifecycle Closed st"
inductive_cases lifecycle_from_Cancelled [elim!]: "lifecycle Cancelled st"

lemma validate_Inr_iffs [result_simps]:
  "validate_title t = Inr u \<longleftrightarrow> t \<noteq> [] \<and> chars_count t \<le> MAX_TITLE_LENGTH"
  "validate_reason r = Inr u \<longleftrightarrow> r \<noteq> [] \<and> chars_count r \<le> MAX_REASON_LENGTH"
  "validate_id s f p = Inr u \<longleftrightarrow> canonical_id s p"
  "validate_instant i = Inr u \<longleftrightarrow> valid_instant i"
  by (auto simp: validate_title_def validate_reason_def validate_id_def validate_instant_def result_simps not_less)

lemma next_revision_Inr_iff [result_simps]:
  "next_revision r = Inr n \<longleftrightarrow> unat n = Suc (unat r) \<and> n \<le> max_safe_integer"
  by (auto simp: next_revision_def result_simps checked_succ_Some split: option.splits if_splits)
     (auto simp: checked_succ_None unat_eq_Suc_iff checked_succ_if)

lemma transition_Inr_iff:
  "transition s next op now allowed = Inr s' \<longleftrightarrow>
     valid_instant now \<and> allowed (ps_state s)
     \<and> (\<exists>n. unat n = Suc (unat (ps_revision s)) \<and> n \<le> max_safe_integer
          \<and> s' = s\<lparr>ps_revision := n, ps_state := next, ps_updated_at := now\<rparr>)"
  by (auto simp: transition_def result_simps)

text \<open>What a successful operation does, when it does anything.\<close>

definition session_moved :: "product_session \<Rightarrow> product_session \<Rightarrow> bool" where
  "session_moved s s' \<longleftrightarrow>
     (\<exists>n title st now. s' = s\<lparr>ps_title := title, ps_revision := n, ps_state := st, ps_updated_at := now\<rparr>
        \<and> unat n = Suc (unat (ps_revision s)) \<and> n \<le> max_safe_integer \<and> valid_instant now
        \<and> (title = ps_title s \<or> is_ok (validate_title title))
        \<and> (st = ps_state s \<or> lifecycle (ps_state s) st))"

lemma transition_moved:
  assumes "transition s next op now allowed = Inr s'" and "allowed (ps_state s) \<Longrightarrow> lifecycle (ps_state s) next"
  shows "session_moved s s'"
proof -
  from assms(1) obtain n where "valid_instant now" "allowed (ps_state s)" "unat n = Suc (unat (ps_revision s))"
    "n \<le> max_safe_integer" "s' = s\<lparr>ps_title := ps_title s, ps_revision := n, ps_state := next, ps_updated_at := now\<rparr>"
    by (auto simp: transition_Inr_iff)
  with assms(2) show ?thesis unfolding session_moved_def by blast
qed

lemma rename_moved:
  assumes "rename s title now = Inr s'"
  shows "session_moved s s'"
proof -
  from assms obtain n where "is_ok (validate_title title)"
    "unat n = Suc (unat (ps_revision s))" "n \<le> max_safe_integer" "valid_instant now"
    "s' = s\<lparr>ps_title := title, ps_revision := n, ps_state := ps_state s, ps_updated_at := now\<rparr>"
    by (auto simp: rename_def result_simps transition_Inr_iff validate_title_def not_less)
  then show ?thesis unfolding session_moved_def by blast
qed

lemma lifecycle_running:
  "st = Running \<Longrightarrow> lifecycle st WaitingForInput" "st = Running \<Longrightarrow> lifecycle st WaitingForApproval"
  "st = Running \<Longrightarrow> lifecycle st Idle"
  by (auto intro: lifecycle.intros)

lemmas session_op_defs = begin_turn_def wait_for_input_def wait_for_approval_def resume_def
  complete_turn_def fail_session_def cancel_def close_def

lemma session_step_cases: "session_step s call = Inr s' \<Longrightarrow> s' = s \<or> session_moved s s'"
  by (cases call)
     (auto simp: session_op_defs result_simps split: if_splits
       intro: rename_moved transition_moved lifecycle.intros lifecycle_running)

definition session_le :: "product_session \<Rightarrow> product_session \<Rightarrow> bool" where
  "session_le s t \<longleftrightarrow> ps_product_session_id t = ps_product_session_id s
     \<and> ps_project_id t = ps_project_id s \<and> ps_repository_id t = ps_repository_id s
     \<and> ps_revision s \<le> ps_revision t \<and> (ps_revision s = ps_revision t \<longrightarrow> s = t)
     \<and> lifecycle\<^sup>*\<^sup>* (ps_state s) (ps_state t)"

lemma session_step_ok:
  assumes "session_ok s" and "session_step s call = Inr s'"
  shows "session_ok s' \<and> session_le s s'"
  using session_step_cases [OF assms(2)]
proof
  assume "s' = s"
  with assms(1) show ?thesis by (simp add: session_le_def)
next
  assume "session_moved s s'"
  then obtain n title st now where s': "s' = s\<lparr>ps_title := title, ps_revision := n, ps_state := st, ps_updated_at := now\<rparr>"
    and n: "unat n = Suc (unat (ps_revision s))" "n \<le> max_safe_integer" and now: "valid_instant now"
    and title: "title = ps_title s \<or> is_ok (validate_title title)"
    and st: "st = ps_state s \<or> lifecycle (ps_state s) st"
    unfolding session_moved_def by blast
  have "n \<noteq> 0" using n(1) by auto
  moreover have "ps_revision s \<le> n" and "ps_revision s \<noteq> n" using n(1) by (auto simp: word_le_nat_alt)
  moreover have "lifecycle\<^sup>*\<^sup>* (ps_state s) st" using st by (auto intro: r_into_rtranclp)
  moreover have "is_ok (validate_title title)" using title assms(1) by (auto simp: session_ok_def)
  ultimately show ?thesis using assms(1) s' n(2) now by (simp add: session_ok_def session_le_def)
qed

interpretation session: preordered_machine session_step session_ok session_le
proof unfold_locales
  fix s call s' assume "session_ok s" and "session_step s call = Inr s'"
  from session_step_ok [OF this] show "session_ok s'" and "session_le s s'" by simp_all
next
  fix s show "session_le s s" by (simp add: session_le_def)
next
  fix s t u assume "session_le s t" and "session_le t u"
  then show "session_le s u" by (auto simp: session_le_def)
qed

lemma deserialize_session_iff: "deserialize_session s = Inr t \<longleftrightarrow> t = s \<and> session_ok s"
  by (auto simp: deserialize_session_def session_ok_def result_simps validate_title_def not_less)

text \<open>
  Whatever operations are applied to a created session, and whichever of them are refused, the
  session it ends in is one that its own deserializer accepts unchanged, it keeps its three
  identities, its revision is at least one and within the safe integers, and its state was reached
  through the lifecycle from idle.
\<close>

theorem session_runs_deserialize:
  assumes "create_session input = Inr s" and t: "t = run_ops session_step s calls"
  shows "deserialize_session t = Inr t \<and> lifecycle\<^sup>*\<^sup>* Idle (ps_state t)
    \<and> ps_product_session_id t = pc_product_session_id input \<and> ps_project_id t = pc_project_id input
    \<and> ps_repository_id t = pc_repository_id input
    \<and> 1 \<le> ps_revision t \<and> ps_revision t \<le> max_safe_integer"
proof -
  from assms(1) have ok: "session_ok s" and "ps_state s = Idle" "ps_revision s = 1"
    "ps_product_session_id s = pc_product_session_id input" "ps_project_id s = pc_project_id input"
    "ps_repository_id s = pc_repository_id input"
    by (auto simp: create_session_def session_ok_def result_simps max_safe_integer_def validate_title_def)
  moreover have "session_ok t" unfolding t by (rule session.run_inv [OF ok])
  moreover have "session_le s t" unfolding t by (rule session.run_le [OF ok])
  ultimately show ?thesis by (simp add: deserialize_session_iff session_le_def session_ok_def)
qed

lemma lifecycle_closed: "lifecycle\<^sup>*\<^sup>* Closed st \<Longrightarrow> st = Closed"
  by (induction rule: rtranclp_induct) auto

lemma lifecycle_cancelled: "lifecycle\<^sup>*\<^sup>* Cancelled st \<Longrightarrow> st = Cancelled \<or> st = Closed"
  by (induction rule: rtranclp_induct) auto

text \<open>
  Terminal states hold: no run of operations takes a closed session out of the closed state, and
  a cancelled session can only stay cancelled or be closed. In particular no turn begins on it.
\<close>

theorem terminal_states_hold:
  assumes "session_ok s"
  shows "(ps_state s = Closed \<longrightarrow> ps_state (run_ops session_step s calls) = Closed)
    \<and> (ps_state s = Cancelled \<longrightarrow> ps_state (run_ops session_step s calls) \<in> {Cancelled, Closed})"
proof -
  have "lifecycle\<^sup>*\<^sup>* (ps_state s) (ps_state (run_ops session_step s calls))"
    using session.run_le [OF assms, of calls] by (simp add: session_le_def)
  then show ?thesis by (auto dest: lifecycle_closed lifecycle_cancelled)
qed

definition sample_create :: product_session_create where
  "sample_create = \<lparr>pc_product_session_id = ''psn_01ARZ3NDEKTSV4RRFFQ69G5FAV'',
     pc_project_id = ''prj_01ARZ3NDEKTSV4RRFFQ69G5FAV'', pc_repository_id = ''rep_01ARZ3NDEKTSV4RRFFQ69G5FAV'',
     pc_title = ''t'', pc_now = ''2026-09-04T00:00:00.000Z''\<rparr>"

lemmas session_eval = check_all.simps validate_id_def canonical_id_def strip_prefix_def
  id_byte_def ascii_defs validate_title_def chars_count_def is_continuation_byte_def
  MAX_TITLE_LENGTH_def MAX_REASON_LENGTH_def validate_instant_def valid_instant_def instant_separators_def
  upt_rec ensure_def

lemma sample_session_created: "\<exists>s. create_session sample_create = Inr s \<and> ps_state s = Idle"
  by (simp add: create_session_def sample_create_def session_eval)

end
