(* ===== verification/Session_Binding.thy ===== *)
theory Session_Binding
  imports Product_Session
begin

text \<open>
  \<^verbatim>\<open>crates/winwincode-session/src/binding.rs\<close>: the binding of a product session to the worker session, the
  Codex thread and the runtime source that execute it. A binding only gains identities: each is set
  at most once, and a different one is a conflict.
\<close>

section \<open>Identities\<close>

datatype binding_scope =
    ProductSessionScope
  | DeliveryWorkRun (dw_delivery_id: string) (dw_work_contract_id: string) (dw_work_contract_revision: int)
      (dw_work_item_id: string) (dw_work_item_revision: int) (dw_work_run_id: string)

record session_binding_identity =
  bi_scope :: binding_scope
  bi_product_session_id :: string
  bi_execution_job_id :: string

record runtime_source_identity =
  rs_worker_id :: string
  rs_worker_instance_id :: string
  rs_worker_session_id :: string
  rs_lease_id :: string

record session_binding =
  sb_identity :: session_binding_identity
  sb_worker_session_id :: "string option"
  sb_codex_thread_id :: "string option"
  sb_source_identity :: "runtime_source_identity option"

datatype session_binding_error =
    BindingInvalidIdentity string
  | InvalidSourceIdentity string
  | InvalidScope string
  | WorkerSessionRequired
  | ConflictingIdentity string

definition binding_validate_id :: "string \<Rightarrow> string \<Rightarrow> string \<Rightarrow> session_binding_error + unit" where
  "binding_validate_id s field prefix = ensure (canonical_id s prefix) (BindingInvalidIdentity field)"

text \<open>A \<^verbatim>\<open>Revision\<close> wraps an \<^verbatim>\<open>i64\<close>.\<close>

definition validate_revision :: "int \<Rightarrow> string \<Rightarrow> session_binding_error + unit" where
  "validate_revision r field = ensure (1 \<le> r \<and> r \<le> 9007199254740991) (InvalidScope field)"

fun validate_scope :: "binding_scope \<Rightarrow> session_binding_error + unit" where
  "validate_scope ProductSessionScope = Inr ()"
| "validate_scope (DeliveryWorkRun d c cr i ir r) = check_all
     [binding_validate_id d ''deliveryId'' ''dlv_'',
      binding_validate_id c ''workContractId'' ''wct_'',
      validate_revision cr ''workContractRevision'',
      binding_validate_id i ''workItemId'' ''wit_'',
      validate_revision ir ''workItemRevision'',
      binding_validate_id r ''workRunId'' ''wrn_'']"

definition identity_try_new ::
    "binding_scope \<Rightarrow> string \<Rightarrow> string \<Rightarrow> session_binding_error + session_binding_identity" where
  "identity_try_new scope product_session_id execution_job_id =
     rbind (check_all
       [validate_scope scope,
        binding_validate_id product_session_id ''productSessionId'' ''psn_'',
        binding_validate_id execution_job_id ''executionJobId'' ''job_'']) (\<lambda>_.
     Inr \<lparr>bi_scope = scope, bi_product_session_id = product_session_id,
          bi_execution_job_id = execution_job_id\<rparr>)"

definition identity_product_session :: "string \<Rightarrow> string \<Rightarrow> session_binding_error + session_binding_identity" where
  "identity_product_session product_session_id execution_job_id =
     identity_try_new ProductSessionScope product_session_id execution_job_id"

definition identity_delivery_work_run ::
    "string \<Rightarrow> string \<Rightarrow> int \<Rightarrow> string \<Rightarrow> int \<Rightarrow> string \<Rightarrow> string \<Rightarrow> string \<Rightarrow>
     session_binding_error + session_binding_identity" where
  "identity_delivery_work_run d c cr i ir r product_session_id execution_job_id =
     identity_try_new (DeliveryWorkRun d c cr i ir r) product_session_id execution_job_id"

definition execution_worker ::
    "string \<Rightarrow> string \<Rightarrow> string \<Rightarrow> string \<Rightarrow> session_binding_error + runtime_source_identity" where
  "execution_worker lease_id worker_id worker_instance_id worker_session_id =
     rbind (check_all
       [binding_validate_id lease_id ''leaseId'' ''lse_'',
        binding_validate_id worker_id ''workerId'' ''wrk_'',
        binding_validate_id worker_instance_id ''workerInstanceId'' ''wki_'',
        binding_validate_id worker_session_id ''workerSessionId'' ''wsn_'']) (\<lambda>_.
     Inr \<lparr>rs_worker_id = worker_id, rs_worker_instance_id = worker_instance_id,
          rs_worker_session_id = worker_session_id, rs_lease_id = lease_id\<rparr>)"

section \<open>Bindings\<close>

definition binding_try_new ::
    "session_binding_identity \<Rightarrow> string option \<Rightarrow> string option \<Rightarrow> runtime_source_identity option \<Rightarrow>
     session_binding_error + session_binding" where
  "binding_try_new identity worker_session_id codex_thread_id source_identity =
     rbind (check_all
       [ensure (\<not> (codex_thread_id \<noteq> None \<and> worker_session_id = None)) WorkerSessionRequired,
        (case worker_session_id of None \<Rightarrow> Inr ()
         | Some w \<Rightarrow> binding_validate_id w ''workerSessionId'' ''wsn_''),
        (case codex_thread_id of None \<Rightarrow> Inr ()
         | Some c \<Rightarrow> binding_validate_id c ''codexThreadId'' ''cdx_''),
        (case source_identity of None \<Rightarrow> Inr ()
         | Some src \<Rightarrow>
             ensure (\<not> rs_worker_session_id src \<noteq>
               (case worker_session_id of None \<Rightarrow> rs_worker_session_id src | Some w \<Rightarrow> w))
             (ConflictingIdentity ''sourceIdentity.workerSessionId''))]) (\<lambda>_.
     Inr \<lparr>sb_identity = identity, sb_worker_session_id = worker_session_id,
          sb_codex_thread_id = codex_thread_id, sb_source_identity = source_identity\<rparr>)"

definition pending :: "session_binding_identity \<Rightarrow> session_binding_error + session_binding" where
  "pending identity = binding_try_new identity None None None"

definition accept_worker_session :: "session_binding \<Rightarrow> string \<Rightarrow> session_binding_error + session_binding" where
  "accept_worker_session b worker_session_id =
     rbind (check_all
       [binding_validate_id worker_session_id ''workerSessionId'' ''wsn_'',
        ensure (\<not> (case sb_worker_session_id b of None \<Rightarrow> False | Some w \<Rightarrow> w \<noteq> worker_session_id))
          (ConflictingIdentity ''workerSessionId''),
        ensure (\<not> (case sb_source_identity b of None \<Rightarrow> False
                   | Some src \<Rightarrow> rs_worker_session_id src \<noteq> worker_session_id))
          (ConflictingIdentity ''sourceIdentity.workerSessionId'')]) (\<lambda>_.
     Inr (b\<lparr>sb_worker_session_id := Some worker_session_id\<rparr>))"

definition accept_codex_thread :: "session_binding \<Rightarrow> string \<Rightarrow> session_binding_error + session_binding" where
  "accept_codex_thread b codex_thread_id =
     rbind (check_all
       [ensure (sb_worker_session_id b \<noteq> None) WorkerSessionRequired,
        binding_validate_id codex_thread_id ''codexThreadId'' ''cdx_'',
        ensure (\<not> (case sb_codex_thread_id b of None \<Rightarrow> False | Some c \<Rightarrow> c \<noteq> codex_thread_id))
          (ConflictingIdentity ''codexThreadId'')]) (\<lambda>_.
     Inr (b\<lparr>sb_codex_thread_id := Some codex_thread_id\<rparr>))"

definition with_source_identity ::
    "session_binding \<Rightarrow> runtime_source_identity \<Rightarrow> session_binding_error + session_binding" where
  "with_source_identity b source_identity =
     rbind (check_all
       [ensure (\<not> (case sb_worker_session_id b of None \<Rightarrow> False
                   | Some w \<Rightarrow> rs_worker_session_id source_identity \<noteq> w))
          (ConflictingIdentity ''sourceIdentity.workerSessionId''),
        ensure (\<not> (case sb_source_identity b of None \<Rightarrow> False | Some src \<Rightarrow> src \<noteq> source_identity))
          (ConflictingIdentity ''sourceIdentity'')]) (\<lambda>_.
     Inr (b\<lparr>sb_source_identity := Some source_identity\<rparr>))"

definition is_complete :: "session_binding \<Rightarrow> bool" where
  "is_complete b \<longleftrightarrow> sb_worker_session_id b \<noteq> None \<and> sb_codex_thread_id b \<noteq> None \<and> sb_source_identity b \<noteq> None"

definition matches_identity :: "session_binding \<Rightarrow> session_binding_identity \<Rightarrow> bool" where
  "matches_identity b identity \<longleftrightarrow> sb_identity b = identity"

section \<open>Bindings only gain identities\<close>

datatype binding_op =
    AcceptWorkerSession string | AcceptCodexThread string | WithSourceIdentity runtime_source_identity

fun binding_step :: "session_binding \<Rightarrow> binding_op \<Rightarrow> session_binding_error + session_binding" where
  "binding_step b (AcceptWorkerSession w) = accept_worker_session b w"
| "binding_step b (AcceptCodexThread c) = accept_codex_thread b c"
| "binding_step b (WithSourceIdentity src) = with_source_identity b src"

text \<open>What \<^verbatim>\<open>try_new\<close> accepts.\<close>

definition binding_ok :: "session_binding \<Rightarrow> bool" where
  "binding_ok b \<longleftrightarrow> binding_try_new (sb_identity b) (sb_worker_session_id b) (sb_codex_thread_id b)
     (sb_source_identity b) = Inr b"

definition keeps :: "'a option \<Rightarrow> 'a option \<Rightarrow> bool" where
  "keeps old new \<longleftrightarrow> old = None \<or> new = old"

definition binding_le :: "session_binding \<Rightarrow> session_binding \<Rightarrow> bool" where
  "binding_le b c \<longleftrightarrow> sb_identity c = sb_identity b
     \<and> keeps (sb_worker_session_id b) (sb_worker_session_id c)
     \<and> keeps (sb_codex_thread_id b) (sb_codex_thread_id c)
     \<and> keeps (sb_source_identity b) (sb_source_identity c)"

lemma binding_validate_id_Inr_iff [result_simps]:
  "binding_validate_id s f p = Inr u \<longleftrightarrow> canonical_id s p"
  by (simp add: binding_validate_id_def result_simps)

lemma binding_ok_iff:
  "binding_ok b \<longleftrightarrow> (sb_codex_thread_id b \<noteq> None \<longrightarrow> sb_worker_session_id b \<noteq> None)
     \<and> (\<forall>w. sb_worker_session_id b = Some w \<longrightarrow> canonical_id w ''wsn_'')
     \<and> (\<forall>c. sb_codex_thread_id b = Some c \<longrightarrow> canonical_id c ''cdx_'')
     \<and> (\<forall>src w. sb_source_identity b = Some src \<longrightarrow> sb_worker_session_id b = Some w \<longrightarrow>
          rs_worker_session_id src = w)"
  by (auto simp: binding_ok_def binding_try_new_def result_simps split: option.splits)

lemma binding_step_ok:
  assumes "binding_ok b" and "binding_step b call = Inr b'"
  shows "binding_ok b' \<and> binding_le b b'"
  using assms
  by (cases call)
     (auto simp: binding_ok_iff binding_le_def keeps_def accept_worker_session_def accept_codex_thread_def
       with_source_identity_def result_simps split: option.splits)

interpretation binding: preordered_machine binding_step binding_ok binding_le
proof unfold_locales
  fix b call b' assume "binding_ok b" and "binding_step b call = Inr b'"
  from binding_step_ok [OF this] show "binding_ok b'" and "binding_le b b'" by simp_all
next
  fix b show "binding_le b b" by (simp add: binding_le_def keeps_def)
next
  fix a b c assume "binding_le a b" and "binding_le b c"
  then show "binding_le a c" by (auto simp: binding_le_def keeps_def)
qed

text \<open>
  A binding only gains identities: from a pending binding, whatever accepts and refusals follow,
  the logical identity never changes, an identity once bound is never replaced or dropped, a Codex
  thread is bound only beside a worker session, a bound source names that worker session, and the
  constructor would accept the result as it is.
\<close>

theorem binding_only_gains:
  assumes "pending identity = Inr b"
    and s: "s = run_ops binding_step b calls" and t: "t = run_ops binding_step b (calls @ later)"
  shows "sb_identity t = identity \<and> binding_try_new (sb_identity t) (sb_worker_session_id t)
      (sb_codex_thread_id t) (sb_source_identity t) = Inr t
    \<and> (\<forall>w. sb_worker_session_id s = Some w \<longrightarrow> sb_worker_session_id t = Some w)
    \<and> (\<forall>c. sb_codex_thread_id s = Some c \<longrightarrow> sb_codex_thread_id t = Some c)
    \<and> (\<forall>src. sb_source_identity s = Some src \<longrightarrow> sb_source_identity t = Some src)
    \<and> (is_complete s \<longrightarrow> t = s)"
proof -
  from assms(1) have ok: "binding_ok b" and id: "sb_identity b = identity"
    by (auto simp: pending_def binding_ok_def binding_try_new_def result_simps)
  have oks: "binding_ok s" unfolding s by (rule binding.run_inv [OF ok])
  have "binding_le b s" unfolding s by (rule binding.run_le [OF ok])
  moreover have "binding_le s t" unfolding t run_ops_append s [symmetric] by (rule binding.run_le [OF oks])
  moreover have "binding_ok t" unfolding t by (rule binding.run_inv [OF ok])
  ultimately show ?thesis
    using id by (auto simp: binding_le_def keeps_def binding_ok_def is_complete_def)
qed

end
