(* ===== verification/Network_Diagnostic.thy ===== *)
theory Network_Diagnostic
  imports Prelude
begin

text \<open>
  \<^verbatim>\<open>crates/winwincode-network/src/diagnostic.rs\<close>: what a network failure records about its cause, and
  the reference to a retained response log, a digest of 32 bytes written as
  \<^verbatim>\<open>sse-\<close>, 64 lower case hexadecimal digits and \<^verbatim>\<open>.log\<close>.
\<close>

section \<open>Vocabulary\<close>

datatype diagnostic_code =
    HttpStatus | Dns | ConnectCode | Io | TimeoutCode | Tls | TlsCertificate | HttpProtocol | RequestUri
  | RequestHeaders | Proxy | Redirect | ResponseHeadersTooLarge | BodyTooLarge | ContentTypeCode
  | TransportOther | JsonSyntax | JsonSchema | ResponseInvariant | SchemaVersion | SseFraming | SseEvent
  | StreamConversion | StreamIncompleteCode | EmptyResponseCode | IdentityConflict | CredentialBlocked
  | Storage | Configuration | AuthorityEnded

datatype io_failure_kind =
    TimedOut | ConnectionRefused | NotConnected | NetworkUnreachable | HostUnreachable | UnexpectedEof
  | ConnectionReset | ConnectionAborted | BrokenPipe | Interrupted | InvalidData | PermissionDenied
  | OtherFailure

datatype diagnostic_field =
    ContentType | Model | Answers | AnswerType | Probabilities | Choice | Confidence | UsageInputTokens
  | UsageOutputTokens | Scores | Labels | Entailment | Contradiction | Neutral

datatype response_log_status = Retained | WriteFailed

text \<open>The kinds of \<^verbatim>\<open>std::io::ErrorKind\<close> the source names, and the others.\<close>

datatype std_io_kind =
    KTimedOut | KConnectionRefused | KNotConnected | KNetworkUnreachable | KHostUnreachable | KUnexpectedEof
  | KConnectionReset | KConnectionAborted | KBrokenPipe | KInterrupted | KInvalidData | KPermissionDenied
  | KOther

record std_io_error =
  ie_kind :: std_io_kind
  ie_raw_os_error :: "int option"

section \<open>Response log references\<close>

datatype sse_response_log_id = SseResponseLogId "8 word list"

definition strip_suffix :: "string \<Rightarrow> string \<Rightarrow> string option" where
  "strip_suffix p s = map_option rev (strip_prefix (rev p) (rev s))"

definition is_lower_hex :: "char \<Rightarrow> bool" where
  "is_lower_hex c \<longleftrightarrow> is_ascii_digit c \<or> 97 \<le> byte c \<and> byte c \<le> 102"

definition hex_value :: "char \<Rightarrow> nat" where
  "hex_value c = (if is_ascii_digit c then byte c - 48 else byte c - 87)"

text \<open>\<^verbatim>\<open>u8::from_str_radix\<close> of each pair of digits.\<close>

fun hex_pairs :: "string \<Rightarrow> 8 word list" where
  "hex_pairs (a # b # rest) = word_of_nat (16 * hex_value a + hex_value b) # hex_pairs rest"
| "hex_pairs _ = []"

definition sse_parse :: "string \<Rightarrow> sse_response_log_id option" where
  "sse_parse s =
     (case strip_prefix ''sse-'' s of
        None \<Rightarrow> None
      | Some rest \<Rightarrow>
          (case strip_suffix ''.log'' rest of
             None \<Rightarrow> None
           | Some hex \<Rightarrow>
               if length hex \<noteq> 64 \<or> \<not> list_all is_lower_hex hex then None
               else Some (SseResponseLogId (hex_pairs hex))))"

definition hex_digit :: "nat \<Rightarrow> char" where
  "hex_digit n = char_of (if n < 10 then 48 + n else 87 + n)"

text \<open>\<^verbatim>\<open>{byte:02x}\<close>\<close>

definition hex_byte :: "8 word \<Rightarrow> string" where
  "hex_byte b = [hex_digit (unat b div 16), hex_digit (unat b mod 16)]"

fun sse_display :: "sse_response_log_id \<Rightarrow> string" where
  "sse_display (SseResponseLogId bytes) = ''sse-'' @ concat (map hex_byte bytes) @ ''.log''"

section \<open>Diagnostics\<close>

record network_diagnostic =
  nd_code :: diagnostic_code
  nd_field :: "diagnostic_field option"
  nd_io_kind :: "io_failure_kind option"
  nd_os_code :: "int option"
  nd_line :: "u32 option"
  nd_column :: "u32 option"
  nd_response_log :: "sse_response_log_id option"
  nd_response_log_status :: "response_log_status option"

definition NetworkDiagnostic_new :: "diagnostic_code \<Rightarrow> network_diagnostic" where
  "NetworkDiagnostic_new code =
     \<lparr>nd_code = code, nd_field = None, nd_io_kind = None, nd_os_code = None, nd_line = None, nd_column = None,
      nd_response_log = None, nd_response_log_status = None\<rparr>"

fun io_failure_kind_of :: "std_io_kind \<Rightarrow> io_failure_kind" where
  "io_failure_kind_of KTimedOut = TimedOut"
| "io_failure_kind_of KConnectionRefused = ConnectionRefused"
| "io_failure_kind_of KNotConnected = NotConnected"
| "io_failure_kind_of KNetworkUnreachable = NetworkUnreachable"
| "io_failure_kind_of KHostUnreachable = HostUnreachable"
| "io_failure_kind_of KUnexpectedEof = UnexpectedEof"
| "io_failure_kind_of KConnectionReset = ConnectionReset"
| "io_failure_kind_of KConnectionAborted = ConnectionAborted"
| "io_failure_kind_of KBrokenPipe = BrokenPipe"
| "io_failure_kind_of KInterrupted = Interrupted"
| "io_failure_kind_of KInvalidData = InvalidData"
| "io_failure_kind_of KPermissionDenied = PermissionDenied"
| "io_failure_kind_of KOther = OtherFailure"

definition diagnostic_io :: "std_io_error \<Rightarrow> network_diagnostic" where
  "diagnostic_io error = (NetworkDiagnostic_new Io)
     \<lparr>nd_io_kind := Some (io_failure_kind_of (ie_kind error)), nd_os_code := ie_raw_os_error error\<rparr>"

section \<open>Reading back a reference\<close>

lemma strip_suffix_Some_iff [result_simps]: "strip_suffix p s = Some r \<longleftrightarrow> s = r @ p"
proof -
  have "strip_suffix p s = Some r \<longleftrightarrow> rev s = rev p @ rev r"
    by (auto simp: strip_suffix_def result_simps)
  then show ?thesis by (metis rev_append rev_rev_ident)
qed

lemma sse_parse_iff:
  "sse_parse s = Some i \<longleftrightarrow>
     (\<exists>hex. s = ''sse-'' @ hex @ ''.log'' \<and> length hex = 64 \<and> list_all is_lower_hex hex
        \<and> i = SseResponseLogId (hex_pairs hex))"
proof (cases "strip_prefix ''sse-'' s")
  case None
  then have "s \<noteq> ''sse-'' @ r" for r using strip_prefix_Some_iff [of "''sse-''" s r] by (simp del: append.simps)
  with None show ?thesis unfolding sse_parse_def by (auto simp del: append.simps)
next
  case (Some rest)
  then have s: "s = ''sse-'' @ rest" by (simp only: strip_prefix_Some_iff)
  show ?thesis
  proof (cases "strip_suffix ''.log'' rest")
    case None
    then have "rest \<noteq> r @ ''.log''" for r using strip_suffix_Some_iff [of "''.log''" rest r] by simp
    with None Some show ?thesis unfolding sse_parse_def s by simp
  next
    case hex: (Some hex)
    then have "rest = hex @ ''.log''" by (simp only: strip_suffix_Some_iff)
    with hex Some show ?thesis unfolding sse_parse_def s by auto
  qed
qed

lemma hex_digit_ok: "n < 16 \<Longrightarrow> is_lower_hex (hex_digit n) \<and> hex_value (hex_digit n) = n"
  by (auto simp: is_lower_hex_def hex_digit_def hex_value_def is_ascii_digit_def byte_char_of)

lemma char_of_byte: "char_of (byte c) = c"
  by (simp add: byte_def)

lemma hex_digit_value: "is_lower_hex c \<Longrightarrow> hex_value c < 16 \<and> hex_digit (hex_value c) = c"
proof (cases "is_ascii_digit c")
  case True
  then show ?thesis by (auto simp: hex_digit_def hex_value_def is_ascii_digit_def char_of_byte)
next
  case False
  moreover assume "is_lower_hex c"
  ultimately have "97 \<le> byte c" "byte c \<le> 102" by (simp_all add: is_lower_hex_def)
  with False show ?thesis by (auto simp: hex_digit_def hex_value_def char_of_byte)
qed

lemma hex_byte_lower: "list_all is_lower_hex (hex_byte b)"
proof -
  have "unat b < 256" using unsigned_less [of b] by simp
  then show ?thesis by (simp add: hex_byte_def hex_digit_ok)
qed

lemma hex_pairs_display: "hex_pairs (concat (map hex_byte bs)) = bs"
proof (induction bs)
  case (Cons b bs)
  have "unat b < 256" using unsigned_less [of b] by simp
  then have "16 * hex_value (hex_digit (unat b div 16)) + hex_value (hex_digit (unat b mod 16)) = unat b"
    by (simp add: hex_digit_ok)
  with Cons show ?case by (simp add: hex_byte_def)
qed simp

lemma display_hex_pairs:
  "even (length hex) \<Longrightarrow> list_all is_lower_hex hex \<Longrightarrow> concat (map hex_byte (hex_pairs hex)) = hex"
proof (induction hex rule: hex_pairs.induct)
  case (1 a b rest)
  let ?n = "16 * hex_value a + hex_value b"
  from 1 have a: "hex_value a < 16" "hex_digit (hex_value a) = a"
    and b: "hex_value b < 16" "hex_digit (hex_value b) = b" by (simp_all add: hex_digit_value)
  then have "?n < 256" by simp
  then have "unat (word_of_nat ?n :: 8 word) = ?n" by (simp only: unat_of_nat) simp
  then have "hex_byte (word_of_nat ?n) = [a, b]" using a b by (simp add: hex_byte_def)
  with 1 show ?case by simp
qed auto

lemma hex_pairs_length: "length (hex_pairs hex) = length hex div 2"
  by (induction hex rule: hex_pairs.induct) auto

text \<open>
  References to response logs read back as they were written and have one spelling: parsing the
  text of a 32 byte digest gives that digest, and whatever text parses is exactly the text of the
  digest it stands for.
\<close>

theorem sse_log_id_round_trip:
  "(length bytes = 32 \<longrightarrow> sse_parse (sse_display (SseResponseLogId bytes)) = Some (SseResponseLogId bytes))
   \<and> (sse_parse s = Some i \<longrightarrow> sse_display i = s \<and> (\<exists>bytes. i = SseResponseLogId bytes \<and> length bytes = 32))"
proof
  have "length (concat (map hex_byte bytes)) = 2 * length bytes"
    by (induction bytes) (simp_all add: hex_byte_def)
  moreover have "list_all is_lower_hex (concat (map hex_byte bytes))"
    using hex_byte_lower by (auto simp: list_all_iff)
  ultimately show "length bytes = 32 \<longrightarrow>
      sse_parse (sse_display (SseResponseLogId bytes)) = Some (SseResponseLogId bytes)"
    by (simp add: sse_parse_iff hex_pairs_display)
  show "sse_parse s = Some i \<longrightarrow> sse_display i = s \<and> (\<exists>bytes. i = SseResponseLogId bytes \<and> length bytes = 32)"
    by (auto simp: sse_parse_iff display_hex_pairs hex_pairs_length)
qed

end
