(* ===== verification/Network_Policy.thy ===== *)
theory Network_Policy
  imports Machines Network_Diagnostic
begin

text \<open>
  \<^verbatim>\<open>crates/winwincode-network/src/policy.rs\<close> and \<^verbatim>\<open>lib.rs\<close>: how a failed request is classified, when it
  is retried and after which delay, and the loop that runs a request under that policy. The policy
  values are those of \<^verbatim>\<open>schema/winwincode/network-request-policy.json\<close>, which the source embeds. A
  \<^verbatim>\<open>Duration\<close> is a number of nanoseconds up to \<^verbatim>\<open>Duration::MAX\<close>.
\<close>

section \<open>Durations\<close>

type_synonym duration = nat

definition duration_max :: duration where
  "duration_max = (2 ^ 64 - 1) * 1000000000 + 999999999"

definition from_millis :: "u64 \<Rightarrow> duration" where
  "from_millis ms = unat ms * 1000000"

definition duration_saturating_add :: "duration \<Rightarrow> duration \<Rightarrow> duration" where
  "duration_saturating_add a b = min (a + b) duration_max"

definition duration_saturating_mul :: "duration \<Rightarrow> u32 \<Rightarrow> duration" where
  "duration_saturating_mul a k = min (a * unat k) duration_max"

definition saturating_pow2 :: "u32 \<Rightarrow> u32" where
  "saturating_pow2 e = (if unat e < 32 then word_of_nat (2 ^ unat e) else - 1)"

definition duration_millis :: "duration \<Rightarrow> u64" where
  "duration_millis d = (if d div 1000000 < 2 ^ 64 then word_of_nat (d div 1000000) else - 1)"

section \<open>Failures\<close>

datatype error_kind =
    ConnectionUnavailable | TransportInterrupted | Timeout | RateLimited | ServerTransient
  | Authentication | Authorization | RequestInvalid | ProtocolInvalid | IntegrityInvalid | TlsInvalid
  | StreamIncomplete | EmptyResponse | RequestCancelled | AuthorityExpired | StorageUnavailable

datatype acceptance = NotSent | AcceptanceUnknown | ResponseReceived

datatype replay = RetryInference | ReplayExact | ReconcileFirst

datatype phase = Connect | HeadersPhase | ResponseBody | StreamPhase | Decode | Persist

record network_failure =
  nf_kind :: error_kind
  nf_acceptance :: acceptance
  nf_phase :: phase
  nf_http_status :: "u16 option"
  nf_retry_after_ms :: "u64 option"
  nf_diagnostic :: "network_diagnostic option"

definition NetworkFailure_new :: "error_kind \<Rightarrow> acceptance \<Rightarrow> phase \<Rightarrow> network_failure" where
  "NetworkFailure_new kind acceptance phase =
     \<lparr>nf_kind = kind, nf_acceptance = acceptance, nf_phase = phase, nf_http_status = None,
      nf_retry_after_ms = None, nf_diagnostic = None\<rparr>"

definition with_diagnostic :: "network_failure \<Rightarrow> network_diagnostic \<Rightarrow> network_failure" where
  "with_diagnostic failure diagnostic = failure\<lparr>nf_diagnostic := Some diagnostic\<rparr>"

definition http_kind :: "u16 \<Rightarrow> error_kind" where
  "http_kind status =
     (if status = 401 then Authentication
      else if status = 403 then Authorization
      else if status = 408 then Timeout
      else if status = 425 \<or> 500 \<le> status \<and> status \<le> 599 then ServerTransient
      else if status = 429 then RateLimited
      else RequestInvalid)"

definition network_failure_http :: "u16 \<Rightarrow> duration option \<Rightarrow> network_failure" where
  "network_failure_http status retry_after =
     (NetworkFailure_new (http_kind status) ResponseReceived HeadersPhase)
       \<lparr>nf_http_status := Some status, nf_retry_after_ms := map_option duration_millis retry_after,
        nf_diagnostic := Some (NetworkDiagnostic_new HttpStatus)\<rparr>"

text \<open>
  The errors of the \<^verbatim>\<open>ureq\<close> client by the variants the source names, and the others. An input or output
  error carries whether its cause is a \<^verbatim>\<open>rustls\<close> error.
\<close>

datatype ureq_error =
    StatusCode u16 | UreqTimeout | HostNotFound | ConnectionFailed | UreqIo std_io_error bool | UreqTls
  | UreqRustls | Pem | TlsRequired | BadUri | UreqHttp | InvalidProxyUrl | RequireHttpsOnly | BodyExceedsLimit
  | RedirectFailed | TooManyRedirects | UreqProtocol | ConnectProxyFailed | LargeResponseHeader | UreqOther

fun io_error_kind :: "std_io_kind \<Rightarrow> error_kind" where
  "io_error_kind KTimedOut = Timeout"
| "io_error_kind KConnectionRefused = ConnectionUnavailable"
| "io_error_kind KNotConnected = ConnectionUnavailable"
| "io_error_kind KNetworkUnreachable = ConnectionUnavailable"
| "io_error_kind KHostUnreachable = ConnectionUnavailable"
| "io_error_kind KUnexpectedEof = TransportInterrupted"
| "io_error_kind KConnectionReset = TransportInterrupted"
| "io_error_kind KConnectionAborted = TransportInterrupted"
| "io_error_kind KBrokenPipe = TransportInterrupted"
| "io_error_kind KInterrupted = TransportInterrupted"
| "io_error_kind _ = ProtocolInvalid"

definition ureq_kind :: "ureq_error \<Rightarrow> error_kind" where
  "ureq_kind error = (case error of
       UreqTimeout \<Rightarrow> Timeout
     | HostNotFound \<Rightarrow> ConnectionUnavailable
     | ConnectionFailed \<Rightarrow> ConnectionUnavailable
     | UreqIo e rustls \<Rightarrow> if rustls then TlsInvalid else io_error_kind (ie_kind e)
     | UreqTls \<Rightarrow> TlsInvalid | UreqRustls \<Rightarrow> TlsInvalid | Pem \<Rightarrow> TlsInvalid | TlsRequired \<Rightarrow> TlsInvalid
     | BadUri \<Rightarrow> RequestInvalid | UreqHttp \<Rightarrow> RequestInvalid | InvalidProxyUrl \<Rightarrow> RequestInvalid
     | RequireHttpsOnly \<Rightarrow> RequestInvalid | BodyExceedsLimit \<Rightarrow> RequestInvalid
     | RedirectFailed \<Rightarrow> RequestInvalid | TooManyRedirects \<Rightarrow> RequestInvalid
     | _ \<Rightarrow> ProtocolInvalid)"

definition ureq_diagnostic :: "ureq_error \<Rightarrow> network_diagnostic" where
  "ureq_diagnostic error = (case error of
       UreqIo e rustls \<Rightarrow> if rustls then NetworkDiagnostic_new Tls else diagnostic_io e
     | other \<Rightarrow> NetworkDiagnostic_new (case other of
           HostNotFound \<Rightarrow> Dns
         | ConnectionFailed \<Rightarrow> ConnectCode
         | UreqTimeout \<Rightarrow> TimeoutCode
         | UreqTls \<Rightarrow> Tls | UreqRustls \<Rightarrow> Tls | TlsRequired \<Rightarrow> Tls
         | Pem \<Rightarrow> TlsCertificate
         | UreqProtocol \<Rightarrow> HttpProtocol
         | BadUri \<Rightarrow> RequestUri | RequireHttpsOnly \<Rightarrow> RequestUri
         | UreqHttp \<Rightarrow> RequestHeaders
         | InvalidProxyUrl \<Rightarrow> Proxy | ConnectProxyFailed \<Rightarrow> Proxy
         | RedirectFailed \<Rightarrow> Redirect | TooManyRedirects \<Rightarrow> Redirect
         | LargeResponseHeader \<Rightarrow> ResponseHeadersTooLarge
         | BodyExceedsLimit \<Rightarrow> BodyTooLarge
         | _ \<Rightarrow> TransportOther))"

definition classify_ureq :: "ureq_error \<Rightarrow> bool \<Rightarrow> phase \<Rightarrow> network_failure" where
  "classify_ureq error not_sent phase =
     (case error of
        StatusCode status \<Rightarrow> network_failure_http status None
      | _ \<Rightarrow> with_diagnostic
               (NetworkFailure_new (ureq_kind error) (if not_sent then NotSent else AcceptanceUnknown) phase)
               (ureq_diagnostic error))"

section \<open>The policy\<close>

record policy_defaults =
  df_version :: string
  df_max_attempts :: u32
  df_initial_delay_ms :: u64
  df_max_connection_delay_ms :: u64
  df_max_immediate_wait_ms :: u64
  df_authority_check_ms :: u64
  df_jitter_ms :: u64
  df_transient_kinds :: "error_kind list"

definition defaults :: policy_defaults where
  "defaults = \<lparr>df_version = ''winwincode.network-request-policy.v1'', df_max_attempts = 4,
     df_initial_delay_ms = 5000, df_max_connection_delay_ms = 60000, df_max_immediate_wait_ms = 300000,
     df_authority_check_ms = 100, df_jitter_ms = 255,
     df_transient_kinds = [ConnectionUnavailable, TransportInterrupted, Timeout, RateLimited,
       ServerTransient, StreamIncomplete, ProtocolInvalid, EmptyResponse]\<rparr>"

definition retryable :: "network_failure \<Rightarrow> bool" where
  "retryable failure \<longleftrightarrow> nf_kind failure \<in> set (df_transient_kinds defaults)"

datatype retry_decision = RetryAfter duration | DeferredUntil duration | Reconcile | Stop

definition exponential_delay :: "u32 \<Rightarrow> duration \<Rightarrow> duration \<Rightarrow> duration" where
  "exponential_delay ordinal initial cap =
     min (duration_saturating_mul initial (saturating_pow2 (saturating_sub ordinal 1))) cap"

definition decide ::
    "network_failure \<Rightarrow> replay \<Rightarrow> u32 \<Rightarrow> u32 \<Rightarrow> u32 \<Rightarrow> u64 \<Rightarrow> retry_decision" where
  "decide failure replay attempt connection_attempt max_attempts jitter_ms =
     (if \<not> retryable failure then Stop
      else if replay = ReconcileFirst \<and> nf_acceptance failure \<noteq> NotSent then Reconcile
      else
        let disconnected = nf_acceptance failure = NotSent
              \<and> nf_kind failure \<in> {ConnectionUnavailable, Timeout};
            durable_control = replay = ReplayExact
        in if \<not> disconnected \<and> \<not> durable_control \<and> max max_attempts 1 \<le> attempt then Stop
        else
          let ordinal = if disconnected then max connection_attempt 1 else max attempt 1;
              delay = exponential_delay ordinal (from_millis (df_initial_delay_ms defaults))
                (if disconnected \<or> durable_control
                 then from_millis (df_max_connection_delay_ms defaults) else duration_max);
              delay = (case nf_retry_after_ms failure of None \<Rightarrow> delay
                       | Some floor \<Rightarrow> max delay (from_millis floor));
              delay = duration_saturating_add delay (from_millis (min jitter_ms (df_jitter_ms defaults)))
          in if from_millis (df_max_immediate_wait_ms defaults) < delay then DeferredUntil delay
             else RetryAfter delay)"

definition immediate_delay :: "retry_decision \<Rightarrow> duration option" where
  "immediate_delay d = (case d of RetryAfter delay \<Rightarrow> Some delay | _ \<Rightarrow> None)"

section \<open>Requests under the policy\<close>

definition wait_for_connection :: "network_failure \<Rightarrow> bool" where
  "wait_for_connection failure \<longleftrightarrow>
     nf_acceptance failure = NotSent \<and> nf_kind failure \<in> {ConnectionUnavailable, Timeout}"

text \<open>
  \<open>rr_jitter attempt\<close> stands for the first byte of the SHA-256 of the jitter key and the attempt number.
\<close>

record request_retry =
  rr_max_attempts :: u32
  rr_jitter :: "u32 \<Rightarrow> 8 word"
  rr_replay :: replay

record request_retry_state =
  rt_policy :: request_retry
  rt_attempt :: u32
  rt_connections :: u32

definition RequestRetry_new :: "u32 \<Rightarrow> (u32 \<Rightarrow> 8 word) \<Rightarrow> request_retry" where
  "RequestRetry_new max_attempts jitter =
     \<lparr>rr_max_attempts = max max_attempts 1, rr_jitter = jitter, rr_replay = RetryInference\<rparr>"

definition for_replay :: "request_retry \<Rightarrow> replay \<Rightarrow> request_retry" where
  "for_replay policy replay = policy\<lparr>rr_replay := replay\<rparr>"

definition state_at_with_connections :: "request_retry \<Rightarrow> u32 \<Rightarrow> u32 \<Rightarrow> request_retry_state" where
  "state_at_with_connections policy attempt connections =
     \<lparr>rt_policy = policy, rt_attempt = min (max attempt 1) (rr_max_attempts policy),
      rt_connections = connections\<rparr>"

definition state_at :: "request_retry \<Rightarrow> u32 \<Rightarrow> request_retry_state" where
  "state_at policy attempt = state_at_with_connections policy attempt 0"

definition initial_state :: "request_retry \<Rightarrow> request_retry_state" where
  "initial_state policy = state_at policy 1"

definition policy_decide :: "request_retry \<Rightarrow> u32 \<Rightarrow> u32 \<Rightarrow> network_failure \<Rightarrow> retry_decision" where
  "policy_decide policy attempt connection_attempt failure =
     decide failure (rr_replay policy) attempt connection_attempt (rr_max_attempts policy)
       (ucast (rr_jitter policy attempt))"

definition decision_after ::
    "request_retry_state \<Rightarrow> network_failure \<Rightarrow> retry_decision \<times> request_retry_state" where
  "decision_after s failure =
     (if wait_for_connection failure then
        let s = s\<lparr>rt_connections := saturating_add (rt_connections s) 1\<rparr>
        in (policy_decide (rt_policy s) (rt_attempt s) (rt_connections s) failure, s)
      else
        let decision = policy_decide (rt_policy s) (rt_attempt s) 0 failure;
            s = (case decision of
                   RetryAfter _ \<Rightarrow> s\<lparr>rt_attempt := saturating_add (rt_attempt s) 1\<rparr>
                 | DeferredUntil _ \<Rightarrow> s\<lparr>rt_attempt := saturating_add (rt_attempt s) 1\<rparr>
                 | _ \<Rightarrow> s)
        in (decision, s\<lparr>rt_connections := 0\<rparr>))"

text \<open>
  The closures of \<^verbatim>\<open>run_blocking\<close>, which may answer differently at each turn of the loop, are functions
  of the number of the turn: \<open>can_start\<close>, \<open>operation\<close>, \<open>retain\<close>, and \<open>waited\<close> for whether
  \<^verbatim>\<open>can_start\<close> kept answering yes until the delay had passed. The loop may run as long as the server
  cannot be reached, so it has fuel; \<open>None\<close> is a loop still running.
\<close>

record 'a request_environment =
  re_can_start :: "nat \<Rightarrow> bool"
  re_stopped :: "network_failure"
  re_operation :: "nat \<Rightarrow> u32 \<Rightarrow> network_failure + 'a"
  re_retain :: "nat \<Rightarrow> u32 \<Rightarrow> network_failure + 'a \<Rightarrow> network_failure + unit"
  re_waited :: "nat \<Rightarrow> duration \<Rightarrow> bool"

fun run_loop ::
    "'a request_environment \<Rightarrow> nat \<Rightarrow> nat \<Rightarrow> request_retry_state \<Rightarrow> (network_failure + 'a) option" where
  "run_loop env 0 k s = None"
| "run_loop env (Suc fuel) k s =
     (if \<not> re_can_start env k then Some (Inl (re_stopped env))
      else
        let result = re_operation env k (rt_attempt s)
        in case re_retain env k (rt_attempt s) result of
             Inl e \<Rightarrow> Some (Inl e)
           | Inr _ \<Rightarrow>
               (case result of
                  Inr a \<Rightarrow> Some (Inr a)
                | Inl error \<Rightarrow>
                    (case decision_after s error of
                       (RetryAfter delay, s') \<Rightarrow>
                         if re_waited env k delay then run_loop env fuel (Suc k) s'
                         else Some (Inl (re_stopped env))
                     | (DeferredUntil delay, s') \<Rightarrow>
                         if re_waited env k delay then run_loop env fuel (Suc k) s'
                         else Some (Inl (re_stopped env))
                     | (Stop, s') \<Rightarrow> Some (Inl error)
                     | (Reconcile, s') \<Rightarrow> Some (Inl error))))"

definition run_blocking ::
    "request_retry \<Rightarrow> 'a request_environment \<Rightarrow> nat \<Rightarrow> (network_failure + 'a) option" where
  "run_blocking policy env fuel = run_loop env fuel 0 (initial_state policy)"

definition connection_delay :: "u32 \<Rightarrow> duration" where
  "connection_delay attempt =
     exponential_delay attempt (from_millis (df_initial_delay_ms defaults))
       (from_millis (df_max_connection_delay_ms defaults))"

section \<open>Delays\<close>

lemma from_millis_le_max: "from_millis ms \<le> duration_max"
  using u64_bound [of ms] by (simp add: from_millis_def duration_max_def)

lemma duration_millis_from_millis: "duration_millis (from_millis ms) = ms"
  using u64_bound [of ms] by (simp add: duration_millis_def from_millis_def)

lemma unat_saturating_pow2: "unat (saturating_pow2 e) = min (2 ^ unat e) (2 ^ 32 - 1)"
proof (cases "unat e < 32")
  case True
  then have "(2::nat) ^ unat e \<le> 2 ^ 31" by (intro power_increasing) auto
  then have "unat (word_of_nat (2 ^ unat e) :: u32) = 2 ^ unat e"
    by (simp only: unat_of_nat) simp
  with True \<open>2 ^ unat e \<le> 2 ^ 31\<close> show ?thesis by (simp add: saturating_pow2_def)
next
  case False
  then have "(2::nat) ^ 32 \<le> 2 ^ unat e" by (intro power_increasing) auto
  with False show ?thesis by (simp add: saturating_pow2_def unat_max_word)
qed

lemma exponential_delay_mono:
  assumes "m \<le> n"
  shows "exponential_delay m initial cap \<le> exponential_delay n initial cap"
proof -
  have "unat (saturating_sub m 1) \<le> unat (saturating_sub n 1)"
    using assms by (simp add: unat_saturating_sub word_le_nat_alt)
  then have "(2::nat) ^ unat (saturating_sub m 1) \<le> 2 ^ unat (saturating_sub n 1)"
    by (intro power_increasing) auto
  then have "unat (saturating_pow2 (saturating_sub m 1)) \<le> unat (saturating_pow2 (saturating_sub n 1))"
    unfolding unat_saturating_pow2 by (rule min.mono) simp
  then have "initial * unat (saturating_pow2 (saturating_sub m 1))
      \<le> initial * unat (saturating_pow2 (saturating_sub n 1))" by simp
  then show ?thesis
    unfolding exponential_delay_def duration_saturating_mul_def by (intro min.mono order.refl)
qed

text \<open>A decision that sends the request again, and the delay it waits for.\<close>

definition resend_delay :: "retry_decision \<Rightarrow> duration option" where
  "resend_delay d = (case d of RetryAfter delay \<Rightarrow> Some delay | DeferredUntil delay \<Rightarrow> Some delay | _ \<Rightarrow> None)"

lemma resend_delay_simps [simp]:
  "resend_delay (RetryAfter d) = Some d" "resend_delay (DeferredUntil d) = Some d"
  "resend_delay Reconcile = None" "resend_delay Stop = None"
  by (simp_all add: resend_delay_def)

lemma exponential_delay_ge: "initial \<le> cap \<Longrightarrow> cap \<le> duration_max \<Longrightarrow> initial \<le> exponential_delay n initial cap"
proof -
  assume cap: "initial \<le> cap" "cap \<le> duration_max"
  have "1 \<le> unat (saturating_pow2 (saturating_sub n 1))" by (simp add: unat_saturating_pow2)
  then have "initial \<le> initial * unat (saturating_pow2 (saturating_sub n 1))" using mult_le_mono2 [of 1 _ initial] by simp
  with cap show ?thesis by (auto simp: exponential_delay_def duration_saturating_mul_def)
qed

lemma exponential_delay_le: "exponential_delay n initial cap \<le> cap"
  by (simp add: exponential_delay_def)

text \<open>The delay before the wait limit splits it, and the decision on it.\<close>

definition base_delay :: "network_failure \<Rightarrow> replay \<Rightarrow> u32 \<Rightarrow> u32 \<Rightarrow> duration" where
  "base_delay failure replay attempt connection_attempt =
     exponential_delay (if wait_for_connection failure then max connection_attempt 1 else max attempt 1)
       (from_millis (df_initial_delay_ms defaults))
       (if wait_for_connection failure \<or> replay = ReplayExact
        then from_millis (df_max_connection_delay_ms defaults) else duration_max)"

definition total_delay :: "network_failure \<Rightarrow> replay \<Rightarrow> u32 \<Rightarrow> u32 \<Rightarrow> u64 \<Rightarrow> duration" where
  "total_delay failure replay attempt connection_attempt jitter_ms =
     duration_saturating_add
       (case nf_retry_after_ms failure of
          None \<Rightarrow> base_delay failure replay attempt connection_attempt
        | Some floor \<Rightarrow> max (base_delay failure replay attempt connection_attempt) (from_millis floor))
       (from_millis (min jitter_ms (df_jitter_ms defaults)))"

lemma decide_cases:
  "decide failure replay attempt connection_attempt max_attempts jitter_ms =
     (if \<not> retryable failure then Stop
      else if replay = ReconcileFirst \<and> nf_acceptance failure \<noteq> NotSent then Reconcile
      else if \<not> wait_for_connection failure \<and> replay \<noteq> ReplayExact \<and> max max_attempts 1 \<le> attempt then Stop
      else let delay = total_delay failure replay attempt connection_attempt jitter_ms
           in if from_millis (df_max_immediate_wait_ms defaults) < delay then DeferredUntil delay
              else RetryAfter delay)"
  unfolding decide_def total_delay_def base_delay_def Let_def wait_for_connection_def by (rule refl)

lemma decide_resend_iff:
  "resend_delay (decide failure replay attempt connection_attempt max_attempts jitter_ms) = Some d \<longleftrightarrow>
     retryable failure
     \<and> (replay = ReconcileFirst \<longrightarrow> nf_acceptance failure = NotSent)
     \<and> (wait_for_connection failure \<or> replay = ReplayExact \<or> attempt < max max_attempts 1)
     \<and> d = total_delay failure replay attempt connection_attempt jitter_ms"
  by (auto simp: decide_cases Let_def less_max_iff_disj not_le)

lemma decide_wait_limit:
  "decide failure replay attempt connection_attempt max_attempts jitter_ms = RetryAfter d \<Longrightarrow>
     d \<le> from_millis (df_max_immediate_wait_ms defaults)"
  "decide failure replay attempt connection_attempt max_attempts jitter_ms = DeferredUntil d \<Longrightarrow>
     from_millis (df_max_immediate_wait_ms defaults) < d"
  by (auto simp: decide_cases Let_def split: if_splits)

lemma base_delay_bounds:
  "5000 * 1000000 \<le> base_delay failure replay attempt connection_attempt"
  "wait_for_connection failure \<or> replay = ReplayExact \<Longrightarrow>
     base_delay failure replay attempt connection_attempt \<le> 60000 * 1000000"
proof -
  have v: "from_millis (df_initial_delay_ms defaults) = 5000 * 1000000"
    "from_millis (df_max_connection_delay_ms defaults) = 60000 * 1000000"
    by (simp_all add: defaults_def from_millis_def)
  show "5000 * 1000000 \<le> base_delay failure replay attempt connection_attempt"
    unfolding base_delay_def v by (rule exponential_delay_ge) (simp_all add: duration_max_def)
  show "base_delay failure replay attempt connection_attempt \<le> 60000 * 1000000"
    if "wait_for_connection failure \<or> replay = ReplayExact"
    using that unfolding base_delay_def v by (simp add: exponential_delay_le)
qed

lemma jitter_bound: "from_millis (min jitter_ms (df_jitter_ms defaults)) \<le> 255 * 1000000"
  by (auto simp: from_millis_def defaults_def min_def word_le_nat_alt)

text \<open>
  A request is sent again only after a transient failure and never, when it must be reconciled
  first, once it may have reached the server. The delay is at least five seconds and at least what
  the server asked for. While the server cannot be reached, and for requests that replay exactly, it
  is at most the larger of a minute and what the server asked for, plus 255 ms of jitter. A delay to
  be waited for at once is at most five minutes; a longer one is deferred.
\<close>

theorem retry_delay_bounds:
  assumes "decide failure replay attempt connection_attempt max_attempts jitter_ms = decision"
    and "resend_delay decision = Some d"
  shows "retryable failure \<and> \<not> (replay = ReconcileFirst \<and> nf_acceptance failure \<noteq> NotSent)
    \<and> from_millis 5000 \<le> d
    \<and> (\<forall>floor. nf_retry_after_ms failure = Some floor \<longrightarrow> from_millis floor \<le> d)
    \<and> (wait_for_connection failure \<or> replay = ReplayExact \<longrightarrow>
         d \<le> max (from_millis 60000)
               (case nf_retry_after_ms failure of None \<Rightarrow> 0 | Some floor \<Rightarrow> from_millis floor) + from_millis 255)
    \<and> (decision = RetryAfter d \<longleftrightarrow> d \<le> from_millis 300000)"
proof -
  let ?base = "base_delay failure replay attempt connection_attempt"
    and ?jitter = "from_millis (min jitter_ms (df_jitter_ms defaults))"
  have v: "from_millis 5000 = 5000 * 1000000" "from_millis 60000 = 60000 * 1000000"
    "from_millis 255 = 255 * 1000000" "from_millis 300000 = 300000 * 1000000"
    "from_millis (df_max_immediate_wait_ms defaults) = 300000 * 1000000"
    by (simp_all add: from_millis_def defaults_def)
  from assms have r: "retryable failure" "replay = ReconcileFirst \<longrightarrow> nf_acceptance failure = NotSent"
    and d: "d = duration_saturating_add
      (case nf_retry_after_ms failure of None \<Rightarrow> ?base | Some floor \<Rightarrow> max ?base (from_millis floor)) ?jitter"
    by (simp_all add: decide_resend_iff total_delay_def flip: assms(1))
  have low: "5000 * 1000000 \<le> d"
    using base_delay_bounds(1) [of failure replay attempt connection_attempt]
    unfolding d duration_saturating_add_def by (auto simp: duration_max_def split: option.splits)
  have floor: "from_millis floor \<le> d" if "nf_retry_after_ms failure = Some floor" for floor
    using that from_millis_le_max [of floor] unfolding d duration_saturating_add_def by simp
  have high: "d \<le> max (60000 * 1000000)
      (case nf_retry_after_ms failure of None \<Rightarrow> 0 | Some floor \<Rightarrow> from_millis floor) + 255 * 1000000"
    if "wait_for_connection failure \<or> replay = ReplayExact"
    using base_delay_bounds(2) [OF that, of attempt connection_attempt] jitter_bound [of jitter_ms]
    unfolding d duration_saturating_add_def by (auto split: option.splits)
  have limit: "decision = RetryAfter d \<longleftrightarrow> d \<le> 300000 * 1000000"
    using assms decide_wait_limit [of failure replay attempt connection_attempt max_attempts jitter_ms d]
    unfolding v by (cases decision) auto
  show ?thesis using r low floor high limit unfolding v by auto
qed

text \<open>
  A request that must be reconciled first is never sent again once it may have been sent: whatever
  error the client reported after the request was handed to it, whatever status the server answered
  with, and whatever the attempts and the jitter, the decision is to reconcile or to stop.
\<close>

theorem reconcile_first_never_resends:
  "decide (classify_ureq error False phase) ReconcileFirst attempt connection_attempt max_attempts jitter_ms
     \<in> {Reconcile, Stop}"
proof -
  have "nf_acceptance (classify_ureq error False phase) \<noteq> NotSent"
    by (cases error) (simp_all add: classify_ureq_def network_failure_http_def with_diagnostic_def NetworkFailure_new_def)
  then show ?thesis by (simp add: decide_cases)
qed

section \<open>The retry budget\<close>

definition within_budget :: "request_retry_state \<Rightarrow> bool" where
  "within_budget s \<longleftrightarrow> 1 \<le> rt_attempt s \<and> rt_attempt s \<le> rr_max_attempts (rt_policy s)
     \<and> rr_replay (rt_policy s) \<noteq> ReplayExact"

text \<open>A failure that spends an attempt: the server was or may have been reached, and the request is sent again.\<close>

definition spends :: "network_failure \<Rightarrow> retry_decision \<Rightarrow> bool" where
  "spends failure decision \<longleftrightarrow> \<not> wait_for_connection failure \<and> resend_delay decision \<noteq> None"

lemma decision_after_policy [simp]: "rt_policy (snd (decision_after s f)) = rt_policy s"
  by (auto simp: decision_after_def Let_def split: retry_decision.splits)

lemma decision_after_spends:
  assumes "within_budget s"
  shows "unat (rt_attempt (snd (decision_after s f))) =
      unat (rt_attempt s) + (if spends f (fst (decision_after s f)) then 1 else 0)
    \<and> within_budget (snd (decision_after s f))"
proof (cases "spends f (fst (decision_after s f))")
  case True
  let ?d = "policy_decide (rt_policy s) (rt_attempt s) 0 f"
  from True have nw: "\<not> wait_for_connection f" and "resend_delay ?d \<noteq> None"
    by (auto simp: spends_def decision_after_def Let_def split: if_splits)
  then obtain delay where d: "?d = RetryAfter delay \<or> ?d = DeferredUntil delay"
    by (cases ?d) auto
  then have "resend_delay ?d = Some delay" by auto
  with nw assms have "rt_attempt s < max (rr_max_attempts (rt_policy s)) 1"
    by (auto simp: policy_decide_def decide_resend_iff within_budget_def)
  with assms have lt: "unat (rt_attempt s) < unat (rr_max_attempts (rt_policy s))"
    by (auto simp: within_budget_def less_max_iff_disj word_less_nat_alt word_le_nat_alt)
  moreover have "unat (rr_max_attempts (rt_policy s)) < 2 ^ 32"
    using unsigned_less [of "rr_max_attempts (rt_policy s)"] by simp
  ultimately have "unat (saturating_add (rt_attempt s) 1) = unat (rt_attempt s) + 1"
    by (simp add: unat_saturating_add)
  with True nw d lt assms show ?thesis
    by (auto simp: decision_after_def Let_def within_budget_def word_le_nat_alt)
next
  case False
  then have "rt_attempt (snd (decision_after s f)) = rt_attempt s"
    by (auto simp: spends_def decision_after_def Let_def split: retry_decision.splits if_splits)
  with False assms show ?thesis by (simp add: within_budget_def)
qed

interpretation retry: reactive_machine decision_after within_budget
  by unfold_locales (simp add: decision_after_spends)

lemma attempts_counted:
  "within_budget s \<Longrightarrow> unat (rt_attempt (snd (run_reactive decision_after s fs))) =
     unat (rt_attempt s)
     + length (filter (\<lambda>(f, d). spends f d) (zip fs (fst (run_reactive decision_after s fs))))"
proof (induction fs arbitrary: s)
  case (Cons f fs)
  then show ?case
    using decision_after_spends [OF Cons.prems, of f] Cons.IH [of "snd (decision_after s f)"] by simp
qed simp

lemma initial_within_budget:
  "rr_replay policy \<noteq> ReplayExact \<Longrightarrow> 1 \<le> rr_max_attempts policy \<Longrightarrow> within_budget (initial_state policy)"
  by (simp add: within_budget_def initial_state_def state_at_def state_at_with_connections_def)

lemma RequestRetry_new_budget [simp]:
  "1 \<le> rr_max_attempts (for_replay (RequestRetry_new n jitter) replay)"
  "rr_replay (for_replay (RequestRetry_new n jitter) replay) = replay"
  by (simp_all add: for_replay_def RequestRetry_new_def)

text \<open>
  A request that does not replay exactly is sent at most as often as its policy allows: along any
  sequence of failures, the failures after which it is sent again although the server was or may have
  been reached number less than the maximum of attempts, and the state counts them exactly.
\<close>

theorem retry_budget_respected:
  assumes "policy = for_replay (RequestRetry_new n jitter) replay" and "replay \<noteq> ReplayExact"
    and "run_reactive decision_after (initial_state policy) failures = (decisions, s)"
  shows "length (filter (\<lambda>(f, d). spends f d) (zip failures decisions)) < max (unat n) 1
    \<and> unat (rt_attempt s) = 1 + length (filter (\<lambda>(f, d). spends f d) (zip failures decisions))"
proof -
  have i: "within_budget (initial_state policy)" using assms(1,2) by (simp add: initial_within_budget)
  have p: "rt_policy s = policy"
  proof -
    have "rt_policy (snd (run_reactive decision_after t failures)) = rt_policy t" for t
      by (induction failures arbitrary: t) simp_all
    from this [of "initial_state policy"] assms(3) show ?thesis
      by (simp add: initial_state_def state_at_def state_at_with_connections_def)
  qed
  have c: "unat (rt_attempt s) = 1 + length (filter (\<lambda>(f, d). spends f d) (zip failures decisions))"
    using attempts_counted [OF i, of failures] assms(1,3)
    by (simp add: initial_state_def state_at_def state_at_with_connections_def for_replay_def
        RequestRetry_new_def)
  have "unat (rt_attempt s) \<le> unat (max n 1)"
    using retry.run_reactive_inv [OF i, of failures] assms(1,3) p
    by (simp add: within_budget_def for_replay_def RequestRetry_new_def word_le_nat_alt)
  moreover have "unat (max n 1) = max (unat n) 1"
    by (auto simp: max_def word_le_nat_alt)
  ultimately show ?thesis using c by linarith
qed

section \<open>The loop returns\<close>

text \<open>The turns at which the server could not be reached, from turn \<open>k\<close> on.\<close>

definition unreachable_turns :: "'a request_environment \<Rightarrow> nat set" where
  "unreachable_turns env =
     {k. \<exists>a f. re_operation env k a = Inl f \<and> wait_for_connection f}"

lemma run_loop_returns:
  assumes "finite (unreachable_turns env)" and "within_budget s"
    and "unat (rr_max_attempts (rt_policy s)) - unat (rt_attempt s) + card (unreachable_turns env \<inter> {k..}) < fuel"
  shows "\<exists>r. run_loop env fuel k s = Some r"
  using assms(2,3)
proof (induction fuel arbitrary: k s)
  case (Suc fuel)
  let ?op = "re_operation env k (rt_attempt s)" and ?max = "unat (rr_max_attempts (rt_policy s))"
  show ?case
  proof (cases "\<exists>f d s'. ?op = Inl f \<and> decision_after s f = (d, s') \<and> resend_delay d \<noteq> None")
    case False
    then show ?thesis
      by (cases ?op) (auto simp: Let_def resend_delay_def split: sum.splits prod.splits retry_decision.splits)
  next
    case True
    then obtain f d s' where op: "?op = Inl f" and d: "decision_after s f = (d, s')"
      and resend: "resend_delay d \<noteq> None" by blast
    have s': "within_budget s'" "unat (rt_attempt s') = unat (rt_attempt s) + (if spends f d then 1 else 0)"
        "rt_policy s' = rt_policy s"
      using decision_after_spends [OF Suc.prems(1), of f] decision_after_policy [of s f] d by simp_all
    have le: "unat (rt_attempt s') \<le> ?max" using s' by (simp add: within_budget_def word_le_nat_alt)
    have "?max - unat (rt_attempt s') + card (unreachable_turns env \<inter> {Suc k..}) < fuel"
    proof (cases "wait_for_connection f")
      case True
      then have "k \<in> unreachable_turns env" using op by (auto simp: unreachable_turns_def)
      then have "unreachable_turns env \<inter> {k..} = insert k (unreachable_turns env \<inter> {Suc k..})"
        by (auto simp: le_less Suc_le_eq)
      with True Suc.prems s' assms(1) show ?thesis by (simp add: spends_def)
    next
      case False
      then have "unat (rt_attempt s') = unat (rt_attempt s) + 1" using s' resend by (simp add: spends_def)
      moreover have "card (unreachable_turns env \<inter> {Suc k..}) \<le> card (unreachable_turns env \<inter> {k..})"
        using assms(1) by (intro card_mono) auto
      ultimately show ?thesis using Suc.prems(2) le s'(3) by simp
    qed
    with Suc.IH [OF s'(1), of "Suc k"] s'(3) op d resend show ?thesis
      by (cases d) (auto simp: Let_def split: sum.splits)
  qed
qed simp



end
