(* ===== verification/Storage_Keys.thy ===== *)
theory Storage_Keys
  imports Machines
begin

text \<open>
  \<^verbatim>\<open>crates/winwincode-storage/src/lib.rs\<close>, first part: the errors of the control plane's storage, the actors and
  scopes of a command, and the keys under which command receipts are stored. A key is a
  sequence of fields, each preceded by its length as eight big-endian bytes.
\<close>

section \<open>Errors\<close>

datatype storage_error_kind =
    InvalidInput | RevisionConflict | RequestConflict | RequestReplayMissing | JournalAlreadyExists
  | JournalNotFound | JournalConflict | EventCursorExpired | Adapter | Closed

text \<open>The driver's own failures; their text is the driver's, so the cause is kept instead.\<close>

datatype storage_cause = UniqueConstraint string | SequenceFull | JsonFailure string

datatype storage_message = MessageText string | CauseText storage_cause

record storage_error =
  se_kind :: storage_error_kind
  se_message :: storage_message
  se_state_guard_conflict :: bool

definition storage_failure :: "storage_error_kind \<Rightarrow> string \<Rightarrow> storage_error" where
  "storage_failure kind message =
     \<lparr>se_kind = kind, se_message = MessageText message, se_state_guard_conflict = False\<rparr>"

definition storage_invalid :: "string \<Rightarrow> storage_error" where
  "storage_invalid message = storage_failure InvalidInput message"

definition storage_adapter :: "string \<Rightarrow> storage_error" where
  "storage_adapter message = storage_failure Adapter message"

definition storage_sql_error :: "storage_cause \<Rightarrow> storage_error" where
  "storage_sql_error cause =
     \<lparr>se_kind = Adapter, se_message = CauseText cause, se_state_guard_conflict = False\<rparr>"

lemma storage_failure_kind [simp]:
  "se_kind (storage_failure k m) = k" "se_kind (storage_invalid m) = InvalidInput"
  "se_kind (storage_adapter m) = Adapter" "se_kind (storage_sql_error c) = Adapter"
  by (simp_all add: storage_failure_def storage_invalid_def storage_adapter_def storage_sql_error_def)

section \<open>Identifiers\<close>

definition is_crockford_base32 :: "char \<Rightarrow> bool" where
  "is_crockford_base32 c \<longleftrightarrow> 48 \<le> byte c \<and> byte c \<le> 57 \<or> 65 \<le> byte c \<and> byte c \<le> 72
     \<or> byte c = 74 \<or> byte c = 75 \<or> byte c = 77 \<or> byte c = 78
     \<or> 80 \<le> byte c \<and> byte c \<le> 84 \<or> 86 \<le> byte c \<and> byte c \<le> 90"

definition require_canonical_public_id :: "string \<Rightarrow> string \<Rightarrow> string \<Rightarrow> storage_error + unit" where
  "require_canonical_public_id s prefix label =
     (case strip_prefix prefix s of
        None \<Rightarrow> Inl (storage_invalid (label @ '' is not canonical''))
      | Some suffix \<Rightarrow>
          ensure (\<not> (length suffix \<noteq> 26 \<or> \<not> list_all is_crockford_base32 suffix))
            (storage_invalid (label @ '' is not canonical'')))"

definition canonical_public_id :: "string \<Rightarrow> string \<Rightarrow> bool" where
  "canonical_public_id prefix s \<longleftrightarrow>
     (\<exists>suffix. s = prefix @ suffix \<and> length suffix = 26 \<and> list_all is_crockford_base32 suffix)"

lemma require_canonical_iff [result_simps]:
  "require_canonical_public_id s prefix label = Inr u \<longleftrightarrow> canonical_public_id prefix s"
proof (cases "strip_prefix prefix s")
  case None
  then have "s \<noteq> prefix @ r" for r using strip_prefix_Some_iff [of prefix s r] by simp
  with None show ?thesis by (simp add: require_canonical_public_id_def canonical_public_id_def)
next
  case (Some suffix)
  then have "s = prefix @ suffix" by (simp add: strip_prefix_Some_iff)
  then show ?thesis
    unfolding require_canonical_public_id_def Some
    by (auto simp: canonical_public_id_def result_simps)
qed

section \<open>Actors and scopes\<close>

datatype public_event_actor = User string | ServiceAccount string | System string

datatype public_event_scope =
    Organization string
  | Workspace string string
  | Project string string string
  | Repository string string string string

definition ACTOR_KEY_PREFIX :: string where
  "ACTOR_KEY_PREFIX = ''winwincode.command-receipt.actor.v1''"

definition SCOPE_KEY_PREFIX :: string where
  "SCOPE_KEY_PREFIX = ''winwincode.command-receipt.scope.v1''"

type_synonym actor_key_bytes = string
type_synonym scope_key_bytes = string

definition actor_key_from_encoded :: "string \<Rightarrow> storage_error + actor_key_bytes" where
  "actor_key_from_encoded encoded =
     (if encoded = [] then Inl (storage_invalid ''receipt actor key must not be empty'') else Inr encoded)"

definition scope_key_from_encoded :: "string \<Rightarrow> storage_error + scope_key_bytes" where
  "scope_key_from_encoded encoded =
     (if encoded = [] then Inl (storage_invalid ''receipt scope key must not be empty'') else Inr encoded)"

section \<open>Key fields\<close>

text \<open>\<^verbatim>\<open>u64::to_be_bytes\<close> and \<^verbatim>\<open>u64::from_be_bytes\<close>.\<close>

fun be_bytes :: "nat \<Rightarrow> nat \<Rightarrow> string" where
  "be_bytes 0 n = []"
| "be_bytes (Suc k) n = be_bytes k (n div 256) @ [char_of (n mod 256)]"

definition from_be_bytes :: "string \<Rightarrow> nat" where
  "from_be_bytes bs = foldl (\<lambda>acc c. 256 * acc + byte c) 0 bs"

definition append_public_key_field :: "string \<Rightarrow> string \<Rightarrow> string" where
  "append_public_key_field encoded v = encoded @ be_bytes 8 (length v) @ v"

definition encode_public_key :: "string \<Rightarrow> string \<Rightarrow> string list \<Rightarrow> string" where
  "encode_public_key prefix tag vs =
     foldl append_public_key_field (append_public_key_field (append_public_key_field [] prefix) tag) vs"

text \<open>\<^verbatim>\<open>encoded.get(a..b)\<close>. An offset is a \<^verbatim>\<open>usize\<close> of 64 bits.\<close>

definition get_slice :: "string \<Rightarrow> nat \<Rightarrow> nat \<Rightarrow> string option" where
  "get_slice xs a b = (if a \<le> b \<and> b \<le> length xs then Some (take (b - a) (drop a xs)) else None)"

definition decode_public_key_field :: "string \<Rightarrow> nat \<Rightarrow> storage_error + string \<times> nat" where
  "decode_public_key_field encoded offset =
     rbind (ok_or (get_slice encoded offset (min (offset + 8) (2 ^ 64 - 1)))
       (storage_invalid ''receipt key field is truncated'')) (\<lambda>len_bytes.
     rbind (ensure (length len_bytes = 8) (storage_invalid ''receipt key length is invalid'')) (\<lambda>_.
     let len = from_be_bytes len_bytes
     in rbind (ensure (offset + 8 < 2 ^ 64) (storage_invalid ''receipt key offset overflow'')) (\<lambda>_.
     let offset = offset + 8
     in rbind (ensure (offset + len < 2 ^ 64) (storage_invalid ''receipt key field overflows'')) (\<lambda>_.
     rbind (ok_or (get_slice encoded offset (offset + len))
       (storage_invalid ''receipt key field is truncated'')) (\<lambda>field.
     Inr (field, offset + len))))))"

text \<open>\<^verbatim>\<open>String::from_utf8\<close> accepts exactly the well-formed byte sequences.\<close>

definition cont :: "nat \<Rightarrow> nat \<Rightarrow> char \<Rightarrow> bool" where
  "cont lo hi c \<longleftrightarrow> lo \<le> byte c \<and> byte c \<le> hi"

fun utf8_ok :: "string \<Rightarrow> bool" where
  "utf8_ok [] = True"
| "utf8_ok (a # rest) =
     (if byte a < 128 then utf8_ok rest
      else if cont 194 223 a
      then (case rest of b # r \<Rightarrow> cont 128 191 b \<and> utf8_ok r | _ \<Rightarrow> False)
      else if cont 224 239 a
      then (case rest of
              b # c # r \<Rightarrow>
                cont (if byte a = 224 then 160 else 128) (if byte a = 237 then 159 else 191) b
                \<and> cont 128 191 c \<and> utf8_ok r
            | _ \<Rightarrow> False)
      else if cont 240 244 a
      then (case rest of
              b # c # d # r \<Rightarrow>
                cont (if byte a = 240 then 144 else 128) (if byte a = 244 then 143 else 191) b
                \<and> cont 128 191 c \<and> cont 128 191 d \<and> utf8_ok r
            | _ \<Rightarrow> False)
      else False)"

definition from_utf8 :: "string \<Rightarrow> string \<Rightarrow> storage_error + string" where
  "from_utf8 message bs = (if utf8_ok bs then Inr bs else Inl (storage_invalid message))"

section \<open>Receipt keys\<close>

fun actor_parts :: "public_event_actor \<Rightarrow> string \<times> string \<times> string" where
  "actor_parts (User i) = (''user'', i, ''usr_'')"
| "actor_parts (ServiceAccount i) = (''service_account'', i, ''svc_'')"
| "actor_parts (System i) = (''system'', i, ''sys_'')"

definition receipt_actor_key :: "public_event_actor \<Rightarrow> storage_error + actor_key_bytes" where
  "receipt_actor_key actor =
     (case actor_parts actor of (tag, i, prefix) \<Rightarrow>
        rbind (require_canonical_public_id i prefix ''actor id'') (\<lambda>_.
        actor_key_from_encoded (encode_public_key ACTOR_KEY_PREFIX tag [i])))"

definition public_actor_from_receipt_key :: "actor_key_bytes \<Rightarrow> storage_error + public_event_actor" where
  "public_actor_from_receipt_key key =
     rbind (decode_public_key_field key 0) (\<lambda>(prefix, offset).
     rbind (decode_public_key_field key offset) (\<lambda>(tag, offset).
     rbind (decode_public_key_field key offset) (\<lambda>(i, offset).
     if offset \<noteq> length key \<or> prefix \<noteq> ACTOR_KEY_PREFIX
     then Inl (storage_invalid ''receipt actor key is not a canonical public actor'')
     else
       rbind (from_utf8 ''receipt actor id is not UTF-8'' i) (\<lambda>i.
       if tag = ''user'' then
         rbind (require_canonical_public_id i ''usr_'' ''actor id'') (\<lambda>_. Inr (User i))
       else if tag = ''service_account'' then
         rbind (require_canonical_public_id i ''svc_'' ''actor id'') (\<lambda>_. Inr (ServiceAccount i))
       else if tag = ''system'' then
         rbind (require_canonical_public_id i ''sys_'' ''actor id'') (\<lambda>_. Inr (System i))
       else Inl (storage_invalid ''receipt actor key has an unknown public actor kind'')))))"

text \<open>The tag of a scope and its identifiers with the prefix and the label each is checked under.\<close>

fun scope_parts :: "public_event_scope \<Rightarrow> string \<times> (string \<times> string \<times> string) list" where
  "scope_parts (Organization ogn) = (''organization'', [(ogn, ''org_'', ''organizationId'')])"
| "scope_parts (Workspace ogn w) =
     (''workspace'', [(ogn, ''org_'', ''organizationId''), (w, ''wsp_'', ''workspaceId'')])"
| "scope_parts (Project ogn w p) =
     (''project'', [(ogn, ''org_'', ''organizationId''), (w, ''wsp_'', ''workspaceId''),
       (p, ''prj_'', ''projectId'')])"
| "scope_parts (Repository ogn w p r) =
     (''repository'', [(ogn, ''org_'', ''organizationId''), (w, ''wsp_'', ''workspaceId''),
       (p, ''prj_'', ''projectId''), (r, ''rep_'', ''repositoryId'')])"

definition receipt_scope_key :: "public_event_scope \<Rightarrow> storage_error + scope_key_bytes" where
  "receipt_scope_key scope =
     (case scope_parts scope of (tag, parts) \<Rightarrow>
        rbind (check_all (map (\<lambda>(i, prefix, label). require_canonical_public_id i prefix label) parts)) (\<lambda>_.
        scope_key_from_encoded (encode_public_key SCOPE_KEY_PREFIX tag (map fst parts))))"

definition repository_scope_from_receipt_key :: "scope_key_bytes \<Rightarrow> storage_error + public_event_scope" where
  "repository_scope_from_receipt_key key =
     rbind (decode_public_key_field key 0) (\<lambda>(prefix, offset).
     rbind (decode_public_key_field key offset) (\<lambda>(tag, offset).
     rbind (decode_public_key_field key offset) (\<lambda>(organization_id, offset).
     rbind (decode_public_key_field key offset) (\<lambda>(workspace_id, offset).
     rbind (decode_public_key_field key offset) (\<lambda>(project_id, offset).
     rbind (decode_public_key_field key offset) (\<lambda>(repository_id, offset).
     if offset \<noteq> length key \<or> prefix \<noteq> SCOPE_KEY_PREFIX \<or> tag \<noteq> ''repository''
     then Inl (storage_invalid ''receipt scope key is not a canonical repository scope'')
     else
       rbind (from_utf8 ''repository organizationId is not UTF-8'' organization_id) (\<lambda>organization_id.
       rbind (from_utf8 ''repository workspaceId is not UTF-8'' workspace_id) (\<lambda>workspace_id.
       rbind (from_utf8 ''repository projectId is not UTF-8'' project_id) (\<lambda>project_id.
       rbind (from_utf8 ''repository repositoryId is not UTF-8'' repository_id) (\<lambda>repository_id.
       rbind (check_all
         [require_canonical_public_id organization_id ''org_'' ''organizationId'',
          require_canonical_public_id workspace_id ''wsp_'' ''workspaceId'',
          require_canonical_public_id project_id ''prj_'' ''projectId'',
          require_canonical_public_id repository_id ''rep_'' ''repositoryId'']) (\<lambda>_.
       Inr (Repository organization_id workspace_id project_id repository_id))))))))))))"

record receipt_identity =
  ri_actor_key :: actor_key_bytes
  ri_scope_key :: scope_key_bytes
  ri_request_id :: string

definition ReceiptIdentity_new ::
    "actor_key_bytes \<Rightarrow> scope_key_bytes \<Rightarrow> string \<Rightarrow> storage_error + receipt_identity" where
  "ReceiptIdentity_new actor_key scope_key request_id =
     (if request_id = [] then Inl (storage_invalid ''request_id must not be empty'')
      else Inr \<lparr>ri_actor_key = actor_key, ri_scope_key = scope_key, ri_request_id = request_id\<rparr>)"

definition public_receipt_identity ::
    "public_event_actor \<Rightarrow> public_event_scope \<Rightarrow> string \<Rightarrow> storage_error + receipt_identity" where
  "public_receipt_identity actor scope request_id =
     rbind (require_canonical_public_id request_id ''req_'' ''requestId'') (\<lambda>_.
     rbind (receipt_actor_key actor) (\<lambda>actor_key.
     rbind (receipt_scope_key scope) (\<lambda>scope_key.
     ReceiptIdentity_new actor_key scope_key request_id)))"

section \<open>Fields read back\<close>

lemma length_be_bytes [simp]: "length (be_bytes k n) = k"
  by (induction k arbitrary: n) simp_all

lemma from_be_bytes_snoc: "from_be_bytes (bs @ [c]) = 256 * from_be_bytes bs + byte c"
  by (simp add: from_be_bytes_def)

lemma from_be_bytes_be_bytes: "n < 256 ^ k \<Longrightarrow> from_be_bytes (be_bytes k n) = n"
proof (induction k arbitrary: n)
  case 0
  then show ?case by (simp add: from_be_bytes_def)
next
  case (Suc k)
  then have "n div 256 < 256 ^ k" by (simp add: less_mult_imp_div_less mult.commute)
  with Suc.IH show ?case by (simp add: from_be_bytes_snoc byte_def)
qed

definition key_field :: "string \<Rightarrow> string" where
  "key_field v = be_bytes 8 (length v) @ v"

lemma length_key_field [simp]: "length (key_field v) = 8 + length v"
  by (simp add: key_field_def)

lemma key_field_not_Nil [simp]: "key_field v \<noteq> []"
  using length_key_field [of v] by (metis add_is_0 list.size(3) zero_neq_numeral)

lemma encode_public_key_fields: "encode_public_key p t vs = concat (map key_field (p # t # vs))"
proof -
  have "foldl append_public_key_field e xs = e @ concat (map key_field xs)" for e xs
    by (induction xs arbitrary: e) (simp_all add: append_public_key_field_def key_field_def)
  then show ?thesis by (simp add: encode_public_key_def append_public_key_field_def key_field_def)
qed

lemma decode_field_at:
  assumes "off = length pre" and "length pre + 8 + length v < 2 ^ 64"
  shows "decode_public_key_field (pre @ key_field v @ rest) off = Inr (v, length pre + 8 + length v)"
proof -
  have "get_slice (pre @ key_field v @ rest) (length pre) (length pre + 8) = Some (be_bytes 8 (length v))"
    "get_slice (pre @ key_field v @ rest) (length pre + 8) (length pre + 8 + length v) = Some v"
    by (simp_all add: get_slice_def key_field_def)
  moreover have "length v < 256 ^ 8" using assms(2) by simp
  ultimately show ?thesis
    using assms(2) unfolding assms(1) by (simp add: decode_public_key_field_def min_def from_be_bytes_be_bytes)
qed

lemma key_fields_inject:
  "\<lbrakk>concat (map key_field xs) = concat (map key_field ys);
    \<forall>v \<in> set xs \<union> set ys. length v < 256 ^ 8\<rbrakk> \<Longrightarrow> xs = ys"
proof (induction xs arbitrary: ys)
  case Nil
  then show ?case by (cases ys) simp_all
next
  case (Cons x xs)
  then obtain y zs where ys: "ys = y # zs" by (cases ys) simp_all
  from Cons.prems(1) have eq: "be_bytes 8 (length x) @ x @ concat (map key_field xs) =
      be_bytes 8 (length y) @ y @ concat (map key_field zs)" by (simp add: ys key_field_def [of x] key_field_def [of y])
  then have "be_bytes 8 (length x) = be_bytes 8 (length y)"
    by (subst (asm) append_eq_append_conv) simp_all
  then have "from_be_bytes (be_bytes 8 (length x)) = from_be_bytes (be_bytes 8 (length y))" by (rule arg_cong)
  moreover have "length x < 256 ^ 8" "length y < 256 ^ 8" using Cons.prems(2) by (simp_all add: ys)
  ultimately have "length x = length y" by (simp only: from_be_bytes_be_bytes)
  with eq have "x = y" "concat (map key_field xs) = concat (map key_field zs)" by simp_all
  with Cons.IH [of zs] Cons.prems(2) show ?case by (simp add: ys)
qed

lemma utf8_ok_ascii: "list_all (\<lambda>c. byte c < 128) bs \<Longrightarrow> utf8_ok bs"
  by (induction bs) simp_all

lemma canonical_public_id_facts:
  assumes "canonical_public_id prefix s" and "list_all (\<lambda>c. byte c < 128) prefix"
  shows "length s = length prefix + 26" "utf8_ok s"
proof -
  from assms(1) obtain suffix where s: "s = prefix @ suffix" "length suffix = 26"
      "list_all is_crockford_base32 suffix" by (auto simp: canonical_public_id_def)
  then show "length s = length prefix + 26" by simp
  have "list_all (\<lambda>c. byte c < 128) suffix"
    using s(3) by (auto simp: list_all_iff is_crockford_base32_def)
  then show "utf8_ok s" using assms(2) s(1) by (simp add: utf8_ok_ascii)
qed

text \<open>The prefixes in use are four ASCII characters.\<close>

definition id_prefix :: "string \<Rightarrow> bool" where
  "id_prefix p \<longleftrightarrow> length p = 4 \<and> list_all (\<lambda>c. byte c < 128) p"

lemma id_prefixes [simp]:
  "id_prefix ''usr_''" "id_prefix ''svc_''" "id_prefix ''sys_''" "id_prefix ''org_''" "id_prefix ''wsp_''"
  "id_prefix ''prj_''" "id_prefix ''rep_''"
  by (simp_all add: id_prefix_def byte_def)

lemma canonical_public_id_length:
  "canonical_public_id p s \<Longrightarrow> id_prefix p \<Longrightarrow> length s = 30"
  "canonical_public_id p s \<Longrightarrow> id_prefix p \<Longrightarrow> utf8_ok s"
  using canonical_public_id_facts by (auto simp: id_prefix_def)

lemma key_prefix_lengths [simp]: "length ACTOR_KEY_PREFIX = 35" "length SCOPE_KEY_PREFIX = 35"
  by (simp_all add: ACTOR_KEY_PREFIX_def SCOPE_KEY_PREFIX_def)

text \<open>Reading the fields of a key one after the other.\<close>

lemma decode_next_field:
  assumes "key = concat (map key_field (vs @ v # ws))" and "off = length (concat (map key_field vs))"
    and "off + 8 + length v < 2 ^ 64"
  shows "decode_public_key_field key off = Inr (v, length (concat (map key_field (vs @ [v]))))"
  using decode_field_at [OF assms(2), of v "concat (map key_field ws)"] assms by simp

lemma receipt_actor_key_fields:
  assumes "receipt_actor_key actor = Inr k" and "actor_parts actor = (tag, i, prefix)"
  shows "canonical_public_id prefix i \<and> k = concat (map key_field [ACTOR_KEY_PREFIX, tag, i])"
  using assms
  by (auto simp: receipt_actor_key_def actor_key_from_encoded_def encode_public_key_fields result_simps
      split: if_splits)

lemma receipt_scope_key_fields:
  assumes "receipt_scope_key scope = Inr k" and "scope_parts scope = (tag, parts)"
  shows "(\<forall>(i, prefix, label) \<in> set parts. canonical_public_id prefix i)
    \<and> k = concat (map key_field (SCOPE_KEY_PREFIX # tag # map fst parts))"
  using assms
  by (auto simp: receipt_scope_key_def scope_key_from_encoded_def encode_public_key_fields result_simps
      split: if_splits)

lemma receipt_actor_key_read:
  assumes "receipt_actor_key actor = Inr k"
  shows "public_actor_from_receipt_key k = Inr actor"
proof -
  obtain tag i p where parts: "actor_parts actor = (tag, i, p)" by (cases "actor_parts actor")
  let ?P = ACTOR_KEY_PREFIX
  from receipt_actor_key_fields [OF assms parts] have can: "canonical_public_id p i"
    and k: "k = concat (map key_field [?P, tag, i])" by simp_all
  have p: "id_prefix p" and t: "length tag \<le> 15" using parts by (cases actor; auto)+
  note len = canonical_public_id_length [OF can p]
  have "decode_public_key_field k 0 = Inr (?P, 43)"
    "decode_public_key_field k 43 = Inr (tag, 51 + length tag)"
    "decode_public_key_field k (51 + length tag) = Inr (i, length k)"
    using decode_next_field [of k "[]" ?P "[tag, i]" 0] decode_next_field [of k "[?P]" tag "[i]" 43]
      decode_next_field [of k "[?P, tag]" i "[]" "51 + length tag"] t len by (simp_all add: k)
  then show ?thesis
    using can parts len
    by (cases actor) (auto simp: public_actor_from_receipt_key_def from_utf8_def result_simps)
qed

lemma repository_scope_key_read:
  assumes "receipt_scope_key (Repository g w p r) = Inr k"
  shows "repository_scope_from_receipt_key k = Inr (Repository g w p r)"
proof -
  let ?P = SCOPE_KEY_PREFIX and ?t = "''repository''"
  from receipt_scope_key_fields [OF assms scope_parts.simps(4)]
  have can: "canonical_public_id ''org_'' g" "canonical_public_id ''wsp_'' w" "canonical_public_id ''prj_'' p"
      "canonical_public_id ''rep_'' r"
    and k: "k = concat (map key_field [?P, ?t, g, w, p, r])" by simp_all
  note len = can [THEN canonical_public_id_length(1), simplified] can [THEN canonical_public_id_length(2), simplified]
  have "decode_public_key_field k 0 = Inr (?P, 43)" "decode_public_key_field k 43 = Inr (?t, 61)"
    "decode_public_key_field k 61 = Inr (g, 99)" "decode_public_key_field k 99 = Inr (w, 137)"
    "decode_public_key_field k 137 = Inr (p, 175)" "decode_public_key_field k 175 = Inr (r, 213)"
    "length k = 213"
    using decode_next_field [of k "[]" ?P "[?t, g, w, p, r]" 0] decode_next_field [of k "[?P]" ?t "[g, w, p, r]" 43]
      decode_next_field [of k "[?P, ?t]" g "[w, p, r]" 61] decode_next_field [of k "[?P, ?t, g]" w "[p, r]" 99]
      decode_next_field [of k "[?P, ?t, g, w]" p "[r]" 137] decode_next_field [of k "[?P, ?t, g, w, p]" r "[]" 175]
      len by (simp_all add: k)
  then show ?thesis
    using can len by (simp add: repository_scope_from_receipt_key_def from_utf8_def result_simps)
qed

lemma receipt_scope_key_inject:
  assumes "receipt_scope_key a = Inr k" and "receipt_scope_key b = Inr k"
  shows "a = b"
proof -
  obtain t ps u qs where a: "scope_parts a = (t, ps)" and b: "scope_parts b = (u, qs)" by fastforce
  note fa = receipt_scope_key_fields [OF assms(1) a] and fb = receipt_scope_key_fields [OF assms(2) b]
  have short: "\<forall>v \<in> set (SCOPE_KEY_PREFIX # tag # map fst parts). length v < 256 ^ 8"
    if "scope_parts c = (tag, parts)" and "\<forall>(i, prefix, label) \<in> set parts. canonical_public_id prefix i"
    for c tag parts
    using that canonical_public_id_length(1) by (cases c) auto
  have "SCOPE_KEY_PREFIX # t # map fst ps = SCOPE_KEY_PREFIX # u # map fst qs"
    using fa fb short [OF a] short [OF b] by (intro key_fields_inject) auto
  then show ?thesis using a b by (cases a; cases b) auto
qed

text \<open>
  Receipt keys name exactly one actor and one scope. The key of an actor reads back as that
  actor, the key of a repository scope reads back as that scope, and two scopes with the same key
  are the same scope: no command can find the receipt of another actor or scope.
\<close>

theorem receipt_keys_faithful:
  "(receipt_actor_key actor = Inr ak \<longrightarrow> public_actor_from_receipt_key ak = Inr actor)
   \<and> (receipt_scope_key (Repository g w p r) = Inr sk \<longrightarrow>
        repository_scope_from_receipt_key sk = Inr (Repository g w p r))
   \<and> (receipt_scope_key scope = Inr k \<and> receipt_scope_key scope' = Inr k \<longrightarrow> scope = scope')"
  using receipt_actor_key_read repository_scope_key_read receipt_scope_key_inject by blast

end
