(* ===== verification/Storage_Events.thy ===== *)
theory Storage_Events
  imports Storage_Keys Sql_Table
begin

text \<open>
  \<^verbatim>\<open>crates/winwincode-storage/src/lib.rs\<close>, second part: the projection streams and public contexts of outbox
  events, the aggregate journal, and the state commit with the validation it passes before any
  statement runs.
\<close>

section \<open>Streams\<close>

datatype projection_event_stream =
    ScopeStream
  | DeliveryStream string
  | ProductSessionStream string
  | LeaseStream string string

fun stream_kind :: "projection_event_stream \<Rightarrow> string" where
  "stream_kind ScopeStream = ''scope''"
| "stream_kind (DeliveryStream _) = ''delivery''"
| "stream_kind (ProductSessionStream _) = ''product-session''"
| "stream_kind (LeaseStream _ _) = ''lease''"

fun stream_resource_id :: "projection_event_stream \<Rightarrow> string" where
  "stream_resource_id ScopeStream = []"
| "stream_resource_id (DeliveryStream d) = d"
| "stream_resource_id (ProductSessionStream s) = s"
| "stream_resource_id (LeaseStream w l) = w @ ''/'' @ l"

definition event_key_byte :: "string \<Rightarrow> char \<Rightarrow> bool" where
  "event_key_byte extra c \<longleftrightarrow> is_ascii_alphanumeric c \<or> c \<in> set extra"

definition portable_event_key :: "string \<Rightarrow> bool" where
  "portable_event_key s = list_all (event_key_byte ''._:@-'') s"

definition canonical_control_plane_event_id :: "string \<Rightarrow> bool" where
  "canonical_control_plane_event_id s =
     (case strip_prefix ''evt_'' s of
        None \<Rightarrow> False
      | Some suffix \<Rightarrow> 16 \<le> length suffix \<and> length suffix \<le> 128 \<and> list_all (event_key_byte ''_-'') suffix)"

text \<open>\<^verbatim>\<open>is_canonical_delivery_id\<close> of the domain crate has the alphabet of public identifiers.\<close>

fun stream_identity_ok :: "projection_event_stream \<Rightarrow> bool" where
  "stream_identity_ok ScopeStream = True"
| "stream_identity_ok (DeliveryStream d) = is_ok (require_canonical_public_id d ''dlv_'' [])"
| "stream_identity_ok (ProductSessionStream s) = (s \<noteq> [] \<and> length s \<le> 200 \<and> portable_event_key s)"
| "stream_identity_ok (LeaseStream w l) =
     (is_ok (require_canonical_public_id w ''wrk_'' ''lease stream workerId'')
      \<and> is_ok (require_canonical_public_id l ''lse_'' ''lease stream leaseId''))"

definition validate_stream :: "projection_event_stream \<Rightarrow> storage_error + unit" where
  "validate_stream stream =
     ensure (stream_identity_ok stream)
       (storage_invalid (stream_kind stream @ '' event stream identity is invalid''))"

text \<open>\<^verbatim>\<open>split_once('/')\<close>\<close>

definition split_once :: "char \<Rightarrow> string \<Rightarrow> (string \<times> string) option" where
  "split_once sep s =
     (case dropWhile (\<lambda>c. c \<noteq> sep) s of [] \<Rightarrow> None | _ # rest \<Rightarrow> Some (takeWhile (\<lambda>c. c \<noteq> sep) s, rest))"

definition lease_stream_from_stored :: "string \<Rightarrow> storage_error + projection_event_stream" where
  "lease_stream_from_stored resource_id =
     (case split_once (CHR ''/'') resource_id of
        None \<Rightarrow> Inl (storage_adapter ''stored lease event stream identity is invalid'')
      | Some (worker_id, lease_id) \<Rightarrow>
          if CHR ''/'' \<in> set lease_id
          then Inl (storage_adapter ''stored lease event stream identity is invalid'')
          else Inr (LeaseStream worker_id lease_id))"

definition stream_from_stored :: "string \<Rightarrow> string \<Rightarrow> storage_error + projection_event_stream" where
  "stream_from_stored kind resource_id =
     rbind (if kind = ''scope'' \<and> resource_id = [] then Inr ScopeStream
            else if kind = ''delivery'' then Inr (DeliveryStream resource_id)
            else if kind = ''product-session'' then Inr (ProductSessionStream resource_id)
            else if kind = ''lease'' then lease_stream_from_stored resource_id
            else Inl (storage_adapter ''stored event stream kind is invalid'')) (\<lambda>stream.
     rbind (validate_stream stream) (\<lambda>_. Inr stream))"

section \<open>Public contexts\<close>

record session_identity =
  si_codex_thread_id :: string
  si_product_session_id :: string
  si_worker_session_id :: string
  si_work_run_id :: "string option"

datatype public_event_source =
    ControlPlane public_event_actor string
  | ExecutionWorker string string string string
  | SessionExecutionWorker string string string string session_identity

record public_projection_event_context =
  pc_scope :: public_event_scope
  pc_stream :: projection_event_stream
  pc_occurred_at :: string
  pc_source :: public_event_source

definition time_punctuation :: "(nat \<times> char) list" where
  "time_punctuation = [(4, CHR ''-''), (7, CHR ''-''), (10, CHR ''T''), (13, CHR '':''), (16, CHR '':''),
     (19, CHR ''.'')]"

definition validate_public_event_time :: "string \<Rightarrow> storage_error + unit" where
  "validate_public_event_time s =
     ensure (\<not> (length s \<noteq> 24 \<or> s ! 23 \<noteq> CHR ''Z''
         \<or> list_ex (\<lambda>(i, c). s ! i \<noteq> c) time_punctuation
         \<or> list_ex (\<lambda>i. i \<notin> fst ` set time_punctuation \<and> i \<noteq> 23 \<and> \<not> is_ascii_digit (s ! i)) [0 ..< length s]))
       (storage_invalid ''public event occurredAt is invalid'')"

text \<open>\<^verbatim>\<open>trim().is_empty()\<close>: every scalar value of the string has the property White\_Space.\<close>

fun blank :: "string \<Rightarrow> bool" where
  "blank [] = True"
| "blank (a # rest) =
     (if 9 \<le> byte a \<and> byte a \<le> 13 \<or> byte a = 32 then blank rest
      else case rest of
             b # r \<Rightarrow>
               if byte a = 194 \<and> (byte b = 133 \<or> byte b = 160) then blank r
               else (case r of
                       c # q \<Rightarrow>
                         if byte a = 225 \<and> byte b = 154 \<and> byte c = 128
                            \<or> byte a = 226 \<and> byte b = 128
                              \<and> (128 \<le> byte c \<and> byte c \<le> 138 \<or> byte c = 168 \<or> byte c = 169 \<or> byte c = 175)
                            \<or> byte a = 226 \<and> byte b = 129 \<and> byte c = 159
                            \<or> byte a = 227 \<and> byte b = 128 \<and> byte c = 128
                         then blank q else False
                     | [] \<Rightarrow> False)
           | [] \<Rightarrow> False)"

definition validate_worker_source :: "string \<Rightarrow> string \<Rightarrow> string \<Rightarrow> string \<Rightarrow> (storage_error + unit) list" where
  "validate_worker_source worker_id worker_session_id lease_id codex_thread_id =
     [require_canonical_public_id worker_id ''wrk_'' ''source workerId'',
      require_canonical_public_id worker_session_id ''wsn_'' ''source workerSessionId'',
      require_canonical_public_id lease_id ''lse_'' ''source leaseId'',
      require_canonical_public_id codex_thread_id ''cdx_'' ''source codexThreadId'']"

fun validate_public_source :: "public_event_source \<Rightarrow> storage_error + unit" where
  "validate_public_source (ControlPlane actor component) =
     check_all [ensure (\<not> blank component) (storage_invalid ''public event component is invalid''),
       rbind (receipt_actor_key actor) (\<lambda>_. Inr ())]"
| "validate_public_source (ExecutionWorker w ws l c) = check_all (validate_worker_source w ws l c)"
| "validate_public_source (SessionExecutionWorker w ws l c identity) =
     check_all ([ensure (\<not> (ws \<noteq> si_worker_session_id identity \<or> c \<noteq> si_codex_thread_id identity))
         (storage_invalid ''public Worker source differs from sessionIdentity'')]
       @ validate_worker_source w ws l c
       @ [require_canonical_public_id (si_product_session_id identity) ''psn_'' ''source productSessionId'',
          (case si_work_run_id identity of None \<Rightarrow> Inr ()
           | Some run \<Rightarrow> require_canonical_public_id run ''wrn_'' ''source workRunId'')])"

fun worker_authority :: "public_event_source \<Rightarrow> (string \<times> string) option" where
  "worker_authority (ControlPlane _ _) = None"
| "worker_authority (ExecutionWorker w _ l _) = Some (w, l)"
| "worker_authority (SessionExecutionWorker w _ l _ _) = Some (w, l)"

fun validate_public_stream_source :: "projection_event_stream \<Rightarrow> public_event_source \<Rightarrow> storage_error + unit" where
  "validate_public_stream_source (LeaseStream w l) source =
     (case worker_authority source of
        None \<Rightarrow> Inr ()
      | Some authority \<Rightarrow> ensure (authority = (w, l))
          (storage_invalid ''Lease event stream differs from its Worker source authority''))"
| "validate_public_stream_source _ _ = Inr ()"

section \<open>Events and journals\<close>

record new_outbox_event =
  ne_event_id :: string
  ne_topic :: string
  ne_payload :: string
  ne_projection_stream :: "projection_event_stream option"
  ne_public_context :: "public_projection_event_context option"

definition internal_event :: "string \<Rightarrow> string \<Rightarrow> string \<Rightarrow> new_outbox_event" where
  "internal_event event_id topic payload =
     \<lparr>ne_event_id = event_id, ne_topic = topic, ne_payload = payload, ne_projection_stream = None,
      ne_public_context = None\<rparr>"

definition public_projection_event ::
    "string \<Rightarrow> string \<Rightarrow> string \<Rightarrow> projection_event_stream \<Rightarrow> public_event_scope \<Rightarrow> string \<Rightarrow>
     public_event_source \<Rightarrow> storage_error + new_outbox_event" where
  "public_projection_event event_id topic payload stream scope occurred_at source =
     rbind (check_all
       [validate_stream stream,
        rbind (receipt_scope_key scope) (\<lambda>_. Inr ()),
        validate_public_event_time occurred_at,
        validate_public_source source,
        validate_public_stream_source stream source]) (\<lambda>_.
     Inr \<lparr>ne_event_id = event_id, ne_topic = topic, ne_payload = payload, ne_projection_stream = Some stream,
          ne_public_context = Some \<lparr>pc_scope = scope, pc_stream = stream, pc_occurred_at = occurred_at,
            pc_source = source\<rparr>\<rparr>)"

record aggregate_journal_key =
  jk_aggregate_type :: string
  jk_aggregate_id :: string

record aggregate_journal_record =
  jr_sequence :: u64
  jr_digest :: string
  jr_payload :: string

datatype aggregate_journal_publication =
    JournalCreate aggregate_journal_key string aggregate_journal_record
  | JournalAppend aggregate_journal_key u64 string aggregate_journal_record

definition validate_journal_record :: "aggregate_journal_record \<Rightarrow> storage_error + unit" where
  "validate_journal_record r = check_all
     [ensure (\<not> (jr_sequence r = 0 \<or> jr_sequence r > 2 ^ 63 - 1))
        (storage_invalid ''aggregate journal sequence is outside the SQLite range''),
      ensure (\<not> (jr_digest r = [] \<or> jr_payload r = []))
        (storage_invalid ''aggregate journal digest and payload must not be empty'')]"

fun validate_publication :: "aggregate_journal_publication \<Rightarrow> storage_error + unit" where
  "validate_publication (JournalCreate key manifest first_record) = check_all
     [ensure (manifest \<noteq> []) (storage_invalid ''aggregate journal manifest must not be empty''),
      validate_journal_record first_record,
      ensure (\<not> jr_sequence first_record \<noteq> 1)
        (storage_invalid ''aggregate journal first record sequence must be 1'')]"
| "validate_publication (JournalAppend key expected_tail_sequence expected_tail_digest record) = check_all
     [validate_journal_record record,
      ensure (\<not> (expected_tail_sequence = 0 \<or> expected_tail_digest = []))
        (storage_invalid ''aggregate journal expected tail must be complete''),
      ensure (\<not> jr_sequence record \<noteq> saturating_add expected_tail_sequence 1)
        (storage_invalid ''aggregate journal append sequence must follow the expected tail'')]"

record pending_audit_event =
  pa_event_id :: string
  pa_payload :: string

definition validate_audit_event :: "pending_audit_event \<Rightarrow> storage_error + unit" where
  "validate_audit_event e = check_all
     [ensure (pa_event_id e \<noteq> []) (storage_invalid ''pending audit event_id must not be empty''),
      ensure (pa_payload e \<noteq> []) (storage_invalid ''pending audit event payload must not be empty'')]"

section \<open>Commits\<close>

record state_revision_guard =
  sg_stream_id :: string
  sg_expected_revision :: u64

record state_mutation =
  sm_stream_id :: string
  sm_expected_revision :: u64
  sm_state :: string

record immutable_state_import =
  im_source_digest :: string
  im_rows :: "state_mutation list"

record state_commit =
  sc_receipt_identity :: receipt_identity
  sc_command_digest :: string
  sc_stream_id :: string
  sc_expected_revision :: u64
  sc_state :: string
  sc_events :: "new_outbox_event list"
  sc_state_guards :: "state_revision_guard list"
  sc_state_mutations :: "state_mutation list"
  sc_immutable_state_import :: "immutable_state_import option"
  sc_journal_publication :: "aggregate_journal_publication option"
  sc_pending_audit_event :: "pending_audit_event option"
  sc_receipt_replay_required :: bool

definition StateCommit_new ::
    "receipt_identity \<Rightarrow> string \<Rightarrow> string \<Rightarrow> u64 \<Rightarrow> string \<Rightarrow> new_outbox_event list \<Rightarrow> state_commit" where
  "StateCommit_new identity digest stream_id expected_revision state events =
     \<lparr>sc_receipt_identity = identity, sc_command_digest = digest, sc_stream_id = stream_id,
      sc_expected_revision = expected_revision, sc_state = state, sc_events = events, sc_state_guards = [],
      sc_state_mutations = [], sc_immutable_state_import = None, sc_journal_publication = None,
      sc_pending_audit_event = None, sc_receipt_replay_required = False\<rparr>"

definition all_state_mutations :: "state_commit \<Rightarrow> state_mutation list" where
  "all_state_mutations c =
     sc_state_mutations c @ (case sc_immutable_state_import c of None \<Rightarrow> [] | Some i \<Rightarrow> im_rows i)"

definition MAX_STATE_MUTATIONS_PER_COMMIT :: nat where "MAX_STATE_MUTATIONS_PER_COMMIT = 16"

definition MAX_STATE_MUTATION_PAYLOAD_BYTES :: nat where
  "MAX_STATE_MUTATION_PAYLOAD_BYTES = 16 * 1024 * 1024"

definition MAX_STATE_MUTATION_BYTES_PER_COMMIT :: nat where
  "MAX_STATE_MUTATION_BYTES_PER_COMMIT = 16 * 1024 * 1024"

definition MAX_IMMUTABLE_STATE_IMPORT_ROWS :: nat where "MAX_IMMUTABLE_STATE_IMPORT_ROWS = 65536"

definition MAX_IMMUTABLE_STATE_IMPORT_BYTES :: nat where
  "MAX_IMMUTABLE_STATE_IMPORT_BYTES = 64 * 1024 * 1024"

definition validate_sha256_digest :: "string \<Rightarrow> storage_error + unit" where
  "validate_sha256_digest digest =
     (case strip_prefix ''sha256:'' digest of
        None \<Rightarrow> Inl (storage_invalid ''command_digest must be a sha256 digest'')
      | Some hex \<Rightarrow> ensure (\<not> (length hex \<noteq> 64
            \<or> \<not> list_all (\<lambda>c. is_ascii_digit c \<or> 97 \<le> byte c \<and> byte c \<le> 102) hex))
          (storage_invalid ''command_digest must contain 64 lowercase hexadecimal digits''))"

definition validate_mutation :: "state_mutation \<Rightarrow> storage_error + unit" where
  "validate_mutation m = check_all
     [ensure (sm_stream_id m \<noteq> []) (storage_invalid ''state mutation stream_id must not be empty''),
      ensure (\<not> sm_expected_revision m \<ge> 2 ^ 63 - 1)
        (storage_invalid ''state mutation next revision exceeds the SQLite integer range'')]"

text \<open>\<^verbatim>\<open>checked_add\<close> on \<^verbatim>\<open>usize\<close> over the payload sizes, after the checks of each row.\<close>

fun add_sizes :: "(state_mutation \<Rightarrow> storage_error + unit) \<Rightarrow> string \<Rightarrow> nat \<Rightarrow> state_mutation list \<Rightarrow> storage_error + nat" where
  "add_sizes check message n_bytes [] = Inr n_bytes"
| "add_sizes check message n_bytes (m # ms) =
     rbind (check m) (\<lambda>_.
     if n_bytes + length (sm_state m) < 2 ^ 64 then add_sizes check message (n_bytes + length (sm_state m)) ms
     else Inl (storage_invalid message))"

definition validate_import_row :: "state_mutation \<Rightarrow> storage_error + unit" where
  "validate_import_row row = check_all
     [validate_mutation row,
      ensure (\<not> (sm_expected_revision row \<noteq> 0 \<or> length (sm_state row) > MAX_STATE_MUTATION_PAYLOAD_BYTES))
        (storage_invalid ''immutable state import rows must be bounded inserts'')]"

definition validate_import :: "immutable_state_import \<Rightarrow> storage_error + unit" where
  "validate_import i =
     rbind (validate_sha256_digest (im_source_digest i)) (\<lambda>_.
     rbind (ensure (\<not> (im_rows i = [] \<or> length (im_rows i) > MAX_IMMUTABLE_STATE_IMPORT_ROWS))
       (storage_invalid ''immutable state import exceeds its row limit'')) (\<lambda>_.
     rbind (add_sizes validate_import_row ''immutable state import payload size overflow'' 0 (im_rows i)) (\<lambda>n_bytes.
     ensure (\<not> n_bytes > MAX_IMMUTABLE_STATE_IMPORT_BYTES)
       (storage_invalid ''immutable state import exceeds its payload limit''))))"

text \<open>The loops over the guards and the mutations, with the streams seen so far.\<close>

fun validate_guards :: "string \<Rightarrow> string set \<Rightarrow> state_revision_guard list \<Rightarrow> storage_error + string set" where
  "validate_guards stream_id seen [] = Inr seen"
| "validate_guards stream_id seen (g # gs) =
     rbind (check_all
       [ensure (sg_stream_id g \<noteq> []) (storage_invalid ''state revision guard stream_id must not be empty''),
        ensure (\<not> sg_expected_revision g > 2 ^ 63 - 1)
          (storage_invalid ''state revision guard expected_revision exceeds the SQLite integer range''),
        ensure (sg_stream_id g \<noteq> stream_id)
          (storage_invalid ''state revision guard must not target the primary stream''),
        ensure (sg_stream_id g \<notin> seen)
          (storage_invalid ''state revision guard stream ids must be unique'')]) (\<lambda>_.
     validate_guards stream_id (insert (sg_stream_id g) seen) gs)"

fun validate_mutations ::
    "string \<Rightarrow> string set \<Rightarrow> string set \<Rightarrow> state_mutation list \<Rightarrow> storage_error + unit" where
  "validate_mutations stream_id guarded seen [] = Inr ()"
| "validate_mutations stream_id guarded seen (m # ms) =
     rbind (check_all
       [validate_mutation m,
        ensure (sm_stream_id m \<noteq> stream_id)
          (storage_invalid ''state mutation must not target the primary stream''),
        ensure (sm_stream_id m \<notin> guarded)
          (storage_invalid ''state mutation must not target a guarded stream''),
        ensure (sm_stream_id m \<notin> seen) (storage_invalid ''state mutation stream ids must be unique''),
        ensure (\<not> length (sm_state m) > MAX_STATE_MUTATION_PAYLOAD_BYTES)
          (storage_invalid (''a state mutation payload must contain at most ''
             @ decimal MAX_STATE_MUTATION_PAYLOAD_BYTES @ '' bytes''))]) (\<lambda>_.
     validate_mutations stream_id guarded (insert (sm_stream_id m) seen) ms)"

definition validate_secondary_states :: "state_commit \<Rightarrow> storage_error + unit" where
  "validate_secondary_states c =
     rbind (validate_guards (sc_stream_id c) {} (sc_state_guards c)) (\<lambda>guarded.
     rbind (ensure (\<not> length (sc_state_mutations c) > MAX_STATE_MUTATIONS_PER_COMMIT)
       (storage_invalid (''a state commit must contain at most '' @ decimal MAX_STATE_MUTATIONS_PER_COMMIT
          @ '' secondary mutations''))) (\<lambda>_.
     rbind (case sc_immutable_state_import c of
              None \<Rightarrow> Inr ()
            | Some i \<Rightarrow> check_all [validate_import i,
                ensure (\<not> sc_expected_revision c = 0)
                  (storage_invalid ''immutable state import requires an existing primary snapshot'')]) (\<lambda>_.
     rbind (validate_mutations (sc_stream_id c) guarded {} (all_state_mutations c)) (\<lambda>_.
     rbind (add_sizes (\<lambda>_. Inr ()) ''state mutation payload size overflow'' 0 (sc_state_mutations c)) (\<lambda>n_bytes.
     ensure (\<not> n_bytes > MAX_STATE_MUTATION_BYTES_PER_COMMIT)
       (storage_invalid (''secondary state mutation payloads must total at most ''
          @ decimal MAX_STATE_MUTATION_BYTES_PER_COMMIT @ '' bytes'')))))))"

definition validate_projection_context ::
    "receipt_identity \<Rightarrow> projection_event_stream \<Rightarrow> public_projection_event_context \<Rightarrow> storage_error + unit" where
  "validate_projection_context identity stream context =
     rbind (check_all
       [ensure (stream = pc_stream context)
          (storage_invalid ''public event context stream differs from its projection stream''),
        validate_public_event_time (pc_occurred_at context),
        validate_public_source (pc_source context),
        validate_public_stream_source stream (pc_source context)]) (\<lambda>_.
     rbind (receipt_scope_key (pc_scope context)) (\<lambda>scope_key.
     rbind (ensure (scope_key = ri_scope_key identity)
       (storage_invalid ''public event scope differs from its receipt scope'')) (\<lambda>_.
     case pc_source context of
       ControlPlane actor _ \<Rightarrow>
         rbind (receipt_actor_key actor) (\<lambda>actor_key.
         ensure (actor_key = ri_actor_key identity)
           (storage_invalid ''public Control Plane source actor differs from its receipt actor''))
     | _ \<Rightarrow> Inr ())))"

definition validate_event :: "receipt_identity \<Rightarrow> new_outbox_event \<Rightarrow> storage_error + unit" where
  "validate_event identity e =
     (case ne_projection_stream e of
        Some stream \<Rightarrow>
          rbind (check_all
            [validate_stream stream,
             ensure (canonical_control_plane_event_id (ne_event_id e))
               (storage_invalid ''projection event_id must be a canonical ControlPlaneEventId'')]) (\<lambda>_.
          rbind (ok_or (ne_public_context e)
            (storage_invalid ''public projection event context is required'')) (\<lambda>context.
          validate_projection_context identity stream context))
      | None \<Rightarrow>
          ensure (ne_public_context e = None)
            (storage_invalid ''internal outbox event must not carry public context''))"

fun validate_events :: "receipt_identity \<Rightarrow> string set \<Rightarrow> new_outbox_event list \<Rightarrow> storage_error + unit" where
  "validate_events identity seen [] = Inr ()"
| "validate_events identity seen (e # es) =
     rbind (check_all
       [ensure (ne_event_id e \<noteq> []) (storage_invalid ''event_id must not be empty''),
        ensure (ne_topic e \<noteq> []) (storage_invalid ''event topic must not be empty''),
        ensure (ne_event_id e \<notin> seen) (storage_invalid ''event ids must be unique inside one commit''),
        validate_event identity e]) (\<lambda>_.
     validate_events identity (insert (ne_event_id e) seen) es)"

definition validate_commit :: "state_commit \<Rightarrow> storage_error + unit" where
  "validate_commit c = check_all
     [validate_sha256_digest (sc_command_digest c),
      ensure (sc_stream_id c \<noteq> []) (storage_invalid ''stream_id must not be empty''),
      ensure (sc_events c \<noteq> []) (storage_invalid ''a state commit must contain at least one outbox event''),
      ensure (\<not> sc_expected_revision c > 2 ^ 63 - 1)
        (storage_invalid ''expected_revision exceeds the SQLite integer range''),
      validate_secondary_states c,
      (case sc_journal_publication c of None \<Rightarrow> Inr () | Some p \<Rightarrow> validate_publication p),
      (case sc_pending_audit_event c of None \<Rightarrow> Inr () | Some e \<Rightarrow> validate_audit_event e),
      validate_events (sc_receipt_identity c) {} (sc_events c)]"

end
