(* ===== verification/Storage_Commit.thy ===== *)
theory Storage_Commit
  imports Storage_Events
begin

text \<open>
  \<^verbatim>\<open>crates/winwincode-storage/src/lib.rs\<close>, third part: the tables of the control plane's database and
  the commit of a command. One transaction writes the state, the secondary states, the aggregate
  journal, the command receipt, the audit event and the outbox events, or nothing. JSON
  (\<^verbatim>\<open>serde_json\<close>) and SHA-256 (\<^verbatim>\<open>sha2\<close>) are arguments.
\<close>

section \<open>Tables\<close>

record state_row =
  sr_stream_id :: string
  sr_revision :: int
  sr_payload :: string

record receipt_row =
  cr_identity :: receipt_identity
  cr_command_digest :: string
  cr_stream_id :: string
  cr_revision :: int

record event_row =
  er_sequence :: int
  er_event_id :: string
  er_identity :: receipt_identity
  er_topic :: string
  er_payload :: string
  er_published :: bool
  er_stream_kind :: "string option"
  er_resource_id :: "string option"
  er_stream_sequence :: "int option"
  er_scope_json :: "string option"
  er_stream_json :: "string option"
  er_occurred_at_json :: "string option"
  er_source_json :: "string option"

type_synonym head_key = "scope_key_bytes \<times> string \<times> string"

record head_row =
  hr_key :: head_key
  hr_sequence :: int
  hr_event_id :: string

record journal_row =
  jo_key :: aggregate_journal_key
  jo_manifest :: string

record journal_record_row =
  jx_key :: aggregate_journal_key
  jx_sequence :: int
  jx_digest :: string
  jx_payload :: string

record audit_row =
  au_identity :: receipt_identity
  au_event_id :: string
  au_payload :: string
  au_persisted :: bool

text \<open>
  \<open>st_outbox_sequence\<close> is SQLite's record of the largest \<^verbatim>\<open>AUTOINCREMENT\<close> key handed out. \<open>st_claims\<close>
  is the table of claimed commands, where it exists. A store opened as a read snapshot is not writable.
\<close>

record storage_db =
  st_writable :: bool
  st_states :: "state_row list"
  st_receipts :: "receipt_row list"
  st_outbox :: "event_row list"
  st_outbox_sequence :: int
  st_heads :: "head_row list"
  st_journals :: "journal_row list"
  st_journal_records :: "journal_record_row list"
  st_audit :: "audit_row list"
  st_claims :: "receipt_identity list option"

definition empty_db :: storage_db where
  "empty_db = \<lparr>st_writable = True, st_states = [], st_receipts = [], st_outbox = [], st_outbox_sequence = 0,
     st_heads = [], st_journals = [], st_journal_records = [], st_audit = [], st_claims = None\<rparr>"

record context_codec =
  cx_scope_to_vec :: "public_event_scope \<Rightarrow> string + string"
  cx_stream_to_vec :: "projection_event_stream \<Rightarrow> string + string"
  cx_occurred_at_to_vec :: "string \<Rightarrow> string + string"
  cx_source_to_vec :: "public_event_source \<Rightarrow> string + string"
  cx_scope_from_slice :: "string \<Rightarrow> string + public_event_scope"
  cx_stream_from_slice :: "string \<Rightarrow> string + projection_event_stream"
  cx_occurred_at_from_slice :: "string \<Rightarrow> string + string"
  cx_source_from_slice :: "string \<Rightarrow> string + public_event_source"
  cx_sha256_hex :: "string \<Rightarrow> string"

definition json_error :: "string \<Rightarrow> storage_error" where
  "json_error error = storage_sql_error (JsonFailure error)"

section \<open>Reading events\<close>

record projection_event_stream_key =
  pk_scope_key :: scope_key_bytes
  pk_stream :: projection_event_stream

record projection_event_cursor =
  pv_key :: projection_event_stream_key
  pv_sequence :: u64
  pv_event_id :: "string option"

definition stream_key_new ::
    "scope_key_bytes \<Rightarrow> projection_event_stream \<Rightarrow> storage_error + projection_event_stream_key" where
  "stream_key_new scope_key stream =
     rbind (validate_stream stream) (\<lambda>_. Inr \<lparr>pk_scope_key = scope_key, pk_stream = stream\<rparr>)"

definition cursor_try_new ::
    "projection_event_stream_key \<Rightarrow> u64 \<Rightarrow> string option \<Rightarrow> storage_error + projection_event_cursor" where
  "cursor_try_new key sequence event_id =
     rbind (ensure (\<not> (sequence > max_safe_integer \<or> (sequence = 0) \<noteq> (event_id = None)
         \<or> (case event_id of None \<Rightarrow> False | Some e \<Rightarrow> \<not> canonical_control_plane_event_id e)))
       (storage_adapter ''stored projection event cursor is invalid'')) (\<lambda>_.
     Inr \<lparr>pv_key = key, pv_sequence = sequence, pv_event_id = event_id\<rparr>)"

record outbox_event =
  oe_sequence :: u64
  oe_event_id :: string
  oe_topic :: string
  oe_payload :: string
  oe_projection_cursor :: "projection_event_cursor option"
  oe_public_context :: "public_projection_event_context option"

definition stored_projection_cursor ::
    "scope_key_bytes \<Rightarrow> string option \<Rightarrow> string option \<Rightarrow> int option \<Rightarrow> string \<Rightarrow>
     storage_error + projection_event_cursor option" where
  "stored_projection_cursor scope_key kind resource_id stream_sequence event_id =
     (case (kind, resource_id, stream_sequence) of
        (None, None, None) \<Rightarrow> Inr None
      | (Some k, Some r, Some n) \<Rightarrow>
          rbind (stream_from_stored k r) (\<lambda>stream.
          rbind (scope_key_from_encoded scope_key) (\<lambda>scope_key.
          rbind (stream_key_new scope_key stream) (\<lambda>key.
          rbind (ok_or (u64_of_i64 n) (storage_adapter ''stored projection event sequence is negative'')) (\<lambda>n.
          rbind (cursor_try_new key n (Some event_id)) (\<lambda>cursor. Inr (Some cursor))))))
      | _ \<Rightarrow> Inl (storage_adapter ''stored projection event cursor columns are incomplete''))"

definition check_stored_context ::
    "projection_event_cursor \<Rightarrow> receipt_identity \<Rightarrow> public_projection_event_context \<Rightarrow> storage_error + unit" where
  "check_stored_context cursor identity context =
     rbind (check_all
       [ensure (pk_stream (pv_key cursor) = pc_stream context)
          (storage_adapter ''stored public context stream differs from its projection cursor''),
        validate_public_event_time (pc_occurred_at context),
        validate_public_source (pc_source context),
        validate_public_stream_source (pc_stream context) (pc_source context)]) (\<lambda>_.
     rbind (receipt_scope_key (pc_scope context)) (\<lambda>scope_key.
     rbind (ensure (scope_key = ri_scope_key identity)
       (storage_adapter ''stored public context scope differs from its receipt scope'')) (\<lambda>_.
     case pc_source context of
       ControlPlane actor _ \<Rightarrow>
         rbind (receipt_actor_key actor) (\<lambda>actor_key.
         ensure (actor_key = ri_actor_key identity)
           (storage_adapter ''stored public context actor differs from its receipt actor''))
     | _ \<Rightarrow> Inr ())))"

definition stored_public_context ::
    "context_codec \<Rightarrow> projection_event_cursor option \<Rightarrow> event_row \<Rightarrow>
     storage_error + public_projection_event_context option" where
  "stored_public_context cx cursor row =
     (case (cursor, er_scope_json row, er_stream_json row, er_occurred_at_json row, er_source_json row) of
        (None, None, None, None, None) \<Rightarrow> Inr None
      | (Some cursor, Some scope, Some stream, Some occurred_at, Some source) \<Rightarrow>
          rbind (map_err json_error (cx_scope_from_slice cx scope)) (\<lambda>scope.
          rbind (map_err json_error (cx_stream_from_slice cx stream)) (\<lambda>stream.
          rbind (map_err json_error (cx_occurred_at_from_slice cx occurred_at)) (\<lambda>occurred_at.
          rbind (map_err json_error (cx_source_from_slice cx source)) (\<lambda>source.
          let context = \<lparr>pc_scope = scope, pc_stream = stream, pc_occurred_at = occurred_at, pc_source = source\<rparr>
          in rbind (check_stored_context cursor (er_identity row) context) (\<lambda>_. Inr (Some context))))))
      | _ \<Rightarrow> Inl (storage_adapter ''public outbox context is incomplete or attached to an internal event''))"

definition event_of_row :: "context_codec \<Rightarrow> event_row \<Rightarrow> storage_error + outbox_event" where
  "event_of_row cx row =
     rbind (stored_projection_cursor (ri_scope_key (er_identity row)) (er_stream_kind row) (er_resource_id row)
       (er_stream_sequence row) (er_event_id row)) (\<lambda>cursor.
     rbind (stored_public_context cx cursor row) (\<lambda>context.
     rbind (ok_or (u64_of_i64 (er_sequence row)) (storage_adapter ''outbox sequence is negative'')) (\<lambda>sequence.
     Inr \<lparr>oe_sequence = sequence, oe_event_id = er_event_id row, oe_topic = er_topic row,
          oe_payload = er_payload row, oe_projection_cursor = cursor, oe_public_context = context\<rparr>)))"

definition receipt_events :: "context_codec \<Rightarrow> storage_db \<Rightarrow> receipt_identity \<Rightarrow> storage_error + outbox_event list" where
  "receipt_events cx db identity =
     collect_results (map (event_of_row cx)
       (sort_key er_sequence (filter (\<lambda>row. er_identity row = identity) (st_outbox db))))"

definition pending_events :: "context_codec \<Rightarrow> storage_db \<Rightarrow> storage_error + outbox_event list" where
  "pending_events cx db =
     collect_results (map (\<lambda>row.
         rbind (actor_key_from_encoded (ri_actor_key (er_identity row))) (\<lambda>_.
         rbind (scope_key_from_encoded (ri_scope_key (er_identity row))) (\<lambda>_.
         event_of_row cx row)))
       (sort_key er_sequence (filter (\<lambda>row. \<not> er_published row) (st_outbox db))))"

section \<open>Receipts\<close>

record commit_receipt =
  ct_receipt_identity :: receipt_identity
  ct_command_digest :: string
  ct_stream_id :: string
  ct_revision :: u64
  ct_events :: "outbox_event list"
  ct_idempotent_replay :: bool

definition prior_receipt :: "storage_db \<Rightarrow> receipt_identity \<Rightarrow> receipt_row option" where
  "prior_receipt db identity = tbl_find cr_identity identity (st_receipts db)"

definition PendingAuditEvent_new :: "string \<Rightarrow> string \<Rightarrow> storage_error + pending_audit_event" where
  "PendingAuditEvent_new event_id payload =
     (let e = \<lparr>pa_event_id = event_id, pa_payload = payload\<rparr>
      in rbind (validate_audit_event e) (\<lambda>_. Inr e))"

definition load_pending_audit_event ::
    "storage_db \<Rightarrow> receipt_identity \<Rightarrow> storage_error + pending_audit_event option" where
  "load_pending_audit_event db identity =
     (case tbl_find au_identity identity (st_audit db) of
        None \<Rightarrow> Inr None
      | Some row \<Rightarrow> rbind (PendingAuditEvent_new (au_event_id row) (au_payload row)) (\<lambda>e. Inr (Some e)))"

definition request_conflict :: "string \<Rightarrow> storage_error" where
  "request_conflict request_id =
     storage_failure RequestConflict (''request id '' @ request_id
       @ '' was already used for another command in this actor and scope'')"

definition request_replay_missing :: "string \<Rightarrow> storage_error" where
  "request_replay_missing request_id =
     storage_failure RequestReplayMissing (''request id '' @ request_id
       @ '' exists in the aggregate journal without its scoped command receipt'')"

definition replay_stored_receipt ::
    "context_codec \<Rightarrow> storage_db \<Rightarrow> receipt_identity \<Rightarrow> string \<Rightarrow> receipt_row \<Rightarrow> storage_error + commit_receipt" where
  "replay_stored_receipt cx db identity command_digest prior =
     (if cr_command_digest prior \<noteq> command_digest then Inl (request_conflict (ri_request_id identity))
      else
        rbind (ok_or (u64_of_i64 (cr_revision prior)) (storage_adapter ''stored revision is negative'')) (\<lambda>revision.
        rbind (receipt_events cx db identity) (\<lambda>events.
        Inr \<lparr>ct_receipt_identity = identity, ct_command_digest = command_digest, ct_stream_id = cr_stream_id prior,
             ct_revision = revision, ct_events = events, ct_idempotent_replay = True\<rparr>)))"

definition replay_receipt ::
    "context_codec \<Rightarrow> storage_db \<Rightarrow> state_commit \<Rightarrow> receipt_row \<Rightarrow> storage_error + commit_receipt" where
  "replay_receipt cx db c prior =
     rbind (load_pending_audit_event db (sc_receipt_identity c)) (\<lambda>stored.
     if stored \<noteq> sc_pending_audit_event c
     then Inl (request_conflict (ri_request_id (sc_receipt_identity c)))
     else replay_stored_receipt cx db (sc_receipt_identity c) (sc_command_digest c) prior)"

definition load_receipt ::
    "context_codec \<Rightarrow> storage_db \<Rightarrow> receipt_identity \<Rightarrow> string \<Rightarrow> storage_error + commit_receipt option" where
  "load_receipt cx db identity command_digest =
     rbind (validate_sha256_digest command_digest) (\<lambda>_.
     case prior_receipt db identity of
       None \<Rightarrow> Inr None
     | Some prior \<Rightarrow> rbind (replay_stored_receipt cx db identity command_digest prior) (\<lambda>r. Inr (Some r)))"

definition load_receipt_for_identity ::
    "context_codec \<Rightarrow> storage_db \<Rightarrow> receipt_identity \<Rightarrow> storage_error + commit_receipt option" where
  "load_receipt_for_identity cx db identity =
     (case prior_receipt db identity of
        None \<Rightarrow> Inr None
      | Some prior \<Rightarrow>
          rbind (replay_stored_receipt cx db identity (cr_command_digest prior) prior) (\<lambda>r. Inr (Some r)))"

section \<open>Revisions\<close>

definition stored_state_revision :: "storage_db \<Rightarrow> string \<Rightarrow> storage_error + u64" where
  "stored_state_revision db stream_id =
     ok_or (u64_of_i64 (case tbl_find sr_stream_id stream_id (st_states db) of None \<Rightarrow> 0 | Some r \<Rightarrow> sr_revision r))
       (storage_adapter ''stored revision is negative'')"

definition revision_message :: "string \<Rightarrow> u64 \<Rightarrow> u64 \<Rightarrow> string" where
  "revision_message what expected actual =
     what @ ''expected revision '' @ decimal (unat expected) @ '', but current revision is '' @ decimal (unat actual)"

definition revision_conflict :: "u64 \<Rightarrow> u64 \<Rightarrow> storage_error" where
  "revision_conflict expected actual = storage_failure RevisionConflict (revision_message [] expected actual)"

definition state_revision_guard_conflict :: "string \<Rightarrow> u64 \<Rightarrow> u64 \<Rightarrow> storage_error" where
  "state_revision_guard_conflict stream_id expected actual =
     (storage_failure RevisionConflict
       (revision_message (''state revision guard '' @ stream_id @ '' '') expected actual))
       \<lparr>se_state_guard_conflict := True\<rparr>"

definition state_mutation_revision_conflict :: "string \<Rightarrow> u64 \<Rightarrow> u64 \<Rightarrow> storage_error" where
  "state_mutation_revision_conflict stream_id expected actual =
     storage_failure RevisionConflict
       (revision_message (''state mutation '' @ stream_id @ '' '') expected actual)"

definition check_guard :: "storage_db \<Rightarrow> state_revision_guard \<Rightarrow> storage_error + unit" where
  "check_guard db g =
     rbind (stored_state_revision db (sg_stream_id g)) (\<lambda>actual.
     ensure (actual = sg_expected_revision g)
       (state_revision_guard_conflict (sg_stream_id g) (sg_expected_revision g) actual))"

definition check_state_revision_guards :: "storage_db \<Rightarrow> state_commit \<Rightarrow> storage_error + unit" where
  "check_state_revision_guards db c = check_all (map (check_guard db) (sc_state_guards c))"

definition check_mutation :: "storage_db \<Rightarrow> state_mutation \<Rightarrow> storage_error + unit" where
  "check_mutation db m =
     rbind (stored_state_revision db (sm_stream_id m)) (\<lambda>actual.
     ensure (actual = sm_expected_revision m)
       (state_mutation_revision_conflict (sm_stream_id m) (sm_expected_revision m) actual))"

definition check_import_source :: "context_codec \<Rightarrow> storage_db \<Rightarrow> state_commit \<Rightarrow> storage_error + unit" where
  "check_import_source cx db c =
     (case sc_immutable_state_import c of
        None \<Rightarrow> Inr ()
      | Some i \<Rightarrow>
          rbind (ok_or (tbl_find sr_stream_id (sc_stream_id c) (st_states db))
            (storage_invalid ''immutable state import source is missing'')) (\<lambda>row.
          ensure (\<not> (u64_of_i64 (sr_revision row) \<noteq> Some (sc_expected_revision c)
              \<or> ''sha256:'' @ cx_sha256_hex cx (sr_payload row) \<noteq> im_source_digest i))
            (storage_invalid ''immutable state import source changed before commit'')))"

definition check_state_mutation_revisions :: "context_codec \<Rightarrow> storage_db \<Rightarrow> state_commit \<Rightarrow> storage_error + unit" where
  "check_state_mutation_revisions cx db c =
     check_all (check_import_source cx db c # map (check_mutation db) (all_state_mutations c))"

section \<open>Writes\<close>

definition upsert_state :: "storage_db \<Rightarrow> string \<Rightarrow> int \<Rightarrow> string \<Rightarrow> storage_db" where
  "upsert_state db stream_id revision state =
     db\<lparr>st_states := tbl_upsert sr_stream_id
       \<lparr>sr_stream_id = stream_id, sr_revision = revision, sr_payload = state\<rparr> (st_states db)\<rparr>"

text \<open>\<^verbatim>\<open>i64::try_from(expected)\<close> followed by \<^verbatim>\<open>checked_add(1)\<close>.\<close>

definition next_state_revision :: "string \<Rightarrow> string \<Rightarrow> u64 \<Rightarrow> storage_error + int" where
  "next_state_revision convert overflow expected =
     rbind (ok_or (i64_of_u64 expected) (storage_invalid convert)) (\<lambda>e.
     if e + 1 < 2 ^ 63 then Inr (e + 1) else Inl (storage_invalid overflow))"

fun append_state_mutations :: "storage_db \<Rightarrow> state_mutation list \<Rightarrow> storage_error + storage_db" where
  "append_state_mutations db [] = Inr db"
| "append_state_mutations db (m # ms) =
     rbind (next_state_revision ''state mutation revision is out of range''
       ''state mutation revision is out of range'' (sm_expected_revision m)) (\<lambda>revision.
     append_state_mutations (upsert_state db (sm_stream_id m) revision (sm_state m)) ms)"

definition journal_message :: "aggregate_journal_key \<Rightarrow> string \<Rightarrow> string" where
  "journal_message key suffix = jk_aggregate_type key @ '' aggregate journal '' @ jk_aggregate_id key @ suffix"

definition insert_journal_record ::
    "storage_db \<Rightarrow> aggregate_journal_key \<Rightarrow> aggregate_journal_record \<Rightarrow> storage_error + storage_db" where
  "insert_journal_record db key record =
     rbind (ok_or (i64_of_u64 (jr_sequence record)) (storage_invalid ''journal sequence is out of range'')) (\<lambda>n.
     if list_ex (\<lambda>r. jx_key r = key \<and> jx_sequence r = n) (st_journal_records db)
     then Inl (storage_sql_error (UniqueConstraint ''aggregate_journal_records''))
     else Inr (db\<lparr>st_journal_records := st_journal_records db @
       [\<lparr>jx_key = key, jx_sequence = n, jx_digest = jr_digest record, jx_payload = jr_payload record\<rparr>]\<rparr>))"

definition journal_rows :: "storage_db \<Rightarrow> aggregate_journal_key \<Rightarrow> journal_record_row list" where
  "journal_rows db key = sort_key jx_sequence (filter (\<lambda>r. jx_key r = key) (st_journal_records db))"

fun append_journal_publication :: "storage_db \<Rightarrow> aggregate_journal_publication \<Rightarrow> storage_error + storage_db" where
  "append_journal_publication db (JournalCreate key manifest first_record) =
     (if tbl_find jo_key key (st_journals db) \<noteq> None
      then Inl (storage_failure JournalAlreadyExists (journal_message key '' already exists''))
      else insert_journal_record
        (db\<lparr>st_journals := st_journals db @ [\<lparr>jo_key = key, jo_manifest = manifest\<rparr>]\<rparr>) key first_record)"
| "append_journal_publication db (JournalAppend key expected_tail_sequence expected_tail_digest record) =
     (case rev (journal_rows db key) of
        [] \<Rightarrow> Inl (storage_failure JournalNotFound (journal_message key '' does not exist''))
      | tail # _ \<Rightarrow>
          rbind (ok_or (i64_of_u64 expected_tail_sequence)
            (storage_invalid ''expected journal tail is out of range'')) (\<lambda>expected.
          if jx_sequence tail \<noteq> expected \<or> jx_digest tail \<noteq> expected_tail_digest
          then Inl (storage_failure JournalConflict (journal_message key '' tail changed''))
          else insert_journal_record db key record))"

definition append_receipt :: "storage_db \<Rightarrow> state_commit \<Rightarrow> int \<Rightarrow> storage_error + storage_db" where
  "append_receipt db c revision =
     (if prior_receipt db (sc_receipt_identity c) \<noteq> None
      then Inl (storage_sql_error (UniqueConstraint ''command_receipts''))
      else Inr (db\<lparr>st_receipts := st_receipts db @
        [\<lparr>cr_identity = sc_receipt_identity c, cr_command_digest = sc_command_digest c,
          cr_stream_id = sc_stream_id c, cr_revision = revision\<rparr>]\<rparr>))"

definition append_pending_audit_event ::
    "storage_db \<Rightarrow> state_commit \<Rightarrow> pending_audit_event \<Rightarrow> storage_error + storage_db" where
  "append_pending_audit_event db c e =
     (if list_ex (\<lambda>r. au_identity r = sc_receipt_identity c \<or> au_event_id r = pa_event_id e) (st_audit db)
      then Inl (storage_sql_error (UniqueConstraint ''audit_outbox''))
      else Inr (db\<lparr>st_audit := st_audit db @
        [\<lparr>au_identity = sc_receipt_identity c, au_event_id = pa_event_id e, au_payload = pa_payload e,
          au_persisted = False\<rparr>]\<rparr>))"

definition head_key_of :: "receipt_identity \<Rightarrow> projection_event_stream \<Rightarrow> head_key" where
  "head_key_of identity stream = (ri_scope_key identity, stream_kind stream, stream_resource_id stream)"

definition next_projection_stream_position :: "storage_db \<Rightarrow> head_key \<Rightarrow> storage_error + int" where
  "next_projection_stream_position db key =
     (let current = (case tbl_find hr_key key (st_heads db) of None \<Rightarrow> 0 | Some h \<Rightarrow> hr_sequence h)
      in if \<not> (0 \<le> current \<and> current < 9007199254740991)
         then Inl (storage_adapter ''projection event stream sequence is outside the public range'')
         else Inr (current + 1))"

definition serialize_public_context ::
    "context_codec \<Rightarrow> public_projection_event_context \<Rightarrow> storage_error + (string \<times> string \<times> string \<times> string)" where
  "serialize_public_context cx context =
     rbind (map_err json_error (cx_scope_to_vec cx (pc_scope context))) (\<lambda>scope.
     rbind (map_err json_error (cx_stream_to_vec cx (pc_stream context))) (\<lambda>stream.
     rbind (map_err json_error (cx_occurred_at_to_vec cx (pc_occurred_at context))) (\<lambda>occurred_at.
     rbind (map_err json_error (cx_source_to_vec cx (pc_source context))) (\<lambda>source.
     Inr (scope, stream, occurred_at, source)))))"

definition transpose :: "('a \<Rightarrow> 'e + 'b) \<Rightarrow> 'a option \<Rightarrow> 'e + 'b option" where
  "transpose f x = (case x of None \<Rightarrow> Inr None | Some a \<Rightarrow> rbind (f a) (\<lambda>b. Inr (Some b)))"

text \<open>The unique index of the outbox is on the stream and the position in it, where there is a stream.\<close>

definition event_row_key :: "event_row \<Rightarrow> (head_key \<times> int) option" where
  "event_row_key row =
     (case (er_stream_kind row, er_resource_id row, er_stream_sequence row) of
        (Some k, Some r, Some n) \<Rightarrow> Some ((ri_scope_key (er_identity row), k, r), n)
      | _ \<Rightarrow> None)"

definition insert_event_row :: "storage_db \<Rightarrow> event_row \<Rightarrow> storage_error + storage_db" where
  "insert_event_row db row =
     (if st_outbox_sequence db = 2 ^ 63 - 1 then Inl (storage_sql_error SequenceFull)
      else if list_ex (\<lambda>r. er_event_id r = er_event_id row) (st_outbox db)
      then Inl (storage_sql_error (UniqueConstraint ''outbox.event_id''))
      else if event_row_key row \<noteq> None \<and> list_ex (\<lambda>r. event_row_key r = event_row_key row) (st_outbox db)
      then Inl (storage_sql_error (UniqueConstraint ''outbox_projection_stream_sequence''))
      else Inr (db\<lparr>st_outbox := st_outbox db @ [row\<lparr>er_sequence := st_outbox_sequence db + 1\<rparr>],
                   st_outbox_sequence := st_outbox_sequence db + 1\<rparr>))"

definition new_event_row ::
    "receipt_identity \<Rightarrow> new_outbox_event \<Rightarrow> int option \<Rightarrow> (string \<times> string \<times> string \<times> string) option \<Rightarrow> event_row" where
  "new_event_row identity e position context =
     \<lparr>er_sequence = 0, er_event_id = ne_event_id e, er_identity = identity, er_topic = ne_topic e,
      er_payload = ne_payload e, er_published = False,
      er_stream_kind = map_option stream_kind (ne_projection_stream e),
      er_resource_id = map_option stream_resource_id (ne_projection_stream e),
      er_stream_sequence = position,
      er_scope_json = map_option fst context,
      er_stream_json = map_option (\<lambda>(_, s, _, _). s) context,
      er_occurred_at_json = map_option (\<lambda>(_, _, t, _). t) context,
      er_source_json = map_option (\<lambda>(_, _, _, s). s) context\<rparr>"

definition upsert_head :: "storage_db \<Rightarrow> head_key \<Rightarrow> int \<Rightarrow> string \<Rightarrow> storage_db" where
  "upsert_head db key position event_id =
     db\<lparr>st_heads := tbl_upsert hr_key \<lparr>hr_key = key, hr_sequence = position, hr_event_id = event_id\<rparr> (st_heads db)\<rparr>"

definition append_outbox_event ::
    "context_codec \<Rightarrow> receipt_identity \<Rightarrow> storage_db \<Rightarrow> new_outbox_event \<Rightarrow> storage_error + storage_db" where
  "append_outbox_event cx identity db e =
     rbind (transpose (\<lambda>s. next_projection_stream_position db (head_key_of identity s))
       (ne_projection_stream e)) (\<lambda>position.
     rbind (transpose (serialize_public_context cx) (ne_public_context e)) (\<lambda>context.
     rbind (insert_event_row db (new_event_row identity e position context)) (\<lambda>db.
     case (ne_projection_stream e, position) of
       (Some stream, Some n) \<Rightarrow> Inr (upsert_head db (head_key_of identity stream) n (ne_event_id e))
     | _ \<Rightarrow> Inr db)))"

fun append_outbox_events ::
    "context_codec \<Rightarrow> receipt_identity \<Rightarrow> storage_db \<Rightarrow> new_outbox_event list \<Rightarrow> storage_error + storage_db" where
  "append_outbox_events cx identity db [] = Inr db"
| "append_outbox_events cx identity db (e # es) =
     rbind (append_outbox_event cx identity db e) (\<lambda>db. append_outbox_events cx identity db es)"

section \<open>The commit\<close>

definition write_state_commit :: "context_codec \<Rightarrow> storage_db \<Rightarrow> state_commit \<Rightarrow> int \<Rightarrow> storage_error + storage_db" where
  "write_state_commit cx db c revision =
     rbind (append_state_mutations (upsert_state db (sc_stream_id c) revision (sc_state c))
       (all_state_mutations c)) (\<lambda>db.
     rbind (case sc_journal_publication c of None \<Rightarrow> Inr db | Some p \<Rightarrow> append_journal_publication db p) (\<lambda>db.
     rbind (append_receipt db c revision) (\<lambda>db.
     rbind (case sc_pending_audit_event c of None \<Rightarrow> Inr db | Some e \<Rightarrow> append_pending_audit_event db c e) (\<lambda>db.
     append_outbox_events cx (sc_receipt_identity c) db (sc_events c)))))"

definition append_state_commit ::
    "context_codec \<Rightarrow> storage_db \<Rightarrow> state_commit \<Rightarrow> storage_error + commit_receipt \<times> storage_db" where
  "append_state_commit cx db c =
     rbind (stored_state_revision db (sc_stream_id c)) (\<lambda>actual.
     if actual \<noteq> sc_expected_revision c then Inl (revision_conflict (sc_expected_revision c) actual)
     else
       rbind (next_state_revision ''expected_revision is out of range'' ''revision is out of range''
         (sc_expected_revision c)) (\<lambda>revision.
       rbind (write_state_commit cx db c revision) (\<lambda>db.
       rbind (ok_or (u64_of_i64 revision) (storage_adapter ''committed revision is negative'')) (\<lambda>n.
       rbind (receipt_events cx db (sc_receipt_identity c)) (\<lambda>events.
       Inr (\<lparr>ct_receipt_identity = sc_receipt_identity c, ct_command_digest = sc_command_digest c,
             ct_stream_id = sc_stream_id c, ct_revision = n, ct_events = events,
             ct_idempotent_replay = False\<rparr>, db))))))"

definition control_plane_command_claim_exists :: "storage_db \<Rightarrow> state_commit \<Rightarrow> bool" where
  "control_plane_command_claim_exists db c =
     (case st_claims db of None \<Rightarrow> False | Some claims \<Rightarrow> sc_receipt_identity c \<in> set claims)"

definition commit_in_transaction_with_claim_authority ::
    "context_codec \<Rightarrow> storage_db \<Rightarrow> state_commit \<Rightarrow> bool \<Rightarrow> storage_error + commit_receipt \<times> storage_db" where
  "commit_in_transaction_with_claim_authority cx db c claim_authority_validated =
     (case prior_receipt db (sc_receipt_identity c) of
        Some prior \<Rightarrow> rbind (replay_receipt cx db c prior) (\<lambda>r. Inr (r, db))
      | None \<Rightarrow>
          if \<not> claim_authority_validated \<and> control_plane_command_claim_exists db c
          then Inl (storage_invalid ''claimed Control Plane command requires its atomic instance fence'')
          else if sc_receipt_replay_required c
          then Inl (request_replay_missing (ri_request_id (sc_receipt_identity c)))
          else
            rbind (check_state_revision_guards db c) (\<lambda>_.
            rbind (check_state_mutation_revisions cx db c) (\<lambda>_.
            append_state_commit cx db c)))"

definition commit_in_transaction ::
    "context_codec \<Rightarrow> storage_db \<Rightarrow> state_commit \<Rightarrow> storage_error + commit_receipt \<times> storage_db" where
  "commit_in_transaction cx db c = commit_in_transaction_with_claim_authority cx db c False"

definition commit_claimed_in_transaction ::
    "context_codec \<Rightarrow> storage_db \<Rightarrow> state_commit \<Rightarrow> storage_error + commit_receipt \<times> storage_db" where
  "commit_claimed_in_transaction cx db c = commit_in_transaction_with_claim_authority cx db c True"

definition connection_mut :: "storage_db \<Rightarrow> storage_error + unit" where
  "connection_mut db = ensure (st_writable db) (storage_adapter ''SQLite snapshot is read-only'')"

definition commit :: "context_codec \<Rightarrow> storage_db \<Rightarrow> state_commit \<Rightarrow> storage_error + commit_receipt \<times> storage_db" where
  "commit cx db c =
     rbind (validate_commit c) (\<lambda>_.
     rbind (connection_mut db) (\<lambda>_.
     commit_in_transaction cx db c))"

section \<open>Other operations\<close>

definition mark_published :: "storage_db \<Rightarrow> string \<Rightarrow> storage_error + storage_db" where
  "mark_published db event_id =
     rbind (connection_mut db) (\<lambda>_.
     if tbl_count (\<lambda>r. er_event_id r = event_id) (st_outbox db) = 0
     then Inl (storage_adapter (''outbox event '' @ event_id @ '' does not exist''))
     else Inr (db\<lparr>st_outbox := tbl_update (\<lambda>r. er_event_id r = event_id) (\<lambda>r. r\<lparr>er_published := True\<rparr>)
       (st_outbox db)\<rparr>))"

definition mark_audit_event_persisted :: "storage_db \<Rightarrow> string \<Rightarrow> storage_error + storage_db" where
  "mark_audit_event_persisted db event_id =
     rbind (ensure (event_id \<noteq> []) (storage_invalid ''pending audit event id must not be empty'')) (\<lambda>_.
     rbind (connection_mut db) (\<lambda>_.
     if tbl_count (\<lambda>r. au_event_id r = event_id) (st_audit db) \<noteq> 1
     then Inl (storage_adapter ''pending audit event acknowledgement has no durable row'')
     else Inr (db\<lparr>st_audit := tbl_update (\<lambda>r. au_event_id r = event_id) (\<lambda>r. r\<lparr>au_persisted := True\<rparr>)
       (st_audit db)\<rparr>)))"

definition pending_audit_events :: "storage_db \<Rightarrow> storage_error + pending_audit_event list" where
  "pending_audit_events db =
     collect_results (map (\<lambda>r. PendingAuditEvent_new (au_event_id r) (au_payload r))
       (sort_key au_event_id (filter (\<lambda>r. \<not> au_persisted r) (st_audit db))))"

record stored_state =
  ss_stream_id :: string
  ss_revision :: u64
  ss_payload :: string

definition load_state :: "storage_db \<Rightarrow> string \<Rightarrow> storage_error + stored_state option" where
  "load_state db stream_id =
     (case tbl_find sr_stream_id stream_id (st_states db) of
        None \<Rightarrow> Inr None
      | Some row \<Rightarrow>
          rbind (ok_or (u64_of_i64 (sr_revision row)) (storage_adapter ''stored revision is negative'')) (\<lambda>revision.
          Inr (Some \<lparr>ss_stream_id = stream_id, ss_revision = revision, ss_payload = sr_payload row\<rparr>)))"

record loaded_aggregate_journal =
  lj_manifest :: string
  lj_records :: "aggregate_journal_record list"

definition load_aggregate_journal ::
    "storage_db \<Rightarrow> aggregate_journal_key \<Rightarrow> storage_error + loaded_aggregate_journal option" where
  "load_aggregate_journal db key =
     (case tbl_find jo_key key (st_journals db) of
        None \<Rightarrow> Inr None
      | Some journal \<Rightarrow>
          rbind (collect_results (map (\<lambda>r.
              rbind (ok_or (u64_of_i64 (jx_sequence r)) (storage_adapter ''journal sequence is negative'')) (\<lambda>n.
              Inr \<lparr>jr_sequence = n, jr_digest = jx_digest r, jr_payload = jx_payload r\<rparr>))
            (journal_rows db key))) (\<lambda>records.
          Inr (Some \<lparr>lj_manifest = jo_manifest journal, lj_records = records\<rparr>)))"

end
