(* ===== verification/Storage_Replay.thy ===== *)
theory Storage_Replay
  imports Storage_Commit
begin

text \<open>
  Exactly-once commands: what a commit leaves behind for its request identity (the receipt, the audit
  event, the outbox events) is never changed by later operations, except for the publication
  marks, so a repeated command is answered with the first answer and writes nothing.
\<close>

section \<open>The store as a machine\<close>

datatype storage_op =
    CommitOp state_commit
  | MarkPublishedOp string
  | MarkAuditOp string

fun storage_step :: "context_codec \<Rightarrow> storage_db \<Rightarrow> storage_op \<Rightarrow> storage_error + storage_db" where
  "storage_step cx db (CommitOp c) = rbind (commit cx db c) (\<lambda>(r, db). Inr db)"
| "storage_step cx db (MarkPublishedOp event_id) = mark_published db event_id"
| "storage_step cx db (MarkAuditOp event_id) = mark_audit_event_persisted db event_id"

section \<open>What each write changes\<close>

lemma append_state_mutations_frame:
  "append_state_mutations db ms = Inr db' \<Longrightarrow> \<exists>states. db' = db\<lparr>st_states := states\<rparr>"
proof (induction ms arbitrary: db)
  case (Cons m ms)
  then obtain n where "append_state_mutations (upsert_state db (sm_stream_id m) n (sm_state m)) ms = Inr db'"
    by (auto simp: result_simps)
  from Cons.IH [OF this] show ?case by (auto simp: upsert_state_def)
next
  case (Nil db)
  then have "db' = db\<lparr>st_states := st_states db\<rparr>" by simp
  then show ?case ..
qed

lemma insert_journal_record_iff [result_simps]:
  "insert_journal_record db key record = Inr db' \<longleftrightarrow>
     uint (jr_sequence record) < 2 ^ 63 \<and>
     \<not> (\<exists>r \<in> set (st_journal_records db). jx_key r = key \<and> jx_sequence r = uint (jr_sequence record)) \<and>
     db' = db\<lparr>st_journal_records := st_journal_records db @
       [\<lparr>jx_key = key, jx_sequence = uint (jr_sequence record), jx_digest = jr_digest record,
         jx_payload = jr_payload record\<rparr>]\<rparr>"
  by (auto simp: insert_journal_record_def result_simps list_ex_iff split: if_splits)

lemma append_journal_publication_frame:
  "append_journal_publication db p = Inr db' \<Longrightarrow>
     \<exists>journals records. db' = db\<lparr>st_journals := journals, st_journal_records := records\<rparr>"
proof (cases p)
  case (JournalAppend key n digest entry)
  assume *: "append_journal_publication db p = Inr db'"
  then obtain "tail" rest where "rev (journal_rows db key) = tail # rest"
    using JournalAppend by (cases "rev (journal_rows db key)") auto
  with * JournalAppend show ?thesis
    by (auto simp: result_simps split: if_splits intro!: exI [of _ "st_journals db"])
qed (auto simp: result_simps split: if_splits)

lemma insert_event_row_iff [result_simps]:
  "insert_event_row db row = Inr db' \<longleftrightarrow>
     st_outbox_sequence db \<noteq> 2 ^ 63 - 1 \<and>
     \<not> (\<exists>r \<in> set (st_outbox db). er_event_id r = er_event_id row) \<and>
     \<not> (event_row_key row \<noteq> None \<and> (\<exists>r \<in> set (st_outbox db). event_row_key r = event_row_key row)) \<and>
     db' = db\<lparr>st_outbox := st_outbox db @ [row\<lparr>er_sequence := st_outbox_sequence db + 1\<rparr>],
              st_outbox_sequence := st_outbox_sequence db + 1\<rparr>"
  unfolding insert_event_row_def list_ex_iff by (auto split: if_splits)

lemma heads_self: "\<exists>heads. db = db\<lparr>st_heads := heads\<rparr>"
  by (rule exI [of _ "st_heads db"]) simp

lemma append_outbox_event_frame:
  assumes "append_outbox_event cx identity db e = Inr db'"
  shows "\<exists>row heads. er_identity row = identity \<and>
    db' = db\<lparr>st_outbox := st_outbox db @ [row], st_outbox_sequence := st_outbox_sequence db + 1,
             st_heads := heads\<rparr>"
proof -
  from assms obtain position ctx db1 where
    ins: "insert_event_row db (new_event_row identity e position ctx) = Inr db1"
    and end_case: "(case (ne_projection_stream e, position) of
       (Some stream, Some n) \<Rightarrow> Inr (upsert_head db1 (head_key_of identity stream) n (ne_event_id e))
     | _ \<Rightarrow> Inr db1) = (Inr db' :: storage_error + storage_db)"
    by (auto simp: append_outbox_event_def result_simps)
  let ?row = "(new_event_row identity e position ctx)\<lparr>er_sequence := st_outbox_sequence db + 1\<rparr>"
  from ins have db1: "db1 = db\<lparr>st_outbox := st_outbox db @ [?row],
      st_outbox_sequence := st_outbox_sequence db + 1\<rparr>" by (simp add: result_simps)
  from end_case have "\<exists>heads. db' = db1\<lparr>st_heads := heads\<rparr>"
    by (cases "ne_projection_stream e"; cases position) (auto simp: upsert_head_def intro: heads_self)
  then obtain heads where "db' = db1\<lparr>st_heads := heads\<rparr>" ..
  with db1 have "db' = db\<lparr>st_outbox := st_outbox db @ [?row],
      st_outbox_sequence := st_outbox_sequence db + 1, st_heads := heads\<rparr>" by simp
  moreover have "er_identity ?row = identity" by (simp add: new_event_row_def)
  ultimately show ?thesis by blast
qed

lemma append_outbox_events_frame:
  "append_outbox_events cx identity db es = Inr db' \<Longrightarrow>
     \<exists>rows heads n. (\<forall>r \<in> set rows. er_identity r = identity) \<and>
       db' = db\<lparr>st_outbox := st_outbox db @ rows, st_outbox_sequence := n, st_heads := heads\<rparr>"
proof (induction es arbitrary: db)
  case (Nil db)
  then have "(\<forall>r \<in> set []. er_identity r = identity) \<and>
    db' = db\<lparr>st_outbox := st_outbox db @ [], st_outbox_sequence := st_outbox_sequence db,
      st_heads := st_heads db\<rparr>" by simp
  then show ?case by blast
next
  case (Cons e es)
  then obtain db1 where 1: "append_outbox_event cx identity db e = Inr db1"
    and 2: "append_outbox_events cx identity db1 es = Inr db'" by (auto simp: result_simps)
  from append_outbox_event_frame [OF 1] obtain row heads1 where row: "er_identity row = identity"
    "db1 = db\<lparr>st_outbox := st_outbox db @ [row], st_outbox_sequence := st_outbox_sequence db + 1,
       st_heads := heads1\<rparr>" by blast
  from Cons.IH [OF 2] obtain rows heads n where "\<forall>r \<in> set rows. er_identity r = identity"
    "db' = db1\<lparr>st_outbox := st_outbox db1 @ rows, st_outbox_sequence := n, st_heads := heads\<rparr>" by blast
  with row have "(\<forall>r \<in> set (row # rows). er_identity r = identity) \<and>
    db' = db\<lparr>st_outbox := st_outbox db @ (row # rows), st_outbox_sequence := n, st_heads := heads\<rparr>" by simp
  then show ?case by blast
qed

text \<open>The writes of a fresh commit, step by step.\<close>

definition receipt_of_commit :: "state_commit \<Rightarrow> int \<Rightarrow> receipt_row" where
  "receipt_of_commit c revision =
     \<lparr>cr_identity = sc_receipt_identity c, cr_command_digest = sc_command_digest c,
      cr_stream_id = sc_stream_id c, cr_revision = revision\<rparr>"

definition audit_rows_of_commit :: "state_commit \<Rightarrow> audit_row list" where
  "audit_rows_of_commit c = (case sc_pending_audit_event c of None \<Rightarrow> [] | Some e \<Rightarrow>
     [\<lparr>au_identity = sc_receipt_identity c, au_event_id = pa_event_id e, au_payload = pa_payload e,
       au_persisted = False\<rparr>])"

lemma write_state_commit_effect:
  assumes "write_state_commit cx db c revision = Inr db'"
  obtains db1 db2 db3 where
    "append_state_mutations (upsert_state db (sc_stream_id c) revision (sc_state c)) (all_state_mutations c) = Inr db1"
    "(case sc_journal_publication c of None \<Rightarrow> Inr db1 | Some p \<Rightarrow> append_journal_publication db1 p) = Inr db2"
    "prior_receipt db2 (sc_receipt_identity c) = None"
    "\<And>e. sc_pending_audit_event c = Some e \<Longrightarrow>
       \<not> (\<exists>r \<in> set (st_audit db2). au_identity r = sc_receipt_identity c \<or> au_event_id r = pa_event_id e)"
    "db3 = db2\<lparr>st_receipts := st_receipts db2 @ [receipt_of_commit c revision],
       st_audit := st_audit db2 @ audit_rows_of_commit c\<rparr>"
    "append_outbox_events cx (sc_receipt_identity c) db3 (sc_events c) = Inr db'"
proof -
  from assms obtain db1 db2 dr da where
    1: "append_state_mutations (upsert_state db (sc_stream_id c) revision (sc_state c)) (all_state_mutations c) = Inr db1"
    and 2: "(case sc_journal_publication c of None \<Rightarrow> Inr db1 | Some p \<Rightarrow> append_journal_publication db1 p) = Inr db2"
    and 3: "append_receipt db2 c revision = Inr dr"
    and 4: "(case sc_pending_audit_event c of None \<Rightarrow> Inr dr | Some e \<Rightarrow> append_pending_audit_event dr c e) = Inr da"
    and 5: "append_outbox_events cx (sc_receipt_identity c) da (sc_events c) = Inr db'"
    by (auto simp: write_state_commit_def rbind_Inr_iff)
  from 3 have r: "prior_receipt db2 (sc_receipt_identity c) = None"
    "dr = db2\<lparr>st_receipts := st_receipts db2 @ [receipt_of_commit c revision]\<rparr>"
    by (auto simp: append_receipt_def receipt_of_commit_def split: if_splits)
  have "(\<forall>e. sc_pending_audit_event c = Some e \<longrightarrow>
       \<not> (\<exists>r \<in> set (st_audit db2). au_identity r = sc_receipt_identity c \<or> au_event_id r = pa_event_id e)) \<and>
    da = db2\<lparr>st_receipts := st_receipts db2 @ [receipt_of_commit c revision],
       st_audit := st_audit db2 @ audit_rows_of_commit c\<rparr>"
    using 4 r(2) by (cases "sc_pending_audit_event c")
      (auto simp: append_pending_audit_event_def audit_rows_of_commit_def list_ex_iff split: if_splits)
  then show thesis using that [OF 1 2 r(1)] 5 by blast
qed

lemma publication_frame:
  "(case j of None \<Rightarrow> Inr db | Some p \<Rightarrow> append_journal_publication db p) = Inr db' \<Longrightarrow>
     \<exists>journals records. db' = db\<lparr>st_journals := journals, st_journal_records := records\<rparr>"
proof (cases j)
  case None
  assume "(case j of None \<Rightarrow> Inr db | Some p \<Rightarrow> append_journal_publication db p) = Inr db'"
  with None have "db' = db\<lparr>st_journals := st_journals db, st_journal_records := st_journal_records db\<rparr>" by simp
  then show ?thesis by blast
qed (simp add: append_journal_publication_frame)

lemma write_state_commit_tables:
  assumes "write_state_commit cx db c revision = Inr db'"
  shows "prior_receipt db (sc_receipt_identity c) = None"
    and "st_writable db' = st_writable db" and "st_claims db' = st_claims db"
    and "st_receipts db' = st_receipts db @ [receipt_of_commit c revision]"
    and "st_audit db' = st_audit db @ audit_rows_of_commit c"
    and "\<exists>rows. st_outbox db' = st_outbox db @ rows \<and> (\<forall>r \<in> set rows. er_identity r = sc_receipt_identity c)"
proof -
  from assms obtain db1 db2 db3 where s:
    "append_state_mutations (upsert_state db (sc_stream_id c) revision (sc_state c)) (all_state_mutations c) = Inr db1"
    "(case sc_journal_publication c of None \<Rightarrow> Inr db1 | Some p \<Rightarrow> append_journal_publication db1 p) = Inr db2"
    "prior_receipt db2 (sc_receipt_identity c) = None"
    "db3 = db2\<lparr>st_receipts := st_receipts db2 @ [receipt_of_commit c revision],
       st_audit := st_audit db2 @ audit_rows_of_commit c\<rparr>"
    "append_outbox_events cx (sc_receipt_identity c) db3 (sc_events c) = Inr db'"
    by (rule write_state_commit_effect)
  obtain states where db1: "db1 = db\<lparr>st_states := states\<rparr>"
    using append_state_mutations_frame [OF s(1)] by (auto simp: upsert_state_def)
  obtain js jr where db2: "db2 = db1\<lparr>st_journals := js, st_journal_records := jr\<rparr>"
    using publication_frame [OF s(2)] by blast
  obtain rows heads n where rows: "\<forall>r \<in> set rows. er_identity r = sc_receipt_identity c"
    "db' = db3\<lparr>st_outbox := st_outbox db3 @ rows, st_outbox_sequence := n, st_heads := heads\<rparr>"
    using append_outbox_events_frame [OF s(5)] by blast
  note eqs = rows(2) s(4) db2 db1
  show "prior_receipt db (sc_receipt_identity c) = None" using s(3) by (simp add: db2 db1 prior_receipt_def)
  show "st_writable db' = st_writable db" and "st_claims db' = st_claims db"
    and "st_receipts db' = st_receipts db @ [receipt_of_commit c revision]"
    and "st_audit db' = st_audit db @ audit_rows_of_commit c" by (simp_all add: eqs)
  show "\<exists>rows. st_outbox db' = st_outbox db @ rows \<and> (\<forall>r \<in> set rows. er_identity r = sc_receipt_identity c)"
    using rows(1) by (simp add: eqs)
qed

section \<open>A commit is a replay or a fresh write\<close>

lemma append_state_commit_Inr:
  assumes "append_state_commit cx db c = Inr (r, db')"
  obtains revision n where "stored_state_revision db (sc_stream_id c) = Inr (sc_expected_revision c)"
    and "revision = uint (sc_expected_revision c) + 1" and "revision < 2 ^ 63"
    and "write_state_commit cx db c revision = Inr db'"
    and "u64_of_i64 revision = Some n"
    and "receipt_events cx db' (sc_receipt_identity c) = Inr (ct_events r)"
    and "r = \<lparr>ct_receipt_identity = sc_receipt_identity c, ct_command_digest = sc_command_digest c,
             ct_stream_id = sc_stream_id c, ct_revision = n, ct_events = ct_events r,
             ct_idempotent_replay = False\<rparr>"
  using assms by (auto simp: append_state_commit_def next_state_revision_def result_simps split: if_splits)

lemma commit_Inr_cases:
  assumes "commit cx db c = Inr (r, db')"
  obtains (replayed) prior where "validate_commit c = Inr ()" and "st_writable db"
      and "prior_receipt db (sc_receipt_identity c) = Some prior"
      and "replay_receipt cx db c prior = Inr r" and "db' = db"
  | (fresh) "validate_commit c = Inr ()" and "st_writable db"
      and "prior_receipt db (sc_receipt_identity c) = None"
      and "\<not> control_plane_command_claim_exists db c" and "\<not> sc_receipt_replay_required c"
      and "check_state_revision_guards db c = Inr ()"
      and "check_state_mutation_revisions cx db c = Inr ()"
      and "append_state_commit cx db c = Inr (r, db')"
proof -
  from assms have valid: "validate_commit c = Inr ()" and writable: "st_writable db"
    and tx: "commit_in_transaction_with_claim_authority cx db c False = Inr (r, db')"
    by (simp_all add: commit_def connection_mut_def commit_in_transaction_def rbind_Inr_iff ensure_Inr_iff)
  show thesis
  proof (cases "prior_receipt db (sc_receipt_identity c)")
    case None
    with tx have "\<not> control_plane_command_claim_exists db c" "\<not> sc_receipt_replay_required c"
      "check_state_revision_guards db c = Inr ()" "check_state_mutation_revisions cx db c = Inr ()"
      "append_state_commit cx db c = Inr (r, db')"
      by (simp_all add: commit_in_transaction_with_claim_authority_def rbind_Inr_iff split: if_splits)
    with valid writable None show thesis by (rule fresh)
  next
    case (Some prior)
    with tx have "replay_receipt cx db c prior = Inr r" and "db' = db"
      by (auto simp: commit_in_transaction_with_claim_authority_def rbind_Inr_iff)
    with valid writable Some show thesis by (rule replayed)
  qed
qed
section \<open>What stays of a committed request\<close>

definition event_core :: "event_row \<Rightarrow> event_row" where
  "event_core row = row\<lparr>er_published := True\<rparr>"

definition audit_core :: "audit_row \<Rightarrow> audit_row" where
  "audit_core row = row\<lparr>au_persisted := True\<rparr>"

text \<open>All that the answer to a repeated request is computed from.\<close>

definition request_record ::
    "storage_db \<Rightarrow> receipt_identity \<Rightarrow> receipt_row option \<times> audit_row option \<times> event_row list" where
  "request_record db identity =
     (prior_receipt db identity, map_option audit_core (tbl_find au_identity identity (st_audit db)),
      map event_core (filter (\<lambda>row. er_identity row = identity) (st_outbox db)))"

definition requests_kept :: "storage_db \<Rightarrow> storage_db \<Rightarrow> bool" where
  "requests_kept db db' \<longleftrightarrow> st_writable db' = st_writable db \<and>
     (\<forall>identity. prior_receipt db identity \<noteq> None \<longrightarrow> request_record db' identity = request_record db identity)"

text \<open>An audit event belongs to a committed request (a foreign key of the schema).\<close>

definition audit_owned :: "storage_db \<Rightarrow> bool" where
  "audit_owned db \<longleftrightarrow> (\<forall>a \<in> set (st_audit db). prior_receipt db (au_identity a) \<noteq> None)"

lemma event_of_row_core [simp]: "event_of_row cx (event_core row) = event_of_row cx row"
  by (simp add: event_of_row_def event_core_def stored_public_context_def cong del: option.case_cong_weak)

lemma sort_key_map_core:
  "(\<And>x. k (f x) = k x) \<Longrightarrow> sort_key k (map f xs) = map f (sort_key k xs)"
proof (induction xs)
  case (Cons x xs)
  have "insort_key k (f x) (map f ys) = map f (insort_key k x ys)" for ys
    using Cons.prems by (induction ys) auto
  with Cons show ?case by simp
qed simp

lemma receipt_events_record:
  "receipt_events cx db identity = collect_results (map (event_of_row cx)
     (sort_key er_sequence (snd (snd (request_record db identity)))))"
proof -
  have "er_sequence (event_core row) = er_sequence row" for row by (simp add: event_core_def)
  then have "sort_key er_sequence (map event_core rows) = map event_core (sort_key er_sequence rows)" for rows
    by (rule sort_key_map_core)
  then show ?thesis by (simp add: receipt_events_def request_record_def o_def)
qed

lemma load_audit_record:
  "load_pending_audit_event db identity = (case fst (snd (request_record db identity)) of
     None \<Rightarrow> Inr None
   | Some row \<Rightarrow> rbind (PendingAuditEvent_new (au_event_id row) (au_payload row)) (\<lambda>e. Inr (Some e)))"
  by (cases "tbl_find au_identity identity (st_audit db)")
    (simp_all add: load_pending_audit_event_def request_record_def audit_core_def)

lemma replay_receipt_record:
  "request_record db' (sc_receipt_identity c) = request_record db (sc_receipt_identity c) \<Longrightarrow>
     replay_receipt cx db' c prior = replay_receipt cx db c prior"
  by (simp add: replay_receipt_def replay_stored_receipt_def receipt_events_record load_audit_record
    cong del: if_weak_cong option.case_cong_weak)

lemma prior_receipt_record: "prior_receipt db identity = fst (request_record db identity)"
  by (simp add: request_record_def)

lemma requests_kept_refl: "requests_kept db db"
  by (simp add: requests_kept_def)

lemma requests_kept_trans: "requests_kept a b \<Longrightarrow> requests_kept b c \<Longrightarrow> requests_kept a c"
  by (simp add: requests_kept_def prior_receipt_record)

lemma fresh_commit_keeps:
  assumes "write_state_commit cx db c revision = Inr db'"
  shows "requests_kept db db'"
proof -
  note t = write_state_commit_tables [OF assms]
  have "request_record db' i = request_record db i" if "prior_receipt db i \<noteq> None" for i
  proof -
    from t(6) obtain rows where rows: "st_outbox db' = st_outbox db @ rows"
      "\<forall>r \<in> set rows. er_identity r = sc_receipt_identity c" by blast
    have ne: "i \<noteq> sc_receipt_identity c" using that t(1) by auto
    have "prior_receipt db' i = prior_receipt db i"
      using ne that by (cases "prior_receipt db i")
        (auto simp: prior_receipt_def t(4) tbl_find_append receipt_of_commit_def)
    moreover have "tbl_find au_identity i (st_audit db') = tbl_find au_identity i (st_audit db)"
      using ne by (cases "tbl_find au_identity i (st_audit db)"; cases "sc_pending_audit_event c")
        (simp_all add: t(5) tbl_find_append audit_rows_of_commit_def)
    moreover have "filter (\<lambda>row. er_identity row = i) rows = []"
      using rows(2) ne by (auto simp: filter_empty_conv)
    ultimately show ?thesis by (simp add: request_record_def rows(1))
  qed
  then show ?thesis by (simp add: requests_kept_def t(2))
qed

lemma mark_published_keeps:
  assumes "mark_published db event_id = Inr db'"
  shows "requests_kept db db'" and "audit_owned db \<Longrightarrow> audit_owned db'"
proof -
  from assms have db': "db' = db\<lparr>st_outbox := tbl_update (\<lambda>r. er_event_id r = event_id)
      (\<lambda>r. r\<lparr>er_published := True\<rparr>) (st_outbox db)\<rparr>"
    by (auto simp: mark_published_def rbind_Inr_iff split: if_splits)
  have "map event_core (filter (\<lambda>row. er_identity row = i)
      (tbl_update (\<lambda>r. er_event_id r = event_id) (\<lambda>r. r\<lparr>er_published := True\<rparr>) rows)) =
    map event_core (filter (\<lambda>row. er_identity row = i) rows)" for i rows
    by (induction rows) (simp_all add: tbl_update_def event_core_def)
  then show "requests_kept db db'" by (simp add: requests_kept_def request_record_def prior_receipt_def db')
  show "audit_owned db \<Longrightarrow> audit_owned db'" by (simp add: audit_owned_def db' prior_receipt_def)
qed

lemma mark_audit_keeps:
  assumes "mark_audit_event_persisted db event_id = Inr db'"
  shows "requests_kept db db'" and "audit_owned db \<Longrightarrow> audit_owned db'"
proof -
  from assms have db': "db' = db\<lparr>st_audit := tbl_update (\<lambda>r. au_event_id r = event_id)
      (\<lambda>r. r\<lparr>au_persisted := True\<rparr>) (st_audit db)\<rparr>"
    by (auto simp: mark_audit_event_persisted_def rbind_Inr_iff split: if_splits)
  have "map_option audit_core (tbl_find au_identity i
      (tbl_update (\<lambda>r. au_event_id r = event_id) (\<lambda>r. r\<lparr>au_persisted := True\<rparr>) rows)) =
    map_option audit_core (tbl_find au_identity i rows)" for i rows
    by (induction rows) (simp_all add: tbl_update_def audit_core_def)
  then show "requests_kept db db'" by (simp add: requests_kept_def request_record_def prior_receipt_def db')
  show "audit_owned db \<Longrightarrow> audit_owned db'"
    by (auto simp: audit_owned_def db' prior_receipt_def set_update)
qed

lemma fresh_commit_owned:
  assumes "write_state_commit cx db c revision = Inr db'" and "audit_owned db"
  shows "audit_owned db'"
proof -
  note t = write_state_commit_tables [OF assms(1)]
  have "prior_receipt db' (au_identity a) \<noteq> None" if "a \<in> set (st_audit db')" for a
  proof (cases "a \<in> set (st_audit db)")
    case True
    then obtain p where "prior_receipt db (au_identity a) = Some p" using assms(2) by (auto simp: audit_owned_def)
    then show ?thesis by (simp add: prior_receipt_def t(4) tbl_find_append)
  next
    case False
    with that have "a \<in> set (audit_rows_of_commit c)" by (simp add: t(5))
    then have "au_identity a = sc_receipt_identity c"
      by (cases "sc_pending_audit_event c") (auto simp: audit_rows_of_commit_def)
    then show ?thesis by (simp add: prior_receipt_def t(4) tbl_find_append receipt_of_commit_def split: option.splits)
  qed
  then show ?thesis by (simp add: audit_owned_def)
qed

interpretation requests: preordered_machine "storage_step cx" audit_owned requests_kept
proof
  fix db op db'
  assume inv: "audit_owned db" and step: "storage_step cx db op = Inr db'"
  have "requests_kept db db' \<and> audit_owned db'"
  proof (cases op)
    case (CommitOp c)
    with step obtain r where "commit cx db c = Inr (r, db')" by (auto simp: result_simps)
    then show ?thesis
      by (cases rule: commit_Inr_cases)
        (auto simp: requests_kept_refl inv elim!: append_state_commit_Inr
          intro: fresh_commit_keeps fresh_commit_owned)
  qed (use step inv mark_published_keeps mark_audit_keeps in auto)
  then show "audit_owned db'" and "requests_kept db db'" by simp_all
qed (auto intro: requests_kept_refl requests_kept_trans)
section \<open>The answer to a repeated request\<close>

lemma committed_request:
  assumes "commit cx db0 c = Inr (r, db)" and "audit_owned db0"
  obtains prior where "st_writable db" and "prior_receipt db (sc_receipt_identity c) = Some prior"
    and "cr_command_digest prior = sc_command_digest c"
    and "load_pending_audit_event db (sc_receipt_identity c) = Inr (sc_pending_audit_event c)"
    and "replay_stored_receipt cx db (sc_receipt_identity c) (sc_command_digest c) prior =
           Inr (r\<lparr>ct_idempotent_replay := True\<rparr>)"
  using assms(1)
proof (cases rule: commit_Inr_cases)
  case (replayed prior)
  then have "load_pending_audit_event db0 (sc_receipt_identity c) = Inr (sc_pending_audit_event c)"
    and again: "replay_stored_receipt cx db0 (sc_receipt_identity c) (sc_command_digest c) prior = Inr r"
    by (auto simp: replay_receipt_def rbind_Inr_iff split: if_splits)
  moreover from again have "cr_command_digest prior = sc_command_digest c" and "r = r\<lparr>ct_idempotent_replay := True\<rparr>"
    by (auto simp: replay_stored_receipt_def result_simps split: if_splits)
  ultimately show thesis using that [of prior] replayed by simp
next
  case fresh
  from fresh(8) obtain revision n where w: "write_state_commit cx db0 c revision = Inr db"
    "u64_of_i64 revision = Some n" "receipt_events cx db (sc_receipt_identity c) = Inr (ct_events r)"
    "r = \<lparr>ct_receipt_identity = sc_receipt_identity c, ct_command_digest = sc_command_digest c,
       ct_stream_id = sc_stream_id c, ct_revision = n, ct_events = ct_events r, ct_idempotent_replay = False\<rparr>"
    by (rule append_state_commit_Inr)
  note t = write_state_commit_tables [OF w(1)]
  have no_audit: "tbl_find au_identity (sc_receipt_identity c) (st_audit db0) = None"
    using assms(2) fresh(3) by (auto simp: audit_owned_def tbl_find_None_iff)
  have "load_pending_audit_event db (sc_receipt_identity c) = Inr (sc_pending_audit_event c)"
  proof (cases "sc_pending_audit_event c")
    case (Some e)
    with fresh(1) have "validate_audit_event e = Inr ()" by (simp add: validate_commit_def result_simps)
    then have "PendingAuditEvent_new (pa_event_id e) (pa_payload e) = Inr e"
      by (simp add: PendingAuditEvent_new_def Let_def validate_audit_event_def)
    with Some show ?thesis
      by (simp add: load_pending_audit_event_def t(5) tbl_find_append no_audit audit_rows_of_commit_def)
  qed (simp add: load_pending_audit_event_def t(5) tbl_find_append no_audit audit_rows_of_commit_def)
  moreover have "prior_receipt db (sc_receipt_identity c) = Some (receipt_of_commit c revision)"
    using t(1) by (simp add: prior_receipt_def t(4) tbl_find_append receipt_of_commit_def)
  moreover have "replay_stored_receipt cx db (sc_receipt_identity c) (sc_command_digest c)
      (receipt_of_commit c revision) = Inr (r\<lparr>ct_idempotent_replay := True\<rparr>)"
    by (subst w(4)) (simp add: replay_stored_receipt_def receipt_of_commit_def w(2,3))
  ultimately show thesis using that [of "receipt_of_commit c revision"] fresh(2) t(2)
    by (simp add: receipt_of_commit_def)
qed

lemma audit_owned_reachable: "audit_owned (run_ops (storage_step cx) empty_db ops)"
  by (rule requests.run_inv) (simp add: audit_owned_def empty_db_def)

text \<open>
  C2. Commands take effect at most once. Once a command was committed, the same request
  identity gets the same receipt back, event by event and marked as a replay, after any further operations
  of the store, and the repeated commit changes nothing; the same identity with another command digest
  or another audit event is refused as a conflict.
\<close>

theorem commit_replays_exactly:
  assumes "commit cx (run_ops (storage_step cx) empty_db before) c = Inr (r, db)"
    and "validate_commit again = Inr ()"
    and "sc_receipt_identity again = sc_receipt_identity c"
  shows "commit cx (run_ops (storage_step cx) db later) again =
    (if sc_command_digest again = sc_command_digest c
        \<and> sc_pending_audit_event again = sc_pending_audit_event c
     then Inr (r\<lparr>ct_idempotent_replay := True\<rparr>, run_ops (storage_step cx) db later)
     else Inl (request_conflict (ri_request_id (sc_receipt_identity c))))"
proof -
  let ?i = "sc_receipt_identity c" and ?db = "run_ops (storage_step cx) db later"
  obtain prior where p: "st_writable db" "prior_receipt db ?i = Some prior"
    "cr_command_digest prior = sc_command_digest c"
    "load_pending_audit_event db ?i = Inr (sc_pending_audit_event c)"
    "replay_stored_receipt cx db ?i (sc_command_digest c) prior = Inr (r\<lparr>ct_idempotent_replay := True\<rparr>)"
    by (rule committed_request [OF assms(1) audit_owned_reachable])
  have "audit_owned db"
    using assms(1) requests.step_inv [OF audit_owned_reachable [of cx before], of cx "CommitOp c" db] by simp
  then have kept: "requests_kept db ?db" by (rule requests.run_le)
  with p(2) have same: "request_record ?db ?i = request_record db ?i" by (simp add: requests_kept_def)
  then have prior: "prior_receipt ?db ?i = Some prior" using p(2) by (simp add: prior_receipt_record)
  have "replay_receipt cx ?db again prior = replay_receipt cx db again prior"
    using same by (intro replay_receipt_record) (simp add: assms(3))
  also have "\<dots> = (if sc_command_digest again = sc_command_digest c
        \<and> sc_pending_audit_event again = sc_pending_audit_event c
      then Inr (r\<lparr>ct_idempotent_replay := True\<rparr>) else Inl (request_conflict (ri_request_id ?i)))"
    using p(3,4,5) by (auto simp: replay_receipt_def assms(3) replay_stored_receipt_def)
  finally have "replay_receipt cx ?db again prior = \<dots>" .
  moreover have "st_writable ?db" using kept p(1) by (simp add: requests_kept_def)
  ultimately show ?thesis
    by (simp add: commit_def connection_mut_def commit_in_transaction_def assms(2,3) prior
      commit_in_transaction_with_claim_authority_def)
qed
section \<open>A concrete store\<close>

definition sample_cx :: context_codec where
  "sample_cx = \<lparr>cx_scope_to_vec = \<lambda>_. Inr [], cx_stream_to_vec = \<lambda>_. Inr [],
     cx_occurred_at_to_vec = Inr, cx_source_to_vec = \<lambda>_. Inr [],
     cx_scope_from_slice = \<lambda>_. Inl [], cx_stream_from_slice = \<lambda>_. Inl [],
     cx_occurred_at_from_slice = Inr, cx_source_from_slice = \<lambda>_. Inl [],
     cx_sha256_hex = \<lambda>_. replicate 64 CHR ''0''\<rparr>"

definition sample_identity :: "string \<Rightarrow> receipt_identity" where
  "sample_identity request = \<lparr>ri_actor_key = ''a'', ri_scope_key = ''s'', ri_request_id = request\<rparr>"

definition sample_commit :: "string \<Rightarrow> u64 \<Rightarrow> string \<Rightarrow> state_commit" where
  "sample_commit request expected event_id =
     (StateCommit_new (sample_identity request) (''sha256:'' @ replicate 64 CHR ''a'') ''stream'' expected ''state''
       [internal_event event_id ''topic'' ''payload''])
     \<lparr>sc_pending_audit_event := Some \<lparr>pa_event_id = ''audit-'' @ event_id, pa_payload = ''p''\<rparr>\<rparr>"

lemma sample_digest: "validate_sha256_digest (''sha256:'' @ replicate 64 CHR ''a'') = Inr ()"
  by (simp add: validate_sha256_digest_def strip_prefix_def list_all_iff is_ascii_digit_def byte_def)

lemma sample_commit_valid:
  "event_id \<noteq> [] \<Longrightarrow> expected \<le> 2 ^ 63 - 1 \<Longrightarrow> validate_commit (sample_commit q expected event_id) = Inr ()"
  unfolding validate_commit_def
  by (simp add: check_all.simps ensure_def not_less sample_commit_def StateCommit_new_def sample_digest [simplified]
    validate_secondary_states_def all_state_mutations_def validate_audit_event_def validate_event_def
    internal_event_def MAX_STATE_MUTATIONS_PER_COMMIT_def MAX_STATE_MUTATION_BYTES_PER_COMMIT_def)

lemma sample_commit_fields [simp]:
  "sc_receipt_identity (sample_commit q n e) = sample_identity q" "sc_receipt_replay_required (sample_commit q n e) = False"
  "sc_state_guards (sample_commit q n e) = []" "all_state_mutations (sample_commit q n e) = []"
  "sc_immutable_state_import (sample_commit q n e) = None"
  by (simp_all add: sample_commit_def StateCommit_new_def all_state_mutations_def)

lemma sample_commit_runs:
  assumes "event_id \<noteq> []"
  obtains r db where "commit sample_cx empty_db (sample_commit q 0 event_id) = Inr (r, db)"
proof -
  have "\<exists>r db. append_state_commit sample_cx empty_db (sample_commit q 0 event_id) = Inr (r, db)"
    by (simp add: append_state_commit_def stored_state_revision_def empty_db_def u64_of_i64_def
      next_state_revision_def i64_of_u64_def write_state_commit_def sample_commit_def StateCommit_new_def
      all_state_mutations_def append_receipt_def prior_receipt_def append_pending_audit_event_def
      append_outbox_event_def transpose_def internal_event_def insert_event_row_def new_event_row_def
      receipt_events_def event_of_row_def stored_projection_cursor_def stored_public_context_def
      upsert_state_def tbl_upsert_with_def event_row_key_def)
  then obtain r db where "append_state_commit sample_cx empty_db (sample_commit q 0 event_id) = Inr (r, db)" by blast
  then have "commit sample_cx empty_db (sample_commit q 0 event_id) = Inr (r, db)"
    by (simp add: commit_def sample_commit_valid [OF assms] connection_mut_def commit_in_transaction_def
      commit_in_transaction_with_claim_authority_def prior_receipt_def empty_db_def
      control_plane_command_claim_exists_def check_state_revision_guards_def check_state_mutation_revisions_def
      check_import_source_def check_all.simps)
  then show thesis by (rule that)
qed

theorem commit_replays_exactly_witness:
  "\<exists>r db. commit sample_cx (run_ops (storage_step sample_cx) empty_db []) (sample_commit ''r1'' 0 ''e1'') = Inr (r, db)
     \<and> commit sample_cx (run_ops (storage_step sample_cx) db
            [MarkPublishedOp ''e1'', CommitOp (sample_commit ''r2'' 1 ''e2''), MarkAuditOp ''audit-e1''])
          (sample_commit ''r1'' 0 ''e1'') =
       Inr (r\<lparr>ct_idempotent_replay := True\<rparr>, run_ops (storage_step sample_cx) db
            [MarkPublishedOp ''e1'', CommitOp (sample_commit ''r2'' 1 ''e2''), MarkAuditOp ''audit-e1''])"
proof -
  obtain r db where "commit sample_cx empty_db (sample_commit ''r1'' 0 ''e1'') = Inr (r, db)"
    by (rule sample_commit_runs [of "''e1''" "''r1''"]) simp
  then have run: "commit sample_cx (run_ops (storage_step sample_cx) empty_db []) (sample_commit ''r1'' 0 ''e1'') =
    Inr (r, db)" by simp
  have valid: "validate_commit (sample_commit ''r1'' 0 ''e1'') = Inr ()" by (rule sample_commit_valid) simp_all
  show ?thesis
    by (intro exI conjI) (rule run, use commit_replays_exactly [OF run valid refl] in
      \<open>simp del: run_ops.simps\<close>)
qed

end
