(* ===== verification/Storage_Reads.thy ===== *)
theory Storage_Reads
  imports Storage_Commit
begin

text \<open>
  \<^verbatim>\<open>crates/winwincode-storage/src/lib.rs\<close>, fourth part: the reads beside the commit. The receipt of a
  stream's revision, one durable event with its owner, scans and bounded directories of the states,
  and the cursors by which a client follows a projection stream.
\<close>

section \<open>Receipts and events\<close>

definition load_receipt_for_stream_revision ::
    "context_codec \<Rightarrow> storage_db \<Rightarrow> string \<Rightarrow> u64 \<Rightarrow> storage_error + commit_receipt option" where
  "load_receipt_for_stream_revision cx db stream_id revision =
     rbind (ensure (\<not> (stream_id = [] \<or> revision = 0))
       (storage_invalid ''receipt stream revision lookup is invalid'')) (\<lambda>_.
     rbind (ok_or (i64_of_u64 revision)
       (storage_invalid ''receipt stream revision exceeds the SQLite range'')) (\<lambda>n.
     case filter (\<lambda>r. cr_stream_id r = stream_id \<and> cr_revision r = n) (st_receipts db) of
       [] \<Rightarrow> Inr None
     | [row] \<Rightarrow>
         rbind (actor_key_from_encoded (ri_actor_key (cr_identity row))) (\<lambda>actor_key.
         rbind (scope_key_from_encoded (ri_scope_key (cr_identity row))) (\<lambda>scope_key.
         rbind (ReceiptIdentity_new actor_key scope_key (ri_request_id (cr_identity row))) (\<lambda>identity.
         rbind (validate_sha256_digest (cr_command_digest row)) (\<lambda>_.
         rbind (replay_stored_receipt cx db identity (cr_command_digest row)
           \<lparr>cr_identity = identity, cr_command_digest = cr_command_digest row, cr_stream_id = stream_id,
            cr_revision = n\<rparr>) (\<lambda>r. Inr (Some r))))))
     | _ \<Rightarrow> Inl (storage_adapter ''state stream revision has multiple durable command receipts'')))"

record durable_outbox_event =
  do_event :: outbox_event
  do_receipt_identity :: receipt_identity
  do_command_digest :: string
  do_stream_id :: string
  do_revision :: u64

definition require_event_owned_by_receipt ::
    "context_codec \<Rightarrow> storage_db \<Rightarrow> receipt_identity \<Rightarrow> outbox_event \<Rightarrow> storage_error + unit" where
  "require_event_owned_by_receipt cx db identity e =
     rbind (receipt_events cx db identity) (\<lambda>events.
     case filter (\<lambda>candidate. oe_event_id candidate = oe_event_id e) events of
       [receipt_event] \<Rightarrow>
         ensure (receipt_event = e) (storage_adapter ''durable outbox event differs from its receipt event'')
     | _ \<Rightarrow> Inl (storage_adapter ''durable outbox event is not owned exactly once by its receipt''))"

definition into_durable ::
    "context_codec \<Rightarrow> storage_db \<Rightarrow> event_row \<Rightarrow> receipt_row \<Rightarrow> storage_error + durable_outbox_event" where
  "into_durable cx db row receipt =
     rbind (scope_key_from_encoded (ri_scope_key (er_identity row))) (\<lambda>scope_key.
     rbind (actor_key_from_encoded (ri_actor_key (er_identity row))) (\<lambda>actor_key.
     rbind (event_of_row cx row) (\<lambda>e.
     rbind (ReceiptIdentity_new actor_key scope_key (ri_request_id (er_identity row))) (\<lambda>identity.
     rbind (require_event_owned_by_receipt cx db identity e) (\<lambda>_.
     rbind (validate_sha256_digest (cr_command_digest receipt)) (\<lambda>_.
     rbind (ok_or (u64_of_i64 (cr_revision receipt))
       (storage_adapter ''stored receipt revision is negative'')) (\<lambda>revision.
     Inr \<lparr>do_event = e, do_receipt_identity = identity, do_command_digest = cr_command_digest receipt,
          do_stream_id = cr_stream_id receipt, do_revision = revision\<rparr>)))))))"

text \<open>The query joins the event with its receipt; the schema makes both sides of the join unique.\<close>

definition load_outbox_event ::
    "context_codec \<Rightarrow> storage_db \<Rightarrow> string \<Rightarrow> storage_error + durable_outbox_event option" where
  "load_outbox_event cx db event_id =
     rbind (ensure (event_id \<noteq> []) (storage_invalid ''event_id must not be empty'')) (\<lambda>_.
     case tbl_find er_event_id event_id (st_outbox db) of
       None \<Rightarrow> Inr None
     | Some row \<Rightarrow>
         (case prior_receipt db (er_identity row) of
            None \<Rightarrow> Inr None
          | Some receipt \<Rightarrow> rbind (into_durable cx db row receipt) (\<lambda>d. Inr (Some d))))"

section \<open>States\<close>

definition MAX_STATE_STREAM_SCAN_LIMIT :: nat where "MAX_STATE_STREAM_SCAN_LIMIT = 512"

definition starts_with :: "string \<Rightarrow> string \<Rightarrow> bool" where
  "starts_with p s \<longleftrightarrow> take (length p) s = p"

definition is_ascii :: "string \<Rightarrow> bool" where
  "is_ascii s \<longleftrightarrow> list_all (\<lambda>c. byte c < 128) s"

definition validate_state_scan_prefix :: "string \<Rightarrow> storage_error + unit" where
  "validate_state_scan_prefix prefix =
     ensure (\<not> (prefix = [] \<or> length prefix > 200 \<or> \<not> is_ascii prefix \<or> \<not> portable_event_key prefix))
       (storage_invalid ''state stream scan prefix is invalid'')"

definition validate_state_scan :: "string \<Rightarrow> string \<Rightarrow> string \<Rightarrow> nat \<Rightarrow> storage_error + unit" where
  "validate_state_scan prefix after upper_bound limit =
     rbind (validate_state_scan_prefix prefix) (\<lambda>_.
     ensure (\<not> (after \<noteq> [] \<and> (\<not> starts_with prefix after \<or> \<not> portable_event_key after)
         \<or> \<not> starts_with prefix upper_bound \<or> \<not> portable_event_key upper_bound \<or> after > upper_bound
         \<or> \<not> (1 \<le> limit \<and> limit \<le> MAX_STATE_STREAM_SCAN_LIMIT)))
       (storage_invalid ''state stream scan bounds are invalid''))"

definition stored_state_of_row :: "state_row \<Rightarrow> storage_error + stored_state" where
  "stored_state_of_row row =
     rbind (ok_or (u64_of_i64 (sr_revision row)) (storage_adapter ''stored revision is negative'')) (\<lambda>n.
     Inr \<lparr>ss_stream_id = sr_stream_id row, ss_revision = n, ss_payload = sr_payload row\<rparr>)"

text \<open>\<^verbatim>\<open>WHERE substr(stream_id, 1, length(?1)) = ?1 ... ORDER BY stream_id\<close>; the prefix is ASCII.\<close>

definition states_with_prefix :: "storage_db \<Rightarrow> string \<Rightarrow> state_row list" where
  "states_with_prefix db prefix =
     sort_key sr_stream_id (filter (\<lambda>r. starts_with prefix (sr_stream_id r)) (st_states db))"

definition last_state_stream_id :: "storage_db \<Rightarrow> string \<Rightarrow> storage_error + string option" where
  "last_state_stream_id db prefix =
     rbind (validate_state_scan_prefix prefix) (\<lambda>_.
     Inr (case rev (states_with_prefix db prefix) of [] \<Rightarrow> None | r # _ \<Rightarrow> Some (sr_stream_id r)))"

definition scan_state_streams ::
    "storage_db \<Rightarrow> string \<Rightarrow> string \<Rightarrow> string \<Rightarrow> nat \<Rightarrow> storage_error + stored_state list" where
  "scan_state_streams db prefix after upper_bound limit =
     rbind (validate_state_scan prefix after upper_bound limit) (\<lambda>_.
     collect_results (map stored_state_of_row
       (take limit (filter (\<lambda>r. after < sr_stream_id r \<and> sr_stream_id r \<le> upper_bound)
         (states_with_prefix db prefix)))))"

record stored_state_directory_entry =
  sd_stream_id :: string
  sd_revision :: u64
  sd_payload_sha256 :: string

fun directory_rows ::
    "context_codec \<Rightarrow> nat \<Rightarrow> nat \<Rightarrow> nat \<Rightarrow> nat \<Rightarrow> state_row list \<Rightarrow>
     storage_error + stored_state_directory_entry list" where
  "directory_rows cx max_entries max_payload_bytes count n_bytes [] = Inr []"
| "directory_rows cx max_entries max_payload_bytes count n_bytes (row # rows) =
     (if count = max_entries then Inl (storage_invalid ''state directory exceeds its bounded entry limit'')
      else
        let n_bytes' = n_bytes + length (sr_payload row) in
        if \<not> n_bytes' < 2 ^ 64 then Inl (storage_invalid ''state directory payload bound overflowed'')
        else if n_bytes' > max_payload_bytes
        then Inl (storage_invalid ''state directory exceeds its bounded payload limit'')
        else
          rbind (ok_or (u64_of_i64 (sr_revision row)) (storage_adapter ''stored revision is negative'')) (\<lambda>n.
          rbind (directory_rows cx max_entries max_payload_bytes (Suc count) n_bytes' rows) (\<lambda>rest.
          Inr (\<lparr>sd_stream_id = sr_stream_id row, sd_revision = n,
                sd_payload_sha256 = ''sha256:'' @ cx_sha256_hex cx (sr_payload row)\<rparr> # rest))))"

definition load_bounded_state_directory ::
    "context_codec \<Rightarrow> storage_db \<Rightarrow> string \<Rightarrow> u64 option \<Rightarrow> nat \<Rightarrow> nat \<Rightarrow>
     storage_error + stored_state_directory_entry list" where
  "load_bounded_state_directory cx db prefix revision max_entries max_payload_bytes =
     rbind (validate_state_scan_prefix prefix) (\<lambda>_.
     rbind (ensure (\<not> (max_entries = 0 \<or> max_payload_bytes = 0 \<or> revision = Some 0))
       (storage_invalid ''state directory revision and bounds must be positive'')) (\<lambda>_.
     rbind (ensure (max_entries + 1 < 2 ^ 63) (storage_invalid ''state directory entry bound is invalid'')) (\<lambda>_.
     rbind (transpose (\<lambda>n. ok_or (i64_of_u64 n) (storage_invalid ''state directory revision is invalid''))
       revision) (\<lambda>revision.
     directory_rows cx max_entries max_payload_bytes 0 0
       (take (max_entries + 1)
         (filter (\<lambda>r. revision = None \<or> revision = Some (sr_revision r)) (states_with_prefix db prefix)))))))"

section \<open>Cursors\<close>

definition event_cursor_expired :: storage_error where
  "event_cursor_expired =
     storage_failure EventCursorExpired ''projection event cursor is outside the retained stream window''"

definition head_key_of_stream_key :: "projection_event_stream_key \<Rightarrow> head_key" where
  "head_key_of_stream_key key = (pk_scope_key key, stream_kind (pk_stream key), stream_resource_id (pk_stream key))"

definition load_projection_stream_head ::
    "storage_db \<Rightarrow> projection_event_stream_key \<Rightarrow> storage_error + (u64 \<times> string) option" where
  "load_projection_stream_head db key =
     transpose (\<lambda>row. rbind (ok_or (u64_of_i64 (hr_sequence row)) (storage_adapter ''event sequence is negative''))
         (\<lambda>n. Inr (n, hr_event_id row)))
       (tbl_find hr_key (head_key_of_stream_key key) (st_heads db))"

definition load_projection_event_cursor ::
    "storage_db \<Rightarrow> projection_event_stream_key \<Rightarrow> projection_event_cursor option \<Rightarrow>
     storage_error + projection_event_cursor" where
  "load_projection_event_cursor db key expected =
     rbind (validate_stream (pk_stream key)) (\<lambda>_.
     case expected of
       Some expected \<Rightarrow>
         if pv_key expected \<noteq> key
         then Inl (storage_invalid ''projection event cursor belongs to another scope or stream'')
         else if pv_sequence expected = 0 then cursor_try_new key 0 None
         else
           rbind (ok_or (i64_of_u64 (pv_sequence expected))
             (storage_invalid ''projection event sequence is out of range'')) (\<lambda>n.
           case find (\<lambda>r. event_row_key r = Some (head_key_of_stream_key key, n)) (st_outbox db) of
             None \<Rightarrow>
               rbind (load_projection_stream_head db key) (\<lambda>head.
               case head of
                 None \<Rightarrow> Inl (storage_invalid ''projection event cursor was never issued for this stream'')
               | Some (head_sequence, _) \<Rightarrow>
                   if pv_sequence expected > head_sequence
                   then Inl (storage_invalid ''projection event cursor is beyond the durable stream head'')
                   else Inl event_cursor_expired)
           | Some row \<Rightarrow>
               if pv_event_id expected \<noteq> Some (er_event_id row)
               then Inl (storage_invalid ''projection event cursor eventId does not match its stored position'')
               else cursor_try_new key (pv_sequence expected) (pv_event_id expected))
     | None \<Rightarrow>
         rbind (load_projection_stream_head db key) (\<lambda>head.
         case head of
           Some (sequence, event_id) \<Rightarrow> cursor_try_new key sequence (Some event_id)
         | None \<Rightarrow> cursor_try_new key 0 None))"

record projection_read_cut =
  cut_states :: "stored_state list"
  cut_cursor :: projection_event_cursor

definition load_projection_read_cut ::
    "storage_db \<Rightarrow> string list \<Rightarrow> projection_event_stream_key \<Rightarrow> projection_event_cursor option \<Rightarrow>
     storage_error + projection_read_cut" where
  "load_projection_read_cut db state_stream_ids key expected =
     rbind (collect_results (map (load_state db) state_stream_ids)) (\<lambda>states.
     rbind (load_projection_event_cursor db key expected) (\<lambda>cursor.
     Inr \<lparr>cut_states = List.map_filter (\<lambda>s. s) states, cut_cursor = cursor\<rparr>))"

end
