(* ===== verification/Storage_States.thy ===== *)
theory Storage_States
  imports Storage_Replay Storage_Reads
begin

text \<open>
  The states of the store as a map from streams to revisions and payloads, and the commit as a
  multi-key compare-and-set on that map. The invariants of the tables under every sequence of operations:
  revisions and receipts, journals, outbox and projection streams.
\<close>

section \<open>Compare and set\<close>

type_synonym state_view = "string \<rightharpoonup> int \<times> string"

definition state_view :: "storage_db \<Rightarrow> state_view" where
  "state_view db = (\<lambda>s. map_option (\<lambda>r. (sr_revision r, sr_payload r)) (tbl_find sr_stream_id s (st_states db)))"

definition revision_in :: "state_view \<Rightarrow> string \<Rightarrow> int" where
  "revision_in view s = (case view s of None \<Rightarrow> 0 | Some (n, _) \<Rightarrow> n)"

definition guard_set :: "state_commit \<Rightarrow> (string \<times> u64) list" where
  "guard_set c = map (\<lambda>g. (sg_stream_id g, sg_expected_revision g)) (sc_state_guards c)"

definition mutation_write :: "state_mutation \<Rightarrow> string \<times> u64 \<times> string" where
  "mutation_write m = (sm_stream_id m, sm_expected_revision m, sm_state m)"

definition write_set :: "state_commit \<Rightarrow> (string \<times> u64 \<times> string) list" where
  "write_set c =
     (sc_stream_id c, sc_expected_revision c, sc_state c) # map mutation_write (all_state_mutations c)"

definition written :: "string \<times> u64 \<times> string \<Rightarrow> string \<times> int \<times> string" where
  "written w = (case w of (s, expected, state) \<Rightarrow> (s, uint expected + 1, state))"

text \<open>The specification: all expected revisions hold and all writes happen, or nothing does.\<close>

definition cas_apply ::
    "state_view \<Rightarrow> (string \<times> u64) list \<Rightarrow> (string \<times> u64 \<times> string) list \<Rightarrow> state_view option" where
  "cas_apply view guards writes =
     (if list_all (\<lambda>(s, expected). revision_in view s = uint expected) guards
         \<and> list_all (\<lambda>(s, expected, _). revision_in view s = uint expected) writes
      then Some (view ++ map_of (map written writes)) else None)"

section \<open>Validated commits\<close>

lemma validate_mutations_Inr:
  "validate_mutations stream_id guarded seen ms = Inr () \<Longrightarrow>
     distinct (map sm_stream_id ms) \<and> stream_id \<notin> sm_stream_id ` set ms \<and>
     sm_stream_id ` set ms \<inter> (guarded \<union> seen) = {}"
  by (induction ms arbitrary: seen) (fastforce simp: result_simps)+

lemma validate_mutations_bound:
  "validate_mutations stream_id guarded seen ms = Inr () \<Longrightarrow> m \<in> set ms \<Longrightarrow>
     uint (sm_expected_revision m) < 2 ^ 63 - 1"
proof (induction ms arbitrary: seen)
  case (Cons a ms)
  then have "validate_mutation a = Inr ()" and "validate_mutations stream_id guarded (insert (sm_stream_id a) seen) ms = Inr ()"
    by (simp_all add: rbind_Inr_iff check_all_Inr_iff)
  with Cons show ?case
    by (auto simp: validate_mutation_def check_all_Inr_iff ensure_Inr_iff not_le word_less_def)
qed simp

lemma validate_guards_Inr:
  "validate_guards stream_id seen gs = Inr seen' \<Longrightarrow> seen' = seen \<union> sg_stream_id ` set gs"
  by (induction gs arbitrary: seen) (auto simp: result_simps)

lemma validate_commit_streams:
  assumes "validate_commit c = Inr ()"
  shows "distinct (map sm_stream_id (all_state_mutations c))"
    and "sc_stream_id c \<notin> sm_stream_id ` set (all_state_mutations c)"
    and "sg_stream_id ` set (sc_state_guards c) \<inter> sm_stream_id ` set (all_state_mutations c) = {}"
proof -
  from assms have "validate_secondary_states c = Inr ()"
    by (simp add: validate_commit_def check_all_Inr_iff)
  then obtain guarded where g: "validate_guards (sc_stream_id c) {} (sc_state_guards c) = Inr guarded"
    and m: "validate_mutations (sc_stream_id c) guarded {} (all_state_mutations c) = Inr ()"
    by (auto simp: validate_secondary_states_def rbind_Inr_iff)
  note v = validate_mutations_Inr [OF m]
  from v show "distinct (map sm_stream_id (all_state_mutations c))"
    and "sc_stream_id c \<notin> sm_stream_id ` set (all_state_mutations c)" by simp_all
  from v validate_guards_Inr [OF g]
  show "sg_stream_id ` set (sc_state_guards c) \<inter> sm_stream_id ` set (all_state_mutations c) = {}" by auto
qed

section \<open>The states written\<close>

lemma state_view_upsert:
  "state_view (upsert_state db s n p) = (state_view db)(s \<mapsto> (n, p))"
  by (rule ext) (simp add: state_view_def upsert_state_def tbl_find_upsert)

lemma append_state_mutations_view:
  assumes "append_state_mutations db ms = Inr db'" and "distinct (map sm_stream_id ms)"
  shows "state_view db' = state_view db ++ map_of (map (\<lambda>m. written (mutation_write m)) ms)"
  using assms
proof (induction ms arbitrary: db)
  case (Cons m ms)
  let ?w = "(uint (sm_expected_revision m) + 1, sm_state m)"
  from Cons.prems(1) have "append_state_mutations
      (upsert_state db (sm_stream_id m) (uint (sm_expected_revision m) + 1) (sm_state m)) ms = Inr db'"
    by (auto simp: next_state_revision_def result_simps split: if_splits)
  with Cons.IH Cons.prems(2) have "state_view db' =
      (state_view db)(sm_stream_id m \<mapsto> ?w) ++ map_of (map (\<lambda>m. written (mutation_write m)) ms)"
    by (simp add: state_view_upsert)
  moreover have "map_of (map (\<lambda>m. written (mutation_write m)) ms) (sm_stream_id m) = None"
    using Cons.prems(2) by (auto simp: map_of_eq_None_iff written_def mutation_write_def image_iff)
  ultimately show ?case
    by (auto simp: fun_eq_iff map_add_def written_def mutation_write_def split: option.splits)
qed simp

lemma write_state_commit_view:
  assumes "write_state_commit cx db c revision = Inr db'" and "validate_commit c = Inr ()"
    and "revision = uint (sc_expected_revision c) + 1"
  shows "state_view db' = state_view db ++ map_of (map written (write_set c))"
proof -
  from assms(1) obtain db1 db2 db3 where s:
    "append_state_mutations (upsert_state db (sc_stream_id c) revision (sc_state c)) (all_state_mutations c) = Inr db1"
    "(case sc_journal_publication c of None \<Rightarrow> Inr db1 | Some p \<Rightarrow> append_journal_publication db1 p) = Inr db2"
    "db3 = db2\<lparr>st_receipts := st_receipts db2 @ [receipt_of_commit c revision],
       st_audit := st_audit db2 @ audit_rows_of_commit c\<rparr>"
    "append_outbox_events cx (sc_receipt_identity c) db3 (sc_events c) = Inr db'"
    by (rule write_state_commit_effect)
  note v = validate_commit_streams [OF assms(2)]
  have "st_states db' = st_states db1"
    using publication_frame [OF s(2)] append_outbox_events_frame [OF s(4)] s(3) by auto
  then have "state_view db' = state_view db1" by (simp add: state_view_def)
  also have "\<dots> = (state_view db)(sc_stream_id c \<mapsto> (revision, sc_state c)) ++
      map_of (map (\<lambda>m. written (mutation_write m)) (all_state_mutations c))"
    using append_state_mutations_view [OF s(1) v(1)] by (simp add: state_view_upsert)
  also have "\<dots> = (state_view db ++ map_of (map (\<lambda>m. written (mutation_write m)) (all_state_mutations c)))
      (sc_stream_id c \<mapsto> (revision, sc_state c))"
    using v(2) by (intro map_add_upd_left)
      (auto simp: dom_map_of_conv_image_fst written_def mutation_write_def)
  finally show ?thesis by (simp add: write_set_def assms(3) written_def o_def)
qed
section \<open>Revisions and receipts\<close>

text \<open>
  Every stored revision is a 63-bit number; every receipt names a revision its stream has reached, and
  no two receipts name the same one.
\<close>

definition revisions_ok :: "storage_db \<Rightarrow> bool" where
  "revisions_ok db \<longleftrightarrow>
     (\<forall>s. 0 \<le> revision_in (state_view db) s \<and> revision_in (state_view db) s < 2 ^ 63) \<and>
     distinct (map cr_identity (st_receipts db)) \<and>
     distinct (map (\<lambda>r. (cr_stream_id r, cr_revision r)) (st_receipts db)) \<and>
     (\<forall>r \<in> set (st_receipts db). 1 \<le> cr_revision r \<and> cr_revision r \<le> revision_in (state_view db) (cr_stream_id r))"

lemma stored_state_revision_view:
  assumes "revisions_ok db"
  shows "stored_state_revision db s = Inr (word_of_int (revision_in (state_view db) s))"
    and "uint (word_of_int (revision_in (state_view db) s) :: u64) = revision_in (state_view db) s"
proof -
  let ?n = "revision_in (state_view db) s"
  have n: "0 \<le> ?n" "?n < 2 ^ 63" using assms by (simp_all add: revisions_ok_def)
  have eq: "(case tbl_find sr_stream_id s (st_states db) of None \<Rightarrow> 0 | Some r \<Rightarrow> sr_revision r) = ?n"
    by (simp add: revision_in_def state_view_def split: option.splits)
  from n(1) show "stored_state_revision db s = Inr (word_of_int ?n)"
    unfolding stored_state_revision_def eq by (simp add: u64_of_i64_def)
  from n show "uint (word_of_int ?n :: u64) = ?n"
    by (simp add: uint_word_of_int take_bit_int_eq_self_iff mod_pos_pos_trivial)
qed

lemma stored_state_revision_iff:
  assumes "revisions_ok db"
  shows "stored_state_revision db s = Inr w \<longleftrightarrow> revision_in (state_view db) s = uint w"
  using stored_state_revision_view [OF assms, of s] by (auto simp: word_uint_eq_iff)

lemma check_all_map_iff: "check_all (map f xs) = Inr u \<longleftrightarrow> (\<forall>x \<in> set xs. f x = Inr ())"
  by (auto simp: check_all_Inr_iff)

text \<open>The three revision checks of a fresh commit are the specification's condition.\<close>

lemma revision_checks_iff:
  assumes "revisions_ok db"
  shows "check_state_revision_guards db c = Inr u \<longleftrightarrow>
      list_all (\<lambda>(s, expected). revision_in (state_view db) s = uint expected) (guard_set c)"
    and "check_all (map (check_mutation db) ms) = Inr u \<longleftrightarrow>
      list_all (\<lambda>(s, expected, _). revision_in (state_view db) s = uint expected) (map mutation_write ms)"
proof -
  show "check_state_revision_guards db c = Inr u \<longleftrightarrow>
      list_all (\<lambda>(s, expected). revision_in (state_view db) s = uint expected) (guard_set c)"
    using stored_state_revision_view [OF assms]
    by (simp add: check_state_revision_guards_def check_all_map_iff check_guard_def guard_set_def list_all_iff
      ensure_Inr_iff word_uint_eq_iff)
  show "check_all (map (check_mutation db) ms) = Inr u \<longleftrightarrow>
      list_all (\<lambda>(s, expected, _). revision_in (state_view db) s = uint expected) (map mutation_write ms)"
    using stored_state_revision_view [OF assms]
    by (simp add: check_all_map_iff check_mutation_def mutation_write_def list_all_iff
      ensure_Inr_iff word_uint_eq_iff)
qed

lemma fresh_commit_cas:
  assumes "commit cx db c = Inr (r, db')" and "prior_receipt db (sc_receipt_identity c) = None"
    and "revisions_ok db"
  shows "cas_apply (state_view db) (guard_set c) (write_set c) = Some (state_view db')"
  using assms(1)
proof (cases rule: commit_Inr_cases)
  case fresh
  from fresh(8) obtain revision where a: "stored_state_revision db (sc_stream_id c) = Inr (sc_expected_revision c)"
    "revision = uint (sc_expected_revision c) + 1" "write_state_commit cx db c revision = Inr db'"
    by (rule append_state_commit_Inr)
  have "check_all (map (check_mutation db) (all_state_mutations c)) = Inr ()"
    using fresh(7) by (simp add: check_state_mutation_revisions_def check_all_Inr_iff)
  then show ?thesis
    using fresh(6) a(1) write_state_commit_view [OF a(3) fresh(1) a(2)] assms(3)
    by (simp add: cas_apply_def revision_checks_iff stored_state_revision_iff write_set_def)
qed (use assms(2) in simp)

lemma map_add_written_revision:
  assumes "cas_apply view guards writes = Some view'"
  shows "revision_in view s \<le> revision_in view' s"
    and "s \<in> fst ` set writes \<Longrightarrow> revision_in view' s = revision_in view s + 1"
    and "s \<notin> fst ` set writes \<Longrightarrow> view' s = view s"
proof -
  from assms have exp: "\<And>s e p. (s, e, p) \<in> set writes \<Longrightarrow> revision_in view s = uint e"
    and view': "view' = view ++ map_of (map written writes)"
    by (auto simp: cas_apply_def list_all_iff split: if_splits)
  have keys: "fst ` set (map written writes) = fst ` set writes" by (force simp: written_def image_iff)
  show out: "s \<notin> fst ` set writes \<Longrightarrow> view' s = view s"
    using keys map_of_eq_None_iff [of "map written writes" s] by (simp add: view' map_add_def)
  show step: "s \<in> fst ` set writes \<Longrightarrow> revision_in view' s = revision_in view s + 1"
  proof -
    assume "s \<in> fst ` set writes"
    then obtain n p where m: "map_of (map written writes) s = Some (n, p)"
      using keys map_of_eq_None_iff [of "map written writes" s] by (cases "map_of (map written writes) s") auto
    from map_of_SomeD [OF m] obtain e where "(s, e, p) \<in> set writes" and "n = uint e + 1"
      by (auto simp: written_def)
    with exp m show ?thesis by (simp add: view' revision_in_def map_add_def)
  qed
  show "revision_in view s \<le> revision_in view' s"
    using out step by (cases "s \<in> fst ` set writes") (auto simp: revision_in_def)
qed

lemma fresh_commit_revisions_ok:
  assumes "commit cx db c = Inr (r, db')" and "prior_receipt db (sc_receipt_identity c) = None"
    and "revisions_ok db"
  shows "revisions_ok db'"
  using assms(1)
proof (cases rule: commit_Inr_cases)
  case fresh
  from fresh(8) obtain revision where a: "stored_state_revision db (sc_stream_id c) = Inr (sc_expected_revision c)"
    "revision = uint (sc_expected_revision c) + 1" "revision < 2 ^ 63" "write_state_commit cx db c revision = Inr db'"
    by (rule append_state_commit_Inr)
  note t = write_state_commit_tables [OF a(4)]
  note cas = fresh_commit_cas [OF assms]
  note m = map_add_written_revision [OF cas]
  have new: "revision_in (state_view db') (sc_stream_id c) = revision"
    "revision_in (state_view db) (sc_stream_id c) = revision - 1"
    using m(2) [of "sc_stream_id c"] a(1,2) assms(3) by (simp_all add: write_set_def stored_state_revision_iff)
  have range: "revision_in (state_view db') s < 2 ^ 63" for s
  proof (cases "s \<in> sm_stream_id ` set (all_state_mutations c)")
    case True
    then obtain mu where mu: "mu \<in> set (all_state_mutations c)" "s = sm_stream_id mu" by blast
    have "validate_mutations (sc_stream_id c) (sg_stream_id ` set (sc_state_guards c)) {} (all_state_mutations c) = Inr ()"
      using fresh(1) by (auto simp: validate_commit_def check_all_Inr_iff validate_secondary_states_def rbind_Inr_iff
        dest: validate_guards_Inr)
    then have "uint (sm_expected_revision mu) < 2 ^ 63 - 1"
      using mu(1) validate_mutations_bound by blast
    moreover have "revision_in (state_view db) s = uint (sm_expected_revision mu)"
      using cas mu by (force simp: cas_apply_def write_set_def mutation_write_def list_all_iff split: if_splits)
    moreover have "s \<in> fst ` set (write_set c)" using mu by (force simp: write_set_def mutation_write_def)
    ultimately show ?thesis using m(2) [of s] by simp
  next
    case False
    show ?thesis
    proof (cases "s = sc_stream_id c")
      case True
      with new a(3) show ?thesis by simp
    next
      case other: False
      with False have "s \<notin> fst ` set (write_set c)" by (auto simp: write_set_def mutation_write_def)
      from m(3) [OF this] assms(3) show ?thesis by (simp add: revisions_ok_def revision_in_def)
    qed
  qed
  have lo: "0 \<le> revision_in (state_view db') s" for s
    using m(1) [of s] assms(3) by (auto simp: revisions_ok_def intro: order_trans)
  have old: "1 \<le> cr_revision p \<and> cr_revision p \<le> revision_in (state_view db) (cr_stream_id p)"
    if "p \<in> set (st_receipts db)" for p using that assms(3) by (simp add: revisions_ok_def)
  then have kept: "cr_revision p \<le> revision_in (state_view db') (cr_stream_id p)" if "p \<in> set (st_receipts db)" for p
    using that m(1) [of "cr_stream_id p"] by fastforce
  have "revision \<ge> 1" using a(2) by simp
  moreover have "(sc_stream_id c, revision) \<notin> (\<lambda>r. (cr_stream_id r, cr_revision r)) ` set (st_receipts db)"
    using old new(2) by fastforce
  moreover have "sc_receipt_identity c \<notin> cr_identity ` set (st_receipts db)"
    using assms(2) by (simp add: prior_receipt_def tbl_find_None_iff)
  ultimately show ?thesis
    using assms(3) range lo new(1) kept by (auto simp: revisions_ok_def t(4) receipt_of_commit_def)
qed (use assms(2) in simp)

end
