(* ===== verification/Storage_Streams.thy ===== *)
theory Storage_Streams
  imports Storage_States
begin

text \<open>
  The ordered tables of the store. A journal's records and a projection stream's events are numbered without
  gap from one, the outbox rows in the order of their insertion, and each stream head names the
  last event of its stream. From this follows that a cursor handed to a client never expires.
\<close>

section \<open>Journals\<close>

definition records_of :: "storage_db \<Rightarrow> aggregate_journal_key \<Rightarrow> journal_record_row list" where
  "records_of db key = filter (\<lambda>r. jx_key r = key) (st_journal_records db)"

definition journals_ok :: "storage_db \<Rightarrow> bool" where
  "journals_ok db \<longleftrightarrow> (\<forall>key.
     map jx_sequence (records_of db key) = [1..int (length (records_of db key))] \<and>
     (records_of db key = [] \<longleftrightarrow> tbl_find jo_key key (st_journals db) = None))"

lemma journal_rows_records: "journals_ok db \<Longrightarrow> journal_rows db key = records_of db key"
  unfolding journal_rows_def records_of_def [symmetric] journals_ok_def
  by (intro sort_key_id_if_sorted) simp

lemma upto_int_snoc: "0 \<le> n \<Longrightarrow> [1..n + 1] = [1..n] @ [n + 1]" for n :: int
  by (simp add: upto_rec2)

lemma journals_ok_insert:
  assumes ok: "\<And>k. map jx_sequence (records_of db k) = [1..int (length (records_of db k))]"
    and js: "\<And>k. k \<noteq> key \<Longrightarrow> records_of db k = [] \<longleftrightarrow> tbl_find jo_key k (st_journals db) = None"
    and key: "tbl_find jo_key key (st_journals db) \<noteq> None"
    and ins: "insert_journal_record db key record = Inr db'"
    and next_seq: "uint (jr_sequence record) = int (length (records_of db key)) + 1"
  shows "journals_ok db'"
proof -
  let ?row = "\<lparr>jx_key = key, jx_sequence = uint (jr_sequence record), jx_digest = jr_digest record,
    jx_payload = jr_payload record\<rparr>"
  from ins have db': "db' = db\<lparr>st_journal_records := st_journal_records db @ [?row]\<rparr>"
    by (simp add: insert_journal_record_iff)
  have recs: "records_of db' k = records_of db k @ (if k = key then [?row] else [])" for k
    by (auto simp: records_of_def db')
  show ?thesis unfolding journals_ok_def
  proof (intro allI conjI)
    fix k
    show "map jx_sequence (records_of db' k) = [1..int (length (records_of db' k))]"
      using ok [of k] next_seq upto_int_snoc [of "int (length (records_of db key))"]
      by (simp add: recs add.commute)
    show "records_of db' k = [] \<longleftrightarrow> tbl_find jo_key k (st_journals db') = None"
      using js [of k] key by (simp add: recs) (simp add: db')
  qed
qed

lemma append_journal_publication_ok:
  assumes "append_journal_publication db p = Inr db'" and "validate_publication p = Inr ()" and "journals_ok db"
  shows "journals_ok db'"
proof (cases p)
  case (JournalCreate key manifest first_record)
  let ?db = "db\<lparr>st_journals := st_journals db @ [\<lparr>jo_key = key, jo_manifest = manifest\<rparr>]\<rparr>"
  from assms(1) JournalCreate have none: "tbl_find jo_key key (st_journals db) = None"
    and ins: "insert_journal_record ?db key first_record = Inr db'" by (auto split: if_splits)
  from assms(2) JournalCreate have one: "jr_sequence first_record = 1" by (simp add: check_all_Inr_iff ensure_Inr_iff)
  have same: "records_of ?db k = records_of db k" for k by (simp add: records_of_def)
  have empty: "records_of db key = []" using assms(3) none by (simp add: journals_ok_def)
  show ?thesis
  proof (rule journals_ok_insert [OF _ _ _ ins])
    show "tbl_find jo_key key (st_journals ?db) \<noteq> None" by (simp add: tbl_find_append none)
  qed (use assms(3) one empty none in \<open>auto simp: same journals_ok_def tbl_find_append split: option.splits\<close>)
next
  case (JournalAppend key n digest entry)
  note rows = journal_rows_records [OF assms(3), of key]
  from assms(1) JournalAppend obtain tl_row rest where tl_row: "rev (records_of db key) = tl_row # rest"
    by (cases "rev (records_of db key)") (auto simp: rows)
  with assms(1) JournalAppend have ins: "insert_journal_record db key entry = Inr db'"
    and tail_n: "jx_sequence tl_row = uint n" "uint n < 2 ^ 63"
    by (auto simp: rows rbind_Inr_iff ok_or_Inr_iff i64_of_u64_Some_iff split: if_splits)
  from assms(2) JournalAppend have seq: "jr_sequence entry = saturating_add n 1"
    by (simp add: check_all_Inr_iff ensure_Inr_iff)
  have recs: "records_of db key = rev rest @ [tl_row]" using tl_row by (metis rev.simps(2) rev_rev_ident)
  have "map jx_sequence (records_of db key) = [1..int (length (records_of db key))]"
    using assms(3) by (simp add: journals_ok_def)
  then have "jx_sequence tl_row = int (length (records_of db key))"
    using upto_int_snoc [of "int (length rest)"] by (simp add: recs add.commute)
  then have len: "uint n = int (length (records_of db key))" using tail_n by simp
  have "uint (jr_sequence entry) = uint n + 1"
  proof -
    have "unat (saturating_add n 1) = min (unat n + 1) (2 ^ 64 - 1)" by (simp add: unat_saturating_add)
    moreover have "unat n < 2 ^ 63" using tail_n(2) unfolding unat_eq_nat_uint by (subst nat_less_iff) simp_all
    then have "unat n + 1 < 2 ^ 64 - 1" by simp
    ultimately have "unat (saturating_add n 1) = unat n + 1" by simp
    then show ?thesis unfolding seq by (metis of_nat_1 of_nat_add uint_nat)
  qed
  moreover have "tbl_find jo_key key (st_journals db) \<noteq> None"
    using assms(3) recs unfolding journals_ok_def by (metis snoc_eq_iff_butlast)
  ultimately show ?thesis using len assms(3)
    by (intro journals_ok_insert [OF _ _ _ ins]) (auto simp: journals_ok_def)
qed
section \<open>Outbox and projection streams\<close>

definition position_in :: "head_key \<Rightarrow> event_row \<Rightarrow> int option" where
  "position_in key row = (case event_row_key row of
       Some (k, n) \<Rightarrow> if k = key then Some n else None
     | None \<Rightarrow> None)"

definition stream_positions :: "storage_db \<Rightarrow> head_key \<Rightarrow> int list" where
  "stream_positions db key = List.map_filter (position_in key) (st_outbox db)"

lemma position_in_iff: "position_in key row = Some n \<longleftrightarrow> event_row_key row = Some (key, n)"
  by (auto simp: position_in_def split: option.splits if_splits)

definition head_position :: "storage_db \<Rightarrow> head_key \<Rightarrow> int" where
  "head_position db key = (case tbl_find hr_key key (st_heads db) of None \<Rightarrow> 0 | Some h \<Rightarrow> hr_sequence h)"

definition outbox_ok :: "storage_db \<Rightarrow> bool" where
  "outbox_ok db \<longleftrightarrow> 0 \<le> st_outbox_sequence db \<and> map er_sequence (st_outbox db) = [1..st_outbox_sequence db] \<and>
     distinct (map er_event_id (st_outbox db))"

definition heads_ok :: "storage_db \<Rightarrow> bool" where
  "heads_ok db \<longleftrightarrow> (\<forall>key.
     0 \<le> head_position db key \<and> head_position db key \<le> 9007199254740991 \<and>
     stream_positions db key = [1..head_position db key] \<and>
     (\<forall>h. tbl_find hr_key key (st_heads db) = Some h \<longrightarrow>
        (\<exists>row \<in> set (st_outbox db). event_row_key row = Some (key, hr_sequence h) \<and> er_event_id row = hr_event_id h)))"

lemma heads_okD:
  assumes "heads_ok db"
  shows "0 \<le> head_position db key" and "head_position db key \<le> 9007199254740991"
    and "stream_positions db key = [1..head_position db key]"
    and "tbl_find hr_key key (st_heads db) = Some h \<Longrightarrow>
        \<exists>row \<in> set (st_outbox db). event_row_key row = Some (key, hr_sequence h) \<and> er_event_id row = hr_event_id h"
  using assms unfolding heads_ok_def by blast+

lemma new_event_row_key:
  "transpose f (ne_projection_stream e) = Inr position \<Longrightarrow>
     event_row_key (new_event_row identity e position ctx) =
       (case ne_projection_stream e of None \<Rightarrow> None | Some s \<Rightarrow> Some (head_key_of identity s, the position))"
  by (cases "ne_projection_stream e")
    (auto simp: transpose_def event_row_key_def new_event_row_def head_key_of_def rbind_Inr_iff)

lemma event_row_key_sequence [simp]: "event_row_key (row\<lparr>er_sequence := n\<rparr>) = event_row_key row"
  by (simp add: event_row_key_def cong del: option.case_cong_weak)

text \<open>The two shapes of an appended event: without a stream, or at the next position of its stream.\<close>

lemma append_outbox_event_cases:
  assumes "append_outbox_event cx identity db e = Inr db'"
  obtains row where "er_event_id row \<notin> er_event_id ` set (st_outbox db)" and "er_sequence row = st_outbox_sequence db + 1"
    and "event_row_key row = None"
    and "db' = db\<lparr>st_outbox := st_outbox db @ [row], st_outbox_sequence := st_outbox_sequence db + 1\<rparr>"
  | row key where "er_event_id row \<notin> er_event_id ` set (st_outbox db)" and "er_sequence row = st_outbox_sequence db + 1"
    and "event_row_key row = Some (key, head_position db key + 1)"
    and "0 \<le> head_position db key" and "head_position db key < 9007199254740991"
    and "db' = db\<lparr>st_outbox := st_outbox db @ [row], st_outbox_sequence := st_outbox_sequence db + 1,
           st_heads := tbl_upsert hr_key \<lparr>hr_key = key, hr_sequence = head_position db key + 1,
             hr_event_id = er_event_id row\<rparr> (st_heads db)\<rparr>"
proof -
  from assms obtain position ctx db1 where
    pos: "transpose (\<lambda>s. next_projection_stream_position db (head_key_of identity s)) (ne_projection_stream e) = Inr position"
    and ins: "insert_event_row db (new_event_row identity e position ctx) = Inr db1"
    and end_case: "(case (ne_projection_stream e, position) of
       (Some stream, Some n) \<Rightarrow> Inr (upsert_head db1 (head_key_of identity stream) n (ne_event_id e))
     | _ \<Rightarrow> Inr db1) = (Inr db' :: storage_error + storage_db)"
    by (auto simp: append_outbox_event_def rbind_Inr_iff)
  define row where "row = (new_event_row identity e position ctx)\<lparr>er_sequence := st_outbox_sequence db + 1\<rparr>"
  have db1: "db1 = db\<lparr>st_outbox := st_outbox db @ [row], st_outbox_sequence := st_outbox_sequence db + 1\<rparr>"
    and fresh: "er_event_id row \<notin> er_event_id ` set (st_outbox db)"
    and seq: "er_sequence row = st_outbox_sequence db + 1" and eid: "er_event_id row = ne_event_id e"
    using ins by (auto simp: insert_event_row_iff row_def new_event_row_def)
  have key: "event_row_key row =
      (case ne_projection_stream e of None \<Rightarrow> None | Some s \<Rightarrow> Some (head_key_of identity s, the position))"
    using new_event_row_key [OF pos] by (simp add: row_def)
  show thesis
  proof (cases "ne_projection_stream e")
    case None
    with pos have "position = None" by (simp add: transpose_def)
    with None end_case key have "db' = db1" "event_row_key row = None" by simp_all
    with fresh seq db1 show thesis by (intro that(1) [of row]) simp_all
  next
    case (Some s)
    let ?k = "head_key_of identity s"
    from pos Some obtain n where n: "position = Some n" "next_projection_stream_position db ?k = Inr n"
      by (auto simp: transpose_def rbind_Inr_iff)
    then have "n = head_position db ?k + 1" "0 \<le> head_position db ?k" "head_position db ?k < 9007199254740991"
      by (auto simp: next_projection_stream_position_def head_position_def Let_def split: if_splits)
    with fresh seq db1 key Some n(1) end_case eid show thesis
      by (intro that(2) [of row ?k]) (simp_all add: upsert_head_def)
  qed
qed

lemma append_outbox_event_ok:
  assumes "append_outbox_event cx identity db e = Inr db'" and ok: "outbox_ok db" "heads_ok db"
  shows "outbox_ok db' \<and> heads_ok db'"
  using assms(1)
proof (cases rule: append_outbox_event_cases)
  case (1 row)
  have "outbox_ok db'" using ok(1) 1(1,2) upto_int_snoc [of "st_outbox_sequence db"] by (simp add: outbox_ok_def 1(4))
  moreover have "head_position db' key = head_position db key"
    "stream_positions db' key = stream_positions db key" for key
    by (simp_all add: head_position_def stream_positions_def 1(4) map_filter_def position_in_def 1(3))
  then have "heads_ok db'" using heads_okD [OF ok(2)] unfolding heads_ok_def by (simp add: 1(4))
  ultimately show ?thesis ..
next
  case (2 row key)
  have "outbox_ok db'" using ok(1) 2(1,2) upto_int_snoc [of "st_outbox_sequence db"] by (simp add: outbox_ok_def 2(6))
  moreover have hd: "tbl_find hr_key k (st_heads db') = (if k = key then Some \<lparr>hr_key = key,
      hr_sequence = head_position db key + 1, hr_event_id = er_event_id row\<rparr> else tbl_find hr_key k (st_heads db))" for k
    by (simp add: 2(6) tbl_find_upsert)
  have pos: "head_position db' k = head_position db k + (if k = key then 1 else 0)" for k
    by (simp add: head_position_def [of db'] hd) (simp add: head_position_def)
  have str: "stream_positions db' k = stream_positions db k @ (if k = key then [head_position db key + 1] else [])" for k
    by (simp add: stream_positions_def 2(6) map_filter_def position_in_def 2(3))
  have "heads_ok db'" unfolding heads_ok_def
  proof (intro allI conjI impI)
    fix k
    show "0 \<le> head_position db' k" "head_position db' k \<le> 9007199254740991"
      using heads_okD(1,2) [OF ok(2), of k] 2(4,5) by (simp_all add: pos)
    show "stream_positions db' k = [1..head_position db' k]"
      using heads_okD(3) [OF ok(2)] upto_int_snoc [OF 2(4)] by (simp add: str pos)
    fix h assume h: "tbl_find hr_key k (st_heads db') = Some h"
    have rows: "st_outbox db' = st_outbox db @ [row]" by (simp add: 2(6))
    show "\<exists>row \<in> set (st_outbox db'). event_row_key row = Some (k, hr_sequence h) \<and> er_event_id row = hr_event_id h"
    proof (cases "k = key")
      case True
      with h 2(3) show ?thesis by (auto simp: hd rows)
    next
      case False
      with h heads_okD(4) [OF ok(2), of k h] show ?thesis unfolding rows hd by auto
    qed
  qed
  ultimately show ?thesis by simp
qed

lemma append_outbox_events_ok:
  "append_outbox_events cx identity db es = Inr db' \<Longrightarrow> outbox_ok db \<Longrightarrow> heads_ok db \<Longrightarrow> outbox_ok db' \<and> heads_ok db'"
  by (induction es arbitrary: db) (auto simp: rbind_Inr_iff dest: append_outbox_event_ok)
section \<open>The invariant of the store\<close>

definition storage_inv :: "storage_db \<Rightarrow> bool" where
  "storage_inv db \<longleftrightarrow> revisions_ok db \<and> journals_ok db \<and> outbox_ok db \<and> heads_ok db"

text \<open>Outbox rows are only appended; of the old ones only the publication mark changes.\<close>

definition outbox_kept :: "storage_db \<Rightarrow> storage_db \<Rightarrow> bool" where
  "outbox_kept db db' \<longleftrightarrow>
     (\<exists>rows. map event_core (st_outbox db') = map event_core (st_outbox db) @ rows)"

lemma outbox_kept_refl: "outbox_kept db db"
  by (simp add: outbox_kept_def)

lemma outbox_kept_trans: "outbox_kept a b \<Longrightarrow> outbox_kept b c \<Longrightarrow> outbox_kept a c"
  by (auto simp: outbox_kept_def)

lemma journals_ok_frame:
  "st_journals db' = st_journals db \<Longrightarrow> st_journal_records db' = st_journal_records db \<Longrightarrow>
     journals_ok db' = journals_ok db"
  by (simp add: journals_ok_def records_of_def)

lemma events_ok_frame:
  "st_outbox db' = st_outbox db \<Longrightarrow> st_outbox_sequence db' = st_outbox_sequence db \<Longrightarrow> st_heads db' = st_heads db \<Longrightarrow>
     outbox_ok db' = outbox_ok db \<and> heads_ok db' = heads_ok db"
  by (simp add: outbox_ok_def heads_ok_def head_position_def stream_positions_def)

lemma write_state_commit_streams:
  assumes "write_state_commit cx db c revision = Inr db'" and "validate_commit c = Inr ()"
    and "journals_ok db" and "outbox_ok db" and "heads_ok db"
  shows "journals_ok db' \<and> outbox_ok db' \<and> heads_ok db'"
proof -
  from assms(1) obtain db1 db2 db3 where s:
    "append_state_mutations (upsert_state db (sc_stream_id c) revision (sc_state c)) (all_state_mutations c) = Inr db1"
    "(case sc_journal_publication c of None \<Rightarrow> Inr db1 | Some p \<Rightarrow> append_journal_publication db1 p) = Inr db2"
    "db3 = db2\<lparr>st_receipts := st_receipts db2 @ [receipt_of_commit c revision],
       st_audit := st_audit db2 @ audit_rows_of_commit c\<rparr>"
    "append_outbox_events cx (sc_receipt_identity c) db3 (sc_events c) = Inr db'"
    by (rule write_state_commit_effect)
  obtain states where db1: "db1 = db\<lparr>st_states := states\<rparr>"
    using append_state_mutations_frame [OF s(1)] by (auto simp: upsert_state_def)
  have j1: "journals_ok db1" using assms(3) journals_ok_frame [of db1 db] by (simp add: db1)
  have j2: "journals_ok db2"
  proof (cases "sc_journal_publication c")
    case None
    with s(2) j1 show ?thesis by simp
  next
    case (Some p)
    then have "validate_publication p = Inr ()" using assms(2) by (simp add: validate_commit_def check_all_Inr_iff)
    with Some s(2) j1 show ?thesis by (auto intro: append_journal_publication_ok)
  qed
  obtain js jr where db2: "db2 = db1\<lparr>st_journals := js, st_journal_records := jr\<rparr>"
    using publication_frame [OF s(2)] by blast
  have e3: "outbox_ok db3" "heads_ok db3"
    using assms(4,5) events_ok_frame [of db3 db] by (simp_all add: s(3) db2 db1)
  obtain rows heads n where fin:
    "db' = db3\<lparr>st_outbox := st_outbox db3 @ rows, st_outbox_sequence := n, st_heads := heads\<rparr>"
    using append_outbox_events_frame [OF s(4)] by blast
  have "journals_ok db'" using j2 journals_ok_frame [of db' db2] by (simp add: fin s(3))
  with append_outbox_events_ok [OF s(4) e3] show ?thesis by simp
qed

lemma marked_rows_ok:
  assumes db': "db' = db\<lparr>st_outbox := tbl_update p (\<lambda>r. r\<lparr>er_published := True\<rparr>) (st_outbox db)\<rparr>"
  shows "storage_inv db \<Longrightarrow> storage_inv db'" and "outbox_kept db db'"
proof -
  let ?f = "\<lambda>r. if p r then r\<lparr>er_published := True\<rparr> else r"
  have rows: "st_outbox db' = map ?f (st_outbox db)" by (simp add: db' tbl_update_def)
  have key: "event_row_key (?f r) = event_row_key r" for r
    by (simp add: event_row_key_def cong del: option.case_cong_weak)
  have pos: "stream_positions db' k = stream_positions db k" for k
    by (simp add: stream_positions_def rows map_filter_def filter_map o_def position_in_def key)
  have hd: "head_position db' k = head_position db k" "st_heads db' = st_heads db" for k
    by (simp_all add: head_position_def db')
  have "map er_sequence (st_outbox db') = map er_sequence (st_outbox db)"
    "map er_event_id (st_outbox db') = map er_event_id (st_outbox db)" by (simp_all add: rows)
  moreover assume inv: "storage_inv db"
  ultimately have "outbox_ok db'" by (simp add: storage_inv_def outbox_ok_def db')
  moreover have "heads_ok db'"
    unfolding heads_ok_def
  proof (intro allI conjI impI)
    fix k
    have ok: "heads_ok db" using inv by (simp add: storage_inv_def)
    show "0 \<le> head_position db' k" "head_position db' k \<le> 9007199254740991"
      "stream_positions db' k = [1..head_position db' k]" using heads_okD(1-3) [OF ok, of k] by (simp_all add: hd pos)
    fix h assume "tbl_find hr_key k (st_heads db') = Some h"
    then obtain row where "row \<in> set (st_outbox db)" "event_row_key row = Some (k, hr_sequence h)"
      "er_event_id row = hr_event_id h" using heads_okD(4) [OF ok, of k h] by (auto simp: hd)
    then show "\<exists>row \<in> set (st_outbox db'). event_row_key row = Some (k, hr_sequence h) \<and> er_event_id row = hr_event_id h"
      using key [of row] by (intro bexI [of _ "?f row"]) (auto simp: rows)
  qed
  moreover have "revisions_ok db'" "journals_ok db'"
    using inv journals_ok_frame [of db' db] by (simp_all add: storage_inv_def revisions_ok_def state_view_def db')
  ultimately show "storage_inv db'" by (simp add: storage_inv_def)
next
  have "map event_core (st_outbox db') = map event_core (st_outbox db) @ []"
    by (simp add: db' tbl_update_def event_core_def)
  then show "outbox_kept db db'" unfolding outbox_kept_def ..
qed

lemma commit_keeps_storage_inv:
  assumes "commit cx db c = Inr (r, db')" and "storage_inv db"
  shows "storage_inv db' \<and> outbox_kept db db'"
  using assms(1)
proof (cases rule: commit_Inr_cases)
  case (replayed prior)
  with assms(2) show ?thesis by (simp add: outbox_kept_refl)
next
  case fresh
  from fresh(8) obtain revision where w: "write_state_commit cx db c revision = Inr db'"
    by (rule append_state_commit_Inr)
  have "revisions_ok db'" using fresh_commit_revisions_ok [OF assms(1) fresh(3)] assms(2) by (simp add: storage_inv_def)
  moreover have "journals_ok db' \<and> outbox_ok db' \<and> heads_ok db'"
    using assms(2) by (intro write_state_commit_streams [OF w fresh(1)]) (simp_all add: storage_inv_def)
  moreover have "outbox_kept db db'"
    using write_state_commit_tables(6) [OF w] by (auto simp: outbox_kept_def)
  ultimately show ?thesis by (simp add: storage_inv_def)
qed

interpretation outbox: preordered_machine "storage_step cx" storage_inv outbox_kept
proof
  fix db op db'
  assume inv: "storage_inv db" and step: "storage_step cx db op = Inr db'"
  have "storage_inv db' \<and> outbox_kept db db'"
  proof (cases op)
    case (CommitOp c)
    with step inv show ?thesis by (auto simp: rbind_Inr_iff dest: commit_keeps_storage_inv)
  next
    case (MarkPublishedOp e)
    with step have "db' = db\<lparr>st_outbox := tbl_update (\<lambda>r. er_event_id r = e) (\<lambda>r. r\<lparr>er_published := True\<rparr>) (st_outbox db)\<rparr>"
      by (auto simp: mark_published_def rbind_Inr_iff split: if_splits)
    with inv show ?thesis using marked_rows_ok by blast
  next
    case (MarkAuditOp e)
    with step have db': "db' = db\<lparr>st_audit := tbl_update (\<lambda>r. au_event_id r = e) (\<lambda>r. r\<lparr>au_persisted := True\<rparr>) (st_audit db)\<rparr>"
      by (auto simp: mark_audit_event_persisted_def rbind_Inr_iff split: if_splits)
    with inv journals_ok_frame [of db' db] events_ok_frame [of db' db] show ?thesis
      by (simp add: storage_inv_def revisions_ok_def state_view_def outbox_kept_def)
  qed
  then show "storage_inv db'" and "outbox_kept db db'" by simp_all
qed (auto intro: outbox_kept_refl outbox_kept_trans)

lemma storage_inv_empty: "storage_inv empty_db"
  unfolding storage_inv_def
  by (simp add: revisions_ok_def journals_ok_def outbox_ok_def heads_ok_def empty_db_def
    revision_in_def state_view_def records_of_def head_position_def stream_positions_def map_filter_def)

lemma storage_inv_reachable: "storage_inv (run_ops (storage_step cx) empty_db ops)"
  by (rule outbox.run_inv) (rule storage_inv_empty)
section \<open>Properties\<close>

text \<open>
  C3. A commit is an atomic compare-and-set over several streams. A commit that is not a replay succeeds only if
  every guarded and every written stream is at the revision the command expects, and then exactly
  the written streams move to their next revision with the new payloads; a replay changes no state.
\<close>

theorem commit_refines_cas:
  assumes "commit cx (run_ops (storage_step cx) empty_db ops) c = Inr (r, db')"
  shows "if ct_idempotent_replay r then db' = run_ops (storage_step cx) empty_db ops
    else cas_apply (state_view (run_ops (storage_step cx) empty_db ops)) (guard_set c) (write_set c) =
           Some (state_view db')"
  using assms
proof (cases rule: commit_Inr_cases)
  case (replayed prior)
  then show ?thesis
    by (auto simp: replay_receipt_def replay_stored_receipt_def rbind_Inr_iff split: if_splits)
next
  case fresh
  have "\<not> ct_idempotent_replay r" using fresh(8)
    by (auto simp: append_state_commit_def rbind_Inr_iff split: if_splits)
  moreover have "revisions_ok (run_ops (storage_step cx) empty_db ops)"
    using storage_inv_reachable [of cx ops] by (simp add: storage_inv_def)
  ultimately show ?thesis using fresh_commit_cas [OF assms fresh(3)] by simp
qed

text \<open>
  A stale expectation is always refused as a revision conflict: where the command is valid, new,
  unclaimed and imports nothing, a guarded or written stream at another revision makes the commit fail with
  that error.
\<close>

theorem stale_commit_refused:
  assumes "validate_commit c = Inr ()" and "sc_immutable_state_import c = None" and "\<not> sc_receipt_replay_required c"
    and "prior_receipt (run_ops (storage_step cx) empty_db ops) (sc_receipt_identity c) = None"
    and "\<not> control_plane_command_claim_exists (run_ops (storage_step cx) empty_db ops) c"
    and "st_writable (run_ops (storage_step cx) empty_db ops)"
    and "cas_apply (state_view (run_ops (storage_step cx) empty_db ops)) (guard_set c) (write_set c) = None"
  shows "\<exists>e. commit cx (run_ops (storage_step cx) empty_db ops) c = Inl e \<and> se_kind e = RevisionConflict"
proof -
  let ?db = "run_ops (storage_step cx) empty_db ops"
  have ok: "revisions_ok ?db" using storage_inv_reachable [of cx ops] by (simp add: storage_inv_def)
  note rev = stored_state_revision_view [OF ok]
  have guard_err: "se_kind e = RevisionConflict" if "check_guard ?db g = Inl e" for g e
    using that by (auto simp: check_guard_def rev(1) ensure_Inl_iff state_revision_guard_conflict_def)
  have mut_err: "se_kind e = RevisionConflict" if "check_mutation ?db m = Inl e" for m e
    using that by (auto simp: check_mutation_def rev(1) ensure_Inl_iff state_mutation_revision_conflict_def)
  have tx: "commit cx ?db c = rbind (check_state_revision_guards ?db c) (\<lambda>_.
      rbind (check_state_mutation_revisions cx ?db c) (\<lambda>_. append_state_commit cx ?db c))"
    using assms by (simp add: commit_def connection_mut_def commit_in_transaction_def
      commit_in_transaction_with_claim_authority_def)
  have muts: "check_state_mutation_revisions cx ?db c = check_all (map (check_mutation ?db) (all_state_mutations c))"
    using assms(2) by (simp add: check_state_mutation_revisions_def check_import_source_def check_all.simps)
  show ?thesis
  proof (cases "check_state_revision_guards ?db c")
    case (Inl e)
    then show ?thesis using guard_err
      by (auto simp: tx check_state_revision_guards_def dest!: check_all_Inl_mem)
  next
    case guards: (Inr u)
    show ?thesis
    proof (cases "check_state_mutation_revisions cx ?db c")
      case (Inl e)
      then show ?thesis using guards mut_err by (auto simp: tx muts dest!: check_all_Inl_mem)
    next
      case (Inr v)
      with guards assms(7) have "revision_in (state_view ?db) (sc_stream_id c) \<noteq> uint (sc_expected_revision c)"
        by (simp add: muts revision_checks_iff [OF ok] cas_apply_def write_set_def split: if_splits)
      with guards Inr show ?thesis
        by (auto simp: tx append_state_commit_def rev revision_conflict_def dest: arg_cong [of _ _ uint])
    qed
  qed
qed

text \<open>
  C14. Ordering of what is stored. After any operations the outbox rows are numbered from one without gap and their
  event ids are distinct; in every projection stream the events are numbered from one up to the stream head
  without gap or repetition; and the records of every journal are numbered the same way.
\<close>

theorem stored_streams_contiguous:
  fixes cx ops
  defines "db \<equiv> run_ops (storage_step cx) empty_db ops"
  shows "map er_sequence (st_outbox db) = [1..st_outbox_sequence db] \<and> distinct (map er_event_id (st_outbox db)) \<and>
    stream_positions db stream = [1..head_position db stream] \<and>
    map jx_sequence (journal_rows db journal) = [1..int (length (journal_rows db journal))] \<and>
    distinct (map cr_identity (st_receipts db)) \<and>
    distinct (map (\<lambda>r. (cr_stream_id r, cr_revision r)) (st_receipts db))"
proof -
  have inv: "storage_inv db" unfolding db_def by (rule storage_inv_reachable)
  then have "stream_positions db stream = [1..head_position db stream]"
    by (intro heads_okD) (simp add: storage_inv_def)
  moreover have "map jx_sequence (records_of db journal) = [1..int (length (records_of db journal))]"
    using inv unfolding storage_inv_def journals_ok_def by blast
  ultimately show ?thesis
    using inv journal_rows_records [of db journal] by (simp add: storage_inv_def outbox_ok_def revisions_ok_def)
qed
lemma find_event_core:
  "map_option event_core (find (\<lambda>r. event_row_key r = k) rows) = find (\<lambda>r. event_row_key r = k) (map event_core rows)"
proof (induction rows)
  case (Cons r rows)
  have "event_row_key (event_core r) = event_row_key r"
    by (simp add: event_row_key_def event_core_def cong del: option.case_cong_weak)
  with Cons show ?case by simp
qed simp

lemma find_append: "find P (xs @ ys) = (case find P xs of None \<Rightarrow> find P ys | Some x \<Rightarrow> Some x)"
  by (induction xs) auto

lemma found_event_kept:
  assumes "find (\<lambda>r. event_row_key r = k) (st_outbox db) = Some row" and "outbox_kept db db'"
  obtains row' where "find (\<lambda>r. event_row_key r = k) (st_outbox db') = Some row'" and "er_event_id row' = er_event_id row"
proof -
  from assms(2) obtain rows where "map event_core (st_outbox db') = map event_core (st_outbox db) @ rows"
    by (auto simp: outbox_kept_def)
  then have "map_option event_core (find (\<lambda>r. event_row_key r = k) (st_outbox db')) = Some (event_core row)"
    using assms(1) find_event_core [of k "st_outbox db", symmetric] by (simp add: find_event_core find_append)
  then obtain row' where "find (\<lambda>r. event_row_key r = k) (st_outbox db') = Some row'" "event_core row' = event_core row"
    by (auto simp: map_option_eq_Some)
  moreover from this(2) have "er_event_id row' = er_event_id row"
    by (metis event_core_def event_row.select_convs(2) event_row.surjective event_row.update_convs(6))
  ultimately show thesis using that by blast
qed

lemma find_map_filter:
  "distinct (List.map_filter g xs) \<Longrightarrow> x \<in> set xs \<Longrightarrow> g x = Some n \<Longrightarrow> find (\<lambda>x. g x = Some n) xs = Some x"
proof (induction xs)
  case (Cons y xs)
  have "n \<in> set (List.map_filter g xs)" if "x \<in> set xs" using that Cons.prems(3) by (force simp: map_filter_def)
  with Cons show ?case by (cases "g y") (auto simp: map_filter_simps)
qed simp

lemma event_key_unique:
  "stream_positions db key = [1..m] \<Longrightarrow> r \<in> set (st_outbox db) \<Longrightarrow> event_row_key r = Some (key, n) \<Longrightarrow>
     find (\<lambda>r. event_row_key r = Some (key, n)) (st_outbox db) = Some r"
  using find_map_filter [of "position_in key" "st_outbox db" r n]
  by (simp add: stream_positions_def position_in_iff)
text \<open>An accepted cursor is the start of its stream, or the event that is stored at its position.\<close>

lemma cursor_try_new_iff:
  "cursor_try_new key n event_id = Inr cursor \<longleftrightarrow>
     n \<le> max_safe_integer \<and> (n = 0 \<longleftrightarrow> event_id = None)
       \<and> (case event_id of None \<Rightarrow> True | Some e \<Rightarrow> canonical_control_plane_event_id e)
       \<and> cursor = \<lparr>pv_key = key, pv_sequence = n, pv_event_id = event_id\<rparr>"
  by (cases event_id) (auto simp: cursor_try_new_def rbind_Inr_iff ensure_Inr_iff not_less)

definition cursor_backed :: "storage_db \<Rightarrow> projection_event_cursor \<Rightarrow> bool" where
  "cursor_backed db cursor \<longleftrightarrow> pv_sequence cursor = 0 \<or>
     (\<exists>row. find (\<lambda>r. event_row_key r = Some (head_key_of_stream_key (pv_key cursor), uint (pv_sequence cursor)))
         (st_outbox db) = Some row \<and> pv_event_id cursor = Some (er_event_id row))"

lemma loaded_head_backed:
  assumes ok: "heads_ok db" and head: "load_projection_stream_head db key = Inr (Some (n, e))"
  shows "\<exists>row. find (\<lambda>r. event_row_key r = Some (head_key_of_stream_key key, uint n)) (st_outbox db) = Some row
    \<and> er_event_id row = e"
proof -
  let ?k = "head_key_of_stream_key key"
  from head obtain h where h: "tbl_find hr_key ?k (st_heads db) = Some h" "u64_of_i64 (hr_sequence h) = Some n"
    "hr_event_id h = e"
    by (cases "tbl_find hr_key ?k (st_heads db)")
      (auto simp: load_projection_stream_head_def transpose_def rbind_Inr_iff ok_or_Inr_iff)
  have "hr_sequence h = head_position db ?k" by (simp add: head_position_def h(1))
  then have "0 \<le> hr_sequence h" "hr_sequence h < 2 ^ 63" using heads_okD(1,2) [OF ok, of ?k] by simp_all
  then have "uint n = hr_sequence h" using h(2) by (metis u64_of_i64_small option.inject)
  then show ?thesis using heads_okD(4) [OF ok h(1)] event_key_unique [OF heads_okD(3) [OF ok]] h(3) by fastforce
qed

lemma loaded_cursor:
  assumes inv: "storage_inv db" and load: "load_projection_event_cursor db key expected = Inr cursor"
  shows "validate_stream (pk_stream key) = Inr () \<and> pv_key cursor = key \<and> cursor_backed db cursor \<and>
    cursor_try_new key (pv_sequence cursor) (pv_event_id cursor) = Inr cursor"
proof -
  have ok: "heads_ok db" using inv by (simp add: storage_inv_def)
  have valid: "validate_stream (pk_stream key) = Inr ()"
    using load by (simp add: load_projection_event_cursor_def rbind_Inr_iff)
  show ?thesis
  proof (cases expected)
    case None
    show ?thesis
    proof (cases "load_projection_stream_head db key")
      case (Inr head)
      then show ?thesis
        using load None valid loaded_head_backed [OF ok, of key]
        by (cases head) (auto simp: load_projection_event_cursor_def cursor_try_new_iff cursor_backed_def)
    qed (use load None valid in \<open>simp add: load_projection_event_cursor_def\<close>)
  next
    case (Some c)
    let ?find = "find (\<lambda>r. event_row_key r = Some (head_key_of_stream_key key, uint (pv_sequence c))) (st_outbox db)"
    from load Some valid have key: "pv_key c = key"
      by (auto simp: load_projection_event_cursor_def split: if_splits)
    show ?thesis
    proof (cases "pv_sequence c = 0")
      case True
      with load Some valid key show ?thesis
        by (auto simp: load_projection_event_cursor_def cursor_try_new_iff cursor_backed_def)
    next
      case False
      have small: "i64_of_u64 (pv_sequence c) = Some (uint (pv_sequence c))"
        using load Some valid key False
        by (auto simp: load_projection_event_cursor_def rbind_Inr_iff ok_or_Inr_iff i64_of_u64_Some_iff i64_of_u64_def
          split: if_splits)
      show ?thesis
      proof (cases ?find)
        case None
        with load Some valid key False small show ?thesis
          by (cases "load_projection_stream_head db key")
            (auto simp: load_projection_event_cursor_def split: option.splits if_splits)
      next
        case found: (Some row)
        with load Some valid key False small show ?thesis
          by (auto simp: load_projection_event_cursor_def cursor_try_new_iff cursor_backed_def split: if_splits)
      qed
    qed
  qed
qed

lemma backed_cursor_loads:
  assumes "validate_stream (pk_stream (pv_key cursor)) = Inr ()" and "cursor_backed db cursor"
    and "cursor_try_new (pv_key cursor) (pv_sequence cursor) (pv_event_id cursor) = Inr cursor"
  shows "load_projection_event_cursor db (pv_key cursor) (Some cursor) = Inr cursor"
proof (cases "pv_sequence cursor = 0")
  case True
  with assms(1,3) show ?thesis
    by (auto simp: load_projection_event_cursor_def cursor_try_new_iff)
next
  case False
  have "i64_of_u64 (pv_sequence cursor) = Some (uint (pv_sequence cursor))"
    using assms(3) by (intro i64_safe) (simp add: cursor_try_new_iff)
  with False assms show ?thesis by (auto simp: load_projection_event_cursor_def cursor_backed_def)
qed

text \<open>
  C13. A cursor a client was given never becomes invalid. If the store answers a cursor request with a cursor, then
  after any further operations presenting that cursor is accepted and gives the same cursor: it is neither
  expired, nor beyond the head, nor in disagreement with the stored event.
\<close>

theorem projection_cursor_stays_valid:
  assumes "load_projection_event_cursor (run_ops (storage_step cx) empty_db ops) key expected = Inr cursor"
  shows "load_projection_event_cursor (run_ops (storage_step cx) empty_db (ops @ later)) key (Some cursor) = Inr cursor"
proof -
  let ?db = "run_ops (storage_step cx) empty_db ops" and ?db' = "run_ops (storage_step cx) empty_db (ops @ later)"
  note c = loaded_cursor [OF storage_inv_reachable assms]
  have "outbox_kept ?db ?db'"
    unfolding run_ops_append by (intro outbox.run_le storage_inv_reachable)
  then have "cursor_backed ?db' cursor"
    using c unfolding cursor_backed_def by (metis found_event_kept)
  then show ?thesis using c backed_cursor_loads [of cursor ?db'] by simp
qed
section \<open>Witnesses\<close>

theorem commit_refines_cas_witness:
  "\<exists>r db. commit sample_cx (run_ops (storage_step sample_cx) empty_db []) (sample_commit ''r1'' 0 ''e1'') = Inr (r, db)
     \<and> (if ct_idempotent_replay r then db = run_ops (storage_step sample_cx) empty_db []
        else cas_apply (state_view (run_ops (storage_step sample_cx) empty_db []))
            (guard_set (sample_commit ''r1'' 0 ''e1'')) (write_set (sample_commit ''r1'' 0 ''e1'')) = Some (state_view db))"
proof -
  obtain r db where "commit sample_cx empty_db (sample_commit ''r1'' 0 ''e1'') = Inr (r, db)"
    by (rule sample_commit_runs [of "''e1''" "''r1''"]) simp
  then have run: "commit sample_cx (run_ops (storage_step sample_cx) empty_db []) (sample_commit ''r1'' 0 ''e1'') =
    Inr (r, db)" by simp
  show ?thesis by (intro exI conjI) (rule run, rule commit_refines_cas [OF run])
qed

theorem projection_cursor_stays_valid_witness:
  "let key = \<lparr>pk_scope_key = ''s'', pk_stream = ProductSessionStream ''p1''\<rparr>;
       cursor = \<lparr>pv_key = key, pv_sequence = 0, pv_event_id = None\<rparr>
   in load_projection_event_cursor (run_ops (storage_step sample_cx) empty_db []) key None = Inr cursor
     \<and> load_projection_event_cursor
          (run_ops (storage_step sample_cx) empty_db ([] @ [CommitOp (sample_commit ''r1'' 0 ''e1'')])) key (Some cursor) =
        Inr cursor"
proof -
  have load: "load_projection_event_cursor (run_ops (storage_step sample_cx) empty_db [])
      \<lparr>pk_scope_key = ''s'', pk_stream = ProductSessionStream ''p1''\<rparr> None =
    Inr \<lparr>pv_key = \<lparr>pk_scope_key = ''s'', pk_stream = ProductSessionStream ''p1''\<rparr>, pv_sequence = 0, pv_event_id = None\<rparr>"
    by (simp add: load_projection_event_cursor_def load_projection_stream_head_def empty_db_def transpose_def
      cursor_try_new_def validate_stream_def portable_event_key_def event_key_byte_def ascii_defs max_safe_integer_def)
  then show ?thesis using projection_cursor_stays_valid [OF load] by (simp add: Let_def del: run_ops.simps)
qed

end
