(* ===== verification/Interaction_Routing.thy ===== *)
theory Interaction_Routing
  imports Product_Session
begin

text \<open>
  \<^verbatim>\<open>crates/winwincode-session/src/interaction_routing.rs\<close>: the routing of human decisions (input, approval,
  attention) and of session cancellations to the executions they belong to. Each interaction is decided once
  and each session is cancelled once; a repeated request is recognised by a fingerprint of its
  contents, the \<^verbatim>\<open>Debug\<close> text of its fields. How \<^verbatim>\<open>Debug\<close> escapes a string is the argument \<open>dbg\<close>.
\<close>

section \<open>Data\<close>

definition MAX_ACTION_ID_LENGTH :: nat where "MAX_ACTION_ID_LENGTH = 200"

definition MAX_DECISION_LENGTH :: nat where "MAX_DECISION_LENGTH = 200"

definition MAX_REASON_LENGTH :: nat where "MAX_REASON_LENGTH = 2000"

datatype authenticated_actor = ActorUser string | ActorServiceAccount string | ActorSystem string

datatype interaction_subject = SubjectUserInput string | SubjectApproval string | SubjectAttention string

record runtime_route_authority =
  ra_lease_id :: string
  ra_worker_id :: string
  ra_worker_instance_id :: string
  ra_worker_session_id :: string
  ra_attempt :: u64
  ra_fencing_token :: string

text \<open>\<^verbatim>\<open>Revision\<close> of the domain is a signed integer.\<close>

record execution_route =
  xr_product_session_id :: string
  xr_work_contract_id :: "string option"
  xr_work_contract_revision :: "int option"
  xr_work_item_id :: "string option"
  xr_work_item_revision :: "int option"
  xr_work_run_id :: "string option"
  xr_execution_job_id :: string
  xr_job_revision :: u64
  xr_runtime :: "runtime_route_authority option"
  xr_worker_slot_revision :: "u64 option"
  xr_model_exchange_id :: "string option"

record decision_route_binding =
  db_execution :: execution_route
  db_action_id :: string
  db_decision_revision :: u64

record interaction_registration =
  rg_subject :: interaction_subject
  rg_binding :: decision_route_binding
  rg_authorized_actor :: authenticated_actor
  rg_expires_at :: string
  rg_attention_decisions :: "string list"

datatype interaction_decision =
    DecideUserInput string
  | DecideApprove string
  | DecideReject string
  | DecideResolveAttention string string

record interaction_response =
  rp_request_id :: string
  rp_actor :: authenticated_actor
  rp_subject :: interaction_subject
  rp_binding :: decision_route_binding
  rp_decision :: interaction_decision
  rp_responded_at :: string

datatype interaction_outcome = InputReceived | Approved | Rejected | AttentionResolved | Expired

datatype route_write_status = RouteApplied | RouteDuplicate

record interaction_route_receipt =
  rr_status :: route_write_status
  rr_request_id :: string
  rr_subject :: interaction_subject
  rr_binding :: decision_route_binding
  rr_previous_revision :: u64
  rr_current_revision :: u64
  rr_outcome :: interaction_outcome

record interaction_expiry =
  ie_request_id :: string
  ie_subject :: interaction_subject
  ie_binding :: decision_route_binding
  ie_expired_at :: string

record session_cancellation_snapshot =
  cs_product_session_id :: string
  cs_revision :: u64
  cs_authorized_actor :: authenticated_actor
  cs_active_executions :: "execution_route list"

record session_cancellation_request =
  cq_request_id :: string
  cq_actor :: authenticated_actor
  cq_product_session_id :: string
  cq_expected_revision :: u64
  cq_reason :: string
  cq_requested_at :: string

text \<open>The work identity every cancellation route repeats from its execution.\<close>

record route_identity =
  id_product_session_id :: string
  id_work_contract_id :: "string option"
  id_work_contract_revision :: "int option"
  id_work_item_id :: "string option"
  id_work_item_revision :: "int option"
  id_work_run_id :: "string option"
  id_execution_job_id :: string

record job_cancellation_route =
  jc_identity :: route_identity
  jc_expected_revision :: u64

record worker_cancellation_route =
  wc_identity :: route_identity
  wc_runtime :: runtime_route_authority
  wc_expected_revision :: u64

record model_stream_cancellation_route =
  mc_identity :: route_identity
  mc_runtime :: runtime_route_authority
  mc_model_exchange_id :: string

record execution_cancellation_routes =
  ec_job :: job_cancellation_route
  ec_worker :: "worker_cancellation_route option"
  ec_model_stream :: "model_stream_cancellation_route option"

record session_cancellation_receipt =
  sx_status :: route_write_status
  sx_request_id :: string
  sx_product_session_id :: string
  sx_previous_revision :: u64
  sx_current_revision :: u64
  sx_routes :: "execution_cancellation_routes list"

datatype interaction_routing_error =
    InvalidField string
  | DuplicateRegistration
  | UnknownInteraction
  | UnknownProductSession
  | ActorMismatch
  | SubjectMismatch
  | BindingMismatch
  | RouteRevisionConflict u64 u64
  | DecisionKindMismatch
  | AttentionDecisionNotAllowed
  | AlreadyResolved
  | IdempotencyConflict
  | SessionAlreadyCancelled

record resolved_interaction =
  rv_request_id :: string
  rv_request_fingerprint :: string
  rv_outcome :: interaction_outcome
  rv_current_revision :: u64

record interaction_record =
  ir_registration :: interaction_registration
  ir_resolved :: "resolved_interaction option"

record cancelled_session =
  cd_request :: session_cancellation_request
  cd_request_fingerprint :: string
  cd_receipt :: session_cancellation_receipt

record session_cancellation_record =
  sn_snapshot :: session_cancellation_snapshot
  sn_cancelled :: "cancelled_session option"

record interaction_router =
  rt_interactions :: "interaction_subject \<rightharpoonup> interaction_record"
  rt_sessions :: "string \<rightharpoonup> session_cancellation_record"

section \<open>Validation\<close>

definition validate_id :: "string \<Rightarrow> string \<Rightarrow> string \<Rightarrow> interaction_routing_error + unit" where
  "validate_id s field prefix = ensure (canonical_id s prefix) (InvalidField field)"

definition validate_instant :: "string \<Rightarrow> interaction_routing_error + unit" where
  "validate_instant instant = ensure (valid_instant instant) (InvalidField ''instant'')"

definition validate_request_id :: "string \<Rightarrow> interaction_routing_error + unit" where
  "validate_request_id request_id = validate_id request_id ''requestId'' ''req_''"

fun validate_actor :: "authenticated_actor \<Rightarrow> interaction_routing_error + unit" where
  "validate_actor (ActorUser i) = validate_id i ''actorId'' ''usr_''"
| "validate_actor (ActorServiceAccount i) = validate_id i ''actorId'' ''svc_''"
| "validate_actor (ActorSystem i) = validate_id i ''actorId'' ''sys_''"

fun validate_subject :: "interaction_subject \<Rightarrow> interaction_routing_error + unit" where
  "validate_subject (SubjectUserInput i) = validate_id i ''inputRequestId'' ''inp_''"
| "validate_subject (SubjectApproval i) = validate_id i ''approvalId'' ''apr_''"
| "validate_subject (SubjectAttention i) = validate_id i ''attentionItemId'' ''att_''"

definition validate_digest :: "string \<Rightarrow> interaction_routing_error + unit" where
  "validate_digest digest =
     (case strip_prefix ''sha256:'' digest of
        None \<Rightarrow> Inl (InvalidField ''sha256'')
      | Some s \<Rightarrow> ensure (\<not> (length s \<noteq> 64
            \<or> \<not> list_all (\<lambda>c. is_ascii_digit c \<or> 97 \<le> byte c \<and> byte c \<le> 102) s)) (InvalidField ''sha256''))"

definition validate_action_id :: "string \<Rightarrow> interaction_routing_error + unit" where
  "validate_action_id action_id =
     ensure (\<not> (action_id = [] \<or> length action_id > MAX_ACTION_ID_LENGTH
         \<or> \<not> list_all (\<lambda>c. is_ascii_alphanumeric c \<or> c \<in> set ''._:/@-'') action_id)) (InvalidField ''actionId'')"

definition validate_bounded_text :: "string \<Rightarrow> nat \<Rightarrow> string \<Rightarrow> interaction_routing_error + unit" where
  "validate_bounded_text s max_chars field =
     ensure (\<not> (s = [] \<or> chars_count s > max_chars)) (InvalidField field)"

definition validate_revision :: "u64 \<Rightarrow> string \<Rightarrow> interaction_routing_error + unit" where
  "validate_revision revision field = ensure (1 \<le> revision \<and> revision \<le> max_safe_integer) (InvalidField field)"

text \<open>\<^verbatim>\<open>u64::try_from\<close> of an \<^verbatim>\<open>i64\<close> fails on negative numbers.\<close>

definition validate_domain_revision :: "int \<Rightarrow> string \<Rightarrow> interaction_routing_error + unit" where
  "validate_domain_revision revision field =
     (if revision < 0 then Inl (InvalidField field) else validate_revision (word_of_int revision) field)"

definition next_revision :: "u64 \<Rightarrow> interaction_routing_error + u64" where
  "next_revision revision =
     ok_or (case checked_add revision 1 of
              None \<Rightarrow> None
            | Some n \<Rightarrow> if n \<le> max_safe_integer then Some n else None) (InvalidField ''revision'')"

definition validate_runtime :: "runtime_route_authority \<Rightarrow> interaction_routing_error + unit" where
  "validate_runtime r = check_all
     [validate_id (ra_lease_id r) ''leaseId'' ''lse_'',
      validate_id (ra_worker_id r) ''workerId'' ''wrk_'',
      validate_id (ra_worker_instance_id r) ''workerInstanceId'' ''wki_'',
      validate_id (ra_worker_session_id r) ''workerSessionId'' ''wsn_'',
      ensure (1 \<le> ra_attempt r \<and> ra_attempt r \<le> 1000) (InvalidField ''attempt''),
      ensure (\<not> (ra_fencing_token r = [] \<or> length (ra_fencing_token r) > 20
          \<or> hd (ra_fencing_token r) = CHR ''0'' \<or> \<not> list_all is_ascii_digit (ra_fencing_token r)))
        (InvalidField ''fencingToken'')]"

definition work_identity_complete :: "execution_route \<Rightarrow> bool" where
  "work_identity_complete x \<longleftrightarrow>
     (let some = xr_work_contract_id x \<noteq> None in
      some = (xr_work_contract_revision x \<noteq> None) \<and> some = (xr_work_item_id x \<noteq> None)
      \<and> some = (xr_work_item_revision x \<noteq> None) \<and> some = (xr_work_run_id x \<noteq> None))"

definition validate_execution :: "execution_route \<Rightarrow> interaction_routing_error + unit" where
  "validate_execution x = check_all
     [validate_id (xr_product_session_id x) ''productSessionId'' ''psn_'',
      ensure (work_identity_complete x) (InvalidField ''workRunIdentity''),
      (case xr_work_contract_id x of
         None \<Rightarrow> Inr ()
       | Some work_contract_id \<Rightarrow> check_all
          [validate_id work_contract_id ''workContractId'' ''wct_'',
           validate_domain_revision (the (xr_work_contract_revision x)) ''workContractRevision'',
           validate_id (the (xr_work_item_id x)) ''workItemId'' ''wit_'',
           validate_domain_revision (the (xr_work_item_revision x)) ''workItemRevision'',
           validate_id (the (xr_work_run_id x)) ''workRunId'' ''wrn_'']),
      validate_id (xr_execution_job_id x) ''executionJobId'' ''job_'',
      validate_revision (xr_job_revision x) ''jobRevision'',
      (case (xr_runtime x, xr_worker_slot_revision x) of
         (Some runtime, Some worker_revision) \<Rightarrow>
           check_all [validate_runtime runtime, validate_revision worker_revision ''workerSlotRevision'']
       | (None, None) \<Rightarrow> Inr ()
       | _ \<Rightarrow> Inl (InvalidField ''runtimeAuthority'')),
      ensure (\<not> (xr_model_exchange_id x \<noteq> None \<and> xr_runtime x = None)) (InvalidField ''modelExchangeId''),
      (case xr_model_exchange_id x of
         None \<Rightarrow> Inr ()
       | Some model_exchange_id \<Rightarrow> validate_id model_exchange_id ''modelExchangeId'' ''mdl_'')]"

definition validate_binding :: "decision_route_binding \<Rightarrow> interaction_routing_error + unit" where
  "validate_binding b = check_all
     [validate_execution (db_execution b),
      validate_revision (db_decision_revision b) ''decisionRevision'',
      validate_action_id (db_action_id b)]"

definition validate_registration :: "interaction_registration \<Rightarrow> interaction_routing_error + unit" where
  "validate_registration r = check_all
     [validate_subject (rg_subject r),
      validate_binding (rg_binding r),
      validate_actor (rg_authorized_actor r),
      validate_instant (rg_expires_at r),
      (case rg_subject r of
         SubjectAttention _ \<Rightarrow> check_all
           (ensure (rg_attention_decisions r \<noteq> []) (InvalidField ''attentionDecisions'')
            # map (\<lambda>d. validate_bounded_text d MAX_DECISION_LENGTH ''attentionDecision'') (rg_attention_decisions r))
       | _ \<Rightarrow> ensure (rg_attention_decisions r = []) (InvalidField ''attentionDecisions''))]"

definition validate_response :: "interaction_response \<Rightarrow> interaction_routing_error + unit" where
  "validate_response r = check_all
     [validate_request_id (rp_request_id r),
      validate_actor (rp_actor r),
      validate_subject (rp_subject r),
      validate_binding (rp_binding r),
      validate_instant (rp_responded_at r),
      (case rp_decision r of
         DecideUserInput d \<Rightarrow> validate_digest d
       | DecideApprove d \<Rightarrow> validate_digest d
       | DecideReject d \<Rightarrow> validate_digest d
       | DecideResolveAttention decision d \<Rightarrow> check_all
           [validate_bounded_text decision MAX_DECISION_LENGTH ''attentionDecision'', validate_digest d])]"

definition validate_cancellation_request :: "session_cancellation_request \<Rightarrow> interaction_routing_error + unit" where
  "validate_cancellation_request q = check_all
     [validate_request_id (cq_request_id q),
      validate_actor (cq_actor q),
      validate_id (cq_product_session_id q) ''productSessionId'' ''psn_'',
      validate_revision (cq_expected_revision q) ''expectedRevision'',
      validate_bounded_text (cq_reason q) MAX_REASON_LENGTH ''reason'',
      validate_instant (cq_requested_at q)]"

section \<open>Fingerprints\<close>

text \<open>The \<^verbatim>\<open>Debug\<close> text that \<^verbatim>\<open>derive\<close> writes for newtypes, options and structs.\<close>

definition debug_newtype :: "(string \<Rightarrow> string) \<Rightarrow> string \<Rightarrow> string \<Rightarrow> string" where
  "debug_newtype dbg name s = name @ ''('' @ dbg s @ '')''"

definition debug_option :: "('a \<Rightarrow> string) \<Rightarrow> 'a option \<Rightarrow> string" where
  "debug_option f x = (case x of None \<Rightarrow> ''None'' | Some a \<Rightarrow> ''Some('' @ f a @ '')'')"

definition debug_u64 :: "u64 \<Rightarrow> string" where
  "debug_u64 n = decimal (unat n)"

definition debug_revision :: "int \<Rightarrow> string" where
  "debug_revision r = ''Revision('' @ (if r < 0 then ''-'' @ decimal (nat (- r)) else decimal (nat r)) @ '')''"

fun debug_fields :: "(string \<times> string) list \<Rightarrow> string" where
  "debug_fields [] = []"
| "debug_fields [(name, s)] = name @ '': '' @ s"
| "debug_fields ((name, s) # rest) = name @ '': '' @ s @ '', '' @ debug_fields rest"

definition debug_struct :: "string \<Rightarrow> (string \<times> string) list \<Rightarrow> string" where
  "debug_struct name members = name @ '' { '' @ debug_fields members @ '' }''"

fun debug_actor :: "(string \<Rightarrow> string) \<Rightarrow> authenticated_actor \<Rightarrow> string" where
  "debug_actor dbg (ActorUser i) = ''User('' @ debug_newtype dbg ''UserId'' i @ '')''"
| "debug_actor dbg (ActorServiceAccount i) = ''ServiceAccount('' @ debug_newtype dbg ''ServiceAccountId'' i @ '')''"
| "debug_actor dbg (ActorSystem i) = ''System('' @ debug_newtype dbg ''SystemActorId'' i @ '')''"

fun debug_subject :: "(string \<Rightarrow> string) \<Rightarrow> interaction_subject \<Rightarrow> string" where
  "debug_subject dbg (SubjectUserInput i) = ''UserInput('' @ debug_newtype dbg ''InputRequestId'' i @ '')''"
| "debug_subject dbg (SubjectApproval i) = ''Approval('' @ debug_newtype dbg ''ApprovalId'' i @ '')''"
| "debug_subject dbg (SubjectAttention i) = ''Attention('' @ debug_newtype dbg ''AttentionItemId'' i @ '')''"

definition debug_runtime :: "(string \<Rightarrow> string) \<Rightarrow> runtime_route_authority \<Rightarrow> string" where
  "debug_runtime dbg r = debug_struct ''RuntimeRouteAuthority''
     [(''lease_id'', debug_newtype dbg ''LeaseId'' (ra_lease_id r)),
      (''worker_id'', debug_newtype dbg ''WorkerId'' (ra_worker_id r)),
      (''worker_instance_id'', debug_newtype dbg ''WorkerInstanceId'' (ra_worker_instance_id r)),
      (''worker_session_id'', debug_newtype dbg ''WorkerSessionId'' (ra_worker_session_id r)),
      (''attempt'', debug_u64 (ra_attempt r)),
      (''fencing_token'', debug_newtype dbg ''FencingToken'' (ra_fencing_token r))]"

definition debug_execution :: "(string \<Rightarrow> string) \<Rightarrow> execution_route \<Rightarrow> string" where
  "debug_execution dbg x = debug_struct ''ExecutionRoute''
     [(''product_session_id'', debug_newtype dbg ''ProductSessionId'' (xr_product_session_id x)),
      (''work_contract_id'', debug_option (debug_newtype dbg ''WorkContractId'') (xr_work_contract_id x)),
      (''work_contract_revision'', debug_option debug_revision (xr_work_contract_revision x)),
      (''work_item_id'', debug_option (debug_newtype dbg ''WorkItemId'') (xr_work_item_id x)),
      (''work_item_revision'', debug_option debug_revision (xr_work_item_revision x)),
      (''work_run_id'', debug_option (debug_newtype dbg ''WorkRunId'') (xr_work_run_id x)),
      (''execution_job_id'', debug_newtype dbg ''ExecutionJobId'' (xr_execution_job_id x)),
      (''job_revision'', debug_u64 (xr_job_revision x)),
      (''runtime'', debug_option (debug_runtime dbg) (xr_runtime x)),
      (''worker_slot_revision'', debug_option debug_u64 (xr_worker_slot_revision x)),
      (''model_exchange_id'', debug_option (debug_newtype dbg ''ModelExchangeId'') (xr_model_exchange_id x))]"

definition debug_binding :: "(string \<Rightarrow> string) \<Rightarrow> decision_route_binding \<Rightarrow> string" where
  "debug_binding dbg b = debug_struct ''DecisionRouteBinding''
     [(''execution'', debug_execution dbg (db_execution b)),
      (''action_id'', dbg (db_action_id b)),
      (''decision_revision'', debug_u64 (db_decision_revision b))]"

fun debug_decision :: "(string \<Rightarrow> string) \<Rightarrow> interaction_decision \<Rightarrow> string" where
  "debug_decision dbg (DecideUserInput d) =
     debug_struct ''UserInput'' [(''value_sha256'', debug_newtype dbg ''Sha256Digest'' d)]"
| "debug_decision dbg (DecideApprove d) =
     debug_struct ''Approve'' [(''reason_sha256'', debug_newtype dbg ''Sha256Digest'' d)]"
| "debug_decision dbg (DecideReject d) =
     debug_struct ''Reject'' [(''reason_sha256'', debug_newtype dbg ''Sha256Digest'' d)]"
| "debug_decision dbg (DecideResolveAttention decision d) =
     debug_struct ''ResolveAttention''
       [(''decision'', dbg decision), (''resolution_sha256'', debug_newtype dbg ''Sha256Digest'' d)]"

definition response_fingerprint :: "(string \<Rightarrow> string) \<Rightarrow> interaction_response \<Rightarrow> string" where
  "response_fingerprint dbg r =
     debug_actor dbg (rp_actor r) @ ''|'' @ debug_subject dbg (rp_subject r) @ ''|''
       @ debug_binding dbg (rp_binding r) @ ''|'' @ debug_decision dbg (rp_decision r) @ ''|''
       @ debug_newtype dbg ''Instant'' (rp_responded_at r) @ ''|'' @ rp_request_id r"

definition expiry_fingerprint :: "(string \<Rightarrow> string) \<Rightarrow> interaction_expiry \<Rightarrow> string" where
  "expiry_fingerprint dbg x =
     debug_subject dbg (ie_subject x) @ ''|'' @ debug_binding dbg (ie_binding x) @ ''|''
       @ debug_newtype dbg ''Instant'' (ie_expired_at x) @ ''|'' @ ie_request_id x"

definition cancellation_fingerprint :: "(string \<Rightarrow> string) \<Rightarrow> session_cancellation_request \<Rightarrow> string" where
  "cancellation_fingerprint dbg q =
     debug_actor dbg (cq_actor q) @ ''|'' @ cq_product_session_id q @ ''|''
       @ decimal (unat (cq_expected_revision q)) @ ''|'' @ cq_reason q @ ''|''
       @ debug_newtype dbg ''Instant'' (cq_requested_at q) @ ''|'' @ cq_request_id q"

section \<open>Decisions\<close>

text \<open>\<^verbatim>\<open>binary_search\<close> on a sorted slice: the half that may hold the value is searched on.\<close>

function binary_search_between :: "'a::linorder list \<Rightarrow> 'a \<Rightarrow> nat \<Rightarrow> nat \<Rightarrow> bool" where
  "binary_search_between xs x lo hi =
     (if hi \<le> lo then False
      else
        let mid = lo + (hi - lo) div 2 in
        if xs ! mid = x then True
        else if xs ! mid < x then binary_search_between xs x (mid + 1) hi
        else binary_search_between xs x lo mid)"
  by pat_completeness auto

termination binary_search_between
proof (relation "measure (\<lambda>(xs, x, lo, hi). hi - lo)", goal_cases)
  case (2 xs x lo hi mid)
  then have "(hi - lo) div 2 < hi - lo" by simp
  with 2 show ?case by auto
next
  case (3 xs x lo hi mid)
  then have "lo < hi" and "mid < hi" by auto
  then show ?case by auto
qed auto

declare binary_search_between.simps [simp del]

definition binary_search_ok :: "'a::linorder list \<Rightarrow> 'a \<Rightarrow> bool" where
  "binary_search_ok xs x = binary_search_between xs x 0 (length xs)"

definition validate_decision ::
    "interaction_registration \<Rightarrow> interaction_decision \<Rightarrow> interaction_routing_error + interaction_outcome" where
  "validate_decision r decision =
     (case (rg_subject r, decision) of
        (SubjectUserInput _, DecideUserInput _) \<Rightarrow> Inr InputReceived
      | (SubjectApproval _, DecideApprove _) \<Rightarrow> Inr Approved
      | (SubjectApproval _, DecideReject _) \<Rightarrow> Inr Rejected
      | (SubjectAttention _, DecideResolveAttention d _) \<Rightarrow>
          if \<not> binary_search_ok (rg_attention_decisions r) d then Inl AttentionDecisionNotAllowed
          else Inr AttentionResolved
      | _ \<Rightarrow> Inl DecisionKindMismatch)"

definition require_response_authority ::
    "interaction_record \<Rightarrow> interaction_response \<Rightarrow> interaction_routing_error + unit" where
  "require_response_authority rec r =
     (let g = ir_registration rec in
      if rg_subject g \<noteq> rp_subject r then Inl SubjectMismatch
      else if rg_authorized_actor g \<noteq> rp_actor r then Inl ActorMismatch
      else if rg_binding g \<noteq> rp_binding r then
        (if db_decision_revision (rg_binding g) \<noteq> db_decision_revision (rp_binding r)
         then Inl (RouteRevisionConflict (db_decision_revision (rp_binding r)) (db_decision_revision (rg_binding g)))
         else Inl BindingMismatch)
      else Inr ())"

definition interaction_receipt ::
    "interaction_record \<Rightarrow> string \<Rightarrow> route_write_status \<Rightarrow> interaction_outcome \<Rightarrow> u64 \<Rightarrow> interaction_route_receipt" where
  "interaction_receipt rec request_id status outcome current_revision =
     \<lparr>rr_status = status, rr_request_id = request_id, rr_subject = rg_subject (ir_registration rec),
      rr_binding = rg_binding (ir_registration rec),
      rr_previous_revision = db_decision_revision (rg_binding (ir_registration rec)),
      rr_current_revision = current_revision, rr_outcome = outcome\<rparr>"

definition replay_interaction ::
    "interaction_record \<Rightarrow> string \<Rightarrow> string \<Rightarrow> resolved_interaction \<Rightarrow>
     interaction_routing_error + interaction_route_receipt" where
  "replay_interaction rec request_id fingerprint resolved =
     (if rv_request_id resolved \<noteq> request_id then Inl AlreadyResolved
      else if rv_request_fingerprint resolved \<noteq> fingerprint then Inl IdempotencyConflict
      else Inr (interaction_receipt rec request_id RouteDuplicate (rv_outcome resolved) (rv_current_revision resolved)))"

section \<open>The router\<close>

definition empty_router :: interaction_router where
  "empty_router = \<lparr>rt_interactions = Map.empty, rt_sessions = Map.empty\<rparr>"

definition register_interaction ::
    "interaction_router \<Rightarrow> interaction_registration \<Rightarrow> interaction_routing_error + interaction_router" where
  "register_interaction rt g =
     rbind (validate_registration g) (\<lambda>_.
     let g = g\<lparr>rg_attention_decisions := remdups_adj (sort (rg_attention_decisions g))\<rparr> in
     if rt_interactions rt (rg_subject g) \<noteq> None then Inl DuplicateRegistration
     else Inr (rt\<lparr>rt_interactions := (rt_interactions rt)
       (rg_subject g \<mapsto> \<lparr>ir_registration = g, ir_resolved = None\<rparr>)\<rparr>))"

text \<open>The part that \<^verbatim>\<open>respond\<close> and \<^verbatim>\<open>expire\<close> share: the record keeps its first resolution.\<close>

definition resolve_interaction ::
    "interaction_router \<Rightarrow> interaction_subject \<Rightarrow> interaction_record \<Rightarrow> string \<Rightarrow> string \<Rightarrow> interaction_outcome \<Rightarrow>
     interaction_routing_error + interaction_route_receipt \<times> interaction_router" where
  "resolve_interaction rt subject rec request_id fingerprint outcome =
     rbind (next_revision (db_decision_revision (rg_binding (ir_registration rec)))) (\<lambda>current_revision.
     let rec = rec\<lparr>ir_resolved := Some \<lparr>rv_request_id = request_id, rv_request_fingerprint = fingerprint,
           rv_outcome = outcome, rv_current_revision = current_revision\<rparr>\<rparr> in
     Inr (interaction_receipt rec request_id RouteApplied outcome current_revision,
          rt\<lparr>rt_interactions := (rt_interactions rt)(subject \<mapsto> rec)\<rparr>))"

definition respond ::
    "(string \<Rightarrow> string) \<Rightarrow> interaction_router \<Rightarrow> interaction_response \<Rightarrow>
     interaction_routing_error + interaction_route_receipt \<times> interaction_router" where
  "respond dbg rt r =
     rbind (validate_response r) (\<lambda>_.
     rbind (ok_or (rt_interactions rt (rp_subject r)) UnknownInteraction) (\<lambda>rec.
     rbind (require_response_authority rec r) (\<lambda>_.
     case ir_resolved rec of
       Some resolved \<Rightarrow>
         rbind (replay_interaction rec (rp_request_id r) (response_fingerprint dbg r) resolved) (\<lambda>receipt.
         Inr (receipt, rt))
     | None \<Rightarrow>
         rbind (if rp_responded_at r > rg_expires_at (ir_registration rec) then Inr Expired
                else validate_decision (ir_registration rec) (rp_decision r)) (\<lambda>outcome.
         resolve_interaction rt (rp_subject r) rec (rp_request_id r) (response_fingerprint dbg r) outcome))))"

definition expire ::
    "(string \<Rightarrow> string) \<Rightarrow> interaction_router \<Rightarrow> interaction_expiry \<Rightarrow>
     interaction_routing_error + interaction_route_receipt \<times> interaction_router" where
  "expire dbg rt x =
     rbind (check_all [validate_request_id (ie_request_id x), validate_binding (ie_binding x),
       validate_instant (ie_expired_at x)]) (\<lambda>_.
     rbind (ok_or (rt_interactions rt (ie_subject x)) UnknownInteraction) (\<lambda>rec.
     rbind (check_all
       [ensure (rg_subject (ir_registration rec) = ie_subject x) SubjectMismatch,
        ensure (rg_binding (ir_registration rec) = ie_binding x) BindingMismatch,
        ensure (\<not> ie_expired_at x < rg_expires_at (ir_registration rec)) (InvalidField ''expiredAt'')]) (\<lambda>_.
     case ir_resolved rec of
       Some resolved \<Rightarrow>
         rbind (replay_interaction rec (ie_request_id x) (expiry_fingerprint dbg x) resolved) (\<lambda>receipt.
         Inr (receipt, rt))
     | None \<Rightarrow> resolve_interaction rt (ie_subject x) rec (ie_request_id x) (expiry_fingerprint dbg x) Expired)))"

text \<open>\<^verbatim>\<open>windows(2).any(...)\<close> on the sorted executions.\<close>

fun adjacent_equal :: "('a \<Rightarrow> 'k) \<Rightarrow> 'a list \<Rightarrow> bool" where
  "adjacent_equal key (x # y # zs) = (key x = key y \<or> adjacent_equal key (y # zs))"
| "adjacent_equal key _ = False"

definition check_scope_execution :: "string \<Rightarrow> execution_route \<Rightarrow> interaction_routing_error + unit" where
  "check_scope_execution product_session_id x = check_all
     [validate_execution x, ensure (xr_product_session_id x = product_session_id) BindingMismatch]"

definition register_cancellation_scope ::
    "interaction_router \<Rightarrow> session_cancellation_snapshot \<Rightarrow> interaction_routing_error + interaction_router" where
  "register_cancellation_scope rt snapshot =
     rbind (check_all
       ([validate_actor (cs_authorized_actor snapshot),
         validate_id (cs_product_session_id snapshot) ''productSessionId'' ''psn_'',
         validate_revision (cs_revision snapshot) ''revision'']
        @ map (check_scope_execution (cs_product_session_id snapshot)) (cs_active_executions snapshot))) (\<lambda>_.
     let snapshot = snapshot\<lparr>cs_active_executions := sort_key xr_execution_job_id (cs_active_executions snapshot)\<rparr> in
     if adjacent_equal xr_execution_job_id (cs_active_executions snapshot) then Inl DuplicateRegistration
     else if rt_sessions rt (cs_product_session_id snapshot) \<noteq> None then Inl DuplicateRegistration
     else Inr (rt\<lparr>rt_sessions := (rt_sessions rt)
       (cs_product_session_id snapshot \<mapsto> \<lparr>sn_snapshot = snapshot, sn_cancelled = None\<rparr>)\<rparr>))"

definition route_identity_of :: "execution_route \<Rightarrow> route_identity" where
  "route_identity_of x =
     \<lparr>id_product_session_id = xr_product_session_id x, id_work_contract_id = xr_work_contract_id x,
      id_work_contract_revision = xr_work_contract_revision x, id_work_item_id = xr_work_item_id x,
      id_work_item_revision = xr_work_item_revision x, id_work_run_id = xr_work_run_id x,
      id_execution_job_id = xr_execution_job_id x\<rparr>"

definition cancellation_routes :: "execution_route \<Rightarrow> execution_cancellation_routes" where
  "cancellation_routes x =
     \<lparr>ec_job = \<lparr>jc_identity = route_identity_of x, jc_expected_revision = xr_job_revision x\<rparr>,
      ec_worker = (case (xr_runtime x, xr_worker_slot_revision x) of
          (Some runtime, Some n) \<Rightarrow>
            Some \<lparr>wc_identity = route_identity_of x, wc_runtime = runtime, wc_expected_revision = n\<rparr>
        | _ \<Rightarrow> None),
      ec_model_stream = (case (xr_runtime x, xr_model_exchange_id x) of
          (Some runtime, Some m) \<Rightarrow>
            Some \<lparr>mc_identity = route_identity_of x, mc_runtime = runtime, mc_model_exchange_id = m\<rparr>
        | _ \<Rightarrow> None)\<rparr>"

definition cancel_session ::
    "(string \<Rightarrow> string) \<Rightarrow> interaction_router \<Rightarrow> session_cancellation_request \<Rightarrow>
     interaction_routing_error + session_cancellation_receipt \<times> interaction_router" where
  "cancel_session dbg rt q =
     rbind (validate_cancellation_request q) (\<lambda>_.
     rbind (ok_or (rt_sessions rt (cq_product_session_id q)) UnknownProductSession) (\<lambda>rec.
     let fingerprint = cancellation_fingerprint dbg q in
     case sn_cancelled rec of
       Some cancelled \<Rightarrow>
         if cq_request_id (cd_request cancelled) = cq_request_id q then
           if cd_request_fingerprint cancelled \<noteq> fingerprint then Inl IdempotencyConflict
           else Inr ((cd_receipt cancelled)\<lparr>sx_status := RouteDuplicate\<rparr>, rt)
         else Inl SessionAlreadyCancelled
     | None \<Rightarrow>
         rbind (check_all
           [ensure (cs_authorized_actor (sn_snapshot rec) = cq_actor q) ActorMismatch,
            ensure (cs_revision (sn_snapshot rec) = cq_expected_revision q)
              (RouteRevisionConflict (cq_expected_revision q) (cs_revision (sn_snapshot rec)))]) (\<lambda>_.
         rbind (next_revision (cs_revision (sn_snapshot rec))) (\<lambda>current_revision.
         let receipt = \<lparr>sx_status = RouteApplied, sx_request_id = cq_request_id q,
               sx_product_session_id = cq_product_session_id q, sx_previous_revision = cs_revision (sn_snapshot rec),
               sx_current_revision = current_revision,
               sx_routes = map cancellation_routes (cs_active_executions (sn_snapshot rec))\<rparr> in
         Inr (receipt, rt\<lparr>rt_sessions := (rt_sessions rt)
           (cq_product_session_id q \<mapsto> rec\<lparr>sn_cancelled := Some \<lparr>cd_request = q, cd_request_fingerprint = fingerprint,
             cd_receipt = receipt\<rparr>\<rparr>)\<rparr>)))))"

end
