(* ===== verification/Interaction_Finality.thy ===== *)
theory Interaction_Finality
  imports Interaction_Routing
begin

text \<open>
  What the router promises: an interaction keeps its first resolution, a session its first cancellation,
  and a repeated request is recognised by its contents.
\<close>

section \<open>The router as a machine\<close>

datatype route_op =
    RegisterInteractionOp interaction_registration
  | RespondOp interaction_response
  | ExpireOp interaction_expiry
  | RegisterScopeOp session_cancellation_snapshot
  | CancelOp session_cancellation_request

fun route_step :: "(string \<Rightarrow> string) \<Rightarrow> interaction_router \<Rightarrow> route_op \<Rightarrow> interaction_routing_error + interaction_router" where
  "route_step dbg rt (RegisterInteractionOp g) = register_interaction rt g"
| "route_step dbg rt (RespondOp r) = rbind (respond dbg rt r) (\<lambda>(receipt, rt). Inr rt)"
| "route_step dbg rt (ExpireOp x) = rbind (expire dbg rt x) (\<lambda>(receipt, rt). Inr rt)"
| "route_step dbg rt (RegisterScopeOp s) = register_cancellation_scope rt s"
| "route_step dbg rt (CancelOp q) = rbind (cancel_session dbg rt q) (\<lambda>(receipt, rt). Inr rt)"

text \<open>Decided interactions and cancelled sessions stay as they are.\<close>

definition decisions_kept :: "interaction_router \<Rightarrow> interaction_router \<Rightarrow> bool" where
  "decisions_kept rt rt' \<longleftrightarrow>
     (\<forall>s rec. rt_interactions rt s = Some rec \<longrightarrow> ir_resolved rec \<noteq> None \<longrightarrow> rt_interactions rt' s = Some rec) \<and>
     (\<forall>p rec. rt_sessions rt p = Some rec \<longrightarrow> sn_cancelled rec \<noteq> None \<longrightarrow> rt_sessions rt' p = Some rec)"

lemma decisions_kept_refl: "decisions_kept rt rt"
  by (simp add: decisions_kept_def)

lemma decisions_kept_trans: "decisions_kept a b \<Longrightarrow> decisions_kept b c \<Longrightarrow> decisions_kept a c"
  by (simp add: decisions_kept_def)

lemma decisions_kept_interaction:
  "(\<And>rec. rt_interactions rt s = Some rec \<Longrightarrow> ir_resolved rec = None) \<Longrightarrow>
     decisions_kept rt (rt\<lparr>rt_interactions := (rt_interactions rt)(s \<mapsto> new)\<rparr>)"
  by (auto simp: decisions_kept_def)

lemma decisions_kept_session:
  "(\<And>rec. rt_sessions rt p = Some rec \<Longrightarrow> sn_cancelled rec = None) \<Longrightarrow>
     decisions_kept rt (rt\<lparr>rt_sessions := (rt_sessions rt)(p \<mapsto> new)\<rparr>)"
  by (auto simp: decisions_kept_def)

lemma resolve_interaction_Inr:
  "resolve_interaction rt s rec request_id fp outcome = Inr (receipt, rt') \<longleftrightarrow>
     (\<exists>n. next_revision (db_decision_revision (rg_binding (ir_registration rec))) = Inr n \<and>
       receipt = interaction_receipt rec request_id RouteApplied outcome n \<and>
       rt' = rt\<lparr>rt_interactions := (rt_interactions rt)(s \<mapsto> rec\<lparr>ir_resolved := Some \<lparr>rv_request_id = request_id,
         rv_request_fingerprint = fp, rv_outcome = outcome, rv_current_revision = n\<rparr>\<rparr>)\<rparr>)"
  by (auto simp: resolve_interaction_def rbind_Inr_iff Let_def interaction_receipt_def)

text \<open>A response or an expiry finds an undecided record and decides it, or is a replay.\<close>

lemma respond_cases:
  assumes "respond dbg rt r = Inr (receipt, rt')"
  obtains (decided) rec outcome where "validate_response r = Inr ()" and "rt_interactions rt (rp_subject r) = Some rec"
      and "require_response_authority rec r = Inr ()" and "ir_resolved rec = None"
      and "resolve_interaction rt (rp_subject r) rec (rp_request_id r) (response_fingerprint dbg r) outcome = Inr (receipt, rt')"
  | (replayed) rec resolved where "validate_response r = Inr ()" and "rt_interactions rt (rp_subject r) = Some rec"
      and "require_response_authority rec r = Inr ()" and "ir_resolved rec = Some resolved"
      and "replay_interaction rec (rp_request_id r) (response_fingerprint dbg r) resolved = Inr receipt" and "rt' = rt"
proof -
  from assms obtain rec where r: "validate_response r = Inr ()" "rt_interactions rt (rp_subject r) = Some rec"
    "require_response_authority rec r = Inr ()"
    by (auto simp: respond_def rbind_Inr_iff ok_or_Inr_iff)
  show thesis
  proof (cases "ir_resolved rec")
    case None
    with r assms show thesis by (auto simp: respond_def rbind_Inr_iff intro: decided)
  next
    case (Some resolved)
    with r assms show thesis by (auto simp: respond_def rbind_Inr_iff intro: replayed)
  qed
qed

lemma expire_kept:
  assumes "expire dbg rt x = Inr (receipt, rt')"
  shows "decisions_kept rt rt'"
proof -
  from assms obtain rec where r: "rt_interactions rt (ie_subject x) = Some rec"
    by (auto simp: expire_def rbind_Inr_iff ok_or_Inr_iff)
  show ?thesis
  proof (cases "ir_resolved rec")
    case None
    with r assms show ?thesis
      by (auto simp: expire_def rbind_Inr_iff resolve_interaction_Inr intro!: decisions_kept_interaction)
  next
    case (Some resolved)
    with r assms show ?thesis by (auto simp: expire_def rbind_Inr_iff decisions_kept_refl)
  qed
qed

lemma respond_kept:
  assumes "respond dbg rt r = Inr (receipt, rt')"
  shows "decisions_kept rt rt'"
  using assms
proof (cases rule: respond_cases)
  case decided
  then show ?thesis by (auto simp: resolve_interaction_Inr intro!: decisions_kept_interaction)
qed (simp add: decisions_kept_refl)

lemma cancel_cases:
  assumes "cancel_session dbg rt q = Inr (receipt, rt')"
  obtains (cancelled) rec where "validate_cancellation_request q = Inr ()"
      and "rt_sessions rt (cq_product_session_id q) = Some rec" and "sn_cancelled rec = None"
      and "sx_status receipt = RouteApplied"
      and "rt' = rt\<lparr>rt_sessions := (rt_sessions rt)(cq_product_session_id q \<mapsto>
             rec\<lparr>sn_cancelled := Some \<lparr>cd_request = q, cd_request_fingerprint = cancellation_fingerprint dbg q,
               cd_receipt = receipt\<rparr>\<rparr>)\<rparr>"
  | (replayed) rec c where "validate_cancellation_request q = Inr ()"
      and "rt_sessions rt (cq_product_session_id q) = Some rec" and "sn_cancelled rec = Some c"
      and "cq_request_id (cd_request c) = cq_request_id q" and "cd_request_fingerprint c = cancellation_fingerprint dbg q"
      and "receipt = (cd_receipt c)\<lparr>sx_status := RouteDuplicate\<rparr>" and "rt' = rt"
proof -
  from assms obtain rec where r: "validate_cancellation_request q = Inr ()"
    "rt_sessions rt (cq_product_session_id q) = Some rec"
    by (auto simp: cancel_session_def rbind_Inr_iff ok_or_Inr_iff)
  show thesis
  proof (cases "sn_cancelled rec")
    case None
    with r assms show thesis by (auto simp: cancel_session_def rbind_Inr_iff Let_def intro: cancelled)
  next
    case (Some c)
    with r assms show thesis by (auto simp: cancel_session_def Let_def intro: replayed split: if_splits)
  qed
qed

interpretation router: preordered_machine "route_step dbg" "\<lambda>_. True" decisions_kept
proof
  fix rt op rt'
  assume step: "route_step dbg rt op = Inr rt'"
  show "decisions_kept rt rt'"
  proof (cases op)
    case (RegisterInteractionOp g)
    with step show ?thesis
      by (auto simp: register_interaction_def rbind_Inr_iff Let_def split: if_splits intro!: decisions_kept_interaction)
  next
    case (RegisterScopeOp s)
    with step show ?thesis
      by (auto simp: register_cancellation_scope_def rbind_Inr_iff Let_def split: if_splits intro!: decisions_kept_session)
  next
    case (CancelOp q)
    with step obtain receipt where "cancel_session dbg rt q = Inr (receipt, rt')" by (auto simp: rbind_Inr_iff)
    then show ?thesis
      by (cases rule: cancel_cases) (auto intro!: decisions_kept_session simp: decisions_kept_refl)
  qed (use step in \<open>auto simp: rbind_Inr_iff dest: respond_kept expire_kept\<close>)
qed (auto intro: decisions_kept_refl decisions_kept_trans)

section \<open>Decisions are final\<close>

lemma responded_record:
  assumes "respond dbg rt r = Inr (receipt, rt')"
  obtains rec resolved where "validate_response r = Inr ()" and "rt_interactions rt' (rp_subject r) = Some rec"
    and "require_response_authority rec r = Inr ()" and "ir_resolved rec = Some resolved"
    and "replay_interaction rec (rp_request_id r) (response_fingerprint dbg r) resolved =
           Inr (receipt\<lparr>rr_status := RouteDuplicate\<rparr>)"
    and "rv_outcome resolved = rr_outcome receipt" and "rv_request_id resolved = rp_request_id r"
  using assms
proof (cases rule: respond_cases)
  case (decided rec outcome)
  from decided(5) obtain n where n: "receipt = interaction_receipt rec (rp_request_id r) RouteApplied outcome n"
    "rt' = rt\<lparr>rt_interactions := (rt_interactions rt)(rp_subject r \<mapsto> rec\<lparr>ir_resolved := Some
       \<lparr>rv_request_id = rp_request_id r, rv_request_fingerprint = response_fingerprint dbg r, rv_outcome = outcome,
        rv_current_revision = n\<rparr>\<rparr>)\<rparr>" by (auto simp: resolve_interaction_Inr)
  let ?resolved = "\<lparr>rv_request_id = rp_request_id r, rv_request_fingerprint = response_fingerprint dbg r,
    rv_outcome = outcome, rv_current_revision = n\<rparr>"
  have "require_response_authority (rec\<lparr>ir_resolved := x\<rparr>) r = require_response_authority rec r" for x
    by (simp add: require_response_authority_def)
  with decided(1,3) n show thesis
    by (intro that [of "rec\<lparr>ir_resolved := Some ?resolved\<rparr>" ?resolved])
      (simp_all add: replay_interaction_def interaction_receipt_def)
next
  case (replayed rec resolved)
  then have "receipt\<lparr>rr_status := RouteDuplicate\<rparr> = receipt" "rv_outcome resolved = rr_outcome receipt"
    "rv_request_id resolved = rp_request_id r"
    by (auto simp: replay_interaction_def interaction_receipt_def split: if_splits)
  with replayed show thesis by (intro that) auto
qed

text \<open>
  C27. A human decision is final. Once a response was routed, then after any further requests the
  same response is answered with the same receipt, marked as a duplicate, and any other response to that
  interaction either fails or gets the first outcome under the first request id; neither changes the router.
\<close>

theorem first_decision_final:
  assumes "respond dbg rt r = Inr (receipt, rt')"
  shows "respond dbg (run_ops (route_step dbg) rt' later) r =
      Inr (receipt\<lparr>rr_status := RouteDuplicate\<rparr>, run_ops (route_step dbg) rt' later) \<and>
    (\<forall>other answer rt''. rp_subject other = rp_subject r \<longrightarrow>
      respond dbg (run_ops (route_step dbg) rt' later) other = Inr (answer, rt'') \<longrightarrow>
      rt'' = run_ops (route_step dbg) rt' later \<and> rr_outcome answer = rr_outcome receipt \<and>
      rr_request_id answer = rp_request_id r \<and> rp_request_id other = rp_request_id r)"
proof -
  let ?rt = "run_ops (route_step dbg) rt' later"
  obtain rec resolved where r: "validate_response r = Inr ()" "rt_interactions rt' (rp_subject r) = Some rec"
    "require_response_authority rec r = Inr ()" "ir_resolved rec = Some resolved"
    "replay_interaction rec (rp_request_id r) (response_fingerprint dbg r) resolved =
       Inr (receipt\<lparr>rr_status := RouteDuplicate\<rparr>)"
    "rv_outcome resolved = rr_outcome receipt" "rv_request_id resolved = rp_request_id r"
    by (rule responded_record [OF assms])
  have "decisions_kept rt' ?rt" by (rule router.run_le) simp
  with r(2,4) have kept: "rt_interactions ?rt (rp_subject r) = Some rec" by (simp add: decisions_kept_def)
  have "respond dbg ?rt r = Inr (receipt\<lparr>rr_status := RouteDuplicate\<rparr>, ?rt)"
    by (simp add: respond_def r kept)
  moreover have "rt'' = ?rt \<and> rr_outcome answer = rr_outcome receipt \<and> rr_request_id answer = rp_request_id r
      \<and> rp_request_id other = rp_request_id r"
    if "rp_subject other = rp_subject r" and "respond dbg ?rt other = Inr (answer, rt'')" for other answer rt''
    using that(2)
  proof (cases rule: respond_cases)
    case (decided rec' outcome)
    with that(1) kept r(4) show ?thesis by simp
  next
    case (replayed rec' resolved')
    with that(1) kept r(4,6,7) show ?thesis
      by (auto simp: replay_interaction_def interaction_receipt_def split: if_splits)
  qed
  ultimately show ?thesis by blast
qed

section \<open>Attention decisions\<close>

lemma binary_search_between_iff:
  "sorted xs \<Longrightarrow> hi \<le> length xs \<Longrightarrow>
     binary_search_between xs x lo hi \<longleftrightarrow> (\<exists>i. lo \<le> i \<and> i < hi \<and> xs ! i = x)"
proof (induction "hi - lo" arbitrary: lo hi rule: less_induct)
  case less
  show ?case
  proof (cases "hi \<le> lo")
    case False
    define mid where "mid = lo + (hi - lo) div 2"
    have mid: "lo \<le> mid" "mid < hi" using False by (auto simp: mid_def)
    have step: "binary_search_between xs x lo hi = (xs ! mid = x
        \<or> (xs ! mid \<noteq> x \<and> (if xs ! mid < x then binary_search_between xs x (mid + 1) hi
            else binary_search_between xs x lo mid)))"
      using False by (subst binary_search_between.simps) (simp add: mid_def [symmetric] Let_def)
    have le: "xs ! i \<le> xs ! j" if "i \<le> j" "j < hi" for i j
      using that less.prems by (auto intro: sorted_nth_mono)
    consider (eq) "xs ! mid = x" | (right) "xs ! mid < x" | (left) "x < xs ! mid" by fastforce
    then show ?thesis
    proof cases
      case eq
      then show ?thesis using mid step by auto
    next
      case right
      then have "binary_search_between xs x lo hi \<longleftrightarrow> (\<exists>i. mid + 1 \<le> i \<and> i < hi \<and> xs ! i = x)"
        using step less.hyps [of hi "mid + 1"] less.prems mid by auto
      moreover have "mid < i" if "i < hi" "xs ! i = x" for i
        using le [of i mid] that right mid by (meson leD not_le_imp_less)
      ultimately show ?thesis using mid by (metis Suc_eq_plus1 Suc_leI le_trans less_imp_le)
    next
      case left
      then have "binary_search_between xs x lo hi \<longleftrightarrow> (\<exists>i. lo \<le> i \<and> i < mid \<and> xs ! i = x)"
        using step less.hyps [of mid lo] less.prems mid by auto
      moreover have "i < mid" if "i < hi" "xs ! i = x" for i
        using le [of mid i] that left by (meson leD not_le_imp_less)
      ultimately show ?thesis using mid by (metis less_trans)
    qed
  qed (simp add: binary_search_between.simps)
qed

lemma binary_search_ok_iff: "sorted xs \<Longrightarrow> binary_search_ok xs x \<longleftrightarrow> x \<in> set xs"
  by (auto simp: binary_search_ok_def binary_search_between_iff in_set_conv_nth)

text \<open>
  The sealed choices of an attention item. A registration keeps its decisions sorted and without repetition, and
  the search in them accepts exactly the decisions that were registered.
\<close>

theorem registered_attention_decisions:
  assumes "register_interaction rt g = Inr rt'" and "rg_subject g = SubjectAttention item"
  shows "\<exists>rec. rt_interactions rt' (SubjectAttention item) = Some rec \<and>
    validate_decision (ir_registration rec) (DecideResolveAttention d digest) =
      (if d \<in> set (rg_attention_decisions g) then Inr AttentionResolved else Inl AttentionDecisionNotAllowed)"
proof -
  let ?ds = "remdups_adj (sort (rg_attention_decisions g))"
  let ?rec = "\<lparr>ir_registration = g\<lparr>rg_attention_decisions := ?ds\<rparr>, ir_resolved = None\<rparr>"
  have "rt_interactions rt' (SubjectAttention item) = Some ?rec"
    using assms by (auto simp: register_interaction_def rbind_Inr_iff Let_def split: if_splits)
  moreover have "binary_search_ok ?ds d \<longleftrightarrow> d \<in> set (rg_attention_decisions g)"
    by (simp add: binary_search_ok_iff)
  then have "validate_decision (ir_registration ?rec) (DecideResolveAttention d digest) =
      (if d \<in> set (rg_attention_decisions g) then Inr AttentionResolved else Inl AttentionDecisionNotAllowed)"
    by (simp add: validate_decision_def assms(2))
  ultimately show ?thesis by blast
qed

section \<open>Fingerprints of cancellations\<close>

definition debug_plain :: "char \<Rightarrow> bool" where
  "debug_plain c \<longleftrightarrow> 32 \<le> byte c \<and> byte c \<le> 126 \<and> byte c \<noteq> 34 \<and> byte c \<noteq> 92"

text \<open>\<^verbatim>\<open>Debug\<close> of a string puts quotes around it and leaves printable ASCII but the quote and the backslash alone.\<close>

definition debug_quotes :: "(string \<Rightarrow> string) \<Rightarrow> bool" where
  "debug_quotes dbg \<longleftrightarrow> (\<forall>s. list_all debug_plain s \<longrightarrow> dbg s = CHR 0x22 # s @ [CHR 0x22])"

lemma canonical_id_shape:
  assumes "canonical_id s prefix" and "list_all debug_plain prefix"
  shows "length s = length prefix + 26" and "list_all debug_plain s"
proof -
  from assms(1) obtain suffix where s: "s = prefix @ suffix" "length suffix = 26" "list_all id_byte suffix"
    by (auto simp: canonical_id_def strip_prefix_Some_iff split: option.splits)
  then show "length s = length prefix + 26" by simp
  have "list_all debug_plain suffix"
    using s(3) by (rule list.pred_mono_strong) (auto simp: id_byte_def is_ascii_digit_def debug_plain_def)
  with assms(2) s(1) show "list_all debug_plain s" by simp
qed

lemma valid_instant_shape:
  assumes "valid_instant s"
  shows "length s = 24" and "list_all debug_plain s"
proof -
  show len: "length s = 24" using assms by (simp add: valid_instant_def)
  have "debug_plain (s ! i)" if "i < 24" for i
  proof (cases "i \<in> fst ` set instant_separators")
    case True
    then obtain c where "(i, c) \<in> set instant_separators" by force
    moreover from this have "s ! i = c" using assms by (auto simp: valid_instant_def list_all_iff)
    ultimately show ?thesis by (auto simp: instant_separators_def debug_plain_def byte_def)
  next
    case False
    then have "is_ascii_digit (s ! i)" using assms that by (auto simp: valid_instant_def list_all_iff)
    then show ?thesis by (simp add: is_ascii_digit_def debug_plain_def)
  qed
  then show "list_all debug_plain s" using len by (simp add: list_all_length)
qed

lemma debug_newtype_plain:
  "debug_quotes dbg \<Longrightarrow> list_all debug_plain s \<Longrightarrow>
     debug_newtype dbg name s = name @ ''('' @ [CHR 0x22] @ s @ [CHR 0x22] @ '')''"
  by (simp add: debug_newtype_def debug_quotes_def)

fun actor_text :: "authenticated_actor \<Rightarrow> string \<times> string" where
  "actor_text (ActorUser i) = (''User(UserId('', i)"
| "actor_text (ActorServiceAccount i) = (''ServiceAccount(ServiceAccountId('', i)"
| "actor_text (ActorSystem i) = (''System(SystemActorId('', i)"

lemma validate_id_shape:
  "validate_id i f p = Inr () \<Longrightarrow> length p = 4 \<Longrightarrow> list_all debug_plain p \<Longrightarrow> length i = 30 \<and> list_all debug_plain i"
  using canonical_id_shape [of i p] by (simp add: validate_id_def ensure_Inr_iff)

lemma debug_actor_text:
  assumes "debug_quotes dbg" and "validate_actor a = Inr ()" and "actor_text a = (h, i)"
  shows "debug_actor dbg a = h @ [CHR 0x22] @ i @ [CHR 0x22] @ ''))'' \<and> length i = 30"
proof -
  have "list_all debug_plain ''usr_''" "list_all debug_plain ''svc_''" "list_all debug_plain ''sys_''"
    by (simp_all add: debug_plain_def byte_def)
  with assms(2,3) have i: "length i = 30" "list_all debug_plain i"
    by (cases a; auto dest!: validate_id_shape)+
  then show ?thesis using assms(1,3) by (cases a) (auto simp: debug_newtype_plain)
qed

lemma debug_actor_append_inject:
  assumes "debug_quotes dbg" and "validate_actor a = Inr ()" and "validate_actor b = Inr ()"
    and "debug_actor dbg a @ xs = debug_actor dbg b @ ys"
  shows "a = b \<and> xs = ys"
proof -
  obtain h i h' j where t: "actor_text a = (h, i)" "actor_text b = (h', j)" by fastforce
  note a = debug_actor_text [OF assms(1,2) t(1)] and b = debug_actor_text [OF assms(1,3) t(2)]
  then have eq: "h @ CHR 0x22 # i @ CHR 0x22 # '')'' @ '')'' @ xs = h' @ CHR 0x22 # j @ CHR 0x22 # '')'' @ '')'' @ ys"
    using assms(4) by simp
  have "h = h'" using t eq by (cases a; cases b) auto
  with eq a b have "i = j" and "xs = ys" by auto
  with t \<open>h = h'\<close> show ?thesis by (cases a; cases b) auto
qed

lemma digits_bar_inject:
  assumes "list_all is_ascii_digit xs" and "list_all is_ascii_digit ys"
    and "xs @ CHR ''|'' # a = ys @ CHR ''|'' # b"
  shows "xs = ys \<and> a = b"
  using assms
proof (induction xs arbitrary: ys)
  case Nil
  then show ?case by (cases ys) (auto simp: is_ascii_digit_def byte_def)
next
  case (Cons x xs)
  then show ?case by (cases ys) (auto simp: is_ascii_digit_def byte_def)
qed

lemma cancellation_fingerprint_inject:
  assumes "debug_quotes dbg" and "validate_cancellation_request q = Inr ()" and "validate_cancellation_request q' = Inr ()"
    and eq: "cancellation_fingerprint dbg q = cancellation_fingerprint dbg q'"
  shows "q = q'"
proof -
  have plain: "list_all debug_plain ''req_''" "list_all debug_plain ''psn_''" by (simp_all add: debug_plain_def byte_def)
  have shape: "length (cq_request_id x) = 30" "length (cq_product_session_id x) = 30" "validate_actor (cq_actor x) = Inr ()"
    "length (cq_requested_at x) = 24" "list_all debug_plain (cq_requested_at x)"
    if "validate_cancellation_request x = Inr ()" for x
    using that plain validate_id_shape [of "cq_request_id x"] validate_id_shape [of "cq_product_session_id x"]
      valid_instant_shape [of "cq_requested_at x"]
    by (auto simp: validate_cancellation_request_def check_all_Inr_iff validate_request_id_def
      Interaction_Routing.validate_instant_def ensure_Inr_iff)
  note q = shape [OF assms(2)] and q' = shape [OF assms(3)]
  let ?d = "\<lambda>x. decimal (unat (cq_expected_revision x))" and ?at = "\<lambda>x. debug_newtype dbg ''Instant'' (cq_requested_at x)"
  have at: "?at x = ''Instant('' @ [CHR 0x22] @ cq_requested_at x @ [CHR 0x22] @ '')''"
    if "validate_cancellation_request x = Inr ()" for x
    using shape(5) [OF that] assms(1) by (simp add: debug_newtype_plain)
  have len: "length (?at q) = length (?at q')" using at [OF assms(2)] at [OF assms(3)] q(4) q'(4) by simp
  from eq have "(debug_actor dbg (cq_actor q) @ ''|'' @ cq_product_session_id q @ ''|'' @ ?d q @ ''|'' @ cq_reason q)
      @ (''|'' @ ?at q @ ''|'' @ cq_request_id q) =
    (debug_actor dbg (cq_actor q') @ ''|'' @ cq_product_session_id q' @ ''|'' @ ?d q' @ ''|'' @ cq_reason q')
      @ (''|'' @ ?at q' @ ''|'' @ cq_request_id q')"
    by (simp add: cancellation_fingerprint_def)
  then have front: "debug_actor dbg (cq_actor q) @ ''|'' @ cq_product_session_id q @ ''|'' @ ?d q @ ''|'' @ cq_reason q =
      debug_actor dbg (cq_actor q') @ ''|'' @ cq_product_session_id q' @ ''|'' @ ?d q' @ ''|'' @ cq_reason q'"
    and rear: "?at q @ ''|'' @ cq_request_id q = ?at q' @ ''|'' @ cq_request_id q'"
    by (subst (asm) append_eq_append_conv; use len q(1) q'(1) in simp)+
  from rear len have "?at q = ?at q'" and req: "cq_request_id q = cq_request_id q'" by simp_all
  then have inst: "cq_requested_at q = cq_requested_at q'" using at [OF assms(2)] at [OF assms(3)] by simp
  from debug_actor_append_inject [OF assms(1) q(3) q'(3) front] have actor: "cq_actor q = cq_actor q'"
    and rest: "cq_product_session_id q @ ''|'' @ ?d q @ ''|'' @ cq_reason q =
      cq_product_session_id q' @ ''|'' @ ?d q' @ ''|'' @ cq_reason q'" by auto
  from rest q(2) q'(2) have psn: "cq_product_session_id q = cq_product_session_id q'"
    and tail_eq: "?d q @ CHR ''|'' # cq_reason q = ?d q' @ CHR ''|'' # cq_reason q'" by simp_all
  have "?d q = ?d q' \<and> cq_reason q = cq_reason q'"
    by (rule digits_bar_inject [OF _ _ tail_eq]) (auto simp: list_all_iff dest: decimal_digits)
  then show ?thesis using req inst actor psn
    by (intro session_cancellation_request.equality) (simp_all add: decimal_inject word_unat_eq_iff)
qed

text \<open>A stored cancellation carries its request and that request's fingerprint.\<close>

definition cancellations_ok :: "(string \<Rightarrow> string) \<Rightarrow> interaction_router \<Rightarrow> bool" where
  "cancellations_ok dbg rt \<longleftrightarrow> (\<forall>p rec c. rt_sessions rt p = Some rec \<longrightarrow> sn_cancelled rec = Some c \<longrightarrow>
     validate_cancellation_request (cd_request c) = Inr ()
       \<and> cd_request_fingerprint c = cancellation_fingerprint dbg (cd_request c))"

lemma cancellations_ok_sessions:
  "rt_sessions rt' = rt_sessions rt \<Longrightarrow> cancellations_ok dbg rt \<Longrightarrow> cancellations_ok dbg rt'"
  by (simp add: cancellations_ok_def)

lemma cancel_cancellations_ok:
  assumes "cancel_session dbg rt q = Inr (receipt, rt')" and "cancellations_ok dbg rt"
  shows "cancellations_ok dbg rt'"
  using assms(1)
proof (cases rule: cancel_cases)
  case cancelled
  with assms(2) show ?thesis by (simp add: cancellations_ok_def)
qed (use assms(2) in simp)

interpretation cancellations: fallible_machine "route_step dbg" "cancellations_ok dbg"
proof
  fix rt op rt'
  assume ok: "cancellations_ok dbg rt" and step: "route_step dbg rt op = Inr rt'"
  show "cancellations_ok dbg rt'"
  proof (cases op)
    case (RegisterInteractionOp g)
    with step ok show ?thesis
      by (auto simp: register_interaction_def rbind_Inr_iff Let_def split: if_splits
        intro!: cancellations_ok_sessions [OF _ ok])
  next
    case (RespondOp r)
    with step obtain receipt where "respond dbg rt r = Inr (receipt, rt')" by (auto simp: rbind_Inr_iff)
    then have "rt_sessions rt' = rt_sessions rt"
      by (cases rule: respond_cases) (auto simp: resolve_interaction_Inr)
    then show ?thesis using ok by (rule cancellations_ok_sessions)
  next
    case (ExpireOp x)
    with step obtain receipt rec where e: "expire dbg rt x = Inr (receipt, rt')"
      "rt_interactions rt (ie_subject x) = Some rec" by (auto simp: expire_def rbind_Inr_iff ok_or_Inr_iff)
    then have "rt_sessions rt' = rt_sessions rt"
      by (cases "ir_resolved rec") (auto simp: expire_def rbind_Inr_iff resolve_interaction_Inr)
    then show ?thesis using ok by (rule cancellations_ok_sessions)
  next
    case (RegisterScopeOp sn)
    with step ok show ?thesis
      by (auto simp: register_cancellation_scope_def rbind_Inr_iff Let_def cancellations_ok_def split: if_splits)
  next
    case (CancelOp q)
    with step ok show ?thesis by (auto simp: rbind_Inr_iff intro: cancel_cancellations_ok)
  qed
qed

lemma cancelled_session_stored:
  assumes "cancel_session dbg rt q = Inr (receipt, rt')" and "debug_quotes dbg" and "cancellations_ok dbg rt"
  obtains rec c where "rt_sessions rt' (cq_product_session_id q) = Some rec" and "sn_cancelled rec = Some c"
    and "cd_request c = q" and "cd_request_fingerprint c = cancellation_fingerprint dbg q"
    and "(cd_receipt c)\<lparr>sx_status := RouteDuplicate\<rparr> = receipt\<lparr>sx_status := RouteDuplicate\<rparr>"
    and "validate_cancellation_request q = Inr ()"
  using assms(1)
proof (cases rule: cancel_cases)
  case (cancelled rec)
  then show thesis by (intro that) auto
next
  case (replayed rec c)
  with assms(3) have "validate_cancellation_request (cd_request c) = Inr ()"
    "cd_request_fingerprint c = cancellation_fingerprint dbg (cd_request c)" by (auto simp: cancellations_ok_def)
  with replayed have "cd_request c = q" by (metis cancellation_fingerprint_inject [OF assms(2)])
  with replayed show thesis by (intro that) auto
qed

text \<open>
  C28. A session is cancelled once. After a cancellation succeeded, and after any further requests, the same
  cancellation request is answered with the same receipt, marked as a duplicate; the request id with any
  other content is refused as a conflict, and any other request id as already cancelled. The fingerprint
  stands for the whole request: no other valid request has it.
\<close>

theorem first_cancellation_final:
  assumes "cancel_session dbg (run_ops (route_step dbg) empty_router before) q = Inr (receipt, rt')"
    and "debug_quotes dbg"
    and "validate_cancellation_request q' = Inr ()" and "cq_product_session_id q' = cq_product_session_id q"
  shows "cancel_session dbg (run_ops (route_step dbg) rt' later) q' =
    (if q' = q then Inr (receipt\<lparr>sx_status := RouteDuplicate\<rparr>, run_ops (route_step dbg) rt' later)
     else if cq_request_id q' = cq_request_id q then Inl IdempotencyConflict
     else Inl SessionAlreadyCancelled)"
proof -
  let ?rt = "run_ops (route_step dbg) rt' later"
  have "cancellations_ok dbg (run_ops (route_step dbg) empty_router before)"
    by (rule cancellations.run_inv) (simp add: cancellations_ok_def empty_router_def)
  from cancelled_session_stored [OF assms(1,2) this] obtain rec c where
    c: "rt_sessions rt' (cq_product_session_id q) = Some rec" "sn_cancelled rec = Some c"
    "cd_request c = q" "cd_request_fingerprint c = cancellation_fingerprint dbg q"
    "(cd_receipt c)\<lparr>sx_status := RouteDuplicate\<rparr> = receipt\<lparr>sx_status := RouteDuplicate\<rparr>"
    "validate_cancellation_request q = Inr ()" .
  have "decisions_kept rt' ?rt" by (rule router.run_le) simp
  with c(1,2) have "rt_sessions ?rt (cq_product_session_id q) = Some rec" by (simp add: decisions_kept_def)
  moreover have "cancellation_fingerprint dbg q = cancellation_fingerprint dbg q' \<longleftrightarrow> q' = q"
    using cancellation_fingerprint_inject [OF assms(2) c(6) assms(3)] by auto
  ultimately show ?thesis
    using c by (auto simp: cancel_session_def assms(3,4) Let_def)
qed

section \<open>A concrete router\<close>

definition sample_debug :: "string \<Rightarrow> string" where
  "sample_debug s = CHR 0x22 # s @ [CHR 0x22]"

definition sample_id :: "string \<Rightarrow> string" where
  "sample_id prefix = prefix @ replicate 26 CHR ''0''"

definition sample_instant :: string where
  "sample_instant = ''2026-01-01T00:00:00.000Z''"

definition sample_execution :: execution_route where
  "sample_execution = \<lparr>xr_product_session_id = sample_id ''psn_'', xr_work_contract_id = None,
     xr_work_contract_revision = None, xr_work_item_id = None, xr_work_item_revision = None, xr_work_run_id = None,
     xr_execution_job_id = sample_id ''job_'', xr_job_revision = 1, xr_runtime = None,
     xr_worker_slot_revision = None, xr_model_exchange_id = None\<rparr>"

definition sample_binding :: decision_route_binding where
  "sample_binding = \<lparr>db_execution = sample_execution, db_action_id = ''a'', db_decision_revision = 1\<rparr>"

definition sample_registration :: interaction_registration where
  "sample_registration = \<lparr>rg_subject = SubjectAttention (sample_id ''att_''),
     rg_binding = sample_binding,
     rg_authorized_actor = ActorUser (sample_id ''usr_''), rg_expires_at = sample_instant,
     rg_attention_decisions = [''no'', ''go'', ''no'']\<rparr>"

definition sample_response :: interaction_response where
  "sample_response = \<lparr>rp_request_id = sample_id ''req_'', rp_actor = ActorUser (sample_id ''usr_''),
     rp_subject = SubjectAttention (sample_id ''att_''), rp_binding = sample_binding,
     rp_decision = DecideResolveAttention ''go'' (''sha256:'' @ replicate 64 CHR ''a''),
     rp_responded_at = sample_instant\<rparr>"

definition sample_cancellation :: session_cancellation_request where
  "sample_cancellation = \<lparr>cq_request_id = sample_id ''req_'', cq_actor = ActorUser (sample_id ''usr_''),
     cq_product_session_id = sample_id ''psn_'', cq_expected_revision = 1, cq_reason = ''stop'',
     cq_requested_at = sample_instant\<rparr>"

definition sample_snapshot :: session_cancellation_snapshot where
  "sample_snapshot = \<lparr>cs_product_session_id = sample_id ''psn_'', cs_revision = 1,
     cs_authorized_actor = ActorUser (sample_id ''usr_''), cs_active_executions = [sample_execution]\<rparr>"

lemma validate_sample_id [simp]: "validate_id (sample_id p) f p = Inr ()"
  by (simp add: validate_id_def canonical_id_def sample_id_def strip_prefix_def list_all_iff id_byte_def ascii_defs)

lemma validate_sample_instant [simp]: "validate_instant sample_instant = Inr ()"
  by (simp add: validate_instant_def valid_instant_def sample_instant_def instant_separators_def ascii_defs
    list_all_iff nth_Cons' atLeast0LessThan lessThan_Suc eval_nat_numeral)

lemma validate_sample_execution [simp]: "validate_execution sample_execution = Inr ()"
  by (simp add: validate_execution_def sample_execution_def work_identity_complete_def validate_revision_def
    max_safe_integer_def check_all_Inr_iff Let_def)

lemma validate_sample_binding [simp]: "validate_binding sample_binding = Inr ()"
  by (simp add: validate_binding_def sample_binding_def validate_revision_def validate_action_id_def
    max_safe_integer_def MAX_ACTION_ID_LENGTH_def ascii_defs check_all_Inr_iff)

lemma sample_register:
  obtains rt where "register_interaction empty_router sample_registration = Inr rt"
    and "rt_interactions rt (SubjectAttention (sample_id ''att_'')) =
      Some \<lparr>ir_registration = sample_registration\<lparr>rg_attention_decisions := [''go'', ''no'']\<rparr>, ir_resolved = None\<rparr>"
proof -
  have "validate_registration sample_registration = Inr ()"
    unfolding validate_registration_def check_all_Inr_iff
    by (simp add: sample_registration_def validate_bounded_text_def chars_count_def MAX_DECISION_LENGTH_def
      is_continuation_byte_def byte_def check_all_Inr_iff)
  then have "register_interaction empty_router sample_registration = Inr (empty_router\<lparr>rt_interactions :=
      [SubjectAttention (sample_id ''att_'') \<mapsto> \<lparr>ir_registration =
         sample_registration\<lparr>rg_attention_decisions := [''go'', ''no'']\<rparr>, ir_resolved = None\<rparr>]\<rparr>)"
    by (simp add: register_interaction_def empty_router_def Let_def sample_registration_def)
  then show thesis by (rule that) simp
qed

lemma sample_respond:
  assumes "rt_interactions rt (SubjectAttention (sample_id ''att_'')) =
    Some \<lparr>ir_registration = sample_registration\<lparr>rg_attention_decisions := [''go'', ''no'']\<rparr>, ir_resolved = None\<rparr>"
  obtains receipt rt' where "respond dbg rt sample_response = Inr (receipt, rt')" and "rr_outcome receipt = AttentionResolved"
proof -
  have digest: "validate_digest (''sha256:'' @ replicate 64 CHR ''a'') = Inr ()"
    by (simp add: validate_digest_def strip_prefix_def list_all_iff ascii_defs)
  have "validate_response sample_response = Inr ()"
    unfolding validate_response_def check_all_Inr_iff
    by (simp add: sample_response_def validate_request_id_def check_all_Inr_iff digest [simplified]
      validate_bounded_text_def chars_count_def MAX_DECISION_LENGTH_def is_continuation_byte_def byte_def)
  moreover have "binary_search_ok [''go'', ''no''] ''go''"
    by (subst binary_search_ok_iff) (simp_all add: less_eq_list_code less_char_def)
  moreover have "db_decision_revision sample_binding = 1" by (simp add: sample_binding_def)
  ultimately have "\<exists>receipt rt'. respond dbg rt sample_response = Inr (receipt, rt') \<and> rr_outcome receipt = AttentionResolved"
    using assms unfolding respond_def
    by (simp add: sample_response_def sample_registration_def require_response_authority_def validate_decision_def
      resolve_interaction_def Interaction_Routing.next_revision_def checked_add_def max_safe_integer_def Let_def
      interaction_receipt_def)
  then show thesis using that by blast
qed

theorem first_decision_final_witness:
  "\<exists>rt receipt rt'. respond sample_debug rt sample_response = Inr (receipt, rt') \<and> rr_outcome receipt = AttentionResolved \<and>
     respond sample_debug (run_ops (route_step sample_debug) rt' []) sample_response =
       Inr (receipt\<lparr>rr_status := RouteDuplicate\<rparr>, run_ops (route_step sample_debug) rt' [])"
proof -
  obtain rt where "register_interaction empty_router sample_registration = Inr rt"
    and registered: "rt_interactions rt (SubjectAttention (sample_id ''att_'')) =
      Some \<lparr>ir_registration = sample_registration\<lparr>rg_attention_decisions := [''go'', ''no'']\<rparr>, ir_resolved = None\<rparr>"
    by (rule sample_register)
  from sample_respond [OF registered, of sample_debug] obtain receipt rt' where
    r: "respond sample_debug rt sample_response = Inr (receipt, rt')" "rr_outcome receipt = AttentionResolved" .
  show ?thesis
    by (intro exI conjI) (rule r(1), rule r(2), rule first_decision_final [OF r(1), of "[]", THEN conjunct1])
qed

lemma sample_cancel:
  obtains receipt rt where
    "cancel_session sample_debug (run_ops (route_step sample_debug) empty_router [RegisterScopeOp sample_snapshot])
       sample_cancellation = Inr (receipt, rt)"
    and "validate_cancellation_request sample_cancellation = Inr ()"
proof -
  have valid: "validate_cancellation_request sample_cancellation = Inr ()"
    unfolding validate_cancellation_request_def check_all_Inr_iff
    by (simp add: sample_cancellation_def validate_request_id_def validate_revision_def max_safe_integer_def
      validate_bounded_text_def chars_count_def Interaction_Routing.MAX_REASON_LENGTH_def is_continuation_byte_def byte_def)
  have exec: "xr_product_session_id sample_execution = sample_id ''psn_''" by (simp add: sample_execution_def)
  have step: "route_step sample_debug empty_router (RegisterScopeOp sample_snapshot) = Inr (empty_router\<lparr>rt_sessions :=
      [sample_id ''psn_'' \<mapsto> \<lparr>sn_snapshot = sample_snapshot, sn_cancelled = None\<rparr>]\<rparr>)"
    using exec by (simp add: register_cancellation_scope_def sample_snapshot_def check_scope_execution_def
      validate_revision_def max_safe_integer_def check_all.simps Let_def empty_router_def)
  have "\<exists>receipt rt. cancel_session sample_debug (empty_router\<lparr>rt_sessions :=
      [sample_id ''psn_'' \<mapsto> \<lparr>sn_snapshot = sample_snapshot, sn_cancelled = None\<rparr>]\<rparr>) sample_cancellation = Inr (receipt, rt)"
    unfolding cancel_session_def valid
    by (simp add: sample_cancellation_def sample_snapshot_def check_all.simps Interaction_Routing.next_revision_def
      checked_add_def max_safe_integer_def Let_def)
  then show thesis using valid that step by auto
qed

theorem first_cancellation_final_witness:
  "\<exists>receipt rt. cancel_session sample_debug
      (run_ops (route_step sample_debug) empty_router [RegisterScopeOp sample_snapshot]) sample_cancellation = Inr (receipt, rt) \<and>
     cancel_session sample_debug (run_ops (route_step sample_debug) rt [])
       (sample_cancellation\<lparr>cq_expected_revision := 2\<rparr>) = Inl IdempotencyConflict"
proof -
  obtain receipt rt where c: "cancel_session sample_debug
      (run_ops (route_step sample_debug) empty_router [RegisterScopeOp sample_snapshot]) sample_cancellation = Inr (receipt, rt)"
    and valid: "validate_cancellation_request sample_cancellation = Inr ()" by (rule sample_cancel)
  have other: "validate_cancellation_request (sample_cancellation\<lparr>cq_expected_revision := 2\<rparr>) = Inr ()"
    using valid by (simp add: validate_cancellation_request_def check_all_Inr_iff validate_revision_def max_safe_integer_def)
  have quotes: "debug_quotes sample_debug" by (simp add: debug_quotes_def sample_debug_def)
  show ?thesis
    using c first_cancellation_final [OF c quotes other, of "[]"] by (auto simp: sample_cancellation_def)
qed

end
