(* ===== verification/Occupancy_Ledger.thy ===== *)
theory Occupancy_Ledger
  imports Storage_Keys Sql_Table
begin

text \<open>
  \<^verbatim>\<open>crates/winwincode-storage/src/client_occupancy.rs\<close>: the control plane's ledger of occupancy leases. A
  user who wants to run work on a device claims it; the claim mints a fencing token and starts a lease that
  goes through reservation, occupation, draining and recovery until it is released or expires.
\<close>

section \<open>States and reasons\<close>

datatype occupancy_lease_state = Reserving | Occupied | Draining | RecoveryPending | Released | LeaseExpired

datatype occupancy_release_reason =
    AckTimeout | ClientRejected | ClaimWithdrawn | HolderReleased | DrainCompleted | ForceReleased

datatype occupancy_reconcile_target = ResumeOccupied | ResumeDraining

datatype occupancy_error_kind =
    OccInvalidInput | UnknownClientNode | UnknownOccupancyLease | AccessDenied | PresenceNotOnline
  | ClientLocked | NotAcceptingConnections | CapacityExhausted | ActiveLeaseConflict | OccupancyLeaseConflict
  | FencingTokenMismatch | FencingTokenExhausted | IllegalStateTransition | OccRevisionConflict | CorruptState
  | OccStorage

record occupancy_store_error =
  oe_kind :: occupancy_error_kind
  oe_message :: string

definition occ_error :: "occupancy_error_kind \<Rightarrow> string \<Rightarrow> occupancy_store_error" where
  "occ_error kind message = \<lparr>oe_kind = kind, oe_message = message\<rparr>"

lemma occ_error_kind [simp]: "oe_kind (occ_error k m) = k"
  by (simp add: occ_error_def)

fun lease_state_str :: "occupancy_lease_state \<Rightarrow> string" where
  "lease_state_str Reserving = ''reserving''"
| "lease_state_str Occupied = ''occupied''"
| "lease_state_str Draining = ''draining''"
| "lease_state_str RecoveryPending = ''recovery_pending''"
| "lease_state_str Released = ''released''"
| "lease_state_str LeaseExpired = ''expired''"

definition parse_lease_state :: "string \<Rightarrow> occupancy_store_error + occupancy_lease_state" where
  "parse_lease_state s =
     (if s = ''reserving'' then Inr Reserving else if s = ''occupied'' then Inr Occupied
      else if s = ''draining'' then Inr Draining else if s = ''recovery_pending'' then Inr RecoveryPending
      else if s = ''released'' then Inr Released else if s = ''expired'' then Inr LeaseExpired
      else Inl (occ_error CorruptState ''stored occupancy lease state is invalid''))"

fun is_active :: "occupancy_lease_state \<Rightarrow> bool" where
  "is_active Released = False"
| "is_active LeaseExpired = False"
| "is_active _ = True"

fun release_reason_str :: "occupancy_release_reason \<Rightarrow> string" where
  "release_reason_str AckTimeout = ''ack_timeout''"
| "release_reason_str ClientRejected = ''client_rejected''"
| "release_reason_str ClaimWithdrawn = ''claim_withdrawn''"
| "release_reason_str HolderReleased = ''holder_released''"
| "release_reason_str DrainCompleted = ''drain_completed''"
| "release_reason_str ForceReleased = ''force_released''"

definition parse_release_reason :: "string \<Rightarrow> occupancy_store_error + occupancy_release_reason" where
  "parse_release_reason s =
     (if s = ''ack_timeout'' then Inr AckTimeout else if s = ''client_rejected'' then Inr ClientRejected
      else if s = ''claim_withdrawn'' then Inr ClaimWithdrawn else if s = ''holder_released'' then Inr HolderReleased
      else if s = ''drain_completed'' then Inr DrainCompleted else if s = ''force_released'' then Inr ForceReleased
      else Inl (occ_error CorruptState ''stored occupancy release reason is invalid''))"

lemma parse_lease_state_str [simp]: "parse_lease_state (lease_state_str st) = Inr st"
  by (cases st) (simp_all add: parse_lease_state_def)

lemma parse_release_reason_str [simp]: "parse_release_reason (release_reason_str r) = Inr r"
  by (cases r) (simp_all add: parse_release_reason_def)

lemma lease_state_str_inject [simp]: "lease_state_str a = lease_state_str b \<longleftrightarrow> a = b"
  by (metis parse_lease_state_str sum.inject(2))

section \<open>Validation\<close>

definition MAX_ID_BYTES :: nat where "MAX_ID_BYTES = 96"

definition validate_crockford_id :: "string \<Rightarrow> string \<Rightarrow> string \<Rightarrow> occupancy_store_error + unit" where
  "validate_crockford_id s prefix label =
     (case strip_prefix prefix s of
        None \<Rightarrow> Inl (occ_error OccInvalidInput (label @ '' is not canonical''))
      | Some suffix \<Rightarrow>
          ensure (\<not> (length suffix \<noteq> 26 \<or> length s > MAX_ID_BYTES \<or> \<not> list_all is_crockford_base32 suffix))
            (occ_error OccInvalidInput (label @ '' is not canonical'')))"

definition validate_occupancy_lease_id :: "string \<Rightarrow> occupancy_store_error + unit" where
  "validate_occupancy_lease_id s = validate_crockford_id s ''ocl_'' ''occupancy lease id''"

definition validate_client_node_id :: "string \<Rightarrow> occupancy_store_error + unit" where
  "validate_client_node_id s = validate_crockford_id s ''cnd_'' ''client node id''"

definition validate_user_id :: "string \<Rightarrow> occupancy_store_error + unit" where
  "validate_user_id s = validate_crockford_id s ''usr_'' ''user id''"

definition validate_claim_request_id :: "string \<Rightarrow> occupancy_store_error + unit" where
  "validate_claim_request_id s = validate_crockford_id s ''req_'' ''claim request id''"

definition instant_punctuation :: "(nat \<times> char) list" where
  "instant_punctuation = [(4, CHR ''-''), (7, CHR ''-''), (10, CHR ''T''), (13, CHR '':''), (16, CHR '':''), (19, CHR ''.'')]"

definition occ_instant_ok :: "string \<Rightarrow> bool" where
  "occ_instant_ok s \<longleftrightarrow> length s = 24 \<and> s ! 23 = CHR ''Z''
     \<and> list_all (\<lambda>(i, c). s ! i = c) instant_punctuation
     \<and> list_all (\<lambda>i. i \<in> fst ` set instant_punctuation \<or> i = 23 \<or> is_ascii_digit (s ! i)) [0 ..< length s]"

definition occ_validate_instant :: "string \<Rightarrow> string \<Rightarrow> occupancy_store_error + unit" where
  "occ_validate_instant s label =
     ensure (occ_instant_ok s) (occ_error OccInvalidInput (label @ '' instant is not canonical''))"

definition parse_stored_instant :: "string \<Rightarrow> string \<Rightarrow> occupancy_store_error + string" where
  "parse_stored_instant s label = rbind (occ_validate_instant s label) (\<lambda>_. Inr s)"

definition validate_fencing_token :: "u64 \<Rightarrow> occupancy_store_error + unit" where
  "validate_fencing_token t =
     ensure (\<not> (t = 0 \<or> t > max_safe_integer)) (occ_error OccInvalidInput ''fencing token is outside the durable range'')"

definition sql_integer :: "u64 \<Rightarrow> occupancy_store_error + int" where
  "sql_integer x = ok_or (i64_of_u64 x) (occ_error OccInvalidInput ''numeric value exceeds the SQLite integer range'')"

definition from_sql_integer :: "int \<Rightarrow> string \<Rightarrow> occupancy_store_error + u64" where
  "from_sql_integer i label =
     rbind (ok_or (u64_of_i64 i) (occ_error CorruptState (''stored '' @ label @ '' is negative''))) (\<lambda>x.
     rbind (ensure (\<not> x > max_safe_integer)
       (occ_error CorruptState (''stored '' @ label @ '' exceeds the safe integer range''))) (\<lambda>_. Inr x))"

section \<open>Tables\<close>

text \<open>
  The rows of devices and grants are written by other components (\<^verbatim>\<open>client_registry.rs\<close>,
  \<^verbatim>\<open>client_connect.rs\<close>); the ledger reads the columns below.
\<close>

record client_node_row =
  cn_client_node_id :: string
  cn_presence_state :: string
  cn_lock_state :: string
  cn_accepting_connections :: int
  cn_max_concurrent_worker_sessions :: int
  cn_reported_running_worker_sessions :: int

record access_grant_row =
  ag_client_node_id :: string
  ag_user_id :: string
  ag_state :: string
  ag_permissions :: string

record lease_row =
  lw_occupancy_lease_id :: string
  lw_client_node_id :: string
  lw_holder_user_id :: string
  lw_fencing_token :: int
  lw_claim_request_id :: string
  lw_state :: string
  lw_acknowledged_at :: "string option"
  lw_claimed_at :: "string option"
  lw_last_renewed_at :: "string option"
  lw_idle_expires_at :: "string option"
  lw_recovery_deadline_at :: "string option"
  lw_release_reason :: "string option"
  lw_created_at :: string
  lw_revision :: int

record recovery_row =
  ry_occupancy_lease_id :: string
  ry_was_draining :: bool
  ry_started_at :: string

record occupancy_db =
  oc_writable :: bool
  oc_nodes :: "client_node_row list"
  oc_grants :: "access_grant_row list"
  oc_leases :: "lease_row list"
  oc_last_issued_token :: "int option"
  oc_recovery :: "recovery_row list"

record occupancy_lease_record =
  ol_occupancy_lease_id :: string
  ol_client_node_id :: string
  ol_holder_user_id :: string
  ol_fencing_token :: u64
  ol_claim_request_id :: string
  ol_state :: occupancy_lease_state
  ol_acknowledged_at :: "string option"
  ol_claimed_at :: "string option"
  ol_last_renewed_at :: "string option"
  ol_idle_expires_at :: "string option"
  ol_recovery_deadline_at :: "string option"
  ol_release_reason :: "occupancy_release_reason option"
  ol_created_at :: string
  ol_revision :: u64

definition parse_optional :: "string option \<Rightarrow> string \<Rightarrow> occupancy_store_error + string option" where
  "parse_optional x label =
     (case x of None \<Rightarrow> Inr None | Some s \<Rightarrow> rbind (parse_stored_instant s label) (\<lambda>s. Inr (Some s)))"

definition occupancy_lease_record_from_row :: "lease_row \<Rightarrow> occupancy_store_error + occupancy_lease_record" where
  "occupancy_lease_record_from_row r =
     rbind (from_sql_integer (lw_fencing_token r) ''fencing token'') (\<lambda>fencing_token.
     rbind (parse_lease_state (lw_state r)) (\<lambda>state.
     rbind (parse_optional (lw_acknowledged_at r) ''acknowledged at'') (\<lambda>acknowledged_at.
     rbind (parse_optional (lw_claimed_at r) ''claimed at'') (\<lambda>claimed_at.
     rbind (parse_optional (lw_last_renewed_at r) ''last renewed at'') (\<lambda>last_renewed_at.
     rbind (parse_optional (lw_idle_expires_at r) ''idle expiry'') (\<lambda>idle_expires_at.
     rbind (parse_optional (lw_recovery_deadline_at r) ''recovery deadline'') (\<lambda>recovery_deadline_at.
     rbind (case lw_release_reason r of None \<Rightarrow> Inr None
            | Some s \<Rightarrow> rbind (parse_release_reason s) (\<lambda>x. Inr (Some x))) (\<lambda>release_reason.
     rbind (parse_stored_instant (lw_created_at r) ''created at'') (\<lambda>created_at.
     rbind (from_sql_integer (lw_revision r) ''occupancy lease revision'') (\<lambda>revision.
     Inr \<lparr>ol_occupancy_lease_id = lw_occupancy_lease_id r, ol_client_node_id = lw_client_node_id r,
          ol_holder_user_id = lw_holder_user_id r, ol_fencing_token = fencing_token,
          ol_claim_request_id = lw_claim_request_id r, ol_state = state, ol_acknowledged_at = acknowledged_at,
          ol_claimed_at = claimed_at, ol_last_renewed_at = last_renewed_at, ol_idle_expires_at = idle_expires_at,
          ol_recovery_deadline_at = recovery_deadline_at, ol_release_reason = release_reason,
          ol_created_at = created_at, ol_revision = revision\<rparr>))))))))))"

definition occ_storage_error :: "string \<Rightarrow> occupancy_store_error" where
  "occ_storage_error storage = occ_error OccStorage (''occupancy ledger storage failed: '' @ storage)"

definition occ_sql_error :: occupancy_store_error where
  "occ_sql_error = occ_error OccStorage ''occupancy ledger storage operation failed''"

definition occ_transaction :: "occupancy_db \<Rightarrow> occupancy_store_error + unit" where
  "occ_transaction db = ensure (oc_writable db) (occ_storage_error ''SQLite snapshot is read-only'')"

definition load_occupancy_lease :: "occupancy_db \<Rightarrow> string \<Rightarrow> occupancy_store_error + occupancy_lease_record option" where
  "load_occupancy_lease db lease_id =
     (case tbl_find lw_occupancy_lease_id lease_id (oc_leases db) of
        None \<Rightarrow> Inr None
      | Some r \<Rightarrow> rbind (occupancy_lease_record_from_row r) (\<lambda>x. Inr (Some x)))"

definition require_occupancy_lease :: "occupancy_db \<Rightarrow> string \<Rightarrow> occupancy_store_error + occupancy_lease_record" where
  "require_occupancy_lease db lease_id =
     rbind (load_occupancy_lease db lease_id) (\<lambda>x.
     ok_or x (occ_error UnknownOccupancyLease ''occupancy lease does not exist''))"

definition unknown_client_node :: occupancy_store_error where
  "unknown_client_node = occ_error UnknownClientNode ''client node does not exist''"

definition cas_lost :: "string \<Rightarrow> occupancy_store_error" where
  "cas_lost action = occ_error OccRevisionConflict (''occupancy compare-and-swap lost during '' @ action)"

definition illegal_transition :: "occupancy_lease_record \<Rightarrow> string \<Rightarrow> occupancy_store_error" where
  "illegal_transition rec action =
     occ_error IllegalStateTransition (''occupancy transition '' @ lease_state_str (ol_state rec)
       @ '' during '' @ action @ '' is not legal'')"

definition ensure_fencing_token :: "occupancy_lease_record \<Rightarrow> u64 \<Rightarrow> occupancy_store_error + unit" where
  "ensure_fencing_token rec fencing_token =
     ensure (ol_fencing_token rec = fencing_token)
       (occ_error FencingTokenMismatch ''occupancy fencing token does not match the lease'')"

definition ensure_replay_reason ::
    "occupancy_lease_record \<Rightarrow> occupancy_release_reason \<Rightarrow> occupancy_store_error + unit" where
  "ensure_replay_reason rec reason =
     ensure (ol_release_reason rec = Some reason) (illegal_transition rec ''replay'')"

text \<open>
  An \<^verbatim>\<open>UPDATE\<close> of leases that also counts up their revision. The revision column is checked to stay in the
  range of safe integers; a violation is an error of the statement and the transaction is rolled back.
\<close>

definition update_leases ::
    "(lease_row \<Rightarrow> bool) \<Rightarrow> (lease_row \<Rightarrow> lease_row) \<Rightarrow> occupancy_db \<Rightarrow> occupancy_store_error + nat \<times> occupancy_db" where
  "update_leases p f db =
     (if list_ex (\<lambda>r. p r \<and> \<not> lw_revision r + 1 \<le> 9007199254740991) (oc_leases db) then Inl occ_sql_error
      else Inr (tbl_count p (oc_leases db),
        db\<lparr>oc_leases := tbl_update p (\<lambda>r. (f r)\<lparr>lw_revision := lw_revision r + 1\<rparr>) (oc_leases db)\<rparr>))"

definition update_one ::
    "string \<Rightarrow> (lease_row \<Rightarrow> bool) \<Rightarrow> (lease_row \<Rightarrow> lease_row) \<Rightarrow> occupancy_db \<Rightarrow> occupancy_store_error + occupancy_db" where
  "update_one action p f db =
     rbind (update_leases p f db) (\<lambda>(updated, db).
     if updated \<noteq> 1 then Inl (cas_lost action) else Inr db)"

section \<open>Claims\<close>

record occupancy_claim =
  ok_occupancy_lease_id :: string
  ok_client_node_id :: string
  ok_holder_user_id :: string
  ok_claim_request_id :: string

definition OccupancyClaim_try_new ::
    "string \<Rightarrow> string \<Rightarrow> string \<Rightarrow> string \<Rightarrow> occupancy_store_error + occupancy_claim" where
  "OccupancyClaim_try_new lease_id node_id user_id request_id =
     rbind (check_all [validate_occupancy_lease_id lease_id, validate_client_node_id node_id,
       validate_user_id user_id, validate_claim_request_id request_id]) (\<lambda>_.
     Inr \<lparr>ok_occupancy_lease_id = lease_id, ok_client_node_id = node_id, ok_holder_user_id = user_id,
          ok_claim_request_id = request_id\<rparr>)"

definition active_states :: "string list" where
  "active_states = [''reserving'', ''occupied'', ''draining'', ''recovery_pending'']"

definition current_fencing_token :: "occupancy_db \<Rightarrow> occupancy_store_error + u64" where
  "current_fencing_token db =
     (case oc_last_issued_token db of None \<Rightarrow> Inr 0 | Some t \<Rightarrow> from_sql_integer t ''fencing token'')"

definition mint_in_transaction :: "occupancy_db \<Rightarrow> occupancy_store_error + u64 \<times> occupancy_db" where
  "mint_in_transaction db =
     rbind (from_sql_integer (case oc_last_issued_token db of None \<Rightarrow> 0 | Some t \<Rightarrow> t) ''fencing token'') (\<lambda>current.
     if current \<ge> max_safe_integer
     then Inl (occ_error FencingTokenExhausted ''fencing token counter reached the safe integer ceiling'')
     else Inr (current + 1, db\<lparr>oc_last_issued_token := Some (uint (current + 1))\<rparr>))"

definition mint_fencing_token :: "occupancy_db \<Rightarrow> occupancy_store_error + u64 \<times> occupancy_db" where
  "mint_fencing_token db = rbind (occ_transaction db) (\<lambda>_. mint_in_transaction db)"

definition check_node_gate :: "client_node_row \<Rightarrow> occupancy_store_error + unit" where
  "check_node_gate node =
     rbind (check_all
       [ensure (cn_lock_state node \<noteq> ''locked'') (occ_error ClientLocked ''client node is locked''),
        ensure (cn_presence_state node = ''online'') (occ_error PresenceNotOnline ''client node presence is not online''),
        ensure (cn_accepting_connections node = 1)
          (occ_error NotAcceptingConnections ''client node does not accept new occupancy'')]) (\<lambda>_.
     rbind (from_sql_integer (cn_max_concurrent_worker_sessions node) ''client worker session capacity'') (\<lambda>max_slots.
     rbind (from_sql_integer (cn_reported_running_worker_sessions node) ''reported running worker sessions'') (\<lambda>running.
     ensure (\<not> saturating_add running 1 > max_slots)
       (occ_error CapacityExhausted ''client node has no free worker session slot''))))"

definition check_grant_gate :: "occupancy_db \<Rightarrow> occupancy_claim \<Rightarrow> occupancy_store_error + unit" where
  "check_grant_gate db claim =
     (case find (\<lambda>g. ag_client_node_id g = ok_client_node_id claim \<and> ag_user_id g = ok_holder_user_id claim
          \<and> ag_state g = ''active'') (oc_grants db) of
        None \<Rightarrow> Inl (occ_error AccessDenied ''holder has no active access grant on this client node'')
      | Some g \<Rightarrow> ensure (ag_permissions g \<in> {''use'', ''use+manage'', ''use+share'', ''use+manage+share''})
          (occ_error CorruptState ''stored access grant permissions are invalid''))"

definition ensure_claim_gate :: "occupancy_db \<Rightarrow> occupancy_claim \<Rightarrow> occupancy_store_error + unit" where
  "ensure_claim_gate db claim =
     (case tbl_find cn_client_node_id (ok_client_node_id claim) (oc_nodes db) of
        None \<Rightarrow> Inl unknown_client_node
      | Some node \<Rightarrow> check_all
          [check_node_gate node,
           check_grant_gate db claim,
           ensure (\<not> list_ex (\<lambda>r. lw_client_node_id r = ok_client_node_id claim \<and> lw_state r \<in> set active_states) (oc_leases db))
             (occ_error ActiveLeaseConflict ''client node already holds an active occupancy lease'')])"

definition new_lease_row :: "occupancy_claim \<Rightarrow> int \<Rightarrow> string \<Rightarrow> lease_row" where
  "new_lease_row claim token now =
     \<lparr>lw_occupancy_lease_id = ok_occupancy_lease_id claim, lw_client_node_id = ok_client_node_id claim,
      lw_holder_user_id = ok_holder_user_id claim, lw_fencing_token = token,
      lw_claim_request_id = ok_claim_request_id claim, lw_state = ''reserving'', lw_acknowledged_at = None,
      lw_claimed_at = Some now, lw_last_renewed_at = None, lw_idle_expires_at = None,
      lw_recovery_deadline_at = None, lw_release_reason = None, lw_created_at = now, lw_revision = 1\<rparr>"

text \<open>The constraints of the table, and the errors \<^verbatim>\<open>map_lease_insert_sql\<close> makes of their violation.\<close>

definition insert_lease :: "occupancy_db \<Rightarrow> lease_row \<Rightarrow> occupancy_store_error + occupancy_db" where
  "insert_lease db row =
     (if list_ex (\<lambda>r. lw_occupancy_lease_id r = lw_occupancy_lease_id row) (oc_leases db)
      then Inl (occ_error OccupancyLeaseConflict ''occupancy lease id is already used'')
      else if list_ex (\<lambda>r. lw_fencing_token r = lw_fencing_token row) (oc_leases db)
          \<or> list_ex (\<lambda>r. lw_client_node_id r = lw_client_node_id row \<and> lw_state r \<in> set active_states) (oc_leases db)
      then Inl (occ_error ActiveLeaseConflict ''client node already holds an active occupancy lease'')
      else if tbl_find cn_client_node_id (lw_client_node_id row) (oc_nodes db) = None then Inl unknown_client_node
      else Inr (db\<lparr>oc_leases := oc_leases db @ [row]\<rparr>))"

definition atomic_claim ::
    "occupancy_db \<Rightarrow> occupancy_claim \<Rightarrow> string \<Rightarrow> occupancy_store_error + occupancy_lease_record \<times> occupancy_db" where
  "atomic_claim db claim now =
     rbind (occ_validate_instant now ''claim time'') (\<lambda>_.
     rbind (occ_transaction db) (\<lambda>_.
     rbind (ensure_claim_gate db claim) (\<lambda>_.
     rbind (mint_in_transaction db) (\<lambda>(fencing_token, db).
     rbind (sql_integer fencing_token) (\<lambda>token.
     rbind (insert_lease db (new_lease_row claim token now)) (\<lambda>db.
     rbind (load_occupancy_lease db (ok_occupancy_lease_id claim)) (\<lambda>loaded.
     rbind (ok_or loaded (occ_error CorruptState ''occupancy lease row is missing after the write'')) (\<lambda>rec.
     Inr (rec, db)))))))))"

section \<open>Transitions\<close>

definition reload :: "occupancy_db \<Rightarrow> string \<Rightarrow> occupancy_store_error + occupancy_lease_record \<times> occupancy_db" where
  "reload db lease_id = rbind (require_occupancy_lease db lease_id) (\<lambda>rec. Inr (rec, db))"

definition validate_idle :: "string option \<Rightarrow> occupancy_store_error + unit" where
  "validate_idle idle = (case idle of None \<Rightarrow> Inr () | Some s \<Rightarrow> occ_validate_instant s ''idle expiry'')"

definition record_acknowledgement ::
    "occupancy_db \<Rightarrow> string \<Rightarrow> u64 \<Rightarrow> string option \<Rightarrow> string \<Rightarrow>
     occupancy_store_error + occupancy_lease_record \<times> occupancy_db" where
  "record_acknowledgement db lease_id fencing_token idle_expires_at now =
     rbind (check_all [validate_occupancy_lease_id lease_id, validate_fencing_token fencing_token,
       validate_idle idle_expires_at, occ_validate_instant now ''acknowledgement time'', occ_transaction db]) (\<lambda>_.
     rbind (require_occupancy_lease db lease_id) (\<lambda>rec.
     if ol_state rec = Occupied then rbind (ensure_fencing_token rec fencing_token) (\<lambda>_. Inr (rec, db))
     else if ol_state rec \<noteq> Reserving then Inl (illegal_transition rec ''acknowledgement'')
     else
       rbind (ensure_fencing_token rec fencing_token) (\<lambda>_.
       rbind (sql_integer fencing_token) (\<lambda>token.
       rbind (update_one ''acknowledgement''
         (\<lambda>r. lw_occupancy_lease_id r = lease_id \<and> lw_state r = ''reserving'' \<and> lw_fencing_token r = token)
         (\<lambda>r. r\<lparr>lw_state := ''occupied'', lw_acknowledged_at := Some now, lw_last_renewed_at := Some now,
               lw_idle_expires_at := idle_expires_at\<rparr>) db) (\<lambda>db.
       reload db lease_id)))))"

definition release_lease ::
    "occupancy_db \<Rightarrow> string \<Rightarrow> occupancy_lease_state \<Rightarrow> u64 \<Rightarrow> occupancy_release_reason \<Rightarrow>
     occupancy_store_error + occupancy_db" where
  "release_lease db lease_id current fencing_token reason =
     rbind (sql_integer fencing_token) (\<lambda>token.
     update_one ''release''
       (\<lambda>r. lw_occupancy_lease_id r = lease_id \<and> lw_state r = lease_state_str current \<and> lw_fencing_token r = token)
       (\<lambda>r. r\<lparr>lw_state := ''released'', lw_release_reason := Some (release_reason_str reason)\<rparr>) db)"

definition reject_offer ::
    "occupancy_db \<Rightarrow> string \<Rightarrow> u64 \<Rightarrow> occupancy_release_reason \<Rightarrow> string \<Rightarrow>
     occupancy_store_error + occupancy_lease_record \<times> occupancy_db" where
  "reject_offer db lease_id fencing_token reason now =
     rbind (check_all [validate_occupancy_lease_id lease_id, validate_fencing_token fencing_token,
       occ_validate_instant now ''rejection time'',
       ensure (reason \<in> {AckTimeout, ClientRejected, ClaimWithdrawn}) (occ_error OccInvalidInput
         ''only ack timeout, client rejection, or claim withdrawal can end a reserving lease''),
       occ_transaction db]) (\<lambda>_.
     rbind (require_occupancy_lease db lease_id) (\<lambda>rec.
     if ol_state rec = Released
     then rbind (ensure_replay_reason rec reason) (\<lambda>_.
          rbind (ensure_fencing_token rec fencing_token) (\<lambda>_. Inr (rec, db)))
     else if ol_state rec \<noteq> Reserving then Inl (illegal_transition rec ''offer rejection'')
     else
       rbind (ensure_fencing_token rec fencing_token) (\<lambda>_.
       rbind (release_lease db lease_id Reserving fencing_token reason) (\<lambda>db.
       reload db lease_id))))"

definition request_release ::
    "occupancy_db \<Rightarrow> string \<Rightarrow> u64 \<Rightarrow> u64 \<Rightarrow> string \<Rightarrow> occupancy_store_error + occupancy_lease_record \<times> occupancy_db" where
  "request_release db lease_id fencing_token active_worker_session_count now =
     rbind (check_all [validate_occupancy_lease_id lease_id, validate_fencing_token fencing_token,
       occ_validate_instant now ''release request time'', occ_transaction db]) (\<lambda>_.
     rbind (require_occupancy_lease db lease_id) (\<lambda>rec.
     rbind (ensure_fencing_token rec fencing_token) (\<lambda>_.
     if ol_state rec = Released then rbind (ensure_replay_reason rec HolderReleased) (\<lambda>_. Inr (rec, db))
     else if ol_state rec = Draining then
       (if active_worker_session_count = 0 then Inl (illegal_transition rec ''release request'') else Inr (rec, db))
     else if ol_state rec \<noteq> Occupied then Inl (illegal_transition rec ''release request'')
     else
       rbind
         (if active_worker_session_count = 0 then release_lease db lease_id Occupied fencing_token HolderReleased
          else
            rbind (sql_integer fencing_token) (\<lambda>token.
            update_one ''release request''
              (\<lambda>r. lw_occupancy_lease_id r = lease_id \<and> lw_state r = ''occupied'' \<and> lw_fencing_token r = token)
              (\<lambda>r. r\<lparr>lw_state := ''draining''\<rparr>) db)) (\<lambda>db.
       reload db lease_id))))"

definition drain_complete ::
    "occupancy_db \<Rightarrow> string \<Rightarrow> occupancy_store_error + occupancy_lease_record \<times> occupancy_db" where
  "drain_complete db lease_id =
     rbind (check_all [validate_occupancy_lease_id lease_id, occ_transaction db]) (\<lambda>_.
     rbind (require_occupancy_lease db lease_id) (\<lambda>rec.
     if ol_state rec = Released then rbind (ensure_replay_reason rec DrainCompleted) (\<lambda>_. Inr (rec, db))
     else if ol_state rec \<noteq> Draining then Inl (illegal_transition rec ''drain completion'')
     else
       rbind (update_one ''drain completion'' (\<lambda>r. lw_occupancy_lease_id r = lease_id \<and> lw_state r = ''draining'')
         (\<lambda>r. r\<lparr>lw_state := ''released'', lw_release_reason := Some ''drain_completed''\<rparr>) db) (\<lambda>db.
       reload db lease_id)))"

definition mark_recovery_pending ::
    "occupancy_db \<Rightarrow> string \<Rightarrow> string \<Rightarrow> string \<Rightarrow> occupancy_store_error + occupancy_lease_record \<times> occupancy_db" where
  "mark_recovery_pending db lease_id recovery_deadline_at now =
     rbind (check_all [validate_occupancy_lease_id lease_id, occ_validate_instant recovery_deadline_at ''recovery deadline'',
       occ_validate_instant now ''recovery start'', occ_transaction db]) (\<lambda>_.
     rbind (require_occupancy_lease db lease_id) (\<lambda>rec.
     if ol_state rec = RecoveryPending then Inr (rec, db)
     else if ol_state rec \<notin> {Occupied, Draining} then Inl (illegal_transition rec ''recovery marking'')
     else
       rbind (ok_or (tbl_find cn_client_node_id (ol_client_node_id rec) (oc_nodes db)) unknown_client_node) (\<lambda>node.
       rbind (ensure (cn_presence_state node = ''offline'') (occ_error PresenceNotOnline
         ''occupancy recovery marking requires the client node presence to be offline'')) (\<lambda>_.
       rbind (update_one ''recovery marking''
         (\<lambda>r. lw_occupancy_lease_id r = lease_id \<and> lw_state r \<in> {''occupied'', ''draining''})
         (\<lambda>r. r\<lparr>lw_state := ''recovery_pending'', lw_recovery_deadline_at := Some recovery_deadline_at\<rparr>)
         (db\<lparr>oc_recovery := tbl_upsert ry_occupancy_lease_id
            \<lparr>ry_occupancy_lease_id = lease_id, ry_was_draining = (ol_state rec = Draining), ry_started_at = now\<rparr>
            (oc_recovery db)\<rparr>)) (\<lambda>db.
       reload db lease_id)))))"

fun target_state :: "occupancy_reconcile_target \<Rightarrow> occupancy_lease_state" where
  "target_state ResumeOccupied = Occupied"
| "target_state ResumeDraining = Draining"

definition reconcile_resume ::
    "occupancy_db \<Rightarrow> string \<Rightarrow> occupancy_reconcile_target \<Rightarrow> string option \<Rightarrow> string \<Rightarrow>
     occupancy_store_error + occupancy_lease_record \<times> occupancy_db" where
  "reconcile_resume db lease_id target idle_expires_at now =
     rbind (check_all [validate_occupancy_lease_id lease_id, validate_idle idle_expires_at,
       occ_validate_instant now ''reconciliation time'',
       ensure (\<not> (target = ResumeDraining \<and> idle_expires_at \<noteq> None))
         (occ_error OccInvalidInput ''draining leases do not carry an idle expiry''), occ_transaction db]) (\<lambda>_.
     rbind (require_occupancy_lease db lease_id) (\<lambda>rec.
     if ol_state rec = target_state target then Inr (rec, db)
     else if ol_state rec \<noteq> RecoveryPending then Inl (illegal_transition rec ''reconciliation resume'')
     else
       rbind (update_one ''reconciliation resume''
         (\<lambda>r. lw_occupancy_lease_id r = lease_id \<and> lw_state r = ''recovery_pending'')
         (\<lambda>r. r\<lparr>lw_state := lease_state_str (target_state target), lw_last_renewed_at := Some now,
               lw_idle_expires_at := idle_expires_at, lw_recovery_deadline_at := None\<rparr>) db) (\<lambda>db.
       reload db lease_id)))"

definition recovery_context ::
    "occupancy_db \<Rightarrow> string \<Rightarrow> string \<Rightarrow> occupancy_store_error + (bool \<times> string) option \<times> occupancy_db" where
  "recovery_context db lease_id now =
     rbind (check_all [validate_occupancy_lease_id lease_id, occ_validate_instant now ''recovery observation time'',
       occ_transaction db]) (\<lambda>_.
     let db = (if tbl_find ry_occupancy_lease_id lease_id (oc_recovery db) = None
           \<and> list_ex (\<lambda>r. lw_occupancy_lease_id r = lease_id \<and> lw_state r = ''recovery_pending'') (oc_leases db)
         then db\<lparr>oc_recovery := oc_recovery db @
           [\<lparr>ry_occupancy_lease_id = lease_id, ry_was_draining = True, ry_started_at = now\<rparr>]\<rparr>
         else db)
     in Inr (map_option (\<lambda>y. (ry_was_draining y, ry_started_at y))
          (tbl_find ry_occupancy_lease_id lease_id (oc_recovery db)), db))"

definition force_release ::
    "occupancy_db \<Rightarrow> string \<Rightarrow> string \<Rightarrow> occupancy_store_error + occupancy_lease_record \<times> occupancy_db" where
  "force_release db lease_id now =
     rbind (check_all [validate_occupancy_lease_id lease_id, occ_validate_instant now ''force release time'',
       occ_transaction db]) (\<lambda>_.
     rbind (require_occupancy_lease db lease_id) (\<lambda>rec.
     if ol_state rec = Released then rbind (ensure_replay_reason rec ForceReleased) (\<lambda>_. Inr (rec, db))
     else if ol_state rec \<noteq> RecoveryPending then Inl (illegal_transition rec ''force release'')
     else
       rbind (ok_or (ol_recovery_deadline_at rec) (occ_error CorruptState
         ''recovery pending lease is missing its recovery deadline'')) (\<lambda>deadline.
       if now < deadline
       then Inl (occ_error IllegalStateTransition
         ''the recovery window is still open; safe cleanup must wait for the deadline'')
       else
         rbind (release_lease db lease_id RecoveryPending (ol_fencing_token rec) ForceReleased) (\<lambda>db.
         reload db lease_id))))"

fun expire_candidates ::
    "(string \<Rightarrow> u64) \<Rightarrow> occupancy_db \<Rightarrow> (string \<times> string) list \<Rightarrow> occupancy_store_error + string list \<times> occupancy_db" where
  "expire_candidates active_count db [] = Inr ([], db)"
| "expire_candidates active_count db ((lease_id, node_id) # rest) =
     (if active_count node_id > 0 then expire_candidates active_count db rest
      else
        rbind (update_leases (\<lambda>r. lw_occupancy_lease_id r = lease_id \<and> lw_state r = ''occupied'')
          (\<lambda>r. r\<lparr>lw_state := ''expired''\<rparr>) db) (\<lambda>(updated, db).
        rbind (expire_candidates active_count db rest) (\<lambda>(expired, db).
        Inr (if updated = 1 then lease_id # expired else expired, db))))"

definition expire_idle ::
    "(string \<Rightarrow> u64) \<Rightarrow> occupancy_db \<Rightarrow> string \<Rightarrow> occupancy_store_error + string list \<times> occupancy_db" where
  "expire_idle active_count db cutoff =
     rbind (check_all [occ_validate_instant cutoff ''idle expiry cutoff'', occ_transaction db]) (\<lambda>_.
     expire_candidates active_count db
       (map (\<lambda>r. (lw_occupancy_lease_id r, lw_client_node_id r))
         (filter (\<lambda>r. lw_state r = ''occupied''
            \<and> (case lw_idle_expires_at r of None \<Rightarrow> False | Some t \<Rightarrow> t \<le> cutoff)) (oc_leases db))))"

definition occ_snapshot :: "occupancy_db \<Rightarrow> string \<Rightarrow> occupancy_store_error + occupancy_lease_record option" where
  "occ_snapshot db lease_id = rbind (validate_occupancy_lease_id lease_id) (\<lambda>_. load_occupancy_lease db lease_id)"

definition active_lease_for_node :: "occupancy_db \<Rightarrow> string \<Rightarrow> occupancy_store_error + occupancy_lease_record option" where
  "active_lease_for_node db node_id =
     rbind (validate_client_node_id node_id) (\<lambda>_.
     case map lw_occupancy_lease_id
         (filter (\<lambda>r. lw_client_node_id r = node_id \<and> lw_state r \<in> set active_states) (oc_leases db)) of
       [] \<Rightarrow> Inr None
     | [lease_id] \<Rightarrow> load_occupancy_lease db lease_id
     | _ \<Rightarrow> Inl (occ_error CorruptState ''client node holds more than one active occupancy lease''))"

end
