(* ===== verification/Occupancy_Exclusion.thy ===== *)
theory Occupancy_Exclusion
  imports Occupancy_Ledger
begin

text \<open>
  The promises of the occupancy ledger under every sequence of its operations, with the rows of devices and
  grants changing freely in between: one active lease per device, fencing tokens that only grow, and leases
  that keep their identity and stay ended once they have ended.
\<close>

section \<open>The ledger as a machine\<close>

datatype occupancy_op =
    EnvironmentOp "client_node_row list" "access_grant_row list"
  | MintOp
  | ClaimOp occupancy_claim string
  | AcknowledgeOp string u64 "string option" string
  | RejectOp string u64 occupancy_release_reason string
  | ReleaseOp string u64 u64 string
  | DrainOp string
  | RecoverOp string string string
  | ResumeOp string occupancy_reconcile_target "string option" string
  | ContextOp string string
  | ForceOp string string
  | ExpireIdleOp "string \<Rightarrow> u64" string

fun occupancy_step :: "occupancy_db \<Rightarrow> occupancy_op \<Rightarrow> occupancy_store_error + occupancy_db" where
  "occupancy_step db (EnvironmentOp nodes grants) = Inr (db\<lparr>oc_nodes := nodes, oc_grants := grants\<rparr>)"
| "occupancy_step db MintOp = rbind (mint_fencing_token db) (\<lambda>x. Inr (snd x))"
| "occupancy_step db (ClaimOp c now) = rbind (atomic_claim db c now) (\<lambda>x. Inr (snd x))"
| "occupancy_step db (AcknowledgeOp l t idle now) = rbind (record_acknowledgement db l t idle now) (\<lambda>x. Inr (snd x))"
| "occupancy_step db (RejectOp l t reason now) = rbind (reject_offer db l t reason now) (\<lambda>x. Inr (snd x))"
| "occupancy_step db (ReleaseOp l t n now) = rbind (request_release db l t n now) (\<lambda>x. Inr (snd x))"
| "occupancy_step db (DrainOp l) = rbind (drain_complete db l) (\<lambda>x. Inr (snd x))"
| "occupancy_step db (RecoverOp l deadline now) = rbind (mark_recovery_pending db l deadline now) (\<lambda>x. Inr (snd x))"
| "occupancy_step db (ResumeOp l target idle now) = rbind (reconcile_resume db l target idle now) (\<lambda>x. Inr (snd x))"
| "occupancy_step db (ContextOp l now) = rbind (recovery_context db l now) (\<lambda>x. Inr (snd x))"
| "occupancy_step db (ForceOp l now) = rbind (force_release db l now) (\<lambda>x. Inr (snd x))"
| "occupancy_step db (ExpireIdleOp count cutoff) = rbind (expire_idle count db cutoff) (\<lambda>x. Inr (snd x))"

definition empty_ledger :: occupancy_db where
  "empty_ledger = \<lparr>oc_writable = True, oc_nodes = [], oc_grants = [], oc_leases = [], oc_last_issued_token = None,
     oc_recovery = []\<rparr>"

section \<open>Rows\<close>

definition active_row :: "lease_row \<Rightarrow> bool" where
  "active_row r \<longleftrightarrow> lw_state r \<in> set active_states"

definition time_ok :: "string option \<Rightarrow> bool" where
  "time_ok t = (case t of None \<Rightarrow> True | Some s \<Rightarrow> occ_instant_ok s)"

text \<open>A row that reads back as a lease record.\<close>

definition row_ok :: "lease_row \<Rightarrow> bool" where
  "row_ok r \<longleftrightarrow> 1 \<le> lw_fencing_token r \<and> lw_fencing_token r \<le> 9007199254740991
     \<and> lw_state r \<in> range lease_state_str
     \<and> time_ok (lw_acknowledged_at r) \<and> time_ok (lw_claimed_at r) \<and> time_ok (lw_last_renewed_at r)
     \<and> time_ok (lw_idle_expires_at r) \<and> time_ok (lw_recovery_deadline_at r)
     \<and> (case lw_release_reason r of None \<Rightarrow> True | Some s \<Rightarrow> s \<in> range release_reason_str)
     \<and> occ_instant_ok (lw_created_at r) \<and> 1 \<le> lw_revision r \<and> lw_revision r \<le> 9007199254740991"

lemma from_sql_integer_small:
  assumes "0 \<le> i" and "i \<le> 9007199254740991"
  obtains x where "from_sql_integer i label = Inr x" and "uint x = i" and "x \<le> max_safe_integer"
proof -
  obtain x where x: "u64_of_i64 i = Some x" "i = uint x" using u64_of_i64_small [of i] assms by auto
  have le: "x \<le> max_safe_integer" using assms(2) x(2) by (simp add: word_le_def max_safe_integer_def)
  have "from_sql_integer i label = Inr x"
    unfolding from_sql_integer_def x(1) using le by (simp add: ensure_def not_less)
  then show thesis using x(2) le by (intro that) simp_all
qed

lemma from_sql_integer_Inr:
  "from_sql_integer i label = Inr x \<Longrightarrow> i \<le> 9007199254740991 \<Longrightarrow> 0 \<le> i \<and> uint x = i"
  by (cases "0 \<le> i") (metis from_sql_integer_small sum.inject(2), simp add: from_sql_integer_def u64_of_i64_def)

lemma parse_optional_time: "time_ok t \<Longrightarrow> parse_optional t label = Inr t"
  by (cases t) (simp_all add: parse_optional_def time_ok_def parse_stored_instant_def occ_validate_instant_def)

lemma row_reads:
  assumes "row_ok r"
  obtains rec where "occupancy_lease_record_from_row r = Inr rec" and "uint (ol_fencing_token rec) = lw_fencing_token r"
    and "lease_state_str (ol_state rec) = lw_state r" and "ol_occupancy_lease_id rec = lw_occupancy_lease_id r"
    and "ol_client_node_id rec = lw_client_node_id r" and "ol_holder_user_id rec = lw_holder_user_id r"
proof -
  obtain t where t: "from_sql_integer (lw_fencing_token r) ''fencing token'' = Inr t" "uint t = lw_fencing_token r"
    using from_sql_integer_small [of "lw_fencing_token r"] assms by (auto simp: row_ok_def)
  obtain v where v: "from_sql_integer (lw_revision r) ''occupancy lease revision'' = Inr v"
    using from_sql_integer_small [of "lw_revision r"] assms by (auto simp: row_ok_def)
  obtain st where st: "lw_state r = lease_state_str st" using assms by (auto simp: row_ok_def)
  have reason: "\<exists>x. (case lw_release_reason r of None \<Rightarrow> Inr None
            | Some s \<Rightarrow> rbind (parse_release_reason s) (\<lambda>x. Inr (Some x))) = Inr x"
    using assms by (cases "lw_release_reason r") (auto simp: row_ok_def)
  have times: "parse_optional (lw_acknowledged_at r) l = Inr (lw_acknowledged_at r)"
    "parse_optional (lw_claimed_at r) l = Inr (lw_claimed_at r)"
    "parse_optional (lw_last_renewed_at r) l = Inr (lw_last_renewed_at r)"
    "parse_optional (lw_idle_expires_at r) l = Inr (lw_idle_expires_at r)"
    "parse_optional (lw_recovery_deadline_at r) l = Inr (lw_recovery_deadline_at r)"
    "parse_stored_instant (lw_created_at r) l = Inr (lw_created_at r)" for l
    using assms by (simp_all add: row_ok_def parse_optional_time parse_stored_instant_def occ_validate_instant_def)
  show thesis
    using reason t v st times that by (auto simp: occupancy_lease_record_from_row_def)
qed

section \<open>The invariant\<close>

definition last_token :: "occupancy_db \<Rightarrow> int" where
  "last_token db = (case oc_last_issued_token db of None \<Rightarrow> 0 | Some t \<Rightarrow> t)"

definition ledger_inv :: "occupancy_db \<Rightarrow> bool" where
  "ledger_inv db \<longleftrightarrow> 0 \<le> last_token db \<and> last_token db \<le> 9007199254740991
     \<and> (\<forall>r \<in> set (oc_leases db). row_ok r \<and> lw_fencing_token r \<le> last_token db)
     \<and> sorted_wrt (<) (map lw_fencing_token (oc_leases db))
     \<and> distinct (map lw_occupancy_lease_id (oc_leases db))
     \<and> distinct (map lw_client_node_id (filter active_row (oc_leases db)))"

text \<open>What a lease keeps for ever, and that it does not change any more once it has ended.\<close>

definition same_lease :: "lease_row \<Rightarrow> lease_row \<Rightarrow> bool" where
  "same_lease r r' \<longleftrightarrow> lw_occupancy_lease_id r' = lw_occupancy_lease_id r \<and> lw_client_node_id r' = lw_client_node_id r
     \<and> lw_holder_user_id r' = lw_holder_user_id r \<and> lw_fencing_token r' = lw_fencing_token r
     \<and> lw_claim_request_id r' = lw_claim_request_id r \<and> lw_created_at r' = lw_created_at r"

definition lease_evolves :: "lease_row \<Rightarrow> lease_row \<Rightarrow> bool" where
  "lease_evolves r r' \<longleftrightarrow> same_lease r r' \<and> lw_revision r \<le> lw_revision r' \<and> (active_row r \<or> r' = r)"

definition ledger_le :: "occupancy_db \<Rightarrow> occupancy_db \<Rightarrow> bool" where
  "ledger_le db db' \<longleftrightarrow> last_token db \<le> last_token db'
     \<and> (\<forall>r \<in> set (oc_leases db). \<exists>r' \<in> set (oc_leases db'). lease_evolves r r')"

lemma lease_evolves_refl: "lease_evolves r r"
  by (simp add: lease_evolves_def same_lease_def)

lemma lease_evolves_trans: "lease_evolves a b \<Longrightarrow> lease_evolves b c \<Longrightarrow> lease_evolves a c"
  by (auto simp: lease_evolves_def same_lease_def)

lemma ledger_le_refl: "ledger_le db db"
  by (auto simp: ledger_le_def intro: lease_evolves_refl)

lemma ledger_le_trans: "ledger_le a b \<Longrightarrow> ledger_le b c \<Longrightarrow> ledger_le a c"
  unfolding ledger_le_def by (meson lease_evolves_trans order_trans)

lemma ledger_frame:
  assumes "oc_leases db' = oc_leases db" and "oc_last_issued_token db' = oc_last_issued_token db"
  shows "ledger_inv db' = ledger_inv db" and "ledger_le db db'"
  using assms by (auto simp: ledger_inv_def ledger_le_def last_token_def intro: lease_evolves_refl)

section \<open>Updates keep it\<close>

text \<open>An update of active leases that leaves their identity alone.\<close>

definition lease_update :: "(lease_row \<Rightarrow> bool) \<Rightarrow> (lease_row \<Rightarrow> lease_row) \<Rightarrow> bool" where
  "lease_update p f \<longleftrightarrow> (\<forall>r. p r \<longrightarrow> active_row r \<and> same_lease r (f r) \<and> (row_ok r \<longrightarrow> row_ok (f r)))"

lemma distinct_filter_subset:
  assumes "distinct (map k (filter P xs))" and "\<And>x. x \<in> set xs \<Longrightarrow> k (g x) = k x" and "\<And>x. x \<in> set xs \<Longrightarrow> P (g x) \<Longrightarrow> P x"
  shows "distinct (map k (filter P (map g xs)))"
  using assms
proof (induction xs)
  case (Cons a xs)
  then have IH: "distinct (map k (filter P (map g xs)))" by (cases "P a") simp_all
  show ?case
  proof (cases "P (g a)")
    case True
    with Cons.prems have "P a" by simp
    with Cons.prems(1) have fresh: "k a \<notin> k ` set (filter P xs)" by simp
    have "k (g a) \<notin> k ` set (filter P (map g xs))"
    proof
      assume "k (g a) \<in> k ` set (filter P (map g xs))"
      then obtain y where "y \<in> set xs" "P (g y)" "k (g y) = k (g a)" by auto
      with Cons.prems(2) [of y] Cons.prems(2) [of a] Cons.prems(3) [of y] have "P y" "k y = k a" by simp_all
      then have "k a \<in> k ` set (filter P xs)" using \<open>y \<in> set xs\<close> by (auto intro: rev_image_eqI)
      with fresh show False by contradiction
    qed
    with IH True show ?thesis by simp
  next
    case False
    with IH show ?thesis by simp
  qed
qed simp

lemma mapped_leases_keep:
  assumes inv: "ledger_inv db" and same: "\<And>r. same_lease r (g r)"
    and ok: "\<And>r. r \<in> set (oc_leases db) \<Longrightarrow> row_ok (g r)" and act: "\<And>r. active_row (g r) \<Longrightarrow> active_row r"
    and ev: "\<And>r. r \<in> set (oc_leases db) \<Longrightarrow> lease_evolves r (g r)"
  shows "ledger_inv (db\<lparr>oc_leases := map g (oc_leases db)\<rparr>) \<and> ledger_le db (db\<lparr>oc_leases := map g (oc_leases db)\<rparr>)"
proof -
  have keys: "lw_fencing_token (g r) = lw_fencing_token r" "lw_occupancy_lease_id (g r) = lw_occupancy_lease_id r"
    "lw_client_node_id (g r) = lw_client_node_id r" for r using same [of r] by (simp_all add: same_lease_def)
  have "distinct (map lw_client_node_id (filter active_row (map g (oc_leases db))))"
  proof (rule distinct_filter_subset)
    show "distinct (map lw_client_node_id (filter active_row (oc_leases db)))" using inv by (simp add: ledger_inv_def)
  qed (rule keys(3), rule act)
  then have "ledger_inv (db\<lparr>oc_leases := map g (oc_leases db)\<rparr>)"
    using inv ok by (simp add: ledger_inv_def last_token_def o_def keys)
  moreover have "ledger_le db (db\<lparr>oc_leases := map g (oc_leases db)\<rparr>)"
    using ev by (auto simp: ledger_le_def last_token_def)
  ultimately show ?thesis ..
qed

lemma update_leases_keeps:
  assumes "update_leases p f db = Inr (n, db')" and up: "lease_update p f" and inv: "ledger_inv db"
  shows "ledger_inv db' \<and> ledger_le db db'"
proof -
  define g where "g = (\<lambda>r. if p r then (f r)\<lparr>lw_revision := lw_revision r + 1\<rparr> else r)"
  from assms(1) have db': "db' = db\<lparr>oc_leases := map g (oc_leases db)\<rparr>"
    and small: "\<And>r. r \<in> set (oc_leases db) \<Longrightarrow> p r \<Longrightarrow> lw_revision r + 1 \<le> 9007199254740991"
    by (auto simp: update_leases_def tbl_update_def list_ex_iff g_def split: if_splits)
  show ?thesis unfolding db'
  proof (rule mapped_leases_keep [OF inv])
    fix r
    show "same_lease r (g r)" using up by (simp add: g_def lease_update_def same_lease_def)
    show "active_row (g r) \<Longrightarrow> active_row r" using up by (auto simp: g_def lease_update_def split: if_splits)
    assume mem: "r \<in> set (oc_leases db)"
    have r: "row_ok r" using inv mem by (simp add: ledger_inv_def)
    show "row_ok (g r)"
    proof (cases "p r")
      case True
      then have "row_ok (f r)" and "1 \<le> lw_revision r" using up r by (simp_all add: lease_update_def row_ok_def)
      with small [OF mem True] True show ?thesis by (simp add: g_def row_ok_def)
    qed (simp add: g_def r)
    show "lease_evolves r (g r)"
      using up by (auto simp: g_def lease_evolves_def lease_update_def same_lease_def)
  qed
qed

lemma update_one_keeps:
  assumes "update_one action p f db = Inr db'" and "lease_update p f" and "ledger_inv db"
  shows "ledger_inv db' \<and> ledger_le db db'"
  using assms update_leases_keeps by (fastforce simp: update_one_def rbind_Inr_iff split: if_splits)

lemma active_states_iff: "active_row r \<longleftrightarrow> lw_state r \<in> {''reserving'', ''occupied'', ''draining'', ''recovery_pending''}"
  by (simp add: active_row_def active_states_def)

lemma state_names: "''reserving'' \<in> range lease_state_str" "''occupied'' \<in> range lease_state_str"
  "''draining'' \<in> range lease_state_str" "''recovery_pending'' \<in> range lease_state_str"
  "''released'' \<in> range lease_state_str" "''expired'' \<in> range lease_state_str"
  by (metis lease_state_str.simps rangeI)+

lemma reason_name: "''drain_completed'' \<in> range release_reason_str"
  by (metis release_reason_str.simps(5) rangeI)

lemma reload_db: "reload db l = Inr (rec, db') \<Longrightarrow> db' = db"
  by (auto simp: reload_def rbind_Inr_iff)

lemma release_lease_keeps:
  assumes "release_lease db l current t reason = Inr db'" and "ledger_inv db" and "is_active current"
  shows "ledger_inv db' \<and> ledger_le db db'"
proof -
  from assms(1) obtain token where u: "update_one ''release''
       (\<lambda>r. lw_occupancy_lease_id r = l \<and> lw_state r = lease_state_str current \<and> lw_fencing_token r = token)
       (\<lambda>r. r\<lparr>lw_state := ''released'', lw_release_reason := Some (release_reason_str reason)\<rparr>) db = Inr db'"
    by (auto simp: release_lease_def rbind_Inr_iff)
  have "lease_update (\<lambda>r. lw_occupancy_lease_id r = l \<and> lw_state r = lease_state_str current \<and> lw_fencing_token r = token)
       (\<lambda>r. r\<lparr>lw_state := ''released'', lw_release_reason := Some (release_reason_str reason)\<rparr>)"
    using assms(3) by (cases current)
      (auto simp: lease_update_def active_states_iff same_lease_def row_ok_def state_names)
  from update_one_keeps [OF u this assms(2)] show ?thesis .
qed

lemma mint_keeps:
  assumes "mint_in_transaction db = Inr (t, db')" and "ledger_inv db"
  shows "ledger_inv db' \<and> ledger_le db db'" and "uint t = last_token db + 1" and "last_token db' = uint t"
    and "oc_leases db' = oc_leases db" and "oc_nodes db' = oc_nodes db" and "last_token db + 1 \<le> 9007199254740991"
proof -
  from assms(1) obtain current where c: "from_sql_integer (last_token db) ''fencing token'' = Inr current"
    "\<not> current \<ge> max_safe_integer" "t = current + 1" "db' = db\<lparr>oc_last_issued_token := Some (uint (current + 1))\<rparr>"
    by (auto simp: mint_in_transaction_def last_token_def rbind_Inr_iff split: if_splits)
  have u: "uint current = last_token db"
    using from_sql_integer_Inr [OF c(1)] assms(2) by (simp add: ledger_inv_def)
  have lt: "uint current < 9007199254740991" using c(2) by (simp add: not_le word_less_def max_safe_integer_def)
  then show lt': "last_token db + 1 \<le> 9007199254740991" using u by simp
  have "uint (current + 1) = uint current + 1"
  proof -
    have "current \<noteq> - 1" using c(2) by auto
    then have "unat (current + 1) = Suc (unat current)" by (rule unat_succ_if)
    then have "int (unat (current + 1)) = int (unat current) + 1" by linarith
    then show ?thesis by (simp only: uint_nat)
  qed
  then show t: "uint t = last_token db + 1" using c(3) u by simp
  then show l: "last_token db' = uint t" by (simp add: c(3,4) last_token_def)
  show "oc_leases db' = oc_leases db" and "oc_nodes db' = oc_nodes db" by (simp_all add: c(4))
  have "ledger_inv db'" using assms(2) lt' t l unfolding ledger_inv_def by (fastforce simp: c(4))
  moreover have "ledger_le db db'" using t l by (auto simp: ledger_le_def c(4) intro: lease_evolves_refl)
  ultimately show "ledger_inv db' \<and> ledger_le db db'" ..
qed

lemma claim_effect:
  assumes "atomic_claim db c now = Inr (rec, db')" and inv: "ledger_inv db"
  shows "ledger_inv db' \<and> ledger_le db db'" and "uint (ol_fencing_token rec) = last_token db + 1"
    and "last_token db' = uint (ol_fencing_token rec)"
    and "ol_occupancy_lease_id rec = ok_occupancy_lease_id c" and "ol_client_node_id rec = ok_client_node_id c"
    and "ol_holder_user_id rec = ok_holder_user_id c"
proof -
  from assms(1) obtain t db1 token where time: "occ_instant_ok now" and mint: "mint_in_transaction db = Inr (t, db1)"
    and token: "token = uint t" and ins: "insert_lease db1 (new_lease_row c token now) = Inr db'"
    and load: "load_occupancy_lease db' (ok_occupancy_lease_id c) = Inr (Some rec)"
    by (auto simp: atomic_claim_def rbind_Inr_iff ok_or_Inr_iff occ_validate_instant_def ensure_Inr_iff sql_integer_def
      i64_of_u64_Some_iff)
  let ?row = "new_lease_row c token now"
  note m = mint_keeps [OF mint inv]
  from ins have db': "db' = db1\<lparr>oc_leases := oc_leases db1 @ [?row]\<rparr>"
    and fresh: "ok_occupancy_lease_id c \<notin> lw_occupancy_lease_id ` set (oc_leases db1)"
    and idle: "\<not> (\<exists>r \<in> set (oc_leases db1). lw_client_node_id r = ok_client_node_id c \<and> active_row r)"
    by (auto simp: insert_lease_def list_ex_iff new_lease_row_def active_row_def image_iff split: if_splits)
  have row: "row_ok ?row" using time m(2,6) inv state_names(1)
    by (simp add: row_ok_def new_lease_row_def time_ok_def token ledger_inv_def)
  have lt: "lw_fencing_token r < token" if "r \<in> set (oc_leases db1)" for r
    using inv that m(2,4) by (fastforce simp: ledger_inv_def token)
  have "active_row ?row" by (simp add: active_states_iff new_lease_row_def)
  then have "ledger_inv db'"
    using m(1,3) row lt fresh idle unfolding ledger_inv_def
    by (auto simp: db' last_token_def new_lease_row_def sorted_wrt_append token image_iff)
  moreover have "ledger_le db db'"
    using m(1) by (auto simp: ledger_le_def db' last_token_def)
  ultimately show "ledger_inv db' \<and> ledger_le db db'" ..
  have found: "tbl_find lw_occupancy_lease_id (ok_occupancy_lease_id c) (oc_leases db') = Some ?row"
  proof -
    have "tbl_find lw_occupancy_lease_id (ok_occupancy_lease_id c) (oc_leases db1) = None"
      using fresh by (simp add: tbl_find_None_iff)
    moreover have "lw_occupancy_lease_id ?row = ok_occupancy_lease_id c" by (simp add: new_lease_row_def)
    ultimately show ?thesis by (simp add: db' tbl_find_append)
  qed
  obtain rec' where r: "occupancy_lease_record_from_row ?row = Inr rec'" "uint (ol_fencing_token rec') = lw_fencing_token ?row"
    "ol_occupancy_lease_id rec' = lw_occupancy_lease_id ?row" "ol_client_node_id rec' = lw_client_node_id ?row"
    "ol_holder_user_id rec' = lw_holder_user_id ?row" by (rule row_reads [OF row])
  from load found r(1) have "rec = rec'" by (simp add: load_occupancy_lease_def)
  with r m(2) show "uint (ol_fencing_token rec) = last_token db + 1" "ol_occupancy_lease_id rec = ok_occupancy_lease_id c"
    "ol_client_node_id rec = ok_client_node_id c" "ol_holder_user_id rec = ok_holder_user_id c"
    by (simp_all add: new_lease_row_def token)
  with m(2,3) show "last_token db' = uint (ol_fencing_token rec)" by (simp add: db' last_token_def)
qed

text \<open>The other transitions are updates of one active lease, or nothing.\<close>

lemma transition_updates:
  assumes "ledger_inv db"
  shows "record_acknowledgement db l t idle now = Inr (rec, db') \<Longrightarrow> ledger_inv db' \<and> ledger_le db db'"
    and "drain_complete db l = Inr (rec, db') \<Longrightarrow> ledger_inv db' \<and> ledger_le db db'"
    and "reconcile_resume db l target idle now = Inr (rec, db') \<Longrightarrow> ledger_inv db' \<and> ledger_le db db'"
proof -
  have resumed: "lease_state_str (target_state target) \<in> range lease_state_str" by simp
  have ack: "lease_update (\<lambda>r. lw_occupancy_lease_id r = l \<and> lw_state r = ''reserving'' \<and> lw_fencing_token r = token)
      (\<lambda>r. r\<lparr>lw_state := ''occupied'', lw_acknowledged_at := Some now, lw_last_renewed_at := Some now,
             lw_idle_expires_at := idle\<rparr>)" if "occ_instant_ok now" "time_ok idle" for token
    using that by (auto simp: lease_update_def active_states_iff same_lease_def row_ok_def state_names time_ok_def)
  have drain: "lease_update (\<lambda>r. lw_occupancy_lease_id r = l \<and> lw_state r = ''draining'')
      (\<lambda>r. r\<lparr>lw_state := ''released'', lw_release_reason := Some ''drain_completed''\<rparr>)"
    by (auto simp: lease_update_def active_states_iff same_lease_def row_ok_def state_names reason_name)
  have resume: "lease_update (\<lambda>r. lw_occupancy_lease_id r = l \<and> lw_state r = ''recovery_pending'')
      (\<lambda>r. r\<lparr>lw_state := lease_state_str (target_state target), lw_last_renewed_at := Some now,
             lw_idle_expires_at := idle, lw_recovery_deadline_at := None\<rparr>)" if "occ_instant_ok now" "time_ok idle" for idle
    using that resumed by (auto simp: lease_update_def active_states_iff same_lease_def row_ok_def time_ok_def)
  have idle_ok: "time_ok idle" if "validate_idle idle = Inr ()" for idle
    using that by (cases idle) (auto simp: validate_idle_def time_ok_def occ_validate_instant_def ensure_Inr_iff)
  show "record_acknowledgement db l t idle now = Inr (rec, db') \<Longrightarrow> ledger_inv db' \<and> ledger_le db db'"
    using assms by (auto simp: record_acknowledgement_def rbind_Inr_iff check_all_Inr_iff occ_validate_instant_def
      ensure_Inr_iff ledger_le_refl split: if_splits dest!: reload_db update_one_keeps [OF _ ack [OF _ idle_ok]])
  show "drain_complete db l = Inr (rec, db') \<Longrightarrow> ledger_inv db' \<and> ledger_le db db'"
    using assms by (auto simp: drain_complete_def rbind_Inr_iff ledger_le_refl split: if_splits
      dest!: reload_db update_one_keeps [OF _ drain])
  show "reconcile_resume db l target idle now = Inr (rec, db') \<Longrightarrow> ledger_inv db' \<and> ledger_le db db'"
    using assms by (auto simp: reconcile_resume_def rbind_Inr_iff check_all_Inr_iff occ_validate_instant_def
      ensure_Inr_iff ledger_le_refl split: if_splits dest!: reload_db update_one_keeps [OF _ resume [OF _ idle_ok]])
qed

lemma releases_keep:
  assumes "ledger_inv db"
  shows "reject_offer db l t reason now = Inr (rec, db') \<Longrightarrow> ledger_inv db' \<and> ledger_le db db'"
    and "request_release db l t n now = Inr (rec, db') \<Longrightarrow> ledger_inv db' \<and> ledger_le db db'"
    and "force_release db l now = Inr (rec, db') \<Longrightarrow> ledger_inv db' \<and> ledger_le db db'"
proof -
  have drain: "lease_update (\<lambda>r. lw_occupancy_lease_id r = l \<and> lw_state r = ''occupied'' \<and> lw_fencing_token r = token)
      (\<lambda>r. r\<lparr>lw_state := ''draining''\<rparr>)" for token
    by (auto simp: lease_update_def active_states_iff same_lease_def row_ok_def state_names)
  show "reject_offer db l t reason now = Inr (rec, db') \<Longrightarrow> ledger_inv db' \<and> ledger_le db db'"
    using assms by (auto simp: reject_offer_def rbind_Inr_iff ledger_le_refl split: if_splits
      dest!: reload_db release_lease_keeps)
  show "request_release db l t n now = Inr (rec, db') \<Longrightarrow> ledger_inv db' \<and> ledger_le db db'"
    using assms by (auto simp: request_release_def rbind_Inr_iff ledger_le_refl split: if_splits
      dest!: reload_db release_lease_keeps update_one_keeps [OF _ drain])
  show "force_release db l now = Inr (rec, db') \<Longrightarrow> ledger_inv db' \<and> ledger_le db db'"
    using assms by (auto simp: force_release_def rbind_Inr_iff ledger_le_refl split: if_splits
      dest!: reload_db release_lease_keeps)
qed

lemma recovery_keeps:
  assumes "ledger_inv db"
  shows "mark_recovery_pending db l deadline now = Inr (rec, db') \<Longrightarrow> ledger_inv db' \<and> ledger_le db db'"
    and "recovery_context db l now = Inr (ctx, db') \<Longrightarrow> ledger_inv db' \<and> ledger_le db db'"
proof -
  let ?p = "\<lambda>r. lw_occupancy_lease_id r = l \<and> lw_state r \<in> {''occupied'', ''draining''}"
    and ?f = "\<lambda>r. r\<lparr>lw_state := ''recovery_pending'', lw_recovery_deadline_at := Some deadline\<rparr>"
  have frame: "ledger_inv (db\<lparr>oc_recovery := x\<rparr>)" "ledger_le db (db\<lparr>oc_recovery := x\<rparr>)" for x
    using ledger_frame [of "db\<lparr>oc_recovery := x\<rparr>" db] assms by simp_all
  show "ledger_inv db' \<and> ledger_le db db'" if mark: "mark_recovery_pending db l deadline now = Inr (rec, db')"
  proof -
    from mark have time: "occ_instant_ok deadline"
      by (auto simp: mark_recovery_pending_def rbind_Inr_iff check_all_Inr_iff occ_validate_instant_def ensure_Inr_iff)
    then have up: "lease_update ?p ?f"
      by (auto simp: lease_update_def active_states_iff same_lease_def row_ok_def state_names time_ok_def)
    from mark consider "db' = db" | x where "update_one ''recovery marking'' ?p ?f (db\<lparr>oc_recovery := x\<rparr>) = Inr db'"
      by (auto simp: mark_recovery_pending_def rbind_Inr_iff split: if_splits dest!: reload_db)
    then show ?thesis
    proof cases
      case (2 x)
      from update_one_keeps [OF 2 up frame(1)] frame(2) show ?thesis by (blast intro: ledger_le_trans)
    qed (use assms in \<open>simp add: ledger_le_refl\<close>)
  qed
  show "recovery_context db l now = Inr (ctx, db') \<Longrightarrow> ledger_inv db' \<and> ledger_le db db'"
    using frame assms by (auto simp: recovery_context_def rbind_Inr_iff Let_def ledger_le_refl)
qed

lemma expire_candidates_keeps:
  "expire_candidates count db cs = Inr (ids, db') \<Longrightarrow> ledger_inv db \<Longrightarrow> ledger_inv db' \<and> ledger_le db db'"
proof (induction count db cs arbitrary: ids db' rule: expire_candidates.induct)
  case (1 count db)
  then show ?case by (simp add: ledger_le_refl)
next
  case (2 count db l node rest)
  let ?p = "\<lambda>r. lw_occupancy_lease_id r = l \<and> lw_state r = ''occupied''" and ?f = "\<lambda>r. r\<lparr>lw_state := ''expired''\<rparr>"
  have up: "lease_update ?p ?f"
    by (auto simp: lease_update_def active_states_iff same_lease_def row_ok_def state_names)
  show ?case
  proof (cases "count node > 0")
    case True
    with 2 show ?thesis by simp
  next
    case False
    with "2.prems"(1) obtain n db1 ids' where u: "update_leases ?p ?f db = Inr (n, db1)"
      "expire_candidates count db1 rest = Inr (ids', db')" by (auto simp: rbind_Inr_iff)
    note k = update_leases_keeps [OF u(1) up "2.prems"(2)]
    from "2.IH"(2) [OF False u(2)] k have "ledger_inv db' \<and> ledger_le db1 db'" by blast
    with k show ?thesis by (blast intro: ledger_le_trans)
  qed
qed

interpretation ledger: preordered_machine occupancy_step ledger_inv ledger_le
proof
  fix db op db'
  assume inv: "ledger_inv db" and step: "occupancy_step db op = Inr db'"
  have "ledger_inv db' \<and> ledger_le db db'"
  proof (cases op)
    case (EnvironmentOp nodes grants)
    with step inv ledger_frame [of db' db] show ?thesis by auto
  next
    case MintOp
    with step inv show ?thesis by (auto simp: mint_fencing_token_def rbind_Inr_iff dest: mint_keeps(1))
  next
    case (ClaimOp c now)
    with step inv show ?thesis by (auto simp: rbind_Inr_iff dest: claim_effect(1))
  next
    case (ExpireIdleOp count cutoff)
    with step inv show ?thesis by (auto simp: expire_idle_def rbind_Inr_iff dest: expire_candidates_keeps)
  qed (use step inv in \<open>auto simp: rbind_Inr_iff dest: transition_updates releases_keep recovery_keeps\<close>)
  then show "ledger_inv db'" and "ledger_le db db'" by simp_all
qed (auto intro: ledger_le_refl ledger_le_trans)

lemma ledger_reachable: "ledger_inv (run_ops occupancy_step empty_ledger ops)"
  by (rule ledger.run_inv) (simp add: ledger_inv_def empty_ledger_def last_token_def)

lemma claim_then_claim:
  assumes "ledger_inv db" and "atomic_claim db c now = Inr (rec, db1)"
    and "atomic_claim (run_ops occupancy_step db1 ops) c' now' = Inr (rec', db2)"
  shows "ol_fencing_token rec < ol_fencing_token rec'"
proof -
  note first = claim_effect [OF assms(2,1)]
  then have inv: "ledger_inv (run_ops occupancy_step db1 ops)" and "ledger_le db1 (run_ops occupancy_step db1 ops)"
    by (simp_all add: ledger.run_inv ledger.run_le)
  then have "last_token db1 \<le> last_token (run_ops occupancy_step db1 ops)" by (simp add: ledger_le_def)
  with first(3) claim_effect(2) [OF assms(3) inv] have "uint (ol_fencing_token rec) < uint (ol_fencing_token rec')" by simp
  then show ?thesis by (simp add: word_less_def)
qed

lemma filter_active_node:
  "distinct (map lw_client_node_id (filter active_row xs)) \<Longrightarrow>
     length (filter (\<lambda>r. lw_client_node_id r = node \<and> active_row r) xs) \<le> 1"
proof (induction xs)
  case (Cons x xs)
  show ?case
  proof (cases "lw_client_node_id x = node \<and> active_row x")
    case True
    with Cons.prems have "lw_client_node_id y \<noteq> node" if "y \<in> set xs" "active_row y" for y
      using that by (auto simp: image_iff)
    then have "filter (\<lambda>r. lw_client_node_id r = node \<and> active_row r) xs = []" by (auto simp: filter_empty_conv)
    with True show ?thesis by simp
  next
    case False
    with Cons show ?thesis by (auto split: if_splits)
  qed
qed simp

section \<open>Exclusion and fencing\<close>

text \<open>
  C8. A device has at most one active lease, whatever sequence of claims, acknowledgements, rejections,
  releases, drains, recoveries and expiries the ledger has gone through: looking up the active lease of a
  device always succeeds, never reports a second one, and returns the lease of that device that is active.
\<close>

theorem occupancy_exclusive:
  assumes node: "validate_client_node_id node = Inr ()" and db: "db = run_ops occupancy_step empty_ledger ops"
  shows "\<exists>lease. active_lease_for_node db node = Inr lease
    \<and> (case lease of
         None \<Rightarrow> \<not> (\<exists>r \<in> set (oc_leases db). lw_client_node_id r = node \<and> active_row r)
       | Some rec \<Rightarrow> is_active (ol_state rec) \<and> ol_client_node_id rec = node
           \<and> (\<forall>r \<in> set (oc_leases db). lw_client_node_id r = node \<and> active_row r
                \<longrightarrow> lw_occupancy_lease_id r = ol_occupancy_lease_id rec))"
proof -
  let ?p = "\<lambda>r. lw_client_node_id r = node \<and> active_row r"
  have inv: "ledger_inv db" unfolding db by (rule ledger_reachable)
  have p: "(\<lambda>r. lw_client_node_id r = node \<and> lw_state r \<in> set active_states) = ?p"
    by (simp add: active_row_def)
  have le: "length (filter ?p (oc_leases db)) \<le> 1"
    by (rule filter_active_node) (use inv in \<open>simp add: ledger_inv_def\<close>)
  show ?thesis
  proof (cases "filter ?p (oc_leases db)")
    case Nil
    then show ?thesis using node by (auto simp: active_lease_for_node_def p filter_empty_conv)
  next
    case (Cons r rest)
    with le have one: "filter ?p (oc_leases db) = [r]" by simp
    then have "{x \<in> set (oc_leases db). ?p x} = {r}" by (metis set_filter list.set(1,2))
    then have r: "r \<in> set (oc_leases db)" "?p r" and only: "\<And>r'. r' \<in> set (oc_leases db) \<Longrightarrow> ?p r' \<Longrightarrow> r' = r" by auto
    have "row_ok r" using inv r(1) by (simp add: ledger_inv_def)
    then obtain rec where rec: "occupancy_lease_record_from_row r = Inr rec" "lease_state_str (ol_state rec) = lw_state r"
      "ol_occupancy_lease_id rec = lw_occupancy_lease_id r" "ol_client_node_id rec = lw_client_node_id r"
      by (rule row_reads)
    have "tbl_find lw_occupancy_lease_id (lw_occupancy_lease_id r) (oc_leases db) = Some r"
      using inv r(1) by (simp add: ledger_inv_def tbl_find_unique)
    then have "active_lease_for_node db node = Inr (Some rec)"
      using node rec(1) by (simp add: active_lease_for_node_def p one load_occupancy_lease_def)
    moreover have "is_active (ol_state rec)"
      using r(2) rec(2) by (cases "ol_state rec") (auto simp: active_states_iff)
    ultimately show ?thesis using rec(3,4) r(2) only by auto
  qed
qed

text \<open>
  C26. Fencing tokens grow strictly: of two successful claims, on whatever devices and with whatever happened to
  the ledger before, between and since, the later one has the larger token.
\<close>

theorem fencing_tokens_grow:
  assumes "atomic_claim (run_ops occupancy_step empty_ledger before) c now = Inr (rec, db1)"
    and "atomic_claim (run_ops occupancy_step db1 between) c' now' = Inr (rec', db2)"
  shows "ol_fencing_token rec < ol_fencing_token rec'"
  using assms by (rule claim_then_claim [OF ledger_reachable])

text \<open>
  A lease that has ended stays as it ended: once it is released or expired no operation changes its row
  again, and as long as it has not, its device, holder, claim and token are those it was claimed with.
\<close>

theorem ended_lease_final:
  assumes "r \<in> set (oc_leases (run_ops occupancy_step empty_ledger before))"
  shows "\<exists>r' \<in> set (oc_leases (run_ops occupancy_step empty_ledger (before @ ops))).
    (lw_state r \<in> {''released'', ''expired''} \<longrightarrow> r' = r)
    \<and> lw_occupancy_lease_id r' = lw_occupancy_lease_id r \<and> lw_client_node_id r' = lw_client_node_id r
    \<and> lw_holder_user_id r' = lw_holder_user_id r \<and> lw_claim_request_id r' = lw_claim_request_id r
    \<and> lw_fencing_token r' = lw_fencing_token r \<and> lw_revision r \<le> lw_revision r'"
proof -
  have "ledger_le (run_ops occupancy_step empty_ledger before) (run_ops occupancy_step empty_ledger (before @ ops))"
    by (simp add: run_ops_append ledger.run_le ledger_reachable)
  with assms obtain r' where "r' \<in> set (oc_leases (run_ops occupancy_step empty_ledger (before @ ops)))" "lease_evolves r r'"
    by (auto simp: ledger_le_def)
  then show ?thesis by (intro bexI [of _ r']) (auto simp: lease_evolves_def same_lease_def active_states_iff)
qed

section \<open>An example\<close>

definition sample_lease_id :: "char \<Rightarrow> string" where
  "sample_lease_id c = ''ocl_'' @ replicate 26 c"

definition sample_node_id :: string where
  "sample_node_id = ''cnd_'' @ replicate 26 CHR ''0''"

definition sample_claim :: "char \<Rightarrow> occupancy_claim" where
  "sample_claim c = \<lparr>ok_occupancy_lease_id = sample_lease_id c, ok_client_node_id = sample_node_id,
     ok_holder_user_id = ''usr_'' @ replicate 26 CHR ''0'', ok_claim_request_id = ''req_'' @ replicate 26 c\<rparr>"

definition sample_now :: string where
  "sample_now = ''2025-01-01T00:00:00.000Z''"

definition sample_environment :: occupancy_op where
  "sample_environment = EnvironmentOp
     [\<lparr>cn_client_node_id = sample_node_id, cn_presence_state = ''online'', cn_lock_state = ''unlocked'',
       cn_accepting_connections = 1, cn_max_concurrent_worker_sessions = 2, cn_reported_running_worker_sessions = 0\<rparr>]
     [\<lparr>ag_client_node_id = sample_node_id, ag_user_id = ''usr_'' @ replicate 26 CHR ''0'', ag_state = ''active'',
       ag_permissions = ''use''\<rparr>]"

lemma sample_ids [simp]: "validate_occupancy_lease_id (sample_lease_id CHR ''1'') = Inr ()" 
  "validate_client_node_id sample_node_id = Inr ()"
  by code_simp+

lemma sample_instant [simp]: "occ_instant_ok sample_now"
  by code_simp

lemma sample_lease_inject [simp]: "sample_lease_id c = sample_lease_id d \<longleftrightarrow> c = d"
  by (simp add: sample_lease_id_def numeral_eq_Suc)

lemma safe_integer_above_one [simp]: "\<not> (9007199254740991 :: u64) \<le> 1"
  by (simp add: word_le_def)

lemmas occupancy_eval = occ_validate_instant_def occ_transaction_def ensure_claim_gate_def check_node_gate_def
  check_grant_gate_def mint_in_transaction_def from_sql_integer_def u64_of_i64_def sql_integer_def i64_of_u64_def
  insert_lease_def new_lease_row_def load_occupancy_lease_def occupancy_lease_record_from_row_def
  parse_lease_state_def parse_optional_def parse_stored_instant_def  max_safe_integer_def
  sample_claim_def saturating_add_def active_states_def checked_add_def parse_release_reason_def
  atomic_claim_def sample_environment_def empty_ledger_def
  reject_offer_def validate_fencing_token_def require_occupancy_lease_def ensure_fencing_token_def
  release_lease_def update_one_def update_leases_def tbl_count_def tbl_update_def reload_def check_all.simps
lemma two_results:
  assumes "case x of Inl _ \<Rightarrow> False | Inr (a, b) \<Rightarrow> (case f b of Inl _ \<Rightarrow> False | Inr (c, d) \<Rightarrow> P c)"
  shows "\<exists>a b c d. x = Inr (a, b) \<and> f b = Inr (c, d) \<and> P c"
proof -
  from assms obtain a b where x: "x = Inr (a, b)" by (auto split: sum.splits)
  with assms obtain c d where "f b = Inr (c, d)" by (auto split: sum.splits)
  with assms x show ?thesis by simp
qed

lemma sample_claims:
  "\<exists>rec db1 rec' db2.
     atomic_claim (run_ops occupancy_step empty_ledger [sample_environment]) (sample_claim CHR ''1'') sample_now = Inr (rec, db1)
     \<and> atomic_claim (run_ops occupancy_step db1 [RejectOp (sample_lease_id CHR ''1'') 1 ClientRejected sample_now])
         (sample_claim CHR ''2'') sample_now = Inr (rec', db2)
     \<and> ol_fencing_token rec' = 2"
proof -
  let ?one = "atomic_claim (run_ops occupancy_step empty_ledger [sample_environment]) (sample_claim CHR ''1'') sample_now"
  let ?ops = "[RejectOp (sample_lease_id CHR ''1'') 1 ClientRejected sample_now]"
  let ?two = "\<lambda>db. atomic_claim (run_ops occupancy_step db ?ops) (sample_claim CHR ''2'') sample_now"
  have "case ?one of Inl _ \<Rightarrow> False
    | Inr (_, db) \<Rightarrow> (case ?two db of Inl _ \<Rightarrow> False | Inr (rec, _) \<Rightarrow> ol_fencing_token rec = 2)" by (simp add: occupancy_eval)
  then show ?thesis by (rule two_results)
qed

theorem occupancy_exclusive_witness:
  "\<exists>rec. active_lease_for_node
      (run_ops occupancy_step empty_ledger [sample_environment, ClaimOp (sample_claim CHR ''1'') sample_now,
        ClaimOp (sample_claim CHR ''2'') sample_now]) sample_node_id = Inr (Some rec)
     \<and> ol_client_node_id rec = sample_node_id"
proof -
  let ?ops = "[sample_environment, ClaimOp (sample_claim CHR ''1'') sample_now, ClaimOp (sample_claim CHR ''2'') sample_now]"
  from occupancy_exclusive [OF sample_ids(2) refl, of ?ops] obtain lease where lease:
    "active_lease_for_node (run_ops occupancy_step empty_ledger ?ops) sample_node_id = Inr lease"
    "case lease of None \<Rightarrow> \<not> (\<exists>r \<in> set (oc_leases (run_ops occupancy_step empty_ledger ?ops)).
        lw_client_node_id r = sample_node_id \<and> active_row r) | Some rec \<Rightarrow> ol_client_node_id rec = sample_node_id"
    by (auto split: option.splits)
  have "\<exists>r \<in> set (oc_leases (run_ops occupancy_step empty_ledger ?ops)). lw_client_node_id r = sample_node_id \<and> active_row r"
    by (simp add: occupancy_eval active_row_def)
  with lease show ?thesis by (cases lease) auto
qed

theorem fencing_tokens_grow_witness:
  "\<exists>rec db1 rec' db2.
     atomic_claim (run_ops occupancy_step empty_ledger [sample_environment]) (sample_claim CHR ''1'') sample_now = Inr (rec, db1)
     \<and> atomic_claim (run_ops occupancy_step db1 [RejectOp (sample_lease_id CHR ''1'') 1 ClientRejected sample_now])
         (sample_claim CHR ''2'') sample_now = Inr (rec', db2)
     \<and> ol_fencing_token rec < ol_fencing_token rec'"
  using sample_claims fencing_tokens_grow by blast

end
