(* ===== verification/Ordered_Map.thy ===== *)
theory Ordered_Map
  imports Prelude
begin

text \<open>
  What the sources use of \<^verbatim>\<open>BTreeMap\<close>: the entries in ascending order of their keys. Lookup is \<open>map_of\<close>;
  insertion replaces the value of a key that is present; iteration is the list itself.
\<close>

type_synonym ('k, 'v) btree = "('k \<times> 'v) list"

definition bt_ok :: "('k::linorder, 'v) btree \<Rightarrow> bool" where
  "bt_ok m \<longleftrightarrow> sorted_wrt (<) (map fst m)"

fun bt_insert :: "'k::linorder \<Rightarrow> 'v \<Rightarrow> ('k, 'v) btree \<Rightarrow> ('k, 'v) btree" where
  "bt_insert k v [] = [(k, v)]"
| "bt_insert k v (e # m) =
     (if k < fst e then (k, v) # e # m else if k = fst e then (k, v) # m else e # bt_insert k v m)"

definition bt_remove :: "'k \<Rightarrow> ('k, 'v) btree \<Rightarrow> ('k, 'v) btree" where
  "bt_remove k m = filter (\<lambda>e. fst e \<noteq> k) m"

definition bt_values :: "('k, 'v) btree \<Rightarrow> 'v list" where
  "bt_values m = map snd m"

section \<open>Lookup\<close>

lemma bt_ok_Nil [simp]: "bt_ok []"
  by (simp add: bt_ok_def)

lemma bt_ok_Cons: "bt_ok (e # m) \<longleftrightarrow> (\<forall>x \<in> set m. fst e < fst x) \<and> bt_ok m"
  by (auto simp: bt_ok_def)

lemma map_of_bt_insert: "map_of (bt_insert k v m) = (map_of m)(k \<mapsto> v)"
  by (induction m) (auto simp: fun_eq_iff)

lemma map_of_bt_remove: "map_of (bt_remove k m) = (map_of m)(k := None)"
  by (induction m) (auto simp: bt_remove_def fun_eq_iff)

lemma fst_bt_insert: "fst ` set (bt_insert k v m) = insert k (fst ` set m)"
  by (induction m) auto

lemma bt_ok_insert: "bt_ok m \<Longrightarrow> bt_ok (bt_insert k v m)"
proof (induction m)
  case (Cons e m)
  have keys: "fst x = k \<or> (\<exists>y \<in> set m. fst x = fst y)" if "x \<in> set (bt_insert k v m)" for x
    using that fst_bt_insert [of k v m] by (metis image_iff insertE)
  from Cons have rest: "bt_ok m" "\<forall>x \<in> set m. fst e < fst x" by (simp_all add: bt_ok_Cons)
  then have inserted: "bt_ok (bt_insert k v m)" using Cons.IH by simp
  have "bt_ok (e # bt_insert k v m)" if "fst e < k"
    unfolding bt_ok_Cons using that keys rest inserted by fastforce
  moreover have "bt_ok ((k, v) # e # m)" if "k < fst e" using that rest by (auto simp: bt_ok_Cons)
  moreover have "bt_ok ((k, v) # m)" if "k = fst e" using that rest by (auto simp: bt_ok_Cons)
  ultimately show ?case by auto
qed (simp add: bt_ok_Cons)

lemma bt_ok_filter: "bt_ok m \<Longrightarrow> bt_ok (filter p m)"
  by (induction m) (auto simp: bt_ok_Cons)

lemma bt_ok_remove: "bt_ok m \<Longrightarrow> bt_ok (bt_remove k m)"
  by (simp add: bt_remove_def bt_ok_filter)

lemma bt_ok_distinct: "bt_ok m \<Longrightarrow> distinct (map fst m)"
  by (simp add: bt_ok_def strict_sorted_iff)

lemma bt_lookup_mem: "bt_ok m \<Longrightarrow> map_of m k = Some v \<longleftrightarrow> (k, v) \<in> set m"
  by (simp add: bt_ok_distinct map_of_eq_Some_iff)

text \<open>Two maps with the same lookups are the same list.\<close>

lemma bt_ext:
  assumes "bt_ok m" and "bt_ok m'" and "map_of m = map_of m'"
  shows "m = m'"
proof -
  have "set m = set m'" using assms by (auto simp: bt_lookup_mem [symmetric])
  moreover have "sorted (map fst m)" "sorted (map fst m')" "distinct (map fst m)" "distinct (map fst m')"
    using assms by (simp_all add: bt_ok_def strict_sorted_iff)
  moreover have "inj_on fst (set m \<union> set m')"
    using bt_ok_distinct [OF assms(1)] \<open>set m = set m'\<close> by (simp add: distinct_map)
  ultimately show ?thesis by (intro map_sorted_distinct_set_unique [of fst])
qed

section \<open>Counting\<close>

definition bt_count :: "('v \<Rightarrow> bool) \<Rightarrow> ('k, 'v) btree \<Rightarrow> nat" where
  "bt_count p m = length (filter p (bt_values m))"

lemma bt_count_Cons: "bt_count p (e # m) = of_bool (p (snd e)) + bt_count p m"
  by (simp add: bt_count_def bt_values_def)

lemma bt_count_Nil [simp]: "bt_count p [] = 0"
  by (simp add: bt_count_def bt_values_def)

lemma bt_count_insert_fresh: "map_of m k = None \<Longrightarrow> bt_count p (bt_insert k v m) = of_bool (p v) + bt_count p m"
  by (induction m) (auto simp: bt_count_Cons split: if_splits)

lemma bt_count_insert_old:
  "bt_ok m \<Longrightarrow> map_of m k = Some old \<Longrightarrow> bt_count p (bt_insert k v m) + of_bool (p old) = of_bool (p v) + bt_count p m"
proof (induction m)
  case (Cons e m)
  show ?case
  proof (cases "k = fst e")
    case True
    with Cons.prems have "old = snd e" by simp
    with True show ?thesis by (simp add: bt_count_Cons)
  next
    case False
    with Cons.prems have m: "map_of m k = Some old" "bt_ok m" by (auto simp: bt_ok_Cons split: if_splits)
    from m(1) have "k \<in> fst ` set m" by (metis domI dom_map_of_conv_image_fst)
    with Cons.prems(1) have "fst e < k" by (auto simp: bt_ok_Cons)
    then have "\<not> k < fst e" by simp
    with False Cons.IH [OF m(2,1)] show ?thesis by (simp add: bt_count_Cons)
  qed
qed simp

lemma bt_count_remove:
  "bt_ok m \<Longrightarrow> map_of m k = Some old \<Longrightarrow> bt_count p (bt_remove k m) + of_bool (p old) = bt_count p m"
proof (induction m)
  case (Cons e m)
  show ?case
  proof (cases "k = fst e")
    case True
    with Cons.prems have "old = snd e" and "\<forall>x \<in> set m. fst x \<noteq> k" by (auto simp: bt_ok_Cons)
    then show ?thesis using True by (simp add: bt_count_Cons bt_remove_def filter_id_conv)
  next
    case False
    with Cons show ?thesis by (auto simp: bt_count_Cons bt_remove_def bt_ok_Cons)
  qed
qed simp

lemma bt_count_le_length: "bt_count p m \<le> length m"
  using length_filter_le [of p "map snd m"] by (simp add: bt_count_def bt_values_def)

lemma length_bt_insert_fresh: "map_of m k = None \<Longrightarrow> length (bt_insert k v m) = Suc (length m)"
  using bt_count_insert_fresh [of m k "\<lambda>_. True" v] by (simp add: bt_count_def bt_values_def)

lemma length_bt_insert_old: "bt_ok m \<Longrightarrow> map_of m k = Some old \<Longrightarrow> length (bt_insert k v m) = length m"
  using bt_count_insert_old [of m k old "\<lambda>_. True" v] by (simp add: bt_count_def bt_values_def)

lemma length_bt_remove: "bt_ok m \<Longrightarrow> map_of m k = Some old \<Longrightarrow> Suc (length (bt_remove k m)) = length m"
  using bt_count_remove [of m k old "\<lambda>_. True"] by (simp add: bt_count_def bt_values_def)

lemma bt_count_pos_iff: "bt_ok m \<Longrightarrow> 0 < bt_count p m \<longleftrightarrow> (\<exists>k v. map_of m k = Some v \<and> p v)"
  by (auto simp: bt_count_def bt_values_def filter_empty_conv bt_lookup_mem; force)

section \<open>Appending at the end\<close>

lemma bt_insert_end: "(\<And>e. e \<in> set m \<Longrightarrow> fst e < k) \<Longrightarrow> bt_insert k v m = m @ [(k, v)]"
  by (induction m) fastforce+

section \<open>Keys\<close>

lemma map_fst_bt_insert_old: "bt_ok m \<Longrightarrow> map_of m k = Some old \<Longrightarrow> map fst (bt_insert k v m) = map fst m"
proof (induction m)
  case (Cons e m)
  show ?case
  proof (cases "k = fst e")
    case False
    with Cons.prems have m: "map_of m k = Some old" "bt_ok m" by (auto simp: bt_ok_Cons split: if_splits)
    from m(1) have "k \<in> fst ` set m" by (metis domI dom_map_of_conv_image_fst)
    with Cons.prems(1) have "\<not> k < fst e" by (auto simp: bt_ok_Cons)
    with False Cons.IH [OF m(2,1)] show ?thesis by simp
  qed simp
qed simp

lemma keys_count_fresh:
  "map_of m k = None \<Longrightarrow> length (filter q (map fst (bt_insert k v m))) = of_bool (q k) + length (filter q (map fst m))"
  by (induction m) (auto split: if_splits)

lemma bt_insert_same: "bt_ok m \<Longrightarrow> map_of m k = Some v \<Longrightarrow> bt_insert k v m = m"
  by (rule bt_ext) (auto simp: bt_ok_insert map_of_bt_insert fun_eq_iff)

end
