(* ===== verification/Model_Pool.thy ===== *)
theory Model_Pool
  imports Ordered_Map "HOL-Library.Product_Lexorder"
begin

text \<open>
  \<^verbatim>\<open>crates/winwincode-control-plane/src/model_request_pool.rs\<close>: the pool of model requests. Requests of
  one route share a number of active slots and a bounded queue; the stream of an active request is buffered
  within hard limits, pauses its provider when it is full, and ends with one terminal outcome. The durable
  form is in \<^verbatim>\<open>Pool_Durable\<close>.

  SHA-256 is a parameter. A \<^verbatim>\<open>usize\<close> is a natural
  number; the additions the source checks or saturates are written out at 64 bits.
\<close>

section \<open>Sizes\<close>

definition usize_max :: nat where
  "usize_max = 2 ^ 64 - 1"

definition usize_checked_add :: "nat \<Rightarrow> nat \<Rightarrow> nat option" where
  "usize_checked_add a b = (if a + b \<le> usize_max then Some (a + b) else None)"

definition usize_saturating_add :: "nat \<Rightarrow> nat \<Rightarrow> nat" where
  "usize_saturating_add a b = min (a + b) usize_max"

section \<open>Errors and identities\<close>

datatype pool_error_code =
    InvalidConfig | InvalidInput | IdentityMismatch | RouteLimit | QueueFull | RecordLimit | ExchangeConflict
  | NotFound | InvalidState | SequenceGap | FrameConflict | TerminalConflict

record pool_error =
  pe_code :: pool_error_code
  pe_message :: string

definition mk_pool_error :: "pool_error_code \<Rightarrow> string \<Rightarrow> pool_error" where
  "mk_pool_error code message = \<lparr>pe_code = code, pe_message = message\<rparr>"

definition invalid_config :: "string \<Rightarrow> pool_error" where
  "invalid_config message = mk_pool_error InvalidConfig message"

definition invalid_input :: "string \<Rightarrow> pool_error" where
  "invalid_input message = mk_pool_error InvalidInput message"

definition exchange_conflict :: pool_error where
  "exchange_conflict = mk_pool_error ExchangeConflict ''model exchange identity was reused with another route or request''"

definition pool_corrupt :: pool_error where
  "pool_corrupt = mk_pool_error InvalidState ''model request pool indexes are inconsistent''"

definition token_byte :: "char \<Rightarrow> bool" where
  "token_byte c \<longleftrightarrow> is_ascii_alphanumeric c \<or> c \<in> {CHR ''_'', CHR ''-'', CHR ''.'', CHR '':'', CHR ''/''}"

definition is_control :: "char \<Rightarrow> bool" where
  "is_control c \<longleftrightarrow> byte c < 32 \<or> byte c = 127"

definition validate_token :: "string \<Rightarrow> nat \<Rightarrow> pool_error + unit" where
  "validate_token s max_len =
     ensure (\<not> (s = [] \<or> length s > max_len \<or> list_ex is_control s \<or> \<not> list_all token_byte s))
       (invalid_input ''model request route token is invalid'')"

definition validate_prefixed_id :: "string \<Rightarrow> string \<Rightarrow> pool_error + unit" where
  "validate_prefixed_id s prefix =
     rbind (validate_token s 200) (\<lambda>_.
     ensure (\<not> (take (length prefix) s \<noteq> prefix \<or> length s = length prefix))
       (invalid_input ''model request identity is invalid''))"

section \<open>Routes\<close>

datatype model_request_route_key = RouteKey
  (rk_provider: string) (rk_model: string) (rk_credential_reference: string) (rk_organization: string)
  (rk_workspace: string) (rk_project: string) (rk_repository: string)

definition sort_tuple :: "model_request_route_key \<Rightarrow> string \<times> string \<times> string \<times> string \<times> string \<times> string \<times> string" where
  "sort_tuple k = (rk_organization k, rk_workspace k, rk_project k, rk_repository k, rk_provider k, rk_model k,
     rk_credential_reference k)"

lemma sort_tuple_inject [simp]: "sort_tuple a = sort_tuple b \<longleftrightarrow> a = b"
  by (cases a; cases b) (auto simp: sort_tuple_def)

text \<open>The order of the keys is that of their tuples: \<^verbatim>\<open>cmp\<close> is the comparison of the tuples, from which
  \<open>\<le>\<close> and \<open><\<close> are read.\<close>

definition route_key_le :: "model_request_route_key \<Rightarrow> model_request_route_key \<Rightarrow> bool" where
  "route_key_le a b \<longleftrightarrow> sort_tuple a \<le> sort_tuple b"

definition route_key_less :: "model_request_route_key \<Rightarrow> model_request_route_key \<Rightarrow> bool" where
  "route_key_less a b \<longleftrightarrow> sort_tuple a < sort_tuple b"

instantiation model_request_route_key :: linorder
begin

definition less_eq_model_request_route_key :: "model_request_route_key \<Rightarrow> model_request_route_key \<Rightarrow> bool" where
  "a \<le> b \<longleftrightarrow> route_key_le a b"

definition less_model_request_route_key :: "model_request_route_key \<Rightarrow> model_request_route_key \<Rightarrow> bool" where
  "a < b \<longleftrightarrow> route_key_less a b"

instance
  by standard
    (auto simp: less_eq_model_request_route_key_def less_model_request_route_key_def route_key_le_def route_key_less_def order_less_le)

end

datatype repository_scope_kind = ScopeRepository

record repository_scope =
  rs_kind :: repository_scope_kind
  rs_organization_id :: string
  rs_workspace_id :: string
  rs_project_id :: string
  rs_repository_id :: string

record model_route =
  mr_provider_id :: string
  mr_model_id :: string
  mr_credential_reference_id :: string

record project_scope =
  ps_organization_id :: string
  ps_workspace_id :: string
  ps_project_id :: string

datatype model_settings_target =
    TargetOrganization string
  | TargetProject project_scope
  | TargetRepository repository_scope
  | TargetProductSession repository_scope string

definition from_repository_scope :: "repository_scope \<Rightarrow> model_route \<Rightarrow> pool_error + model_request_route_key" where
  "from_repository_scope scope route =
     rbind (check_all
       [ensure (rs_kind scope = ScopeRepository)
          (mk_pool_error IdentityMismatch ''model request pool requires a canonical repository scope''),
        validate_token (mr_provider_id route) 128,
        validate_token (mr_model_id route) 200,
        validate_prefixed_id (mr_credential_reference_id route) ''crd_'',
        validate_prefixed_id (rs_organization_id scope) ''org_'',
        validate_prefixed_id (rs_workspace_id scope) ''wsp_'',
        validate_prefixed_id (rs_project_id scope) ''prj_'',
        validate_prefixed_id (rs_repository_id scope) ''rep_'']) (\<lambda>_.
     Inr (RouteKey (mr_provider_id route) (mr_model_id route) (mr_credential_reference_id route)
       (rs_organization_id scope) (rs_workspace_id scope) (rs_project_id scope) (rs_repository_id scope)))"

fun from_target :: "model_settings_target \<Rightarrow> model_route \<Rightarrow> pool_error + model_request_route_key" where
  "from_target (TargetProductSession scope _) route = from_repository_scope scope route"
| "from_target _ route =
     Inl (mk_pool_error IdentityMismatch ''model request pool requires a ProductSession Gateway identity'')"

definition key_project_scope :: "model_request_route_key \<Rightarrow> project_scope" where
  "key_project_scope k = \<lparr>ps_organization_id = rk_organization k, ps_workspace_id = rk_workspace k,
     ps_project_id = rk_project k\<rparr>"

definition key_repository_scope :: "model_request_route_key \<Rightarrow> repository_scope" where
  "key_repository_scope k = \<lparr>rs_kind = ScopeRepository, rs_organization_id = rk_organization k,
     rs_workspace_id = rk_workspace k, rs_project_id = rk_project k, rs_repository_id = rk_repository k\<rparr>"

definition validate_route_key :: "model_request_route_key \<Rightarrow> pool_error + unit" where
  "validate_route_key k = check_all
     [validate_token (rk_provider k) 128, validate_token (rk_model k) 200,
      validate_prefixed_id (rk_credential_reference k) ''crd_'',
      validate_prefixed_id (rk_organization k) ''org_'', validate_prefixed_id (rk_workspace k) ''wsp_'',
      validate_prefixed_id (rk_project k) ''prj_'', validate_prefixed_id (rk_repository k) ''rep_'']"

record model_request_admission =
  ma_route :: model_request_route_key
  ma_model_exchange_id :: string
  ma_request_id :: string

definition from_gateway_route ::
    "model_settings_target \<Rightarrow> model_route \<Rightarrow> string \<Rightarrow> string \<Rightarrow> pool_error + model_request_admission" where
  "from_gateway_route target route exchange_id request_id =
     rbind (validate_prefixed_id exchange_id ''mdl_'') (\<lambda>_.
     rbind (validate_prefixed_id request_id ''req_'') (\<lambda>_.
     rbind (from_target target route) (\<lambda>key.
     Inr \<lparr>ma_route = key, ma_model_exchange_id = exchange_id, ma_request_id = request_id\<rparr>)))"

definition validate_admission :: "model_request_admission \<Rightarrow> pool_error + unit" where
  "validate_admission a = check_all
     [validate_route_key (ma_route a), validate_prefixed_id (ma_model_exchange_id a) ''mdl_'',
      validate_prefixed_id (ma_request_id a) ''req_'']"

section \<open>Limits\<close>

record model_request_pool_config =
  max_routes :: nat
  max_active_per_route :: nat
  max_waiting_per_route :: nat
  max_exchange_records_per_route :: nat
  max_buffered_frames_per_stream :: nat
  max_buffered_bytes_per_stream :: nat
  resume_buffered_frames_per_stream :: nat
  resume_buffered_bytes_per_stream :: nat

definition config_validate :: "model_request_pool_config \<Rightarrow> pool_error + model_request_pool_config" where
  "config_validate c =
     rbind (ok_or (usize_checked_add (max_active_per_route c) (max_waiting_per_route c))
       (invalid_config ''model request record limit overflowed'')) (\<lambda>minimum_records.
     rbind (ensure (\<not> (max_routes c = 0 \<or> max_active_per_route c = 0
         \<or> max_exchange_records_per_route c < minimum_records
         \<or> max_buffered_frames_per_stream c = 0 \<or> max_buffered_bytes_per_stream c = 0
         \<or> resume_buffered_frames_per_stream c \<ge> max_buffered_frames_per_stream c
         \<or> resume_buffered_bytes_per_stream c \<ge> max_buffered_bytes_per_stream c))
       (invalid_config ''model request pool limits are invalid'')) (\<lambda>_.
     Inr c))"

section \<open>Requests and frames\<close>

datatype model_request_state = Queued | Active | Succeeded | Failed | Cancelled

fun terminal :: "model_request_state \<Rightarrow> bool" where
  "terminal Queued = False"
| "terminal Active = False"
| "terminal _ = True"

datatype model_request_terminal_outcome = OutcomeSucceeded | OutcomeFailed | OutcomeCancelled

fun outcome_state :: "model_request_terminal_outcome \<Rightarrow> model_request_state" where
  "outcome_state OutcomeSucceeded = Succeeded"
| "outcome_state OutcomeFailed = Failed"
| "outcome_state OutcomeCancelled = Cancelled"

datatype model_request_admission_status = Started | AdmissionQueued | AdmissionDuplicate

record model_request_admission_receipt =
  ar_model_exchange_id :: string
  ar_state :: model_request_state
  ar_status :: model_request_admission_status
  ar_queue_position :: "nat option"

record model_stream_frame =
  mf_sequence :: u64
  mf_payload :: string
  mf_terminal_outcome :: "model_request_terminal_outcome option"

definition data_frame :: "u64 \<Rightarrow> string \<Rightarrow> model_stream_frame" where
  "data_frame sequence payload = \<lparr>mf_sequence = sequence, mf_payload = payload, mf_terminal_outcome = None\<rparr>"

definition terminal_frame :: "u64 \<Rightarrow> string \<Rightarrow> model_request_terminal_outcome \<Rightarrow> model_stream_frame" where
  "terminal_frame sequence payload outcome =
     \<lparr>mf_sequence = sequence, mf_payload = payload, mf_terminal_outcome = Some outcome\<rparr>"

datatype model_frame_write_status = WriteAccepted | WriteDuplicate | Backpressured

datatype model_stream_read_control = ReadOn | Paused | Closed

record model_frame_write_receipt =
  wr_status :: model_frame_write_status
  wr_state :: model_request_state
  wr_highest_sequence :: u64
  wr_buffered_frames :: nat
  wr_buffered_bytes :: nat
  wr_read_control :: model_stream_read_control
  wr_granted_exchange_id :: "string option"

record model_frame_ack_receipt =
  ak_model_exchange_id :: string
  ak_acknowledged_sequence :: u64
  ak_buffered_frames :: nat
  ak_buffered_bytes :: nat
  ak_read_control :: model_stream_read_control
  ak_replayed :: bool

record model_request_terminal_receipt =
  tr_model_exchange_id :: string
  tr_outcome :: model_request_terminal_outcome
  tr_replayed :: bool
  tr_granted_exchange_id :: "string option"

record frame_fingerprint =
  fp_sequence :: u64
  fp_digest :: string
  fp_outcome :: model_request_terminal_outcome

record exchange_record =
  er_model_exchange_id :: string
  er_request_id :: string
  er_state :: model_request_state
  er_next_sequence :: u64
  er_acknowledged_sequence :: u64
  er_buffered_bytes :: nat
  er_provider_read_paused :: bool
  er_frames :: "(u64, model_stream_frame) btree"
  er_terminal_outcome :: "model_request_terminal_outcome option"
  er_terminal_frame :: "frame_fingerprint option"

definition new_exchange_record :: "model_request_admission \<Rightarrow> model_request_state \<Rightarrow> exchange_record" where
  "new_exchange_record a state =
     \<lparr>er_model_exchange_id = ma_model_exchange_id a, er_request_id = ma_request_id a, er_state = state,
      er_next_sequence = 1, er_acknowledged_sequence = 0, er_buffered_bytes = 0, er_provider_read_paused = False,
      er_frames = [], er_terminal_outcome = None, er_terminal_frame = None\<rparr>"

definition highest_sequence :: "exchange_record \<Rightarrow> u64" where
  "highest_sequence r = saturating_sub (er_next_sequence r) 1"

definition read_control :: "exchange_record \<Rightarrow> model_stream_read_control" where
  "read_control r = (if terminal (er_state r) then Closed else if er_provider_read_paused r then Paused else ReadOn)"

definition frame_receipt ::
    "exchange_record \<Rightarrow> model_frame_write_status \<Rightarrow> string option \<Rightarrow> model_frame_write_receipt" where
  "frame_receipt r status granted =
     \<lparr>wr_status = status, wr_state = er_state r, wr_highest_sequence = highest_sequence r,
      wr_buffered_frames = length (er_frames r), wr_buffered_bytes = er_buffered_bytes r,
      wr_read_control = read_control r, wr_granted_exchange_id = granted\<rparr>"

definition ack_receipt :: "exchange_record \<Rightarrow> bool \<Rightarrow> model_frame_ack_receipt" where
  "ack_receipt r replayed =
     \<lparr>ak_model_exchange_id = er_model_exchange_id r, ak_acknowledged_sequence = er_acknowledged_sequence r,
      ak_buffered_frames = length (er_frames r), ak_buffered_bytes = er_buffered_bytes r,
      ak_read_control = read_control r, ak_replayed = replayed\<rparr>"

section \<open>Routes and the pool\<close>

record route_partition =
  rp_records :: "(string, exchange_record) btree"
  rp_waiting :: "string list"

definition active_count :: "route_partition \<Rightarrow> nat" where
  "active_count p = bt_count (\<lambda>r. er_state r = Active) (rp_records p)"

definition terminal_count :: "route_partition \<Rightarrow> nat" where
  "terminal_count p = bt_count (\<lambda>r. terminal (er_state r)) (rp_records p)"

fun position_from :: "nat \<Rightarrow> string \<Rightarrow> string list \<Rightarrow> nat option" where
  "position_from i x [] = None"
| "position_from i x (y # ys) = (if y = x then Some i else position_from (i + 1) x ys)"

definition queue_position :: "route_partition \<Rightarrow> string \<Rightarrow> nat option" where
  "queue_position p exchange_id = map_option (\<lambda>index. index + 1) (position_from 0 exchange_id (rp_waiting p))"

fun grant_waiting ::
    "(string, exchange_record) btree \<Rightarrow> string list \<Rightarrow> string option \<times> route_partition" where
  "grant_waiting records [] = (None, \<lparr>rp_records = records, rp_waiting = []\<rparr>)"
| "grant_waiting records (x # xs) =
     (case map_of records x of
        None \<Rightarrow> grant_waiting records xs
      | Some r \<Rightarrow>
          if er_state r = Queued
          then (Some (er_model_exchange_id r),
                \<lparr>rp_records = bt_insert x (r\<lparr>er_state := Active\<rparr>) records, rp_waiting = xs\<rparr>)
          else grant_waiting records xs)"

definition grant_next :: "route_partition \<Rightarrow> string option \<times> route_partition" where
  "grant_next p = grant_waiting (rp_records p) (rp_waiting p)"

record model_request_pool =
  mp_config :: model_request_pool_config
  mp_routes :: "(model_request_route_key, route_partition) btree"
  mp_exchange_routes :: "string \<rightharpoonup> model_request_route_key"

definition pool_new :: "model_request_pool_config \<Rightarrow> pool_error + model_request_pool" where
  "pool_new config = rbind (config_validate config) (\<lambda>c.
     Inr \<lparr>mp_config = c, mp_routes = [], mp_exchange_routes = Map.empty\<rparr>)"

definition same_project :: "model_request_route_key \<Rightarrow> model_request_route_key \<Rightarrow> bool" where
  "same_project a b \<longleftrightarrow>
     rk_organization a = rk_organization b \<and> rk_workspace a = rk_workspace b \<and> rk_project a = rk_project b"

definition project_route_count :: "model_request_pool \<Rightarrow> model_request_route_key \<Rightarrow> nat" where
  "project_route_count pool route = length (filter (\<lambda>k. same_project k route) (map fst (mp_routes pool)))"

definition route_for :: "model_request_pool \<Rightarrow> string \<Rightarrow> pool_error + model_request_route_key" where
  "route_for pool exchange_id =
     rbind (validate_prefixed_id exchange_id ''mdl_'') (\<lambda>_.
     ok_or (mp_exchange_routes pool exchange_id)
       (mk_pool_error NotFound ''model request exchange is not registered''))"

definition partition_for :: "model_request_pool \<Rightarrow> string \<Rightarrow> pool_error + model_request_route_key \<times> route_partition" where
  "partition_for pool exchange_id =
     rbind (route_for pool exchange_id) (\<lambda>route.
     rbind (ok_or (map_of (mp_routes pool) route) pool_corrupt) (\<lambda>p. Inr (route, p)))"

definition pool_record :: "model_request_pool \<Rightarrow> string \<Rightarrow> pool_error + exchange_record" where
  "pool_record pool exchange_id =
     rbind (partition_for pool exchange_id) (\<lambda>(_, p).
     ok_or (map_of (rp_records p) exchange_id) pool_corrupt)"

definition put_partition :: "model_request_pool \<Rightarrow> model_request_route_key \<Rightarrow> route_partition \<Rightarrow> model_request_pool" where
  "put_partition pool route p = pool\<lparr>mp_routes := bt_insert route p (mp_routes pool)\<rparr>"

definition put_record :: "route_partition \<Rightarrow> string \<Rightarrow> exchange_record \<Rightarrow> route_partition" where
  "put_record p exchange_id r = p\<lparr>rp_records := bt_insert exchange_id r (rp_records p)\<rparr>"

section \<open>Admission\<close>

definition empty_partition :: route_partition where
  "empty_partition = \<lparr>rp_records = [], rp_waiting = []\<rparr>"

definition submit_duplicate ::
    "model_request_pool \<Rightarrow> model_request_admission \<Rightarrow> model_request_route_key \<Rightarrow>
     pool_error + model_request_admission_receipt" where
  "submit_duplicate pool a existing_route =
     (if existing_route \<noteq> ma_route a then Inl exchange_conflict
      else
        rbind (ok_or (map_of (mp_routes pool) existing_route) pool_corrupt) (\<lambda>p.
        rbind (ok_or (map_of (rp_records p) (ma_model_exchange_id a)) pool_corrupt) (\<lambda>r.
        if er_request_id r \<noteq> ma_request_id a then Inl exchange_conflict
        else Inr \<lparr>ar_model_exchange_id = er_model_exchange_id r, ar_state = er_state r,
                  ar_status = AdmissionDuplicate,
                  ar_queue_position = queue_position p (ma_model_exchange_id a)\<rparr>)))"

definition enlist ::
    "model_request_pool \<Rightarrow> model_request_admission \<Rightarrow> route_partition \<Rightarrow> model_request_state \<Rightarrow> model_request_pool" where
  "enlist pool a p state =
     (put_partition pool (ma_route a) (put_record p (ma_model_exchange_id a) (new_exchange_record a state)))
       \<lparr>mp_exchange_routes := (mp_exchange_routes pool)(ma_model_exchange_id a \<mapsto> ma_route a)\<rparr>"

definition admit_new ::
    "model_request_pool \<Rightarrow> model_request_admission \<Rightarrow> route_partition \<Rightarrow>
     (pool_error + model_request_admission_receipt) \<times> model_request_pool" where
  "admit_new pool a p =
     (if length (rp_records p) \<ge> max_exchange_records_per_route (mp_config pool)
      then (Inl (mk_pool_error RecordLimit ''model request route record capacity is exhausted''), pool)
      else if active_count p < max_active_per_route (mp_config pool)
      then (Inr \<lparr>ar_model_exchange_id = ma_model_exchange_id a, ar_state = Active, ar_status = Started,
                 ar_queue_position = None\<rparr>, enlist pool a p Active)
      else if length (rp_waiting p) \<ge> max_waiting_per_route (mp_config pool)
      then (Inl (mk_pool_error QueueFull ''model request route waiting queue is full''), pool)
      else
        (Inr \<lparr>ar_model_exchange_id = ma_model_exchange_id a, ar_state = Queued, ar_status = AdmissionQueued,
              ar_queue_position = Some (length (rp_waiting p) + 1)\<rparr>,
         enlist pool a (p\<lparr>rp_waiting := rp_waiting p @ [ma_model_exchange_id a]\<rparr>) Queued))"

text \<open>
  The partition of a new route is created before the limits of the route are checked, so it stays when they
  refuse the request.
\<close>

definition submit ::
    "model_request_pool \<Rightarrow> model_request_admission \<Rightarrow>
     (pool_error + model_request_admission_receipt) \<times> model_request_pool" where
  "submit pool a =
     (case validate_admission a of
        Inl e \<Rightarrow> (Inl e, pool)
      | Inr _ \<Rightarrow>
     (case mp_exchange_routes pool (ma_model_exchange_id a) of
        Some existing_route \<Rightarrow> (submit_duplicate pool a existing_route, pool)
      | None \<Rightarrow>
     (if map_of (mp_routes pool) (ma_route a) = None
         \<and> project_route_count pool (ma_route a) \<ge> max_routes (mp_config pool)
      then (Inl (mk_pool_error RouteLimit ''model request route capacity is exhausted''), pool)
      else
        let p = (case map_of (mp_routes pool) (ma_route a) of None \<Rightarrow> empty_partition | Some p \<Rightarrow> p)
        in admit_new (put_partition pool (ma_route a) p) a p)))"

section \<open>Streams\<close>

text \<open>\<open>to_be_bytes\<close> is \<^verbatim>\<open>u64::to_be_bytes\<close>; SHA-256 is an argument of the operations that use it.\<close>

definition to_be_bytes :: "u64 \<Rightarrow> string" where
  "to_be_bytes w = map (\<lambda>i. char_of (unat (drop_bit (8 * i) w) mod 256)) [7, 6, 5, 4, 3, 2, 1, 0]"

fun outcome_tag :: "model_request_terminal_outcome option \<Rightarrow> nat" where
  "outcome_tag None = 0"
| "outcome_tag (Some OutcomeSucceeded) = 1"
| "outcome_tag (Some OutcomeFailed) = 2"
| "outcome_tag (Some OutcomeCancelled) = 3"

definition frame_digest :: "(string \<Rightarrow> string) \<Rightarrow> model_stream_frame \<Rightarrow> string" where
  "frame_digest sha256 f =
     sha256 (to_be_bytes (mf_sequence f) @ [char_of (outcome_tag (mf_terminal_outcome f))]
       @ to_be_bytes (word_of_nat (min (length (mf_payload f)) (2 ^ 64 - 1))) @ mf_payload f)"

definition validate_frame :: "model_stream_frame \<Rightarrow> pool_error + unit" where
  "validate_frame f =
     ensure (\<not> (mf_sequence f = 0 \<or> mf_sequence f > max_safe_integer)) (invalid_input ''model stream sequence is invalid'')"

fun validate_frames_from :: "model_stream_frame list \<Rightarrow> pool_error + unit" where
  "validate_frames_from [] = Inr ()"
| "validate_frames_from (f # fs) =
     rbind (validate_frame f) (\<lambda>_.
     rbind (ensure (mf_terminal_outcome f \<noteq> Some OutcomeCancelled)
       (invalid_input ''model stream cancellation must use the pool cancellation path'')) (\<lambda>_.
     rbind (ensure (\<not> (mf_terminal_outcome f \<noteq> None \<and> fs \<noteq> []))
       (invalid_input ''model stream terminal frame must end its canonical batch'')) (\<lambda>_.
     validate_frames_from fs)))"

definition validate_frame_batch_shape :: "model_stream_frame list \<Rightarrow> pool_error + unit" where
  "validate_frame_batch_shape fs =
     rbind (ensure (fs \<noteq> []) (invalid_input ''model stream frame batch is empty'')) (\<lambda>_. validate_frames_from fs)"

fun batch_bytes :: "nat \<Rightarrow> model_stream_frame list \<Rightarrow> nat option" where
  "batch_bytes acc [] = Some acc"
| "batch_bytes acc (f # fs) =
     (case usize_checked_add acc (length (mf_payload f)) of None \<Rightarrow> None | Some n \<Rightarrow> batch_bytes n fs)"

definition validate_frame_batch :: "model_request_pool \<Rightarrow> model_stream_frame list \<Rightarrow> pool_error + unit" where
  "validate_frame_batch pool fs =
     rbind (validate_frame_batch_shape fs) (\<lambda>_.
     rbind (ok_or (batch_bytes 0 fs) (invalid_input ''model stream frame batch size overflowed'')) (\<lambda>bytes.
     ensure (\<not> (length fs > max_buffered_frames_per_stream (mp_config pool)
               \<or> bytes > max_buffered_bytes_per_stream (mp_config pool)))
       (invalid_input ''model stream frame batch exceeds the configured hard limit'')))"

definition frame_stored :: "(string \<Rightarrow> string) \<Rightarrow> exchange_record \<Rightarrow> model_stream_frame \<Rightarrow> string \<Rightarrow> bool" where
  "frame_stored sha256 r f digest =
     (case map_of (er_frames r) (mf_sequence f) of None \<Rightarrow> False | Some g \<Rightarrow> frame_digest sha256 g = digest)"

definition is_terminal_replay :: "exchange_record \<Rightarrow> model_stream_frame \<Rightarrow> string \<Rightarrow> bool" where
  "is_terminal_replay r f digest =
     (case (mf_terminal_outcome f, er_terminal_frame r) of
        (Some outcome, Some t) \<Rightarrow> fp_sequence t = mf_sequence f \<and> fp_digest t = digest \<and> fp_outcome t = outcome
      | _ \<Rightarrow> False)"

definition classify_frame_write ::
    "(string \<Rightarrow> string) \<Rightarrow> exchange_record \<Rightarrow> model_stream_frame \<Rightarrow> string \<Rightarrow>
     pool_error + model_frame_write_status option" where
  "classify_frame_write sha256 r f digest =
     (if terminal (er_state r)
      then if mf_sequence f \<le> er_acknowledged_sequence r then Inr (Some WriteDuplicate)
        else if frame_stored sha256 r f digest then Inr (Some WriteDuplicate)
        else if is_terminal_replay r f digest then Inr (Some WriteDuplicate)
        else Inl (mk_pool_error FrameConflict ''terminal model stream rejected another frame'')
      else if er_state r \<noteq> Active
      then Inl (mk_pool_error InvalidState ''queued model request cannot accept stream frames'')
      else if mf_sequence f < er_next_sequence r
      then if mf_sequence f \<le> er_acknowledged_sequence r then Inr (Some WriteDuplicate)
        else
          rbind (ok_or (map_of (er_frames r) (mf_sequence f)) pool_corrupt) (\<lambda>existing.
          if frame_digest sha256 existing = digest then Inr (Some WriteDuplicate)
          else Inl (mk_pool_error FrameConflict ''model stream sequence was reused with different content''))
      else if mf_sequence f = er_next_sequence r then Inr None
      else Inl (mk_pool_error SequenceGap ''model stream frame is not contiguous''))"

text \<open>
  The loop of \<^verbatim>\<open>push_frames\<close> on a copy of the record: \<open>None\<close> when the buffer is full, otherwise the copy and
  whether a frame, and whether a terminal frame, was accepted.
\<close>

definition accept_frame :: "(string \<Rightarrow> string) \<Rightarrow> exchange_record \<Rightarrow> model_stream_frame \<Rightarrow> u64 \<Rightarrow> exchange_record" where
  "accept_frame sha256 r f next =
     (let r = r\<lparr>er_frames := bt_insert (mf_sequence f) f (er_frames r),
                er_buffered_bytes := usize_saturating_add (er_buffered_bytes r) (length (mf_payload f)),
                er_next_sequence := next\<rparr>
      in case mf_terminal_outcome f of
           None \<Rightarrow> r
         | Some outcome \<Rightarrow> r\<lparr>er_state := outcome_state outcome, er_terminal_outcome := Some outcome,
             er_terminal_frame := Some \<lparr>fp_sequence = mf_sequence f, fp_digest = frame_digest sha256 f,
                                        fp_outcome = outcome\<rparr>\<rparr>)"

fun write_frames ::
    "(string \<Rightarrow> string) \<Rightarrow> model_request_pool_config \<Rightarrow> exchange_record \<Rightarrow> bool \<Rightarrow> bool \<Rightarrow> model_stream_frame list \<Rightarrow>
     pool_error + (exchange_record \<times> bool \<times> bool) option" where
  "write_frames sha256 config r accepted accepted_terminal [] = Inr (Some (r, accepted, accepted_terminal))"
| "write_frames sha256 config r accepted accepted_terminal (f # fs) =
     rbind (classify_frame_write sha256 r f (frame_digest sha256 f)) (\<lambda>status.
     if status \<noteq> None then write_frames sha256 config r accepted accepted_terminal fs
     else if usize_saturating_add (length (er_frames r)) 1 > max_buffered_frames_per_stream config
           \<or> usize_saturating_add (er_buffered_bytes r) (length (mf_payload f)) > max_buffered_bytes_per_stream config
     then Inr None
     else
       rbind (ok_or (checked_add (er_next_sequence r) 1)
         (mk_pool_error InvalidState ''model stream sequence overflowed'')) (\<lambda>next.
       write_frames sha256 config (accept_frame sha256 r f next) True
         (accepted_terminal \<or> mf_terminal_outcome f \<noteq> None) fs))"

definition push_frames ::
    "(string \<Rightarrow> string) \<Rightarrow> model_request_pool \<Rightarrow> string \<Rightarrow> model_stream_frame list \<Rightarrow>
     pool_error + model_frame_write_receipt \<times> model_request_pool" where
  "push_frames sha256 pool exchange_id fs =
     rbind (validate_frame_batch pool fs) (\<lambda>_.
     rbind (partition_for pool exchange_id) (\<lambda>(route, p).
     rbind (ok_or (map_of (rp_records p) exchange_id) pool_corrupt) (\<lambda>r.
     rbind (write_frames sha256 (mp_config pool) r False False fs) (\<lambda>written.
     case written of
       None \<Rightarrow>
         let r = r\<lparr>er_provider_read_paused := True\<rparr>
         in Inr (frame_receipt r Backpressured None, put_partition pool route (put_record p exchange_id r))
     | Some (candidate, accepted, accepted_terminal) \<Rightarrow>
         if \<not> accepted then Inr (frame_receipt r WriteDuplicate None, pool)
         else
           let candidate = candidate\<lparr>er_provider_read_paused := \<not> accepted_terminal
                 \<and> (length (er_frames candidate) \<ge> max_buffered_frames_per_stream (mp_config pool)
                    \<or> er_buffered_bytes candidate \<ge> max_buffered_bytes_per_stream (mp_config pool))\<rparr>;
               p = put_record p exchange_id candidate;
               (granted, p) = (if accepted_terminal then grant_next p else (None, p))
           in rbind (ok_or (map_of (rp_records p) exchange_id) pool_corrupt) (\<lambda>r.
              Inr (frame_receipt r WriteAccepted granted, put_partition pool route p))))))"

definition acknowledge ::
    "model_request_pool \<Rightarrow> string \<Rightarrow> u64 \<Rightarrow> pool_error + model_frame_ack_receipt \<times> model_request_pool" where
  "acknowledge pool exchange_id sequence =
     rbind (ensure (\<not> sequence > max_safe_integer) (invalid_input ''model acknowledgement sequence is invalid'')) (\<lambda>_.
     rbind (partition_for pool exchange_id) (\<lambda>(route, p).
     rbind (ok_or (map_of (rp_records p) exchange_id) pool_corrupt) (\<lambda>r.
     if sequence > highest_sequence r
     then Inl (mk_pool_error SequenceGap ''model acknowledgement exceeds the accepted stream'')
     else if sequence \<le> er_acknowledged_sequence r then Inr (ack_receipt r True, pool)
     else
       let frames = filter (\<lambda>e. fst e > sequence) (er_frames r);
           bytes = sum_list (map (\<lambda>f. length (mf_payload f)) (bt_values frames));
           r = r\<lparr>er_frames := frames, er_buffered_bytes := bytes, er_acknowledged_sequence := sequence\<rparr>;
           r = (if er_provider_read_paused r
                   \<and> length (er_frames r) \<le> resume_buffered_frames_per_stream (mp_config pool)
                   \<and> er_buffered_bytes r \<le> resume_buffered_bytes_per_stream (mp_config pool)
                then r\<lparr>er_provider_read_paused := False\<rparr> else r)
       in Inr (ack_receipt r False, put_partition pool route (put_record p exchange_id r)))))"

section \<open>Ends\<close>

definition terminate ::
    "model_request_pool \<Rightarrow> string \<Rightarrow> model_request_terminal_outcome \<Rightarrow>
     pool_error + model_request_terminal_receipt \<times> model_request_pool" where
  "terminate pool exchange_id outcome =
     rbind (partition_for pool exchange_id) (\<lambda>(route, p).
     rbind (ok_or (map_of (rp_records p) exchange_id) pool_corrupt) (\<lambda>r.
     if terminal (er_state r)
     then if er_terminal_outcome r = Some outcome
       then Inr (\<lparr>tr_model_exchange_id = exchange_id, tr_outcome = outcome, tr_replayed = True,
                  tr_granted_exchange_id = None\<rparr>, pool)
       else Inl (mk_pool_error TerminalConflict ''model request already has another terminal outcome'')
     else if er_state r = Queued \<and> outcome \<noteq> OutcomeCancelled
     then Inl (mk_pool_error InvalidState ''queued model request may only be cancelled'')
     else
       let p = (if er_state r = Queued then p\<lparr>rp_waiting := filter (\<lambda>q. q \<noteq> exchange_id) (rp_waiting p)\<rparr> else p);
           ended = r\<lparr>er_state := outcome_state outcome, er_terminal_outcome := Some outcome,
                     er_provider_read_paused := False\<rparr>;
           ended = (if outcome = OutcomeCancelled then ended\<lparr>er_frames := [], er_buffered_bytes := 0\<rparr> else ended);
           p = put_record p exchange_id ended;
           (granted, p) = (if er_state r = Active then grant_next p else (None, p))
       in Inr (\<lparr>tr_model_exchange_id = exchange_id, tr_outcome = outcome, tr_replayed = False,
                tr_granted_exchange_id = granted\<rparr>, put_partition pool route p)))"

definition cancel ::
    "model_request_pool \<Rightarrow> string \<Rightarrow> pool_error + model_request_terminal_receipt \<times> model_request_pool" where
  "cancel pool exchange_id = terminate pool exchange_id OutcomeCancelled"

definition forget_terminal :: "model_request_pool \<Rightarrow> string \<Rightarrow> pool_error + model_request_pool" where
  "forget_terminal pool exchange_id =
     rbind (partition_for pool exchange_id) (\<lambda>(route, p).
     rbind (ok_or (map_of (rp_records p) exchange_id) pool_corrupt) (\<lambda>r.
     if \<not> terminal (er_state r) \<or> er_frames r \<noteq> []
     then Inl (mk_pool_error InvalidState
       ''model request can be forgotten only after terminal frames are acknowledged'')
     else
       let p = p\<lparr>rp_records := bt_remove exchange_id (rp_records p)\<rparr>;
           pool = pool\<lparr>mp_exchange_routes := (mp_exchange_routes pool)(exchange_id := None)\<rparr>
       in Inr (if rp_records p = [] then pool\<lparr>mp_routes := bt_remove route (mp_routes pool)\<rparr>
               else put_partition pool route p)))"

section \<open>Reads\<close>

fun take_buffered :: "nat \<Rightarrow> nat \<Rightarrow> nat \<Rightarrow> nat \<Rightarrow> model_stream_frame list \<Rightarrow> model_stream_frame list" where
  "take_buffered max_frames max_bytes count bytes [] = []"
| "take_buffered max_frames max_bytes count bytes (f # fs) =
     (if count \<ge> max_frames \<or> usize_saturating_add bytes (length (mf_payload f)) > max_bytes then []
      else f # take_buffered max_frames max_bytes (count + 1) (usize_saturating_add bytes (length (mf_payload f))) fs)"

definition read_buffered ::
    "model_request_pool \<Rightarrow> string \<Rightarrow> u64 \<Rightarrow> nat \<Rightarrow> nat \<Rightarrow> pool_error + model_stream_frame list" where
  "read_buffered pool exchange_id after_sequence max_frames max_bytes =
     rbind (ensure (\<not> (max_frames = 0 \<or> max_bytes = 0 \<or> after_sequence > max_safe_integer))
       (invalid_input ''model stream read limits are invalid'')) (\<lambda>_.
     rbind (pool_record pool exchange_id) (\<lambda>r.
     Inr (take_buffered max_frames max_bytes 0 0
       (bt_values (filter (\<lambda>e. fst e \<ge> saturating_add after_sequence 1) (er_frames r))))))"

record model_request_snapshot =
  ms_route :: model_request_route_key
  ms_model_exchange_id :: string
  ms_request_id :: string
  ms_state :: model_request_state
  ms_queue_position :: "nat option"
  ms_next_sequence :: u64
  ms_acknowledged_sequence :: u64
  ms_buffered_frames :: nat
  ms_buffered_bytes :: nat
  ms_read_control :: model_stream_read_control
  ms_terminal_outcome :: "model_request_terminal_outcome option"

definition reconnect :: "model_request_pool \<Rightarrow> string \<Rightarrow> pool_error + model_request_snapshot" where
  "reconnect pool exchange_id =
     rbind (partition_for pool exchange_id) (\<lambda>(route, p).
     rbind (ok_or (map_of (rp_records p) exchange_id) pool_corrupt) (\<lambda>r.
     Inr \<lparr>ms_route = route, ms_model_exchange_id = er_model_exchange_id r, ms_request_id = er_request_id r,
          ms_state = er_state r, ms_queue_position = queue_position p exchange_id,
          ms_next_sequence = er_next_sequence r, ms_acknowledged_sequence = er_acknowledged_sequence r,
          ms_buffered_frames = length (er_frames r), ms_buffered_bytes = er_buffered_bytes r,
          ms_read_control = read_control r, ms_terminal_outcome = er_terminal_outcome r\<rparr>))"

record model_route_pool_snapshot =
  mo_route :: model_request_route_key
  mo_active :: nat
  mo_waiting :: nat
  mo_retained_terminal :: nat
  mo_records :: nat

definition route_snapshot :: "model_request_pool \<Rightarrow> model_request_route_key \<Rightarrow> model_route_pool_snapshot option" where
  "route_snapshot pool route = map_option (\<lambda>p.
     \<lparr>mo_route = route, mo_active = active_count p, mo_waiting = length (rp_waiting p),
      mo_retained_terminal = terminal_count p, mo_records = length (rp_records p)\<rparr>) (map_of (mp_routes pool) route)"

definition pool_is_empty :: "model_request_pool \<Rightarrow> bool" where
  "pool_is_empty pool \<longleftrightarrow> mp_routes pool = [] \<and> dom (mp_exchange_routes pool) = {}"

definition is_route_ready :: "model_request_pool \<Rightarrow> model_request_route_key \<Rightarrow> bool" where
  "is_route_ready pool route =
     (case map_of (mp_routes pool) route of
        None \<Rightarrow> project_route_count pool route < max_routes (mp_config pool)
      | Some p \<Rightarrow> length (rp_records p) < max_exchange_records_per_route (mp_config pool)
          \<and> (active_count p < max_active_per_route (mp_config pool)
             \<or> length (rp_waiting p) < max_waiting_per_route (mp_config pool)))"

definition buffered_exchange_ids :: "model_request_pool \<Rightarrow> string list" where
  "buffered_exchange_ids pool =
     sort (map er_model_exchange_id (filter (\<lambda>r. er_frames r \<noteq> [])
       (concat (map (\<lambda>p. bt_values (rp_records p)) (bt_values (mp_routes pool))))))"

definition project_scope_for_exchange :: "model_request_pool \<Rightarrow> string \<Rightarrow> pool_error + project_scope" where
  "project_scope_for_exchange pool exchange_id =
     rbind (route_for pool exchange_id) (\<lambda>k. Inr (key_project_scope k))"

end
