(* ===== verification/Pool_Limits.thy ===== *)
theory Pool_Limits
  imports Model_Pool Machines
begin

text \<open>
  The limits of the model request pool hold in every state it can reach: of slots, of queues, of routes and of
  buffered frames and bytes; its indexes agree with each other; a slot is never idle while a request waits, and
  a paused stream can always be resumed by acknowledging what it has buffered.
\<close>

section \<open>Streams\<close>

definition frame_bytes :: "(u64, model_stream_frame) btree \<Rightarrow> nat" where
  "frame_bytes m = sum_list (map (\<lambda>f. length (mf_payload f)) (bt_values m))"

definition seq_range :: "u64 \<Rightarrow> u64 \<Rightarrow> u64 list" where
  "seq_range ack next = map word_of_nat [Suc (unat ack) ..< unat next]"

definition fingerprint :: "(string \<Rightarrow> string) \<Rightarrow> model_stream_frame \<Rightarrow> model_request_terminal_outcome \<Rightarrow> frame_fingerprint" where
  "fingerprint sha256 f outcome = \<lparr>fp_sequence = mf_sequence f, fp_digest = frame_digest sha256 f, fp_outcome = outcome\<rparr>"

text \<open>What a record of the pool satisfies: its frames are the unacknowledged ones, each once and in order.\<close>

definition stream_ok :: "(string \<Rightarrow> string) \<Rightarrow> model_request_pool_config \<Rightarrow> exchange_record \<Rightarrow> bool" where
  "stream_ok sha256 c r \<longleftrightarrow>
     bt_ok (er_frames r) \<and> (\<forall>e \<in> set (er_frames r). mf_sequence (snd e) = fst e \<and> validate_frame (snd e) = Inr ())
     \<and> (if er_state r = Cancelled then er_frames r = []
        else map fst (er_frames r) = seq_range (er_acknowledged_sequence r) (er_next_sequence r))
     \<and> er_acknowledged_sequence r < er_next_sequence r \<and> unat (er_next_sequence r) \<le> 9007199254740992
     \<and> length (er_frames r) \<le> max_buffered_frames_per_stream c
     \<and> er_buffered_bytes r = frame_bytes (er_frames r) \<and> er_buffered_bytes r \<le> max_buffered_bytes_per_stream c
     \<and> (case er_terminal_outcome r of None \<Rightarrow> \<not> terminal (er_state r) | Some outcome \<Rightarrow> er_state r = outcome_state outcome)
     \<and> (case er_terminal_frame r of None \<Rightarrow> True | Some t \<Rightarrow> terminal (er_state r) \<and> er_state r \<noteq> Cancelled)
     \<and> (\<forall>e \<in> set (er_frames r). \<forall>outcome. mf_terminal_outcome (snd e) = Some outcome \<longrightarrow>
          outcome \<noteq> OutcomeCancelled \<and> unat (er_next_sequence r) = Suc (unat (fst e))
          \<and> er_terminal_outcome r = Some outcome \<and> er_terminal_frame r = Some (fingerprint sha256 (snd e) outcome))
     \<and> (er_state r = Queued \<longrightarrow> er_next_sequence r = 1 \<and> er_acknowledged_sequence r = 0)"

lemma stream_outcome:
  assumes "stream_ok sha c r"
  shows "er_terminal_outcome r = Some outcome \<Longrightarrow> er_state r = outcome_state outcome"
    and "er_terminal_outcome r = None \<Longrightarrow> \<not> terminal (er_state r)"
proof -
  have "case er_terminal_outcome r of None \<Rightarrow> \<not> terminal (er_state r) | Some outcome \<Rightarrow> er_state r = outcome_state outcome"
    using assms unfolding stream_ok_def by blast
  then show "er_terminal_outcome r = Some outcome \<Longrightarrow> er_state r = outcome_state outcome"
    and "er_terminal_outcome r = None \<Longrightarrow> \<not> terminal (er_state r)" by simp_all
qed

definition pause_ok :: "exchange_record \<Rightarrow> bool" where
  "pause_ok r \<longleftrightarrow> (er_provider_read_paused r \<longrightarrow> er_state r = Active \<and> er_frames r \<noteq> [])"

text \<open>
  Limits that are machine sizes, those of the buffers below the largest one: no allocation reaches it, so that
  the saturating sums of the source are sums.
\<close>

definition config_fits :: "model_request_pool_config \<Rightarrow> bool" where
  "config_fits c \<longleftrightarrow> max_routes c \<le> usize_max \<and> max_buffered_frames_per_stream c < usize_max
     \<and> max_buffered_bytes_per_stream c < usize_max"

lemma usize_sum: "usize_saturating_add a b \<le> n \<Longrightarrow> n < usize_max \<Longrightarrow> usize_saturating_add a b = a + b"
  by (simp add: usize_saturating_add_def min_def split: if_splits)

lemma outcome_state_terminal [simp]: "terminal (outcome_state outcome)"
  by (cases outcome) simp_all

lemma outcome_state_inject [simp]: "outcome_state a = outcome_state b \<longleftrightarrow> a = b"
  by (cases a; cases b) simp_all

lemma outcome_state_simps [simp]: "outcome_state outcome \<noteq> Active" "outcome_state outcome \<noteq> Queued"
  "Active \<noteq> outcome_state outcome" "Queued \<noteq> outcome_state outcome"
  "outcome_state outcome = Cancelled \<longleftrightarrow> outcome = OutcomeCancelled"
  by (cases outcome; simp)+

lemma terminal_iff: "terminal s \<longleftrightarrow> s \<noteq> Queued \<and> s \<noteq> Active"
  by (cases s) simp_all

lemma seq_range_last: "ack < next \<Longrightarrow> unat n = Suc (unat next) \<Longrightarrow> seq_range ack n = seq_range ack next @ [next]"
  by (simp add: seq_range_def word_less_nat_alt)

lemma seq_range_mem: "s \<in> set (seq_range ack next) \<longleftrightarrow> ack < s \<and> s < next"
proof
  assume "ack < s \<and> s < next"
  then have "unat s \<in> {Suc (unat ack) ..< unat next}" by (simp add: word_less_nat_alt)
  then show "s \<in> set (seq_range ack next)" by (force simp: seq_range_def intro: image_eqI [of _ _ "unat s"])
next
  assume "s \<in> set (seq_range ack next)"
  then obtain i where i: "s = word_of_nat i" "unat ack < i" "i < unat next" by (auto simp: seq_range_def)
  moreover have "i < 2 ^ 64" using i(3) u64_bound [of "next"] by simp
  ultimately show "ack < s \<and> s < next" by (simp add: word_less_nat_alt unat_of_nat)
qed

lemma seq_range_filter:
  assumes "ack \<le> s" and "s < next"
  shows "filter (\<lambda>k. s < k) (seq_range ack next) = seq_range s next"
proof -
  have split: "[Suc (unat ack) ..< unat next] = [Suc (unat ack) ..< Suc (unat s)] @ [Suc (unat s) ..< unat next]"
    using assms by (intro upt_glue [symmetric]) (auto simp: word_order_unat)
  have small: "i < 2 ^ 64" if "i < unat next" for i using that u64_bound [of "next"] by simp
  have word: "unat (word_of_nat i :: u64) = i" if "i < unat next" for i
    using small [OF that] by (simp add: unat_of_nat)
  have le: "unat s < unat next" using assms(2) by (simp add: word_less_nat_alt)
  have "filter (\<lambda>k. s < k) (map word_of_nat [Suc (unat ack) ..< Suc (unat s)]) = []"
    using word le by (auto simp: filter_empty_conv word_less_nat_alt simp del: upt_Suc)
  moreover have "filter (\<lambda>k. s < k) (map word_of_nat [Suc (unat s) ..< unat next]) = map word_of_nat [Suc (unat s) ..< unat next]"
    using word by (auto simp: filter_id_conv word_less_nat_alt simp del: upt_Suc)
  ultimately show ?thesis unfolding seq_range_def split by (simp del: upt_Suc)
qed

lemma map_fst_filter: "map fst (filter (\<lambda>e. p (fst e)) m) = filter p (map fst m)"
  by (induction m) auto

lemma frame_bytes_simps [simp]: "frame_bytes [] = 0" "frame_bytes (m @ m') = frame_bytes m + frame_bytes m'"
  "frame_bytes (e # m) = length (mf_payload (snd e)) + frame_bytes m"
  by (simp_all add: frame_bytes_def bt_values_def)

lemma frame_bytes_filter: "frame_bytes (filter p m) \<le> frame_bytes m"
  by (induction m) auto

section \<open>Writing\<close>

lemma frames_below_next:
  assumes "stream_ok sha c r" and "er_state r = Active" and "e \<in> set (er_frames r)"
  shows "fst e < er_next_sequence r"
proof -
  have "fst e \<in> set (seq_range (er_acknowledged_sequence r) (er_next_sequence r))"
    using assms unfolding stream_ok_def by (metis image_eqI list.set_map model_request_state.distinct(13))
  then show ?thesis by (simp add: seq_range_mem)
qed

lemma open_stream:
  assumes ok: "stream_ok sha c r" and running: "\<not> terminal (er_state r)"
  shows "e \<in> set (er_frames r) \<Longrightarrow> mf_terminal_outcome (snd e) = None" and "er_terminal_frame r = None"
    and "er_terminal_outcome r = None"
proof -
  have "case er_terminal_outcome r of None \<Rightarrow> \<not> terminal (er_state r) | Some outcome \<Rightarrow> er_state r = outcome_state outcome"
    and frame: "case er_terminal_frame r of None \<Rightarrow> True | Some t \<Rightarrow> terminal (er_state r) \<and> er_state r \<noteq> Cancelled"
    using ok unfolding stream_ok_def by blast+
  then show none: "er_terminal_outcome r = None" using running by (cases "er_terminal_outcome r") auto
  show "er_terminal_frame r = None" using frame running by (cases "er_terminal_frame r") auto
  show "mf_terminal_outcome (snd e) = None" if "e \<in> set (er_frames r)"
  proof (rule ccontr)
    assume "mf_terminal_outcome (snd e) \<noteq> None"
    then obtain x where "mf_terminal_outcome (snd e) = Some x" by blast
    with ok that have "er_terminal_outcome r = Some x" unfolding stream_ok_def by blast
    with none show False by simp
  qed
qed

lemma accept_frame_ok:
  assumes ok: "stream_ok sha c r" and active: "er_state r = Active" and at: "mf_sequence f = er_next_sequence r"
    and valid: "validate_frame f = Inr ()" "mf_terminal_outcome f \<noteq> Some OutcomeCancelled"
    and n: "checked_add (er_next_sequence r) 1 = Some n" and fits: "config_fits c"
    and count: "usize_saturating_add (length (er_frames r)) 1 \<le> max_buffered_frames_per_stream c"
    and bytes: "usize_saturating_add (er_buffered_bytes r) (length (mf_payload f)) \<le> max_buffered_bytes_per_stream c"
  shows "stream_ok sha c (accept_frame sha r f n)"
proof -
  have sum: "usize_saturating_add (er_buffered_bytes r) (length (mf_payload f)) = er_buffered_bytes r + length (mf_payload f)"
    "length (er_frames r) + 1 \<le> max_buffered_frames_per_stream c"
    using usize_sum [OF bytes] usize_sum [OF count] count fits by (simp_all add: config_fits_def)
  have total: "er_buffered_bytes r + length (mf_payload f) \<le> max_buffered_bytes_per_stream c" using bytes sum(1) by simp
  have frames: "bt_insert (er_next_sequence r) f (er_frames r) = er_frames r @ [(er_next_sequence r, f)]"
    using frames_below_next [OF ok active] by (intro bt_insert_end)
  have "bt_ok (bt_insert (er_next_sequence r) f (er_frames r))" using ok by (simp add: stream_ok_def bt_ok_insert)
  then have bt: "bt_ok (er_frames r @ [(er_next_sequence r, f)])" by (simp only: frames)
  have succ: "unat n = Suc (unat (er_next_sequence r))" using n by (simp only: checked_succ_Some)
  have le: "unat (er_next_sequence r) \<le> 9007199254740991"
    using valid(1) by (auto simp: validate_frame_def ensure_Inr_iff at not_less max_safe_integer_def word_le_nat_alt)
  have range: "seq_range (er_acknowledged_sequence r) n = seq_range (er_acknowledged_sequence r) (er_next_sequence r) @ [er_next_sequence r]"
    using ok succ by (intro seq_range_last) (simp_all add: stream_ok_def)
  have above: "er_acknowledged_sequence r < n" using ok succ by (simp add: stream_ok_def word_less_nat_alt)
  have open_frames: "mf_terminal_outcome (snd e) = None" if "e \<in> set (er_frames r)" for e
    using open_stream(1) [OF ok] active that by simp
  show ?thesis
  proof (cases "mf_terminal_outcome f")
    case None
    then show ?thesis
      using ok active bt sum total range above le succ valid at open_frames
      by (simp add: accept_frame_def stream_ok_def frames split: option.splits)
  next
    case (Some outcome)
    then show ?thesis
      using ok active bt sum total range above le succ valid at open_frames
      by (simp add: accept_frame_def stream_ok_def frames fingerprint_def split: option.splits)
  qed
qed

lemma accept_frame_fields [simp]:
  "er_model_exchange_id (accept_frame sha r f n) = er_model_exchange_id r"
  "er_request_id (accept_frame sha r f n) = er_request_id r"
  "er_provider_read_paused (accept_frame sha r f n) = er_provider_read_paused r"
  "er_acknowledged_sequence (accept_frame sha r f n) = er_acknowledged_sequence r"
  "er_next_sequence (accept_frame sha r f n) = n"
  "er_frames (accept_frame sha r f n) = bt_insert (mf_sequence f) f (er_frames r)"
  "er_buffered_bytes (accept_frame sha r f n) = usize_saturating_add (er_buffered_bytes r) (length (mf_payload f))"
  "er_state (accept_frame sha r f n) = (case mf_terminal_outcome f of None \<Rightarrow> er_state r | Some outcome \<Rightarrow> outcome_state outcome)"
  by (simp_all add: accept_frame_def Let_def split: option.split)

lemma classify_None:
  "classify_frame_write sha r f d = Inr None \<Longrightarrow> er_state r = Active \<and> mf_sequence f = er_next_sequence r"
  by (auto simp: classify_frame_write_def rbind_Inr_iff split: if_splits)

text \<open>
  The loop: either every frame is there already and nothing changes, or the record was active and took at least
  one frame, and is closed if and only if one of them was terminal.
\<close>

lemma write_frames_spec:
  assumes "write_frames sha c r a t fs = Inr (Some (r', a', t'))" and "stream_ok sha c r" and "config_fits c"
    and "\<And>f. f \<in> set fs \<Longrightarrow> validate_frame f = Inr () \<and> mf_terminal_outcome f \<noteq> Some OutcomeCancelled"
  shows "stream_ok sha c r' \<and> er_model_exchange_id r' = er_model_exchange_id r \<and> er_request_id r' = er_request_id r
    \<and> er_provider_read_paused r' = er_provider_read_paused r
    \<and> er_acknowledged_sequence r' = er_acknowledged_sequence r
    \<and> (r' = r \<and> a' = a \<and> t' = t
       \<or> a' \<and> er_state r = Active \<and> er_frames r' \<noteq> [] \<and> (er_state r' = Active \<and> t' = t \<or> terminal (er_state r') \<and> t'))"
  using assms
proof (induction fs arbitrary: r a t)
  case (Cons f fs)
  note hyps = Cons.prems
  from hyps(1) obtain status where status: "classify_frame_write sha r f (frame_digest sha f) = Inr status"
    by (auto simp: rbind_Inr_iff)
  show ?case
  proof (cases status)
    case (Some x)
    with hyps(1) status have "write_frames sha c r a t fs = Inr (Some (r', a', t'))" by simp
    from Cons.IH [OF this hyps(2,3)] hyps(4) show ?thesis by simp
  next
    case None
    from classify_None status None have act: "er_state r = Active" "mf_sequence f = er_next_sequence r" by simp_all
    from hyps(1) status None obtain n where
      room: "usize_saturating_add (length (er_frames r)) 1 \<le> max_buffered_frames_per_stream c"
        "usize_saturating_add (er_buffered_bytes r) (length (mf_payload f)) \<le> max_buffered_bytes_per_stream c"
      and n: "checked_add (er_next_sequence r) 1 = Some n"
      and rest: "write_frames sha c (accept_frame sha r f n) True (t \<or> mf_terminal_outcome f \<noteq> None) fs = Inr (Some (r', a', t'))"
      by (auto simp: rbind_Inr_iff ok_or_Inr_iff split: if_splits)
    have ok: "stream_ok sha c (accept_frame sha r f n)"
      using accept_frame_ok [OF hyps(2) act _ _ n hyps(3) room] hyps(4) by simp
    have ne: "er_frames (accept_frame sha r f n) \<noteq> []"
      by (simp, cases "er_frames r") (simp_all add: accept_frame_def)
    from Cons.IH [OF rest ok hyps(3)] hyps(4) act ne show ?thesis
      by (cases "mf_terminal_outcome f") (auto split: if_splits)
  qed
qed simp

section \<open>Partitions\<close>

definition record_ok :: "(string \<Rightarrow> string) \<Rightarrow> model_request_pool_config \<Rightarrow> exchange_record \<Rightarrow> bool" where
  "record_ok sha256 c r \<longleftrightarrow> stream_ok sha256 c r \<and> pause_ok r"

text \<open>The records, and that the queue holds exactly the queued ones.\<close>

definition queue_ok :: "(string \<Rightarrow> string) \<Rightarrow> model_request_pool_config \<Rightarrow> route_partition \<Rightarrow> bool" where
  "queue_ok sha256 c p \<longleftrightarrow>
     bt_ok (rp_records p)
     \<and> (\<forall>x r. map_of (rp_records p) x = Some r \<longrightarrow> er_model_exchange_id r = x \<and> record_ok sha256 c r)
     \<and> distinct (rp_waiting p)
     \<and> (\<forall>x. x \<in> set (rp_waiting p) \<longleftrightarrow> (\<exists>r. map_of (rp_records p) x = Some r \<and> er_state r = Queued))"

text \<open>The limits, and that no slot is idle while a request waits.\<close>

definition partition_ok :: "(string \<Rightarrow> string) \<Rightarrow> model_request_pool_config \<Rightarrow> route_partition \<Rightarrow> bool" where
  "partition_ok sha256 c p \<longleftrightarrow> queue_ok sha256 c p \<and> active_count p \<le> max_active_per_route c
     \<and> length (rp_waiting p) \<le> max_waiting_per_route c
     \<and> length (rp_records p) \<le> max_exchange_records_per_route c
     \<and> (rp_waiting p \<noteq> [] \<longrightarrow> active_count p = max_active_per_route c)"

lemma queue_okD:
  assumes "queue_ok sha c p" and "map_of (rp_records p) x = Some r"
  shows "er_model_exchange_id r = x" "record_ok sha c r" "x \<in> set (rp_waiting p) \<longleftrightarrow> er_state r = Queued"
  using assms by (auto simp: queue_ok_def)

lemma put_record_simps [simp]: "rp_records (put_record p x r) = bt_insert x r (rp_records p)"
  "rp_waiting (put_record p x r) = rp_waiting p"
  by (simp_all add: put_record_def)

lemma active_count_put:
  assumes "bt_ok (rp_records p)" and "map_of (rp_records p) x = Some r"
  shows "active_count (put_record p x r') + of_bool (er_state r = Active) = of_bool (er_state r' = Active) + active_count p"
  using bt_count_insert_old [OF assms, of "\<lambda>r. er_state r = Active" r'] by (simp add: active_count_def)

lemma put_record_queue:
  assumes "queue_ok sha c p" and "map_of (rp_records p) x = Some r" and "record_ok sha c r'"
    and "er_model_exchange_id r' = x" and "er_state r' = Queued \<longleftrightarrow> er_state r = Queued"
  shows "queue_ok sha c (put_record p x r')"
  using assms by (auto simp: queue_ok_def map_of_bt_insert bt_ok_insert split: if_splits)

lemma put_record_partition:
  assumes ok: "partition_ok sha c p" and old: "map_of (rp_records p) x = Some r" and new: "record_ok sha c r'"
    "er_model_exchange_id r' = x" and same: "er_state r' = Queued \<longleftrightarrow> er_state r = Queued"
    "er_state r' = Active \<longleftrightarrow> er_state r = Active"
  shows "partition_ok sha c (put_record p x r')"
proof -
  have bt: "bt_ok (rp_records p)" using ok by (simp add: partition_ok_def queue_ok_def)
  have "queue_ok sha c (put_record p x r')"
    using put_record_queue [OF _ old new same(1)] ok by (simp add: partition_ok_def)
  moreover have "active_count (put_record p x r') = active_count p"
    using active_count_put [OF bt old, of r'] same(2) by simp
  ultimately show ?thesis using ok length_bt_insert_old [OF bt old] by (simp add: partition_ok_def)
qed

text \<open>A freed slot goes to the head of the queue.\<close>

lemma grant_next_Nil: "rp_waiting p = [] \<Longrightarrow> grant_next p = (None, p)"
  by (simp add: grant_next_def)

lemma grant_next_Cons:
  assumes "queue_ok sha c p" and "rp_waiting p = x # xs"
  obtains r where "map_of (rp_records p) x = Some r" "er_state r = Queued"
    "grant_next p = (Some x, (put_record p x (r\<lparr>er_state := Active\<rparr>))\<lparr>rp_waiting := xs\<rparr>)"
proof -
  have "x \<in> set (rp_waiting p)" using assms(2) by simp
  then obtain r where r: "map_of (rp_records p) x = Some r" "er_state r = Queued"
    using assms(1) by (auto simp: queue_ok_def)
  have "er_model_exchange_id r = x" using queue_okD(1) [OF assms(1) r(1)] .
  then show thesis using r assms(2) by (intro that [OF r]) (simp add: grant_next_def put_record_def)
qed

lemma activated_ok: "record_ok sha c r \<Longrightarrow> er_state r = Queued \<Longrightarrow> record_ok sha c (r\<lparr>er_state := Active\<rparr>)"
  by (auto simp: record_ok_def stream_ok_def pause_ok_def frame_bytes_def split: option.splits)

lemma grant_next_ok:
  assumes ok: "queue_ok sha c p" and counts: "length (rp_waiting p) \<le> max_waiting_per_route c"
    "length (rp_records p) \<le> max_exchange_records_per_route c" "active_count p < max_active_per_route c"
    "rp_waiting p \<noteq> [] \<Longrightarrow> active_count p + 1 = max_active_per_route c"
  shows "partition_ok sha c (snd (grant_next p))
    \<and> dom (map_of (rp_records (snd (grant_next p)))) = dom (map_of (rp_records p))
    \<and> fst (grant_next p) = (case rp_waiting p of [] \<Rightarrow> None | x # _ \<Rightarrow> Some x)
    \<and> rp_waiting (snd (grant_next p)) = tl (rp_waiting p)"
proof (cases "rp_waiting p")
  case Nil
  with ok counts show ?thesis
    by (simp add: grant_next_Nil partition_ok_def)
next
  case (Cons x xs)
  obtain r where r: "map_of (rp_records p) x = Some r" "er_state r = Queued"
    and g: "grant_next p = (Some x, (put_record p x (r\<lparr>er_state := Active\<rparr>))\<lparr>rp_waiting := xs\<rparr>)"
    using grant_next_Cons [OF ok Cons] by blast
  let ?q = "(put_record p x (r\<lparr>er_state := Active\<rparr>))\<lparr>rp_waiting := xs\<rparr>"
  have bt: "bt_ok (rp_records p)" using ok by (simp add: queue_ok_def)
  have "distinct (x # xs)" using ok Cons by (simp add: queue_ok_def)
  then have "queue_ok sha c ?q"
    using ok Cons r queue_okD(1,2) [OF ok r(1)] activated_ok
    unfolding queue_ok_def by (auto simp: map_of_bt_insert bt_ok_insert set_eq_iff split: if_splits)
  moreover have "active_count ?q = max_active_per_route c"
    using active_count_put [OF bt r(1), of "r\<lparr>er_state := Active\<rparr>"] r(2) counts(4) Cons
    by (simp add: active_count_def)
  ultimately have "partition_ok sha c ?q"
    using counts Cons length_bt_insert_old [OF bt r(1)] by (simp add: partition_ok_def)
  then show ?thesis
    using r(1) by (auto simp: g Cons map_of_bt_insert)
qed

text \<open>An active request that ends: its slot is freed and granted.\<close>

lemma end_active_ok:
  assumes ok: "partition_ok sha c p" and old: "map_of (rp_records p) x = Some r" "er_state r = Active"
    and new: "record_ok sha c r'" "er_model_exchange_id r' = x" "terminal (er_state r')"
  defines "q \<equiv> grant_next (put_record p x r')"
  shows "partition_ok sha c (snd q)" and "dom (map_of (rp_records (snd q))) = dom (map_of (rp_records p))"
    and "fst q = (case rp_waiting p of [] \<Rightarrow> None | y # _ \<Rightarrow> Some y)" and "rp_waiting (snd q) = tl (rp_waiting p)"
proof -
  have bt: "bt_ok (rp_records p)" and qok: "queue_ok sha c p" using ok by (simp_all add: partition_ok_def queue_ok_def)
  have queue: "queue_ok sha c (put_record p x r')"
    using put_record_queue [OF qok old(1) new(1,2)] old(2) new(3) by (auto simp: terminal_iff)
  have "active_count (put_record p x r') + 1 = active_count p"
    using active_count_put [OF bt old(1), of r'] old(2) new(3) by (simp add: terminal_iff)
  then have counts: "active_count (put_record p x r') < max_active_per_route c"
    "rp_waiting (put_record p x r') \<noteq> [] \<Longrightarrow> active_count (put_record p x r') + 1 = max_active_per_route c"
    using ok by (auto simp: partition_ok_def)
  have sizes: "length (rp_waiting (put_record p x r')) \<le> max_waiting_per_route c"
    "length (rp_records (put_record p x r')) \<le> max_exchange_records_per_route c"
    using ok length_bt_insert_old [OF bt old(1)] by (simp_all add: partition_ok_def)
  note g = grant_next_ok [OF queue sizes counts]
  then show "partition_ok sha c (snd q)" by (simp add: q_def)
  from g show "dom (map_of (rp_records (snd q))) = dom (map_of (rp_records p))"
    using old(1) by (auto simp: q_def map_of_bt_insert)
  from g show "fst q = (case rp_waiting p of [] \<Rightarrow> None | y # _ \<Rightarrow> Some y)" "rp_waiting (snd q) = tl (rp_waiting p)"
    by (simp_all add: q_def)
qed

section \<open>The pool\<close>

definition pool_ok :: "(string \<Rightarrow> string) \<Rightarrow> model_request_pool \<Rightarrow> bool" where
  "pool_ok sha256 pool \<longleftrightarrow>
     config_validate (mp_config pool) = Inr (mp_config pool) \<and> config_fits (mp_config pool) \<and> bt_ok (mp_routes pool)
     \<and> (\<forall>route p. map_of (mp_routes pool) route = Some p \<longrightarrow> partition_ok sha256 (mp_config pool) p)
     \<and> (\<forall>x route. mp_exchange_routes pool x = Some route
          \<longleftrightarrow> (\<exists>p. map_of (mp_routes pool) route = Some p \<and> x \<in> dom (map_of (rp_records p))))
     \<and> (\<forall>route. project_route_count pool route \<le> max_routes (mp_config pool))
     \<and> (\<forall>route \<in> dom (map_of (mp_routes pool)). validate_route_key route = Inr ())"

lemma pool_okD:
  assumes "pool_ok sha pool"
  shows "bt_ok (mp_routes pool)" "config_fits (mp_config pool)"
    and "map_of (mp_routes pool) route = Some p \<Longrightarrow> partition_ok sha (mp_config pool) p"
  using assms by (auto simp: pool_ok_def)

lemma config_positive: "pool_ok sha pool \<Longrightarrow> 0 < max_active_per_route (mp_config pool)
    \<and> max_active_per_route (mp_config pool) + max_waiting_per_route (mp_config pool) \<le> max_exchange_records_per_route (mp_config pool)
    \<and> 0 < max_buffered_frames_per_stream (mp_config pool)"
  by (auto simp: pool_ok_def config_validate_def rbind_Inr_iff ok_or_Inr_iff ensure_Inr_iff usize_checked_add_def split: if_splits)

lemma put_partition_simps [simp]: "mp_config (put_partition pool route p) = mp_config pool"
  "mp_exchange_routes (put_partition pool route p) = mp_exchange_routes pool"
  "mp_routes (put_partition pool route p) = bt_insert route p (mp_routes pool)"
  by (simp_all add: put_partition_def)

lemma put_partition_ok:
  assumes ok: "pool_ok sha pool" and old: "map_of (mp_routes pool) route = Some p"
    and new: "partition_ok sha (mp_config pool) p'" and keys: "dom (map_of (rp_records p')) = dom (map_of (rp_records p))"
  shows "pool_ok sha (put_partition pool route p')"
proof -
  have bt: "bt_ok (mp_routes pool)" using ok by (rule pool_okD)
  have "project_route_count (put_partition pool route p') k = project_route_count pool k" for k
    using map_fst_bt_insert_old [OF bt old] by (simp add: project_route_count_def)
  then show ?thesis
    using ok old new keys bt unfolding pool_ok_def
    by (auto simp: map_of_bt_insert bt_ok_insert split: if_splits)
qed

lemma put_partition_same: "pool_ok sha pool \<Longrightarrow> map_of (mp_routes pool) route = Some p \<Longrightarrow> put_partition pool route p = pool"
  by (simp add: put_partition_def pool_okD bt_insert_same)

lemma partition_forD:
  assumes "partition_for pool x = Inr (route, p)"
  shows "mp_exchange_routes pool x = Some route" "map_of (mp_routes pool) route = Some p"
  using assms by (auto simp: partition_for_def route_for_def rbind_Inr_iff ok_or_Inr_iff)

text \<open>The indexes agree: what is registered is found.\<close>

lemma registered_found:
  assumes "pool_ok sha pool" and "mp_exchange_routes pool x = Some route"
  obtains p r where "map_of (mp_routes pool) route = Some p" "map_of (rp_records p) x = Some r"
  using assms unfolding pool_ok_def by blast

lemma partition_for_found:
  assumes "pool_ok sha pool" and "partition_for pool x = Inr (route, p)"
  obtains r where "map_of (rp_records p) x = Some r"
  using registered_found [OF assms(1) partition_forD(1) [OF assms(2)]] partition_forD(2) [OF assms(2)] by auto

section \<open>Operations\<close>

lemma enlist_ok:
  assumes ok: "pool_ok sha pool" and fresh: "mp_exchange_routes pool (ma_model_exchange_id a) = None"
    and p: "p = (case map_of (mp_routes pool) (ma_route a) of None \<Rightarrow> empty_partition | Some p \<Rightarrow> p)"
    and room: "map_of (mp_routes pool) (ma_route a) = None \<Longrightarrow> project_route_count pool (ma_route a) < max_routes (mp_config pool)"
    and key: "validate_route_key (ma_route a) = Inr ()"
    and new: "partition_ok sha (mp_config pool) (put_record (p\<lparr>rp_waiting := w\<rparr>) (ma_model_exchange_id a) (new_exchange_record a st))"
  shows "pool_ok sha (enlist (put_partition pool (ma_route a) p) a (p\<lparr>rp_waiting := w\<rparr>) st)"
proof -
  let ?x = "ma_model_exchange_id a" and ?k = "ma_route a"
  let ?q = "put_record (p\<lparr>rp_waiting := w\<rparr>) ?x (new_exchange_record a st)"
  have bt: "bt_ok (mp_routes pool)" using ok by (rule pool_okD)
  have routes: "mp_routes (enlist (put_partition pool ?k p) a (p\<lparr>rp_waiting := w\<rparr>) st) = bt_insert ?k ?q (mp_routes pool)"
    by (rule bt_ext) (simp_all add: enlist_def bt bt_ok_insert map_of_bt_insert)
  have count: "project_route_count (enlist (put_partition pool ?k p) a (p\<lparr>rp_waiting := w\<rparr>) st) k \<le> max_routes (mp_config pool)" for k
  proof (cases "map_of (mp_routes pool) ?k")
    case None
    have "project_route_count pool k = project_route_count pool ?k" if "same_project ?k k"
      using that by (simp add: project_route_count_def same_project_def)
    moreover have "project_route_count pool k \<le> max_routes (mp_config pool)" using ok by (simp add: pool_ok_def)
    moreover have "project_route_count (enlist (put_partition pool ?k p) a (p\<lparr>rp_waiting := w\<rparr>) st) k
        = of_bool (same_project ?k k) + project_route_count pool k"
      by (simp only: project_route_count_def routes keys_count_fresh [OF None])
    ultimately show ?thesis using room [OF None] by (cases "same_project ?k k") simp_all
  next
    case (Some old)
    then show ?thesis
      using ok map_fst_bt_insert_old [OF bt Some] by (simp add: pool_ok_def project_route_count_def routes)
  qed
  have dom: "dom (map_of (rp_records ?q)) = insert ?x (dom (map_of (rp_records p)))"
    by (simp add: map_of_bt_insert)
  have none: "?x \<notin> dom (map_of (rp_records p'))" if "map_of (mp_routes pool) route = Some p'" for route p'
    using ok fresh that unfolding pool_ok_def by (metis option.distinct(1))
  have index: "mp_exchange_routes (enlist (put_partition pool ?k p) a (p\<lparr>rp_waiting := w\<rparr>) st) x = Some route
      \<longleftrightarrow> (\<exists>p'. map_of (bt_insert ?k ?q (mp_routes pool)) route = Some p' \<and> x \<in> dom (map_of (rp_records p')))" for x route
  proof (cases "x = ?x")
    case True
    with none dom show ?thesis by (auto simp: enlist_def map_of_bt_insert)
  next
    case False
    have old: "mp_exchange_routes pool x = Some route \<longleftrightarrow> (\<exists>p. map_of (mp_routes pool) route = Some p \<and> x \<in> dom (map_of (rp_records p)))"
      using ok by (simp add: pool_ok_def)
    show ?thesis
    proof (cases "route = ?k")
      case True
      with False old dom p show ?thesis
        by (auto simp: enlist_def map_of_bt_insert empty_partition_def split: option.splits)
    next
      case False
      with \<open>x \<noteq> ?x\<close> old show ?thesis by (auto simp: enlist_def map_of_bt_insert)
    qed
  qed
  have config: "mp_config (enlist (put_partition pool ?k p) a (p\<lparr>rp_waiting := w\<rparr>) st) = mp_config pool" by (simp add: enlist_def)
  show ?thesis
    using ok bt new count index key unfolding pool_ok_def routes config
    by (auto simp: bt_ok_insert map_of_bt_insert split: if_splits)
qed

lemma new_record_ok: "st \<in> {Active, Queued} \<Longrightarrow> record_ok sha c (new_exchange_record a st)"
  by (auto simp: record_ok_def stream_ok_def pause_ok_def new_exchange_record_def seq_range_def)

text \<open>A new request takes a free slot, or the end of the queue when there is none.\<close>

lemma new_request_ok:
  assumes ok: "partition_ok sha c p" and fresh: "map_of (rp_records p) (ma_model_exchange_id a) = None"
    and size: "length (rp_records p) < max_exchange_records_per_route c"
  shows "active_count p < max_active_per_route c \<Longrightarrow>
      partition_ok sha c (put_record p (ma_model_exchange_id a) (new_exchange_record a Active))"
    and "\<not> active_count p < max_active_per_route c \<Longrightarrow> length (rp_waiting p) < max_waiting_per_route c \<Longrightarrow>
      partition_ok sha c (put_record (p\<lparr>rp_waiting := rp_waiting p @ [ma_model_exchange_id a]\<rparr>)
        (ma_model_exchange_id a) (new_exchange_record a Queued))"
proof -
  let ?x = "ma_model_exchange_id a"
  have q: "queue_ok sha c p" using ok by (simp add: partition_ok_def)
  have id: "er_model_exchange_id (new_exchange_record a st) = ?x" "er_state (new_exchange_record a st) = st" for st
    by (simp_all add: new_exchange_record_def)
  have out: "?x \<notin> set (rp_waiting p)" using q fresh by (simp add: queue_ok_def)
  have count: "active_count (put_record (p\<lparr>rp_waiting := w\<rparr>) ?x (new_exchange_record a st)) = of_bool (st = Active) + active_count p" for st w
    using bt_count_insert_fresh [OF fresh, of "\<lambda>r. er_state r = Active"] by (simp add: active_count_def id)
  have count': "active_count (put_record p ?x (new_exchange_record a Active)) = Suc (active_count p)"
    using bt_count_insert_fresh [OF fresh, of "\<lambda>r. er_state r = Active"] by (simp add: active_count_def id)
  have len: "length (bt_insert ?x r (rp_records p)) = Suc (length (rp_records p))" for r
    using fresh by (rule length_bt_insert_fresh)
  show "partition_ok sha c (put_record p ?x (new_exchange_record a Active))" if "active_count p < max_active_per_route c"
  proof -
    have "queue_ok sha c (put_record p ?x (new_exchange_record a Active))"
      using q out new_record_ok [of Active sha c a] fresh unfolding queue_ok_def
      by (auto simp: map_of_bt_insert bt_ok_insert id split: if_splits)
    moreover have "rp_waiting p = []" using ok that by (auto simp: partition_ok_def)
    ultimately show ?thesis
      using that ok size count' by (simp add: partition_ok_def len)
  qed
  show "partition_ok sha c (put_record (p\<lparr>rp_waiting := rp_waiting p @ [?x]\<rparr>) ?x (new_exchange_record a Queued))"
    if "\<not> active_count p < max_active_per_route c" "length (rp_waiting p) < max_waiting_per_route c"
  proof -
    have "queue_ok sha c (put_record (p\<lparr>rp_waiting := rp_waiting p @ [?x]\<rparr>) ?x (new_exchange_record a Queued))"
      using q out new_record_ok [of Queued sha c a] fresh unfolding queue_ok_def
      by (auto simp: map_of_bt_insert bt_ok_insert id split: if_splits)
    then show ?thesis
      using that ok size count [where st = Queued] by (simp add: partition_ok_def len)
  qed
qed

lemma empty_partition_ok: "partition_ok sha c empty_partition"
  by (simp add: partition_ok_def queue_ok_def empty_partition_def active_count_def)

lemma submit_ok:
  assumes ok: "pool_ok sha pool"
  shows "pool_ok sha (snd (submit pool a))"
proof (cases "validate_admission a = Inr () \<and> mp_exchange_routes pool (ma_model_exchange_id a) = None
    \<and> \<not> (map_of (mp_routes pool) (ma_route a) = None
         \<and> project_route_count pool (ma_route a) \<ge> max_routes (mp_config pool))")
  case False
  then show ?thesis
    using ok by (auto simp: submit_def split: sum.splits option.splits)
next
  case True
  define p where "p = (case map_of (mp_routes pool) (ma_route a) of None \<Rightarrow> empty_partition | Some p \<Rightarrow> p)"
  have fresh: "mp_exchange_routes pool (ma_model_exchange_id a) = None" using True by simp
  have pok: "partition_ok sha (mp_config pool) p"
    using ok empty_partition_ok by (auto simp: p_def pool_okD(3) split: option.split)
  have none: "map_of (rp_records p) (ma_model_exchange_id a) = None"
  proof (cases "map_of (mp_routes pool) (ma_route a)")
    case (Some q)
    with ok fresh have "ma_model_exchange_id a \<notin> dom (map_of (rp_records q))"
      unfolding pool_ok_def by (metis option.distinct(1))
    with Some show ?thesis by (auto simp: p_def)
  qed (simp add: p_def empty_partition_def)
  have room: "project_route_count pool (ma_route a) < max_routes (mp_config pool)" if "map_of (mp_routes pool) (ma_route a) = None"
    using True that by simp
  have refused: "pool_ok sha (put_partition pool (ma_route a) p)"
    if "length (rp_records p) \<ge> max_exchange_records_per_route (mp_config pool) \<or> \<not> active_count p < max_active_per_route (mp_config pool)"
  proof (cases "map_of (mp_routes pool) (ma_route a)")
    case None
    with that config_positive [OF ok] show ?thesis
      by (simp add: p_def empty_partition_def active_count_def)
  next
    case (Some q)
    with put_partition_same [OF ok Some] ok show ?thesis by (simp add: p_def)
  qed
  have "validate_route_key (ma_route a) = Inr ()" using True by (simp add: validate_admission_def check_all_Inr_iff)
  note enlisted = enlist_ok [OF ok fresh p_def room this]
  have started: "pool_ok sha (enlist (put_partition pool (ma_route a) p) a p Active)"
    if "length (rp_records p) < max_exchange_records_per_route (mp_config pool)" "active_count p < max_active_per_route (mp_config pool)"
    using enlisted [where w = "rp_waiting p" and st = Active] new_request_ok(1) [OF pok none that(1,2)] by simp
  have queued: "pool_ok sha (enlist (put_partition pool (ma_route a) p) a (p\<lparr>rp_waiting := rp_waiting p @ [ma_model_exchange_id a]\<rparr>) Queued)"
    if "length (rp_records p) < max_exchange_records_per_route (mp_config pool)" "\<not> active_count p < max_active_per_route (mp_config pool)"
      "length (rp_waiting p) < max_waiting_per_route (mp_config pool)"
    using enlisted [where w = "rp_waiting p @ [ma_model_exchange_id a]" and st = Queued] new_request_ok(2) [OF pok none that] by simp
  have "submit pool a = admit_new (put_partition pool (ma_route a) p) a p"
  proof -
    have valid: "validate_admission a = Inr ()"
      and gate: "(map_of (mp_routes pool) (ma_route a) = None
        \<and> project_route_count pool (ma_route a) \<ge> max_routes (mp_config pool)) = False" using True by auto
    show ?thesis unfolding submit_def valid fresh gate by (simp add: p_def Let_def)
  qed
  with refused started queued show ?thesis by (simp add: admit_new_def)
qed

text \<open>
  A full buffer: the stream is active, and since a batch by itself fits, some frames are buffered already.
\<close>

lemma write_frames_full_active: "write_frames sha c r a t fs = Inr None \<Longrightarrow> er_state r = Active"
proof (induction fs arbitrary: r a t)
  case (Cons f fs)
  then obtain status where st: "classify_frame_write sha r f (frame_digest sha f) = Inr status" by (auto simp: rbind_Inr_iff)
  show ?case
  proof (cases status)
    case None
    with st classify_None show ?thesis by blast
  next
    case (Some x)
    with Cons.prems st have "write_frames sha c r a t fs = Inr None" by simp
    then show ?thesis by (rule Cons.IH)
  qed
qed simp

lemma write_frames_fits:
  assumes "stream_ok sha c r" and "config_fits c"
    and "\<And>f. f \<in> set fs \<Longrightarrow> validate_frame f = Inr () \<and> mf_terminal_outcome f \<noteq> Some OutcomeCancelled"
    and "length (er_frames r) + length fs \<le> max_buffered_frames_per_stream c"
    and "er_buffered_bytes r + sum_list (map (\<lambda>f. length (mf_payload f)) fs) \<le> max_buffered_bytes_per_stream c"
  shows "write_frames sha c r a t fs \<noteq> Inr None"
  using assms
proof (induction fs arbitrary: r a t)
  case (Cons f fs)
  show ?case
  proof
    assume full: "write_frames sha c r a t (f # fs) = Inr None"
    then obtain status where st: "classify_frame_write sha r f (frame_digest sha f) = Inr status" by (auto simp: rbind_Inr_iff)
    show False
    proof (cases status)
      case (Some x)
      with full st have "write_frames sha c r a t fs = Inr None" by simp
      with Cons.IH [OF Cons.prems(1,2)] Cons.prems show False by simp
    next
      case None
      from classify_None st None have act: "er_state r = Active" "mf_sequence f = er_next_sequence r" by simp_all
      have room: "usize_saturating_add (length (er_frames r)) 1 \<le> max_buffered_frames_per_stream c"
        "usize_saturating_add (er_buffered_bytes r) (length (mf_payload f)) \<le> max_buffered_bytes_per_stream c"
        using Cons.prems(4,5) by (simp_all add: usize_saturating_add_def min_def)
      from full st None room obtain n where n: "checked_add (er_next_sequence r) 1 = Some n"
        and rest: "write_frames sha c (accept_frame sha r f n) True (t \<or> mf_terminal_outcome f \<noteq> None) fs = Inr None"
        by (auto simp: rbind_Inr_iff ok_or_Inr_iff split: if_splits)
      have ok: "stream_ok sha c (accept_frame sha r f n)"
        using accept_frame_ok [OF Cons.prems(1) act _ _ n Cons.prems(2) room] Cons.prems(3) by simp
      have "length (er_frames (accept_frame sha r f n)) \<le> Suc (length (er_frames r))"
        using frames_below_next [OF Cons.prems(1) act(1)] by (simp add: bt_insert_end act(2))
      moreover have "er_buffered_bytes (accept_frame sha r f n) \<le> er_buffered_bytes r + length (mf_payload f)"
        by (simp add: usize_saturating_add_def)
      ultimately show False using Cons.IH [OF ok Cons.prems(2)] rest Cons.prems(3-5) by fastforce
    qed
  qed
qed simp

lemma batch_bytes_sum: "batch_bytes n fs = Some m \<Longrightarrow> m = n + sum_list (map (\<lambda>f. length (mf_payload f)) fs)"
proof (induction fs arbitrary: n)
  case (Cons f fs)
  then have "batch_bytes (n + length (mf_payload f)) fs = Some m"
    by (auto simp: usize_checked_add_def split: if_splits)
  from Cons.IH [OF this] show ?case by simp
qed simp

lemma validate_frames_fromD:
  "validate_frames_from fs = Inr () \<Longrightarrow> f \<in> set fs \<Longrightarrow> validate_frame f = Inr () \<and> mf_terminal_outcome f \<noteq> Some OutcomeCancelled"
  by (induction fs) (auto simp: rbind_Inr_iff ensure_Inr_iff)

lemma validate_frame_batchD:
  assumes "validate_frame_batch pool fs = Inr ()"
  shows "\<And>f. f \<in> set fs \<Longrightarrow> validate_frame f = Inr () \<and> mf_terminal_outcome f \<noteq> Some OutcomeCancelled"
    and "length fs \<le> max_buffered_frames_per_stream (mp_config pool)"
    and "sum_list (map (\<lambda>f. length (mf_payload f)) fs) \<le> max_buffered_bytes_per_stream (mp_config pool)"
  using assms
  by (auto simp: validate_frame_batch_def validate_frame_batch_shape_def rbind_Inr_iff ok_or_Inr_iff ensure_Inr_iff not_less
      dest!: batch_bytes_sum dest: validate_frames_fromD)

lemma push_cases:
  assumes "push_frames sha pool x fs = Inr (receipt, pool')"
  obtains route p r where "partition_for pool x = Inr (route, p)" "map_of (rp_records p) x = Some r"
      "validate_frame_batch pool fs = Inr ()" "write_frames sha (mp_config pool) r False False fs = Inr None"
      "receipt = frame_receipt (r\<lparr>er_provider_read_paused := True\<rparr>) Backpressured None"
      "pool' = put_partition pool route (put_record p x (r\<lparr>er_provider_read_paused := True\<rparr>))"
  | route p r r' t where "partition_for pool x = Inr (route, p)" "map_of (rp_records p) x = Some r"
      "validate_frame_batch pool fs = Inr ()" "write_frames sha (mp_config pool) r False False fs = Inr (Some (r', False, t))"
      "receipt = frame_receipt r WriteDuplicate None" "pool' = pool"
  | route p r r' t granted q where "partition_for pool x = Inr (route, p)" "map_of (rp_records p) x = Some r"
      "validate_frame_batch pool fs = Inr ()" "write_frames sha (mp_config pool) r False False fs = Inr (Some (r', True, t))"
      "(granted, q) = (let s = put_record p x (r'\<lparr>er_provider_read_paused := \<not> t
                 \<and> (length (er_frames r') \<ge> max_buffered_frames_per_stream (mp_config pool)
                    \<or> er_buffered_bytes r' \<ge> max_buffered_bytes_per_stream (mp_config pool))\<rparr>)
            in if t then grant_next s else (None, s))"
      "pool' = put_partition pool route q" "wr_status receipt = WriteAccepted" "wr_granted_exchange_id receipt = granted"
proof -
  from assms obtain route p r written where h: "partition_for pool x = Inr (route, p)" "map_of (rp_records p) x = Some r"
    "validate_frame_batch pool fs = Inr ()" "write_frames sha (mp_config pool) r False False fs = Inr written"
    by (auto simp: push_frames_def rbind_Inr_iff ok_or_Inr_iff)
  show thesis
  proof (cases written)
    case None
    with assms h show thesis by (intro that(1) [of route p r]) (auto simp: push_frames_def Let_def)
  next
    case (Some w)
    obtain r' a t where w: "w = (r', a, t)" by (cases w)
    show thesis
    proof (cases a)
      case False
      with assms h Some w show thesis by (intro that(2) [of route p r r' t]) (auto simp: push_frames_def)
    next
      case True
      define s where "s = put_record p x (r'\<lparr>er_provider_read_paused := \<not> t
                 \<and> (length (er_frames r') \<ge> max_buffered_frames_per_stream (mp_config pool)
                    \<or> er_buffered_bytes r' \<ge> max_buffered_bytes_per_stream (mp_config pool))\<rparr>)"
      obtain granted q where g: "(if t then grant_next s else (None, s)) = (granted, q)" by fastforce
      from assms h Some w True g [unfolded s_def] obtain r2
        where "receipt = frame_receipt r2 WriteAccepted granted" "pool' = put_partition pool route q"
        by (auto simp: push_frames_def Let_def rbind_Inr_iff split: prod.splits)
      with h Some w True g show thesis
        by (intro that(3) [of route p r r' t granted q]) (auto simp: Let_def s_def frame_receipt_def)
    qed
  qed
qed

lemma pool_partition:
  assumes "pool_ok sha pool" and "partition_for pool x = Inr (route, p)" and "map_of (rp_records p) x = Some r"
  shows "partition_ok sha (mp_config pool) p" "queue_ok sha (mp_config pool) p" "er_model_exchange_id r = x"
    "stream_ok sha (mp_config pool) r" "pause_ok r" "config_fits (mp_config pool)" "map_of (mp_routes pool) route = Some p"
proof -
  show p: "map_of (mp_routes pool) route = Some p" by (rule partition_forD [OF assms(2)])
  show ok: "partition_ok sha (mp_config pool) p" using pool_okD(3) [OF assms(1) p] .
  then show q: "queue_ok sha (mp_config pool) p" by (simp add: partition_ok_def)
  show "er_model_exchange_id r = x" "stream_ok sha (mp_config pool) r" "pause_ok r" "config_fits (mp_config pool)"
    using queue_okD [OF q assms(3)] pool_okD(2) [OF assms(1)] by (simp_all add: record_ok_def)
qed

lemma paused_record_ok:
  "stream_ok sha c r \<Longrightarrow> (b \<Longrightarrow> er_state r = Active \<and> er_frames r \<noteq> []) \<Longrightarrow> record_ok sha c (r\<lparr>er_provider_read_paused := b\<rparr>)"
  by (simp add: record_ok_def stream_ok_def pause_ok_def cong del: option.case_cong_weak)

lemma full_buffer_nonempty:
  assumes "pool_ok sha pool" and "validate_frame_batch pool fs = Inr ()" and "stream_ok sha (mp_config pool) r"
    and "write_frames sha (mp_config pool) r False False fs = Inr None"
  shows "er_state r = Active \<and> er_frames r \<noteq> []"
proof -
  have "er_frames r \<noteq> []"
  proof
    assume "er_frames r = []"
    moreover from this have "er_buffered_bytes r = 0" using assms(3) by (simp add: stream_ok_def)
    ultimately show False
      using write_frames_fits [OF assms(3) pool_okD(2) [OF assms(1)] validate_frame_batchD(1) [OF assms(2)]]
        validate_frame_batchD(2,3) [OF assms(2)] assms(4) by simp
  qed
  with write_frames_full_active [OF assms(4)] show ?thesis by simp
qed

lemma push_ok:
  assumes ok: "pool_ok sha pool" and "push_frames sha pool x fs = Inr (receipt, pool')"
  shows "pool_ok sha pool'"
  using assms(2)
proof (cases rule: push_cases)
  case (1 route p r)
  note part = pool_partition [OF ok 1(1,2)]
  have full: "er_state r = Active \<and> er_frames r \<noteq> []" by (rule full_buffer_nonempty [OF ok 1(3) part(4) 1(4)])
  have "partition_ok sha (mp_config pool) (put_record p x (r\<lparr>er_provider_read_paused := True\<rparr>))"
    by (rule put_record_partition [OF part(1) 1(2)]) (use part full in \<open>auto intro: paused_record_ok\<close>)
  then show ?thesis unfolding 1(6) by (rule put_partition_ok [OF ok part(7)]) (use 1(2) in \<open>auto simp: map_of_bt_insert\<close>)
next
  case (2 route p r r' t)
  with ok show ?thesis by simp
next
  case (3 route p r r' t granted q)
  note part = pool_partition [OF ok 3(1,2)]
  define s where "s = r'\<lparr>er_provider_read_paused := \<not> t
     \<and> (length (er_frames r') \<ge> max_buffered_frames_per_stream (mp_config pool)
        \<or> er_buffered_bytes r' \<ge> max_buffered_bytes_per_stream (mp_config pool))\<rparr>"
  from write_frames_spec [OF 3(4) part(4,6) validate_frame_batchD(1) [OF 3(3)]]
  have w: "stream_ok sha (mp_config pool) r'" "er_model_exchange_id r' = x" "er_state r = Active" "er_frames r' \<noteq> []"
    "er_state r' = Active \<and> \<not> t \<or> terminal (er_state r') \<and> t" using part(3) by auto
  have s: "record_ok sha (mp_config pool) s" unfolding s_def by (rule paused_record_ok) (use w in auto)
  have id: "er_model_exchange_id s = x" "er_state s = er_state r'" using w by (simp_all add: s_def)
  have q: "(granted, q) = (if t then grant_next (put_record p x s) else (None, put_record p x s))"
    using 3(5) by (simp add: s_def Let_def)
  have "partition_ok sha (mp_config pool) q \<and> dom (map_of (rp_records q)) = dom (map_of (rp_records p))"
  proof (cases t)
    case True
    with q have "q = snd (grant_next (put_record p x s))" by (metis snd_conv)
    with end_active_ok(1,2) [OF part(1) 3(2) w(3) s id(1)] id(2) w(5) True show ?thesis by simp
  next
    case False
    with q have "q = put_record p x s" by simp
    with put_record_partition [OF part(1) 3(2) s id(1)] id(2) w(3,5) False 3(2) show ?thesis
      by (auto simp: map_of_bt_insert)
  qed
  then show ?thesis unfolding 3(6) by (intro put_partition_ok [OF ok part(7)]) simp_all
qed

lemma ack_record_ok:
  assumes ok: "stream_ok sha c r" and "pause_ok r" and seq: "sequence \<le> highest_sequence r"
    "er_acknowledged_sequence r < sequence"
  defines "frames \<equiv> filter (\<lambda>e. fst e > sequence) (er_frames r)"
  defines "s \<equiv> r\<lparr>er_frames := frames, er_buffered_bytes := frame_bytes frames, er_acknowledged_sequence := sequence\<rparr>"
  shows "stream_ok sha c s" and "er_provider_read_paused s \<longrightarrow> er_state s = Active"
proof -
  have below: "sequence < er_next_sequence r"
    using seq ok by (auto simp: highest_sequence_def stream_ok_def word_order_unat unat_saturating_sub)
  have frames: "if er_state r = Cancelled then frames = [] else map fst frames = seq_range sequence (er_next_sequence r)"
    using ok seq(2) seq_range_filter [OF _ below, of "er_acknowledged_sequence r"]
    by (auto simp: stream_ok_def frames_def map_fst_filter split: if_splits)
  have sizes: "length frames \<le> length (er_frames r)" "frame_bytes frames \<le> frame_bytes (er_frames r)" "set frames \<subseteq> set (er_frames r)"
    by (auto simp: frames_def frame_bytes_filter)
  have queued: "er_state r \<noteq> Queued"
    using ok seq below by (auto simp: stream_ok_def highest_sequence_def saturating_sub_def word_order_unat)
  have bt: "bt_ok frames" using ok by (simp add: stream_ok_def frames_def bt_ok_filter)
  show "stream_ok sha c s"
    using ok sizes frames below queued bt unfolding stream_ok_def s_def
    by (auto cong del: option.case_cong_weak)
  show "er_provider_read_paused s \<longrightarrow> er_state s = Active" using assms(2) by (simp add: s_def pause_ok_def)
qed

lemma ack_ok:
  assumes ok: "pool_ok sha pool" and ack: "acknowledge pool x sequence = Inr (receipt, pool')"
  shows "pool_ok sha pool'"
proof -
  from ack obtain route p r where h: "partition_for pool x = Inr (route, p)" "map_of (rp_records p) x = Some r"
    by (auto simp: acknowledge_def rbind_Inr_iff ok_or_Inr_iff)
  note part = pool_partition [OF ok h]
  show ?thesis
  proof (cases "sequence \<le> er_acknowledged_sequence r")
    case True
    with ack h ok show ?thesis by (auto simp: acknowledge_def rbind_Inr_iff split: if_splits)
  next
    case False
    define frames where "frames = filter (\<lambda>e. fst e > sequence) (er_frames r)"
    define s where "s = r\<lparr>er_frames := frames, er_buffered_bytes := frame_bytes frames, er_acknowledged_sequence := sequence\<rparr>"
    define b where "b = (er_provider_read_paused r \<and> \<not> (length frames \<le> resume_buffered_frames_per_stream (mp_config pool)
        \<and> frame_bytes frames \<le> resume_buffered_bytes_per_stream (mp_config pool)))"
    have resumed: "(if er_provider_read_paused s \<and> length (er_frames s) \<le> resume_buffered_frames_per_stream (mp_config pool)
          \<and> er_buffered_bytes s \<le> resume_buffered_bytes_per_stream (mp_config pool)
        then s\<lparr>er_provider_read_paused := False\<rparr> else s) = s\<lparr>er_provider_read_paused := b\<rparr>"
      by (auto simp: b_def s_def)
    from ack h False have seq: "sequence \<le> highest_sequence r"
      by (auto simp: acknowledge_def rbind_Inr_iff ok_or_Inr_iff not_less split: if_splits)
    with ack h False have "pool' = put_partition pool route (put_record p x
        (if er_provider_read_paused s \<and> length (er_frames s) \<le> resume_buffered_frames_per_stream (mp_config pool)
            \<and> er_buffered_bytes s \<le> resume_buffered_bytes_per_stream (mp_config pool)
         then s\<lparr>er_provider_read_paused := False\<rparr> else s))"
      unfolding s_def frames_def frame_bytes_def
      by (auto simp: acknowledge_def rbind_Inr_iff ok_or_Inr_iff Let_def split: if_splits)
    then have pool': "pool' = put_partition pool route (put_record p x (s\<lparr>er_provider_read_paused := b\<rparr>))"
      by (simp only: resumed)
    note s = ack_record_ok [OF part(4,5) seq, folded frames_def s_def]
    have "frames \<noteq> []" if b using that by (auto simp: b_def)
    then have rec: "record_ok sha (mp_config pool) (s\<lparr>er_provider_read_paused := b\<rparr>)"
      using s False by (intro paused_record_ok) (auto simp: s_def b_def)
    have "partition_ok sha (mp_config pool) (put_record p x (s\<lparr>er_provider_read_paused := b\<rparr>))"
      by (rule put_record_partition [OF part(1) h(2) rec]) (use part(3) in \<open>simp_all add: s_def\<close>)
    then show ?thesis unfolding pool' by (rule put_partition_ok [OF ok part(7)]) (use h(2) in \<open>auto simp: map_of_bt_insert\<close>)
  qed
qed

definition ended_record :: "exchange_record \<Rightarrow> model_request_terminal_outcome \<Rightarrow> exchange_record" where
  "ended_record r outcome =
     (let ended = r\<lparr>er_state := outcome_state outcome, er_terminal_outcome := Some outcome, er_provider_read_paused := False\<rparr>
      in if outcome = OutcomeCancelled then ended\<lparr>er_frames := [], er_buffered_bytes := 0\<rparr> else ended)"

lemma ended_record_simps [simp]: "er_state (ended_record r outcome) = outcome_state outcome"
  "er_model_exchange_id (ended_record r outcome) = er_model_exchange_id r"
  by (simp_all add: ended_record_def Let_def)

lemma ended_record_ok:
  assumes "stream_ok sha c r" and "\<not> terminal (er_state r)"
  shows "record_ok sha c (ended_record r outcome)"
proof -
  note open_facts = open_stream [OF assms]
  have queued: "er_state r = Queued \<or> er_state r = Active" using assms(2) by (cases "er_state r") simp_all
  show ?thesis
  proof (cases "outcome = OutcomeCancelled")
    case True
    with assms open_facts show ?thesis
      by (simp add: record_ok_def pause_ok_def stream_ok_def ended_record_def cong del: option.case_cong_weak)
  next
    case False
    with assms open_facts queued show ?thesis
      by (auto simp: record_ok_def pause_ok_def stream_ok_def ended_record_def cong del: option.case_cong_weak)
  qed
qed

lemma terminate_cases:
  assumes "terminate pool x outcome = Inr (receipt, pool')"
  obtains route p r where "partition_for pool x = Inr (route, p)" "map_of (rp_records p) x = Some r"
      "terminal (er_state r)" "er_terminal_outcome r = Some outcome" "pool' = pool" "tr_granted_exchange_id receipt = None"
  | route p r where "partition_for pool x = Inr (route, p)" "map_of (rp_records p) x = Some r" "er_state r = Queued"
      "outcome = OutcomeCancelled" "tr_granted_exchange_id receipt = None"
      "pool' = put_partition pool route
         (put_record (p\<lparr>rp_waiting := filter (\<lambda>q. q \<noteq> x) (rp_waiting p)\<rparr>) x (ended_record r outcome))"
  | route p r where "partition_for pool x = Inr (route, p)" "map_of (rp_records p) x = Some r" "er_state r = Active"
      "tr_granted_exchange_id receipt = fst (grant_next (put_record p x (ended_record r outcome)))"
      "pool' = put_partition pool route (snd (grant_next (put_record p x (ended_record r outcome))))"
proof -
  from assms obtain route p r where h: "partition_for pool x = Inr (route, p)" "map_of (rp_records p) x = Some r"
    by (auto simp: terminate_def rbind_Inr_iff ok_or_Inr_iff)
  consider "terminal (er_state r)" | "er_state r = Queued" | "er_state r = Active" by (cases "er_state r") auto
  then show thesis
  proof cases
    case 1
    with assms h show thesis by (intro that(1) [of route p r]) (auto simp: terminate_def split: if_splits)
  next
    case 2
    with assms h show thesis
      by (intro that(2) [of route p r]) (auto simp: terminate_def ended_record_def Let_def split: if_splits)
  next
    case 3
    with assms h show thesis
      by (intro that(3) [of route p r])
        (auto simp: terminate_def ended_record_def Let_def split: if_splits prod.splits)
  qed
qed

lemma leave_queue_ok:
  assumes ok: "partition_ok sha c p" and old: "map_of (rp_records p) x = Some r" "er_state r = Queued"
    and new: "record_ok sha c r'" "er_model_exchange_id r' = x" "terminal (er_state r')"
  shows "partition_ok sha c (put_record (p\<lparr>rp_waiting := filter (\<lambda>q. q \<noteq> x) (rp_waiting p)\<rparr>) x r')"
proof -
  let ?w = "filter (\<lambda>q. q \<noteq> x) (rp_waiting p)"
  have bt: "bt_ok (rp_records p)" and q: "queue_ok sha c p" using ok by (simp_all add: partition_ok_def queue_ok_def)
  have "queue_ok sha c (put_record (p\<lparr>rp_waiting := ?w\<rparr>) x r')"
    using q old new unfolding queue_ok_def by (auto simp: map_of_bt_insert bt_ok_insert terminal_iff split: if_splits)
  moreover have "active_count (put_record (p\<lparr>rp_waiting := ?w\<rparr>) x r') = active_count p"
    using active_count_put [of "p\<lparr>rp_waiting := ?w\<rparr>" x r r'] bt old new(3) by (simp add: active_count_def terminal_iff)
  moreover have "length ?w \<le> max_waiting_per_route c"
    using ok by (intro order_trans [OF length_filter_le]) (simp add: partition_ok_def)
  ultimately show ?thesis
    using ok length_bt_insert_old [OF bt old(1)] unfolding partition_ok_def by auto
qed

lemma terminate_ok:
  assumes ok: "pool_ok sha pool" and "terminate pool x outcome = Inr (receipt, pool')"
  shows "pool_ok sha pool'"
  using assms(2)
proof (cases rule: terminate_cases)
  case (1 route p r)
  with ok show ?thesis by simp
next
  case (2 route p r)
  note part = pool_partition [OF ok 2(1,2)]
  have rec: "record_ok sha (mp_config pool) (ended_record r outcome)" using part(4) 2(3) by (simp add: ended_record_ok)
  show ?thesis unfolding 2(6)
    by (rule put_partition_ok [OF ok part(7) leave_queue_ok [OF part(1) 2(2,3) rec]])
      (use part(3) 2(2) in \<open>auto simp: map_of_bt_insert\<close>)
next
  case (3 route p r)
  note part = pool_partition [OF ok 3(1,2)]
  have rec: "record_ok sha (mp_config pool) (ended_record r outcome)" using part(4) 3(3) by (simp add: ended_record_ok)
  have "er_model_exchange_id (ended_record r outcome) = x" "terminal (er_state (ended_record r outcome))" using part(3) by simp_all
  note e = end_active_ok [OF part(1) 3(2,3) rec this]
  show ?thesis unfolding 3(5) by (rule put_partition_ok [OF ok part(7) e(1,2)])
qed

lemma forget_ok:
  assumes ok: "pool_ok sha pool" and forget: "forget_terminal pool x = Inr pool'"
  shows "pool_ok sha pool'"
proof -
  from forget obtain route p r where h: "partition_for pool x = Inr (route, p)" "map_of (rp_records p) x = Some r"
    "terminal (er_state r)"
    by (auto simp: forget_terminal_def rbind_Inr_iff ok_or_Inr_iff split: if_splits)
  note part = pool_partition [OF ok h(1,2)]
  define q where "q = p\<lparr>rp_records := bt_remove x (rp_records p)\<rparr>"
  have route: "mp_exchange_routes pool x = Some route" by (rule partition_forD [OF h(1)])
  have bt: "bt_ok (rp_records p)" "bt_ok (mp_routes pool)" using part(2) ok by (simp_all add: queue_ok_def pool_okD)
  have dom: "dom (map_of (rp_records q)) = dom (map_of (rp_records p)) - {x}" by (auto simp: q_def map_of_bt_remove split: if_splits)
  have "queue_ok sha (mp_config pool) q"
    using part(2) h(2,3) unfolding queue_ok_def q_def by (auto simp: map_of_bt_remove bt_ok_remove terminal_iff)
  moreover have "active_count q = active_count p"
    using bt_count_remove [OF bt(1) h(2), of "\<lambda>r. er_state r = Active"] h(3) by (simp add: active_count_def q_def terminal_iff)
  ultimately have qok: "partition_ok sha (mp_config pool) q"
    using part(1) length_bt_remove [OF bt(1) h(2)] by (simp add: partition_ok_def q_def)
  have index: "mp_exchange_routes pool y = Some k \<longleftrightarrow> (\<exists>p. map_of (mp_routes pool) k = Some p \<and> y \<in> dom (map_of (rp_records p)))" for y k
    using ok by (simp add: pool_ok_def)
  have once: "k = route" if "map_of (mp_routes pool) k = Some p'" "x \<in> dom (map_of (rp_records p'))" for k p'
    using index [of x k] route that by auto
  define routes where "routes = (if rp_records q = [] then bt_remove route (mp_routes pool) else bt_insert route q (mp_routes pool))"
  have pool': "pool' = pool\<lparr>mp_exchange_routes := (mp_exchange_routes pool)(x := None), mp_routes := routes\<rparr>"
    using forget h by (auto simp: forget_terminal_def Let_def q_def routes_def put_partition_def split: if_splits)
  have lookup: "map_of routes = (map_of (mp_routes pool))(route := if rp_records q = [] then None else Some q)"
    by (simp add: routes_def map_of_bt_remove map_of_bt_insert)
  have empty: "dom (map_of (rp_records q)) = {}" if "rp_records q = []" using that by simp
  have "(if y = x then None else mp_exchange_routes pool y) = Some k
      \<longleftrightarrow> (\<exists>p. map_of routes k = Some p \<and> y \<in> dom (map_of (rp_records p)))" for y k
  proof (cases "k = route")
    case True
    have "(\<exists>p. map_of routes k = Some p \<and> y \<in> dom (map_of (rp_records p))) \<longleftrightarrow> y \<in> dom (map_of (rp_records p)) - {x}"
      using True dom by (cases "rp_records q = []") (auto simp: lookup)
    with index [of y k] True part(7) show ?thesis by auto
  next
    case False
    with index [of y k] once show ?thesis by (auto simp: lookup)
  qed
  moreover have "project_route_count pool' k \<le> project_route_count pool k" for k
  proof (cases "rp_records q = []")
    case True
    have "length (filter P (map fst (bt_remove route m))) \<le> length (filter P (map fst m))" for P and m :: "(model_request_route_key \<times> route_partition) list"
      by (induction m) (auto simp: bt_remove_def)
    with True show ?thesis by (simp add: project_route_count_def pool' routes_def del: filter_map)
  next
    case False
    then show ?thesis
      using map_fst_bt_insert_old [OF bt(2) part(7)] by (simp add: project_route_count_def pool' routes_def)
  qed
  then have "project_route_count pool' k \<le> max_routes (mp_config pool)" for k
    using ok unfolding pool_ok_def by (meson order_trans)
  moreover have "partition_ok sha (mp_config pool) p'" if "map_of routes k = Some p'" for k p'
    using that qok pool_okD(3) [OF ok] by (auto simp: lookup split: if_splits)
  moreover have "bt_ok routes" using bt(2) by (simp add: routes_def bt_ok_remove bt_ok_insert)
  moreover have "config_validate (mp_config pool) = Inr (mp_config pool)" "config_fits (mp_config pool)"
    using ok by (simp_all add: pool_ok_def)
  moreover have "\<forall>k \<in> dom (map_of routes). validate_route_key k = Inr ()"
    using ok part(7) by (auto simp: lookup pool_ok_def split: if_splits)
  ultimately show ?thesis unfolding pool_ok_def by (simp add: pool')
qed

section \<open>Runs\<close>

datatype pool_op =
    SubmitOp model_request_admission
  | PushOp string "model_stream_frame list"
  | AckOp string u64
  | TerminateOp string model_request_terminal_outcome
  | ForgetOp string

datatype pool_output =
    SubmitOut "pool_error + model_request_admission_receipt"
  | PushOut "pool_error + model_frame_write_receipt"
  | AckOut "pool_error + model_frame_ack_receipt"
  | TerminateOut "pool_error + model_request_terminal_receipt"
  | ForgetOut "pool_error + unit"

text \<open>An operation that fails leaves the pool as it was, except for \<open>submit\<close>, which says so itself.\<close>

definition settle :: "model_request_pool \<Rightarrow> pool_error + 'a \<times> model_request_pool \<Rightarrow> (pool_error + 'a) \<times> model_request_pool" where
  "settle pool result = (case result of Inl e \<Rightarrow> (Inl e, pool) | Inr (a, pool') \<Rightarrow> (Inr a, pool'))"

fun pool_react :: "(string \<Rightarrow> string) \<Rightarrow> model_request_pool \<Rightarrow> pool_op \<Rightarrow> pool_output \<times> model_request_pool" where
  "pool_react sha256 pool (SubmitOp a) = map_prod SubmitOut id (submit pool a)"
| "pool_react sha256 pool (PushOp x fs) = map_prod PushOut id (settle pool (push_frames sha256 pool x fs))"
| "pool_react sha256 pool (AckOp x s) = map_prod AckOut id (settle pool (acknowledge pool x s))"
| "pool_react sha256 pool (TerminateOp x outcome) = map_prod TerminateOut id (settle pool (terminate pool x outcome))"
| "pool_react sha256 pool (ForgetOp x) =
     map_prod ForgetOut id (settle pool (rbind (forget_terminal pool x) (\<lambda>pool. Inr ((), pool))))"

lemma settle_ok: "pool_ok sha pool \<Longrightarrow> (\<And>a pool'. result = Inr (a, pool') \<Longrightarrow> pool_ok sha pool') \<Longrightarrow> pool_ok sha (snd (settle pool result))"
  by (auto simp: settle_def split: sum.splits)

interpretation pool: reactive_machine "pool_react sha" "pool_ok sha" for sha
proof
  fix pool op
  assume ok: "pool_ok sha pool"
  show "pool_ok sha (snd (pool_react sha pool op))"
    by (cases op) (auto simp: rbind_Inr_iff intro!: settle_ok submit_ok ok
        intro: push_ok [OF ok] ack_ok [OF ok] terminate_ok [OF ok] forget_ok [OF ok])
qed

lemma pool_new_ok: "pool_new c = Inr pool \<Longrightarrow> config_fits c \<Longrightarrow> pool_ok sha pool"
  by (auto simp: pool_new_def rbind_Inr_iff pool_ok_def config_validate_def project_route_count_def ensure_Inr_iff)

end
