(* ===== verification/Pool_Promises.thy ===== *)
theory Pool_Promises
  imports Pool_Limits
begin

text \<open>What the users of the model request pool can rely on, whatever sequence of calls was made before.\<close>

definition pool_run :: "(string \<Rightarrow> string) \<Rightarrow> model_request_pool \<Rightarrow> pool_op list \<Rightarrow> pool_output list \<times> model_request_pool" where
  "pool_run sha256 pool ops = run_reactive (pool_react sha256) pool ops"

lemma pool_run_ok:
  assumes "pool_new c = Inr pool" and "config_fits c"
  shows "pool_ok sha (snd (pool_run sha pool ops))"
  unfolding pool_run_def by (rule pool.run_reactive_inv) (rule pool_new_ok [OF assms])

lemma submit_config: "mp_config (snd (submit pool a)) = mp_config pool"
proof -
  have "mp_config (snd (admit_new pool' a p)) = mp_config pool'" for pool' p
    by (simp add: admit_new_def enlist_def)
  then show ?thesis by (simp add: submit_def Let_def split: sum.split option.split)
qed

lemma settled_config:
  assumes "\<And>a pool'. result = Inr (a, pool') \<Longrightarrow> mp_config pool' = mp_config pool"
  shows "mp_config (snd (settle pool result)) = mp_config pool"
proof (cases result)
  case (Inr x)
  with assms [of "fst x" "snd x"] show ?thesis by (cases x) (simp add: settle_def)
qed (simp add: settle_def)

lemma operation_config:
  "push_frames sha pool x fs = Inr (wr, pool') \<Longrightarrow> mp_config pool' = mp_config pool"
  "acknowledge pool x s = Inr (ak, pool') \<Longrightarrow> mp_config pool' = mp_config pool"
  "terminate pool x outcome = Inr (tr, pool') \<Longrightarrow> mp_config pool' = mp_config pool"
  "forget_terminal pool x = Inr pool' \<Longrightarrow> mp_config pool' = mp_config pool"
proof -
  show "push_frames sha pool x fs = Inr (wr, pool') \<Longrightarrow> mp_config pool' = mp_config pool"
    by (erule push_cases) simp_all
  show "terminate pool x outcome = Inr (tr, pool') \<Longrightarrow> mp_config pool' = mp_config pool"
    by (erule terminate_cases) simp_all
  show "acknowledge pool x s = Inr (ak, pool') \<Longrightarrow> mp_config pool' = mp_config pool"
    by (auto simp: acknowledge_def rbind_Inr_iff Let_def split: if_splits)
  show "forget_terminal pool x = Inr pool' \<Longrightarrow> mp_config pool' = mp_config pool"
    by (auto simp: forget_terminal_def rbind_Inr_iff Let_def split: if_splits)
qed

lemma react_config: "mp_config (snd (pool_react sha pool op)) = mp_config pool"
proof (cases op)
  case (SubmitOp a)
  then show ?thesis by (simp add: submit_config)
next
  case (PushOp x fs)
  then show ?thesis by (auto intro!: settled_config dest: operation_config)
next
  case (AckOp x s)
  then show ?thesis by (auto intro!: settled_config dest: operation_config)
next
  case (TerminateOp x outcome)
  then show ?thesis by (auto intro!: settled_config dest: operation_config)
next
  case (ForgetOp x)
  then show ?thesis by (auto intro!: settled_config simp: rbind_Inr_iff dest: operation_config)
qed

lemma run_config: "mp_config (snd (pool_run sha pool ops)) = mp_config pool"
  by (induction ops arbitrary: pool) (simp_all add: pool_run_def react_config)

section \<open>Limits\<close>


section \<open>Consistency\<close>

fun output_error :: "pool_output \<Rightarrow> pool_error option" where
  "output_error (SubmitOut (Inl e)) = Some e"
| "output_error (PushOut (Inl e)) = Some e"
| "output_error (AckOut (Inl e)) = Some e"
| "output_error (TerminateOut (Inl e)) = Some e"
| "output_error (ForgetOut (Inl e)) = Some e"
| "output_error _ = None"

lemma error_distinct [simp]: "mk_pool_error code message = pool_corrupt \<longleftrightarrow>
    code = InvalidState \<and> message = ''model request pool indexes are inconsistent''"
  "pool_corrupt = mk_pool_error code message \<longleftrightarrow>
    code = InvalidState \<and> message = ''model request pool indexes are inconsistent''"
  by (auto simp: mk_pool_error_def pool_corrupt_def)

lemma validation_errors:
  "validate_prefixed_id x prefix = Inl e \<Longrightarrow> e \<noteq> pool_corrupt" "validate_token x n = Inl e \<Longrightarrow> e \<noteq> pool_corrupt"
  "validate_frame f = Inl e \<Longrightarrow> e \<noteq> pool_corrupt"
  by (auto simp: validate_prefixed_id_def validate_token_def validate_frame_def invalid_input_def rbind_Inl_iff ensure_Inl_iff)

lemma validate_frames_from_error: "validate_frames_from fs = Inl e \<Longrightarrow> e \<noteq> pool_corrupt"
  by (induction fs) (auto simp: rbind_Inl_iff ensure_Inl_iff invalid_input_def dest: validation_errors)

lemma check_all_ne:
  assumes "\<And>c. c \<in> set cs \<Longrightarrow> c \<noteq> Inl e"
  shows "check_all cs \<noteq> Inl e"
  using assms [of "Inl e"] check_all_Inl_mem [of cs e] by metis

lemma admission_error:
  assumes "validate_admission a = Inl e"
  shows "e \<noteq> pool_corrupt"
proof
  assume e: "e = pool_corrupt"
  have ne: "validate_token x n \<noteq> Inl pool_corrupt" "validate_prefixed_id x prefix \<noteq> Inl pool_corrupt" for x n prefix
    using validation_errors by blast+
  have key: "validate_route_key k \<noteq> Inl pool_corrupt" for k
    unfolding validate_route_key_def by (rule check_all_ne) (auto simp: ne ne [symmetric])
  have "validate_admission a \<noteq> Inl pool_corrupt"
    unfolding validate_admission_def by (rule check_all_ne) (auto simp: ne key ne [symmetric] key [symmetric])
  with assms e show False by simp
qed

lemma partition_for_error:
  assumes "pool_ok sha pool" and "partition_for pool x = Inl e"
  shows "e \<noteq> pool_corrupt"
proof -
  consider "validate_prefixed_id x ''mdl_'' = Inl e" | "e = mk_pool_error NotFound ''model request exchange is not registered''"
    | route where "mp_exchange_routes pool x = Some route" "map_of (mp_routes pool) route = None"
    using assms(2) by (auto simp: partition_for_def route_for_def rbind_Inl_iff rbind_Inr_iff ok_or_Inl_iff ok_or_Inr_iff)
  then show ?thesis
  proof cases
    case (3 route)
    with registered_found [OF assms(1) 3(1)] show ?thesis by auto
  qed (auto dest: validation_errors)
qed

lemma classify_error:
  assumes ok: "stream_ok sha c r" and "classify_frame_write sha r f d = Inl e"
  shows "e \<noteq> pool_corrupt"
proof -
  have "map_of (er_frames r) (mf_sequence f) \<noteq> None"
    if "er_state r = Active" "mf_sequence f < er_next_sequence r" "er_acknowledged_sequence r < mf_sequence f"
  proof -
    have "mf_sequence f \<in> set (map fst (er_frames r))"
      using ok that by (simp add: stream_ok_def seq_range_mem)
    then show ?thesis by (simp add: map_of_eq_None_iff)
  qed
  then show ?thesis
    using assms(2) by (auto simp: classify_frame_write_def rbind_Inl_iff ok_or_Inl_iff not_le split: if_splits)
qed

lemma write_frames_error:
  assumes "write_frames sha c r a t fs = Inl e" and "stream_ok sha c r" and "config_fits c"
    and "\<And>f. f \<in> set fs \<Longrightarrow> validate_frame f = Inr () \<and> mf_terminal_outcome f \<noteq> Some OutcomeCancelled"
  shows "e \<noteq> pool_corrupt"
  using assms
proof (induction fs arbitrary: r a t)
  case (Cons f fs)
  note hyps = Cons.prems
  show ?case
  proof (cases "classify_frame_write sha r f (frame_digest sha f)")
    case (Inl e')
    with hyps(1) classify_error [OF hyps(2)] show ?thesis by simp
  next
    case (Inr status)
    show ?thesis
    proof (cases status)
      case (Some x)
      with hyps(1) Inr have "write_frames sha c r a t fs = Inl e" by simp
      from Cons.IH [OF this hyps(2,3)] hyps(4) show ?thesis by simp
    next
      case None
      from classify_None Inr None have act: "er_state r = Active" "mf_sequence f = er_next_sequence r" by simp_all
      from hyps(1) Inr None consider "e = mk_pool_error InvalidState ''model stream sequence overflowed''"
        | n where "usize_saturating_add (length (er_frames r)) 1 \<le> max_buffered_frames_per_stream c"
            "usize_saturating_add (er_buffered_bytes r) (length (mf_payload f)) \<le> max_buffered_bytes_per_stream c"
            "checked_add (er_next_sequence r) 1 = Some n"
            "write_frames sha c (accept_frame sha r f n) True (t \<or> mf_terminal_outcome f \<noteq> None) fs = Inl e"
        by (auto simp: rbind_Inl_iff ok_or_Inl_iff ok_or_Inr_iff split: if_splits)
      then show ?thesis
      proof cases
        case (2 n)
        have "stream_ok sha c (accept_frame sha r f n)"
          using accept_frame_ok [OF hyps(2) act _ _ 2(3) hyps(3) 2(1,2)] hyps(4) by simp
        from Cons.IH [OF 2(4) this hyps(3)] hyps(4) show ?thesis by simp
      qed simp
    qed
  qed
qed simp

lemma submit_error:
  assumes ok: "pool_ok sha pool" and "fst (submit pool a) = Inl e"
  shows "e \<noteq> pool_corrupt"
proof (cases "validate_admission a")
  case (Inl e')
  with assms(2) admission_error show ?thesis by (simp add: submit_def)
next
  case (Inr u)
  show ?thesis
  proof (cases "mp_exchange_routes pool (ma_model_exchange_id a)")
    case None
    with assms(2) Inr show ?thesis by (auto simp: submit_def Let_def admit_new_def split: if_splits)
  next
    case (Some route)
    obtain p r where "map_of (mp_routes pool) route = Some p" "map_of (rp_records p) (ma_model_exchange_id a) = Some r"
      using registered_found [OF ok Some] .
    with assms(2) Inr Some show ?thesis
      by (auto simp: submit_def submit_duplicate_def exchange_conflict_def split: if_splits)
  qed
qed

lemma batch_error: "validate_frame_batch pool fs = Inl e \<Longrightarrow> e \<noteq> pool_corrupt"
  by (auto simp: validate_frame_batch_def validate_frame_batch_shape_def rbind_Inl_iff rbind_Inr_iff ok_or_Inl_iff
      ensure_Inl_iff invalid_input_def dest: validate_frames_from_error)

lemma push_error:
  assumes ok: "pool_ok sha pool" and err: "push_frames sha pool x fs = Inl e"
  shows "e \<noteq> pool_corrupt"
proof (cases "validate_frame_batch pool fs")
  case (Inl e')
  with err batch_error show ?thesis by (simp add: push_frames_def)
next
  case valid: (Inr u)
  show ?thesis
  proof (cases "partition_for pool x")
    case (Inl e')
    with err valid partition_for_error [OF ok] show ?thesis by (simp add: push_frames_def)
  next
    case (Inr rp)
    obtain route p where rp: "partition_for pool x = Inr (route, p)" using Inr by (cases rp) simp
    obtain r where r: "map_of (rp_records p) x = Some r" using partition_for_found [OF ok rp] .
    note part = pool_partition [OF ok rp r]
    have frames: "\<And>f. f \<in> set fs \<Longrightarrow> validate_frame f = Inr () \<and> mf_terminal_outcome f \<noteq> Some OutcomeCancelled"
      using validate_frame_batchD(1) valid by simp
    show ?thesis
    proof (cases "write_frames sha (mp_config pool) r False False fs")
      case (Inl e')
      with err valid rp r write_frames_error [OF Inl part(4,6) frames] show ?thesis by (simp add: push_frames_def)
    next
      case (Inr w)
      show ?thesis
      proof (cases w)
        case None
        with err valid rp r Inr show ?thesis by (simp add: push_frames_def Let_def)
      next
        case (Some v)
        obtain r' a t where v: "v = (r', a, t)" by (cases v)
        have "\<not> push_frames sha pool x fs = Inl e" if a
        proof -
          define s where "s = r'\<lparr>er_provider_read_paused := \<not> t
               \<and> (max_buffered_frames_per_stream (mp_config pool) \<le> length (er_frames r')
                  \<or> max_buffered_bytes_per_stream (mp_config pool) \<le> er_buffered_bytes r')\<rparr>"
          obtain granted q where q: "(if t then grant_next (put_record p x s) else (None, put_record p x s)) = (granted, q)"
            by fastforce
          have "\<exists>r2. map_of (rp_records q) x = Some r2"
          proof (cases t)
            case True
            from write_frames_spec [OF Inr [unfolded Some v] part(4,6) frames] True
            have "record_ok sha (mp_config pool) s" "er_model_exchange_id s = x" "er_state r = Active" "terminal (er_state s)"
              using part(3) unfolding s_def by (auto intro: paused_record_ok)
            from end_active_ok(2) [OF part(1) r this(3,1,2,4)] r True q show ?thesis by auto
          qed (use q in \<open>auto simp: map_of_bt_insert\<close>)
          then show ?thesis
            using valid rp r Inr Some v that q [unfolded s_def] by (auto simp: push_frames_def Let_def)
        qed
        with err valid rp r Inr Some v show ?thesis by (cases a) (simp_all add: push_frames_def)
      qed
    qed
  qed
qed

lemma other_errors:
  assumes ok: "pool_ok sha pool"
  shows "acknowledge pool x s = Inl e \<Longrightarrow> e \<noteq> pool_corrupt"
    and "terminate pool x outcome = Inl e \<Longrightarrow> e \<noteq> pool_corrupt"
    and "forget_terminal pool x = Inl e \<Longrightarrow> e \<noteq> pool_corrupt"
proof -
  have found: "\<exists>r. map_of (rp_records p) x = Some r" if "partition_for pool x = Inr (route, p)" for route p
    using partition_for_found [OF ok that] by blast
  note errs = partition_for_error [OF ok] found
  show "acknowledge pool x s = Inl e \<Longrightarrow> e \<noteq> pool_corrupt"
    using errs by (fastforce simp: acknowledge_def rbind_Inl_iff ok_or_Inl_iff ensure_Inl_iff invalid_input_def Let_def split: if_splits)
  show "terminate pool x outcome = Inl e \<Longrightarrow> e \<noteq> pool_corrupt"
    using errs by (fastforce simp: terminate_def rbind_Inl_iff ok_or_Inl_iff Let_def split: if_splits prod.splits)
  show "forget_terminal pool x = Inl e \<Longrightarrow> e \<noteq> pool_corrupt"
    using errs by (fastforce simp: forget_terminal_def rbind_Inl_iff ok_or_Inl_iff Let_def split: if_splits)
qed

lemma react_error:
  assumes ok: "pool_ok sha pool"
  shows "output_error (fst (pool_react sha pool op)) \<noteq> Some pool_corrupt"
proof (cases op)
    case (SubmitOp a)
    with submit_error [OF ok, of a] show ?thesis by (cases "fst (submit pool a)") auto
  next
    case (PushOp x fs)
    with push_error [OF ok, of x fs] show ?thesis
      by (cases "push_frames sha pool x fs") (auto simp: settle_def)
  next
    case (AckOp x s)
    with other_errors(1) [OF ok, of x s] show ?thesis by (cases "acknowledge pool x s") (auto simp: settle_def)
  next
    case (TerminateOp x outcome)
    with other_errors(2) [OF ok, of x outcome] show ?thesis by (cases "terminate pool x outcome") (auto simp: settle_def)
  next
    case (ForgetOp x)
    with other_errors(3) [OF ok, of x] show ?thesis by (cases "forget_terminal pool x") (auto simp: settle_def)
qed

lemma run_errors:
  assumes "pool_ok sha pool" and "out \<in> set (fst (pool_run sha pool ops))"
  shows "output_error out \<noteq> Some pool_corrupt"
  using assms
proof (induction ops arbitrary: pool)
  case (Cons op ops)
  then have next_ok: "pool_ok sha (snd (pool_react sha pool op))" by (intro pool.react_inv)
  from Cons.prems(2) consider "out = fst (pool_react sha pool op)"
    | "out \<in> set (fst (pool_run sha (snd (pool_react sha pool op)) ops))" by (auto simp: pool_run_def)
  then show ?case
  proof cases
    case 1
    with react_error [OF Cons.prems(1)] show ?thesis by simp
  next
    case 2
    from Cons.IH [OF next_ok 2] show ?thesis .
  qed
qed (simp add: pool_run_def)


section \<open>Backpressure\<close>

text \<open>
  Backpressure cannot wedge a stream: whenever a provider is paused, its stream is active and has frames
  that are not acknowledged yet, and acknowledging them lets the provider be read again.
\<close>

theorem paused_streams_resume:
  assumes "pool_new c = Inr pool0" and "config_fits c" and "pool = snd (pool_run sha pool0 ops)"
    and "reconnect pool x = Inr snapshot" and "ms_read_control snapshot = Paused"
  shows "ms_state snapshot = Active \<and> ms_buffered_frames snapshot > 0
    \<and> (\<exists>receipt pool'. acknowledge pool x (ms_next_sequence snapshot - 1) = Inr (receipt, pool')
         \<and> ak_read_control receipt = ReadOn \<and> ak_buffered_frames receipt = 0)"
proof -
  have ok: "pool_ok sha pool" using pool_run_ok [OF assms(1,2)] assms(3) by simp
  from assms(4) obtain route p r where h: "partition_for pool x = Inr (route, p)" "map_of (rp_records p) x = Some r"
    and snap: "ms_state snapshot = er_state r" "ms_buffered_frames snapshot = length (er_frames r)"
      "ms_next_sequence snapshot = er_next_sequence r" "ms_read_control snapshot = read_control r"
    by (auto simp: reconnect_def rbind_Inr_iff ok_or_Inr_iff)
  note part = pool_partition [OF ok h]
  from assms(5) snap(4) have paused: "er_provider_read_paused r" by (auto simp: read_control_def split: if_splits)
  with part(5) have act: "er_state r = Active" "er_frames r \<noteq> []" by (simp_all add: pause_ok_def)
  let ?s = "er_next_sequence r - 1"
  have low: "er_acknowledged_sequence r < er_next_sequence r" "unat (er_next_sequence r) \<le> 9007199254740992"
    and keys: "map fst (er_frames r) = seq_range (er_acknowledged_sequence r) (er_next_sequence r)"
    using part(4) act(1) by (simp_all add: stream_ok_def)
  have unat: "unat ?s = unat (er_next_sequence r) - 1"
    using low(1) by (intro unat_minus_1) (auto simp: word_less_nat_alt)
  have safe: "\<not> ?s > max_safe_integer" using low(2) unat by (simp add: max_safe_integer_def word_less_nat_alt)
  have top: "\<not> ?s > highest_sequence r" using unat by (simp add: highest_sequence_def word_less_nat_alt unat_saturating_sub)
  have above: "er_acknowledged_sequence r < ?s"
  proof -
    have "seq_range (er_acknowledged_sequence r) (er_next_sequence r) \<noteq> []" using keys act(2) by auto
    then have "Suc (unat (er_acknowledged_sequence r)) < unat (er_next_sequence r)" by (simp add: seq_range_def)
    then show ?thesis using unat by (simp add: word_less_nat_alt)
  qed
  then have new: "\<not> ?s \<le> er_acknowledged_sequence r" by (simp add: not_le)
  have none: "filter (\<lambda>e. ?s < fst e) (er_frames r) = []"
  proof -
    have "fst e \<le> ?s" if "e \<in> set (er_frames r)" for e
      using frames_below_next [OF part(4) act(1) that] unat by (simp add: word_order_unat)
    then show ?thesis by (auto simp: filter_empty_conv not_less)
  qed
  have "\<exists>receipt pool'. acknowledge pool x ?s = Inr (receipt, pool') \<and> ak_read_control receipt = ReadOn \<and> ak_buffered_frames receipt = 0"
    using h safe top new none act(1) paused
    by (simp add: acknowledge_def Let_def ack_receipt_def read_control_def bt_values_def)
  with act snap show ?thesis by simp
qed

section \<open>The queue\<close>

definition granted_to :: "pool_output \<Rightarrow> string option" where
  "granted_to out = (case out of
     PushOut (Inr receipt) \<Rightarrow> wr_granted_exchange_id receipt
   | TerminateOut (Inr receipt) \<Rightarrow> tr_granted_exchange_id receipt
   | _ \<Rightarrow> None)"

lemma granted_head:
  assumes ok: "partition_ok sha c p" and old: "map_of (rp_records p) x = Some r" "er_state r = Active"
    and new: "record_ok sha c r'" "er_model_exchange_id r' = x" "terminal (er_state r')"
    and granted: "fst (grant_next (put_record p x r')) = Some y"
  shows "\<exists>ws r2. rp_waiting p = y # ws \<and> rp_waiting (snd (grant_next (put_record p x r'))) = ws
      \<and> map_of (rp_records (snd (grant_next (put_record p x r')))) y = Some r2 \<and> er_state r2 = Active"
proof -
  note e = end_active_ok [OF ok old new]
  from e(3) granted obtain ws where ws: "rp_waiting p = y # ws" by (cases "rp_waiting p") auto
  have "queue_ok sha c (put_record p x r')"
    using put_record_queue [OF _ old(1) new(1,2)] ok old(2) new(3) by (auto simp: partition_ok_def terminal_iff)
  moreover have "rp_waiting (put_record p x r') = y # ws" using ws by simp
  ultimately obtain r2 where "grant_next (put_record p x r')
      = (Some y, (put_record (put_record p x r') y (r2\<lparr>er_state := Active\<rparr>))\<lparr>rp_waiting := ws\<rparr>)"
    by (rule grant_next_Cons) blast
  then show ?thesis using ws by (simp add: map_of_bt_insert)
qed

text \<open>
  A freed slot goes to the request that has waited longest. When a request ends, by a terminal frame or by
  termination, the receipt names the head of its route's queue if there is one; that request is active from
  then on, and everyone behind it moves up by one.
\<close>

theorem slots_granted_in_order:
  assumes "pool_new c = Inr pool0" and "config_fits c" and "pool = snd (pool_run sha pool0 ops)"
    and react: "pool_react sha pool op = (out, pool')" and granted: "granted_to out = Some y"
  shows "\<exists>route p p' ws r. map_of (mp_routes pool) route = Some p \<and> rp_waiting p = y # ws
    \<and> map_of (mp_routes pool') route = Some p' \<and> rp_waiting p' = ws
    \<and> map_of (rp_records p') y = Some r \<and> er_state r = Active"
proof -
  have ok: "pool_ok sha pool" using pool_run_ok [OF assms(1,2)] assms(3) by simp
  from react granted consider
      x fs receipt where "push_frames sha pool x fs = Inr (receipt, pool')" "wr_granted_exchange_id receipt = Some y"
    | x outcome receipt where "terminate pool x outcome = Inr (receipt, pool')" "tr_granted_exchange_id receipt = Some y"
    by (cases op) (auto simp: granted_to_def settle_def rbind_def map_prod_def split: sum.splits prod.splits)
  then show ?thesis
  proof cases
    case push: (1 x fs receipt)
    from push(1) show ?thesis
    proof (cases rule: push_cases)
      case (3 route p r r' t granted q)
      note part = pool_partition [OF ok 3(1,2)]
      define s where "s = r'\<lparr>er_provider_read_paused := \<not> t
         \<and> (length (er_frames r') \<ge> max_buffered_frames_per_stream (mp_config pool)
            \<or> er_buffered_bytes r' \<ge> max_buffered_bytes_per_stream (mp_config pool))\<rparr>"
      have g: "granted = Some y" using push(2) 3(8) by simp
      have q: "(granted, q) = (if t then grant_next (put_record p x s) else (None, put_record p x s))"
        using 3(5) by (simp add: s_def Let_def)
      with g have t: t and eq: "grant_next (put_record p x s) = (Some y, q)" by (auto split: if_splits)
      from write_frames_spec [OF 3(4) part(4,6) validate_frame_batchD(1) [OF 3(3)]] t
      have "record_ok sha (mp_config pool) s" "er_model_exchange_id s = x" "er_state r = Active" "terminal (er_state s)"
        using part(3) unfolding s_def by (auto intro: paused_record_ok)
      from granted_head [OF part(1) 3(2) this(3,1,2,4)] eq part(7) 3(6) show ?thesis
        by (auto simp: map_of_bt_insert)
    qed (use push(2) in \<open>auto simp: frame_receipt_def\<close>)
  next
    case ended: (2 x outcome receipt)
    from ended(1) show ?thesis
    proof (cases rule: terminate_cases)
      case (3 route p r)
      note part = pool_partition [OF ok 3(1,2)]
      have rec: "record_ok sha (mp_config pool) (ended_record r outcome)" using part(4) 3(3) by (simp add: ended_record_ok)
      from granted_head [OF part(1) 3(2,3) rec] 3(4,5) ended(2) part(3,7) show ?thesis
        by (auto simp: map_of_bt_insert)
    qed (use ended(2) in auto)
  qed
qed

section \<open>Retries\<close>

definition held :: "(string \<Rightarrow> string) \<Rightarrow> exchange_record \<Rightarrow> model_stream_frame \<Rightarrow> bool" where
  "held sha256 r f \<longleftrightarrow> mf_sequence f \<le> er_acknowledged_sequence r \<or> frame_stored sha256 r f (frame_digest sha256 f)
     \<or> terminal (er_state r) \<and> is_terminal_replay r f (frame_digest sha256 f)"

lemma classify_held: "classify_frame_write sha r f (frame_digest sha f) = Inr (Some st) \<Longrightarrow> held sha r f"
  by (auto simp: classify_frame_write_def held_def frame_stored_def rbind_Inr_iff ok_or_Inr_iff split: if_splits option.splits)

lemma held_classify:
  assumes ok: "stream_ok sha c r" and "held sha r f" and "er_state r \<noteq> Queued"
  shows "classify_frame_write sha r f (frame_digest sha f) = Inr (Some WriteDuplicate)"
proof (cases "er_state r = Active")
  case False
  with assms show ?thesis by (auto simp: classify_frame_write_def held_def terminal_iff)
next
  case active: True
  show ?thesis
  proof (cases "mf_sequence f \<le> er_acknowledged_sequence r")
    case True
    with ok active have "mf_sequence f < er_next_sequence r" by (auto simp: stream_ok_def intro: le_less_trans)
    with True active show ?thesis by (simp add: classify_frame_write_def)
  next
    case False
    with assms(2) active obtain g where g: "map_of (er_frames r) (mf_sequence f) = Some g"
      "frame_digest sha g = frame_digest sha f" by (auto simp: held_def frame_stored_def split: option.splits)
    have "mf_sequence f < er_next_sequence r"
      using frames_below_next [OF ok active map_of_SomeD [OF g(1)]] by simp
    with False active g show ?thesis by (simp add: classify_frame_write_def)
  qed
qed

lemma all_held:
  assumes "\<And>f. f \<in> set fs \<Longrightarrow> held sha r f" and "stream_ok sha c r" and "er_state r \<noteq> Queued"
  shows "write_frames sha c' r a t fs = Inr (Some (r, a, t))"
  using assms(1) by (induction fs) (simp_all add: held_classify [OF assms(2) _ assms(3)])

lemma held_accept:
  assumes ok: "stream_ok sha c r" and act: "er_state r = Active" "mf_sequence f = er_next_sequence r"
  shows "held sha r g \<Longrightarrow> held sha (accept_frame sha r f n) g" and "held sha (accept_frame sha r f n) f"
proof -
  assume "held sha r g"
  with act consider "mf_sequence g \<le> er_acknowledged_sequence r"
    | h where "map_of (er_frames r) (mf_sequence g) = Some h" "frame_digest sha h = frame_digest sha g"
    by (auto simp: held_def frame_stored_def split: option.splits)
  then show "held sha (accept_frame sha r f n) g"
  proof cases
    case (2 h)
    have "mf_sequence g \<noteq> mf_sequence f"
      using frames_below_next [OF ok act(1) map_of_SomeD [OF 2(1)]] act(2) by auto
    with 2 show ?thesis by (simp add: held_def frame_stored_def map_of_bt_insert)
  qed (simp add: held_def)
qed (simp add: held_def frame_stored_def map_of_bt_insert)

lemma write_frames_held:
  assumes "write_frames sha c r a t fs = Inr (Some (r', a', t'))" and "stream_ok sha c r" and "config_fits c"
    and "\<And>f. f \<in> set fs \<Longrightarrow> validate_frame f = Inr () \<and> mf_terminal_outcome f \<noteq> Some OutcomeCancelled"
  shows "(\<forall>g. held sha r g \<longrightarrow> held sha r' g) \<and> (\<forall>f \<in> set fs. held sha r' f)"
  using assms
proof (induction fs arbitrary: r a t)
  case (Cons f fs)
  note hyps = Cons.prems
  from hyps(1) obtain status where status: "classify_frame_write sha r f (frame_digest sha f) = Inr status"
    by (auto simp: rbind_Inr_iff)
  show ?case
  proof (cases status)
    case (Some x)
    with hyps(1) status have "write_frames sha c r a t fs = Inr (Some (r', a', t'))" by simp
    from Cons.IH [OF this hyps(2,3)] hyps(4) classify_held status Some show ?thesis by simp
  next
    case None
    from classify_None status None have act: "er_state r = Active" "mf_sequence f = er_next_sequence r" by simp_all
    from hyps(1) status None obtain n where
      room: "usize_saturating_add (length (er_frames r)) 1 \<le> max_buffered_frames_per_stream c"
        "usize_saturating_add (er_buffered_bytes r) (length (mf_payload f)) \<le> max_buffered_bytes_per_stream c"
      and n: "checked_add (er_next_sequence r) 1 = Some n"
      and rest: "write_frames sha c (accept_frame sha r f n) True (t \<or> mf_terminal_outcome f \<noteq> None) fs = Inr (Some (r', a', t'))"
      by (auto simp: rbind_Inr_iff ok_or_Inr_iff split: if_splits)
    have "stream_ok sha c (accept_frame sha r f n)"
      using accept_frame_ok [OF hyps(2) act _ _ n hyps(3) room] hyps(4) by simp
    from Cons.IH [OF rest this hyps(3)] hyps(4) held_accept [OF hyps(2) act] show ?thesis by simp
  qed
qed simp

lemma grant_keeps:
  "map_of records z = Some r \<Longrightarrow> er_state r \<noteq> Queued \<Longrightarrow> map_of (rp_records (snd (grant_waiting records ws))) z = Some r"
  by (induction records ws rule: grant_waiting.induct) (auto simp: map_of_bt_insert split: option.splits)


section \<open>A sample pool\<close>

text \<open>One active and one waiting request per route, and a buffer of one frame.\<close>

definition sample_config :: model_request_pool_config where
  "sample_config = \<lparr>max_routes = 1, max_active_per_route = 1, max_waiting_per_route = 1,
     max_exchange_records_per_route = 2, max_buffered_frames_per_stream = 1, max_buffered_bytes_per_stream = 8,
     resume_buffered_frames_per_stream = 0, resume_buffered_bytes_per_stream = 0\<rparr>"

definition sample_route :: model_request_route_key where
  "sample_route = RouteKey ''p'' ''m'' ''crd_1'' ''org_1'' ''wsp_1'' ''prj_1'' ''rep_1''"

definition sample_admission :: "char \<Rightarrow> model_request_admission" where
  "sample_admission c = \<lparr>ma_route = sample_route, ma_model_exchange_id = ''mdl_'' @ [c], ma_request_id = ''req_'' @ [c]\<rparr>"

definition sample_empty :: model_request_pool where
  "sample_empty = \<lparr>mp_config = sample_config, mp_routes = [], mp_exchange_routes = Map.empty\<rparr>"

definition sample_sha :: "string \<Rightarrow> string" where
  "sample_sha s = rev s"

lemma sample_new: "pool_new sample_config = Inr sample_empty" "config_fits sample_config"
  by (simp_all add: pool_new_def config_validate_def sample_config_def sample_empty_def usize_checked_add_def usize_max_def
    config_fits_def ensure_def)

definition sample_record :: "char \<Rightarrow> model_request_state \<Rightarrow> exchange_record" where
  "sample_record c st = new_exchange_record (sample_admission c) st"

lemma sample_valid:
  "validate_admission \<lparr>ma_route = sample_route, ma_model_exchange_id = ''mdl_1'', ma_request_id = ''req_1''\<rparr> = Inr ()"
  "validate_admission \<lparr>ma_route = sample_route, ma_model_exchange_id = ''mdl_2'', ma_request_id = ''req_2''\<rparr> = Inr ()"
  by code_simp+

definition sample_pool :: "exchange_record \<Rightarrow> model_request_pool" where
  "sample_pool r = \<lparr>mp_config = sample_config,
     mp_routes = [(sample_route, \<lparr>rp_records = [(''mdl_1'', r), (''mdl_2'', sample_record CHR ''2'' Queued)], rp_waiting = [''mdl_2'']\<rparr>)],
     mp_exchange_routes = [''mdl_1'' \<mapsto> sample_route, ''mdl_2'' \<mapsto> sample_route]\<rparr>"

lemma sample_record_state [simp]: "er_state (sample_record c st) = st"
  by (simp add: sample_record_def new_exchange_record_def)

lemma sample_pool_simps [simp]: "mp_config (sample_pool r) = sample_config"
  "mp_routes (sample_pool r) = [(sample_route, \<lparr>rp_records = [(''mdl_1'', r), (''mdl_2'', sample_record CHR ''2'' Queued)], rp_waiting = [''mdl_2'']\<rparr>)]"
  "mp_exchange_routes (sample_pool r) = [''mdl_1'' \<mapsto> sample_route, ''mdl_2'' \<mapsto> sample_route]"
  by (simp_all add: sample_pool_def)

lemma sample_limits [simp]: "max_buffered_frames_per_stream sample_config = 1" "max_buffered_bytes_per_stream sample_config = 8"
  by (simp_all add: sample_config_def)

lemma sample_put: "put_partition (sample_pool r) sample_route
    \<lparr>rp_records = [(''mdl_1'', r'), (''mdl_2'', sample_record CHR ''2'' Queued)], rp_waiting = [''mdl_2'']\<rparr> = sample_pool r'"
  by (simp add: put_partition_def sample_pool_def)

lemmas pool_eval = Let_def pool_run_def submit_def sample_valid admit_new_def project_route_count_def
  enlist_def put_partition_def put_record_def empty_partition_def new_exchange_record_def sample_admission_def
  sample_config_def active_count_def bt_count_def bt_values_def sample_empty_def sample_pool_def sample_record_def

lemma sample_exchange_valid: "validate_prefixed_id ''mdl_1'' ''mdl_'' = Inr ()" 
  by code_simp

lemma sample_batch:
  "validate_frame_batch (sample_pool r) [data_frame 1 ''x''] = Inr ()"
  "write_frames sha sample_config (sample_record CHR ''1'' Active) False False [data_frame 1 ''x'']
    = Inr (Some ((sample_record CHR ''1'' Active)\<lparr>er_frames := [(1, data_frame 1 ''x'')], er_buffered_bytes := 1, er_next_sequence := 2\<rparr>, True, False))"
  by (simp_all add: validate_frame_batch_def validate_frame_batch_shape_def validate_frame_def data_frame_def max_safe_integer_def
    sample_config_def sample_pool_def usize_checked_add_def usize_max_def usize_saturating_add_def ensure_def classify_frame_write_def
   sample_record_def new_exchange_record_def checked_add_def accept_frame_def)

lemma sample_submitted: "snd (pool_run sha sample_empty [SubmitOp (sample_admission CHR ''1''), SubmitOp (sample_admission CHR ''2'')])
   = sample_pool (sample_record CHR ''1'' Active)"
  by (simp add: pool_eval)

definition sample_ops :: "pool_op list" where
  "sample_ops = [SubmitOp (sample_admission CHR ''1''), SubmitOp (sample_admission CHR ''2''), PushOp ''mdl_1'' [data_frame 1 ''x'']]"

definition paused_record :: exchange_record where
  "paused_record = (sample_record CHR ''1'' Active)\<lparr>er_frames := [(1, data_frame 1 ''x'')], er_buffered_bytes := 1, er_next_sequence := 2,
     er_provider_read_paused := True\<rparr>"

lemma sample_push: "push_frames sha (sample_pool (sample_record CHR ''1'' Active)) ''mdl_1'' [data_frame 1 ''x''] =
  Inr (frame_receipt paused_record WriteAccepted None, sample_pool paused_record)"
  by (simp add: push_frames_def partition_for_def route_for_def sample_exchange_valid sample_batch paused_record_def
    put_record_def sample_put Let_def del: write_frames.simps)

lemma run_append: "snd (pool_run sha pool (ops @ ops')) = snd (pool_run sha (snd (pool_run sha pool ops)) ops')"
  by (induction ops arbitrary: pool) (simp_all add: pool_run_def)

lemma sample_paused: "snd (pool_run sha sample_empty sample_ops) = sample_pool paused_record"
proof -
  have ops: "sample_ops = [SubmitOp (sample_admission CHR ''1''), SubmitOp (sample_admission CHR ''2'')] @ [PushOp ''mdl_1'' [data_frame 1 ''x'']]"
    by (simp add: sample_ops_def)
  show ?thesis unfolding ops run_append sample_submitted by (simp add: pool_run_def settle_def sample_push)
qed

lemma sample_granted: "\<exists>out pool'. pool_react sha (sample_pool paused_record) (TerminateOp ''mdl_1'' OutcomeSucceeded) = (out, pool')
    \<and> granted_to out = Some ''mdl_2''"
  by (simp add: terminate_def partition_for_def route_for_def sample_exchange_valid paused_record_def put_record_def settle_def
    sample_record_def new_exchange_record_def sample_admission_def grant_next_def granted_to_def)




end
