(* ===== verification/Pool_Durable.thy ===== *)
theory Pool_Durable
  imports Pool_Promises
begin

text \<open>
  The durable form of the model request pool (the second half of \<^verbatim>\<open>model_request_pool.rs\<close>): how it is
  written out and restored, which pools come back unchanged, and one that does not come back at all.
  SHA-256, Base64 and the JSON codec are the parameters of \<open>pool_env\<close>.
\<close>

section \<open>Durable records\<close>

definition DURABLE_POOL_SCHEMA :: string where
  "DURABLE_POOL_SCHEMA = ''winwincode.model-request-pool-exchange.v1''"

definition DURABLE_POOL_AUTHORITY_SCHEMA :: string where
  "DURABLE_POOL_AUTHORITY_SCHEMA = ''winwincode.model-request-pool-authority.v2''"

record durable_pool_frame =
  df_sequence :: u64
  df_payload_base64 :: string
  df_terminal_outcome :: "string option"

record durable_pool_exchange =
  de_schema :: string
  de_route_fingerprint :: string
  de_model_exchange_id :: string
  de_request_id :: string
  de_state :: string
  de_next_sequence :: u64
  de_acknowledged_sequence :: u64
  de_provider_read_paused :: bool
  de_frames :: "durable_pool_frame list"
  de_terminal_outcome :: "string option"

record durable_pool_route =
  dr_provider :: string
  dr_model :: string
  dr_credential_reference_id :: string
  dr_organization_id :: string
  dr_workspace_id :: string
  dr_project_id :: string
  dr_repository_id :: string
  dr_waiting :: "string list"
  dr_exchanges :: "durable_pool_exchange list"

text \<open>\<^verbatim>\<open>DurablePoolConfig\<close> has the fields of the configuration.\<close>

record durable_pool_authority =
  da_schema :: string
  da_config :: model_request_pool_config
  da_routes :: "durable_pool_route list"

record pool_env =
  pv_sha256 :: "string \<Rightarrow> string"
  pv_b64_encode :: "string \<Rightarrow> string"
  pv_b64_decode :: "string \<Rightarrow> string option"
  pv_exchange_to_vec :: "durable_pool_exchange \<Rightarrow> string option"
  pv_exchange_from_slice :: "string \<Rightarrow> durable_pool_exchange option"
  pv_authority_to_vec :: "durable_pool_authority \<Rightarrow> string option"
  pv_authority_from_slice :: "string \<Rightarrow> durable_pool_authority option"

definition hex_char :: "nat \<Rightarrow> char" where
  "hex_char n = (if n < 10 then char_of (48 + n) else char_of (87 + n))"

definition hex_lower :: "string \<Rightarrow> string" where
  "hex_lower bytes = concat (map (\<lambda>c. [hex_char (byte c div 16), hex_char (byte c mod 16)]) bytes)"

definition route_fingerprint :: "(string \<Rightarrow> string) \<Rightarrow> model_request_route_key \<Rightarrow> string" where
  "route_fingerprint sha256 k =
     ''sha256:'' @ hex_lower (sha256 (''winwincode.model-request-route.v1'' @ [char_of (0 :: nat)]
       @ concat (map (\<lambda>s. s @ [char_of (0 :: nat)])
           [rk_organization k, rk_workspace k, rk_project k, rk_repository k, rk_provider k, rk_model k,
            rk_credential_reference k])))"

fun request_state_name :: "model_request_state \<Rightarrow> string" where
  "request_state_name Queued = ''queued''"
| "request_state_name Active = ''active''"
| "request_state_name Succeeded = ''succeeded''"
| "request_state_name Failed = ''failed''"
| "request_state_name Cancelled = ''cancelled''"

definition parse_request_state :: "string \<Rightarrow> pool_error + model_request_state" where
  "parse_request_state s =
     (if s = ''queued'' then Inr Queued else if s = ''active'' then Inr Active else if s = ''succeeded'' then Inr Succeeded
      else if s = ''failed'' then Inr Failed else if s = ''cancelled'' then Inr Cancelled else Inl pool_corrupt)"

fun terminal_outcome_name :: "model_request_terminal_outcome \<Rightarrow> string" where
  "terminal_outcome_name OutcomeSucceeded = ''succeeded''"
| "terminal_outcome_name OutcomeFailed = ''failed''"
| "terminal_outcome_name OutcomeCancelled = ''cancelled''"

definition parse_terminal_outcome :: "string \<Rightarrow> pool_error + model_request_terminal_outcome" where
  "parse_terminal_outcome s =
     (if s = ''succeeded'' then Inr OutcomeSucceeded else if s = ''failed'' then Inr OutcomeFailed
      else if s = ''cancelled'' then Inr OutcomeCancelled else Inl pool_corrupt)"

definition parse_optional_outcome :: "string option \<Rightarrow> pool_error + model_request_terminal_outcome option" where
  "parse_optional_outcome s =
     (case s of None \<Rightarrow> Inr None | Some s \<Rightarrow> rbind (parse_terminal_outcome s) (\<lambda>outcome. Inr (Some outcome)))"

section \<open>Writing out\<close>

definition durable_frame :: "pool_env \<Rightarrow> model_stream_frame \<Rightarrow> durable_pool_frame" where
  "durable_frame env f =
     \<lparr>df_sequence = mf_sequence f, df_payload_base64 = pv_b64_encode env (mf_payload f),
      df_terminal_outcome = map_option terminal_outcome_name (mf_terminal_outcome f)\<rparr>"

definition durable_exchange :: "pool_env \<Rightarrow> model_request_route_key \<Rightarrow> exchange_record \<Rightarrow> durable_pool_exchange" where
  "durable_exchange env route r =
     \<lparr>de_schema = DURABLE_POOL_SCHEMA, de_route_fingerprint = route_fingerprint (pv_sha256 env) route,
      de_model_exchange_id = er_model_exchange_id r, de_request_id = er_request_id r,
      de_state = request_state_name (er_state r), de_next_sequence = er_next_sequence r,
      de_acknowledged_sequence = er_acknowledged_sequence r, de_provider_read_paused = er_provider_read_paused r,
      de_frames = map (durable_frame env) (bt_values (er_frames r)),
      de_terminal_outcome = map_option terminal_outcome_name (er_terminal_outcome r)\<rparr>"

definition export_exchange :: "pool_env \<Rightarrow> model_request_pool \<Rightarrow> string \<Rightarrow> pool_error + string" where
  "export_exchange env pool exchange_id =
     rbind (route_for pool exchange_id) (\<lambda>route.
     rbind (pool_record pool exchange_id) (\<lambda>r.
     ok_or (pv_exchange_to_vec env (durable_exchange env route r)) pool_corrupt))"

definition durable_route :: "pool_env \<Rightarrow> model_request_route_key \<Rightarrow> route_partition \<Rightarrow> durable_pool_route" where
  "durable_route env route p =
     \<lparr>dr_provider = rk_provider route, dr_model = rk_model route,
      dr_credential_reference_id = rk_credential_reference route, dr_organization_id = rk_organization route,
      dr_workspace_id = rk_workspace route, dr_project_id = rk_project route, dr_repository_id = rk_repository route,
      dr_waiting = rp_waiting p, dr_exchanges = map (durable_exchange env route) (bt_values (rp_records p))\<rparr>"

definition durable_authority :: "pool_env \<Rightarrow> model_request_pool \<Rightarrow> durable_pool_authority" where
  "durable_authority env pool =
     \<lparr>da_schema = DURABLE_POOL_AUTHORITY_SCHEMA, da_config = mp_config pool,
      da_routes = map (\<lambda>(route, p). durable_route env route p) (mp_routes pool)\<rparr>"

definition export_authority :: "pool_env \<Rightarrow> model_request_pool \<Rightarrow> pool_error + string" where
  "export_authority env pool = ok_or (pv_authority_to_vec env (durable_authority env pool)) pool_corrupt"

section \<open>Restoring\<close>

fun restore_frames ::
    "pool_env \<Rightarrow> (u64, model_stream_frame) btree \<Rightarrow> nat \<Rightarrow> durable_pool_frame list \<Rightarrow>
     pool_error + (u64, model_stream_frame) btree \<times> nat" where
  "restore_frames env frames bytes [] = Inr (frames, bytes)"
| "restore_frames env frames bytes (d # ds) =
     rbind (ok_or (pv_b64_decode env (df_payload_base64 d)) pool_corrupt) (\<lambda>payload.
     rbind (parse_optional_outcome (df_terminal_outcome d)) (\<lambda>outcome.
     let f = \<lparr>mf_sequence = df_sequence d, mf_payload = payload, mf_terminal_outcome = outcome\<rparr>
     in rbind (validate_frame f) (\<lambda>_.
        rbind (ok_or (usize_checked_add bytes (length payload)) pool_corrupt) (\<lambda>bytes.
        if map_of frames (mf_sequence f) \<noteq> None then Inl pool_corrupt
        else restore_frames env (bt_insert (mf_sequence f) f frames) bytes ds))))"

definition restored_terminal_frame ::
    "pool_env \<Rightarrow> (u64, model_stream_frame) btree \<Rightarrow> u64 \<Rightarrow> model_request_terminal_outcome option \<Rightarrow>
     pool_error + frame_fingerprint option" where
  "restored_terminal_frame env frames next_sequence terminal_outcome =
     (case terminal_outcome of
        None \<Rightarrow> Inr None
      | Some outcome \<Rightarrow>
          if outcome = OutcomeCancelled then Inr None
          else
            rbind (ok_or (map_of frames (saturating_sub next_sequence 1)) pool_corrupt) (\<lambda>f.
            if mf_terminal_outcome f \<noteq> Some outcome then Inl pool_corrupt
            else Inr (Some \<lparr>fp_sequence = mf_sequence f, fp_digest = frame_digest (pv_sha256 env) f,
                            fp_outcome = outcome\<rparr>)))"

definition restored_record :: "pool_env \<Rightarrow> model_request_pool_config \<Rightarrow> durable_pool_exchange \<Rightarrow> pool_error + exchange_record" where
  "restored_record env config d =
     rbind (parse_request_state (de_state d)) (\<lambda>state.
     rbind (ensure (\<not> (de_next_sequence d = 0 \<or> de_acknowledged_sequence d \<ge> de_next_sequence d
         \<or> de_next_sequence d > max_safe_integer)) pool_corrupt) (\<lambda>_.
     rbind (parse_optional_outcome (de_terminal_outcome d)) (\<lambda>terminal_outcome.
     rbind (ensure (map_option outcome_state terminal_outcome = (if terminal state then Some state else None))
       pool_corrupt) (\<lambda>_.
     rbind (restore_frames env [] 0 (de_frames d)) (\<lambda>(frames, buffered_bytes).
     rbind (ensure (\<not> (length frames > max_buffered_frames_per_stream config
         \<or> buffered_bytes > max_buffered_bytes_per_stream config
         \<or> map fst frames \<noteq> map word_of_nat [unat (de_acknowledged_sequence d) + 1 ..< unat (de_next_sequence d)]))
       pool_corrupt) (\<lambda>_.
     rbind (ensure (\<not> (state = Queued \<and> (de_next_sequence d \<noteq> 1 \<or> de_acknowledged_sequence d \<noteq> 0
         \<or> de_provider_read_paused d \<or> frames \<noteq> [] \<or> terminal_outcome \<noteq> None))) pool_corrupt) (\<lambda>_.
     rbind (restored_terminal_frame env frames (de_next_sequence d) terminal_outcome) (\<lambda>terminal_frame.
     rbind (ensure (\<not> (terminal_outcome = Some OutcomeCancelled \<and> frames \<noteq> [])) pool_corrupt) (\<lambda>_.
     Inr \<lparr>er_model_exchange_id = de_model_exchange_id d, er_request_id = de_request_id d, er_state = state,
          er_next_sequence = de_next_sequence d, er_acknowledged_sequence = de_acknowledged_sequence d,
          er_buffered_bytes = buffered_bytes, er_provider_read_paused = de_provider_read_paused d,
          er_frames = frames, er_terminal_outcome = terminal_outcome, er_terminal_frame = terminal_frame\<rparr>)))))))))"

fun restore_exchanges ::
    "pool_env \<Rightarrow> model_request_pool_config \<Rightarrow> model_request_route_key \<Rightarrow> (string, exchange_record) btree \<Rightarrow>
     (string \<rightharpoonup> model_request_route_key) \<Rightarrow> durable_pool_exchange list \<Rightarrow>
     pool_error + (string, exchange_record) btree \<times> (string \<rightharpoonup> model_request_route_key)" where
  "restore_exchanges env config route records index [] = Inr (records, index)"
| "restore_exchanges env config route records index (d # ds) =
     rbind (ensure (de_route_fingerprint d = route_fingerprint (pv_sha256 env) route) pool_corrupt) (\<lambda>_.
     rbind (restored_record env config d) (\<lambda>r.
     if map_of records (er_model_exchange_id r) \<noteq> None \<or> index (er_model_exchange_id r) \<noteq> None then Inl pool_corrupt
     else restore_exchanges env config route (bt_insert (er_model_exchange_id r) r records)
       (index(er_model_exchange_id r \<mapsto> route)) ds))"

definition waiting_consistent :: "(string, exchange_record) btree \<Rightarrow> string list \<Rightarrow> bool" where
  "waiting_consistent records waiting \<longleftrightarrow>
     list_all (\<lambda>x. case map_of records x of None \<Rightarrow> False | Some r \<Rightarrow> er_state r = Queued) waiting
     \<and> list_all (\<lambda>r. er_state r = Queued \<longrightarrow> er_model_exchange_id r \<in> set waiting) (bt_values records)"

definition durable_route_key :: "durable_pool_route \<Rightarrow> model_request_route_key" where
  "durable_route_key d = RouteKey (dr_provider d) (dr_model d) (dr_credential_reference_id d) (dr_organization_id d)
     (dr_workspace_id d) (dr_project_id d) (dr_repository_id d)"

fun restore_routes ::
    "pool_env \<Rightarrow> model_request_pool_config \<Rightarrow> (model_request_route_key, route_partition) btree \<Rightarrow>
     (string \<rightharpoonup> model_request_route_key) \<Rightarrow> durable_pool_route list \<Rightarrow>
     pool_error + (model_request_route_key, route_partition) btree \<times> (string \<rightharpoonup> model_request_route_key)" where
  "restore_routes env config routes index [] = Inr (routes, index)"
| "restore_routes env config routes index (d # ds) =
     (let route = durable_route_key d in
     rbind (validate_route_key route) (\<lambda>_.
     rbind (ensure (\<not> length (dr_exchanges d) > max_exchange_records_per_route config) pool_corrupt) (\<lambda>_.
     rbind (restore_exchanges env config route [] index (dr_exchanges d)) (\<lambda>(records, index).
     rbind (ensure (\<not> (length (dr_waiting d) > max_waiting_per_route config
         \<or> \<not> waiting_consistent records (dr_waiting d))) pool_corrupt) (\<lambda>_.
     let p = \<lparr>rp_records = records, rp_waiting = dr_waiting d\<rparr>
     in if active_count p > max_active_per_route config \<or> map_of routes route \<noteq> None then Inl pool_corrupt
        else restore_routes env config (bt_insert route p routes) index ds)))))"

fun check_project_counts ::
    "model_request_pool_config \<Rightarrow> (string \<times> string \<times> string \<Rightarrow> nat) \<Rightarrow> model_request_route_key list \<Rightarrow> pool_error + unit" where
  "check_project_counts config counts [] = Inr ()"
| "check_project_counts config counts (k # ks) =
     (let project = (rk_organization k, rk_workspace k, rk_project k) in
     rbind (ok_or (usize_checked_add (counts project) 1) pool_corrupt) (\<lambda>count.
     if count > max_routes config then Inl pool_corrupt
     else check_project_counts config (counts(project := count)) ks))"

definition restored_authority ::
    "pool_env \<Rightarrow> model_request_pool_config \<Rightarrow> durable_pool_authority \<Rightarrow>
     pool_error + (model_request_route_key, route_partition) btree \<times> (string \<rightharpoonup> model_request_route_key)" where
  "restored_authority env config d =
     rbind (restore_routes env config [] Map.empty (da_routes d)) (\<lambda>(routes, index).
     rbind (check_project_counts config (\<lambda>_. 0) (map fst routes)) (\<lambda>_. Inr (routes, index)))"

definition restore_authority :: "pool_env \<Rightarrow> model_request_pool \<Rightarrow> string \<Rightarrow> pool_error + model_request_pool" where
  "restore_authority env pool bytes =
     rbind (ensure (pool_is_empty pool)
       (mk_pool_error InvalidState ''model request pool restore requires an empty instance'')) (\<lambda>_.
     rbind (ok_or (pv_authority_from_slice env bytes) pool_corrupt) (\<lambda>durable.
     rbind (ok_or (pv_authority_to_vec env durable) pool_corrupt) (\<lambda>canonical.
     rbind (ensure (\<not> (canonical \<noteq> bytes \<or> da_schema durable \<noteq> DURABLE_POOL_AUTHORITY_SCHEMA
         \<or> da_config durable \<noteq> mp_config pool)) pool_corrupt) (\<lambda>_.
     rbind (restored_authority env (mp_config pool) durable) (\<lambda>(routes, index).
     Inr (pool\<lparr>mp_routes := routes, mp_exchange_routes := index\<rparr>))))))"

text \<open>One exchange alone: what \<^verbatim>\<open>submit\<close> did stays when the restored state does not fit its slot.\<close>

definition restore_exchange ::
    "pool_env \<Rightarrow> model_request_pool \<Rightarrow> model_request_admission \<Rightarrow> string \<Rightarrow>
     (pool_error + model_request_admission_receipt) \<times> model_request_pool" where
  "restore_exchange env pool a bytes =
     (case
        rbind (ok_or (pv_exchange_from_slice env bytes) pool_corrupt) (\<lambda>durable.
        rbind (ok_or (pv_exchange_to_vec env durable) pool_corrupt) (\<lambda>canonical.
        rbind (ensure (\<not> (canonical \<noteq> bytes \<or> de_schema durable \<noteq> DURABLE_POOL_SCHEMA
            \<or> de_route_fingerprint durable \<noteq> route_fingerprint (pv_sha256 env) (ma_route a)
            \<or> de_model_exchange_id durable \<noteq> ma_model_exchange_id a \<or> de_request_id durable \<noteq> ma_request_id a))
          exchange_conflict) (\<lambda>_.
        restored_record env (mp_config pool) durable)))
      of Inl e \<Rightarrow> (Inl e, pool)
       | Inr restored \<Rightarrow>
         (case submit pool a of
            (Inl e, pool) \<Rightarrow> (Inl e, pool)
          | (Inr receipt, pool) \<Rightarrow>
              if ar_state receipt \<noteq> Active \<and> er_state restored = Active
              then (Inl (mk_pool_error InvalidState
                ''durable active model exchange cannot restore into a queued slot''), pool)
              else
                (case rbind (partition_for pool (ma_model_exchange_id a)) (\<lambda>(route, p).
                      rbind (ok_or (map_of (rp_records p) (ma_model_exchange_id a)) pool_corrupt) (\<lambda>_.
                      Inr (put_partition pool route (put_record p (ma_model_exchange_id a) restored))))
                 of Inl e \<Rightarrow> (Inl e, pool)
                  | Inr pool \<Rightarrow>
                      (Inr \<lparr>ar_model_exchange_id = ma_model_exchange_id a, ar_state = er_state restored,
                            ar_status = AdmissionDuplicate, ar_queue_position = None\<rparr>, pool))))"

section \<open>What comes back\<close>

text \<open>
  The records the durable form can carry: an unfinished stream, a cancelled one with nothing unacknowledged, or a
  finished one whose terminal frame is still buffered.
\<close>

definition restorable :: "exchange_record \<Rightarrow> bool" where
  "restorable r \<longleftrightarrow> er_next_sequence r \<le> max_safe_integer
     \<and> (case er_terminal_outcome r of
          None \<Rightarrow> True
        | Some outcome \<Rightarrow>
            if outcome = OutcomeCancelled then er_next_sequence r = er_acknowledged_sequence r + 1
            else (case map_of (er_frames r) (saturating_sub (er_next_sequence r) 1) of
                    None \<Rightarrow> False | Some f \<Rightarrow> mf_terminal_outcome f = Some outcome))"

definition pool_restorable :: "model_request_pool \<Rightarrow> bool" where
  "pool_restorable pool \<longleftrightarrow>
     list_all (\<lambda>p. list_all restorable (bt_values (rp_records p))) (bt_values (mp_routes pool))"

lemma parse_names [simp]:
  "parse_request_state (request_state_name st) = Inr st"
  "parse_terminal_outcome (terminal_outcome_name outcome) = Inr outcome"
  by (cases st; simp add: parse_request_state_def) (cases outcome; simp add: parse_terminal_outcome_def)

lemma parse_optional_name [simp]: "parse_optional_outcome (map_option terminal_outcome_name outcome) = Inr outcome"
  by (cases outcome) (simp_all add: parse_optional_outcome_def)

lemma bt_ok_append: "bt_ok (m @ e # m') \<Longrightarrow> bt_insert (fst e) (snd e) m = m @ [e] \<and> map_of m (fst e) = None"
proof -
  assume "bt_ok (m @ e # m')"
  then have below: "x \<in> set m \<Longrightarrow> fst x < fst e" for x by (auto simp: bt_ok_def sorted_wrt_append)
  then have "bt_insert (fst e) (snd e) m = m @ [e]" by (simp add: bt_insert_end)
  moreover have "map_of m (fst e) = None" using below by (force simp: map_of_eq_None_iff)
  ultimately show ?thesis ..
qed

lemma durable_frame_simps [simp]: "df_sequence (durable_frame env f) = mf_sequence f"
  "df_payload_base64 (durable_frame env f) = pv_b64_encode env (mf_payload f)"
  "df_terminal_outcome (durable_frame env f) = map_option terminal_outcome_name (mf_terminal_outcome f)"
  by (simp_all add: durable_frame_def)

locale pool_codec =
  fixes env :: pool_env
  assumes b64: "pv_b64_decode env (pv_b64_encode env payload) = Some payload"
    and json: "pv_authority_to_vec env d = Some bytes \<Longrightarrow> pv_authority_from_slice env bytes = Some d"
begin

lemma restored_frames:
  "bt_ok (acc @ m) \<Longrightarrow> \<forall>e \<in> set m. mf_sequence (snd e) = fst e \<and> validate_frame (snd e) = Inr () \<Longrightarrow>
     n + frame_bytes m \<le> usize_max \<Longrightarrow>
     restore_frames env acc n (map (durable_frame env) (bt_values m)) = Inr (acc @ m, n + frame_bytes m)"
proof (induction m arbitrary: acc n)
  case (Cons e m)
  note last = bt_ok_append [OF Cons.prems(1)]
  have e: "mf_sequence (snd e) = fst e" "validate_frame (snd e) = Inr ()" using Cons.prems(2) by simp_all
  have add: "usize_checked_add n (length (mf_payload (snd e))) = Some (n + length (mf_payload (snd e)))"
    using Cons.prems(3) by (simp add: usize_checked_add_def)
  have f: "\<lparr>mf_sequence = fst e, mf_payload = mf_payload (snd e), mf_terminal_outcome = mf_terminal_outcome (snd e)\<rparr> = snd e"
    using e(1) by simp
  have "restore_frames env (acc @ [e]) (n + length (mf_payload (snd e))) (map (durable_frame env) (bt_values m))
      = Inr ((acc @ [e]) @ m, (n + length (mf_payload (snd e))) + frame_bytes m)"
    using Cons.prems by (intro Cons.IH) simp_all
  then show ?case
    using last e add by (simp add: bt_values_def b64 Let_def f)
qed (simp add: bt_values_def)

lemma restored_terminal:
  assumes ok: "stream_ok (pv_sha256 env) c r" and good: "restorable r"
  shows "restored_terminal_frame env (er_frames r) (er_next_sequence r) (er_terminal_outcome r) = Inr (er_terminal_frame r)"
proof (cases "er_terminal_outcome r")
  case None
  then have "\<not> terminal (er_state r)" by (rule stream_outcome [OF ok])
  with None open_stream(2) [OF ok] show ?thesis by (simp add: restored_terminal_frame_def)
next
  case (Some outcome)
  then have state: "er_state r = outcome_state outcome" by (rule stream_outcome [OF ok])
  show ?thesis
  proof (cases "outcome = OutcomeCancelled")
    case True
    have "case er_terminal_frame r of None \<Rightarrow> True | Some t \<Rightarrow> terminal (er_state r) \<and> er_state r \<noteq> Cancelled"
      using ok unfolding stream_ok_def by blast
    with True state have "er_terminal_frame r = None" by (cases "er_terminal_frame r") auto
    with Some True show ?thesis by (simp add: restored_terminal_frame_def)
  next
    case False
    with good Some obtain f where f: "map_of (er_frames r) (saturating_sub (er_next_sequence r) 1) = Some f"
      "mf_terminal_outcome f = Some outcome" by (auto simp: restorable_def split: option.splits)
    let ?e = "(saturating_sub (er_next_sequence r) 1, f)"
    have "?e \<in> set (er_frames r)" by (rule map_of_SomeD [OF f(1)])
    moreover have "\<forall>e \<in> set (er_frames r). \<forall>outcome. mf_terminal_outcome (snd e) = Some outcome \<longrightarrow>
          outcome \<noteq> OutcomeCancelled \<and> unat (er_next_sequence r) = Suc (unat (fst e))
          \<and> er_terminal_outcome r = Some outcome
          \<and> er_terminal_frame r = Some (fingerprint (pv_sha256 env) (snd e) outcome)"
      using ok unfolding stream_ok_def by blast
    ultimately have "er_terminal_frame r = Some (fingerprint (pv_sha256 env) (snd ?e) outcome)" using f(2) snd_conv by metis
    with Some False f show ?thesis by (simp add: restored_terminal_frame_def fingerprint_def)
  qed
qed

lemma restored_exchange:
  assumes ok: "record_ok (pv_sha256 env) c r" and fits: "config_fits c" and good: "restorable r"
  shows "restored_record env c (durable_exchange env route r) = Inr r"
proof -
  have s: "stream_ok (pv_sha256 env) c r" and pause: "pause_ok r" using ok by (simp_all add: record_ok_def)
  have frames: "restore_frames env [] 0 (map (durable_frame env) (bt_values (er_frames r))) = Inr (er_frames r, er_buffered_bytes r)"
  proof -
    have "frame_bytes (er_frames r) \<le> usize_max" using s fits by (simp add: stream_ok_def config_fits_def)
    moreover have "bt_ok ([] @ er_frames r)" "er_buffered_bytes r = frame_bytes (er_frames r)"
      "\<forall>e \<in> set (er_frames r). mf_sequence (snd e) = fst e \<and> validate_frame (snd e) = Inr ()"
      using s unfolding stream_ok_def by simp_all
    ultimately show ?thesis using restored_frames [of "[]" "er_frames r" 0] by simp
  qed
  have seq: "er_next_sequence r \<noteq> 0" "er_acknowledged_sequence r < er_next_sequence r" "er_next_sequence r \<le> max_safe_integer"
    using s good by (auto simp: stream_ok_def restorable_def)
  have outcome: "map_option outcome_state (er_terminal_outcome r) = (if terminal (er_state r) then Some (er_state r) else None)"
    using stream_outcome [OF s] by (cases "er_terminal_outcome r") simp_all
  have keys: "map fst (er_frames r) = map word_of_nat [unat (er_acknowledged_sequence r) + 1 ..< unat (er_next_sequence r)]"
  proof (cases "er_state r = Cancelled")
    case False
    with s show ?thesis by (simp add: stream_ok_def seq_range_def)
  next
    case True
    then have out: "er_terminal_outcome r = Some OutcomeCancelled" using outcome by (cases "er_terminal_outcome r") auto
    have "er_frames r = []" using s True unfolding stream_ok_def by simp
    moreover have "er_next_sequence r = er_acknowledged_sequence r + 1" using good out by (simp add: restorable_def)
    moreover have "er_acknowledged_sequence r \<noteq> - 1" using seq(2) u64_bound [of "er_next_sequence r"]
      by (auto simp: word_less_nat_alt checked_simps)
    ultimately show ?thesis by (simp add: unat_succ_if)
  qed
  have queued: "er_next_sequence r = 1 \<and> er_acknowledged_sequence r = 0 \<and> \<not> er_provider_read_paused r \<and> er_frames r = []
      \<and> er_terminal_outcome r = None" if "er_state r = Queued"
    using s pause that keys open_stream(3) [OF s] unfolding stream_ok_def by (simp add: pause_ok_def)
  have cancelled: "er_frames r = []" if "er_terminal_outcome r = Some OutcomeCancelled"
    using s stream_outcome(1) [OF s that] unfolding stream_ok_def by simp
  have sizes: "length (er_frames r) \<le> max_buffered_frames_per_stream c" "er_buffered_bytes r \<le> max_buffered_bytes_per_stream c"
    using s by (simp_all add: stream_ok_def)
  show ?thesis
    using frames seq outcome keys queued cancelled sizes restored_terminal [OF s good]
    by (simp add: restored_record_def durable_exchange_def not_less not_le)
qed

lemma restored_exchanges:
  "bt_ok (acc @ m) \<Longrightarrow>
     \<forall>e \<in> set m. er_model_exchange_id (snd e) = fst e \<and> record_ok (pv_sha256 env) c (snd e) \<and> restorable (snd e)
       \<and> index (fst e) = None \<Longrightarrow>
     config_fits c \<Longrightarrow>
     restore_exchanges env c route acc index (map (durable_exchange env route) (bt_values m))
       = Inr (acc @ m, \<lambda>x. if x \<in> fst ` set m then Some route else index x)"
proof (induction m arbitrary: acc index)
  case (Cons e m)
  note last = bt_ok_append [OF Cons.prems(1)]
  have e: "er_model_exchange_id (snd e) = fst e" "index (fst e) = None"
    "restored_record env c (durable_exchange env route (snd e)) = Inr (snd e)"
    using Cons.prems(2,3) restored_exchange by simp_all
  have "distinct (map fst (acc @ e # m))" using Cons.prems(1) by (rule bt_ok_distinct)
  then have "fst e \<notin> fst ` set m" by simp
  then have "restore_exchanges env c route (acc @ [e]) (index(fst e \<mapsto> route)) (map (durable_exchange env route) (bt_values m))
      = Inr ((acc @ [e]) @ m, \<lambda>x. if x \<in> fst ` set m then Some route else (index(fst e \<mapsto> route)) x)"
    using Cons.prems by (intro Cons.IH) (auto simp: image_iff)
  moreover have "(\<lambda>x. if x \<in> fst ` set m then Some route else (index(fst e \<mapsto> route)) x)
      = (\<lambda>x. if x \<in> fst ` set (e # m) then Some route else index x)" by auto
  moreover have "de_route_fingerprint (durable_exchange env route (snd e)) = route_fingerprint (pv_sha256 env) route"
    by (simp add: durable_exchange_def)
  ultimately show ?case using last e by (simp add: bt_values_def)
qed (simp add: bt_values_def)

end

fun routes_index :: "(model_request_route_key \<times> route_partition) list \<Rightarrow> string \<rightharpoonup> model_request_route_key" where
  "routes_index [] = Map.empty"
| "routes_index (e # m) = (\<lambda>x. if x \<in> fst ` set (rp_records (snd e)) then Some (fst e) else routes_index m x)"

lemma routes_index_Some: "routes_index m x = Some k \<Longrightarrow> \<exists>p. (k, p) \<in> set m \<and> x \<in> fst ` set (rp_records p)"
proof (induction m)
  case (Cons e m)
  then show ?case by (cases e; cases "x \<in> fst ` set (rp_records (snd e))") auto
qed simp

lemma routes_index_None: "routes_index m x = None \<longleftrightarrow> (\<forall>e \<in> set m. x \<notin> fst ` set (rp_records (snd e)))"
  by (induction m) auto

lemma pool_index:
  assumes "pool_ok sha pool"
  shows "routes_index (mp_routes pool) = mp_exchange_routes pool"
proof
  fix x
  have index: "mp_exchange_routes pool x = Some k \<longleftrightarrow> (\<exists>p. (k, p) \<in> set (mp_routes pool) \<and> x \<in> fst ` set (rp_records p))" for k
    using assms unfolding pool_ok_def by (simp add: bt_lookup_mem dom_map_of_conv_image_fst)
  show "routes_index (mp_routes pool) x = mp_exchange_routes pool x"
  proof (cases "routes_index (mp_routes pool) x")
    case None
    then have "mp_exchange_routes pool x \<noteq> Some k" for k
      using index [of k] unfolding routes_index_None by (metis snd_conv)
    then show ?thesis using None by (cases "mp_exchange_routes pool x") auto
  next
    case (Some k)
    with routes_index_Some index [of k] show ?thesis by metis
  qed
qed

lemma project_counts_ok:
  "(\<And>k. k \<in> set ks \<Longrightarrow> counts (rk_organization k, rk_workspace k, rk_project k) + length (filter (\<lambda>k'. same_project k' k) ks) \<le> max_routes c) \<Longrightarrow>
     max_routes c \<le> usize_max \<Longrightarrow> check_project_counts c counts ks = Inr ()"
proof (induction ks arbitrary: counts)
  case (Cons k ks)
  let ?project = "\<lambda>k. (rk_organization k, rk_workspace k, rk_project k)"
  have "counts (?project k) + length (filter (\<lambda>k'. same_project k' k) (k # ks)) \<le> max_routes c" using Cons.prems(1) by simp
  then have room: "counts (?project k) + 1 \<le> max_routes c" by (simp add: same_project_def)
  have "check_project_counts c (counts(?project k := counts (?project k) + 1)) ks = Inr ()"
  proof (rule Cons.IH [OF _ Cons.prems(2)])
    fix k' assume "k' \<in> set ks"
    with Cons.prems(1) [of k'] show "(counts(?project k := counts (?project k) + 1)) (?project k')
        + length (filter (\<lambda>k''. same_project k'' k') ks) \<le> max_routes c"
      by (auto simp: same_project_def split: if_splits)
  qed
  with room Cons.prems(2) show ?case by (simp add: usize_checked_add_def Let_def)
qed simp

context pool_codec
begin

lemma restored_route:
  assumes ok: "partition_ok (pv_sha256 env) c p" and fits: "config_fits c" and good: "list_all restorable (bt_values (rp_records p))"
    and fresh: "\<And>x. x \<in> fst ` set (rp_records p) \<Longrightarrow> index x = None"
  shows "restore_exchanges env c k [] index (map (durable_exchange env k) (bt_values (rp_records p)))
      = Inr (rp_records p, \<lambda>x. if x \<in> fst ` set (rp_records p) then Some k else index x)"
    and "waiting_consistent (rp_records p) (rp_waiting p)"
proof -
  have q: "queue_ok (pv_sha256 env) c p" using ok by (simp add: partition_ok_def)
  then have bt: "bt_ok (rp_records p)" by (simp add: queue_ok_def)
  have lookup: "map_of (rp_records p) (fst e) = Some (snd e)" if "e \<in> set (rp_records p)" for e
    using that bt by (simp add: bt_lookup_mem)
  have "\<forall>e \<in> set (rp_records p). er_model_exchange_id (snd e) = fst e \<and> record_ok (pv_sha256 env) c (snd e)
      \<and> restorable (snd e) \<and> index (fst e) = None"
    using queue_okD [OF q lookup] good fresh by (auto simp: list_all_iff bt_values_def)
  from restored_exchanges [OF _ this fits, of "[]"] bt
  show "restore_exchanges env c k [] index (map (durable_exchange env k) (bt_values (rp_records p)))
      = Inr (rp_records p, \<lambda>x. if x \<in> fst ` set (rp_records p) then Some k else index x)" by simp
  have "x \<in> set (rp_waiting p) \<longleftrightarrow> (\<exists>r. map_of (rp_records p) x = Some r \<and> er_state r = Queued)" for x
    using q unfolding queue_ok_def by blast
  moreover have "er_model_exchange_id (snd e) = fst e" if "e \<in> set (rp_records p)" for e
    using queue_okD(1) [OF q lookup [OF that]] .
  ultimately show "waiting_consistent (rp_records p) (rp_waiting p)"
    using lookup by (fastforce simp: waiting_consistent_def list_all_iff bt_values_def split: option.splits)
qed

lemma restored_routes:
  "bt_ok (acc @ m) \<Longrightarrow>
     \<forall>e \<in> set m. partition_ok (pv_sha256 env) c (snd e) \<and> validate_route_key (fst e) = Inr ()
       \<and> list_all restorable (bt_values (rp_records (snd e))) \<and> (\<forall>x \<in> fst ` set (rp_records (snd e)). index x = None) \<Longrightarrow>
     \<forall>e \<in> set m. \<forall>e' \<in> set m. e \<noteq> e' \<longrightarrow> fst ` set (rp_records (snd e)) \<inter> fst ` set (rp_records (snd e')) = {} \<Longrightarrow>
     config_fits c \<Longrightarrow>
     restore_routes env c acc index (map (\<lambda>(k, p). durable_route env k p) m) = Inr (acc @ m, index ++ routes_index m)"
proof (induction m arbitrary: acc index)
  case (Cons e m)
  obtain k p where e: "e = (k, p)" by fastforce
  note last = bt_ok_append [OF Cons.prems(1)]
  have p: "partition_ok (pv_sha256 env) c p" "validate_route_key k = Inr ()" "list_all restorable (bt_values (rp_records p))"
    "\<And>x. x \<in> fst ` set (rp_records p) \<Longrightarrow> index x = None" using Cons.prems(2) e by auto
  note restored = restored_route [where index = index, OF p(1) Cons.prems(4) p(3,4)]
  have limits: "length (rp_records p) \<le> max_exchange_records_per_route c" "length (rp_waiting p) \<le> max_waiting_per_route c"
    "active_count p \<le> max_active_per_route c" using p(1) by (simp_all add: partition_ok_def)
  have same: "\<lparr>rp_records = rp_records p, rp_waiting = rp_waiting p\<rparr> = p" by simp
  define index' where "index' = (\<lambda>x. if x \<in> fst ` set (rp_records p) then Some k else index x)"
  have notin: "e \<notin> set m" using bt_ok_distinct [OF Cons.prems(1)] by (force simp: image_iff)
  have "restore_routes env c (acc @ [e]) index' (map (\<lambda>(k, p). durable_route env k p) m) = Inr ((acc @ [e]) @ m, index' ++ routes_index m)"
  proof (rule Cons.IH)
    show "bt_ok ((acc @ [e]) @ m)" using Cons.prems(1) by simp
    show "\<forall>e \<in> set m. \<forall>e' \<in> set m. e \<noteq> e' \<longrightarrow> fst ` set (rp_records (snd e)) \<inter> fst ` set (rp_records (snd e')) = {}"
      using Cons.prems(3) by (meson list.set_intros(2))
    have "x \<notin> fst ` set (rp_records p)" if "e' \<in> set m" "x \<in> fst ` set (rp_records (snd e'))" for e' x
    proof -
      have "e \<noteq> e'" using notin that(1) by auto
      with Cons.prems(3) that(1) have "fst ` set (rp_records (snd e)) \<inter> fst ` set (rp_records (snd e')) = {}" by simp
      with that(2) show ?thesis by (auto simp: e)
    qed
    then show "\<forall>e \<in> set m. partition_ok (pv_sha256 env) c (snd e) \<and> validate_route_key (fst e) = Inr ()
       \<and> list_all restorable (bt_values (rp_records (snd e))) \<and> (\<forall>x \<in> fst ` set (rp_records (snd e)). index' x = None)"
      using Cons.prems(2) by (simp add: index'_def)
  qed (rule Cons.prems(4))
  moreover have "index' ++ routes_index m = index ++ routes_index (e # m)"
  proof
    fix x
    have "routes_index m x = None" if x: "x \<in> fst ` set (rp_records p)"
    proof -
      have "x \<notin> fst ` set (rp_records (snd e'))" if "e' \<in> set m" for e'
      proof -
        have "e \<noteq> e'" using notin that by auto
        with Cons.prems(3) that have "fst ` set (rp_records (snd e)) \<inter> fst ` set (rp_records (snd e')) = {}" by simp
        with x show ?thesis by (auto simp: e)
      qed
      then show ?thesis by (simp add: routes_index_None)
    qed
    then show "(index' ++ routes_index m) x = (index ++ routes_index (e # m)) x"
      by (auto simp: index'_def e map_add_def split: option.splits)
  qed
  moreover have "durable_route_key (durable_route env k p) = k" "dr_waiting (durable_route env k p) = rp_waiting p"
    "dr_exchanges (durable_route env k p) = map (durable_exchange env k) (bt_values (rp_records p))"
    by (simp_all add: durable_route_key_def durable_route_def)
  ultimately show ?case
    using restored limits p(2) last
    by (simp add: e Let_def index'_def [symmetric] not_less bt_values_def same)
qed simp

end

context pool_codec
begin

lemma restored_pool:
  assumes ok: "pool_ok (pv_sha256 env) pool" and good: "pool_restorable pool"
    and out: "export_authority env pool = Inr bytes" and new: "pool_new (mp_config pool) = Inr pool0"
  shows "restore_authority env pool0 bytes = Inr pool"
proof -
  let ?c = "mp_config pool"
  have bt: "bt_ok (mp_routes pool)" and fits: "config_fits ?c" using pool_okD [OF ok] by simp_all
  have start: "pool0 = \<lparr>mp_config = ?c, mp_routes = [], mp_exchange_routes = Map.empty\<rparr>"
    using new by (auto simp: pool_new_def config_validate_def rbind_Inr_iff)
  have lookup: "map_of (mp_routes pool) (fst e) = Some (snd e)" if "e \<in> set (mp_routes pool)" for e
    using that bt by (simp add: bt_lookup_mem)
  have index: "mp_exchange_routes pool x = Some (fst e)" if "e \<in> set (mp_routes pool)" "x \<in> fst ` set (rp_records (snd e))" for e x
    using ok lookup [OF that(1)] that(2) unfolding pool_ok_def by (simp add: dom_map_of_conv_image_fst)
  have disjoint: "fst ` set (rp_records (snd e)) \<inter> fst ` set (rp_records (snd e')) = {}"
    if "e \<in> set (mp_routes pool)" "e' \<in> set (mp_routes pool)" "e \<noteq> e'" for e e'
  proof (rule ccontr)
    assume "\<not> ?thesis"
    then obtain x where "x \<in> fst ` set (rp_records (snd e))" "x \<in> fst ` set (rp_records (snd e'))" by auto
    then have "fst e = fst e'" using index [OF that(1)] index [OF that(2)] by (metis option.inject)
    with lookup [OF that(1)] lookup [OF that(2)] that(3) show False by (simp add: prod_eq_iff)
  qed
  have each: "\<forall>e \<in> set (mp_routes pool). partition_ok (pv_sha256 env) ?c (snd e) \<and> validate_route_key (fst e) = Inr ()
      \<and> list_all restorable (bt_values (rp_records (snd e))) \<and> (\<forall>x \<in> fst ` set (rp_records (snd e)). Map.empty x = None)"
  proof
    fix e assume e: "e \<in> set (mp_routes pool)"
    have "partition_ok (pv_sha256 env) ?c (snd e)" using pool_okD(3) [OF ok lookup [OF e]] .
    moreover have "validate_route_key (fst e) = Inr ()" using ok lookup [OF e] unfolding pool_ok_def by blast
    moreover have "list_all restorable (bt_values (rp_records (snd e)))"
      using good e by (auto simp: pool_restorable_def list_all_iff bt_values_def)
    ultimately show "partition_ok (pv_sha256 env) ?c (snd e) \<and> validate_route_key (fst e) = Inr ()
      \<and> list_all restorable (bt_values (rp_records (snd e))) \<and> (\<forall>x \<in> fst ` set (rp_records (snd e)). Map.empty x = None)" by simp
  qed
  have "restore_routes env ?c [] Map.empty (map (\<lambda>(k, p). durable_route env k p) (mp_routes pool))
      = Inr ([] @ mp_routes pool, Map.empty ++ routes_index (mp_routes pool))"
    using bt disjoint by (intro restored_routes each fits) simp_all
  then have routes: "restore_routes env ?c [] Map.empty (da_routes (durable_authority env pool))
      = Inr (mp_routes pool, mp_exchange_routes pool)" by (simp add: pool_index [OF ok] durable_authority_def)
  have counts: "check_project_counts ?c (\<lambda>_. 0) (map fst (mp_routes pool)) = Inr ()"
    using ok fits by (intro project_counts_ok) (simp_all add: pool_ok_def config_fits_def project_route_count_def)
  have bytes: "pv_authority_to_vec env (durable_authority env pool) = Some bytes"
    using out by (simp add: export_authority_def ok_or_Inr_iff)
  have "da_schema (durable_authority env pool) = DURABLE_POOL_AUTHORITY_SCHEMA" "da_config (durable_authority env pool) = ?c"
    by (simp_all add: durable_authority_def)
  then show ?thesis
    using json [OF bytes] bytes routes counts
    by (simp add: restore_authority_def restored_authority_def start pool_is_empty_def)
qed

end


lemma restored_all:
  "restore_exchanges env c route acc index ds = Inr result \<Longrightarrow> d \<in> set ds \<Longrightarrow> \<exists>r. restored_record env c d = Inr r"
  by (induction ds arbitrary: acc index) (auto simp: rbind_Inr_iff split: if_splits)

lemma restored_everywhere:
  "restore_routes env c acc index ds = Inr result \<Longrightarrow> d \<in> set ds \<Longrightarrow> e \<in> set (dr_exchanges d) \<Longrightarrow>
     \<exists>r. restored_record env c e = Inr r"
  by (induction ds arbitrary: acc index)
     (auto simp: rbind_Inr_iff Let_def dest: restored_all split: if_splits prod.splits)

lemma restore_needs_records:
  assumes "restore_authority env pool0 bytes = Inr pool'" and "pv_authority_from_slice env bytes = Some (durable_authority env pool)"
    and "(route, p) \<in> set (mp_routes pool)" and "(x, r) \<in> set (rp_records p)"
  shows "\<exists>r'. restored_record env (mp_config pool0) (durable_exchange env route r) = Inr r'"
proof -
  from assms(1,2) obtain result where
    "restore_routes env (mp_config pool0) [] Map.empty (da_routes (durable_authority env pool)) = Inr result"
    by (auto simp: restore_authority_def restored_authority_def rbind_Inr_iff ok_or_Inr_iff)
  moreover have "durable_route env route p \<in> set (da_routes (durable_authority env pool))"
    using assms(3) by (force simp: durable_authority_def)
  moreover have "durable_exchange env route r \<in> set (dr_exchanges (durable_route env route p))"
    using assms(4) by (force simp: durable_route_def bt_values_def)
  ultimately show ?thesis by (rule restored_everywhere)
qed

lemma gap_not_restored:
  assumes "er_frames r = []" and "unat (er_acknowledged_sequence r) + 1 < unat (er_next_sequence r)"
  shows "restored_record env c (durable_exchange env route r) \<noteq> Inr r'"
  using assms by (auto simp: restored_record_def durable_exchange_def bt_values_def rbind_Inr_iff ensure_Inr_iff)

text \<open>
  C38. Not every reachable pool does: once a stream is cancelled while frames are unacknowledged, the authority
  that is exported cannot be restored. Cancelling drops the frames, but the restored record's frames have to
  fill the gap between its acknowledgement and its next sequence; the whole authority is then refused,
  every other request in it included.
\<close>

theorem cancelled_stream_blocks_restart:
  assumes json: "\<forall>d bytes. pv_authority_to_vec env d = Some bytes \<longrightarrow> pv_authority_from_slice env bytes = Some d"
    and new: "pool_new c = Inr pool0" and "config_fits c" and run: "pool = snd (pool_run (pv_sha256 env) pool0 ops)"
    and snap: "reconnect pool x = Inr snapshot" "ms_state snapshot = Active" "ms_buffered_frames snapshot > 0"
    and cancelled: "cancel pool x = Inr (receipt, pool')" and out: "export_authority env pool' = Inr bytes"
  shows "\<exists>e. restore_authority env pool0 bytes = Inl e"
proof (cases "restore_authority env pool0 bytes")
  case (Inr restored)
  have ok: "pool_ok (pv_sha256 env) pool" using pool_run_ok [OF new assms(3)] run by simp
  from snap obtain route p r where h: "partition_for pool x = Inr (route, p)" "map_of (rp_records p) x = Some r"
    and r: "er_state r = Active" "er_frames r \<noteq> []" by (auto simp: reconnect_def rbind_Inr_iff ok_or_Inr_iff)
  note part = pool_partition [OF ok h]
  let ?r = "ended_record r OutcomeCancelled"
  let ?p = "snd (grant_next (put_record p x ?r))"
  have "map fst (er_frames r) = seq_range (er_acknowledged_sequence r) (er_next_sequence r)"
    using part(4) r(1) by (simp add: stream_ok_def)
  with r(2) have "seq_range (er_acknowledged_sequence r) (er_next_sequence r) \<noteq> []" by auto
  then have gap: "er_frames ?r = []" "unat (er_acknowledged_sequence ?r) + 1 < unat (er_next_sequence ?r)"
    by (auto simp: ended_record_def seq_range_def)
  have "map_of (rp_records ?p) x = Some ?r" unfolding grant_next_def
    by (rule grant_keeps) (simp_all add: map_of_bt_insert)
  moreover have "pool' = put_partition pool route ?p"
    using cancelled h r(1) unfolding cancel_def by (auto elim!: terminate_cases)
  then have "map_of (mp_routes pool') route = Some ?p" by (simp add: map_of_bt_insert)
  moreover have "pv_authority_from_slice env bytes = Some (durable_authority env pool')"
    using out json by (simp add: export_authority_def ok_or_Inr_iff)
  ultimately obtain r' where "restored_record env (mp_config pool0) (durable_exchange env route ?r) = Inr r'"
    using restore_needs_records [OF Inr] map_of_SomeD by metis
  with gap_not_restored [OF gap] show ?thesis by blast
qed blast

section \<open>Samples\<close>

definition sample_pool_env :: "durable_pool_authority \<Rightarrow> pool_env" where
  "sample_pool_env d = \<lparr>pv_sha256 = sample_sha, pv_b64_encode = id, pv_b64_decode = Some,
     pv_exchange_to_vec = (\<lambda>_. None), pv_exchange_from_slice = (\<lambda>_. None),
     pv_authority_to_vec = (\<lambda>d'. if d' = d then Some ''authority'' else None),
     pv_authority_from_slice = (\<lambda>bytes. if bytes = ''authority'' then Some d else None)\<rparr>"

interpretation pool_json: pool_codec "sample_pool_env d" for d
  by unfold_locales (simp_all add: sample_pool_env_def split: if_splits)

text \<open>The authority of a pool does not depend on the JSON codec of the environment.\<close>

definition sample_authority :: "model_request_pool \<Rightarrow> durable_pool_authority" where
  "sample_authority pool = durable_authority (sample_pool_env \<lparr>da_schema = [], da_config = sample_config, da_routes = []\<rparr>) pool"

lemma sample_export: "export_authority (sample_pool_env (sample_authority pool)) pool = Inr ''authority''"
proof -
  have frame: "durable_frame (sample_pool_env d) = durable_frame (sample_pool_env d')" for d d'
    by (rule ext) (simp add: durable_frame_def sample_pool_env_def)
  have exchange: "durable_exchange (sample_pool_env d) = durable_exchange (sample_pool_env d')" for d d'
    by (intro ext) (simp add: durable_exchange_def frame [of d d'], simp add: sample_pool_env_def)
  have route: "durable_route (sample_pool_env d) = durable_route (sample_pool_env d')" for d d'
    by (intro ext) (simp add: durable_route_def exchange [of d d'])
  have "durable_authority (sample_pool_env d) pool = durable_authority (sample_pool_env d') pool" for d d'
    by (simp add: durable_authority_def route [of d d'])
  then show ?thesis by (simp add: export_authority_def sample_authority_def sample_pool_env_def)
qed

lemma sample_pool_serde:
  "\<forall>payload. pv_b64_decode (sample_pool_env d) (pv_b64_encode (sample_pool_env d) payload) = Some payload"
  "\<forall>d' bytes. pv_authority_to_vec (sample_pool_env d) d' = Some bytes \<longrightarrow> pv_authority_from_slice (sample_pool_env d) bytes = Some d'"
  using pool_json.b64 pool_json.json by simp_all


theorem cancelled_stream_blocks_restart_witness:
  "\<exists>receipt pool' e. cancel (snd (pool_run sample_sha sample_empty sample_ops)) ''mdl_1'' = Inr (receipt, pool')
     \<and> export_authority (sample_pool_env (sample_authority pool')) pool' = Inr ''authority''
     \<and> restore_authority (sample_pool_env (sample_authority pool')) sample_empty ''authority'' = Inl e"
proof -
  obtain s where s: "reconnect (sample_pool paused_record) ''mdl_1'' = Inr s" "ms_state s = Active" "ms_buffered_frames s > 0"
    by (simp add: reconnect_def partition_for_def route_for_def sample_exchange_valid paused_record_def)
  obtain receipt pool' where c: "cancel (sample_pool paused_record) ''mdl_1'' = Inr (receipt, pool')"
    by (simp add: cancel_def terminate_def partition_for_def route_for_def sample_exchange_valid paused_record_def put_record_def
      sample_record_def new_exchange_record_def sample_admission_def grant_next_def)
  from cancelled_stream_blocks_restart [OF sample_pool_serde(2) sample_new sample_paused [symmetric] s c sample_export] c
  show ?thesis by (auto simp: sample_paused sample_export)
qed

end
