(* ===== verification/Work_Runs.thy ===== *)
theory Work_Runs
  imports Machines
begin

text \<open>
  \<^verbatim>\<open>crates/winwincode-delivery/src/application/workrun.rs\<close>: the work of a delivery. A contract is split into
  items with dependencies; runs are attempts at an item, by a writer that produces a candidate or by a verifier
  that reads one. The aggregate validates itself, decides which item may start, appends runs and settles them.

  An \<^verbatim>\<open>i64\<close> is an \<open>int\<close>, with the range of the additions written out. The calendar checks of the \<^verbatim>\<open>time\<close>
  crate are the parameter \<open>calendar\<close>.
\<close>

section \<open>Values\<close>

record calendar =
  cal_date :: "nat \<Rightarrow> nat \<Rightarrow> nat \<Rightarrow> bool"
  cal_time :: "nat \<Rightarrow> nat \<Rightarrow> nat \<Rightarrow> nat \<Rightarrow> bool"

definition i64_checked_add :: "int \<Rightarrow> int \<Rightarrow> int option" where
  "i64_checked_add a b = (if - (2 ^ 63) \<le> a + b \<and> a + b < 2 ^ 63 then Some (a + b) else None)"

definition u64_try_from :: "int \<Rightarrow> u64 option" where
  "u64_try_from a = (if 0 \<le> a \<and> a < 2 ^ 64 then Some (word_of_int a) else None)"

definition crockford_byte :: "char \<Rightarrow> bool" where
  "crockford_byte c \<longleftrightarrow> is_ascii_digit c
     \<or> (65 \<le> byte c \<and> byte c \<le> 72) \<or> (74 \<le> byte c \<and> byte c \<le> 75) \<or> (77 \<le> byte c \<and> byte c \<le> 78)
     \<or> (80 \<le> byte c \<and> byte c \<le> 84) \<or> (86 \<le> byte c \<and> byte c \<le> 90)"

definition is_canonical_prefixed_id :: "string \<Rightarrow> string \<Rightarrow> bool" where
  "is_canonical_prefixed_id value prefix =
     (case strip_prefix prefix value of
        None \<Rightarrow> False | Some identifier \<Rightarrow> length identifier = 26 \<and> list_all crockford_byte identifier)"

definition is_canonical_delivery_id :: "string \<Rightarrow> bool" where
  "is_canonical_delivery_id value = is_canonical_prefixed_id value ''dlv_''"

definition valid_revision :: "int \<Rightarrow> bool" where
  "valid_revision v \<longleftrightarrow> 1 \<le> v \<and> v \<le> 9007199254740991"

definition bounded_chars :: "string \<Rightarrow> nat \<Rightarrow> nat \<Rightarrow> bool" where
  "bounded_chars value minimum maximum \<longleftrightarrow>
     minimum \<le> min (chars_count value) (maximum + 1) \<and> min (chars_count value) (maximum + 1) \<le> maximum"

definition valid_text_list :: "string list \<Rightarrow> bool \<Rightarrow> bool" where
  "valid_text_list values unique \<longleftrightarrow>
     length values \<le> 1000 \<and> list_all (\<lambda>v. bounded_chars v 1 65536) values
     \<and> (\<not> unique \<or> card (set values) = length values)"

definition number_at :: "string \<Rightarrow> nat \<Rightarrow> nat \<Rightarrow> nat option" where
  "number_at value start stop =
     (let digits = take (stop - start) (drop start value)
      in if list_all is_ascii_digit digits then Some (decimal_value 0 digits) else None)"

definition valid_created_at :: "calendar \<Rightarrow> string \<Rightarrow> bool" where
  "valid_created_at cal value \<longleftrightarrow>
     length value = 24
     \<and> list_all (\<lambda>(index, separator). value ! index = separator)
         [(4, CHR ''-''), (7, CHR ''-''), (10, CHR ''T''), (13, CHR '':''), (16, CHR '':''), (19, CHR ''.''), (23, CHR ''Z'')]
     \<and> (case (number_at value 0 4, number_at value 5 7, number_at value 8 10, number_at value 11 13,
              number_at value 14 16, number_at value 17 19, number_at value 20 23) of
          (Some year, Some month, Some day, Some hour, Some minute, Some second, Some millis) \<Rightarrow>
            cal_date cal year month day \<and> cal_time cal hour minute second millis
        | _ \<Rightarrow> False)"

section \<open>Contract, items and runs\<close>

datatype work_item_state =
    ItemBacklog
  | ItemReady
  | ItemInProgress
  | ItemWaitingDependency
  | ItemWaitingHuman
  | ItemCandidateReady
  | ItemValidating
  | ItemRework
  | ItemDone
  | ItemFailed
  | ItemCancelled

datatype work_run_state = RunQueued | RunLeased | RunRunning | RunCandidateReady | RunSettled | RunFailed | RunCancelled

record work_criterion =
  wc_description :: string
  wc_id :: string
  wc_required :: bool
  wc_required_evidence_class :: string
  wc_verification_method :: "string option"

record work_contract =
  ct_constraints :: "string list"
  ct_created_at :: string
  ct_criteria :: "work_criterion list"
  ct_id :: string
  ct_objective :: string
  ct_protected_scope :: "string list"
  ct_required_human_authority :: string
  ct_revision :: int
  ct_schema_version :: int
  ct_scope :: "string list"

record work_item =
  wi_criterion_ids :: "string list"
  wi_depends_on :: "string list"
  wi_goal :: string
  wi_id :: string
  wi_revision :: int
  wi_schema_version :: int
  wi_state :: work_item_state
  wi_title :: string
  wi_work_contract_id :: string
  wi_work_contract_revision :: int

record work_run =
  run_attempt :: int
  run_candidate_digest :: "string option"
  run_codex_thread_id :: "string option"
  run_contract_revision :: int
  run_execution_job_id :: string
  run_fencing_token :: string
  run_id :: string
  run_lease_id :: string
  run_product_session_id :: "string option"
  run_revision :: int
  run_schema_version :: int
  run_state :: work_run_state
  run_work_contract_id :: string
  run_worker_id :: string
  run_worker_instance_id :: string
  run_worker_session_id :: string
  run_work_item_id :: string
  run_work_item_revision :: int

record work_run_aggregate =
  ag_schema_version :: int
  ag_contract :: work_contract
  ag_items :: "work_item list"
  ag_runs :: "work_run list"

datatype scheduling_error =
    InvalidAggregate
  | ContractRevisionMismatch
  | NoRunnableWorkItem
  | InvalidAttempt
  | StaleWorkItem
  | InvalidTransition

definition active_run :: "work_run \<Rightarrow> bool" where
  "active_run r \<longleftrightarrow> run_state r = RunLeased \<or> run_state r = RunRunning"

section \<open>Dependencies\<close>

text \<open>One turn of the loop of \<^verbatim>\<open>acyclic_items\<close>: the items in order, each resolved when its dependencies are.\<close>

fun resolve_pass :: "work_item list \<Rightarrow> string list \<Rightarrow> string list" where
  "resolve_pass [] resolved = resolved"
| "resolve_pass (i # items) resolved =
     resolve_pass items
       (if list_all (\<lambda>d. d \<in> set resolved) (wi_depends_on i) \<and> wi_id i \<notin> set resolved then wi_id i # resolved
        else resolved)"

lemma resolve_pass_extends:
  "\<exists>new. resolve_pass items resolved = new @ resolved \<and> set new \<subseteq> wi_id ` set items \<and> set new \<inter> set resolved = {}"
proof (induction items arbitrary: resolved)
  case (Cons i items)
  let ?r = "if list_all (\<lambda>d. d \<in> set resolved) (wi_depends_on i) \<and> wi_id i \<notin> set resolved then wi_id i # resolved
        else resolved"
  from Cons.IH [of ?r] obtain new where
    new: "resolve_pass items ?r = new @ ?r" "set new \<subseteq> wi_id ` set items" "set new \<inter> set ?r = {}" by blast
  show ?case
  proof (cases "?r = resolved")
    case True
    with new show ?thesis by auto
  next
    case False
    then have "?r = [wi_id i] @ resolved" and "wi_id i \<notin> set resolved" by (auto split: if_splits)
    with new show ?thesis by (intro exI [of _ "new @ [wi_id i]"]) auto
  qed
qed simp

function resolve_loop :: "work_item list \<Rightarrow> string list \<Rightarrow> bool" where
  "resolve_loop items resolved =
     (let after = resolve_pass items resolved in
      if length after = length items then True
      else if length after = length resolved then False
      else resolve_loop items after)"
  by auto
termination
proof (relation "measure (\<lambda>(items, resolved). card (wi_id ` set items - set resolved))")
  fix items resolved after
  assume after: "after = resolve_pass items resolved" and grown: "length after \<noteq> length resolved"
  obtain new where new: "after = new @ resolved" "set new \<subseteq> wi_id ` set items" "set new \<inter> set resolved = {}"
    using resolve_pass_extends [of items resolved] after by blast
  with grown have "new \<noteq> []" by auto
  with new have "wi_id ` set items - set after \<subset> wi_id ` set items - set resolved" by (cases new) auto
  then show "((items, after), (items, resolved)) \<in> measure (\<lambda>(items, resolved). card (wi_id ` set items - set resolved))"
    by (simp add: psubset_card_mono)
qed simp

definition acyclic_items :: "work_item list \<Rightarrow> bool" where
  "acyclic_items items = resolve_loop items []"

section \<open>Validation\<close>

definition lower_hex :: "char \<Rightarrow> bool" where
  "lower_hex c \<longleftrightarrow> is_ascii_digit c \<or> (97 \<le> byte c \<and> byte c \<le> 102)"

definition invalid_digest :: "string \<Rightarrow> bool" where
  "invalid_digest digest \<longleftrightarrow>
     \<not> (case strip_prefix ''sha256:'' digest of None \<Rightarrow> False | Some hex \<Rightarrow> length hex = 64 \<and> list_all lower_hex hex)"

definition invalid_run_fields :: "work_run \<Rightarrow> bool" where
  "invalid_run_fields r \<longleftrightarrow>
     \<not> valid_revision (run_revision r)
     \<or> \<not> is_canonical_prefixed_id (run_id r) ''wrn_''
     \<or> \<not> is_canonical_prefixed_id (run_execution_job_id r) ''job_''
     \<or> \<not> is_canonical_prefixed_id (run_worker_id r) ''wrk_''
     \<or> \<not> is_canonical_prefixed_id (run_worker_instance_id r) ''wki_''
     \<or> \<not> is_canonical_prefixed_id (run_worker_session_id r) ''wsn_''
     \<or> \<not> is_canonical_prefixed_id (run_lease_id r) ''lse_''
     \<or> (case run_product_session_id r of None \<Rightarrow> False | Some x \<Rightarrow> \<not> is_canonical_prefixed_id x ''psn_'')
     \<or> (case run_codex_thread_id r of None \<Rightarrow> False | Some x \<Rightarrow> \<not> is_canonical_prefixed_id x ''cdx_'')
     \<or> take 1 (run_fencing_token r) = ''0''
     \<or> length (run_fencing_token r) > 20
     \<or> run_fencing_token r = []
     \<or> \<not> list_all is_ascii_digit (run_fencing_token r)
     \<or> (case run_candidate_digest r of None \<Rightarrow> False | Some digest \<Rightarrow> invalid_digest digest)"

definition invalid_contract :: "calendar \<Rightarrow> work_contract \<Rightarrow> bool" where
  "invalid_contract cal c \<longleftrightarrow>
     \<not> valid_revision (ct_revision c)
     \<or> \<not> is_canonical_prefixed_id (ct_id c) ''wct_''
     \<or> \<not> bounded_chars (ct_objective c) 1 65536
     \<or> \<not> valid_created_at cal (ct_created_at c)
     \<or> \<not> valid_text_list (ct_scope c) True
     \<or> \<not> valid_text_list (ct_protected_scope c) True
     \<or> \<not> valid_text_list (ct_constraints c) False
     \<or> ct_required_human_authority c \<notin> {''none'', ''approval'', ''attention''}
     \<or> list_ex (\<lambda>k. \<not> is_canonical_prefixed_id (wc_id k) ''crt_'' \<or> \<not> bounded_chars (wc_description k) 1 65536
          \<or> wc_required_evidence_class k \<noteq> ''machine''
          \<or> (case wc_verification_method k of None \<Rightarrow> False | Some v \<Rightarrow> \<not> bounded_chars v 0 65536)) (ct_criteria c)
     \<or> ct_criteria c = []
     \<or> length (ct_criteria c) > 1000"

definition invalid_item :: "work_contract \<Rightarrow> work_item list \<Rightarrow> work_item \<Rightarrow> bool" where
  "invalid_item c items i \<longleftrightarrow>
     wi_work_contract_id i \<noteq> ct_id c
     \<or> wi_work_contract_revision i \<noteq> ct_revision c
     \<or> \<not> valid_revision (wi_revision i)
     \<or> \<not> is_canonical_prefixed_id (wi_id i) ''wit_''
     \<or> \<not> bounded_chars (wi_title i) 1 500
     \<or> \<not> bounded_chars (wi_goal i) 1 65536
     \<or> length (wi_criterion_ids i) > 1000
     \<or> length (wi_depends_on i) > 1000
     \<or> wi_criterion_ids i = []
     \<or> card (set (wi_criterion_ids i)) \<noteq> length (wi_criterion_ids i)
     \<or> list_ex (\<lambda>x. x \<notin> set (map wc_id (ct_criteria c))) (wi_criterion_ids i)
     \<or> card (set (wi_depends_on i)) \<noteq> length (wi_depends_on i)
     \<or> list_ex (\<lambda>x. x = wi_id i \<or> x \<notin> set (map wi_id items)) (wi_depends_on i)"

definition invalid_run :: "work_run_aggregate \<Rightarrow> work_item \<Rightarrow> work_run \<Rightarrow> bool" where
  "invalid_run ag item r \<longleftrightarrow>
     run_work_contract_id r \<noteq> ct_id (ag_contract ag)
     \<or> run_contract_revision r \<noteq> ct_revision (ag_contract ag)
     \<or> \<not> valid_revision (run_work_item_revision r)
     \<or> run_work_item_revision r > wi_revision item
     \<or> invalid_run_fields r
     \<or> \<not> (1 \<le> run_attempt r \<and> run_attempt r \<le> 1000)"

fun check_runs ::
    "work_run_aggregate \<Rightarrow> string set \<Rightarrow> (string \<times> int) set \<Rightarrow> string set \<Rightarrow> string set \<Rightarrow> work_run list \<Rightarrow> scheduling_error + unit" where
  "check_runs ag run_ids attempts active_items candidate_items [] = Inr ()"
| "check_runs ag run_ids attempts active_items candidate_items (r # rs) =
     rbind (ok_or (find (\<lambda>i. wi_id i = run_work_item_id r) (ag_items ag)) InvalidAggregate) (\<lambda>item.
     if invalid_run ag item r \<or> run_id r \<in> run_ids \<or> (run_execution_job_id r, run_attempt r) \<in> attempts
     then Inl InvalidAggregate
     else if run_state r = RunCandidateReady \<and> run_work_item_id r \<in> candidate_items then Inl InvalidAggregate
     else if active_run r \<and> run_work_item_id r \<in> active_items then Inl InvalidAggregate
     else check_runs ag (insert (run_id r) run_ids) (insert (run_execution_job_id r, run_attempt r) attempts)
       (if active_run r then insert (run_work_item_id r) active_items else active_items)
       (if run_state r = RunCandidateReady then insert (run_work_item_id r) candidate_items else candidate_items) rs)"

definition validate_aggregate :: "calendar \<Rightarrow> work_run_aggregate \<Rightarrow> scheduling_error + unit" where
  "validate_aggregate cal ag =
     (if invalid_contract cal (ag_contract ag) \<or> length (ag_items ag) > 1000 \<or> length (ag_runs ag) > 1000
      then Inl InvalidAggregate
      else if card (set (map wc_id (ct_criteria (ag_contract ag)))) \<noteq> length (ct_criteria (ag_contract ag))
      then Inl InvalidAggregate
      else if card (set (map wi_id (ag_items ag))) \<noteq> length (ag_items ag) then Inl InvalidAggregate
      else if list_ex (invalid_item (ag_contract ag) (ag_items ag)) (ag_items ag) then Inl InvalidAggregate
      else if \<not> acyclic_items (ag_items ag) then Inl InvalidAggregate
      else check_runs ag {} {} {} {} (ag_runs ag))"

section \<open>States\<close>

fun work_item_transition_allowed :: "work_item_state \<Rightarrow> work_item_state \<Rightarrow> bool" where
  "work_item_transition_allowed from to =
     (from \<in> {ItemBacklog, ItemWaitingDependency, ItemRework, ItemFailed} \<and> to \<in> {ItemReady, ItemCancelled}
      \<or> from = ItemReady \<and> to \<in> {ItemInProgress, ItemCancelled}
      \<or> from = ItemInProgress
          \<and> to \<in> {ItemReady, ItemWaitingDependency, ItemWaitingHuman, ItemCandidateReady, ItemFailed, ItemCancelled}
      \<or> from = ItemWaitingHuman \<and> to \<in> {ItemReady, ItemRework, ItemCancelled}
      \<or> from = ItemCandidateReady
          \<and> to \<in> {ItemReady, ItemValidating, ItemDone, ItemRework, ItemFailed, ItemCancelled}
      \<or> from = ItemValidating \<and> to \<in> {ItemDone, ItemRework, ItemFailed, ItemWaitingHuman, ItemCancelled}
      \<or> from = ItemDone \<and> to = ItemRework)"

definition dependency_done :: "work_item list \<Rightarrow> string \<Rightarrow> bool" where
  "dependency_done items d = list_ex (\<lambda>k. wi_id k = d \<and> wi_state k = ItemDone) items"

definition effective_work_item_state :: "work_item \<Rightarrow> work_item list \<Rightarrow> work_item_state" where
  "effective_work_item_state i items =
     (if wi_state i \<in> {ItemReady, ItemWaitingDependency} \<and> list_ex (\<lambda>d. \<not> dependency_done items d) (wi_depends_on i)
      then ItemWaitingDependency
      else if wi_state i = ItemWaitingDependency then ItemReady
      else wi_state i)"

definition work_item_is_runnable :: "work_item \<Rightarrow> work_item list \<Rightarrow> bool" where
  "work_item_is_runnable i items \<longleftrightarrow> effective_work_item_state i items = ItemReady"

definition dependency_blockers :: "work_run_aggregate \<Rightarrow> work_item \<Rightarrow> string list" where
  "dependency_blockers ag i = filter (\<lambda>d. \<not> dependency_done (ag_items ag) d) (wi_depends_on i)"

definition candidate_consumer_failure :: "work_run_aggregate \<Rightarrow> work_item_state option" where
  "candidate_consumer_failure ag =
     (let latest = (\<lambda>st. list_ex (\<lambda>i. wi_state i = ItemCandidateReady
            \<and> (case find (\<lambda>r. run_work_item_id r = wi_id i \<and> run_work_item_revision r = wi_revision i) (rev (ag_runs ag)) of
                 None \<Rightarrow> False | Some r \<Rightarrow> run_state r = st)) (ag_items ag))
      in if latest RunFailed then Some ItemFailed else if latest RunCancelled then Some ItemCancelled else None)"

definition summary_state :: "work_run_aggregate \<Rightarrow> bool \<Rightarrow> work_item_state" where
  "summary_state ag has_open_attention =
     (let holds = (\<lambda>st. list_ex (\<lambda>i. wi_state i = st) (ag_items ag)) in
      if has_open_attention \<or> holds ItemWaitingHuman then ItemWaitingHuman
      else if ag_items ag = [] then ItemBacklog
      else case find holds [ItemFailed, ItemRework, ItemValidating, ItemCandidateReady, ItemInProgress] of
        Some st \<Rightarrow>
          if st = ItemCandidateReady
          then (case candidate_consumer_failure ag of None \<Rightarrow> st | Some failure \<Rightarrow> failure)
          else st
      | None \<Rightarrow>
          if list_ex (\<lambda>r. run_state r \<in> {RunQueued, RunLeased, RunRunning}) (ag_runs ag) then ItemInProgress
          else if list_ex (\<lambda>r. run_state r = RunCandidateReady) (ag_runs ag) then ItemCandidateReady
          else if list_all (\<lambda>i. wi_state i = ItemDone) (ag_items ag) then ItemDone
          else if list_all (\<lambda>i. wi_state i = ItemCancelled) (ag_items ag) then ItemCancelled
          else case find holds [ItemReady, ItemWaitingDependency, ItemBacklog] of
            Some st \<Rightarrow> st | None \<Rightarrow> ItemCancelled)"

section \<open>Operations\<close>

text \<open>\<^verbatim>\<open>iter_mut().find(...)\<close> followed by an assignment: the first match is changed.\<close>

fun update_first :: "('a \<Rightarrow> bool) \<Rightarrow> ('a \<Rightarrow> 'a) \<Rightarrow> 'a list \<Rightarrow> 'a list" where
  "update_first P f [] = []"
| "update_first P f (x # xs) = (if P x then f x # xs else x # update_first P f xs)"

definition transition_item_state ::
    "work_run_aggregate \<Rightarrow> string \<Rightarrow> work_item_state \<Rightarrow> scheduling_error + work_run_aggregate" where
  "transition_item_state ag x target =
     rbind (ok_or (find (\<lambda>i. wi_id i = x) (ag_items ag)) StaleWorkItem) (\<lambda>i.
     if \<not> work_item_transition_allowed (wi_state i) target then Inl InvalidTransition
     else Inr (ag\<lparr>ag_items := update_first (\<lambda>i. wi_id i = x) (\<lambda>i. i\<lparr>wi_state := target\<rparr>) (ag_items ag)\<rparr>))"

record work_run_start =
  ws_work_item :: work_item
  ws_attempt :: int

definition start_next_work_run ::
    "work_item list \<Rightarrow> int \<Rightarrow> string set \<Rightarrow> scheduling_error + work_run_start" where
  "start_next_work_run items expected_contract_revision active_work_item_ids =
     rbind (ok_or (find (\<lambda>i. wi_work_contract_revision i = expected_contract_revision
         \<and> work_item_is_runnable i items \<and> wi_id i \<notin> active_work_item_ids) items) NoRunnableWorkItem) (\<lambda>i.
     Inr \<lparr>ws_work_item = i\<lparr>wi_state := ItemInProgress\<rparr>,
          ws_attempt = foldr max (map (\<lambda>_. 0) (filter (\<lambda>k. wi_id k = wi_id i) items)) 0 + 1\<rparr>)"

definition held_run :: "work_run \<Rightarrow> bool" where
  "held_run r \<longleftrightarrow> active_run r \<or> run_state r = RunCandidateReady"

definition start_item :: "calendar \<Rightarrow> work_run_aggregate \<Rightarrow> string \<Rightarrow> scheduling_error + work_run_start" where
  "start_item cal ag x =
     rbind (validate_aggregate cal ag) (\<lambda>_.
     rbind (ok_or (find (\<lambda>i. wi_id i = x \<and> work_item_is_runnable i (ag_items ag)
         \<and> \<not> list_ex (\<lambda>r. run_work_item_id r = x \<and> held_run r) (ag_runs ag)) (ag_items ag)) NoRunnableWorkItem) (\<lambda>i.
     Inr \<lparr>ws_work_item = i\<lparr>wi_state := ItemInProgress\<rparr>, ws_attempt = 1\<rparr>))"

definition start_next :: "calendar \<Rightarrow> work_run_aggregate \<Rightarrow> scheduling_error + work_run_start" where
  "start_next cal ag =
     rbind (validate_aggregate cal ag) (\<lambda>_.
     rbind (start_next_work_run (ag_items ag) (ct_revision (ag_contract ag))
         (set (map run_work_item_id (filter held_run (ag_runs ag))))) (\<lambda>start.
     start_item cal ag (wi_id (ws_work_item start))))"

definition start_verification :: "calendar \<Rightarrow> work_run_aggregate \<Rightarrow> string \<Rightarrow> scheduling_error + work_run_start" where
  "start_verification cal ag x =
     rbind (validate_aggregate cal ag) (\<lambda>_.
     rbind (ok_or (find (\<lambda>i. wi_id i = x \<and> wi_state i = ItemCandidateReady) (ag_items ag)) NoRunnableWorkItem) (\<lambda>i.
     if \<not> list_ex (\<lambda>r. run_work_item_id r = x \<and> run_state r = RunCandidateReady) (ag_runs ag)
        \<or> list_ex (\<lambda>r. run_work_item_id r = x \<and> active_run r) (ag_runs ag)
     then Inl NoRunnableWorkItem
     else Inr \<lparr>ws_work_item = i, ws_attempt = 1\<rparr>))"

definition last_attempt :: "work_run list \<Rightarrow> string \<Rightarrow> int" where
  "last_attempt runs job =
     (let attempts = map run_attempt (filter (\<lambda>r. run_execution_job_id r = job) runs)
      in if attempts = [] then 0 else Max (set attempts))"

definition append_run_mode ::
    "calendar \<Rightarrow> work_run_aggregate \<Rightarrow> work_run \<Rightarrow> bool \<Rightarrow> scheduling_error + work_run_aggregate" where
  "append_run_mode cal ag r read_only =
     rbind (validate_aggregate cal ag) (\<lambda>_.
     rbind (if read_only then rbind (start_verification cal ag (run_work_item_id r)) (\<lambda>_. Inr ()) else Inr ()) (\<lambda>_.
     rbind (ensure (active_run r) StaleWorkItem) (\<lambda>_.
     rbind (ensure (\<not> (run_work_contract_id r \<noteq> ct_id (ag_contract ag)
         \<or> run_contract_revision r \<noteq> ct_revision (ag_contract ag))) ContractRevisionMismatch) (\<lambda>_.
     rbind (ok_or (find (\<lambda>i. wi_id i = run_work_item_id r) (ag_items ag)) NoRunnableWorkItem) (\<lambda>i.
     rbind (ensure (\<not> (\<not> read_only \<and> \<not> work_item_is_runnable i (ag_items ag))) NoRunnableWorkItem) (\<lambda>_.
     rbind (ensure (\<not> (wi_work_contract_id i \<noteq> run_work_contract_id r
         \<or> wi_work_contract_revision i \<noteq> run_contract_revision r
         \<or> wi_revision i \<noteq> run_work_item_revision r)) StaleWorkItem) (\<lambda>_.
     rbind (ensure (\<not> list_ex (\<lambda>e. run_id e = run_id r) (ag_runs ag)) StaleWorkItem) (\<lambda>_.
     rbind (ensure (\<not> (\<not> read_only
         \<and> list_ex (\<lambda>e. run_work_item_id e = run_work_item_id r \<and> held_run e) (ag_runs ag))) StaleWorkItem) (\<lambda>_.
     rbind (ok_or (i64_checked_add (last_attempt (ag_runs ag) (run_execution_job_id r)) 1) InvalidAttempt) (\<lambda>next.
     let expected = (if read_only then 1 else next) in
     rbind (ensure (\<not> (read_only \<and> list_ex (\<lambda>e. run_execution_job_id e = run_execution_job_id r) (ag_runs ag)
         \<or> run_attempt r \<noteq> expected \<or> \<not> (1 \<le> run_attempt r \<and> run_attempt r \<le> 1000))) InvalidAttempt) (\<lambda>_.
     rbind
       (if \<not> read_only \<and> active_run r
        then
          rbind (if list_ex (\<lambda>i. wi_id i = run_work_item_id r \<and> wi_state i = ItemWaitingDependency) (ag_items ag)
                 then transition_item_state ag (run_work_item_id r) ItemReady else Inr ag) (\<lambda>ag.
          transition_item_state ag (run_work_item_id r) ItemInProgress)
        else Inr ag) (\<lambda>moved.
     let appended = moved\<lparr>ag_runs := ag_runs moved @ [r]\<rparr> in
     rbind (validate_aggregate cal appended) (\<lambda>_. Inr appended)))))))))))))"

definition append_run :: "calendar \<Rightarrow> work_run_aggregate \<Rightarrow> work_run \<Rightarrow> scheduling_error + work_run_aggregate" where
  "append_run cal ag r = append_run_mode cal ag r False"

definition append_verification_run :: "calendar \<Rightarrow> work_run_aggregate \<Rightarrow> work_run \<Rightarrow> scheduling_error + work_run_aggregate" where
  "append_verification_run cal ag r = append_run_mode cal ag r True"

text \<open>
  Completing a candidate changes the aggregate before the last validation, so what is left behind is part of
  the result.
\<close>

definition next_revision_of :: "work_run \<Rightarrow> int option" where
  "next_revision_of r =
     (case i64_checked_add (run_revision r) 1 of None \<Rightarrow> None | Some v \<Rightarrow> if valid_revision v then Some v else None)"

definition set_run :: "work_run_aggregate \<Rightarrow> string \<Rightarrow> work_run_state \<Rightarrow> int \<Rightarrow> work_run_aggregate" where
  "set_run ag x state revision =
     ag\<lparr>ag_runs := update_first (\<lambda>r. run_id r = x) (\<lambda>r. r\<lparr>run_state := state, run_revision := revision\<rparr>) (ag_runs ag)\<rparr>"

definition complete_candidate ::
    "calendar \<Rightarrow> work_run_aggregate \<Rightarrow> string \<Rightarrow> (scheduling_error + unit) \<times> work_run_aggregate" where
  "complete_candidate cal ag x =
     (case
        rbind (validate_aggregate cal ag) (\<lambda>_.
        rbind (ok_or (find (\<lambda>r. run_id r = x \<and> run_state r = RunCandidateReady) (ag_runs ag)) StaleWorkItem) (\<lambda>r.
        if \<not> list_ex (\<lambda>i. wi_id i = run_work_item_id r \<and> wi_revision i = run_work_item_revision r
              \<and> wi_state i = ItemCandidateReady) (ag_items ag)
           \<or> list_ex (\<lambda>e. run_work_item_id e = run_work_item_id r \<and> active_run e) (ag_runs ag)
        then Inl StaleWorkItem
        else
          rbind (ok_or (next_revision_of r) StaleWorkItem) (\<lambda>revision.
          rbind (transition_item_state ag (run_work_item_id r) ItemDone) (\<lambda>ag.
          Inr (ag\<lparr>ag_runs := update_first (\<lambda>r. run_id r = x \<and> run_state r = RunCandidateReady)
             (\<lambda>r. r\<lparr>run_state := RunSettled, run_revision := revision\<rparr>) (ag_runs ag)\<rparr>)))))
      of Inl e \<Rightarrow> (Inl e, ag)
       | Inr ag \<Rightarrow> (validate_aggregate cal ag, ag))"

section \<open>Terminal outcomes\<close>

datatype terminal_outcome_status = OutcomeOk | OutcomeFail | OutcomeInfrastructureError | OutcomeCancel

record active_lease_identity =
  al_execution_job_id :: string
  al_attempt :: u64
  al_lease_id :: string
  al_fencing_token :: string
  al_worker_id :: string
  al_worker_instance_id :: string
  al_worker_session_id :: string

record terminal_artifact_reference =
  ta_artifact_id :: string
  ta_digest :: string

record terminal_outcome_metadata =
  tm_codex_thread_id :: "string option"
  tm_finished_at_millis :: u64
  tm_last_event_sequence :: int
  tm_artifacts :: "terminal_artifact_reference list"

record verified_terminal_outcome =
  vt_work_run_id :: string
  vt_lease_identity :: active_lease_identity
  vt_status :: terminal_outcome_status
  vt_metadata :: terminal_outcome_metadata

datatype work_run_terminal_outcome = TerminalCandidateReady | TerminalFailed | TerminalCancelled

record work_run_terminal_fact =
  tf_work_run :: work_run
  tf_attempt :: int
  tf_outcome :: work_run_terminal_outcome

definition from_verified :: "work_run \<Rightarrow> verified_terminal_outcome \<Rightarrow> scheduling_error + work_run_terminal_fact" where
  "from_verified r v =
     (let lease = vt_lease_identity v in
      if vt_work_run_id v \<noteq> run_id r
        \<or> al_execution_job_id lease \<noteq> run_execution_job_id r
        \<or> al_lease_id lease \<noteq> run_lease_id r
        \<or> al_worker_id lease \<noteq> run_worker_id r
        \<or> al_worker_instance_id lease \<noteq> run_worker_instance_id r
        \<or> al_worker_session_id lease \<noteq> run_worker_session_id r
        \<or> tm_codex_thread_id (vt_metadata v) \<noteq> run_codex_thread_id r
        \<or> u64_try_from (run_attempt r) \<noteq> Some (al_attempt lease)
        \<or> al_fencing_token lease \<noteq> run_fencing_token r
      then Inl StaleWorkItem
      else Inr \<lparr>tf_work_run = r, tf_attempt = run_attempt r,
        tf_outcome = (case vt_status v of
            OutcomeOk \<Rightarrow> TerminalCandidateReady
          | OutcomeFail \<Rightarrow> TerminalFailed
          | OutcomeInfrastructureError \<Rightarrow> TerminalFailed
          | OutcomeCancel \<Rightarrow> TerminalCancelled)\<rparr>)"

definition settle_fact :: "work_run_aggregate \<Rightarrow> work_run_terminal_fact \<Rightarrow> scheduling_error + work_run_aggregate" where
  "settle_fact ag tf =
     rbind (ok_or (find (\<lambda>r. run_id r = run_id (tf_work_run tf)) (ag_runs ag)) StaleWorkItem) (\<lambda>r.
     if r \<noteq> tf_work_run tf \<or> \<not> active_run r \<or> tf_attempt tf \<noteq> run_attempt r then Inl StaleWorkItem
     else
       rbind (ok_or (find (\<lambda>i. wi_id i = run_work_item_id r) (ag_items ag)) StaleWorkItem) (\<lambda>i.
       if wi_state i \<noteq> ItemInProgress \<or> wi_revision i \<noteq> run_work_item_revision r then Inl StaleWorkItem
       else
         let (run_state, item_state) = (case tf_outcome tf of
             TerminalCandidateReady \<Rightarrow> (RunCandidateReady, ItemCandidateReady)
           | TerminalFailed \<Rightarrow> (RunFailed, ItemFailed)
           | TerminalCancelled \<Rightarrow> (RunCancelled, ItemCancelled))
         in
         rbind (ok_or (case i64_checked_add (run_revision r) 1 of None \<Rightarrow> None
             | Some v \<Rightarrow> if v \<le> 9007199254740991 then Some v else None) StaleWorkItem) (\<lambda>revision.
         rbind (transition_item_state ag (wi_id i) item_state) (\<lambda>ag.
         Inr (set_run ag (run_id r) run_state revision)))))"

definition settle_verified_outcome ::
    "calendar \<Rightarrow> work_run_aggregate \<Rightarrow> verified_terminal_outcome \<Rightarrow> scheduling_error + work_run_aggregate" where
  "settle_verified_outcome cal ag v =
     rbind (validate_aggregate cal ag) (\<lambda>_.
     rbind (ok_or (find (\<lambda>r. run_id r = vt_work_run_id v) (ag_runs ag)) StaleWorkItem) (\<lambda>r.
     rbind (from_verified r v) (settle_fact ag)))"

definition settle_verification_outcome ::
    "calendar \<Rightarrow> work_run_aggregate \<Rightarrow> verified_terminal_outcome \<Rightarrow> scheduling_error + work_run_aggregate" where
  "settle_verification_outcome cal ag v =
     rbind (validate_aggregate cal ag) (\<lambda>_.
     rbind (ok_or (find (\<lambda>r. run_id r = vt_work_run_id v) (ag_runs ag)) StaleWorkItem) (\<lambda>r.
     rbind (from_verified r v) (\<lambda>_.
     if \<not> active_run r
        \<or> \<not> list_ex (\<lambda>i. wi_id i = run_work_item_id r \<and> wi_revision i = run_work_item_revision r
             \<and> wi_state i = ItemCandidateReady) (ag_items ag)
     then Inl StaleWorkItem
     else
       rbind (ok_or (next_revision_of r) StaleWorkItem) (\<lambda>revision.
       Inr (set_run ag (run_id r)
         (case vt_status v of
            OutcomeOk \<Rightarrow> RunSettled
          | OutcomeFail \<Rightarrow> RunFailed
          | OutcomeInfrastructureError \<Rightarrow> RunFailed
          | OutcomeCancel \<Rightarrow> RunCancelled) revision)))))"

section \<open>Rework\<close>

text \<open>
  The aggregate a rework is dispatched on (\<^verbatim>\<open>ReworkAuthorization::dispatch_aggregate\<close>, after the authorization
  is validated): the rejected candidate's run is settled and its item made ready for another writer.
\<close>

datatype rework_error = InvalidRework string

definition candidate_work_item_id :: "work_run_aggregate \<Rightarrow> string \<Rightarrow> rework_error + string" where
  "candidate_work_item_id ag producer =
     rbind (ok_or (find (\<lambda>r. run_id r = producer) (ag_runs ag))
       (InvalidRework ''candidate producer WorkRun is missing'')) (\<lambda>r.
     rbind (ok_or (find (\<lambda>i. wi_id i = run_work_item_id r \<and> wi_revision i = run_work_item_revision r
         \<and> wi_work_contract_id i = run_work_contract_id r
         \<and> wi_work_contract_revision i = run_contract_revision r) (ag_items ag))
       (InvalidRework ''candidate producer WorkItem revision is stale'')) (\<lambda>i.
     Inr (wi_id i)))"

definition dispatch_aggregate ::
    "calendar \<Rightarrow> work_run_aggregate \<Rightarrow> string \<Rightarrow> string \<Rightarrow> rework_error + work_run_aggregate" where
  "dispatch_aggregate cal ag item producer =
     (if list_ex (\<lambda>r. run_work_item_id r = item \<and> active_run r) (ag_runs ag)
      then Inl (InvalidRework ''rework requires an idle current candidate'')
      else
        rbind (ok_or (find (\<lambda>r. run_id r = producer) (ag_runs ag))
          (InvalidRework ''rework candidate producer is missing'')) (\<lambda>r.
        if run_state r \<noteq> RunCandidateReady
        then Inl (InvalidRework ''rework requires the exact candidate-ready producer'')
        else
          rbind (ok_or (i64_checked_add (run_revision r) 1) (InvalidRework ''producer revision overflow'')) (\<lambda>revision.
          rbind (map_err (\<lambda>_. InvalidRework ''rework WorkItem is not ready for another run'')
            (transition_item_state (set_run ag producer RunSettled revision) item ItemReady)) (\<lambda>ag.
          rbind (map_err (\<lambda>_. InvalidRework ''rework WorkItem is not runnable'') (start_item cal ag item)) (\<lambda>_.
          Inr ag)))))"

end
