(* ===== verification/Text_Space.thy ===== *)
theory Text_Space
  imports Prelude
begin

text \<open>
  What the sources use of Unicode white space and of UTF-16 lengths, on the UTF-8 bytes of a string:
  \<^verbatim>\<open>trim()\<close>, \<^verbatim>\<open>split_whitespace()\<close> and \<^verbatim>\<open>encode_utf16().count()\<close>. The encodings of the white space
  characters begin with a byte that occurs nowhere else inside a character, so they can be recognised
  at any position.
\<close>

section \<open>White space at the ends of a string\<close>

text \<open>The number of bytes of the white space character at the front of a string, zero when there is none.\<close>

definition ascii_space :: "char \<Rightarrow> bool" where
  "ascii_space a \<longleftrightarrow> 9 \<le> byte a \<and> byte a \<le> 13 \<or> byte a = 32"

definition space2 :: "char \<Rightarrow> char \<Rightarrow> bool" where
  "space2 a b \<longleftrightarrow> byte a = 194 \<and> (byte b = 133 \<or> byte b = 160)"

definition space3 :: "char \<Rightarrow> char \<Rightarrow> char \<Rightarrow> bool" where
  "space3 a b c \<longleftrightarrow>
     byte a = 225 \<and> byte b = 154 \<and> byte c = 128
     \<or> byte a = 226 \<and> byte b = 128 \<and> (128 \<le> byte c \<and> byte c \<le> 138 \<or> byte c = 168 \<or> byte c = 169 \<or> byte c = 175)
     \<or> byte a = 226 \<and> byte b = 129 \<and> byte c = 159
     \<or> byte a = 227 \<and> byte b = 128 \<and> byte c = 128"

definition space_len :: "string \<Rightarrow> nat" where
  "space_len s =
     (case s of
        [] \<Rightarrow> 0
      | a # r \<Rightarrow> if ascii_space a then 1
         else (case r of
                 [] \<Rightarrow> 0
               | b # q \<Rightarrow> if space2 a b then 2
                  else (case q of [] \<Rightarrow> 0 | c # _ \<Rightarrow> if space3 a b c then 3 else 0)))"

definition space_end_len :: "string \<Rightarrow> nat" where
  "space_end_len reversed =
     (case reversed of
        [] \<Rightarrow> 0
      | a # r \<Rightarrow> if ascii_space a then 1
         else (case r of
                 [] \<Rightarrow> 0
               | b # q \<Rightarrow> if space2 b a then 2
                  else (case q of [] \<Rightarrow> 0 | c # _ \<Rightarrow> if space3 c b a then 3 else 0)))"

lemma space_len_nil [simp]: "space_len [] = 0" "space_end_len [] = 0"
  by (simp_all add: space_len_def space_end_len_def)

lemma space_len_le: "space_len s \<le> length s" "space_end_len s \<le> length s"
  by (auto simp: space_len_def space_end_len_def split: list.splits)

function trim_start :: "string \<Rightarrow> string" where
  "trim_start s = (if space_len s = 0 then s else trim_start (drop (space_len s) s))"
  by auto
termination
  by (relation "measure length") (auto simp: space_len_def split: list.splits)

declare trim_start.simps [simp del]

function trim_end :: "string \<Rightarrow> string" where
  "trim_end reversed =
     (if space_end_len reversed = 0 then reversed else trim_end (drop (space_end_len reversed) reversed))"
  by auto
termination
  by (relation "measure length") (auto simp: space_end_len_def split: list.splits)

declare trim_end.simps [simp del]

definition trim :: "string \<Rightarrow> string" where
  "trim s = rev (trim_end (rev (trim_start s)))"

lemma trim_start_tight: "space_len s = 0 \<Longrightarrow> trim_start s = s"
  by (simp add: trim_start.simps)

lemma trim_end_tight: "space_end_len s = 0 \<Longrightarrow> trim_end s = s"
  by (simp add: trim_end.simps)

lemma trim_tight: "space_len s = 0 \<Longrightarrow> space_end_len (rev s) = 0 \<Longrightarrow> trim s = s"
  by (simp add: trim_def trim_start_tight trim_end_tight)

lemma trim_nil [simp]: "trim [] = []"
  by (simp add: trim_tight)

section \<open>Words\<close>

text \<open>\<^verbatim>\<open>split_whitespace()\<close>: the pieces between white space that are not empty.\<close>

function spaced_words :: "string \<Rightarrow> string \<Rightarrow> string list" where
  "spaced_words piece s =
     (case s of
        [] \<Rightarrow> [piece]
      | a # r \<Rightarrow>
          if space_len s = 0 then spaced_words (piece @ [a]) r
          else piece # spaced_words [] (drop (space_len s) s))"
  by pat_completeness auto
termination
proof (relation "measure (\<lambda>(piece, s). length s)", goal_cases)
  case (3 piece s a r)
  then have "0 < space_len s" "s \<noteq> []" by simp_all
  then show ?case by simp
qed simp_all

declare spaced_words.simps [simp del]

definition split_whitespace :: "string \<Rightarrow> string list" where
  "split_whitespace s = filter (\<lambda>w. w \<noteq> []) (spaced_words [] s)"

section \<open>UTF-16\<close>

text \<open>A character beyond the basic plane, which UTF-8 writes with a lead byte of 240 or more, takes two units.\<close>

definition utf16_count :: "string \<Rightarrow> nat" where
  "utf16_count s = chars_count s + length (filter (\<lambda>c. 240 \<le> byte c) s)"

definition lower_char :: "char \<Rightarrow> char" where
  "lower_char c = (if 65 \<le> byte c \<and> byte c \<le> 90 then char_of (byte c + 32) else c)"

definition to_ascii_lowercase :: "string \<Rightarrow> string" where
  "to_ascii_lowercase s = map lower_char s"

lemma byte_lower: "byte (lower_char c) = (if 65 \<le> byte c \<and> byte c \<le> 90 then byte c + 32 else byte c)"
  by (simp add: lower_char_def byte_char_of)

lemma byte_inject: "byte c = byte d \<longleftrightarrow> c = d"
  by (metis byte_def char_of_char)

lemma lower_char_other: "\<not> (65 \<le> byte d \<and> byte d \<le> 90 \<or> 97 \<le> byte d \<and> byte d \<le> 122) \<Longrightarrow> lower_char c = d \<longleftrightarrow> c = d"
  unfolding byte_inject [symmetric] byte_lower by auto

lemma lower_lower [simp]: "lower_char (lower_char c) = lower_char c"
  unfolding byte_inject [symmetric] byte_lower by simp

lemma to_ascii_lowercase_idem [simp]: "to_ascii_lowercase (to_ascii_lowercase s) = to_ascii_lowercase s"
  by (simp add: to_ascii_lowercase_def)

lemma alphanumeric_lower [simp]: "is_ascii_alphanumeric (lower_char c) = is_ascii_alphanumeric c"
  by (auto simp: is_ascii_alphanumeric_def is_ascii_alphabetic_def is_ascii_digit_def byte_lower)

section \<open>Digests\<close>

definition hex_nibble :: "nat \<Rightarrow> char" where
  "hex_nibble n = (if n < 10 then char_of (48 + n) else char_of (87 + n))"

text \<open>\<^verbatim>\<open>{:x}\<close> of the bytes of a digest.\<close>

definition hex_text :: "string \<Rightarrow> string" where
  "hex_text bytes = concat (map (\<lambda>c. [hex_nibble (byte c div 16), hex_nibble (byte c mod 16)]) bytes)"

definition digest_text :: "string \<Rightarrow> string" where
  "digest_text bytes = ''sha256:'' @ hex_text bytes"

end
