(* ===== verification/Delivery_Values.thy ===== *)
theory Delivery_Values
  imports Work_Runs Text_Space
begin

text \<open>
  \<^verbatim>\<open>crates/winwincode-delivery/src/domain\<close>: the parts of a delivery and their validation. \<^verbatim>\<open>mod.rs\<close> (the shared
  validators), \<^verbatim>\<open>spec.rs\<close>, \<^verbatim>\<open>attention.rs\<close>, \<^verbatim>\<open>session_binding.rs\<close>, and the validators of \<^verbatim>\<open>evidence.rs\<close> and
  \<^verbatim>\<open>verdict.rs\<close>. An error carries its code, the path of the value and the message, as in the code.
\<close>

section \<open>Errors\<close>

datatype delivery_validation_error_code =
    DvInvalidShape
  | DvUnsupportedSchemaVersion
  | DvInvalidIdentifier
  | DvInvalidValue
  | DvDuplicateId
  | DvRelationshipMismatch
  | DvInvalidVerdict

record delivery_validation_error =
  dv_code :: delivery_validation_error_code
  dv_path :: string
  dv_message :: string

type_synonym delivery_check = "delivery_validation_error + unit"

definition validation_error :: "delivery_validation_error_code \<Rightarrow> string \<Rightarrow> string \<Rightarrow> delivery_validation_error" where
  "validation_error code path message = \<lparr>dv_code = code, dv_path = path, dv_message = message\<rparr>"

definition at_index :: "string \<Rightarrow> nat \<Rightarrow> string" where
  "at_index path index = path @ ''['' @ decimal index @ '']''"

text \<open>\<^verbatim>\<open>for (index, item) in items.iter().enumerate() { check(item, path[index])?; }\<close>\<close>

definition check_each :: "('a \<Rightarrow> string \<Rightarrow> delivery_check) \<Rightarrow> 'a list \<Rightarrow> string \<Rightarrow> delivery_check" where
  "check_each check items path = check_all (map (\<lambda>(index, item). check item (at_index path index)) (enumerate 0 items))"

definition check_some :: "('a \<Rightarrow> delivery_check) \<Rightarrow> 'a option \<Rightarrow> delivery_check" where
  "check_some check m = (case m of None \<Rightarrow> Inr () | Some a \<Rightarrow> check a)"

section \<open>Shared validators\<close>

definition DELIVERY_SCHEMA_VERSION :: "8 word" where "DELIVERY_SCHEMA_VERSION = 3"
definition MAX_DELIVERY_REWORK_ATTEMPTS :: u64 where "MAX_DELIVERY_REWORK_ATTEMPTS = 100"
definition MAX_TEXT_LENGTH :: nat where "MAX_TEXT_LENGTH = 65536"
definition MAX_REFERENCE_LENGTH :: nat where "MAX_REFERENCE_LENGTH = 4096"
definition MAX_COLLECTION_LENGTH :: nat where "MAX_COLLECTION_LENGTH = 1000"
definition MAX_SAFE_INTEGER :: u64 where "MAX_SAFE_INTEGER = 9007199254740991"

definition schema_version :: "8 word \<Rightarrow> string \<Rightarrow> delivery_check" where
  "schema_version value path =
     ensure (value = DELIVERY_SCHEMA_VERSION) (validation_error DvUnsupportedSchemaVersion path ''must be 3'')"

definition portable_byte :: "char \<Rightarrow> bool" where
  "portable_byte c \<longleftrightarrow> is_ascii_alphanumeric c \<or> c \<in> set ''._:/@-''"

definition portable_text :: "nat \<Rightarrow> string \<Rightarrow> bool" where
  "portable_text maximum value \<longleftrightarrow>
     length value \<le> maximum
     \<and> (case value of [] \<Rightarrow> False | c # rest \<Rightarrow> is_ascii_alphanumeric c \<and> list_all portable_byte rest)"

definition portable_identifier :: "string \<Rightarrow> string \<Rightarrow> delivery_check" where
  "portable_identifier value path =
     ensure (portable_text 200 value)
       (validation_error DvInvalidIdentifier path ''must be a portable identifier of at most 200 characters'')"

definition canonical_delivery_id :: "string \<Rightarrow> string \<Rightarrow> delivery_check" where
  "canonical_delivery_id value path =
     ensure (is_canonical_delivery_id value)
       (validation_error DvInvalidIdentifier path ''must use dlv_ followed by 26 uppercase Crockford Base32 characters'')"

definition request_identifier :: "string \<Rightarrow> string \<Rightarrow> delivery_check" where
  "request_identifier value path =
     ensure (portable_text 500 value)
       (validation_error DvInvalidIdentifier path ''must be a portable request identifier of at most 500 characters'')"

definition invalid_control :: "char \<Rightarrow> bool" where
  "invalid_control c \<longleftrightarrow>
     byte c \<le> 8 \<or> (11 \<le> byte c \<and> byte c \<le> 12) \<or> (14 \<le> byte c \<and> byte c \<le> 31) \<or> byte c = 127"

definition bounded_text :: "string \<Rightarrow> string \<Rightarrow> nat \<Rightarrow> delivery_check" where
  "bounded_text value path maximum =
     ensure (trim value \<noteq> [] \<and> utf16_count value \<le> maximum \<and> \<not> list_ex invalid_control value)
       (validation_error DvInvalidValue path ''must be non-empty bounded text'')"

definition nullable_text :: "string option \<Rightarrow> string \<Rightarrow> nat \<Rightarrow> delivery_check" where
  "nullable_text value path maximum = check_some (\<lambda>text. bounded_text text path maximum) value"

definition safe_non_negative :: "u64 \<Rightarrow> string \<Rightarrow> delivery_check" where
  "safe_non_negative value path =
     ensure (value \<le> MAX_SAFE_INTEGER) (validation_error DvInvalidValue path ''must be a non-negative safe integer'')"

definition positive :: "u64 \<Rightarrow> string \<Rightarrow> delivery_check" where
  "positive value path =
     check_all [safe_non_negative value path,
       ensure (value > 0) (validation_error DvInvalidValue path ''must be positive'')]"

definition collection_length :: "nat \<Rightarrow> string \<Rightarrow> delivery_check" where
  "collection_length len path =
     ensure (len \<le> MAX_COLLECTION_LENGTH)
       (validation_error DvInvalidValue path ''must contain at most 1000 entries'')"

fun unique_from :: "string \<Rightarrow> nat \<Rightarrow> string set \<Rightarrow> string list \<Rightarrow> delivery_check" where
  "unique_from path index unique [] = Inr ()"
| "unique_from path index unique (value # values) =
     rbind (bounded_text value (at_index path index) MAX_TEXT_LENGTH) (\<lambda>_.
     if value \<in> unique then Inl (validation_error DvDuplicateId path ''contains duplicate entries'')
     else unique_from path (index + 1) (insert value unique) values)"

definition unique_texts :: "string list \<Rightarrow> string \<Rightarrow> delivery_check" where
  "unique_texts values path = check_all [collection_length (length values) path, unique_from path 0 {} values]"

definition duplicate_ids :: "string list \<Rightarrow> string \<Rightarrow> delivery_check" where
  "duplicate_ids ids path =
     ensure (distinct ids) (validation_error DvDuplicateId path ''contains duplicate identities'')"

section \<open>Specification\<close>

datatype repository_kind = LocalGit | GitHub

record repository_ref =
  rr_schema_version :: "8 word"
  rr_kind :: repository_kind
  rr_locator :: string

record github_issue_source_ref =
  gs_schema_version :: "8 word"
  gs_provider :: string
  gs_kind :: string
  gs_repository :: string
  gs_number :: u64

record github_pull_request_target_ref =
  gt_schema_version :: "8 word"
  gt_provider :: string
  gt_kind :: string
  gt_repository :: string
  gt_base_branch :: string
  gt_head_repository :: string
  gt_head_branch :: string

record acceptance_criterion =
  ac_schema_version :: "8 word"
  ac_id :: string
  ac_description :: string
  ac_verification_method :: "string option"
  ac_required :: bool

record delivery_spec =
  sp_schema_version :: "8 word"
  sp_id :: string
  sp_delivery_id :: string
  sp_revision :: u64
  sp_title :: string
  sp_goal :: string
  sp_scope :: "string list"
  sp_out_of_scope :: "string list"
  sp_constraints :: "string list"
  sp_acceptance_criteria :: "acceptance_criterion list"
  sp_source_product_session_id :: "string option"
  sp_source_ref :: "github_issue_source_ref option"
  sp_publication_target :: "github_pull_request_target_ref option"
  sp_repository :: repository_ref
  sp_base_revision :: string
  sp_max_rework_attempts :: u64
  sp_created_at_millis :: u64

definition CROCKFORD_BASE32_ALPHABET :: string where
  "CROCKFORD_BASE32_ALPHABET = ''0123456789ABCDEFGHJKMNPQRSTVWXYZ''"

definition validate_product_session_id :: "string \<Rightarrow> string \<Rightarrow> delivery_check" where
  "validate_product_session_id value path =
     ensure (case strip_prefix ''psn_'' value of
               None \<Rightarrow> False
             | Some v \<Rightarrow> length v = 26 \<and> list_all (\<lambda>c. c \<in> set CROCKFORD_BASE32_ALPHABET) v)
       (validation_error DvInvalidIdentifier path ''must use psn_ followed by 26 uppercase Crockford Base32 characters'')"

definition validate_repository :: "repository_ref \<Rightarrow> string \<Rightarrow> delivery_check" where
  "validate_repository repository path =
     check_all [schema_version (rr_schema_version repository) (path @ ''.schemaVersion''),
       bounded_text (rr_locator repository) (path @ ''.locator'') MAX_REFERENCE_LENGTH]"

text \<open>\<^verbatim>\<open>split_once('/')\<close>: the parts before and after the first slash.\<close>

definition owner_and_name :: "string \<Rightarrow> (string \<times> string) option" where
  "owner_and_name value =
     (if CHR ''/'' \<in> set value
      then Some (takeWhile (\<lambda>c. c \<noteq> CHR ''/'') value, tl (dropWhile (\<lambda>c. c \<noteq> CHR ''/'') value))
      else None)"

definition github_repository_name :: "string \<Rightarrow> bool" where
  "github_repository_name value =
     (case owner_and_name value of
        None \<Rightarrow> False
      | Some (owner, repository) \<Rightarrow>
          owner \<noteq> [] \<and> length owner \<le> 39 \<and> is_ascii_alphanumeric (hd owner)
          \<and> list_all (\<lambda>c. is_ascii_alphanumeric c \<or> c = CHR ''-'') owner
          \<and> repository \<noteq> [] \<and> length repository \<le> 100
          \<and> list_all (\<lambda>c. is_ascii_alphanumeric c \<or> c \<in> set ''._-'') repository
          \<and> CHR ''/'' \<notin> set repository)"

definition validate_github_repository :: "string \<Rightarrow> string \<Rightarrow> delivery_check" where
  "validate_github_repository value path =
     ensure (github_repository_name value)
       (validation_error DvInvalidValue path ''must be a GitHub owner/repository name'')"

fun contains :: "string \<Rightarrow> string \<Rightarrow> bool" where
  "contains needle [] \<longleftrightarrow> needle = []"
| "contains needle (c # cs) \<longleftrightarrow> take (length needle) (c # cs) = needle \<or> contains needle cs"

fun split_char :: "char \<Rightarrow> string \<Rightarrow> string \<Rightarrow> string list" where
  "split_char separator piece [] = [piece]"
| "split_char separator piece (c # cs) =
     (if c = separator then piece # split_char separator [] cs else split_char separator (piece @ [c]) cs)"

definition ends_with :: "string \<Rightarrow> string \<Rightarrow> bool" where
  "ends_with suffix value \<longleftrightarrow> take (length suffix) (rev value) = rev suffix"

definition git_branch_name :: "string \<Rightarrow> bool" where
  "git_branch_name value \<longleftrightarrow>
     value \<noteq> [] \<and> utf16_count value \<le> 255 \<and> value \<noteq> ''@''
     \<and> hd value \<noteq> CHR ''/'' \<and> last value \<noteq> CHR ''/'' \<and> last value \<noteq> CHR ''.''
     \<and> \<not> contains ''..'' value \<and> \<not> contains [CHR ''@'', CHR 0x7B] value \<and> \<not> contains ''//'' value
     \<and> \<not> list_ex (\<lambda>c. byte c \<le> 32 \<or> byte c = 127 \<or> c \<in> set ''~^:?*['' \<or> c = CHR 0x5C) value
     \<and> list_all (\<lambda>segment. segment \<noteq> [] \<and> hd segment \<noteq> CHR ''.'' \<and> \<not> ends_with ''.lock'' segment)
         (split_char (CHR ''/'') [] value)"

definition validate_git_branch :: "string \<Rightarrow> string \<Rightarrow> delivery_check" where
  "validate_git_branch value path =
     ensure (git_branch_name value) (validation_error DvInvalidValue path ''must be a valid Git branch name'')"

text \<open>The validation of a source or a target lowers the case of its repository, so it returns the value.\<close>

definition validate_source_ref ::
    "github_issue_source_ref \<Rightarrow> string \<Rightarrow> delivery_validation_error + github_issue_source_ref" where
  "validate_source_ref source path =
     (let lowered = source\<lparr>gs_repository := to_ascii_lowercase (gs_repository source)\<rparr> in
      rbind (check_all
        [schema_version (gs_schema_version source) (path @ ''.schemaVersion''),
         ensure (gs_provider source = ''github'' \<and> gs_kind source = ''issue'')
           (validation_error DvInvalidValue path ''must identify a GitHub issue''),
         validate_github_repository (gs_repository source) (path @ ''.repository''),
         positive (gs_number source) (path @ ''.number'')]) (\<lambda>_.
      Inr lowered))"

definition validate_publication_target ::
    "github_pull_request_target_ref \<Rightarrow> string \<Rightarrow> delivery_validation_error + github_pull_request_target_ref" where
  "validate_publication_target target path =
     (let lowered = target\<lparr>gt_repository := to_ascii_lowercase (gt_repository target),
                           gt_head_repository := to_ascii_lowercase (gt_head_repository target)\<rparr> in
      rbind (check_all
        [schema_version (gt_schema_version target) (path @ ''.schemaVersion''),
         ensure (gt_provider target = ''github'' \<and> gt_kind target = ''pull-request'')
           (validation_error DvInvalidValue path ''must identify a GitHub pull-request target''),
         validate_github_repository (gt_repository target) (path @ ''.repository''),
         validate_github_repository (gt_head_repository target) (path @ ''.headRepository''),
         validate_git_branch (gt_base_branch target) (path @ ''.baseBranch''),
         validate_git_branch (gt_head_branch target) (path @ ''.headBranch''),
         ensure (\<not> (gt_repository lowered = gt_head_repository lowered \<and> gt_base_branch target = gt_head_branch target))
           (validation_error DvInvalidValue path ''GitHub pull-request base and head must identify different branches'')])
        (\<lambda>_. Inr lowered))"

fun base32_digits :: "nat \<Rightarrow> nat \<Rightarrow> string" where
  "base32_digits 0 v = []"
| "base32_digits (Suc n) v = base32_digits n (v div 32) @ [CROCKFORD_BASE32_ALPHABET ! (v mod 32)]"

definition delivery_id_for_validated_github_issue_source ::
    "(string \<Rightarrow> string) \<Rightarrow> github_issue_source_ref \<Rightarrow> string" where
  "delivery_id_for_validated_github_issue_source sha256 source =
     (let nul = [CHR 0x00];
          canonical = ''winwincode.github-issue-delivery-id.v1'' @ nul @ gs_provider source @ nul @ gs_kind source
            @ nul @ gs_repository source @ nul @ decimal (unat (gs_number source));
          value = foldl (\<lambda>v c. v * 256 + byte c) 0 (take 16 (sha256 canonical))
      in ''dlv_'' @ base32_digits 26 value)"

definition delivery_id_for_github_issue_source ::
    "(string \<Rightarrow> string) \<Rightarrow> github_issue_source_ref \<Rightarrow> delivery_validation_error + string" where
  "delivery_id_for_github_issue_source sha256 source =
     rbind (validate_source_ref source ''githubIssueSourceRef'') (\<lambda>source.
     Inr (delivery_id_for_validated_github_issue_source sha256 source))"

definition validate_unique_texts :: "string list \<Rightarrow> string \<Rightarrow> bool \<Rightarrow> delivery_check" where
  "validate_unique_texts values path required =
     check_all [collection_length (length values) path,
       ensure (\<not> (required \<and> values = [])) (validation_error DvInvalidValue path ''must not be empty''),
       unique_from path 0 {} values]"

definition validate_criterion :: "acceptance_criterion \<Rightarrow> string \<Rightarrow> delivery_check" where
  "validate_criterion criterion path =
     check_all [schema_version (ac_schema_version criterion) (path @ ''.schemaVersion''),
       portable_identifier (ac_id criterion) (path @ ''.id''),
       bounded_text (ac_description criterion) (path @ ''.description'') MAX_TEXT_LENGTH,
       check_some (\<lambda>method. bounded_text method (path @ ''.verificationMethod'') MAX_TEXT_LENGTH)
         (ac_verification_method criterion)]"

definition spec_checks :: "delivery_spec \<Rightarrow> string \<Rightarrow> delivery_check" where
  "spec_checks spec path =
     check_all
       [schema_version (sp_schema_version spec) (path @ ''.schemaVersion''),
        portable_identifier (sp_id spec) (path @ ''.id''),
        canonical_delivery_id (sp_delivery_id spec) (path @ ''.deliveryId''),
        positive (sp_revision spec) (path @ ''.revision''),
        bounded_text (sp_title spec) (path @ ''.title'') 256,
        bounded_text (sp_goal spec) (path @ ''.goal'') MAX_TEXT_LENGTH,
        validate_unique_texts (sp_scope spec) (path @ ''.scope'') True,
        validate_unique_texts (sp_out_of_scope spec) (path @ ''.outOfScope'') False,
        validate_unique_texts (sp_constraints spec) (path @ ''.constraints'') False,
        collection_length (length (sp_acceptance_criteria spec)) (path @ ''.acceptanceCriteria''),
        ensure (\<not> (sp_acceptance_criteria spec = [] \<or> \<not> list_ex ac_required (sp_acceptance_criteria spec)))
          (validation_error DvInvalidValue (path @ ''.acceptanceCriteria'')
             ''delivery spec must contain at least one required acceptance criterion''),
        check_each validate_criterion (sp_acceptance_criteria spec) (path @ ''.acceptanceCriteria''),
        duplicate_ids (map ac_id (sp_acceptance_criteria spec)) (path @ ''.acceptanceCriteria''),
        check_some (\<lambda>x. validate_product_session_id x (path @ ''.sourceProductSessionId'')) (sp_source_product_session_id spec),
        validate_repository (sp_repository spec) (path @ ''.repository''),
        bounded_text (sp_base_revision spec) (path @ ''.baseRevision'') MAX_REFERENCE_LENGTH,
        safe_non_negative (sp_max_rework_attempts spec) (path @ ''.maxReworkAttempts''),
        ensure (\<not> sp_max_rework_attempts spec > MAX_DELIVERY_REWORK_ATTEMPTS)
          (validation_error DvInvalidValue (path @ ''.maxReworkAttempts'') ''must be at most 100''),
        safe_non_negative (sp_created_at_millis spec) (path @ ''.createdAtMillis'')]"

definition validate_spec ::
    "(string \<Rightarrow> string) \<Rightarrow> delivery_spec \<Rightarrow> string \<Rightarrow> delivery_validation_error + delivery_spec" where
  "validate_spec sha256 spec path =
     rbind (spec_checks spec path) (\<lambda>_.
     rbind (case sp_source_ref spec of
              None \<Rightarrow> Inr spec
            | Some source \<Rightarrow>
                rbind (validate_source_ref source (path @ ''.sourceRef'')) (\<lambda>source.
                if sp_delivery_id spec \<noteq> delivery_id_for_validated_github_issue_source sha256 source
                then Inl (validation_error DvRelationshipMismatch (path @ ''.deliveryId'')
                  ''a GitHub issue source must use its stable canonical Delivery identity'')
                else Inr (spec\<lparr>sp_source_ref := Some source\<rparr>))) (\<lambda>spec.
     case sp_publication_target spec of
       None \<Rightarrow> Inr spec
     | Some target \<Rightarrow>
         rbind (validate_publication_target target (path @ ''.publicationTarget'')) (\<lambda>target.
         Inr (spec\<lparr>sp_publication_target := Some target\<rparr>))))"

end
