(* ===== verification/Delivery_Parts.thy ===== *)
theory Delivery_Parts
  imports Delivery_Values
begin

text \<open>
  The other parts of a delivery and their validation: attention items (\<^verbatim>\<open>domain/attention.rs\<close>), session bindings
  (\<^verbatim>\<open>domain/session_binding.rs\<close>), evidence references (\<^verbatim>\<open>domain/evidence.rs\<close>) and verdicts
  (\<^verbatim>\<open>domain/verdict.rs\<close>, \<^verbatim>\<open>validate\<close>).
\<close>

section \<open>Attention\<close>

datatype attention_item_type = RequirementQuestion | DecisionRequired | VerificationBlocked | ScopeChange | DeliveryApproval

datatype attention_item_status = AttentionOpen | AttentionResolved | AttentionDismissed

record attention_option =
  ao_schema_version :: "8 word"
  ao_id :: string
  ao_label :: string
  ao_description :: string

record attention_item =
  at_schema_version :: "8 word"
  at_id :: string
  at_delivery_id :: string
  at_delivery_spec_id :: string
  at_work_run_id :: "string option"
  at_item_type :: attention_item_type
  at_title :: string
  at_context :: string
  at_options :: "attention_option list"
  at_assigned_to :: "string option"
  at_blocking :: bool
  at_status :: attention_item_status
  at_resolution :: "string option"
  at_resolved_by :: "string option"
  at_created_at_millis :: u64
  at_resolved_at_millis :: "u64 option"

definition validate_option :: "attention_option \<Rightarrow> string \<Rightarrow> delivery_check" where
  "validate_option opt path =
     check_all [schema_version (ao_schema_version opt) (path @ ''.schemaVersion''),
       portable_identifier (ao_id opt) (path @ ''.id''),
       bounded_text (ao_label opt) (path @ ''.label'') 256,
       bounded_text (ao_description opt) (path @ ''.description'') MAX_TEXT_LENGTH]"

definition resolution_complete :: "attention_item \<Rightarrow> bool" where
  "resolution_complete item \<longleftrightarrow>
     at_resolution item \<noteq> None \<and> at_resolved_by item \<noteq> None
     \<and> (case at_resolved_at_millis item of None \<Rightarrow> False | Some resolved \<Rightarrow> resolved \<ge> at_created_at_millis item)"

definition validate_attention :: "attention_item \<Rightarrow> string \<Rightarrow> delivery_check" where
  "validate_attention item path =
     check_all
       [schema_version (at_schema_version item) (path @ ''.schemaVersion''),
        portable_identifier (at_id item) (path @ ''.id''),
        portable_identifier (at_delivery_id item) (path @ ''.deliveryId''),
        portable_identifier (at_delivery_spec_id item) (path @ ''.deliverySpecId''),
        check_some (\<lambda>x. portable_identifier x (path @ ''.workRunId'')) (at_work_run_id item),
        bounded_text (at_title item) (path @ ''.title'') 256,
        bounded_text (at_context item) (path @ ''.context'') MAX_TEXT_LENGTH,
        collection_length (length (at_options item)) (path @ ''.options''),
        check_each validate_option (at_options item) (path @ ''.options''),
        duplicate_ids (map ao_id (at_options item)) (path @ ''.options''),
        nullable_text (at_assigned_to item) (path @ ''.assignedTo'') 500,
        nullable_text (at_resolution item) (path @ ''.resolution'') MAX_TEXT_LENGTH,
        nullable_text (at_resolved_by item) (path @ ''.resolvedBy'') 500,
        safe_non_negative (at_created_at_millis item) (path @ ''.createdAtMillis''),
        check_some (\<lambda>x. safe_non_negative x (path @ ''.resolvedAtMillis'')) (at_resolved_at_millis item),
        ensure (\<not> (at_status item = AttentionOpen
              \<and> (at_resolution item \<noteq> None \<or> at_resolved_by item \<noteq> None \<or> at_resolved_at_millis item \<noteq> None)
            \<or> at_status item \<noteq> AttentionOpen \<and> \<not> resolution_complete item))
          (validation_error DvInvalidValue (path @ ''.status'') ''attention resolution fields do not match its status'')]"

section \<open>Session bindings\<close>

datatype session_binding_source_kind = FromWorkRunStart | FromWorkRunDispatch | FromExecutionPort

record session_agent_identity =
  sa_id :: string
  sa_worker_id :: string
  sa_name :: string
  sa_role :: string

record session_workspace =
  sw_repository_id :: string
  sw_revision :: string
  sw_write_mode :: string

record session_runtime_context =
  sr_agent_identity :: session_agent_identity
  sr_provider :: string
  sr_model :: string
  sr_workspace :: session_workspace

record session_binding_source_provenance =
  so_kind :: session_binding_source_kind
  so_reference :: string

record delivery_binding =
  db_schema_version :: "8 word"
  db_id :: string
  db_delivery_id :: string
  db_work_contract_id :: string
  db_work_contract_revision :: int
  db_work_item_id :: string
  db_work_item_revision :: int
  db_work_run_id :: string
  db_product_session_id :: string
  db_execution_job_id :: string
  db_execution_profile :: "string option"
  db_runtime_context :: "session_runtime_context option"
  db_worker_session_id :: "string option"
  db_codex_thread_id :: "string option"
  db_worker_id :: "string option"
  db_worker_instance_id :: "string option"
  db_lease_id :: "string option"
  db_attempt :: u64
  db_fencing_token :: "string option"
  db_source_provenance :: session_binding_source_provenance
  db_bound_at_millis :: u64

definition validate_runtime_context :: "delivery_binding \<Rightarrow> session_runtime_context \<Rightarrow> string \<Rightarrow> delivery_check" where
  "validate_runtime_context binding ctx path =
     (let agent = sr_agent_identity ctx; workspace = sr_workspace ctx in
      check_all
        [portable_identifier (sa_id agent) (path @ ''.runtimeContext.agentIdentity.id''),
         ensure (\<not> (take 4 (sa_id agent) \<noteq> ''agt_''
               \<or> db_worker_id binding \<noteq> Some (sa_worker_id agent)
               \<or> db_execution_profile binding \<noteq> Some (sa_role agent)))
           (validation_error DvRelationshipMismatch (path @ ''.runtimeContext.agentIdentity'')
              ''Agent identity must match the accepted Worker and execution profile''),
         bounded_text (sa_name agent) (path @ ''.runtimeContext.agentIdentity.name'') 200,
         bounded_text (sr_provider ctx) (path @ ''.runtimeContext.provider'') 200,
         bounded_text (sr_model ctx) (path @ ''.runtimeContext.model'') 200,
         portable_identifier (sw_repository_id workspace) (path @ ''.runtimeContext.workspace.repositoryId''),
         ensure (\<not> (take 9 (sw_revision workspace) \<noteq> ''git-tree:''
               \<or> sw_write_mode workspace \<notin> {''read-only'', ''candidate''}))
           (validation_error DvInvalidValue (path @ ''.runtimeContext.workspace'')
              ''Workspace revision or write mode is invalid'')])"

definition invalid_fencing_token :: "string \<Rightarrow> bool" where
  "invalid_fencing_token token \<longleftrightarrow>
     token = [] \<or> length token > 20 \<or> take 1 token = ''0'' \<or> \<not> list_all is_ascii_digit token"

definition provenance_check :: "delivery_binding \<Rightarrow> string \<Rightarrow> delivery_check" where
  "provenance_check binding path =
     (case (db_worker_session_id binding \<noteq> None, so_kind (db_source_provenance binding)) of
        (True, FromExecutionPort) \<Rightarrow> Inr ()
      | (False, FromExecutionPort) \<Rightarrow>
          Inl (validation_error DvRelationshipMismatch (path @ ''.sourceProvenance.kind'')
            ''pending bindings cannot claim an ExecutionPort source'')
      | (False, _) \<Rightarrow> Inr ()
      | (True, kind) \<Rightarrow>
          if kind = FromWorkRunDispatch \<and> db_codex_thread_id binding = None then Inr ()
          else Inl (validation_error DvRelationshipMismatch (path @ ''.sourceProvenance.kind'')
            ''a complete binding requires a typed ExecutionPort source''))"

definition validate_execution_authority :: "delivery_binding \<Rightarrow> string \<Rightarrow> delivery_check" where
  "validate_execution_authority binding path =
     (let fields = [db_worker_id binding \<noteq> None, db_worker_instance_id binding \<noteq> None, db_lease_id binding \<noteq> None,
            db_fencing_token binding \<noteq> None] in
      check_all
        [ensure (\<not> (list_ex id fields \<and> \<not> list_all id fields))
           (validation_error DvRelationshipMismatch (path @ ''.workerId'')
              ''Worker, instance, lease, and fencing identities must be persisted together''),
         ensure (\<not> (list_all id fields \<and> db_worker_session_id binding = None))
           (validation_error DvRelationshipMismatch (path @ ''.workerSessionId'')
              ''fenced execution authority requires an accepted WorkerSession''),
         ensure (\<not> (db_worker_session_id binding \<noteq> None \<and> \<not> list_all id fields))
           (validation_error DvRelationshipMismatch (path @ ''.workerId'')
              ''an accepted WorkerSession requires complete persisted lease authority''),
         check_some (\<lambda>x. portable_identifier x (path @ ''.workerId'')) (db_worker_id binding),
         check_some (\<lambda>x. portable_identifier x (path @ ''.workerInstanceId'')) (db_worker_instance_id binding),
         check_some (\<lambda>x. portable_identifier x (path @ ''.leaseId'')) (db_lease_id binding),
         positive (db_attempt binding) (path @ ''.attempt''),
         check_some (\<lambda>token. ensure (\<not> invalid_fencing_token token)
             (validation_error DvInvalidValue (path @ ''.fencingToken'')
                ''must be a decimal fencing token without leading zeroes'')) (db_fencing_token binding),
         portable_identifier (so_reference (db_source_provenance binding)) (path @ ''.sourceProvenance.reference''),
         provenance_check binding path])"

definition codex_thread_check :: "delivery_binding \<Rightarrow> string \<Rightarrow> delivery_check" where
  "codex_thread_check binding path =
     (case db_codex_thread_id binding of
        Some thread_id \<Rightarrow>
          check_all
            [portable_identifier thread_id (path @ ''.codexThreadId''),
             ensure (db_worker_session_id binding \<noteq> None)
               (validation_error DvRelationshipMismatch (path @ ''.codexThreadId'')
                  ''CodexThread requires an accepted WorkerSession''),
             (case db_runtime_context binding of
                None \<Rightarrow> Inl (validation_error DvRelationshipMismatch (path @ ''.runtimeContext'')
                  ''CodexThread requires its immutable runtime context'')
              | Some ctx \<Rightarrow> validate_runtime_context binding ctx path)]
      | None \<Rightarrow>
          ensure (db_runtime_context binding = None)
            (validation_error DvRelationshipMismatch (path @ ''.runtimeContext'')
               ''runtime context requires an accepted CodexThread''))"

definition validate_binding :: "delivery_binding \<Rightarrow> string \<Rightarrow> delivery_check" where
  "validate_binding binding path =
     check_all
       [schema_version (db_schema_version binding) (path @ ''.schemaVersion''),
        portable_identifier (db_id binding) (path @ ''.id''),
        portable_identifier (db_delivery_id binding) (path @ ''.deliveryId''),
        portable_identifier (db_work_contract_id binding) (path @ ''.workContractId''),
        ensure (\<not> db_work_contract_revision binding < 1)
          (validation_error DvInvalidValue (path @ ''.workContractRevision'') ''must be positive''),
        portable_identifier (db_work_item_id binding) (path @ ''.workItemId''),
        ensure (\<not> db_work_item_revision binding < 1)
          (validation_error DvInvalidValue (path @ ''.workItemRevision'') ''must be positive''),
        portable_identifier (db_work_run_id binding) (path @ ''.workRunId''),
        portable_identifier (db_product_session_id binding) (path @ ''.productSessionId''),
        portable_identifier (db_execution_job_id binding) (path @ ''.executionJobId''),
        (case db_execution_profile binding of
           Some profile \<Rightarrow> bounded_text profile (path @ ''.executionProfile'') 100
         | None \<Rightarrow>
             ensure (so_kind (db_source_provenance binding) \<noteq> FromWorkRunDispatch)
               (validation_error DvRelationshipMismatch (path @ ''.executionProfile'')
                  ''a WorkRun dispatch binding requires the profile from its accepted Job'')),
        check_some (\<lambda>x. portable_identifier x (path @ ''.workerSessionId'')) (db_worker_session_id binding),
        codex_thread_check binding path,
        validate_execution_authority binding path,
        safe_non_negative (db_bound_at_millis binding) (path @ ''.boundAtMillis'')]"

section \<open>Evidence\<close>

datatype evidence_ref_type =
    EvidenceTest | EvidenceCommand | EvidenceDiff | EvidenceFile | EvidenceCommit | EvidencePullRequest
  | EvidenceRuntimeEvent | EvidenceReviewFinding

record evidence_ref =
  er_schema_version :: "8 word"
  er_id :: string
  er_delivery_id :: string
  er_delivery_spec_id :: string
  er_delivery_spec_revision :: u64
  er_work_run_id :: string
  er_session_binding_id :: string
  er_snapshot_id :: string
  er_candidate_id :: string
  er_evidence_type :: evidence_ref_type
  er_source_ref :: string
  er_created_at_millis :: u64

definition validate_evidence :: "evidence_ref \<Rightarrow> string \<Rightarrow> delivery_check" where
  "validate_evidence evidence path =
     check_all
       [schema_version (er_schema_version evidence) (path @ ''.schemaVersion''),
        portable_identifier (er_id evidence) (path @ ''.id''),
        portable_identifier (er_delivery_id evidence) (path @ ''.deliveryId''),
        portable_identifier (er_delivery_spec_id evidence) (path @ ''.deliverySpecId''),
        positive (er_delivery_spec_revision evidence) (path @ ''.deliverySpecRevision''),
        portable_identifier (er_work_run_id evidence) (path @ ''.workRunId''),
        portable_identifier (er_session_binding_id evidence) (path @ ''.sessionBindingId''),
        ensure (is_canonical_prefixed_id (er_snapshot_id evidence) ''snap_'')
          (validation_error DvInvalidIdentifier (path @ ''.snapshotId'') ''Evidence requires canonical product identities''),
        ensure (is_canonical_prefixed_id (er_candidate_id evidence) ''cnd_'')
          (validation_error DvInvalidIdentifier (path @ ''.candidateId'') ''Evidence requires canonical product identities''),
        bounded_text (er_source_ref evidence) (path @ ''.sourceRef'') MAX_REFERENCE_LENGTH,
        safe_non_negative (er_created_at_millis evidence) (path @ ''.createdAtMillis'')]"

section \<open>Verdicts\<close>

datatype criterion_verdict = VerdictPass | VerdictFail | VerdictInconclusive | VerdictInfraError

record criterion_result =
  cr_schema_version :: "8 word"
  cr_id :: string
  cr_delivery_id :: string
  cr_delivery_spec_id :: string
  cr_criterion_id :: string
  cr_candidate_ref :: string
  cr_verdict :: criterion_verdict
  cr_evidence_refs :: "string list"
  cr_explanation :: string
  cr_evaluated_at_millis :: u64

record delivery_verdict =
  vd_snapshot_id :: string
  vd_candidate_id :: string
  vd_candidate_digest :: string
  vd_schema_version :: "8 word"
  vd_id :: string
  vd_delivery_id :: string
  vd_delivery_spec_id :: string
  vd_candidate_ref :: string
  vd_status :: criterion_verdict
  vd_criteria :: "criterion_result list"
  vd_unresolved_findings :: "string list"
  vd_produced_at_millis :: u64

definition validate_result :: "criterion_result \<Rightarrow> string \<Rightarrow> delivery_check" where
  "validate_result result path =
     check_all
       [schema_version (cr_schema_version result) (path @ ''.schemaVersion''),
        portable_identifier (cr_id result) (path @ ''.id''),
        portable_identifier (cr_delivery_id result) (path @ ''.deliveryId''),
        portable_identifier (cr_delivery_spec_id result) (path @ ''.deliverySpecId''),
        portable_identifier (cr_criterion_id result) (path @ ''.criterionId''),
        bounded_text (cr_candidate_ref result) (path @ ''.candidateRef'') MAX_REFERENCE_LENGTH,
        collection_length (length (cr_evidence_refs result)) (path @ ''.evidenceRefs''),
        check_each portable_identifier (cr_evidence_refs result) (path @ ''.evidenceRefs''),
        duplicate_ids (cr_evidence_refs result) (path @ ''.evidenceRefs''),
        ensure (\<not> (cr_verdict result \<in> {VerdictPass, VerdictFail} \<and> cr_evidence_refs result = []))
          (validation_error DvInvalidVerdict (path @ ''.evidenceRefs'') ''pass or fail criterion result must cite evidence''),
        bounded_text (cr_explanation result) (path @ ''.explanation'') MAX_TEXT_LENGTH,
        safe_non_negative (cr_evaluated_at_millis result) (path @ ''.evaluatedAtMillis'')]"

definition validate_verdict :: "delivery_verdict \<Rightarrow> string \<Rightarrow> delivery_check" where
  "validate_verdict verdict path =
     check_all
       [schema_version (vd_schema_version verdict) (path @ ''.schemaVersion''),
        portable_identifier (vd_id verdict) (path @ ''.id''),
        portable_identifier (vd_delivery_id verdict) (path @ ''.deliveryId''),
        portable_identifier (vd_delivery_spec_id verdict) (path @ ''.deliverySpecId''),
        bounded_text (vd_candidate_ref verdict) (path @ ''.candidateRef'') MAX_REFERENCE_LENGTH,
        collection_length (length (vd_criteria verdict)) (path @ ''.criteria''),
        ensure (vd_criteria verdict \<noteq> [])
          (validation_error DvInvalidVerdict (path @ ''.criteria'') ''delivery verdict must evaluate criteria''),
        check_each validate_result (vd_criteria verdict) (path @ ''.criteria''),
        duplicate_ids (map cr_id (vd_criteria verdict)) (path @ ''.criteria''),
        duplicate_ids (map cr_criterion_id (vd_criteria verdict)) (path @ ''.criteria''),
        unique_texts (vd_unresolved_findings verdict) (path @ ''.unresolvedFindings''),
        safe_non_negative (vd_produced_at_millis verdict) (path @ ''.producedAtMillis'')]"

end
