(* ===== verification/Delivery_State.thy ===== *)
theory Delivery_State
  imports Delivery_Parts
begin

text \<open>
  The delivery as a whole: \<^verbatim>\<open>DeliverySnapshot\<close> and \<^verbatim>\<open>validate_delivery\<close> (\<^verbatim>\<open>domain/mod.rs\<close>), with the authority of an
  unchanged candidate (\<^verbatim>\<open>domain/same_candidate.rs\<close>). A \<^verbatim>\<open>Delivery\<close> is a snapshot that passed the validation,
  which also brings the names of GitHub repositories to lower case.
\<close>

section \<open>Snapshot\<close>

datatype delivery_status =
    StatusDraft | StatusClarifying | StatusReady | StatusReworking | StatusNeedsAttention | StatusReadyToDeliver
  | StatusDelivered

record same_candidate_fact =
  sc_producer_work_run_id :: string
  sc_remediator_work_run_id :: string
  sc_remediator_job_id :: string
  sc_candidate_ref :: string
  sc_candidate_digest :: string
  sc_authorization_digest :: string
  sc_source_delivery_revision :: u64
  sc_binding_floor :: nat
  sc_binding_prefix_digest :: string

record delivery_snapshot =
  ds_schema_version :: "8 word"
  ds_id :: string
  ds_revision :: u64
  ds_status :: delivery_status
  ds_spec :: delivery_spec
  ds_session_bindings :: "delivery_binding list"
  ds_same_candidate_reverification :: "same_candidate_fact option"
  ds_attention_items :: "attention_item list"
  ds_evidence :: "evidence_ref list"
  ds_verdict :: "delivery_verdict option"
  ds_created_at_millis :: u64
  ds_updated_at_millis :: u64
  ds_work_run_aggregate :: work_run_aggregate

text \<open>The parameters: the calendar, SHA-256, and the JSON of the identities of bindings.\<close>

type_synonym binding_identity =
  "string \<times> string \<times> string \<times> u64 \<times> string \<times> int \<times> string \<times> int \<times> string option \<times> u64"

record delivery_env =
  de_calendar :: calendar
  de_sha256 :: "string \<Rightarrow> string"
  de_identities_json :: "binding_identity list \<Rightarrow> string option"

section \<open>Unchanged candidates\<close>

definition invalid_same_candidate :: delivery_validation_error where
  "invalid_same_candidate = validation_error DvRelationshipMismatch ''delivery.sameCandidateReverification''
     ''unchanged remediation authority is inconsistent''"

definition binding_identity_of :: "delivery_binding \<Rightarrow> binding_identity" where
  "binding_identity_of b = (db_id b, db_work_run_id b, db_execution_job_id b, db_attempt b, db_work_contract_id b,
     db_work_contract_revision b, db_work_item_id b, db_work_item_revision b, db_execution_profile b, db_bound_at_millis b)"

definition binding_prefix ::
    "'z delivery_env_scheme \<Rightarrow> delivery_snapshot \<Rightarrow> nat \<Rightarrow> delivery_validation_error + string" where
  "binding_prefix env s floor =
     (if floor > length (ds_session_bindings s) then Inl invalid_same_candidate
      else case de_identities_json env (map binding_identity_of (take floor (ds_session_bindings s))) of
             None \<Rightarrow> Inl invalid_same_candidate
           | Some bytes \<Rightarrow> Inr (digest_text (de_sha256 env bytes)))"

definition is_writer :: "delivery_binding \<Rightarrow> bool" where
  "is_writer b \<longleftrightarrow> db_execution_profile b \<in> {Some ''executor'', Some ''remediator''}"

definition validate_fact :: "'z delivery_env_scheme \<Rightarrow> delivery_snapshot \<Rightarrow> delivery_check" where
  "validate_fact env s =
     (case ds_same_candidate_reverification s of
        None \<Rightarrow> Inr ()
      | Some authority \<Rightarrow>
          rbind (ok_or (find (\<lambda>r. run_id r = sc_producer_work_run_id authority) (ag_runs (ds_work_run_aggregate s)))
            invalid_same_candidate) (\<lambda>producer.
          rbind (ok_or (find (\<lambda>r. run_id r = sc_remediator_work_run_id authority \<and> run_execution_job_id r = sc_remediator_job_id authority)
            (ag_runs (ds_work_run_aggregate s))) invalid_same_candidate) (\<lambda>remediator.
          rbind (ok_or (find is_writer (rev (ds_session_bindings s))) invalid_same_candidate) (\<lambda>last_writer.
          if run_state remediator \<noteq> RunFailed
             \<or> run_work_item_id producer \<noteq> run_work_item_id remediator
             \<or> run_work_item_revision producer \<noteq> run_work_item_revision remediator
             \<or> run_state producer \<notin> {RunCandidateReady, RunSettled}
             \<or> db_work_run_id last_writer \<noteq> sc_remediator_work_run_id authority
             \<or> sc_source_delivery_revision authority \<ge> ds_revision s
             \<or> sc_binding_floor authority = 0
             \<or> binding_prefix env s (sc_binding_floor authority) \<noteq> Inr (sc_binding_prefix_digest authority)
             \<or> sc_candidate_ref authority = []
          then Inl invalid_same_candidate else Inr ()))))"

section \<open>Relationships\<close>

definition blocking_open :: "attention_item \<Rightarrow> bool" where
  "blocking_open item \<longleftrightarrow> at_blocking item \<and> at_status item = AttentionOpen"

text \<open>\<^verbatim>\<open>HashMap::from_iter\<close>: the last entry of a key is the one that stays.\<close>

definition by_key :: "('a \<Rightarrow> string) \<Rightarrow> 'a list \<Rightarrow> string \<Rightarrow> 'a option" where
  "by_key key items = map_of (rev (map (\<lambda>x. (key x, x)) items))"

definition u64_as_i64 :: "u64 \<Rightarrow> int" where
  "u64_as_i64 a = (if unat a < 2 ^ 63 then int (unat a) else -1)"

definition binding_matches_run :: "delivery_binding \<Rightarrow> work_run \<Rightarrow> bool" where
  "binding_matches_run binding run \<longleftrightarrow>
     run_work_contract_id run = db_work_contract_id binding
     \<and> run_contract_revision run = db_work_contract_revision binding
     \<and> run_work_item_id run = db_work_item_id binding
     \<and> run_work_item_revision run = db_work_item_revision binding
     \<and> run_product_session_id run = Some (db_product_session_id binding)
     \<and> run_execution_job_id run = db_execution_job_id binding
     \<and> run_attempt run = u64_as_i64 (db_attempt binding)"

definition binding_relation :: "delivery_snapshot \<Rightarrow> delivery_binding \<Rightarrow> string \<Rightarrow> delivery_check" where
  "binding_relation s binding path =
     ensure (db_delivery_id binding = ds_id s
         \<and> (case by_key run_id (ag_runs (ds_work_run_aggregate s)) (db_work_run_id binding) of
              None \<Rightarrow> False | Some run \<Rightarrow> binding_matches_run binding run))
       (validation_error DvRelationshipMismatch path
          ''session binding does not exactly match its Delivery WorkRun and execution identity'')"

definition attention_relation :: "delivery_snapshot \<Rightarrow> attention_item \<Rightarrow> string \<Rightarrow> delivery_check" where
  "attention_relation s item path =
     ensure (\<not> (at_delivery_id item \<noteq> ds_id s \<or> at_delivery_spec_id item \<noteq> sp_id (ds_spec s)
         \<or> (case at_work_run_id item of None \<Rightarrow> False
            | Some x \<Rightarrow> by_key run_id (ag_runs (ds_work_run_aggregate s)) x = None)))
       (validation_error DvRelationshipMismatch path ''attention item does not match its delivery, current spec, or WorkRun'')"

definition evidence_relation :: "delivery_snapshot \<Rightarrow> evidence_ref \<Rightarrow> string \<Rightarrow> delivery_check" where
  "evidence_relation s reference path =
     ensure (er_delivery_id reference = ds_id s
         \<and> er_delivery_spec_id reference = sp_id (ds_spec s)
         \<and> er_delivery_spec_revision reference = sp_revision (ds_spec s)
         \<and> by_key run_id (ag_runs (ds_work_run_aggregate s)) (er_work_run_id reference) \<noteq> None
         \<and> (case by_key db_id (ds_session_bindings s) (er_session_binding_id reference) of
              None \<Rightarrow> False
            | Some binding \<Rightarrow>
                db_delivery_id binding = ds_id s
                \<and> db_work_run_id binding = er_work_run_id reference
                \<and> er_created_at_millis reference \<ge> db_bound_at_millis binding))
       (validation_error DvRelationshipMismatch path
          ''evidence does not match its delivery, current spec revision, WorkRun, session binding, or binding time'')"

definition rework_count :: "delivery_snapshot \<Rightarrow> nat" where
  "rework_count s = length (filter (\<lambda>r. list_ex (\<lambda>b. db_work_run_id b = run_id r
       \<and> db_execution_profile b = Some ''remediator'') (ds_session_bindings s)) (ag_runs (ds_work_run_aggregate s)))"

section \<open>Verdict relationships\<close>

definition verdict_debug :: "criterion_verdict \<Rightarrow> string" where
  "verdict_debug v = (case v of VerdictPass \<Rightarrow> ''Pass'' | VerdictFail \<Rightarrow> ''Fail'' | VerdictInconclusive \<Rightarrow> ''Inconclusive''
     | VerdictInfraError \<Rightarrow> ''InfraError'')"

definition result_relation :: "delivery_snapshot \<Rightarrow> delivery_verdict \<Rightarrow> criterion_result \<Rightarrow> string \<Rightarrow> delivery_check" where
  "result_relation s verdict result path =
     check_all
       [ensure (\<not> (cr_delivery_id result \<noteq> ds_id s
             \<or> cr_delivery_spec_id result \<noteq> sp_id (ds_spec s)
             \<or> cr_candidate_ref result \<noteq> vd_candidate_ref verdict
             \<or> cr_evaluated_at_millis result > vd_produced_at_millis verdict))
          (validation_error DvRelationshipMismatch path
             ''criterion result does not match the verdict identity or production time''),
        ensure (list_all (\<lambda>x. case by_key er_id (ds_evidence s) x of
               None \<Rightarrow> False
             | Some reference \<Rightarrow>
                 \<not> (er_candidate_id reference \<noteq> vd_candidate_id verdict
                    \<or> er_snapshot_id reference \<noteq> vd_snapshot_id verdict
                    \<or> er_created_at_millis reference > cr_evaluated_at_millis result)) (cr_evidence_refs result))
          (validation_error DvRelationshipMismatch (path @ ''.evidenceRefs'')
             ''criterion result cites missing, later, or foreign-candidate evidence'')]"

definition expected_status :: "delivery_snapshot \<Rightarrow> delivery_verdict \<Rightarrow> criterion_verdict" where
  "expected_status s verdict =
     (let required = List.map_filter (\<lambda>criterion. by_key cr_criterion_id (vd_criteria verdict) (ac_id criterion))
            (filter ac_required (sp_acceptance_criteria (ds_spec s))) in
      if list_ex (\<lambda>r. cr_verdict r = VerdictFail) required then VerdictFail
      else if list_ex (\<lambda>r. cr_verdict r = VerdictInfraError) required then VerdictInfraError
      else if list_ex (\<lambda>r. cr_verdict r = VerdictInconclusive) required \<or> vd_unresolved_findings verdict \<noteq> []
      then VerdictInconclusive
      else VerdictPass)"

definition validate_verdict_relationships :: "delivery_snapshot \<Rightarrow> delivery_verdict \<Rightarrow> delivery_check" where
  "validate_verdict_relationships s verdict =
     (let criterion_ids = set (map ac_id (sp_acceptance_criteria (ds_spec s)));
          result_ids = set (map cr_criterion_id (vd_criteria verdict)) in
      check_all
        [ensure (\<not> (vd_delivery_id verdict \<noteq> ds_id s \<or> vd_delivery_spec_id verdict \<noteq> sp_id (ds_spec s)))
           (validation_error DvRelationshipMismatch ''delivery.verdict''
              ''delivery verdict does not match the current delivery and spec''),
         ensure (\<not> (card result_ids \<noteq> card criterion_ids \<or> \<not> criterion_ids \<subseteq> result_ids))
           (validation_error DvInvalidVerdict ''delivery.verdict.criteria''
              ''delivery verdict must evaluate every current acceptance criterion exactly once''),
         check_each (result_relation s verdict) (vd_criteria verdict) ''delivery.verdict.criteria'',
         ensure (vd_status verdict = expected_status s verdict)
           (validation_error DvInvalidVerdict ''delivery.verdict.status''
              (''delivery verdict must be '' @ verdict_debug (expected_status s verdict)
               @ '' for its required criterion results'')),
         ensure (\<not> (vd_status verdict = VerdictPass
             \<and> list_ex (\<lambda>item. blocking_open item \<and> at_item_type item \<noteq> DeliveryApproval) (ds_attention_items s)))
           (validation_error DvInvalidVerdict ''delivery.verdict.status''
              ''a passing verdict cannot retain open blocking Attention'')])"

section \<open>Validation of a delivery\<close>

definition scheduling_error_debug :: "scheduling_error \<Rightarrow> string" where
  "scheduling_error_debug e = (case e of InvalidAggregate \<Rightarrow> ''InvalidAggregate''
     | ContractRevisionMismatch \<Rightarrow> ''ContractRevisionMismatch'' | NoRunnableWorkItem \<Rightarrow> ''NoRunnableWorkItem''
     | InvalidAttempt \<Rightarrow> ''InvalidAttempt'' | StaleWorkItem \<Rightarrow> ''StaleWorkItem'' | InvalidTransition \<Rightarrow> ''InvalidTransition'')"

definition header_checks :: "delivery_snapshot \<Rightarrow> delivery_check" where
  "header_checks s =
     check_all
       [schema_version (ds_schema_version s) ''delivery.schemaVersion'',
        canonical_delivery_id (ds_id s) ''delivery.id'',
        positive (ds_revision s) ''delivery.revision'',
        safe_non_negative (ds_created_at_millis s) ''delivery.createdAtMillis'',
        safe_non_negative (ds_updated_at_millis s) ''delivery.updatedAtMillis'',
        ensure (\<not> ds_updated_at_millis s < ds_created_at_millis s)
          (validation_error DvInvalidValue ''delivery.updatedAtMillis'' ''delivery update precedes creation'')]"

definition parts_checks :: "delivery_snapshot \<Rightarrow> delivery_check" where
  "parts_checks s =
     check_all
       [collection_length (length (ds_session_bindings s)) ''delivery.sessionBindings'',
        collection_length (length (ds_attention_items s)) ''delivery.attentionItems'',
        collection_length (length (ds_evidence s)) ''delivery.evidence'',
        check_each validate_binding (ds_session_bindings s) ''delivery.sessionBindings'',
        check_each validate_attention (ds_attention_items s) ''delivery.attentionItems'',
        check_each validate_evidence (ds_evidence s) ''delivery.evidence'',
        check_some (\<lambda>v. validate_verdict v ''delivery.verdict'') (ds_verdict s),
        ensure (sp_delivery_id (ds_spec s) = ds_id s)
          (validation_error DvRelationshipMismatch ''delivery.spec.deliveryId'' ''spec belongs to another delivery'')]"

definition identity_checks :: "delivery_snapshot \<Rightarrow> delivery_check" where
  "identity_checks s =
     (let bindings = ds_session_bindings s in
      check_all
        [duplicate_ids (map db_id bindings) ''delivery.sessionBindings'',
         duplicate_ids (map db_work_run_id bindings) ''delivery.sessionBindings.workRunId'',
         ensure (distinct (map (\<lambda>b. (db_execution_job_id b, db_attempt b)) bindings))
           (validation_error DvRelationshipMismatch ''delivery.sessionBindings.executionJobIdAttempt''
              ''a WorkerSession binding already uses this ExecutionJob and attempt''),
         duplicate_ids (List.map_filter db_worker_session_id bindings) ''delivery.sessionBindings.workerSessionId'',
         duplicate_ids (List.map_filter db_codex_thread_id bindings) ''delivery.sessionBindings.codexThreadId'',
         duplicate_ids (List.map_filter db_lease_id bindings) ''delivery.sessionBindings.leaseId'',
         duplicate_ids (map at_id (ds_attention_items s)) ''delivery.attentionItems'',
         duplicate_ids (map er_id (ds_evidence s)) ''delivery.evidence''])"

definition relation_checks :: "delivery_snapshot \<Rightarrow> delivery_check" where
  "relation_checks s =
     check_all
       [ensure (\<not> of_nat (rework_count s) > sp_max_rework_attempts (ds_spec s))
          (validation_error DvRelationshipMismatch ''delivery.workRunAggregate.runs''
             ''delivery exceeds the approved rework attempt limit''),
        check_each (binding_relation s) (ds_session_bindings s) ''delivery.sessionBindings'',
        check_each (attention_relation s) (ds_attention_items s) ''delivery.attentionItems'',
        check_each (evidence_relation s) (ds_evidence s) ''delivery.evidence'',
        ensure (\<not> (ds_status s = StatusNeedsAttention \<and> \<not> list_ex blocking_open (ds_attention_items s)))
          (validation_error DvRelationshipMismatch ''delivery.attentionItems''
             ''needs-attention delivery has no open blocking attention item''),
        check_some (validate_verdict_relationships s) (ds_verdict s)]"

definition completion_checks :: "delivery_snapshot \<Rightarrow> delivery_check" where
  "completion_checks s =
     check_all
       [ensure (\<not> (ds_status s \<in> {StatusReadyToDeliver, StatusDelivered}
             \<and> map_option vd_status (ds_verdict s) \<noteq> Some VerdictPass))
          (validation_error DvInvalidVerdict ''delivery.status''
             ''ready-to-deliver and delivered require a passing delivery verdict''),
        ensure (\<not> (ds_status s = StatusDelivered \<and> list_ex blocking_open (ds_attention_items s)))
          (validation_error DvRelationshipMismatch ''delivery.attentionItems''
             ''delivered delivery cannot retain blocking attention''),
        ensure (\<not> (ds_status s \<in> {StatusReadyToDeliver, StatusDelivered}
             \<and> list_ex (\<lambda>i. wi_state i \<noteq> ItemDone) (ag_items (ds_work_run_aggregate s))))
          (validation_error DvRelationshipMismatch ''delivery.workRunAggregate.items''
             ''delivered requires every WorkItem to pass the completion gate'')]"

definition validate_delivery ::
    "'z delivery_env_scheme \<Rightarrow> delivery_snapshot \<Rightarrow> delivery_validation_error + delivery_snapshot" where
  "validate_delivery env s =
     rbind (map_err (\<lambda>e. validation_error DvRelationshipMismatch ''delivery.workRunAggregate''
         (''invalid WorkRun aggregate: '' @ scheduling_error_debug e))
       (validate_aggregate (de_calendar env) (ds_work_run_aggregate s))) (\<lambda>_.
     rbind (validate_fact env s) (\<lambda>_.
     rbind (header_checks s) (\<lambda>_.
     rbind (validate_spec (de_sha256 env) (ds_spec s) ''delivery.spec'') (\<lambda>spec.
     let s = s\<lparr>ds_spec := spec\<rparr> in
     rbind (check_all [parts_checks s, identity_checks s, relation_checks s, completion_checks s]) (\<lambda>_. Inr s)))))"

definition try_from_snapshot ::
    "'z delivery_env_scheme \<Rightarrow> delivery_snapshot \<Rightarrow> delivery_validation_error + delivery_snapshot" where
  "try_from_snapshot env s = validate_delivery env s"

definition selected_writer :: "delivery_snapshot \<Rightarrow> delivery_binding option" where
  "selected_writer s =
     (case ds_same_candidate_reverification s of
        Some authority \<Rightarrow> find (\<lambda>b. db_work_run_id b = sc_producer_work_run_id authority) (ds_session_bindings s)
      | None \<Rightarrow>
          foldl (\<lambda>best b. case best of
                None \<Rightarrow> Some b
              | Some a \<Rightarrow>
                  if db_bound_at_millis b < db_bound_at_millis a
                     \<or> db_bound_at_millis b = db_bound_at_millis a \<and> db_attempt b < db_attempt a
                  then Some a else Some b)
            None (filter is_writer (ds_session_bindings s)))"

definition verification_round_floor :: "delivery_snapshot \<Rightarrow> nat" where
  "verification_round_floor s =
     (let minimum = (case ds_same_candidate_reverification s of None \<Rightarrow> 0 | Some authority \<Rightarrow> sc_binding_floor authority) in
      case selected_writer s of
        None \<Rightarrow> length (ds_session_bindings s)
      | Some writer \<Rightarrow>
          (let reviewers = filter (\<lambda>(_, b). db_execution_profile b = Some ''reviewer''
                 \<and> db_work_contract_id b = db_work_contract_id writer
                 \<and> db_work_contract_revision b = db_work_contract_revision writer
                 \<and> db_work_item_id b = db_work_item_id writer
                 \<and> db_work_item_revision b = db_work_item_revision writer)
               (drop minimum (enumerate 0 (ds_session_bindings s)))
           in if reviewers \<noteq> [] then fst (last reviewers)
              else if minimum > 0 then length (ds_session_bindings s) else 0))"

end
