(* ===== verification/Delivery_Candidate.thy ===== *)
theory Delivery_Candidate
  imports Delivery_State
begin

text \<open>
  The candidate a verdict is about (\<^verbatim>\<open>domain/candidate.rs\<close>): its frozen facts and the check that they still belong to
  the current writer of the delivery. The JSON encodings that are hashed are parameters.
\<close>

section \<open>Frozen candidates\<close>

datatype candidate_path_state = PathPresent | PathDeleted

record candidate_path_fact =
  pf_path :: string
  pf_state :: candidate_path_state
  pf_object_id :: "string option"

record candidate_hunk_fact =
  hf_file_path :: string
  hf_hunk_sha256 :: string
  hf_source_hunk_sha256 :: "string option"

record frozen_candidate =
  fc_candidate_id :: string
  fc_candidate_digest :: string
  fc_validation_seal :: string
  fc_candidate_ref :: string
  fc_delivery_id :: string
  fc_delivery_spec_id :: string
  fc_delivery_spec_revision :: u64
  fc_repository :: repository_ref
  fc_base_revision :: string
  fc_producer_work_item_id :: "string option"
  fc_producer_work_run_id :: string
  fc_producer_attempt :: u64
  fc_producer_session_binding_id :: string
  fc_producer_product_session_id :: string
  fc_producer_execution_job_id :: string
  fc_producer_worker_session_id :: string
  fc_producer_codex_thread_id :: string
  fc_producer_lease_id :: string
  fc_producer_fencing_token :: string
  fc_producer_worker_id :: string
  fc_producer_worker_instance_id :: string
  fc_producer_artifact_ref :: string
  fc_producer_artifact_digest :: string
  fc_producer_last_event_sequence :: u64
  fc_producer_finished_at_millis :: u64
  fc_base_commit_id :: string
  fc_base_tree_id :: string
  fc_candidate_commit_id :: string
  fc_candidate_tree_id :: string
  fc_diff_sha256 :: string
  fc_changed_paths :: "candidate_path_fact list"
  fc_changed_hunks :: "candidate_hunk_fact list"

text \<open>
  What the code digest covers, and what the seal covers: \<^verbatim>\<open>CandidateIdentity\<close> has every field of the
  candidate but its digest, its seal and its reference, which are blanked here.
\<close>

type_synonym candidate_code =
  "repository_ref \<times> string \<times> string \<times> string \<times> string \<times> string \<times> candidate_path_fact list \<times> candidate_hunk_fact list"

definition candidate_code_of :: "frozen_candidate \<Rightarrow> candidate_code" where
  "candidate_code_of c = (fc_repository c, fc_base_commit_id c, fc_base_tree_id c, fc_candidate_commit_id c,
     fc_candidate_tree_id c, fc_diff_sha256 c, fc_changed_paths c, fc_changed_hunks c)"

definition candidate_identity_of :: "frozen_candidate \<Rightarrow> frozen_candidate" where
  "candidate_identity_of c = c\<lparr>fc_candidate_digest := [], fc_validation_seal := [], fc_candidate_ref := []\<rparr>"

record candidate_env = delivery_env +
  ce_code_json :: "candidate_code \<Rightarrow> string + string"
  ce_identity_json :: "frozen_candidate \<Rightarrow> string + string"

definition invalid_candidate :: "string \<Rightarrow> delivery_validation_error" where
  "invalid_candidate message = validation_error DvInvalidValue ''candidate'' message"

definition stale_candidate :: "string \<Rightarrow> delivery_validation_error" where
  "stale_candidate message = validation_error DvRelationshipMismatch ''candidate'' message"

definition candidate_code_digest ::
    "'z candidate_env_scheme \<Rightarrow> frozen_candidate \<Rightarrow> delivery_validation_error + string" where
  "candidate_code_digest env c =
     rbind (map_err invalid_candidate (ce_code_json env (candidate_code_of c))) (\<lambda>bytes.
     Inr (digest_text (de_sha256 env bytes)))"

definition candidate_identity_digest ::
    "'z candidate_env_scheme \<Rightarrow> frozen_candidate \<Rightarrow> delivery_validation_error + string" where
  "candidate_identity_digest env c =
     rbind (map_err (\<lambda>e. validation_error DvInvalidValue ''candidate'' (''candidate identity cannot be encoded: '' @ e))
       (ce_identity_json env (candidate_identity_of c))) (\<lambda>bytes.
     Inr (digest_text (de_sha256 env bytes)))"

section \<open>The current writer\<close>

definition is_newer_writer :: "delivery_snapshot \<Rightarrow> work_run \<Rightarrow> work_run \<Rightarrow> bool" where
  "is_newer_writer d producer run \<longleftrightarrow>
     run_work_item_id run = run_work_item_id producer
     \<and> run_id run \<noteq> run_id producer
     \<and> (case find (\<lambda>b. db_work_run_id b = run_id run) (ds_session_bindings d) of None \<Rightarrow> False | Some b \<Rightarrow> is_writer b)
     \<and> run_state run \<in> {RunLeased, RunRunning, RunCandidateReady, RunSettled}"

definition current_writer :: "delivery_snapshot \<Rightarrow> string \<Rightarrow> delivery_validation_error + work_run" where
  "current_writer d producer_id =
     rbind (case ds_same_candidate_reverification d of
              None \<Rightarrow> Inr ()
            | Some authority \<Rightarrow> ensure (sc_producer_work_run_id authority = producer_id)
                (stale_candidate ''candidate differs from the current same-candidate recovery authority'')) (\<lambda>_.
     case dropWhile (\<lambda>r. run_id r \<noteq> producer_id) (ag_runs (ds_work_run_aggregate d)) of
       [] \<Rightarrow> Inl (stale_candidate ''candidate producer WorkRun is missing'')
     | producer # later \<Rightarrow>
         if run_state producer \<notin> {RunRunning, RunCandidateReady, RunSettled} \<or> run_attempt producer \<le> 0
         then Inl (stale_candidate ''candidate producer WorkRun is not eligible for successful report verification'')
         else if list_ex (is_newer_writer d producer) later
         then Inl (stale_candidate ''candidate producer is superseded by a later WorkRun writer'')
         else Inr producer)"

definition exact_producer_binding ::
    "delivery_snapshot \<Rightarrow> work_run \<Rightarrow> string \<Rightarrow> delivery_validation_error + delivery_binding" where
  "exact_producer_binding d producer binding_id =
     (case filter (\<lambda>b. db_work_run_id b = run_id producer) (ds_session_bindings d) of
        [binding] \<Rightarrow>
          if db_id binding \<noteq> binding_id
          then Inl (stale_candidate ''candidate producer must have exactly one referenced SessionBinding'')
          else if db_delivery_id binding \<noteq> ds_id d
             \<or> \<not> (db_worker_session_id binding \<noteq> None \<and> db_codex_thread_id binding \<noteq> None)
             \<or> db_work_run_id binding \<noteq> run_id producer
          then Inl (stale_candidate ''candidate producer does not have one exact complete SessionBinding'')
          else Inr binding
      | _ \<Rightarrow> Inl (stale_candidate ''candidate producer must have exactly one referenced SessionBinding''))"

definition same_writer :: "frozen_candidate \<Rightarrow> work_run \<Rightarrow> delivery_binding \<Rightarrow> bool" where
  "same_writer c producer binding \<longleftrightarrow>
     fc_producer_product_session_id c = db_product_session_id binding
     \<and> fc_producer_execution_job_id c = db_execution_job_id binding
     \<and> db_worker_session_id binding = Some (fc_producer_worker_session_id c)
     \<and> db_codex_thread_id binding = Some (fc_producer_codex_thread_id c)
     \<and> db_worker_id binding = Some (fc_producer_worker_id c)
     \<and> db_worker_instance_id binding = Some (fc_producer_worker_instance_id c)
     \<and> db_lease_id binding = Some (fc_producer_lease_id c)
     \<and> db_fencing_token binding = Some (fc_producer_fencing_token c)
     \<and> run_worker_id producer = fc_producer_worker_id c
     \<and> run_worker_instance_id producer = fc_producer_worker_instance_id c
     \<and> run_lease_id producer = fc_producer_lease_id c
     \<and> run_fencing_token producer = fc_producer_fencing_token c
     \<and> run_worker_session_id producer = fc_producer_worker_session_id c
     \<and> run_codex_thread_id producer = Some (fc_producer_codex_thread_id c)
     \<and> run_attempt producer = u64_as_i64 (fc_producer_attempt c)"

definition assert_frozen_candidate_current ::
    "'z candidate_env_scheme \<Rightarrow> delivery_snapshot \<Rightarrow> frozen_candidate \<Rightarrow> delivery_check" where
  "assert_frozen_candidate_current env d c =
     rbind (ensure (\<not> (fc_delivery_id c \<noteq> ds_id d
         \<or> fc_delivery_spec_id c \<noteq> sp_id (ds_spec d)
         \<or> fc_delivery_spec_revision c \<noteq> sp_revision (ds_spec d)
         \<or> fc_repository c \<noteq> sp_repository (ds_spec d)
         \<or> fc_base_revision c \<noteq> sp_base_revision (ds_spec d)))
       (stale_candidate ''candidate does not match the current DeliverySpec'')) (\<lambda>_.
     rbind (map_err (\<lambda>_. stale_candidate ''candidate producer is no longer current'')
       (current_writer d (fc_producer_work_run_id c))) (\<lambda>producer.
     rbind (map_err (\<lambda>_. stale_candidate ''candidate producer binding is no longer current'')
       (exact_producer_binding d producer (fc_producer_session_binding_id c))) (\<lambda>binding.
     rbind (ensure (same_writer c producer binding)
       (stale_candidate ''candidate writer or complete SessionBinding identity changed'')) (\<lambda>_.
     if fc_candidate_ref c \<noteq> ''refs/winwincode/candidates/'' @ fc_candidate_commit_id c
     then Inl (stale_candidate ''candidate facts changed after freezing'')
     else
       rbind (candidate_code_digest env c) (\<lambda>digest.
       if fc_candidate_digest c \<noteq> digest then Inl (stale_candidate ''candidate facts changed after freezing'')
       else
         rbind (candidate_identity_digest env c) (\<lambda>seal.
         if fc_validation_seal c \<noteq> seal then Inl (stale_candidate ''candidate facts changed after freezing'')
         else Inr ()))))))"

end
