(* ===== verification/Verification_Command.thy ===== *)
theory Verification_Command
  imports Text_Space
begin

text \<open>
  \<^verbatim>\<open>crates/winwincode-domain/src/verification_command.rs\<close>: the identity of a verification command. The method a
  criterion approves is a line of shell; what a worker ran is an argument vector, often
  \<^verbatim>\<open>sh -c script\<close>. Both are reduced to one canonical text, whose digest is compared. SHA-256 (with the
  lower-case hexadecimal rendering of its result) is a parameter.
\<close>

section \<open>Literal shell commands\<close>

definition line_break :: "char \<Rightarrow> bool" where
  "line_break c \<longleftrightarrow> c \<in> {CHR 0x00, CHR 0x0A, CHR 0x0D}"

definition shell_special :: "char \<Rightarrow> bool" where
  "shell_special c \<longleftrightarrow> c \<in> set ''$*?[]~;|&<>(){}#'' \<or> c = CHR 0x60"

definition closes_quote :: "char option \<Rightarrow> char \<Rightarrow> bool" where
  "closes_quote quote c \<longleftrightarrow> quote = Some (CHR 0x27) \<and> c = CHR 0x27 \<or> quote = Some (CHR 0x22) \<and> c = CHR 0x22"

definition needs_shell :: "char option \<Rightarrow> char \<Rightarrow> bool" where
  "needs_shell quote c \<longleftrightarrow>
     quote = Some (CHR 0x22) \<and> c \<in> {CHR ''$'', CHR 0x60} \<or> quote = None \<and> shell_special c"

definition within_quote :: "char option \<Rightarrow> bool" where
  "within_quote quote \<longleftrightarrow> quote = Some (CHR 0x27) \<or> quote = Some (CHR 0x22)"

definition escaped_in_quotes :: "char \<Rightarrow> string" where
  "escaped_in_quotes e = (if e \<in> {CHR ''$'', CHR 0x60, CHR 0x22, CHR 0x5C} then [e] else [CHR 0x5C, e])"

definition double_escape :: "char option \<Rightarrow> char \<Rightarrow> bool" where
  "double_escape quote c \<longleftrightarrow> quote = Some (CHR 0x22) \<and> c = CHR 0x5C"

definition plain_escape :: "char option \<Rightarrow> char \<Rightarrow> bool" where
  "plain_escape quote c \<longleftrightarrow> quote = None \<and> c = CHR 0x5C"

definition opens_quote :: "char option \<Rightarrow> char \<Rightarrow> bool" where
  "opens_quote quote c \<longleftrightarrow> quote = None \<and> (c = CHR 0x27 \<or> c = CHR 0x22)"

definition separates :: "char option \<Rightarrow> char \<Rightarrow> bool" where
  "separates quote c \<longleftrightarrow> quote = None \<and> (c = CHR '' '' \<or> c = CHR 0x09)"

fun shell_words :: "string \<Rightarrow> string list \<Rightarrow> string \<Rightarrow> char option \<Rightarrow> bool \<Rightarrow> string list option" where
  "shell_words [] arguments argument quote started =
     (if quote \<noteq> None then None
      else Some (if started then arguments @ [argument] else arguments))"
| "shell_words (c # rest) arguments argument quote started =
     (if line_break c then None
      else if closes_quote quote c then shell_words rest arguments argument None started
      else if needs_shell quote c then None
      else if double_escape quote c
      then (case rest of
              [] \<Rightarrow> None
            | escaped # rest \<Rightarrow>
                if line_break escaped then None
                else shell_words rest arguments (argument @ escaped_in_quotes escaped) quote started)
      else if within_quote quote then shell_words rest arguments (argument @ [c]) quote started
      else if opens_quote quote c then shell_words rest arguments argument (Some c) True
      else if plain_escape quote c
      then (case rest of
              [] \<Rightarrow> None
            | escaped # rest \<Rightarrow>
                if line_break escaped then None
                else shell_words rest arguments (argument @ [escaped]) quote True)
      else if separates quote c
      then (if started then shell_words rest (arguments @ [argument]) [] quote False
            else shell_words rest arguments argument quote started)
      else if quote = None then shell_words rest arguments (argument @ [c]) quote True
      else None)"

lemmas shell_words_defs = line_break_def shell_special_def closes_quote_def needs_shell_def within_quote_def
  escaped_in_quotes_def double_escape_def plain_escape_def opens_quote_def separates_def

definition shell_keywords :: "string list" where
  "shell_keywords = [''!'', ''if'', ''then'', ''else'', ''fi'', ''for'', ''while'', ''until'', ''case'', ''do'',
     ''done'', ''function'', ''time'']"

definition literal_executable :: "string \<Rightarrow> bool" where
  "literal_executable x \<longleftrightarrow> x \<noteq> [] \<and> CHR ''='' \<notin> set x \<and> x \<notin> set shell_keywords"

definition literal_shell_argv :: "string \<Rightarrow> string list option" where
  "literal_shell_argv command =
     (case shell_words command [] [] None False of
        None \<Rightarrow> None
      | Some arguments \<Rightarrow>
          (case arguments of
             [] \<Rightarrow> None
           | executable # _ \<Rightarrow> if literal_executable executable then Some arguments else None))"

section \<open>Canonical commands and their digests\<close>

definition canonical_argv :: "string list \<Rightarrow> string" where
  "canonical_argv arguments = ''argv:'' @ concat (map (\<lambda>a. decimal (length a) @ '':'' @ a) arguments)"

definition canonical_command :: "string \<Rightarrow> string option" where
  "canonical_command command =
     (let normalized = trim command in
      if normalized = [] then None
      else Some (case literal_shell_argv normalized of
                   None \<Rightarrow> ''shell:'' @ normalized
                 | Some arguments \<Rightarrow> canonical_argv arguments))"

text \<open>\<^verbatim>\<open>rsplit('/').next()\<close>: what follows the last slash.\<close>

definition after_last_slash :: "string \<Rightarrow> string" where
  "after_last_slash s = rev (takeWhile (\<lambda>c. c \<noteq> CHR ''/'') (rev s))"

definition shell_script :: "string list \<Rightarrow> string option" where
  "shell_script command =
     (case command of
        [shell, flag, script] \<Rightarrow>
          if after_last_slash shell \<in> {''sh'', ''bash'', ''zsh''} \<and> flag \<in> {''-c'', ''-lc''} then Some script else None
      | _ \<Rightarrow> None)"

definition canonical_observed_command :: "string list \<Rightarrow> string option" where
  "canonical_observed_command command =
     (case shell_script command of
        Some script \<Rightarrow> canonical_command script
      | None \<Rightarrow> if command = [] then None else Some (canonical_argv command))"

definition DIGEST_DOMAIN :: string where
  "DIGEST_DOMAIN = ''winwincode-verification-command-v1'' @ [CHR 0x00]"

definition command_digest :: "(string \<Rightarrow> string) \<Rightarrow> string \<Rightarrow> string" where
  "command_digest sha256_hex command = ''sha256:'' @ sha256_hex (DIGEST_DOMAIN @ command)"

definition verification_method_digest :: "(string \<Rightarrow> string) \<Rightarrow> string \<Rightarrow> string option" where
  "verification_method_digest sha256_hex method = map_option (command_digest sha256_hex) (canonical_command method)"

definition observed_verification_command_digest :: "(string \<Rightarrow> string) \<Rightarrow> string list \<Rightarrow> string option" where
  "observed_verification_command_digest sha256_hex command =
     map_option (command_digest sha256_hex) (canonical_observed_command command)"

section \<open>Tests and checks\<close>

definition observed_command_tokens :: "string list \<Rightarrow> string list option" where
  "observed_command_tokens command =
     (case shell_script command of
        Some script \<Rightarrow> (let tokens = split_whitespace script in if tokens = [] then None else Some tokens)
      | None \<Rightarrow> if command = [] then None else Some command)"

definition strip_corepack :: "string list \<Rightarrow> string list" where
  "strip_corepack tokens = (case tokens of x # rest \<Rightarrow> if x = ''corepack'' then rest else tokens | [] \<Rightarrow> tokens)"

definition test_tokens :: "string list \<Rightarrow> bool" where
  "test_tokens tokens =
     (let tool = hd tokens; n = length tokens; second = tokens ! 1; third = tokens ! 2 in
      if n \<ge> 2 \<and> tool = ''cargo'' then second \<in> {''test'', ''nextest''}
      else if n \<ge> 3 \<and> tool \<in> {''pnpm'', ''npm'', ''yarn'', ''bun''} \<and> second = ''run'' then third = ''test''
      else if n \<ge> 2 \<and> tool \<in> {''pnpm'', ''yarn'', ''bun''} then second = ''test''
      else if n \<ge> 2 \<and> tool = ''npm'' then second = ''test''
      else if n \<ge> 1 \<and> tool \<in> {''pytest'', ''gradle''} then True
      else if n \<ge> 3 \<and> tool = ''python'' \<and> second = ''-m'' then third = ''pytest''
      else if n \<ge> 2 \<and> tool \<in> {''go'', ''dotnet'', ''swift''} then second = ''test''
      else if n \<ge> 2 \<and> tool = ''mvn'' then second = ''test''
      else False)"

definition observed_verification_command_is_test :: "string list \<Rightarrow> bool" where
  "observed_verification_command_is_test command =
     (case observed_command_tokens command of
        None \<Rightarrow> False
      | Some tokens \<Rightarrow> test_tokens (strip_corepack (map to_ascii_lowercase tokens)))"

definition check_tokens :: "string list \<Rightarrow> bool" where
  "check_tokens tokens =
     (let tool = hd tokens; n = length tokens; second = tokens ! 1 in
      if n \<ge> 2 \<and> tool = ''cargo''
      then second \<in> {''check'', ''clippy'', ''build''} \<or> second = ''fmt'' \<and> ''--check'' \<in> set tokens
      else if n \<ge> 1 \<and> tool \<in> {''pnpm'', ''npm'', ''yarn'', ''bun''}
      then (let script = (if n \<ge> 3 \<and> second = ''run'' then Some (tokens ! 2)
                          else if n \<ge> 2 then Some second else None)
            in script \<in> Some ` {''lint'', ''build'', ''typecheck'', ''verify'', ''format:check'', ''contracts:check''})
      else n \<ge> 1 \<and> tool = ''tsc'')"

definition observed_verification_command_is_check :: "string list \<Rightarrow> bool" where
  "observed_verification_command_is_check command =
     (observed_verification_command_is_test command
      \<or> (case observed_command_tokens command of
           None \<Rightarrow> False
         | Some tokens \<Rightarrow> check_tokens (strip_corepack (map to_ascii_lowercase tokens))))"

section \<open>Identities are faithful\<close>

text \<open>What a command means: an argument vector, or a script that only a shell can interpret.\<close>

datatype command_meaning = Argv "string list" | Script string

definition method_meaning :: "string \<Rightarrow> command_meaning option" where
  "method_meaning method =
     (let line = trim method in
      if line = [] then None
      else Some (case literal_shell_argv line of None \<Rightarrow> Script line | Some arguments \<Rightarrow> Argv arguments))"

definition observed_meaning :: "string list \<Rightarrow> command_meaning option" where
  "observed_meaning command =
     (case shell_script command of
        Some script \<Rightarrow> method_meaning script
      | None \<Rightarrow> if command = [] then None else Some (Argv command))"

fun meaning_text :: "command_meaning \<Rightarrow> string" where
  "meaning_text (Argv arguments) = canonical_argv arguments"
| "meaning_text (Script line) = ''shell:'' @ line"

lemma canonical_meaning:
  "canonical_command method = map_option meaning_text (method_meaning method)"
  "canonical_observed_command command = map_option meaning_text (observed_meaning command)"
  by (auto simp: canonical_command_def method_meaning_def canonical_observed_command_def observed_meaning_def Let_def
      split: option.splits)

text \<open>A length is followed by a colon, which is no digit, so the arguments can be read back.\<close>

lemma framed_inject:
  assumes "decimal (length a) @ '':'' @ a @ x = decimal (length b) @ '':'' @ b @ y"
  shows "a = b \<and> x = y"
proof -
  have digits: "takeWhile is_ascii_digit (decimal n @ '':'' @ r) = decimal n" for n r
  proof -
    have "takeWhile is_ascii_digit (decimal n @ '':'' @ r) = decimal n @ takeWhile is_ascii_digit ('':'' @ r)"
      using decimal_digits by (intro takeWhile_append2) blast
    then show ?thesis by (simp add: is_ascii_digit_def byte_def)
  qed
  have "decimal (length a) = decimal (length b)" using assms digits by metis
  then have "length a = length b" by (simp add: decimal_inject)
  with assms show ?thesis by simp
qed

lemma canonical_argv_inject: "canonical_argv as = canonical_argv bs \<longleftrightarrow> as = bs"
proof
  let ?f = "\<lambda>xs. concat (map (\<lambda>a. decimal (length a) @ '':'' @ a) xs)"
  have nonempty: "decimal n \<noteq> []" for n by (simp add: decimal.simps)
  have "?f as = ?f bs \<Longrightarrow> as = bs"
  proof (induction as arbitrary: bs)
    case Nil
    then show ?case by (cases bs) (simp_all add: nonempty)
  next
    case (Cons a as)
    then obtain b bs' where bs: "bs = b # bs'" by (cases bs) (simp_all add: nonempty)
    with Cons.prems have "a = b \<and> ?f as = ?f bs'" using framed_inject [of a "?f as" b "?f bs'"] by simp
    with Cons.IH bs show ?case by simp
  qed
  then show "canonical_argv as = canonical_argv bs \<Longrightarrow> as = bs" by (simp add: canonical_argv_def)
qed simp

lemma meaning_text_inject: "meaning_text m = meaning_text n \<longleftrightarrow> m = n"
  by (cases m; cases n) (simp_all add: canonical_argv_inject, simp_all add: canonical_argv_def)

text \<open>
  C17. A command satisfies an approved method only by being it. When the digest does not collide on the two texts, the
  digest of what was run equals the digest of the method exactly when both mean the same argument vector, or the
  same script in every byte; neither whitespace, quoting tricks nor the boundaries between arguments can be used
  to pass off another command.
\<close>

theorem method_digest_exact:
  assumes no_collision: "\<And>x y. canonical_observed_command command = Some x \<Longrightarrow> canonical_command method = Some y
      \<Longrightarrow> sha256_hex (DIGEST_DOMAIN @ x) = sha256_hex (DIGEST_DOMAIN @ y) \<Longrightarrow> x = y"
  shows "observed_verification_command_digest sha256_hex command = verification_method_digest sha256_hex method
    \<longleftrightarrow> observed_meaning command = method_meaning method"
proof (cases "observed_meaning command"; cases "method_meaning method")
  fix m n assume "observed_meaning command = Some m" "method_meaning method = Some n"
  with no_collision [of "meaning_text m" "meaning_text n"] show ?thesis
    by (auto simp: observed_verification_command_digest_def verification_method_digest_def canonical_meaning command_digest_def
        meaning_text_inject)
qed (simp_all add: observed_verification_command_digest_def verification_method_digest_def canonical_meaning)

theorem method_digest_exact_witness:
  "observed_verification_command_digest id [''printf'', ''a b''] \<noteq> verification_method_digest id ''printf a b''
   \<and> observed_verification_command_digest id [''printf'', ''a'', ''b''] = verification_method_digest id ''printf a b''"
proof -
  have "trim ''printf a b'' = ''printf a b''"
    by (rule trim_tight) (simp_all add: space_len_def space_end_len_def ascii_space_def space2_def space3_def byte_def)
  then have "method_meaning ''printf a b'' = Some (Argv [''printf'', ''a'', ''b''])"
    by (simp add: method_meaning_def literal_shell_argv_def shell_words_defs literal_executable_def
        shell_keywords_def)
  moreover have "observed_meaning [''printf'', ''a b''] = Some (Argv [''printf'', ''a b''])"
    "observed_meaning [''printf'', ''a'', ''b''] = Some (Argv [''printf'', ''a'', ''b''])"
    by (simp_all add: observed_meaning_def shell_script_def after_last_slash_def)
  ultimately show ?thesis using method_digest_exact [of _ _ id] by simp
qed

text \<open>Quoting every argument of a command with single quotes gives a line of shell that means the command.\<close>

definition quoted_body :: "string \<Rightarrow> string" where
  "quoted_body a = concat (map (\<lambda>c. if c = CHR 0x27 then [CHR 0x27, CHR 0x5C, CHR 0x27, CHR 0x27] else [c]) a)"

definition single_quoted :: "string \<Rightarrow> string" where
  "single_quoted a = CHR 0x27 # quoted_body a @ [CHR 0x27]"

fun quoted_line :: "string list \<Rightarrow> string" where
  "quoted_line [] = []"
| "quoted_line [a] = single_quoted a"
| "quoted_line (a # as) = single_quoted a @ CHR '' '' # quoted_line as"

lemma shell_words_body:
  assumes "\<forall>c \<in> set a. \<not> line_break c"
  shows "shell_words (quoted_body a @ CHR 0x27 # rest) arguments argument (Some (CHR 0x27)) True
    = shell_words rest arguments (argument @ a) None True"
  using assms
proof (induction a arbitrary: argument)
  case Nil
  then show ?case by (simp add: quoted_body_def shell_words_defs)
next
  case (Cons c a)
  have body: "quoted_body (c # a)
      = (if c = CHR 0x27 then [CHR 0x27, CHR 0x5C, CHR 0x27, CHR 0x27] else [c]) @ quoted_body a"
    by (simp add: quoted_body_def)
  show ?case using Cons.IH [of "argument @ [c]"] Cons.prems unfolding body by (cases "c = CHR 0x27") (simp_all add: shell_words_defs)
qed

lemma shell_words_quoted:
  assumes "\<forall>c \<in> set a. \<not> line_break c"
  shows "shell_words (single_quoted a @ rest) arguments [] None False = shell_words rest arguments a None True"
proof -
  have "shell_words (single_quoted a @ rest) arguments [] None False
      = shell_words (quoted_body a @ CHR 0x27 # rest) arguments [] (Some (CHR 0x27)) True"
    unfolding single_quoted_def by (simp add: shell_words_defs)
  then show ?thesis using shell_words_body [OF assms] by simp
qed

lemma shell_words_line:
  assumes "as \<noteq> []" and "\<forall>a \<in> set as. \<forall>c \<in> set a. \<not> line_break c"
  shows "shell_words (quoted_line as) arguments [] None False = Some (arguments @ as)"
  using assms
proof (induction as arbitrary: arguments rule: quoted_line.induct)
  case (2 a)
  then show ?case using shell_words_quoted [of a "[]" arguments] by simp
next
  case (3 a b as)
  have a: "\<forall>c \<in> set a. \<not> line_break c" using 3 by simp
  have "shell_words (CHR '' '' # quoted_line (b # as)) arguments a None True
      = shell_words (quoted_line (b # as)) (arguments @ [a]) [] None False"
    by (subst shell_words.simps) (simp add: shell_words_defs)
  also have "\<dots> = Some ((arguments @ [a]) @ b # as)" using 3 by simp
  finally show ?case using shell_words_quoted [OF a, of "CHR '' '' # quoted_line (b # as)" arguments] by simp
qed simp

lemma quoted_line_ends:
  assumes "as \<noteq> []"
  shows "\<exists>r. quoted_line as = CHR 0x27 # r" and "\<exists>r. quoted_line as = r @ [CHR 0x27]"
  using assms
proof (induction as rule: quoted_line.induct)
  case (3 a b as)
  case 2
  from 3(2) obtain r where "quoted_line (b # as) = r @ [CHR 0x27]" by blast
  then show ?case by simp
qed (simp_all add: single_quoted_def)

lemma quote_is_no_space:
  "space_len (CHR 0x27 # r) = 0" "space_end_len (CHR 0x27 # r) = 0"
  by (cases r; simp add: space_len_def space_end_len_def ascii_space_def space2_def space3_def byte_def split: list.splits)+

lemma trim_quoted_line:
  assumes "as \<noteq> []"
  shows "trim (quoted_line as) = quoted_line as"
proof (rule trim_tight)
  from quoted_line_ends(1) [OF assms] quote_is_no_space(1) show "space_len (quoted_line as) = 0" by metis
  from quoted_line_ends(2) [OF assms] obtain r where "rev (quoted_line as) = CHR 0x27 # rev r" by auto
  then show "space_end_len (rev (quoted_line as)) = 0" using quote_is_no_space(2) by simp
qed



end
