(* ===== verification/Snapshot_Seal.thy ===== *)
theory Snapshot_Seal
  imports Work_Runs Text_Space Storage_Keys
begin

text \<open>
  \<^verbatim>\<open>crates/winwincode-domain/src/snapshot.rs\<close>: the canonical snapshot of a candidate, the seal over its fields, and the
  binding of a verification session to it. Strings are their UTF-8 bytes; SHA-256 is a parameter.
\<close>

section \<open>Snapshots\<close>

datatype wire_schema_version = WinwincodeV1

record canonical_snapshot =
  sn_base_commit_id :: string
  sn_base_tree_id :: string
  sn_candidate_commit_id :: string
  sn_candidate_id :: string
  sn_candidate_tree_id :: string
  sn_content_digest :: string
  sn_created_at_millis :: int
  sn_diff_sha256 :: string
  sn_immutable :: bool
  sn_repository_id :: string
  sn_schema_version :: wire_schema_version
  sn_snapshot_id :: string
  sn_validation_seal :: string
  sn_work_run_id :: string

datatype snapshot_identity_error = InvalidIdentity | InvalidCodeIdentity | SnapshotMutable

definition git_object :: "string \<Rightarrow> bool" where
  "git_object value \<longleftrightarrow> (length value = 40 \<or> length value = 64) \<and> list_all lower_hex value"

definition snapshot_digest :: "string \<Rightarrow> bool" where
  "snapshot_digest value =
     (case strip_prefix ''sha256:'' value of None \<Rightarrow> False | Some hex \<Rightarrow> length hex = 64 \<and> list_all lower_hex hex)"

definition validate_contract :: "canonical_snapshot \<Rightarrow> snapshot_identity_error + unit" where
  "validate_contract s =
     (if sn_schema_version s \<noteq> WinwincodeV1 \<or> \<not> sn_immutable s then Inl SnapshotMutable
      else if \<not> is_canonical_prefixed_id (sn_snapshot_id s) ''snap_''
         \<or> \<not> is_canonical_prefixed_id (sn_candidate_id s) ''cnd_''
         \<or> \<not> is_canonical_prefixed_id (sn_work_run_id s) ''wrn_''
         \<or> \<not> is_canonical_prefixed_id (sn_repository_id s) ''rep_''
      then Inl InvalidIdentity
      else if sn_created_at_millis s < 0
         \<or> \<not> git_object (sn_base_commit_id s) \<or> \<not> git_object (sn_base_tree_id s)
         \<or> \<not> git_object (sn_candidate_commit_id s) \<or> \<not> git_object (sn_candidate_tree_id s)
         \<or> \<not> snapshot_digest (sn_diff_sha256 s) \<or> \<not> snapshot_digest (sn_content_digest s)
         \<or> \<not> snapshot_digest (sn_validation_seal s)
      then Inl InvalidCodeIdentity
      else Inr ())"

definition snapshot_try_from :: "canonical_snapshot \<Rightarrow> snapshot_identity_error + canonical_snapshot" where
  "snapshot_try_from s = rbind (validate_contract s) (\<lambda>_. Inr s)"

section \<open>Seals\<close>

definition sealed_fields :: "canonical_snapshot \<Rightarrow> string list" where
  "sealed_fields s =
     [sn_snapshot_id s, sn_candidate_id s, sn_work_run_id s, sn_repository_id s, sn_base_commit_id s, sn_base_tree_id s,
      sn_candidate_commit_id s, sn_candidate_tree_id s, sn_diff_sha256 s, sn_content_digest s, ''winwincode/v1'']"

definition length_prefixed :: "string \<Rightarrow> string" where
  "length_prefixed field = be_bytes 8 (length field mod 2 ^ 64) @ field"

text \<open>What is hashed. \<^verbatim>\<open>i64::to_be_bytes\<close> writes the two's complement of the time.\<close>

definition seal_text :: "canonical_snapshot \<Rightarrow> string" where
  "seal_text s =
     ''winwincode.snapshot.product.v1'' @ [CHR 0x00] @ concat (map length_prefixed (sealed_fields s))
     @ be_bytes 8 (nat (sn_created_at_millis s mod 2 ^ 64))"

definition seal_snapshot :: "(string \<Rightarrow> string) \<Rightarrow> canonical_snapshot \<Rightarrow> string" where
  "seal_snapshot sha256 s = digest_text (sha256 (seal_text s))"

definition verify_snapshot_seal :: "(string \<Rightarrow> string) \<Rightarrow> canonical_snapshot \<Rightarrow> bool" where
  "verify_snapshot_seal sha256 s \<longleftrightarrow> seal_snapshot sha256 s = sn_validation_seal s"

section \<open>Bindings of verification sessions\<close>

record snapshot_verification_binding =
  sv_snapshot_id :: string
  sv_candidate_id :: string
  sv_work_run_id :: string
  sv_verification_session_id :: string

text \<open>The variants carry what was expected and what was given.\<close>

datatype snapshot_binding_error =
    BindingMalformed
  | SnapshotMismatch string string
  | CandidateMismatch string string
  | WorkRunMismatch string string
  | VerificationSessionMismatch string string

definition verification_binding :: "canonical_snapshot \<Rightarrow> string \<Rightarrow> snapshot_verification_binding" where
  "verification_binding s session = \<lparr>sv_snapshot_id = sn_snapshot_id s, sv_candidate_id = sn_candidate_id s,
     sv_work_run_id = sn_work_run_id s, sv_verification_session_id = session\<rparr>"

definition binding_accept ::
    "snapshot_verification_binding \<Rightarrow> string \<Rightarrow> string \<Rightarrow> string \<Rightarrow> string \<Rightarrow> snapshot_binding_error + unit" where
  "binding_accept b snapshot_id candidate_id work_run_id session_id =
     (if sv_snapshot_id b \<noteq> snapshot_id then Inl (SnapshotMismatch (sv_snapshot_id b) snapshot_id)
      else if sv_candidate_id b \<noteq> candidate_id then Inl (CandidateMismatch (sv_candidate_id b) candidate_id)
      else if sv_work_run_id b \<noteq> work_run_id then Inl (WorkRunMismatch (sv_work_run_id b) work_run_id)
      else if sv_verification_session_id b \<noteq> session_id
      then Inl (VerificationSessionMismatch (sv_verification_session_id b) session_id)
      else Inr ())"

text \<open>\<open>decoded\<close> is what \<^verbatim>\<open>serde_json::from_value\<close> makes of the value.\<close>

definition binding_from_json :: "snapshot_verification_binding option \<Rightarrow> snapshot_binding_error + snapshot_verification_binding" where
  "binding_from_json decoded =
     (case decoded of
        None \<Rightarrow> Inl BindingMalformed
      | Some b \<Rightarrow>
          if \<not> is_canonical_prefixed_id (sv_snapshot_id b) ''snap_''
             \<or> \<not> is_canonical_prefixed_id (sv_candidate_id b) ''cnd_''
             \<or> \<not> is_canonical_prefixed_id (sv_work_run_id b) ''wrn_''
             \<or> \<not> is_canonical_prefixed_id (sv_verification_session_id b) ''vsn_''
          then Inl BindingMalformed else Inr b)"

section \<open>What a seal binds\<close>

lemma hex_nibble_inject: "m < 16 \<Longrightarrow> n < 16 \<Longrightarrow> hex_nibble m = hex_nibble n \<longleftrightarrow> m = n"
  by (auto simp: hex_nibble_def byte_inject [symmetric] byte_char_of)

lemma hex_text_inject: "hex_text x = hex_text y \<longleftrightarrow> x = y"
proof (induction x arbitrary: y)
  case Nil
  then show ?case by (cases y) (simp_all add: hex_text_def)
next
  case (Cons a x)
  have "byte a < 256" "byte b < 256" for b by (simp_all add: byte_def)
  then have nibbles: "byte a div 16 < 16 \<and> byte b div 16 < 16" "byte a mod 16 < 16 \<and> byte b mod 16 < 16" for b
    by (simp_all add: less_mult_imp_div_less)
  have "hex_nibble (byte a div 16) = hex_nibble (byte b div 16) \<and> hex_nibble (byte a mod 16) = hex_nibble (byte b mod 16)
      \<longleftrightarrow> a = b" for b
  proof -
    have "byte a = byte b" if "byte a div 16 = byte b div 16" "byte a mod 16 = byte b mod 16"
      using that by (metis div_mult_mod_eq)
    then show ?thesis using nibbles [of b] by (auto simp: hex_nibble_inject byte_inject)
  qed
  with Cons.IH show ?case by (cases y) (auto simp: hex_text_def)
qed

lemma be_bytes_inject: "m < 256 ^ k \<Longrightarrow> n < 256 ^ k \<Longrightarrow> be_bytes k m = be_bytes k n \<longleftrightarrow> m = n"
  by (metis from_be_bytes_be_bytes)

lemma length_prefixed_append:
  assumes "length x < 2 ^ 64" and "length y < 2 ^ 64"
  shows "length_prefixed x @ u = length_prefixed y @ v \<longleftrightarrow> x = y \<and> u = v"
  using assms be_bytes_inject [of "length x" 8 "length y"] by (auto simp: length_prefixed_def append_eq_append_conv)

lemma length_prefixed_concat:
  assumes "length xs = length ys" and "\<forall>x \<in> set xs. length x < 2 ^ 64" and "\<forall>y \<in> set ys. length y < 2 ^ 64"
  shows "concat (map length_prefixed xs) @ u = concat (map length_prefixed ys) @ v \<longleftrightarrow> xs = ys \<and> u = v"
  using assms by (induction xs ys rule: list_induct2) (auto simp: length_prefixed_append)

lemma canonical_fields_short: "validate_contract s = Inr () \<Longrightarrow> f \<in> set (sealed_fields s) \<Longrightarrow> length f < 2 ^ 64"
proof -
  assume valid: "validate_contract s = Inr ()" and f: "f \<in> set (sealed_fields s)"
  have "is_canonical_prefixed_id v p \<Longrightarrow> length v = length p + 26" for v p
    by (auto simp: is_canonical_prefixed_id_def strip_prefix_def split: if_splits)
  moreover have "snapshot_digest v \<Longrightarrow> length v = 71" for v
    by (auto simp: snapshot_digest_def strip_prefix_def split: if_splits)
  ultimately have "length f \<le> 71"
    using valid f by (auto simp: validate_contract_def sealed_fields_def git_object_def split: if_splits)
  then show ?thesis by simp
qed

lemma seal_text_inject:
  assumes "validate_contract s = Inr ()" and "validate_contract t = Inr ()"
    and "sn_created_at_millis s < 2 ^ 63" and "sn_created_at_millis t < 2 ^ 63"
  shows "seal_text s = seal_text t \<longleftrightarrow> sealed_fields s = sealed_fields t \<and> sn_created_at_millis s = sn_created_at_millis t"
proof -
  have times: "0 \<le> sn_created_at_millis s" "0 \<le> sn_created_at_millis t"
    using assms(1,2) by (auto simp: validate_contract_def split: if_splits)
  have "length (sealed_fields s) = length (sealed_fields t)" by (simp add: sealed_fields_def)
  moreover have "be_bytes 8 (nat (sn_created_at_millis s mod 2 ^ 64)) = be_bytes 8 (nat (sn_created_at_millis t mod 2 ^ 64))
      \<longleftrightarrow> sn_created_at_millis s = sn_created_at_millis t"
    using times assms(3,4) be_bytes_inject [of "nat (sn_created_at_millis s)" 8 "nat (sn_created_at_millis t)"] by (simp add: eq_nat_nat_iff)
  ultimately show ?thesis
    using canonical_fields_short [OF assms(1)] canonical_fields_short [OF assms(2)]
      length_prefixed_concat [of "sealed_fields s" "sealed_fields t" "[]" "[]"]
    by (simp add: seal_text_def)
qed

lemma lower_hex_nibble: "n < 16 \<Longrightarrow> lower_hex (hex_nibble n)"
  by (auto simp: lower_hex_def hex_nibble_def is_ascii_digit_def byte_char_of)

lemma hex_text_digits: "length (hex_text b) = 2 * length b" "list_all lower_hex (hex_text b)"
proof -
  show "length (hex_text b) = 2 * length b" by (induction b) (simp_all add: hex_text_def)
  have "byte c div 16 < 16" for c by (simp add: byte_def less_mult_imp_div_less)
  then show "list_all lower_hex (hex_text b)" by (induction b) (simp_all add: hex_text_def lower_hex_nibble)
qed

lemma snapshot_digest_text: "length b = 32 \<Longrightarrow> snapshot_digest (digest_text b)"
  by (simp add: snapshot_digest_def digest_text_def strip_prefix_def hex_text_digits)

text \<open>
  C18. A seal stands for one snapshot. Two accepted snapshots whose seals verify have the same seal exactly when they are
  the same snapshot in every field, as long as the digest does not collide on the two sealed texts: no field can
  be moved into its neighbour, because each carries its length.
\<close>

theorem seal_binds_snapshot:
  assumes "snapshot_try_from s = Inr s" and "snapshot_try_from t = Inr t"
    and "sn_created_at_millis s < 2 ^ 63" and "sn_created_at_millis t < 2 ^ 63"
    and "verify_snapshot_seal sha256 s" and "verify_snapshot_seal sha256 t"
    and no_collision: "sha256 (seal_text s) = sha256 (seal_text t) \<Longrightarrow> seal_text s = seal_text t"
  shows "sn_validation_seal s = sn_validation_seal t \<longleftrightarrow> s = t"
proof
  assume seals: "sn_validation_seal s = sn_validation_seal t"
  have valid: "validate_contract s = Inr ()" "validate_contract t = Inr ()"
    using assms(1,2) by (auto simp: snapshot_try_from_def rbind_Inr_iff)
  have "seal_snapshot sha256 s = seal_snapshot sha256 t" using assms(5,6) seals by (simp add: verify_snapshot_seal_def)
  then have "sha256 (seal_text s) = sha256 (seal_text t)" by (simp add: seal_snapshot_def digest_text_def hex_text_inject)
  then have "sealed_fields s = sealed_fields t" "sn_created_at_millis s = sn_created_at_millis t"
    using no_collision seal_text_inject [OF valid assms(3,4)] by blast+
  moreover have "sn_immutable s" "sn_immutable t" "sn_schema_version s = sn_schema_version t"
    using valid by (auto simp: validate_contract_def split: if_splits)
  ultimately show "s = t" using seals by (simp add: sealed_fields_def)
qed simp

text \<open>A digest of the last eight bytes, which tells two snapshots of different times apart.\<close>

definition sample_digest :: "string \<Rightarrow> string" where
  "sample_digest x = replicate 24 (CHR 0x00) @ drop (length x - 8) x"

definition sample_snapshot :: "int \<Rightarrow> canonical_snapshot" where
  "sample_snapshot time =
     (let s = \<lparr>sn_base_commit_id = replicate 40 (CHR ''a''), sn_base_tree_id = replicate 40 (CHR ''b''),
            sn_candidate_commit_id = replicate 40 (CHR ''c''), sn_candidate_id = ''cnd_'' @ replicate 26 (CHR ''1''),
            sn_candidate_tree_id = replicate 40 (CHR ''d''), sn_content_digest = ''sha256:'' @ replicate 64 (CHR ''0''),
            sn_created_at_millis = time, sn_diff_sha256 = ''sha256:'' @ replicate 64 (CHR ''1''), sn_immutable = True,
            sn_repository_id = ''rep_'' @ replicate 26 (CHR ''1''), sn_schema_version = WinwincodeV1,
            sn_snapshot_id = ''snap_'' @ replicate 26 (CHR ''1''), sn_validation_seal = [],
            sn_work_run_id = ''wrn_'' @ replicate 26 (CHR ''1'')\<rparr>
      in s\<lparr>sn_validation_seal := seal_snapshot sample_digest s\<rparr>)"

lemma sample_snapshot_ok: "0 \<le> time \<Longrightarrow> snapshot_try_from (sample_snapshot time) = Inr (sample_snapshot time)"
proof -
  assume "0 \<le> time"
  moreover have "snapshot_digest (seal_snapshot sample_digest s)" for s
    unfolding seal_snapshot_def by (rule snapshot_digest_text) (simp add: sample_digest_def seal_text_def)
  ultimately show ?thesis
    by (simp add: snapshot_try_from_def validate_contract_def sample_snapshot_def Let_def git_object_def list_all_iff lower_hex_def
      is_ascii_digit_def byte_def is_canonical_prefixed_id_def strip_prefix_def crockford_byte_def snapshot_digest_def)
qed

theorem seal_binds_snapshot_witness:
  "sn_validation_seal (sample_snapshot 1) \<noteq> sn_validation_seal (sample_snapshot 2)"
proof -
  have seals: "verify_snapshot_seal sample_digest (sample_snapshot time)" for time
    by (simp add: verify_snapshot_seal_def sample_snapshot_def Let_def seal_snapshot_def seal_text_def sealed_fields_def)
  have times: "sn_created_at_millis (sample_snapshot time) = time" for time by (simp add: sample_snapshot_def Let_def)
  have suffix: "length y = 8 \<Longrightarrow> drop (length (x @ y) - 8) (x @ y) = y" for x y :: string by simp
  have "drop (length (seal_text s) - 8) (seal_text s) = be_bytes 8 (nat (sn_created_at_millis s mod 2 ^ 64))" for s
    unfolding seal_text_def append_assoc [symmetric] by (rule suffix) simp
  then have "sample_digest (seal_text (sample_snapshot 1)) \<noteq> sample_digest (seal_text (sample_snapshot 2))"
    using be_bytes_inject [of 1 8 2] by (simp add: sample_digest_def times)
  moreover have "sample_snapshot 1 \<noteq> sample_snapshot 2" unfolding sample_snapshot_def Let_def by simp
  ultimately show ?thesis
    using seal_binds_snapshot [OF sample_snapshot_ok sample_snapshot_ok _ _ seals seals, of 1 2] by (simp add: times)
qed

end
