(* ===== verification/Delivery_Verdict.thy ===== *)
theory Delivery_Verdict
  imports Delivery_Candidate Verification_Command Snapshot_Seal
begin

text \<open>
  \<^verbatim>\<open>domain/verdict.rs\<close>: how a verdict is computed from what independent verifiers did and from the evidence their
  runs left behind, and how a canonical decision is adjudicated. The facts of a verification
  (\<^verbatim>\<open>domain/verification.rs\<close>) and resolved evidence (\<^verbatim>\<open>domain/evidence.rs\<close>) are data here. Where the code calls
  \<^verbatim>\<open>expect\<close> the result is an option, and \<open>None\<close> is the panic.
\<close>

section \<open>Verification facts\<close>

datatype verification_role = RoleReviewer | RoleVerifier | RoleAdversarialVerifier

datatype verification_job_outcome_status = JobSucceeded | JobFailed | JobInfrastructureError | JobCancelled

datatype verification_finding_conclusion = FindingPass | FindingFail

datatype verification_session_state =
    SessionMissing | SessionRunning | SessionIncomplete | SessionFailed | SessionCancelled | SessionSettled

datatype verification_terminal_settlement =
    TerminalIsSettled | TerminalIsFailed | TerminalIsInfrastructureError | TerminalIsCancelled

record verification_assignment =
  va_snapshot_id :: string
  va_role :: verification_role
  va_work_run_id :: string
  va_session_binding_id :: string
  va_product_session_id :: string
  va_execution_job_id :: string
  va_worker_session_id :: string
  va_codex_thread_id :: string
  va_repository :: repository_ref
  va_checkout_revision :: string

record accepted_job_outcome =
  jo_snapshot_id :: string
  jo_product_session_id :: string
  jo_work_run_id :: string
  jo_role_id :: string
  jo_execution_job_id :: string
  jo_attempt :: u64
  jo_lease_id :: string
  jo_fencing_token :: string
  jo_worker_id :: string
  jo_worker_instance_id :: string
  jo_worker_session_id :: string
  jo_codex_thread_id :: string
  jo_last_event_sequence :: int
  jo_finished_at_millis :: u64
  jo_status :: verification_job_outcome_status
  jo_terminal_candidate_tree_id :: string
  jo_artifacts :: "terminal_artifact_reference list"

record verification_finding =
  vf_role :: verification_role
  vf_finding_ref :: string
  vf_criterion_id :: string
  vf_conclusion :: verification_finding_conclusion
  vf_source_refs :: "string list"
  vf_result_sequence :: int
  vf_source_sequences :: "int list"
  vf_explanation :: string
  vf_candidate_ref :: string

record role_settlement =
  rs_role :: verification_role
  rs_state :: verification_session_state
  rs_assignment :: "verification_assignment option"
  rs_findings :: "verification_finding list"
  rs_terminal_job_outcome :: "accepted_job_outcome option"
  rs_terminal_settlement :: "verification_terminal_settlement option"

record independent_verification =
  iv_snapshot :: canonical_snapshot
  iv_candidate_ref :: string
  iv_settlements :: "role_settlement list"
  iv_source_delivery_seal :: string

section \<open>Resolved evidence\<close>

datatype evidence_outcome_kind =
    OutcomeObserved | OutcomeSucceeded | OutcomeFailed | OutcomeTimedOut | OutcomePolicyDenied
  | OutcomeInfrastructureFailed | OutcomeCancelled

record fenced_execution_identity =
  fe_snapshot_id :: string
  fe_product_session_id :: string
  fe_execution_job_id :: string
  fe_work_run_id :: string
  fe_role_id :: string
  fe_attempt :: u64
  fe_lease_id :: string
  fe_fencing_token :: string
  fe_worker_id :: string
  fe_worker_instance_id :: string
  fe_worker_session_id :: string
  fe_codex_thread_id :: string

record runtime_source_identity =
  ri_execution :: fenced_execution_identity
  ri_source_sequence :: u64
  ri_terminal_last_event_sequence :: u64
  ri_candidate_ref :: string
  ri_checkout_commit_id :: string
  ri_checkout_tree_id :: string
  ri_command_digest :: string

datatype evidence_source_identity =
    RuntimeSource runtime_source_identity
  | CandidateCommitSource string string
  | CandidateDiffSource string string
  | CandidateFileSource string string string string

record resolved_evidence =
  re_evidence :: evidence_ref
  re_outcome :: evidence_outcome_kind
  re_source_identity :: evidence_source_identity

definition terminal_identity :: "accepted_job_outcome \<Rightarrow> fenced_execution_identity" where
  "terminal_identity t = \<lparr>fe_snapshot_id = jo_snapshot_id t, fe_product_session_id = jo_product_session_id t,
     fe_execution_job_id = jo_execution_job_id t, fe_work_run_id = jo_work_run_id t, fe_role_id = jo_role_id t,
     fe_attempt = jo_attempt t, fe_lease_id = jo_lease_id t, fe_fencing_token = jo_fencing_token t,
     fe_worker_id = jo_worker_id t, fe_worker_instance_id = jo_worker_instance_id t,
     fe_worker_session_id = jo_worker_session_id t, fe_codex_thread_id = jo_codex_thread_id t\<rparr>"

definition accepted_terminal_sequence :: "accepted_job_outcome \<Rightarrow> u64 option" where
  "accepted_terminal_sequence t = u64_try_from (jo_last_event_sequence t)"

definition matches_finding_source :: "resolved_evidence \<Rightarrow> accepted_job_outcome \<Rightarrow> u64 \<Rightarrow> bool option" where
  "matches_finding_source e t source_sequence =
     (case re_source_identity e of
        RuntimeSource identity \<Rightarrow>
          if ri_execution identity = terminal_identity t \<and> ri_source_sequence identity = source_sequence
          then (case accepted_terminal_sequence t of
                  None \<Rightarrow> None
                | Some n \<Rightarrow> Some (ri_terminal_last_event_sequence identity = n))
          else Some False
      | _ \<Rightarrow> Some False)"

definition matches_verification_method :: "(string \<Rightarrow> string) \<Rightarrow> resolved_evidence \<Rightarrow> string \<Rightarrow> bool" where
  "matches_verification_method sha256 e method =
     (case verification_method_digest (\<lambda>x. hex_text (sha256 x)) method of
        None \<Rightarrow> False
      | Some expected \<Rightarrow>
          (case re_source_identity e of RuntimeSource identity \<Rightarrow> ri_command_digest identity = expected | _ \<Rightarrow> False))"

section \<open>One role, one criterion\<close>

datatype verdict_attention_action = ClarifyDefinition | StartRework | RetryVerification

datatype product_outcome = ProductPass | ProductFail

datatype role_outcome = RoleProduct product_outcome | RoleInconclusive | RoleInfraError

record role_evaluation =
  ro_role :: verification_role
  ro_outcome :: role_outcome
  ro_evidence_ids :: "string list"
  ro_explanation :: string
  ro_unresolved_finding :: "string option"
  ro_action :: "verdict_attention_action option"

fun role_order :: "verification_role \<Rightarrow> nat" where
  "role_order RoleReviewer = 0"
| "role_order RoleVerifier = 1"
| "role_order RoleAdversarialVerifier = 2"

fun role_id :: "verification_role \<Rightarrow> string" where
  "role_id RoleReviewer = ''reviewer''"
| "role_id RoleVerifier = ''verifier''"
| "role_id RoleAdversarialVerifier = ''adversarial-verifier''"

fun product_outcome_name :: "product_outcome \<Rightarrow> string" where
  "product_outcome_name ProductPass = ''pass''"
| "product_outcome_name ProductFail = ''fail''"

fun role_outcome_name :: "role_outcome \<Rightarrow> string" where
  "role_outcome_name (RoleProduct p) = product_outcome_name p"
| "role_outcome_name RoleInconclusive = ''inconclusive''"
| "role_outcome_name RoleInfraError = ''infra_error''"

definition direct_evidence_type :: "evidence_ref_type \<Rightarrow> bool" where
  "direct_evidence_type t \<longleftrightarrow> t \<in> {EvidenceTest, EvidenceCommand}"

text \<open>\<^verbatim>\<open>sort_by(cmp)\<close> followed by \<^verbatim>\<open>dedup()\<close>\<close>

definition sorted_ids :: "string list \<Rightarrow> string list" where
  "sorted_ids ids = remdups_adj (sort ids)"

definition source_evidence_ids :: "resolved_evidence list \<Rightarrow> string list" where
  "source_evidence_ids es = sorted_ids (map (\<lambda>e. er_id (re_evidence e)) es)"

definition role_inconclusive ::
    "verification_role \<Rightarrow> string \<Rightarrow> string \<Rightarrow> string \<Rightarrow> verdict_attention_action \<Rightarrow> role_evaluation" where
  "role_inconclusive role criterion_id explanation reason action =
     \<lparr>ro_role = role, ro_outcome = RoleInconclusive, ro_evidence_ids = [],
      ro_explanation = role_id role @ '': '' @ explanation,
      ro_unresolved_finding = Some (''verification-inconclusive:'' @ criterion_id @ '':'' @ role_id role @ '':'' @ reason),
      ro_action = Some action\<rparr>"

definition role_evidence_mismatch ::
    "verification_role \<Rightarrow> string \<Rightarrow> string \<Rightarrow> string \<Rightarrow> string list \<Rightarrow> role_evaluation" where
  "role_evidence_mismatch role criterion_id finding_ref explanation evidence_ids =
     \<lparr>ro_role = role, ro_outcome = RoleInconclusive, ro_evidence_ids = evidence_ids,
      ro_explanation = role_id role @ '': '' @ explanation,
      ro_unresolved_finding = Some (''evidence-mismatch:'' @ criterion_id @ '':'' @ role_id role @ '':'' @ finding_ref),
      ro_action = Some ClarifyDefinition\<rparr>"

definition role_infra_error :: "verification_role \<Rightarrow> string list \<Rightarrow> string \<Rightarrow> role_evaluation" where
  "role_infra_error role evidence_ids explanation =
     \<lparr>ro_role = role, ro_outcome = RoleInfraError, ro_evidence_ids = evidence_ids,
      ro_explanation = role_id role @ '': '' @ explanation, ro_unresolved_finding = None,
      ro_action = Some RetryVerification\<rparr>"

definition cites_source ::
    "verification_assignment \<Rightarrow> accepted_job_outcome \<Rightarrow> string \<Rightarrow> resolved_evidence \<Rightarrow> bool" where
  "cites_source assignment t source_ref e \<longleftrightarrow>
     er_source_ref (re_evidence e) = source_ref
     \<and> er_work_run_id (re_evidence e) = va_work_run_id assignment
     \<and> er_session_binding_id (re_evidence e) = va_session_binding_id assignment
     \<and> er_snapshot_id (re_evidence e) = jo_snapshot_id t"

text \<open>The loop over the sources a finding cites. \<open>mismatch\<close> builds the evaluation of a mismatch.\<close>

fun resolve_sources ::
    "verification_assignment \<Rightarrow> accepted_job_outcome \<Rightarrow> resolved_evidence list
     \<Rightarrow> (string \<Rightarrow> string list \<Rightarrow> role_evaluation) \<Rightarrow> resolved_evidence list \<Rightarrow> (string \<times> int) list
     \<Rightarrow> (role_evaluation + resolved_evidence list) option" where
  "resolve_sources assignment t evidence mismatch resolved [] = Some (Inr resolved)"
| "resolve_sources assignment t evidence mismatch resolved ((source_ref, position) # sources) =
     (case filter (cites_source assignment t source_ref) evidence of
        [matching] \<Rightarrow>
          (case u64_try_from position of
             None \<Rightarrow> Some (Inl (mismatch ''finding source position is outside the accepted runtime sequence range''
               (source_evidence_ids (resolved @ [matching]))))
           | Some source_sequence \<Rightarrow>
               (case matches_finding_source matching t source_sequence of
                  None \<Rightarrow> None
                | Some False \<Rightarrow> Some (Inl (mismatch ''Evidence source position or terminal Worker lease differs from the finding''
                    (source_evidence_ids (resolved @ [matching]))))
                | Some True \<Rightarrow> resolve_sources assignment t evidence mismatch (resolved @ [matching]) sources))
      | _ \<Rightarrow> Some (Inl (mismatch ''finding source does not resolve to one exact current EvidenceRef''
          (source_evidence_ids resolved))))"

definition environment_failure :: "evidence_outcome_kind \<Rightarrow> bool" where
  "environment_failure k \<longleftrightarrow> k \<in> {OutcomeTimedOut, OutcomePolicyDenied, OutcomeInfrastructureFailed, OutcomeCancelled}"

definition claimed_outcome :: "verification_finding_conclusion \<Rightarrow> product_outcome" where
  "claimed_outcome c = (case c of FindingPass \<Rightarrow> ProductPass | FindingFail \<Rightarrow> ProductFail)"

definition observed_outcome :: "product_outcome \<Rightarrow> resolved_evidence \<Rightarrow> product_outcome option" where
  "observed_outcome claimed e =
     (case re_outcome e of
        OutcomeSucceeded \<Rightarrow> Some ProductPass
      | OutcomeFailed \<Rightarrow> Some ProductFail
      | OutcomeObserved \<Rightarrow>
          if er_evidence_type (re_evidence e) \<in> {EvidenceDiff, EvidenceFile, EvidenceCommit} then Some claimed else None
      | _ \<Rightarrow> None)"

text \<open>What the sources of a finding support, once they are resolved.\<close>

definition evaluate_sources ::
    "(string \<Rightarrow> string) \<Rightarrow> acceptance_criterion \<Rightarrow> verification_role \<Rightarrow> (string \<Rightarrow> string list \<Rightarrow> role_evaluation)
     \<Rightarrow> product_outcome \<Rightarrow> resolved_evidence list \<Rightarrow> role_evaluation option" where
  "evaluate_sources sha256 criterion role mismatch claimed resolved =
     (if list_ex (\<lambda>e. environment_failure (re_outcome e)) resolved
      then Some (role_infra_error role (source_evidence_ids resolved) ''direct supporting execution had an environment failure'')
      else
        let direct = filter (\<lambda>e. direct_evidence_type (er_evidence_type (re_evidence e))) resolved in
        if direct = []
        then Some (mismatch ''Agent message, review finding, or generic runtime event is not direct evidence''
          (source_evidence_ids resolved))
        else case ac_verification_method criterion of
          None \<Rightarrow> None
        | Some method \<Rightarrow>
            let direct = filter (\<lambda>e. matches_verification_method sha256 e method) direct in
            if direct = []
            then Some (mismatch ''direct Evidence does not match the approved verification method''
              (source_evidence_ids resolved))
            else
              let observed = map (observed_outcome claimed) direct in
              if None \<in> set observed
              then Some (mismatch ''test or command has no successful or failed direct outcome'' (source_evidence_ids direct))
              else if list_ex (\<lambda>x. x \<noteq> Some claimed) observed \<or> list_ex (\<lambda>x. x \<noteq> hd observed) observed
              then Some (mismatch ''Agent conclusion conflicts with the direct evidence outcome'' (source_evidence_ids direct))
              else Some \<lparr>ro_role = role, ro_outcome = RoleProduct claimed, ro_evidence_ids = source_evidence_ids direct,
                ro_explanation = role_id role @ '': '' @ product_outcome_name claimed @ '' is supported by current direct Evidence'',
                ro_unresolved_finding = None, ro_action = None\<rparr>)"

definition evaluate_settled_role ::
    "(string \<Rightarrow> string) \<Rightarrow> acceptance_criterion \<Rightarrow> role_settlement \<Rightarrow> resolved_evidence list \<Rightarrow> role_evaluation option" where
  "evaluate_settled_role sha256 criterion settlement evidence =
     (let role = rs_role settlement;
          inconclusive = (\<lambda>explanation reason.
            role_inconclusive role (ac_id criterion) explanation reason RetryVerification)
      in
      if rs_terminal_settlement settlement \<noteq> Some TerminalIsSettled
      then Some (role_infra_error role [] ''terminal verification failed'')
      else case rs_assignment settlement of
        None \<Rightarrow> Some (inconclusive ''settled verification has no current assignment'' ''missing-assignment'')
      | Some assignment \<Rightarrow>
          (case rs_terminal_job_outcome settlement of
             None \<Rightarrow> Some (inconclusive ''settled verification has no accepted terminal Worker outcome'' ''missing-terminal-outcome'')
           | Some t \<Rightarrow>
               (case filter (\<lambda>f. vf_criterion_id f = ac_id criterion) (rs_findings settlement) of
                  [finding] \<Rightarrow>
                    (let mismatch = role_evidence_mismatch role (ac_id criterion) (vf_finding_ref finding) in
                     if length (vf_source_refs finding) \<noteq> length (vf_source_sequences finding)
                     then Some (mismatch ''finding source references and source positions differ in length'' [])
                     else case resolve_sources assignment t evidence mismatch []
                         (zip (vf_source_refs finding) (vf_source_sequences finding)) of
                       None \<Rightarrow> None
                     | Some (Inl evaluation) \<Rightarrow> Some evaluation
                     | Some (Inr resolved) \<Rightarrow>
                         evaluate_sources sha256 criterion role mismatch (claimed_outcome (vf_conclusion finding)) resolved)
                | _ \<Rightarrow> Some (inconclusive ''verification must produce exactly one current finding'' ''missing-or-ambiguous-finding''))))"

definition evaluate_role ::
    "(string \<Rightarrow> string) \<Rightarrow> acceptance_criterion \<Rightarrow> role_settlement \<Rightarrow> resolved_evidence list \<Rightarrow> role_evaluation option" where
  "evaluate_role sha256 criterion settlement evidence =
     (let role = rs_role settlement in
      case rs_state settlement of
        SessionMissing \<Rightarrow> Some (role_inconclusive role (ac_id criterion) ''required verification Session is missing''
          ''missing-session'' RetryVerification)
      | SessionSettled \<Rightarrow> evaluate_settled_role sha256 criterion settlement evidence
      | SessionFailed \<Rightarrow> Some (role_infra_error role [] ''verification Session ended with an environment failure'')
      | SessionCancelled \<Rightarrow> Some (role_infra_error role [] ''verification Session ended with an environment failure'')
      | _ \<Rightarrow> Some (role_inconclusive role (ac_id criterion) ''verification Session has no complete accepted result''
          ''incomplete-session'' RetryVerification))"

end
