(* ===== verification/Delivery_Judgement.thy ===== *)
theory Delivery_Judgement
  imports Delivery_Verdict
begin

text \<open>
  \<^verbatim>\<open>domain/verdict.rs\<close>, continued: the verdict on a criterion, the status of a delivery, the computed verdict with
  its checks, the result of one verifier, and the canonical decision.
\<close>

section \<open>Criteria\<close>

record criterion_computation =
  cc_verdict :: criterion_verdict
  cc_evidence_ids :: "string list"
  cc_explanation :: string
  cc_unresolved_findings :: "string list"
  cc_actions :: "verdict_attention_action list"

text \<open>\<^verbatim>\<open>collect\<close> of computations that may panic.\<close>

fun all_some :: "'a option list \<Rightarrow> 'a list option" where
  "all_some [] = Some []"
| "all_some (x # xs) = (case x of None \<Rightarrow> None | Some a \<Rightarrow> map_option (Cons a) (all_some xs))"

fun join_with :: "string \<Rightarrow> string list \<Rightarrow> string" where
  "join_with separator [] = []"
| "join_with separator [x] = x"
| "join_with separator (x # xs) = x @ separator @ join_with separator xs"

definition role_products :: "role_evaluation list \<Rightarrow> product_outcome list" where
  "role_products roles = List.map_filter (\<lambda>r. case ro_outcome r of RoleProduct p \<Rightarrow> Some p | _ \<Rightarrow> None) roles"

definition roles_contradict :: "role_evaluation list \<Rightarrow> bool" where
  "roles_contradict roles =
     (let products = role_products roles in
      \<not> list_ex (\<lambda>r. ro_outcome r = RoleInfraError) roles
      \<and> length products = length roles \<and> roles \<noteq> []
      \<and> \<not> (products \<noteq> [] \<and> list_all (\<lambda>p. p = hd products) products))"

definition roles_verdict :: "role_evaluation list \<Rightarrow> criterion_verdict" where
  "roles_verdict roles =
     (let products = role_products roles in
      if list_ex (\<lambda>r. ro_outcome r = RoleInfraError) roles then VerdictInfraError
      else if length products = length roles \<and> roles \<noteq> [] \<and> products \<noteq> [] \<and> list_all (\<lambda>p. p = hd products) products
      then (case hd products of ProductPass \<Rightarrow> VerdictPass | ProductFail \<Rightarrow> VerdictFail)
      else VerdictInconclusive)"

definition judge_roles :: "acceptance_criterion \<Rightarrow> role_evaluation list \<Rightarrow> criterion_computation" where
  "judge_roles criterion roles =
     (let evidence_ids = sorted_ids (concat (map ro_evidence_ids roles));
          findings = List.map_filter ro_unresolved_finding roles;
          actions = List.map_filter ro_action roles;
          explanation = join_with '' | '' (map ro_explanation roles);
          verdict = roles_verdict roles;
          conclusions = join_with '','' (map (\<lambda>r. role_id (ro_role r) @ ''='' @ role_outcome_name (ro_outcome r)) roles);
          findings = (if roles_contradict roles
            then findings @ [''contradiction:'' @ ac_id criterion @ '':'' @ conclusions] else findings);
          actions = (if roles_contradict roles then actions @ [ClarifyDefinition] else actions)
      in
      if verdict \<in> {VerdictPass, VerdictFail} \<and> evidence_ids = []
      then \<lparr>cc_verdict = VerdictInconclusive, cc_evidence_ids = evidence_ids, cc_explanation = explanation,
            cc_unresolved_findings = findings @ [''evidence-mismatch:'' @ ac_id criterion @ '':no-direct-evidence''],
            cc_actions = actions @ [RetryVerification]\<rparr>
      else \<lparr>cc_verdict = verdict, cc_evidence_ids = evidence_ids, cc_explanation = explanation,
            cc_unresolved_findings = findings, cc_actions = actions\<rparr>)"

definition compute_criterion ::
    "(string \<Rightarrow> string) \<Rightarrow> acceptance_criterion \<Rightarrow> independent_verification \<Rightarrow> resolved_evidence list
     \<Rightarrow> criterion_computation option" where
  "compute_criterion sha256 criterion verification evidence =
     (if ac_verification_method criterion = None
      then Some \<lparr>cc_verdict = VerdictInconclusive, cc_evidence_ids = [],
        cc_explanation = ac_id criterion @ '': approved verification method is missing'',
        cc_unresolved_findings = [''verification-blocked:'' @ ac_id criterion @ '':missing-method''],
        cc_actions = [ClarifyDefinition]\<rparr>
      else
        map_option (\<lambda>roles. judge_roles criterion (sort_key (\<lambda>r. role_order (ro_role r)) roles))
          (all_some (map (\<lambda>settlement. evaluate_role sha256 criterion settlement evidence) (iv_settlements verification))))"

definition compute_verifier_result ::
    "(string \<Rightarrow> string) \<Rightarrow> delivery_snapshot \<Rightarrow> role_settlement \<Rightarrow> resolved_evidence list
     \<Rightarrow> (criterion_verdict \<times> string list) option" where
  "compute_verifier_result sha256 d settlement evidence =
     map_option (\<lambda>evaluations.
         (if list_ex (\<lambda>v. ro_outcome v = RoleInfraError) evaluations then VerdictInfraError
          else if list_ex (\<lambda>v. ro_outcome v = RoleProduct ProductFail) evaluations then VerdictFail
          else if evaluations = [] \<or> list_ex (\<lambda>v. ro_outcome v \<noteq> RoleProduct ProductPass) evaluations
          then VerdictInconclusive
          else VerdictPass,
          sorted_ids (concat (map ro_evidence_ids evaluations))))
       (all_some (map (\<lambda>criterion. evaluate_role sha256 criterion settlement evidence)
          (filter ac_required (sp_acceptance_criteria (ds_spec d)))))"

definition fold_delivery_status ::
    "delivery_snapshot \<Rightarrow> criterion_result list \<Rightarrow> string list \<Rightarrow> criterion_verdict" where
  "fold_delivery_status d criteria unresolved_findings =
     (let required_ids = set (map ac_id (filter ac_required (sp_acceptance_criteria (ds_spec d))));
          required = filter (\<lambda>r. cr_criterion_id r \<in> required_ids) criteria in
      if list_ex (\<lambda>r. cr_verdict r = VerdictFail) required then VerdictFail
      else if list_ex (\<lambda>r. cr_verdict r = VerdictInfraError) required then VerdictInfraError
      else if list_ex (\<lambda>r. cr_verdict r = VerdictInconclusive) required \<or> unresolved_findings \<noteq> []
      then VerdictInconclusive
      else VerdictPass)"

section \<open>Checks of what a verdict rests on\<close>

definition invalid_computation :: "string \<Rightarrow> delivery_validation_error" where
  "invalid_computation message = validation_error DvRelationshipMismatch ''verdict'' message"

fun resolved_evidence_from ::
    "delivery_snapshot \<Rightarrow> frozen_candidate \<Rightarrow> u64 \<Rightarrow> string set \<Rightarrow> resolved_evidence list \<Rightarrow> delivery_check" where
  "resolved_evidence_from d c produced_at ids [] = Inr ()"
| "resolved_evidence_from d c produced_at ids (e # es) =
     (let reference = re_evidence e in
      if \<not> (er_delivery_id reference = ds_id d
            \<and> er_delivery_spec_id reference = sp_id (ds_spec d)
            \<and> er_delivery_spec_revision reference = sp_revision (ds_spec d)
            \<and> er_candidate_id reference = fc_candidate_id c
            \<and> er_created_at_millis reference \<le> produced_at)
         \<or> er_id reference \<in> ids
      then Inl (invalid_computation ''resolved Evidence is duplicate, later, stale, or foreign'')
      else resolved_evidence_from d c produced_at (insert (er_id reference) ids) es)"

definition validate_resolved_evidence ::
    "delivery_snapshot \<Rightarrow> frozen_candidate \<Rightarrow> resolved_evidence list \<Rightarrow> u64 \<Rightarrow> delivery_check" where
  "validate_resolved_evidence d c evidence produced_at =
     check_all [collection_length (length evidence) ''verdict.evidence'', resolved_evidence_from d c produced_at {} evidence]"

definition validate_verification_time :: "independent_verification \<Rightarrow> u64 \<Rightarrow> delivery_check" where
  "validate_verification_time verification produced_at =
     ensure (\<not> list_ex (\<lambda>s. case rs_terminal_job_outcome s of None \<Rightarrow> False
          | Some t \<Rightarrow> jo_finished_at_millis t > produced_at) (iv_settlements verification))
       (invalid_computation ''verdict production time precedes a verification terminal outcome'')"

definition terminal_status_is_current ::
    "verification_session_state \<Rightarrow> verification_terminal_settlement option \<Rightarrow> work_run_state
     \<Rightarrow> verification_job_outcome_status \<Rightarrow> bool" where
  "terminal_status_is_current state terminal run status \<longleftrightarrow>
     state \<in> {SessionSettled, SessionIncomplete} \<and> terminal = Some TerminalIsSettled
       \<and> run \<in> {RunRunning, RunCandidateReady, RunSettled} \<and> status = JobSucceeded
     \<or> state = SessionFailed \<and> terminal \<in> {Some TerminalIsFailed, Some TerminalIsInfrastructureError}
       \<and> run = RunFailed \<and> status \<in> {JobFailed, JobInfrastructureError}
     \<or> state = SessionCancelled \<and> terminal = Some TerminalIsCancelled \<and> run = RunCancelled \<and> status = JobCancelled"

definition terminal_work_run_is_current :: "role_settlement \<Rightarrow> work_run \<Rightarrow> delivery_binding \<Rightarrow> bool" where
  "terminal_work_run_is_current settlement run binding =
     (case rs_terminal_job_outcome settlement of
        None \<Rightarrow>
          (case rs_state settlement of
             SessionRunning \<Rightarrow> run_state run \<in> {RunLeased, RunRunning}
           | SessionIncomplete \<Rightarrow> run_state run \<notin> {RunLeased, RunRunning}
           | SessionMissing \<Rightarrow> True
           | _ \<Rightarrow> False)
      | Some t \<Rightarrow>
          jo_work_run_id t = run_id run
          \<and> jo_execution_job_id t = db_execution_job_id binding
          \<and> jo_product_session_id t = db_product_session_id binding
          \<and> jo_attempt t = (case u64_try_from (run_attempt run) of None \<Rightarrow> 0 | Some n \<Rightarrow> n)
          \<and> db_worker_session_id binding = Some (jo_worker_session_id t)
          \<and> db_codex_thread_id binding = Some (jo_codex_thread_id t)
          \<and> db_bound_at_millis binding \<le> jo_finished_at_millis t
          \<and> terminal_status_is_current (rs_state settlement) (rs_terminal_settlement settlement) (run_state run) (jo_status t))"

definition settlement_is_current :: "delivery_snapshot \<Rightarrow> frozen_candidate \<Rightarrow> role_settlement \<Rightarrow> delivery_check" where
  "settlement_is_current d c settlement =
     (case rs_assignment settlement of
        None \<Rightarrow> Inr ()
      | Some assignment \<Rightarrow>
          rbind (ok_or (find (\<lambda>r. run_id r = va_work_run_id assignment) (ag_runs (ds_work_run_aggregate d)))
            (invalid_computation ''verification projection no longer owns the current WorkRun'')) (\<lambda>run.
          case filter (\<lambda>b. db_id b = va_session_binding_id assignment \<and> db_work_run_id b = run_id run) (ds_session_bindings d) of
            [binding] \<Rightarrow>
              check_all
                [ensure (db_product_session_id binding = va_product_session_id assignment
                     \<and> db_execution_job_id binding = va_execution_job_id assignment
                     \<and> db_worker_session_id binding = Some (va_worker_session_id assignment)
                     \<and> db_codex_thread_id binding = Some (va_codex_thread_id assignment)
                     \<and> va_repository assignment = fc_repository c
                     \<and> va_checkout_revision assignment = fc_candidate_commit_id c)
                   (invalid_computation ''verification projection Session or candidate checkout is stale''),
                 ensure (terminal_work_run_is_current settlement run binding)
                   (invalid_computation ''verification projection terminal WorkRun facts are stale'')]
          | _ \<Rightarrow> Inl (invalid_computation ''verification projection no longer has one current SessionBinding'')))"

text \<open>The JSON encodings that are hashed, as parameters. What identifies a result and a verdict is a tuple of its parts.\<close>

type_synonym result_identity = "string \<times> u64 \<times> string \<times> string \<times> criterion_verdict \<times> string list \<times> string"

type_synonym verdict_identity =
  "string \<times> string \<times> string \<times> u64 \<times> string \<times> criterion_verdict
   \<times> (string \<times> string \<times> criterion_verdict \<times> string list \<times> string) list \<times> string list"

record verdict_env = candidate_env +
  ve_delivery_json :: "delivery_snapshot \<Rightarrow> string + string"
  ve_result_json :: "result_identity \<Rightarrow> string + string"
  ve_verdict_json :: "verdict_identity \<Rightarrow> string + string"

definition seal_source_delivery ::
    "'z verdict_env_scheme \<Rightarrow> delivery_snapshot \<Rightarrow> delivery_validation_error + string" where
  "seal_source_delivery env d =
     rbind (map_err (\<lambda>e. validation_error DvInvalidValue ''verification.sourceDelivery''
         (''current Delivery cannot be sealed: '' @ e)) (ve_delivery_json env d)) (\<lambda>bytes.
     Inr (de_sha256 env bytes))"

definition validate_source_delivery ::
    "'z verdict_env_scheme \<Rightarrow> independent_verification \<Rightarrow> delivery_snapshot \<Rightarrow> delivery_check" where
  "validate_source_delivery env verification d =
     rbind (seal_source_delivery env d) (\<lambda>seal.
     ensure (iv_source_delivery_seal verification = seal)
       (validation_error DvRelationshipMismatch ''verification.sourceDelivery''
          ''independent verification was projected from another Delivery state''))"

definition validate_verification_is_current ::
    "'z verdict_env_scheme \<Rightarrow> delivery_snapshot \<Rightarrow> frozen_candidate \<Rightarrow> independent_verification \<Rightarrow> delivery_check" where
  "validate_verification_is_current env d c verification =
     rbind (validate_source_delivery env verification d) (\<lambda>_.
     check_all (map (settlement_is_current d c) (iv_settlements verification)))"

definition deterministic_id ::
    "'z verdict_env_scheme \<Rightarrow> string \<Rightarrow> string + string \<Rightarrow> delivery_validation_error + string" where
  "deterministic_id env prefix encoded =
     rbind (map_err (\<lambda>e. validation_error DvInvalidValue ''verdict''
         (''derived verdict identity cannot be encoded: '' @ e)) encoded) (\<lambda>bytes.
     Inr (prefix @ '':'' @ hex_text (de_sha256 env bytes)))"

definition validate_computed_facts ::
    "'z verdict_env_scheme \<Rightarrow> delivery_snapshot \<Rightarrow> evidence_ref list \<Rightarrow> delivery_verdict \<Rightarrow> u64 \<Rightarrow> delivery_check" where
  "validate_computed_facts env d evidence verdict produced_at =
     rbind (try_from_snapshot env (d\<lparr>ds_status := StatusReady, ds_evidence := evidence, ds_verdict := Some verdict,
       ds_updated_at_millis := produced_at\<rparr>)) (\<lambda>_. Inr ())"

section \<open>The computed verdict\<close>

record computed_delivery_verdict =
  cv_evidence :: "evidence_ref list"
  cv_verdict :: delivery_verdict

definition attention_findings :: "delivery_snapshot \<Rightarrow> string list" where
  "attention_findings d =
     map (\<lambda>item. ''blocking-attention:'' @ at_id item)
       (filter (\<lambda>item. blocking_open item \<and> at_item_type item \<noteq> DeliveryApproval) (ds_attention_items d))"

definition result_of ::
    "'z verdict_env_scheme \<Rightarrow> delivery_snapshot \<Rightarrow> frozen_candidate \<Rightarrow> u64 \<Rightarrow> acceptance_criterion
     \<Rightarrow> criterion_computation \<Rightarrow> delivery_validation_error + criterion_result" where
  "result_of env d c produced_at criterion computed =
     rbind (deterministic_id env ''criterion-result:sha256''
       (ve_result_json env (sp_id (ds_spec d), sp_revision (ds_spec d), fc_candidate_ref c, ac_id criterion,
          cc_verdict computed, cc_evidence_ids computed, cc_explanation computed))) (\<lambda>identity.
     Inr \<lparr>cr_schema_version = DELIVERY_SCHEMA_VERSION, cr_id = identity, cr_delivery_id = ds_id d,
       cr_delivery_spec_id = sp_id (ds_spec d), cr_criterion_id = ac_id criterion, cr_candidate_ref = fc_candidate_ref c,
       cr_verdict = cc_verdict computed, cr_evidence_refs = cc_evidence_ids computed,
       cr_explanation = cc_explanation computed, cr_evaluated_at_millis = produced_at\<rparr>)"

type_synonym judged_criterion = "acceptance_criterion \<times> criterion_computation \<times> criterion_result"

text \<open>The loop over the criteria: an evaluation may panic, the encoding of a result's identity may fail.\<close>

fun judge_criteria ::
    "'z verdict_env_scheme \<Rightarrow> delivery_snapshot \<Rightarrow> frozen_candidate \<Rightarrow> independent_verification \<Rightarrow> resolved_evidence list
     \<Rightarrow> u64 \<Rightarrow> acceptance_criterion list \<Rightarrow> (delivery_validation_error + judged_criterion list) option" where
  "judge_criteria env d c verification evidence produced_at [] = Some (Inr [])"
| "judge_criteria env d c verification evidence produced_at (criterion # criteria) =
     (case compute_criterion (de_sha256 env) criterion verification evidence of
        None \<Rightarrow> None
      | Some computed \<Rightarrow>
          (case result_of env d c produced_at criterion computed of
             Inl e \<Rightarrow> Some (Inl e)
           | Inr result \<Rightarrow>
               map_option (\<lambda>rest. rbind rest (\<lambda>judged. Inr ((criterion, computed, result) # judged)))
                 (judge_criteria env d c verification evidence produced_at criteria)))"

definition is_producer_candidate_commit_evidence :: "resolved_evidence \<Rightarrow> frozen_candidate \<Rightarrow> bool" where
  "is_producer_candidate_commit_evidence e c \<longleftrightarrow>
     er_evidence_type (re_evidence e) = EvidenceCommit
     \<and> er_work_run_id (re_evidence e) = fc_producer_work_run_id c
     \<and> er_session_binding_id (re_evidence e) = fc_producer_session_binding_id c
     \<and> er_candidate_id (re_evidence e) = fc_candidate_id c
     \<and> er_source_ref (re_evidence e) = ''git_commit:'' @ fc_candidate_commit_id c"

definition verdict_checks ::
    "'z verdict_env_scheme \<Rightarrow> delivery_snapshot \<Rightarrow> frozen_candidate \<Rightarrow> independent_verification \<Rightarrow> resolved_evidence list
     \<Rightarrow> u64 \<Rightarrow> delivery_check" where
  "verdict_checks env d c verification evidence produced_at =
     check_all
       [assert_frozen_candidate_current env d c,
        ensure (iv_candidate_ref verification = fc_candidate_ref c)
          (invalid_computation ''verification belongs to another frozen candidate''),
        validate_verification_is_current env d c verification,
        safe_non_negative produced_at ''verdict.producedAtMillis'',
        ensure (\<not> produced_at < ds_updated_at_millis d)
          (invalid_computation ''verdict production time precedes the current Delivery''),
        validate_resolved_evidence d c evidence produced_at,
        ensure (\<not> list_ex (\<lambda>e. er_snapshot_id (re_evidence e) \<noteq> sn_snapshot_id (iv_snapshot verification)) evidence)
          (invalid_computation ''Evidence belongs to another Snapshot''),
        validate_verification_time verification produced_at]"

text \<open>
  The attention actions that the code collects beside the findings are not part of its result. \<open>None\<close> is a panic of
  an evaluation.
\<close>

definition verdict_from ::
    "'z verdict_env_scheme \<Rightarrow> delivery_snapshot \<Rightarrow> frozen_candidate \<Rightarrow> independent_verification \<Rightarrow> resolved_evidence list
     \<Rightarrow> u64 \<Rightarrow> judged_criterion list \<Rightarrow> delivery_validation_error + computed_delivery_verdict" where
  "verdict_from env d c verification evidence produced_at judged =
     (let used = set (concat (map (\<lambda>(_, k, _). cc_evidence_ids k) judged));
          findings = remdups_adj (sort (attention_findings d
            @ concat (map (\<lambda>(_, k, _). cc_unresolved_findings k) (filter (\<lambda>(criterion, _). ac_required criterion) judged))));
          results = map (\<lambda>(_, _, r). r) judged;
          status = fold_delivery_status d results findings in
      rbind (deterministic_id env ''delivery-verdict:sha256''
        (ve_verdict_json env (sn_snapshot_id (iv_snapshot verification), fc_candidate_id c, sp_id (ds_spec d), sp_revision (ds_spec d),
           fc_candidate_ref c, status,
           map (\<lambda>r. (cr_id r, cr_criterion_id r, cr_verdict r, cr_evidence_refs r, cr_explanation r)) results, findings)))
        (\<lambda>identity.
      let verdict = \<lparr>vd_snapshot_id = sn_snapshot_id (iv_snapshot verification), vd_candidate_id = fc_candidate_id c,
            vd_candidate_digest = fc_candidate_digest c, vd_schema_version = DELIVERY_SCHEMA_VERSION, vd_id = identity,
            vd_delivery_id = ds_id d, vd_delivery_spec_id = sp_id (ds_spec d), vd_candidate_ref = fc_candidate_ref c,
            vd_status = status, vd_criteria = results, vd_unresolved_findings = findings,
            vd_produced_at_millis = produced_at\<rparr>;
          kept = sort_key er_id (map re_evidence (filter (\<lambda>e. er_id (re_evidence e) \<in> used
            \<or> is_producer_candidate_commit_evidence e c) evidence))
      in
      rbind (validate_computed_facts env d kept verdict produced_at) (\<lambda>_.
      Inr \<lparr>cv_evidence = kept, cv_verdict = verdict\<rparr>)))"

definition compute_delivery_verdict ::
    "'z verdict_env_scheme \<Rightarrow> delivery_snapshot \<Rightarrow> frozen_candidate \<Rightarrow> independent_verification \<Rightarrow> resolved_evidence list
     \<Rightarrow> u64 \<Rightarrow> (delivery_validation_error + computed_delivery_verdict) option" where
  "compute_delivery_verdict env d c verification evidence produced_at =
     (case verdict_checks env d c verification evidence produced_at of
        Inl e \<Rightarrow> Some (Inl e)
      | Inr _ \<Rightarrow>
          map_option (\<lambda>judged. rbind judged (verdict_from env d c verification evidence produced_at))
            (judge_criteria env d c verification evidence produced_at (sp_acceptance_criteria (ds_spec d))))"

section \<open>Canonical decisions\<close>

datatype decision_authority = VerifiedFact | ToolObservation | ModelConsensus | SingleModelClaim | NoDecision

record canonical_decision =
  cd_delivery_id :: string
  cd_candidate_ref :: string
  cd_outcome :: criterion_verdict
  cd_authority :: decision_authority
  cd_canonical_verdict_id :: "string option"
  cd_evidence_refs :: "string list"

definition decision_from_verdict :: "delivery_snapshot \<Rightarrow> delivery_verdict \<Rightarrow> canonical_decision" where
  "decision_from_verdict d verdict =
     \<lparr>cd_delivery_id = ds_id d, cd_candidate_ref = vd_candidate_ref verdict, cd_outcome = vd_status verdict,
      cd_authority = VerifiedFact, cd_canonical_verdict_id = Some (vd_id verdict),
      cd_evidence_refs = sorted_ids (concat (map cr_evidence_refs (vd_criteria verdict)))\<rparr>"

definition decision ::
    "delivery_snapshot \<Rightarrow> frozen_candidate \<Rightarrow> criterion_verdict \<Rightarrow> decision_authority \<Rightarrow> string list \<Rightarrow> canonical_decision" where
  "decision d c outcome authority evidence_refs =
     \<lparr>cd_delivery_id = ds_id d, cd_candidate_ref = fc_candidate_ref c, cd_outcome = outcome, cd_authority = authority,
      cd_canonical_verdict_id = None, cd_evidence_refs = evidence_refs\<rparr>"

definition outcome_verdict :: "evidence_outcome_kind \<Rightarrow> criterion_verdict option" where
  "outcome_verdict k =
     (case k of OutcomeObserved \<Rightarrow> None | OutcomeSucceeded \<Rightarrow> Some VerdictPass | OutcomeFailed \<Rightarrow> Some VerdictFail
      | _ \<Rightarrow> Some VerdictInfraError)"

definition evidence_outcome :: "resolved_evidence list \<Rightarrow> bool \<Rightarrow> (criterion_verdict \<times> string list) option" where
  "evidence_outcome evidence tests =
     (let decisive = List.map_filter (\<lambda>e. map_option (\<lambda>v. (v, er_id (re_evidence e))) (outcome_verdict (re_outcome e)))
            (filter (\<lambda>e. (er_evidence_type (re_evidence e) = EvidenceTest) = tests) evidence);
          outcomes = map fst decisive in
      if outcomes = [] then None
      else Some (if list_all (\<lambda>v. v = hd outcomes) outcomes then hd outcomes else VerdictInconclusive,
        sorted_ids (map snd decisive)))"

definition model_decision :: "criterion_verdict list \<Rightarrow> criterion_verdict \<times> decision_authority" where
  "model_decision claims =
     (case claims of
        [claim] \<Rightarrow> (claim, SingleModelClaim)
      | first # rest \<Rightarrow> if list_all (\<lambda>c. c = first) rest then (first, ModelConsensus) else (VerdictInconclusive, NoDecision)
      | [] \<Rightarrow> (VerdictInconclusive, NoDecision))"

definition adjudicate_canonical_decision ::
    "'z verdict_env_scheme \<Rightarrow> delivery_snapshot \<Rightarrow> frozen_candidate \<Rightarrow> computed_delivery_verdict option
     \<Rightarrow> resolved_evidence list \<Rightarrow> criterion_verdict list \<Rightarrow> delivery_validation_error + canonical_decision" where
  "adjudicate_canonical_decision env d c verifier_evidence evidence model_claims =
     rbind (check_all [assert_frozen_candidate_current env d c,
         collection_length (length model_claims) ''adjudication.modelClaims'',
         validate_resolved_evidence d c evidence MAX_SAFE_INTEGER]) (\<lambda>_.
     case ds_verdict d of
       Some verdict \<Rightarrow>
         if vd_candidate_ref verdict \<noteq> fc_candidate_ref c
         then Inl (invalid_computation ''canonical verdict belongs to another repository candidate'')
         else Inr (decision_from_verdict d verdict)
     | None \<Rightarrow>
         (case verifier_evidence of
            Some computed \<Rightarrow>
              (let verdict = cv_verdict computed in
               if vd_produced_at_millis verdict < ds_updated_at_millis d \<or> vd_candidate_ref verdict \<noteq> fc_candidate_ref c
               then Inl (invalid_computation ''verifier verdict is stale for the current canonical or repository state'')
               else
                 rbind (validate_computed_facts env d (cv_evidence computed) verdict (vd_produced_at_millis verdict)) (\<lambda>_.
                 Inr (decision_from_verdict d verdict)))
          | None \<Rightarrow>
              (case evidence_outcome evidence True of
                 Some (outcome, refs) \<Rightarrow> Inr (decision d c outcome VerifiedFact refs)
               | None \<Rightarrow>
                   (case evidence_outcome evidence False of
                      Some (outcome, refs) \<Rightarrow> Inr (decision d c outcome ToolObservation refs)
                    | None \<Rightarrow>
                        (let (outcome, authority) = model_decision model_claims
                         in Inr (decision d c outcome authority []))))))"

record fusion_analysis =
  fa_consensus_outcomes :: "criterion_verdict list"
  fa_conflict_outcomes :: "criterion_verdict list"
  fa_unsupported_model_claims :: "criterion_verdict list"

record analyzer_claim =
  cl_candidate_id :: string
  cl_outcome :: criterion_verdict

definition from_claims :: "analyzer_claim list \<Rightarrow> fusion_analysis" where
  "from_claims claims = \<lparr>fa_consensus_outcomes = [], fa_conflict_outcomes = [],
     fa_unsupported_model_claims = map cl_outcome claims\<rparr>"

definition model_claims :: "fusion_analysis \<Rightarrow> criterion_verdict list" where
  "model_claims a = fa_consensus_outcomes a @ fa_conflict_outcomes a @ fa_unsupported_model_claims a"

definition adjudicate_from_analysis ::
    "'z verdict_env_scheme \<Rightarrow> delivery_snapshot \<Rightarrow> frozen_candidate \<Rightarrow> computed_delivery_verdict option
     \<Rightarrow> resolved_evidence list \<Rightarrow> fusion_analysis \<Rightarrow> delivery_validation_error + canonical_decision" where
  "adjudicate_from_analysis env d c verifier_evidence evidence analysis =
     adjudicate_canonical_decision env d c verifier_evidence evidence (model_claims analysis)"

end
