(* ===== verification/Delivery_Support.thy ===== *)
theory Delivery_Support
  imports Delivery_Judgement
begin

text \<open>
  What the checks of a delivery establish and what the evaluations of a verification rest on: the lemmas behind the
  promises of \<open>Delivery_Promises\<close>.
\<close>

section \<open>Checks\<close>

lemma check_each_iff:
  "check_each check items path = Inr u \<longleftrightarrow> (\<forall>i < length items. check (items ! i) (at_index path i) = Inr ())"
proof -
  have "check_each check items path = Inr u \<longleftrightarrow> (\<forall>p \<in> set (enumerate 0 items). check (snd p) (at_index path (fst p)) = Inr ())"
    by (auto simp: check_each_def check_all_Inr_iff)
  also have "\<dots> \<longleftrightarrow> (\<forall>i < length items. check (items ! i) (at_index path i) = Inr ())"
    by (auto simp: in_set_enumerate_eq) (metis (no_types, lifting) fst_conv snd_conv in_set_enumerate_eq diff_zero le0 add.right_neutral)
  finally show ?thesis .
qed

lemma check_some_iff: "check_some check m = Inr u \<longleftrightarrow> (\<forall>a. m = Some a \<longrightarrow> check a = Inr ())"
  by (cases m) (auto simp: check_some_def)

lemmas check_iffs = check_all_Inr_iff ensure_Inr_iff check_each_iff check_some_iff

lemma by_key_Some:
  assumes "by_key key items x = Some a"
  shows "a \<in> set items" and "key a = x"
  using map_of_SomeD [of "rev (map (\<lambda>x. (key x, x)) items)" x a] assms by (auto simp: by_key_def)

lemma by_key_distinct:
  assumes "distinct (map key items)" and "a \<in> set items"
  shows "by_key key items (key a) = Some a"
proof -
  have "map fst (rev (map (\<lambda>x. (key x, x)) items)) = rev (map key items)" by (simp add: rev_map o_def)
  then have "distinct (map fst (rev (map (\<lambda>x. (key x, x)) items)))" using assms(1) by (metis distinct_rev)
  moreover have "(key a, a) \<in> set (rev (map (\<lambda>x. (key x, x)) items))" using assms(2) by auto
  ultimately show ?thesis unfolding by_key_def by (rule map_of_is_SomeI)
qed

section \<open>Validation settles\<close>

lemma lower_plain: "lower_char c = CHR ''/'' \<longleftrightarrow> c = CHR ''/''" "lower_char c = CHR ''-'' \<longleftrightarrow> c = CHR ''-''"
  "lower_char c = CHR ''.'' \<longleftrightarrow> c = CHR ''.''" "lower_char c = CHR ''_'' \<longleftrightarrow> c = CHR ''_''"
  by (rule lower_char_other; simp add: byte_def)+

lemma slash_lower: "CHR ''/'' \<in> lower_char ` X \<longleftrightarrow> CHR ''/'' \<in> X"
proof
  assume "CHR ''/'' \<in> lower_char ` X"
  then obtain c where "c \<in> X" "lower_char c = CHR ''/''" by (elim imageE) simp
  then show "CHR ''/'' \<in> X" unfolding lower_plain by simp
next
  assume "CHR ''/'' \<in> X"
  moreover have "lower_char (CHR ''/'') = CHR ''/''" unfolding lower_plain by simp
  ultimately show "CHR ''/'' \<in> lower_char ` X" by force
qed

lemma owner_and_name_lower:
  "owner_and_name (to_ascii_lowercase v) = map_option (map_prod to_ascii_lowercase to_ascii_lowercase) (owner_and_name v)"
proof -
  have slash: "(\<lambda>c. c \<noteq> CHR ''/'') \<circ> lower_char = (\<lambda>c. c \<noteq> CHR ''/'')" by (auto simp: lower_plain)
  show ?thesis
    by (simp add: owner_and_name_def to_ascii_lowercase_def takeWhile_map dropWhile_map slash slash_lower map_tl del: o_apply)
qed

lemma github_repository_name_lower:
  "github_repository_name (to_ascii_lowercase v) = github_repository_name v"
proof -
  show ?thesis
  proof (cases "owner_and_name v")
    case (Some p)
    obtain owner name where "p = (owner, name)" by (cases p)
    with Some show ?thesis
      unfolding github_repository_name_def owner_and_name_lower
      by (cases owner) (simp_all add: to_ascii_lowercase_def list.pred_map o_def lower_plain slash_lower)
  qed (simp add: github_repository_name_def owner_and_name_lower)
qed

lemma validate_source_ref_again:
  "validate_source_ref source path = Inr source' \<Longrightarrow> validate_source_ref source' path' = Inr source'"
  by (auto simp: validate_source_ref_def Let_def rbind_Inr_iff check_all_Inr_iff ensure_Inr_iff schema_version_def
      validate_github_repository_def github_repository_name_lower positive_def safe_non_negative_def)

lemma validate_publication_target_again:
  "validate_publication_target target path = Inr target' \<Longrightarrow> validate_publication_target target' path' = Inr target'"
  by (auto simp: validate_publication_target_def Let_def rbind_Inr_iff check_all_Inr_iff ensure_Inr_iff schema_version_def
      validate_github_repository_def github_repository_name_lower validate_git_branch_def)

lemma validate_spec_again:
  assumes "validate_spec sha256 spec path = Inr spec'"
  shows "validate_spec sha256 spec' path = Inr spec'"
proof -
  obtain a b where spec': "spec' = spec\<lparr>sp_source_ref := a, sp_publication_target := b\<rparr>"
    and checks: "spec_checks spec path = Inr ()"
    and a: "a = None \<or> (\<exists>x. a = Some x \<and> validate_source_ref x (path @ ''.sourceRef'') = Inr x
        \<and> sp_delivery_id spec = delivery_id_for_validated_github_issue_source sha256 x)"
    and b: "b = None \<or> (\<exists>x. b = Some x \<and> validate_publication_target x (path @ ''.publicationTarget'') = Inr x)"
  proof (cases "sp_source_ref spec"; cases "sp_publication_target spec")
    assume "sp_source_ref spec = None" "sp_publication_target spec = None"
    with assms show thesis by (intro that [of None None]) (auto simp: validate_spec_def rbind_Inr_iff)
  next
    fix t assume "sp_source_ref spec = None" and "sp_publication_target spec = Some t"
    with assms obtain t' where "validate_publication_target t (path @ ''.publicationTarget'') = Inr t'"
      "spec' = spec\<lparr>sp_publication_target := Some t'\<rparr>" "spec_checks spec path = Inr ()"
      by (auto simp: validate_spec_def rbind_Inr_iff)
    with \<open>sp_source_ref spec = None\<close> show thesis
      by (intro that [of "Some t'" None]) (auto dest: validate_publication_target_again)
  next
    fix x assume "sp_source_ref spec = Some x" and "sp_publication_target spec = None"
    with assms obtain x' where "validate_source_ref x (path @ ''.sourceRef'') = Inr x'"
      "spec' = spec\<lparr>sp_source_ref := Some x'\<rparr>" "spec_checks spec path = Inr ()"
      "sp_delivery_id spec = delivery_id_for_validated_github_issue_source sha256 x'"
      by (auto simp: validate_spec_def rbind_Inr_iff split: if_splits)
    with \<open>sp_publication_target spec = None\<close> show thesis
      by (intro that [of None "Some x'"]) (auto dest: validate_source_ref_again)
  next
    fix x t assume "sp_source_ref spec = Some x" and "sp_publication_target spec = Some t"
    with assms obtain x' t' where "validate_source_ref x (path @ ''.sourceRef'') = Inr x'"
      "validate_publication_target t (path @ ''.publicationTarget'') = Inr t'"
      "spec' = spec\<lparr>sp_source_ref := Some x', sp_publication_target := Some t'\<rparr>" "spec_checks spec path = Inr ()"
      "sp_delivery_id spec = delivery_id_for_validated_github_issue_source sha256 x'"
      by (auto simp: validate_spec_def rbind_Inr_iff split: if_splits)
    then show thesis
      by (intro that [of "Some t'" "Some x'"]) (auto dest: validate_source_ref_again validate_publication_target_again)
  qed
  have "spec_checks spec' path = Inr ()" using checks unfolding spec' by (simp add: spec_checks_def)
  with a b show ?thesis by (auto simp: validate_spec_def spec')
qed

section \<open>Stored deliveries\<close>

lemma try_from_snapshot_iff:
  "try_from_snapshot env s = Inr d \<longleftrightarrow>
     validate_aggregate (de_calendar env) (ds_work_run_aggregate s) = Inr () \<and> validate_fact env s = Inr () \<and> header_checks s = Inr ()
     \<and> (\<exists>spec. validate_spec (de_sha256 env) (ds_spec s) ''delivery.spec'' = Inr spec \<and> d = s\<lparr>ds_spec := spec\<rparr>
         \<and> parts_checks d = Inr () \<and> identity_checks d = Inr () \<and> relation_checks d = Inr () \<and> completion_checks d = Inr ())"
proof -
  have unit: "(\<exists>u. r = Inr u \<and> P) \<longleftrightarrow> r = Inr () \<and> P" for r :: "'x + unit" and P by auto
  show ?thesis
    by (auto simp: try_from_snapshot_def validate_delivery_def Let_def rbind_Inr_iff map_err_Inr_iff check_all_Inr_iff unit)
qed

lemma stored_verdict_checks:
  assumes "try_from_snapshot env s = Inr d" and "ds_verdict d = Some v"
  shows "validate_verdict_relationships d v = Inr ()" and "validate_verdict v ''delivery.verdict'' = Inr ()"
    and "distinct (map ac_id (sp_acceptance_criteria (ds_spec d)))"
proof -
  from assms obtain spec where spec: "validate_spec (de_sha256 env) (ds_spec s) ''delivery.spec'' = Inr spec"
    "d = s\<lparr>ds_spec := spec\<rparr>" "parts_checks d = Inr ()" "relation_checks d = Inr ()"
    unfolding try_from_snapshot_iff by blast
  from spec(3,4) assms(2) show "validate_verdict_relationships d v = Inr ()" "validate_verdict v ''delivery.verdict'' = Inr ()"
    by (auto simp: parts_checks_def relation_checks_def check_all_Inr_iff check_some_iff)
  have "validate_spec (de_sha256 env) spec ''delivery.spec'' = Inr spec" by (rule validate_spec_again [OF spec(1)])
  then have "spec_checks spec ''delivery.spec'' = Inr ()" by (auto simp: validate_spec_def rbind_Inr_iff)
  then show "distinct (map ac_id (sp_acceptance_criteria (ds_spec d)))"
    using spec(2) by (simp add: spec_checks_def check_all_Inr_iff duplicate_ids_def ensure_Inr_iff)
qed

lemma stored_results:
  assumes "try_from_snapshot env s = Inr d" and "ds_verdict d = Some v"
  shows "distinct (map cr_criterion_id (vd_criteria v))"
    and "set (map cr_criterion_id (vd_criteria v)) = set (map ac_id (sp_acceptance_criteria (ds_spec d)))"
    and "vd_status v = expected_status d v"
    and "r \<in> set (vd_criteria v) \<Longrightarrow> \<exists>path. result_relation d v r path = Inr () \<and> validate_result r path = Inr ()"
proof -
  note checks = stored_verdict_checks [OF assms]
  show "distinct (map cr_criterion_id (vd_criteria v))"
    using checks(2) by (simp add: validate_verdict_def check_all_Inr_iff duplicate_ids_def ensure_Inr_iff)
  let ?c = "set (map ac_id (sp_acceptance_criteria (ds_spec d)))" and ?r = "set (map cr_criterion_id (vd_criteria v))"
  have "card ?r = card ?c" "?c \<subseteq> ?r" and status: "vd_status v = expected_status d v"
    and rel: "check_each (result_relation d v) (vd_criteria v) ''delivery.verdict.criteria'' = Inr ()"
    using checks(1) by (simp_all add: validate_verdict_relationships_def Let_def check_all_Inr_iff ensure_Inr_iff)
  then show "?r = ?c" by (metis List.finite_set card_subset_eq)
  show "vd_status v = expected_status d v" by (rule status)
  assume "r \<in> set (vd_criteria v)"
  then obtain i where i: "i < length (vd_criteria v)" "vd_criteria v ! i = r" by (metis in_set_conv_nth)
  have "check_each validate_result (vd_criteria v) (''delivery.verdict'' @ ''.criteria'') = Inr ()"
    using checks(2) by (simp add: validate_verdict_def check_all_Inr_iff)
  with rel i show "\<exists>path. result_relation d v r path = Inr () \<and> validate_result r path = Inr ()"
    unfolding check_each_iff by auto
qed

lemma status_is_fold:
  assumes "try_from_snapshot env s = Inr d" and "ds_verdict d = Some v"
  shows "vd_status v = fold_delivery_status d (vd_criteria v) (vd_unresolved_findings v)"
proof -
  let ?required = "filter ac_required (sp_acceptance_criteria (ds_spec d))"
  let ?by = "by_key cr_criterion_id (vd_criteria v)"
  note stored = stored_results(1,2) [OF assms]
  have same: "set (List.map_filter (\<lambda>k. ?by (ac_id k)) ?required)
      = set (filter (\<lambda>r. cr_criterion_id r \<in> set (map ac_id ?required)) (vd_criteria v))" (is "?A = ?B")
  proof
    show "?A \<subseteq> ?B" using by_key_Some [of cr_criterion_id "vd_criteria v"] by (fastforce simp: map_filter_def)
    show "?B \<subseteq> ?A"
    proof
      fix r assume "r \<in> ?B"
      then obtain k where "r \<in> set (vd_criteria v)" "k \<in> set ?required" "cr_criterion_id r = ac_id k" by auto
      moreover have "?by (cr_criterion_id r) = Some r" using calculation(1) stored(1) by (intro by_key_distinct)
      ultimately show "r \<in> ?A" by (force simp: map_filter_def)
    qed
  qed
  show ?thesis
    unfolding stored_results(3) [OF assms] expected_status_def fold_delivery_status_def Let_def list_ex_iff same by (rule refl)
qed

section \<open>What a role's conclusion rests on\<close>

definition product_evidence :: "product_outcome \<Rightarrow> evidence_outcome_kind" where
  "product_evidence p = (case p of ProductPass \<Rightarrow> OutcomeSucceeded | ProductFail \<Rightarrow> OutcomeFailed)"

text \<open>
  A settled role supports an outcome of a criterion: it made one finding, with that conclusion; the finding cites a
  test or a command, run by this role under its lease, whose command is the approved method and which ended
  that way; and so ended every such test or command that the finding cites.
\<close>

definition role_supports ::
    "(string \<Rightarrow> string) \<Rightarrow> resolved_evidence list \<Rightarrow> acceptance_criterion \<Rightarrow> product_outcome \<Rightarrow> role_settlement \<Rightarrow> bool" where
  "role_supports sha256 evidence criterion p settlement \<longleftrightarrow>
     rs_state settlement = SessionSettled \<and> rs_terminal_settlement settlement = Some TerminalIsSettled
     \<and> (\<exists>assignment t finding method.
          rs_assignment settlement = Some assignment \<and> rs_terminal_job_outcome settlement = Some t
          \<and> filter (\<lambda>f. vf_criterion_id f = ac_id criterion) (rs_findings settlement) = [finding]
          \<and> claimed_outcome (vf_conclusion finding) = p \<and> ac_verification_method criterion = Some method
          \<and> (let decisive = filter (\<lambda>e. (\<exists>x \<in> set (vf_source_refs finding). cites_source assignment t x e)
                 \<and> direct_evidence_type (er_evidence_type (re_evidence e)) \<and> matches_verification_method sha256 e method) evidence
             in decisive \<noteq> []
                \<and> (\<forall>e \<in> set decisive. re_outcome e = product_evidence p
                     \<and> (\<exists>identity. re_source_identity e = RuntimeSource identity \<and> ri_execution identity = terminal_identity t))))"

lemma resolve_sources_resolved:
  assumes "resolve_sources assignment t evidence mismatch acc sources = Some (Inr resolved)"
  shows "\<exists>new. resolved = acc @ new \<and> set new = {e \<in> set evidence. \<exists>x \<in> set (map fst sources). cites_source assignment t x e}
    \<and> (\<forall>e \<in> set new. \<exists>identity. re_source_identity e = RuntimeSource identity \<and> ri_execution identity = terminal_identity t)"
  using assms
proof (induction sources arbitrary: acc)
  case (Cons source sources)
  obtain x n where source: "source = (x, n)" by (cases source)
  with Cons.prems obtain m k where m: "filter (cites_source assignment t x) evidence = [m]" "matches_finding_source m t k = Some True"
    and rest: "resolve_sources assignment t evidence mismatch (acc @ [m]) sources = Some (Inr resolved)"
    by (auto split: list.splits option.splits bool.splits)
  from Cons.IH [OF rest] obtain new where new: "resolved = (acc @ [m]) @ new"
    "set new = {e \<in> set evidence. \<exists>x \<in> set (map fst sources). cites_source assignment t x e}"
    "\<forall>e \<in> set new. \<exists>identity. re_source_identity e = RuntimeSource identity \<and> ri_execution identity = terminal_identity t" by blast
  have "{e \<in> set evidence. cites_source assignment t x e} = {m}" using m(1) by (metis set_filter list.set(1) list.set(2))
  moreover have "\<exists>identity. re_source_identity m = RuntimeSource identity \<and> ri_execution identity = terminal_identity t"
    using m(2) by (auto simp: matches_finding_source_def split: evidence_source_identity.splits if_splits)
  ultimately show ?case using new source by (intro exI [of _ "m # new"]) auto
qed simp

lemma evaluate_sources_product:
  assumes "evaluate_sources sha256 criterion role (role_evidence_mismatch role' k f) claimed resolved = Some evaluation"
    and "ro_outcome evaluation = RoleProduct p"
  shows "p = claimed" and "\<exists>method. ac_verification_method criterion = Some method
    \<and> (let decisive = filter (\<lambda>e. direct_evidence_type (er_evidence_type (re_evidence e)) \<and> matches_verification_method sha256 e method) resolved
       in decisive \<noteq> [] \<and> (\<forall>e \<in> set decisive. re_outcome e = product_evidence claimed))"
proof -
  let ?direct = "filter (\<lambda>e. direct_evidence_type (er_evidence_type (re_evidence e))) resolved"
  from assms obtain m where m: "ac_verification_method criterion = Some m"
    and p: "p = claimed" and decisive: "filter (\<lambda>e. matches_verification_method sha256 e m) ?direct \<noteq> []"
    and observed: "\<forall>e \<in> set (filter (\<lambda>e. matches_verification_method sha256 e m) ?direct). observed_outcome claimed e = Some claimed"
    by (auto simp: evaluate_sources_def Let_def role_infra_error_def role_evidence_mismatch_def list_ex_iff
        split: if_splits option.splits)
  show "p = claimed" by (rule p)
  have "re_outcome e = product_evidence claimed" if "observed_outcome claimed e = Some claimed"
      "direct_evidence_type (er_evidence_type (re_evidence e))" for e
    using that by (cases claimed) (auto simp: observed_outcome_def product_evidence_def direct_evidence_type_def
        split: evidence_outcome_kind.splits if_splits)
  with m decisive observed show "\<exists>method. ac_verification_method criterion = Some method
    \<and> (let decisive = filter (\<lambda>e. direct_evidence_type (er_evidence_type (re_evidence e)) \<and> matches_verification_method sha256 e method) resolved
       in decisive \<noteq> [] \<and> (\<forall>e \<in> set decisive. re_outcome e = product_evidence claimed))"
    by (auto simp: conj_commute)
qed

lemma resolve_sources_mismatch:
  "resolve_sources assignment t evidence mismatch acc sources = Some (Inl evaluation) \<Longrightarrow> \<exists>text ids. evaluation = mismatch text ids"
proof (induction sources arbitrary: acc)
  case (Cons source sources)
  then show ?case by (cases source) (auto split: list.splits option.splits bool.splits)
qed simp

lemma evaluate_role_supports:
  assumes "evaluate_role sha256 criterion settlement evidence = Some evaluation" and "ro_outcome evaluation = RoleProduct p"
  shows "role_supports sha256 evidence criterion p settlement"
proof -
  have settled: "rs_state settlement = SessionSettled" "evaluate_settled_role sha256 criterion settlement evidence = Some evaluation"
    using assms by (cases "rs_state settlement";
        force simp: evaluate_role_def role_inconclusive_def role_infra_error_def Let_def)+
  have terminal: "rs_terminal_settlement settlement = Some TerminalIsSettled"
    using settled(2) assms(2) by (auto simp: evaluate_settled_role_def role_infra_error_def Let_def split: if_splits)
  from settled(2) assms(2) terminal obtain assignment t where facts: "rs_assignment settlement = Some assignment"
    "rs_terminal_job_outcome settlement = Some t"
    by (auto simp: evaluate_settled_role_def role_inconclusive_def Let_def split: option.splits)
  with settled(2) assms(2) terminal obtain finding where
    finding: "filter (\<lambda>f. vf_criterion_id f = ac_id criterion) (rs_findings settlement) = [finding]"
    by (auto simp: evaluate_settled_role_def role_inconclusive_def Let_def split: list.splits)
  let ?mismatch = "role_evidence_mismatch (rs_role settlement) (ac_id criterion) (vf_finding_ref finding)"
  from settled(2) assms(2) terminal facts finding obtain resolved where
    len: "length (vf_source_refs finding) = length (vf_source_sequences finding)" and
    resolved: "resolve_sources assignment t evidence ?mismatch [] (zip (vf_source_refs finding) (vf_source_sequences finding)) = Some (Inr resolved)" and
    sources: "evaluate_sources sha256 criterion (rs_role settlement) ?mismatch (claimed_outcome (vf_conclusion finding)) resolved = Some evaluation"
    by (auto simp: evaluate_settled_role_def role_evidence_mismatch_def Let_def
        dest!: resolve_sources_mismatch split: if_splits option.splits sum.splits)
  note new = resolve_sources_resolved [OF resolved]
  have cited: "set (map fst (zip (vf_source_refs finding) (vf_source_sequences finding))) = set (vf_source_refs finding)"
    using len by simp
  note product = evaluate_sources_product [OF sources assms(2)]
  from product(2) obtain m where m: "ac_verification_method criterion = Some m"
    and decisive: "\<exists>e \<in> set resolved. direct_evidence_type (er_evidence_type (re_evidence e)) \<and> matches_verification_method sha256 e m"
    and outcome: "\<forall>e \<in> set resolved. direct_evidence_type (er_evidence_type (re_evidence e)) \<and> matches_verification_method sha256 e m
      \<longrightarrow> re_outcome e = product_evidence p"
    using product(1) by (auto simp: Let_def filter_empty_conv)
  have in_resolved: "e \<in> set resolved \<longleftrightarrow> e \<in> set evidence \<and> (\<exists>x \<in> set (vf_source_refs finding). cites_source assignment t x e)" for e
    using new unfolding cited by auto
  have identities: "e \<in> set resolved \<Longrightarrow> \<exists>identity. re_source_identity e = RuntimeSource identity \<and> ri_execution identity = terminal_identity t" for e
    using new by auto
  show ?thesis
    unfolding role_supports_def Let_def
    using settled(1) terminal facts finding product(1) m decisive outcome in_resolved identities
    by (intro conjI exI [of _ assignment] exI [of _ t] exI [of _ finding] exI [of _ m]) (auto simp: filter_empty_conv)
qed

section \<open>Verdicts on criteria\<close>

lemma all_some_iff: "all_some xs = Some ys \<longleftrightarrow> xs = map Some ys"
  by (induction xs arbitrary: ys) (auto split: option.splits)

lemma roles_verdict_product:
  assumes "roles_verdict roles = (case p of ProductPass \<Rightarrow> VerdictPass | ProductFail \<Rightarrow> VerdictFail)"
  shows "roles \<noteq> [] \<and> (\<forall>r \<in> set roles. ro_outcome r = RoleProduct p)"
proof -
  let ?products = "role_products roles"
  have all: "length ?products = length roles" "roles \<noteq> []" "\<forall>x \<in> set ?products. x = p"
    using assms by (auto simp: roles_verdict_def Let_def list_all_iff split: if_splits product_outcome.splits)
  have "length ?products = length (filter (\<lambda>r. \<exists>x. ro_outcome r = RoleProduct x) roles)"
    by (induction roles) (auto simp: role_products_def map_filter_def split: role_outcome.splits)
  with all(1) have "\<forall>r \<in> set roles. \<exists>x. ro_outcome r = RoleProduct x"
    using length_filter_less [of _ roles "\<lambda>r. \<exists>x. ro_outcome r = RoleProduct x"] by fastforce
  moreover have "x \<in> set ?products" if "r \<in> set roles" "ro_outcome r = RoleProduct x" for r x
    using that by (force simp: role_products_def map_filter_def)
  ultimately show ?thesis using all by fastforce
qed

lemma compute_criterion_product:
  assumes "compute_criterion sha256 criterion verification evidence = Some computed"
    and "cc_verdict computed = (case p of ProductPass \<Rightarrow> VerdictPass | ProductFail \<Rightarrow> VerdictFail)"
  shows "iv_settlements verification \<noteq> []" and "\<forall>s \<in> set (iv_settlements verification). role_supports sha256 evidence criterion p s"
    and "cc_evidence_ids computed \<noteq> []"
proof -
  from assms obtain roles where roles: "map (\<lambda>s. evaluate_role sha256 criterion s evidence) (iv_settlements verification) = map Some roles"
    and computed: "computed = judge_roles criterion (sort_key (\<lambda>r. role_order (ro_role r)) roles)"
    by (auto simp: compute_criterion_def all_some_iff split: if_splits product_outcome.splits)
  let ?roles = "sort_key (\<lambda>r. role_order (ro_role r)) roles"
  have verdict: "roles_verdict ?roles = cc_verdict computed" "cc_evidence_ids computed \<noteq> []"
    using assms(2) unfolding computed judge_roles_def Let_def by (auto split: if_splits product_outcome.splits)
  show "cc_evidence_ids computed \<noteq> []" by (rule verdict(2))
  from roles_verdict_product [of ?roles p] verdict(1) assms(2) have all: "roles \<noteq> []" "\<forall>r \<in> set roles. ro_outcome r = RoleProduct p"
    by auto
  with roles show "iv_settlements verification \<noteq> []" by auto
  show "\<forall>s \<in> set (iv_settlements verification). role_supports sha256 evidence criterion p s"
  proof
    fix s assume "s \<in> set (iv_settlements verification)"
    then have "evaluate_role sha256 criterion s evidence \<in> set (map Some roles)" using roles by (metis image_eqI image_set)
    then obtain r where "r \<in> set roles" "evaluate_role sha256 criterion s evidence = Some r" by auto
    with all show "role_supports sha256 evidence criterion p s" by (intro evaluate_role_supports) auto
  qed
qed

section \<open>Computed verdicts\<close>

lemma judged_criteria:
  assumes "judge_criteria env d c verification evidence at ks = Some (Inr judged)"
  shows "map fst judged = ks \<and> (\<forall>(k, computed, r) \<in> set judged.
    compute_criterion (de_sha256 env) k verification evidence = Some computed \<and> result_of env d c at k computed = Inr r)"
  using assms
proof (induction ks arbitrary: judged)
  case (Cons k ks)
  then obtain computed r rest where "compute_criterion (de_sha256 env) k verification evidence = Some computed"
    "result_of env d c at k computed = Inr r" "judge_criteria env d c verification evidence at ks = Some (Inr rest)"
    "judged = (k, computed, r) # rest"
    by (auto simp: rbind_Inr_iff split: option.splits sum.splits)
  with Cons.IH show ?case by simp
qed simp

lemma computed_verdict:
  assumes "compute_delivery_verdict env d c verification evidence at = Some (Inr cv)"
  obtains judged where "verdict_checks env d c verification evidence at = Inr ()"
    "map fst judged = sp_acceptance_criteria (ds_spec d)"
    "\<And>k computed r. (k, computed, r) \<in> set judged \<Longrightarrow>
       compute_criterion (de_sha256 env) k verification evidence = Some computed \<and> cr_criterion_id r = ac_id k \<and> cr_verdict r = cc_verdict computed"
    "vd_status (cv_verdict cv) = fold_delivery_status d (map (\<lambda>p. snd (snd p)) judged) (vd_unresolved_findings (cv_verdict cv))"
    "set (attention_findings d) \<subseteq> set (vd_unresolved_findings (cv_verdict cv))"
    "distinct (map ac_id (sp_acceptance_criteria (ds_spec d)))"
proof -
  from assms obtain judged where checks: "verdict_checks env d c verification evidence at = Inr ()"
    and judged: "judge_criteria env d c verification evidence at (sp_acceptance_criteria (ds_spec d)) = Some (Inr judged)"
    and v: "verdict_from env d c verification evidence at judged = Inr cv"
    by (auto simp: compute_delivery_verdict_def rbind_Inr_iff split: sum.splits)
  from v have "vd_status (cv_verdict cv) = fold_delivery_status d (map (\<lambda>p. snd (snd p)) judged) (vd_unresolved_findings (cv_verdict cv))"
    "set (attention_findings d) \<subseteq> set (vd_unresolved_findings (cv_verdict cv))"
    by (auto simp: verdict_from_def Let_def rbind_Inr_iff case_prod_unfold)
  moreover have "distinct (map ac_id (sp_acceptance_criteria (ds_spec d)))"
  proof -
    from v obtain kept where "validate_computed_facts env d kept (cv_verdict cv) at = Inr ()"
      by (auto simp: verdict_from_def Let_def rbind_Inr_iff)
    then obtain spec where "validate_spec (de_sha256 env) (ds_spec d) ''delivery.spec'' = Inr spec"
      by (auto simp: validate_computed_facts_def rbind_Inr_iff try_from_snapshot_iff)
    then show ?thesis
      by (auto simp: validate_spec_def rbind_Inr_iff spec_checks_def check_all_Inr_iff duplicate_ids_def ensure_Inr_iff)
  qed
  moreover have "cr_criterion_id r = ac_id k \<and> cr_verdict r = cc_verdict computed"
    if "result_of env d c at k computed = Inr r" for k computed r
    using that by (auto simp: result_of_def rbind_Inr_iff)
  ultimately show thesis using judged_criteria [OF judged] checks by (intro that [of judged]) fastforce+
qed

lemma pass_is_supported:
  assumes computed: "compute_delivery_verdict env d c verification evidence at = Some (Inr cv)"
    and pass: "vd_status (cv_verdict cv) = VerdictPass" and k: "k \<in> set (sp_acceptance_criteria (ds_spec d))" "ac_required k"
  shows "iv_settlements verification \<noteq> []
    \<and> (\<forall>s \<in> set (iv_settlements verification). role_supports (de_sha256 env) evidence k ProductPass s)"
proof -
  from computed obtain judged where criteria: "map fst judged = sp_acceptance_criteria (ds_spec d)"
    and each: "\<And>k computed r. (k, computed, r) \<in> set judged \<Longrightarrow>
       compute_criterion (de_sha256 env) k verification evidence = Some computed \<and> cr_criterion_id r = ac_id k \<and> cr_verdict r = cc_verdict computed"
    and status: "vd_status (cv_verdict cv) = fold_delivery_status d (map (\<lambda>p. snd (snd p)) judged) (vd_unresolved_findings (cv_verdict cv))"
    by (rule computed_verdict) blast
  obtain comp r where in_judged: "(k, comp, r) \<in> set judged" using k(1) unfolding criteria [symmetric] by force
  note r = each [OF in_judged]
  have "r \<in> set (map (\<lambda>p. snd (snd p)) judged)" using in_judged by force
  then have "cr_verdict r = VerdictPass" using status pass r k
    by (cases "cr_verdict r") (auto simp: fold_delivery_status_def Let_def list_ex_iff split: if_splits)
  then have "cc_verdict comp = (case ProductPass of ProductPass \<Rightarrow> VerdictPass | ProductFail \<Rightarrow> VerdictFail)" using r by simp
  with compute_criterion_product [of "de_sha256 env" k verification evidence comp ProductPass] r show ?thesis by blast
qed

section \<open>Panics\<close>

definition sequence_accepted :: "role_settlement \<Rightarrow> bool" where
  "sequence_accepted s = (case rs_terminal_job_outcome s of None \<Rightarrow> True
     | Some t \<Rightarrow> 0 \<le> jo_last_event_sequence t \<and> jo_last_event_sequence t < 2 ^ 63)"

lemma resolve_sources_returns:
  assumes "0 \<le> jo_last_event_sequence t" "jo_last_event_sequence t < 2 ^ 63"
  shows "resolve_sources assignment t evidence mismatch acc sources \<noteq> None"
proof (induction sources arbitrary: acc)
  case (Cons source sources)
  have returns: "matches_finding_source e t n = None \<longleftrightarrow> False" for e n
    using assms by (auto simp: matches_finding_source_def accepted_terminal_sequence_def u64_try_from_def
        split: evidence_source_identity.splits)
  have again: "resolve_sources assignment t evidence mismatch acc sources = None \<longleftrightarrow> False" for acc using Cons.IH by simp
  show ?case by (cases source) (auto simp: returns again simp del: not_None_eq split: list.splits option.splits bool.splits)
qed simp

lemma evaluate_role_returns:
  assumes "sequence_accepted s" and "ac_verification_method k \<noteq> None"
  shows "evaluate_role sha256 k s evidence \<noteq> None"
proof -
  have sources: "evaluate_sources sha256 k role mismatch claimed resolved = None \<longleftrightarrow> False" for role mismatch claimed resolved
    using assms(2) by (auto simp: evaluate_sources_def Let_def)
  have resolve: "rs_terminal_job_outcome s = Some t \<Longrightarrow> resolve_sources assignment t evidence mismatch acc sources = None \<longleftrightarrow> False"
    for assignment t mismatch acc sources
    using assms(1) resolve_sources_returns [of t] by (simp add: sequence_accepted_def)
  have "evaluate_settled_role sha256 k s evidence \<noteq> None"
    by (auto simp: evaluate_settled_role_def Let_def sources resolve simp del: not_None_eq split: option.splits list.splits sum.splits)
  then show ?thesis by (auto simp: evaluate_role_def Let_def split: verification_session_state.splits)
qed

lemma all_some_None: "all_some xs = None \<longleftrightarrow> None \<in> set xs"
  by (induction xs) (auto split: option.splits)

lemma compute_criterion_returns:
  assumes "\<forall>s \<in> set (iv_settlements verification). sequence_accepted s"
  shows "compute_criterion sha256 k verification evidence \<noteq> None"
proof (cases "ac_verification_method k")
  case (Some m)
  then have "None \<notin> set (map (\<lambda>s. evaluate_role sha256 k s evidence) (iv_settlements verification))"
    using evaluate_role_returns [of _ k sha256 evidence] assms by (auto simp: image_iff simp del: not_None_eq) metis
  then have "all_some (map (\<lambda>s. evaluate_role sha256 k s evidence) (iv_settlements verification)) \<noteq> None" unfolding all_some_None .
  with Some show ?thesis by (auto simp: compute_criterion_def)
qed (simp add: compute_criterion_def)

lemma judge_criteria_returns:
  assumes "\<forall>s \<in> set (iv_settlements verification). sequence_accepted s"
  shows "judge_criteria env d c verification evidence at ks \<noteq> None"
proof (induction ks)
  case (Cons k ks)
  then show ?case using compute_criterion_returns [OF assms, of "de_sha256 env" k evidence]
    by (auto split: option.splits sum.splits)
qed simp

section \<open>Decisions\<close>

lemma outcome_verdict_None: "outcome_verdict k = None \<longleftrightarrow> k = OutcomeObserved"
  by (cases k) (simp_all add: outcome_verdict_def)

lemma evidence_outcome_None: "evidence_outcome evidence tests = None \<longleftrightarrow>
    (\<forall>e \<in> set evidence. (er_evidence_type (re_evidence e) = EvidenceTest) = tests \<longrightarrow> re_outcome e = OutcomeObserved)"
  by (auto simp: evidence_outcome_def Let_def map_filter_def filter_empty_conv outcome_verdict_None simp del: not_None_eq)

end
