(* ===== verification/Work_Schedule.thy ===== *)
theory Work_Schedule
  imports Work_Runs
begin

text \<open>
  What the scheduling of work items guarantees: the dependency check is exactly acyclicity, a valid aggregate is
  never stuck on its dependencies, and the operations keep the aggregate valid.
\<close>

section \<open>Dependencies\<close>

definition dep_rel :: "work_item list \<Rightarrow> (string \<times> string) set" where
  "dep_rel items = {(d, wi_id i) | i d. i \<in> set items \<and> d \<in> set (wi_depends_on i)}"

lemma finite_dep_rel: "finite (dep_rel items)"
proof -
  have "dep_rel items = (\<Union>i \<in> set items. (\<lambda>d. (d, wi_id i)) ` set (wi_depends_on i))" by (auto simp: dep_rel_def)
  then show ?thesis by simp
qed

lemma takeWhile_shorter: "x \<in> set xs \<Longrightarrow> \<not> P x \<Longrightarrow> length (takeWhile P xs) < length xs"
  by (induction xs) auto

text \<open>A resolved list has the dependencies of each entry behind it.\<close>

fun resolved_order :: "work_item list \<Rightarrow> string list \<Rightarrow> bool" where
  "resolved_order items [] = True"
| "resolved_order items (x # r) \<longleftrightarrow>
     resolved_order items r \<and> x \<notin> set r \<and> (\<exists>i \<in> set items. wi_id i = x \<and> set (wi_depends_on i) \<subseteq> set r)"

lemma resolved_order_distinct: "resolved_order items r \<Longrightarrow> distinct r \<and> set r \<subseteq> wi_id ` set items"
  by (induction r) auto

lemma resolve_pass_order:
  "resolved_order all r \<Longrightarrow> set items \<subseteq> set all \<Longrightarrow> resolved_order all (resolve_pass items r)"
proof (induction items arbitrary: r)
  case (Cons i items)
  let ?r = "if list_all (\<lambda>d. d \<in> set r) (wi_depends_on i) \<and> wi_id i \<notin> set r then wi_id i # r else r"
  have "resolved_order all ?r" using Cons.prems by (auto simp: list_all_iff)
  with Cons show ?case by simp
qed simp

lemma resolve_pass_same:
  assumes "length (resolve_pass items r) = length r"
  shows "\<forall>i \<in> set items. set (wi_depends_on i) \<subseteq> set r \<longrightarrow> wi_id i \<in> set r"
  using assms
proof (induction items arbitrary: r)
  case (Cons i items)
  let ?ready = "list_all (\<lambda>d. d \<in> set r) (wi_depends_on i) \<and> wi_id i \<notin> set r"
  show ?case
  proof (cases ?ready)
    case True
    with Cons.prems resolve_pass_extends [of items "wi_id i # r"] show ?thesis by auto
  next
    case False
    then have "length (resolve_pass items r) = length r" using Cons.prems by auto
    from Cons.IH [OF this] False show ?thesis by (auto simp: list_all_iff)
  qed
qed simp

lemma resolve_pass_stuck:
  assumes "acyclic (dep_rel items)" and closed: "\<forall>i \<in> set items. set (wi_depends_on i) \<subseteq> wi_id ` set items"
    and same: "length (resolve_pass items r) = length r"
  shows "wi_id ` set items \<subseteq> set r"
proof (rule ccontr)
  assume "\<not> ?thesis"
  then obtain x where "x \<in> wi_id ` set items - set r" by blast
  moreover have "wf (dep_rel items)" using finite_dep_rel assms(1) by (rule finite_acyclic_wf)
  ultimately obtain z where z: "z \<in> wi_id ` set items - set r" and
    least: "\<And>y. (y, z) \<in> dep_rel items \<Longrightarrow> y \<notin> wi_id ` set items - set r"
    using wfE_min [of "dep_rel items" x "wi_id ` set items - set r"] by blast
  then obtain i where i: "i \<in> set items" "wi_id i = z" by auto
  have "set (wi_depends_on i) \<subseteq> set r"
  proof
    fix d assume d: "d \<in> set (wi_depends_on i)"
    then have "(d, z) \<in> dep_rel items" using i by (auto simp: dep_rel_def)
    with least closed i d show "d \<in> set r" by blast
  qed
  with resolve_pass_same [OF same] i z show False by blast
qed

lemma resolved_order_acyclic:
  assumes ids: "distinct (map wi_id items)" and order: "resolved_order items r" and all: "wi_id ` set items = set r"
  shows "(\<forall>i \<in> set items. set (wi_depends_on i) \<subseteq> wi_id ` set items) \<and> acyclic (dep_rel items)"
proof -
  have before: "\<exists>xs ys. r = xs @ wi_id i # ys \<and> set (wi_depends_on i) \<subseteq> set ys" if "i \<in> set items" for i
  proof -
    have "wi_id i \<in> set r" using all that by blast
    with order have "\<exists>xs ys k. r = xs @ wi_id i # ys \<and> k \<in> set items \<and> wi_id k = wi_id i \<and> set (wi_depends_on k) \<subseteq> set ys"
    proof (induction r)
      case (Cons x r)
      show ?case
      proof (cases "x = wi_id i")
        case True
        with Cons.prems show ?thesis by (metis append_Nil resolved_order.simps(2))
      next
        case False
        with Cons obtain xs ys k where "r = xs @ wi_id i # ys" "k \<in> set items" "wi_id k = wi_id i" "set (wi_depends_on k) \<subseteq> set ys" by auto
        then show ?thesis by (metis append_Cons)
      qed
    qed simp
    moreover have "k = i" if "k \<in> set items" "wi_id k = wi_id i" for k
      using ids that \<open>i \<in> set items\<close> by (simp add: distinct_map inj_on_def)
    ultimately show ?thesis by blast
  qed
  define place where "place = (\<lambda>x. length (takeWhile (\<lambda>y. y \<noteq> x) (rev r)))"
  have distinct: "distinct r" using resolved_order_distinct [OF order] by blast
  have place: "place d < place (wi_id i)" if i: "i \<in> set items" and d: "d \<in> set (wi_depends_on i)" for i d
  proof -
    obtain xs ys where r: "r = xs @ wi_id i # ys" and deps: "set (wi_depends_on i) \<subseteq> set ys" using before [OF i] by blast
    have "wi_id i \<notin> set ys" using distinct r by simp
    then have "place (wi_id i) = length ys" by (auto simp: place_def r takeWhile_append)
    moreover have "place d < length ys"
    proof -
      have "d \<in> set (rev ys)" using deps d by auto
      then have "takeWhile (\<lambda>y. y \<noteq> d) (rev r) = takeWhile (\<lambda>y. y \<noteq> d) (rev ys)" by (simp add: r takeWhile_append1)
      moreover have "length (takeWhile (\<lambda>y. y \<noteq> d) (rev ys)) < length (rev ys)"
        using \<open>d \<in> set (rev ys)\<close> by (intro takeWhile_shorter [of d]) simp_all
      ultimately show ?thesis by (simp add: place_def)
    qed
    ultimately show ?thesis by simp
  qed
  have "dep_rel items \<subseteq> measure place" using place by (auto simp: dep_rel_def)
  then have "wf (dep_rel items)" using wf_measure wf_subset by blast
  moreover have "set (wi_depends_on i) \<subseteq> wi_id ` set items" if "i \<in> set items" for i
    using before [OF that] all by auto
  ultimately show ?thesis by (auto intro: wf_acyclic)
qed

lemma resolve_loop_iff:
  "distinct (map wi_id items) \<Longrightarrow> resolved_order items r \<Longrightarrow> resolve_loop items r
    \<longleftrightarrow> (\<forall>i \<in> set items. set (wi_depends_on i) \<subseteq> wi_id ` set items) \<and> acyclic (dep_rel items)"
proof (induction items r rule: resolve_loop.induct)
  case (1 items r)
  let ?after = "resolve_pass items r"
  have order: "resolved_order items ?after" using resolve_pass_order "1.prems"(2) by simp
  note ids = resolved_order_distinct [OF order]
  consider "length ?after = length items" | "length ?after \<noteq> length items" "length ?after = length r"
    | "length ?after \<noteq> length items" "length ?after \<noteq> length r" by blast
  then show ?case
  proof cases
    case 1
    then have "card (set ?after) = card (wi_id ` set items)"
      using ids "1.prems"(1) by (metis distinct_card length_map set_map)
    then have "wi_id ` set items = set ?after" using ids by (metis List.finite_set card_subset_eq finite_imageI)
    from resolved_order_acyclic [OF "1.prems"(1) order this] 1 show ?thesis by (subst resolve_loop.simps) (simp add: Let_def)
  next
    case 2
    have "\<not> ((\<forall>i \<in> set items. set (wi_depends_on i) \<subseteq> wi_id ` set items) \<and> acyclic (dep_rel items))"
    proof
      assume rhs: "(\<forall>i \<in> set items. set (wi_depends_on i) \<subseteq> wi_id ` set items) \<and> acyclic (dep_rel items)"
      then have "wi_id ` set items \<subseteq> set r" using resolve_pass_stuck 2(2) by blast
      then have "wi_id ` set items = set r" using resolved_order_distinct "1.prems"(2) by blast
      then have "length r = length items"
        using resolved_order_distinct [OF "1.prems"(2)] "1.prems"(1) by (metis distinct_card length_map set_map)
      with 2 show False by simp
    qed
    moreover have "\<not> resolve_loop items r" using 2 by (subst resolve_loop.simps) (simp add: Let_def)
    ultimately show ?thesis by blast
  next
    case 3
    from "1.IH" [OF refl 3 "1.prems"(1) order] 3 show ?thesis by (subst resolve_loop.simps) (simp add: Let_def)
  qed
qed

lemma acyclic_items_iff:
  "distinct (map wi_id items) \<Longrightarrow>
     acyclic_items items \<longleftrightarrow> (\<forall>i \<in> set items. set (wi_depends_on i) \<subseteq> wi_id ` set items) \<and> acyclic (dep_rel items)"
  unfolding acyclic_items_def using resolve_loop_iff by simp

section \<open>Valid aggregates\<close>

definition run_valid :: "work_run_aggregate \<Rightarrow> work_run \<Rightarrow> bool" where
  "run_valid ag r \<longleftrightarrow> (\<exists>i \<in> set (ag_items ag). wi_id i = run_work_item_id r \<and> \<not> invalid_run ag i r)"

definition runs_valid :: "work_run_aggregate \<Rightarrow> bool" where
  "runs_valid ag \<longleftrightarrow>
     (\<forall>r \<in> set (ag_runs ag). run_valid ag r)
     \<and> distinct (map run_id (ag_runs ag))
     \<and> distinct (map (\<lambda>r. (run_execution_job_id r, run_attempt r)) (ag_runs ag))
     \<and> distinct (map run_work_item_id (filter active_run (ag_runs ag)))
     \<and> distinct (map run_work_item_id (filter (\<lambda>r. run_state r = RunCandidateReady) (ag_runs ag)))"

definition aggregate_ok :: "calendar \<Rightarrow> work_run_aggregate \<Rightarrow> bool" where
  "aggregate_ok cal ag \<longleftrightarrow>
     \<not> invalid_contract cal (ag_contract ag) \<and> length (ag_items ag) \<le> 1000 \<and> length (ag_runs ag) \<le> 1000
     \<and> distinct (map wc_id (ct_criteria (ag_contract ag))) \<and> distinct (map wi_id (ag_items ag))
     \<and> (\<forall>i \<in> set (ag_items ag). \<not> invalid_item (ag_contract ag) (ag_items ag) i) \<and> acyclic_items (ag_items ag)
     \<and> runs_valid ag"

lemma card_set_distinct: "card (set xs) = length xs \<longleftrightarrow> distinct xs"
  using card_distinct distinct_card by blast

lemma find_id: "distinct (map key xs) \<Longrightarrow> find (\<lambda>x. key x = k) xs = Some x \<longleftrightarrow> x \<in> set xs \<and> key x = k"
  by (induction xs) (auto simp: image_iff)

lemma find_id_None: "find (\<lambda>x. key x = k) xs = None \<longleftrightarrow> (\<forall>x \<in> set xs. key x \<noteq> k)"
  by (auto simp: find_None_iff)

lemma if_Inl: "(if b then Inl e else x) = Inr u \<longleftrightarrow> \<not> b \<and> x = Inr u"
  by simp

lemma check_runs_iff:
  assumes "distinct (map wi_id (ag_items ag))"
  shows "check_runs ag ids attempts active candidates rs = Inr () \<longleftrightarrow>
     (\<forall>r \<in> set rs. run_valid ag r)
     \<and> distinct (map run_id rs) \<and> set (map run_id rs) \<inter> ids = {}
     \<and> distinct (map (\<lambda>r. (run_execution_job_id r, run_attempt r)) rs)
     \<and> set (map (\<lambda>r. (run_execution_job_id r, run_attempt r)) rs) \<inter> attempts = {}
     \<and> distinct (map run_work_item_id (filter active_run rs)) \<and> set (map run_work_item_id (filter active_run rs)) \<inter> active = {}
     \<and> distinct (map run_work_item_id (filter (\<lambda>r. run_state r = RunCandidateReady) rs))
     \<and> set (map run_work_item_id (filter (\<lambda>r. run_state r = RunCandidateReady) rs)) \<inter> candidates = {}"
proof (induction rs arbitrary: ids attempts active candidates)
  case (Cons r rs)
  show ?case
  proof (cases "find (\<lambda>i. wi_id i = run_work_item_id r) (ag_items ag)")
    case None
    then have "\<not> run_valid ag r" by (auto simp: find_id_None run_valid_def)
    with None show ?thesis by auto
  next
    case (Some i)
    then have "run_valid ag r \<longleftrightarrow> \<not> invalid_run ag i r"
      using find_id [OF assms] by (metis run_valid_def option.inject)
    note valid = this
    show ?thesis
      unfolding check_runs.simps Some ok_or_simps rbind_simps if_Inl Cons.IH
      by (cases "active_run r"; cases "run_state r = RunCandidateReady"; simp add: valid del: set_map; argo)
  qed
qed simp

lemma validate_iff [simp]: "validate_aggregate cal ag = Inr u \<longleftrightarrow> aggregate_ok cal ag"
proof -
  have "check_runs ag {} {} {} {} (ag_runs ag) = Inr () \<longleftrightarrow> runs_valid ag" if "distinct (map wi_id (ag_items ag))"
    using check_runs_iff [OF that, of "{}" "{}" "{}" "{}"] by (simp add: runs_valid_def)
  then show ?thesis
    by (auto simp: validate_aggregate_def aggregate_ok_def card_set_distinct [of "map wc_id _", simplified]
        card_set_distinct [of "map wi_id _", simplified] list_ex_iff)
qed

text \<open>The state of an item plays no part in the validity of its aggregate.\<close>

definition item_core :: "work_item \<Rightarrow> work_item" where
  "item_core i = i\<lparr>wi_state := ItemBacklog\<rparr>"

lemma item_core_fields:
  assumes "item_core i = item_core k"
  shows "wi_id i = wi_id k" "wi_revision i = wi_revision k" "wi_depends_on i = wi_depends_on k"
    "wi_work_contract_id i = wi_work_contract_id k" "wi_work_contract_revision i = wi_work_contract_revision k"
    "invalid_item c items i = invalid_item c items k"
  using assms by (cases i; cases k; simp add: item_core_def invalid_item_def)+

lemma core_map:
  assumes "map item_core items' = map item_core items"
  shows "map wi_id items' = map wi_id items" "length items' = length items"
    and "i \<in> set items' \<Longrightarrow> \<exists>k \<in> set items. item_core i = item_core k"
    and "k \<in> set items \<Longrightarrow> \<exists>i \<in> set items'. item_core i = item_core k"
proof -
  show len: "length items' = length items" using assms map_eq_imp_length_eq by blast
  have pointwise: "item_core (items' ! n) = item_core (items ! n)" if "n < length items" for n
    using arg_cong [OF assms, of "\<lambda>xs. xs ! n"] len that by simp
  show "map wi_id items' = map wi_id items"
    by (rule nth_equalityI) (use len item_core_fields(1) [OF pointwise] in simp_all)
  show "\<exists>k \<in> set items. item_core i = item_core k" if "i \<in> set items'"
  proof -
    from that len obtain n where "n < length items" "items' ! n = i" by (auto simp: in_set_conv_nth)
    with pointwise [of n] show ?thesis by (intro bexI [of _ "items ! n"]) simp_all
  qed
  show "\<exists>i \<in> set items'. item_core i = item_core k" if "k \<in> set items"
  proof -
    from that obtain n where "n < length items" "items ! n = k" by (auto simp: in_set_conv_nth)
    with pointwise [of n] len show ?thesis by (intro bexI [of _ "items' ! n"]) simp_all
  qed
qed

lemma core_same_ok:
  assumes core: "map item_core (ag_items ag') = map item_core (ag_items ag)" and "ag_contract ag' = ag_contract ag"
    and "ag_runs ag' = ag_runs ag" and ok: "aggregate_ok cal ag"
  shows "aggregate_ok cal ag'"
proof -
  note same = core_map [OF core]
  have ids: "distinct (map wi_id (ag_items ag'))" "distinct (map wi_id (ag_items ag))" using ok same(1) by (simp_all add: aggregate_ok_def)
  have items: "\<not> invalid_item (ag_contract ag') (ag_items ag') i" if i: "i \<in> set (ag_items ag')" for i
  proof -
    obtain k where k: "k \<in> set (ag_items ag)" "item_core i = item_core k" using same(3) [OF i] by blast
    then have "\<not> invalid_item (ag_contract ag) (ag_items ag) k" using ok by (simp add: aggregate_ok_def)
    then show ?thesis using item_core_fields(6) [OF k(2)] assms(2) same(1) by (simp add: invalid_item_def)
  qed
  have deps: "\<exists>k \<in> set (ag_items ag). wi_id i = wi_id k \<and> wi_depends_on i = wi_depends_on k" if "i \<in> set (ag_items ag')" for i
    using same(3) [OF that] item_core_fields(1,3) by blast
  have "dep_rel (ag_items ag') \<subseteq> dep_rel (ag_items ag)" using deps by (fastforce simp: dep_rel_def)
  then have "acyclic (dep_rel (ag_items ag)) \<longrightarrow> acyclic (dep_rel (ag_items ag'))" using acyclic_subset by blast
  moreover have "wi_id ` set (ag_items ag') = wi_id ` set (ag_items ag)" using same(1) by (metis set_map)
  then have "(\<forall>i \<in> set (ag_items ag). set (wi_depends_on i) \<subseteq> wi_id ` set (ag_items ag))
      \<longrightarrow> (\<forall>i \<in> set (ag_items ag'). set (wi_depends_on i) \<subseteq> wi_id ` set (ag_items ag'))"
    using deps by fastforce
  ultimately have "acyclic_items (ag_items ag')"
    using ok acyclic_items_iff [OF ids(1)] acyclic_items_iff [OF ids(2)] by (simp add: aggregate_ok_def)
  moreover have "run_valid ag' r" if valid: "run_valid ag r" for r
  proof -
    obtain k where k: "k \<in> set (ag_items ag)" "wi_id k = run_work_item_id r" "\<not> invalid_run ag k r"
      using valid by (auto simp: run_valid_def)
    obtain i where i: "i \<in> set (ag_items ag')" "item_core i = item_core k" using same(4) [OF k(1)] by blast
    then have "\<not> invalid_run ag' i r" using item_core_fields(2) [OF i(2)] k(3) assms(2) by (simp add: invalid_run_def)
    with i k(2) item_core_fields(1) [OF i(2)] show ?thesis by (auto simp: run_valid_def)
  qed
  ultimately show ?thesis
    using ok items ids(1) same(2) assms(2,3) by (simp add: aggregate_ok_def runs_valid_def)
qed

section \<open>Changing items and runs\<close>

definition set_item :: "string \<Rightarrow> work_item_state \<Rightarrow> work_item list \<Rightarrow> work_item list" where
  "set_item x t items = map (\<lambda>i. if wi_id i = x then i\<lparr>wi_state := t\<rparr> else i) items"

definition settle_run :: "string \<Rightarrow> work_run_state \<Rightarrow> int \<Rightarrow> work_run list \<Rightarrow> work_run list" where
  "settle_run x st v runs = map (\<lambda>r. if run_id r = x then r\<lparr>run_state := st, run_revision := v\<rparr> else r) runs"

lemma update_first_map: "distinct (map key xs) \<Longrightarrow> update_first (\<lambda>x. key x = k) f xs = map (\<lambda>x. if key x = k then f x else x) xs"
proof (induction xs)
  case (Cons x xs)
  then have "\<forall>y \<in> set xs. key y = k \<longrightarrow> key x \<noteq> k" by (auto simp: image_iff)
  then have "key x = k \<Longrightarrow> map (\<lambda>x. if key x = k then f x else x) xs = xs" by (auto intro: map_idI)
  with Cons show ?case by simp
qed simp

lemma set_item_core [simp]: "map item_core (set_item x t items) = map item_core items"
  by (auto simp: set_item_def item_core_def)

lemma set_item_item: "ag_items (ag\<lparr>ag_items := set_item x t (ag_items ag)\<rparr>) = set_item x t (ag_items ag)"
  by simp

lemma mem_set_item: "i \<in> set (set_item x t items) \<longleftrightarrow> (\<exists>k \<in> set items. i = (if wi_id k = x then k\<lparr>wi_state := t\<rparr> else k))"
  unfolding set_item_def set_map by blast

lemma mem_settle_run: "r \<in> set (settle_run x st v runs)
    \<longleftrightarrow> (\<exists>s \<in> set runs. r = (if run_id s = x then s\<lparr>run_state := st, run_revision := v\<rparr> else s))"
  unfolding settle_run_def set_map by blast

lemma ok_distinct:
  assumes "aggregate_ok cal ag"
  shows "distinct (map wi_id (ag_items ag))" "distinct (map run_id (ag_runs ag))"
    and "r \<in> set (ag_runs ag) \<Longrightarrow> s \<in> set (ag_runs ag) \<Longrightarrow> run_id r = run_id s \<Longrightarrow> r = s"
    and "i \<in> set (ag_items ag) \<Longrightarrow> k \<in> set (ag_items ag) \<Longrightarrow> wi_id i = wi_id k \<Longrightarrow> i = k"
  using assms by (auto simp: aggregate_ok_def runs_valid_def distinct_map inj_on_def)

lemma ok_find:
  assumes "aggregate_ok cal ag"
  shows "find (\<lambda>i. wi_id i = x) (ag_items ag) = Some i \<longleftrightarrow> i \<in> set (ag_items ag) \<and> wi_id i = x"
    and "find (\<lambda>r. run_id r = y) (ag_runs ag) = Some r \<longleftrightarrow> r \<in> set (ag_runs ag) \<and> run_id r = y"
  by (rule find_id [OF ok_distinct(1) [OF assms]], rule find_id [OF ok_distinct(2) [OF assms]])

lemma transition_iff:
  assumes "distinct (map wi_id (ag_items ag))"
  shows "transition_item_state ag x t = Inr ag' \<longleftrightarrow>
    (\<exists>i \<in> set (ag_items ag). wi_id i = x \<and> work_item_transition_allowed (wi_state i) t)
    \<and> ag' = ag\<lparr>ag_items := set_item x t (ag_items ag)\<rparr>"
proof -
  have "update_first (\<lambda>i. wi_id i = x) (\<lambda>i. i\<lparr>wi_state := t\<rparr>) (ag_items ag) = set_item x t (ag_items ag)"
    using update_first_map [OF assms] by (simp add: set_item_def)
  then show ?thesis
    using find_id [OF assms] by (auto simp: transition_item_state_def rbind_Inr_iff ok_or_Inr_iff simp del: work_item_transition_allowed.simps)
qed

lemma set_run_map: "distinct (map run_id (ag_runs ag)) \<Longrightarrow> set_run ag x st v = ag\<lparr>ag_runs := settle_run x st v (ag_runs ag)\<rparr>"
  using update_first_map [of run_id "ag_runs ag" x] by (simp add: set_run_def settle_run_def)

lemma set_item_ok: "aggregate_ok cal ag \<Longrightarrow> aggregate_ok cal (ag\<lparr>ag_items := set_item x t (ag_items ag)\<rparr>)"
  by (rule core_same_ok [where ag = ag]) simp_all

lemma filter_distinct_inj:
  "distinct (map run_id runs) \<Longrightarrow> distinct (map run_work_item_id (filter P runs)) \<longleftrightarrow> inj_on run_work_item_id {r \<in> set runs. P r}"
  by (simp add: distinct_map)

lemma settle_run_ok:
  assumes ok: "aggregate_ok cal ag" and r: "r \<in> set (ag_runs ag)" "run_id r = x" "active_run r \<or> run_state r = RunCandidateReady"
    and v: "valid_revision v" and st: "st \<notin> {RunLeased, RunRunning}"
    and cand: "st = RunCandidateReady \<Longrightarrow>
      \<forall>s \<in> set (ag_runs ag). run_work_item_id s = run_work_item_id r \<longrightarrow> run_state s \<noteq> RunCandidateReady"
  shows "aggregate_ok cal (ag\<lparr>ag_runs := settle_run x st v (ag_runs ag)\<rparr>)"
proof -
  let ?g = "\<lambda>r. if run_id r = x then r\<lparr>run_state := st, run_revision := v\<rparr> else r"
  let ?runs = "settle_run x st v (ag_runs ag)"
  have runs: "runs_valid ag" using ok by (simp add: aggregate_ok_def)
  have ids: "map run_id ?runs = map run_id (ag_runs ag)" "length ?runs = length (ag_runs ag)"
    and attempts: "map (\<lambda>r. (run_execution_job_id r, run_attempt r)) ?runs
      = map (\<lambda>r. (run_execution_job_id r, run_attempt r)) (ag_runs ag)" by (auto simp: settle_run_def)
  have keep: "run_work_item_id (?g s) = run_work_item_id s" for s by simp
  have valid: "run_valid (ag\<lparr>ag_runs := ?runs\<rparr>) s" if "s \<in> set ?runs" for s
  proof -
    from that obtain s0 where s0: "s0 \<in> set (ag_runs ag)" "s = ?g s0" by (auto simp: mem_settle_run)
    then have "run_valid ag s0" using runs by (simp add: runs_valid_def)
    then show ?thesis using s0(2) v by (auto simp: run_valid_def invalid_run_def invalid_run_fields_def)
  qed
  have same: "r = s" if "s \<in> set (ag_runs ag)" "run_id s = x" for s using ok_distinct(3) [OF ok r(1) that(1)] r(2) that(2) by simp
  have dist: "distinct (map run_id (ag_runs ag))" "distinct (map run_id ?runs)" using runs ids by (simp_all add: runs_valid_def)
  have "inj_on run_work_item_id {s \<in> set (ag_runs ag). active_run s}"
    and was: "inj_on run_work_item_id {s \<in> set (ag_runs ag). run_state s = RunCandidateReady}"
    using runs filter_distinct_inj [OF dist(1)] by (simp_all add: runs_valid_def)
  then have "inj_on run_work_item_id {s \<in> set ?runs. active_run s}"
    using st by (auto simp: inj_on_def mem_settle_run active_run_def)
  moreover have "inj_on run_work_item_id {s \<in> set ?runs. run_state s = RunCandidateReady}"
  proof (rule inj_onI)
    fix a b
    assume "a \<in> {s \<in> set ?runs. run_state s = RunCandidateReady}" "b \<in> {s \<in> set ?runs. run_state s = RunCandidateReady}"
      and item: "run_work_item_id a = run_work_item_id b"
    then obtain a0 b0 where a0: "a0 \<in> set (ag_runs ag)" "a = ?g a0" "run_state a = RunCandidateReady"
      and b0: "b0 \<in> set (ag_runs ag)" "b = ?g b0" "run_state b = RunCandidateReady" by (auto simp: mem_settle_run)
    have item0: "run_work_item_id a0 = run_work_item_id b0" using item a0(2) b0(2) keep by metis
    show "a = b"
    proof (cases "run_id a0 = x \<or> run_id b0 = x")
      case True
      with a0 b0 same cand item0 show ?thesis by (auto split: if_splits)
    next
      case False
      with a0 b0 item0 was show ?thesis by (auto simp: inj_on_def)
    qed
  qed
  ultimately have "runs_valid (ag\<lparr>ag_runs := ?runs\<rparr>)"
    using valid dist attempts runs filter_distinct_inj [OF dist(2)] by (simp add: runs_valid_def)
  then show ?thesis using ok ids by (simp add: aggregate_ok_def)
qed

end
