(* ===== verification/Work_Machine.thy ===== *)
theory Work_Machine
  imports Work_Schedule
begin

text \<open>
  The aggregate as a machine: what each operation does when it succeeds, and what holds in every aggregate
  that the operations can reach.
\<close>

section \<open>What the operations do\<close>

lemma find_mem: "find P xs = Some x \<Longrightarrow> x \<in> set xs \<and> P x"
  by (induction xs) (auto split: if_splits)

lemma runnable_iff: "work_item_is_runnable i items \<longleftrightarrow>
    wi_state i \<in> {ItemReady, ItemWaitingDependency} \<and> (\<forall>d \<in> set (wi_depends_on i). dependency_done items d)"
  by (auto simp: work_item_is_runnable_def effective_work_item_state_def list_ex_iff)

lemma set_item_twice: "set_item x t (set_item x u items) = set_item x t items"
  by (simp add: set_item_def)

lemma set_item_distinct: "distinct (map wi_id (set_item x t items)) \<longleftrightarrow> distinct (map wi_id items)"
  using core_map(1) [OF set_item_core] by metis

definition writer_appended :: "work_run_aggregate \<Rightarrow> work_run \<Rightarrow> work_run_aggregate \<Rightarrow> bool" where
  "writer_appended ag r ag' \<longleftrightarrow> active_run r
     \<and> (\<exists>i \<in> set (ag_items ag). wi_id i = run_work_item_id r \<and> work_item_is_runnable i (ag_items ag)
          \<and> wi_revision i = run_work_item_revision r)
     \<and> (\<forall>e \<in> set (ag_runs ag). run_id e \<noteq> run_id r \<and> (run_work_item_id e = run_work_item_id r \<longrightarrow> \<not> held_run e))
     \<and> run_attempt r = last_attempt (ag_runs ag) (run_execution_job_id r) + 1
     \<and> ag' = ag\<lparr>ag_items := set_item (run_work_item_id r) ItemInProgress (ag_items ag), ag_runs := ag_runs ag @ [r]\<rparr>"

lemma append_run_does:
  assumes "append_run cal ag r = Inr ag'"
  shows "aggregate_ok cal ag \<and> aggregate_ok cal ag' \<and> writer_appended ag r ag'"
proof -
  from assms have ok: "aggregate_ok cal ag" by (auto simp: append_run_def append_run_mode_def rbind_Inr_iff)
  note dist = ok_distinct(1) [OF ok]
  from assms obtain i moved n where act: "active_run r"
    and i: "i \<in> set (ag_items ag)" "wi_id i = run_work_item_id r" "work_item_is_runnable i (ag_items ag)"
      "wi_revision i = run_work_item_revision r"
    and new: "\<forall>e \<in> set (ag_runs ag). run_id e \<noteq> run_id r"
      "\<forall>e \<in> set (ag_runs ag). run_work_item_id e = run_work_item_id r \<longrightarrow> \<not> held_run e"
    and n: "i64_checked_add (last_attempt (ag_runs ag) (run_execution_job_id r)) 1 = Some n" "run_attempt r = n"
    and moved: "rbind (if list_ex (\<lambda>i. wi_id i = run_work_item_id r \<and> wi_state i = ItemWaitingDependency) (ag_items ag)
           then transition_item_state ag (run_work_item_id r) ItemReady else Inr ag)
         (\<lambda>ag. transition_item_state ag (run_work_item_id r) ItemInProgress) = Inr moved"
    and ag': "aggregate_ok cal ag'" "ag' = moved\<lparr>ag_runs := ag_runs moved @ [r]\<rparr>"
    unfolding append_run_def append_run_mode_def
    by (auto simp: rbind_Inr_iff ok_or_Inr_iff ensure_Inr_iff ok_find [OF ok] list_ex_iff Let_def split: if_splits)
  have "moved = ag\<lparr>ag_items := set_item (run_work_item_id r) ItemInProgress (ag_items ag)\<rparr>"
    using moved by (auto simp: rbind_Inr_iff transition_iff [OF dist] transition_iff set_item_distinct dist set_item_twice split: if_splits)
  moreover have "n = last_attempt (ag_runs ag) (run_execution_job_id r) + 1"
    using n(1) by (auto simp: i64_checked_add_def split: if_splits)
  ultimately show ?thesis
    using ok ag' act i new n(2) unfolding writer_appended_def by auto
qed

definition verifier_appended :: "work_run_aggregate \<Rightarrow> work_run \<Rightarrow> work_run_aggregate \<Rightarrow> bool" where
  "verifier_appended ag r ag' \<longleftrightarrow> active_run r
     \<and> (\<exists>i \<in> set (ag_items ag). wi_id i = run_work_item_id r \<and> wi_state i = ItemCandidateReady)
     \<and> (\<exists>e \<in> set (ag_runs ag). run_work_item_id e = run_work_item_id r \<and> run_state e = RunCandidateReady)
     \<and> (\<forall>e \<in> set (ag_runs ag). run_id e \<noteq> run_id r \<and> run_execution_job_id e \<noteq> run_execution_job_id r
          \<and> (run_work_item_id e = run_work_item_id r \<longrightarrow> \<not> active_run e))
     \<and> run_attempt r = 1 \<and> ag' = ag\<lparr>ag_runs := ag_runs ag @ [r]\<rparr>"

lemma append_verification_run_does:
  assumes "append_verification_run cal ag r = Inr ag'"
  shows "aggregate_ok cal ag \<and> aggregate_ok cal ag' \<and> verifier_appended ag r ag'"
proof -
  from assms have ok: "aggregate_ok cal ag" by (auto simp: append_verification_run_def append_run_mode_def rbind_Inr_iff)
  from assms obtain start where start: "start_verification cal ag (run_work_item_id r) = Inr start"
    by (auto simp: append_verification_run_def append_run_mode_def rbind_Inr_iff)
  then have "(\<exists>i \<in> set (ag_items ag). wi_id i = run_work_item_id r \<and> wi_state i = ItemCandidateReady)
     \<and> (\<exists>e \<in> set (ag_runs ag). run_work_item_id e = run_work_item_id r \<and> run_state e = RunCandidateReady)
     \<and> (\<forall>e \<in> set (ag_runs ag). run_work_item_id e = run_work_item_id r \<longrightarrow> \<not> active_run e)"
    by (auto simp: start_verification_def rbind_Inr_iff ok_or_Inr_iff list_ex_iff find_Some_iff split: if_splits)
  moreover from assms have "active_run r \<and> (\<forall>e \<in> set (ag_runs ag). run_id e \<noteq> run_id r \<and> run_execution_job_id e \<noteq> run_execution_job_id r)
     \<and> run_attempt r = 1 \<and> ag' = ag\<lparr>ag_runs := ag_runs ag @ [r]\<rparr> \<and> aggregate_ok cal ag'"
    by (auto simp: append_verification_run_def append_run_mode_def rbind_Inr_iff ensure_Inr_iff list_ex_iff Let_def)
  ultimately show ?thesis using ok by (auto simp: verifier_appended_def)
qed

definition writer_settled :: "work_run_aggregate \<Rightarrow> work_run \<Rightarrow> work_run_state \<Rightarrow> work_item_state \<Rightarrow> work_run_aggregate \<Rightarrow> bool" where
  "writer_settled ag r st t ag' \<longleftrightarrow> r \<in> set (ag_runs ag) \<and> active_run r
     \<and> (\<exists>i \<in> set (ag_items ag). wi_id i = run_work_item_id r \<and> wi_state i = ItemInProgress)
     \<and> (st, t) \<in> {(RunCandidateReady, ItemCandidateReady), (RunFailed, ItemFailed), (RunCancelled, ItemCancelled)}
     \<and> valid_revision (run_revision r + 1)
     \<and> ag' = ag\<lparr>ag_items := set_item (run_work_item_id r) t (ag_items ag),
               ag_runs := settle_run (run_id r) st (run_revision r + 1) (ag_runs ag)\<rparr>"

lemma ok_revision: "aggregate_ok cal ag \<Longrightarrow> r \<in> set (ag_runs ag) \<Longrightarrow> valid_revision (run_revision r)"
  by (auto simp: aggregate_ok_def runs_valid_def run_valid_def invalid_run_def invalid_run_fields_def)

lemma settle_verified_outcome_does:
  assumes "settle_verified_outcome cal ag v = Inr ag'"
  shows "aggregate_ok cal ag \<and> (\<exists>r st t. run_id r = vt_work_run_id v \<and> writer_settled ag r st t ag')"
proof -
  from assms have ok: "aggregate_ok cal ag" by (auto simp: settle_verified_outcome_def rbind_Inr_iff)
  note dist = ok_distinct [OF ok]
  from assms obtain r tf where r: "r \<in> set (ag_runs ag)" "run_id r = vt_work_run_id v"
    and tf: "from_verified r v = Inr tf" "settle_fact ag tf = Inr ag'"
    by (auto simp: settle_verified_outcome_def rbind_Inr_iff ok_or_Inr_iff ok_find [OF ok])
  have same: "tf_work_run tf = r" using tf(1) by (auto simp: from_verified_def Let_def split: if_splits)
  define st where "st = (case tf_outcome tf of TerminalCandidateReady \<Rightarrow> RunCandidateReady | TerminalFailed \<Rightarrow> RunFailed
    | TerminalCancelled \<Rightarrow> RunCancelled)"
  define t where "t = (case tf_outcome tf of TerminalCandidateReady \<Rightarrow> ItemCandidateReady | TerminalFailed \<Rightarrow> ItemFailed
    | TerminalCancelled \<Rightarrow> ItemCancelled)"
  from tf(2) r same obtain i moved w where act: "active_run r"
    and i: "i \<in> set (ag_items ag)" "wi_id i = run_work_item_id r" "wi_state i = ItemInProgress"
    and w: "i64_checked_add (run_revision r) 1 = Some w" "w \<le> 9007199254740991"
    and moved: "transition_item_state ag (wi_id i) t = Inr moved" "ag' = set_run moved (run_id r) st w"
    by (cases "tf_outcome tf")
      (auto simp: settle_fact_def rbind_Inr_iff ok_or_Inr_iff ok_find [OF ok] st_def t_def split: if_splits option.splits)
  have "moved = ag\<lparr>ag_items := set_item (run_work_item_id r) t (ag_items ag)\<rparr>" using moved(1) i(2) by (simp add: transition_iff [OF dist(1)])
  moreover from this moved(2) have "ag' = moved\<lparr>ag_runs := settle_run (run_id r) st w (ag_runs ag)\<rparr>"
    using set_run_map [of moved "run_id r" st w] dist(2) by simp
  moreover have "w = run_revision r + 1" using w(1) by (auto simp: i64_checked_add_def split: if_splits)
  moreover from this have "valid_revision w" using ok_revision [OF ok r(1)] w(2) by (simp add: valid_revision_def)
  moreover have "(st, t) \<in> {(RunCandidateReady, ItemCandidateReady), (RunFailed, ItemFailed), (RunCancelled, ItemCancelled)}"
    by (cases "tf_outcome tf") (simp_all add: st_def t_def)
  ultimately have "writer_settled ag r st t ag'" using r(1) act i unfolding writer_settled_def by auto
  with ok r(2) show ?thesis by blast
qed

definition verifier_settled :: "work_run_aggregate \<Rightarrow> work_run \<Rightarrow> work_run_state \<Rightarrow> work_run_aggregate \<Rightarrow> bool" where
  "verifier_settled ag r st ag' \<longleftrightarrow> r \<in> set (ag_runs ag) \<and> active_run r
     \<and> (\<exists>i \<in> set (ag_items ag). wi_id i = run_work_item_id r \<and> wi_state i = ItemCandidateReady)
     \<and> st \<in> {RunSettled, RunFailed, RunCancelled} \<and> valid_revision (run_revision r + 1)
     \<and> ag' = ag\<lparr>ag_runs := settle_run (run_id r) st (run_revision r + 1) (ag_runs ag)\<rparr>"

lemma next_revision_Some: "next_revision_of r = Some w \<Longrightarrow> w = run_revision r + 1 \<and> valid_revision w"
  by (auto simp: next_revision_of_def i64_checked_add_def split: if_splits option.splits)

lemma settle_verification_outcome_does:
  assumes "settle_verification_outcome cal ag v = Inr ag'"
  shows "aggregate_ok cal ag \<and> (\<exists>r st. run_id r = vt_work_run_id v \<and> verifier_settled ag r st ag')"
proof -
  from assms have ok: "aggregate_ok cal ag" by (auto simp: settle_verification_outcome_def rbind_Inr_iff)
  define st where "st = (case vt_status v of OutcomeOk \<Rightarrow> RunSettled | OutcomeFail \<Rightarrow> RunFailed
     | OutcomeInfrastructureError \<Rightarrow> RunFailed | OutcomeCancel \<Rightarrow> RunCancelled)"
  from assms obtain r w where r: "r \<in> set (ag_runs ag)" "run_id r = vt_work_run_id v" "active_run r"
    and i: "\<exists>i \<in> set (ag_items ag). wi_id i = run_work_item_id r \<and> wi_state i = ItemCandidateReady"
    and w: "next_revision_of r = Some w" and ag': "ag' = set_run ag (run_id r) st w"
    by (auto simp: settle_verification_outcome_def rbind_Inr_iff ok_or_Inr_iff ok_find [OF ok] st_def list_ex_iff
        simp del: terminal_outcome_status.case split: if_splits)
  have "st \<in> {RunSettled, RunFailed, RunCancelled}" by (cases "vt_status v") (simp_all add: st_def)
  then have "verifier_settled ag r st ag'"
    using r i next_revision_Some [OF w] ag' set_run_map [OF ok_distinct(2) [OF ok]] by (auto simp: verifier_settled_def)
  with ok r(2) show ?thesis by blast
qed

lemma update_first_only:
  "distinct (map run_id runs) \<Longrightarrow> r \<in> set runs \<Longrightarrow> run_id r = x \<Longrightarrow> P r \<Longrightarrow>
     update_first (\<lambda>r. run_id r = x \<and> P r) f runs = map (\<lambda>r. if run_id r = x then f r else r) runs"
proof (induction runs)
  case (Cons s runs)
  show ?case
  proof (cases "run_id s = x")
    case True
    with Cons.prems have "s = r" by (auto simp: image_iff)
    moreover have "map (\<lambda>r. if run_id r = x then f r else r) runs = runs"
      using Cons.prems(1) True by (auto simp: image_iff intro!: map_idI)
    ultimately show ?thesis using True Cons.prems(4) by simp
  next
    case False
    with Cons show ?thesis by auto
  qed
qed simp

definition candidate_done :: "work_run_aggregate \<Rightarrow> work_run \<Rightarrow> work_item_state \<Rightarrow> work_run_aggregate \<Rightarrow> bool" where
  "candidate_done ag r t ag' \<longleftrightarrow> r \<in> set (ag_runs ag) \<and> run_state r = RunCandidateReady
     \<and> (\<forall>e \<in> set (ag_runs ag). run_work_item_id e = run_work_item_id r \<longrightarrow> \<not> active_run e)
     \<and> valid_revision (run_revision r + 1)
     \<and> ag' = ag\<lparr>ag_items := set_item (run_work_item_id r) t (ag_items ag),
               ag_runs := settle_run (run_id r) RunSettled (run_revision r + 1) (ag_runs ag)\<rparr>"

lemma candidate_done_ok:
  assumes ok: "aggregate_ok cal ag" and "candidate_done ag r t ag'"
  shows "aggregate_ok cal ag'"
proof -
  let ?ag = "ag\<lparr>ag_items := set_item (run_work_item_id r) t (ag_items ag)\<rparr>"
  have "aggregate_ok cal (?ag\<lparr>ag_runs := settle_run (run_id r) RunSettled (run_revision r + 1) (ag_runs ?ag)\<rparr>)"
    using assms(2) by (intro settle_run_ok [of cal ?ag r] set_item_ok ok) (auto simp: candidate_done_def)
  then show ?thesis using assms(2) by (auto simp: candidate_done_def)
qed

lemma complete_candidate_does:
  shows "(\<exists>e. complete_candidate cal ag x = (Inl e, ag))
    \<or> (\<exists>ag' r. complete_candidate cal ag x = (Inr (), ag') \<and> aggregate_ok cal ag \<and> run_id r = x \<and> candidate_done ag r ItemDone ag'
         \<and> (\<exists>i \<in> set (ag_items ag). wi_id i = run_work_item_id r \<and> wi_state i = ItemCandidateReady))"
proof (cases "fst (complete_candidate cal ag x) = Inr () \<or> snd (complete_candidate cal ag x) \<noteq> ag")
  case False
  then show ?thesis by (cases "complete_candidate cal ag x"; cases "fst (complete_candidate cal ag x)") auto
next
  case True
  then have ok: "aggregate_ok cal ag"
    by (auto simp: complete_candidate_def rbind_def split: sum.splits)
  note dist = ok_distinct [OF ok]
  let ?find = "find (\<lambda>r. run_id r = x \<and> run_state r = RunCandidateReady) (ag_runs ag)"
  from True ok obtain r w moved where find: "?find = Some r"
    and i: "\<exists>i \<in> set (ag_items ag). wi_id i = run_work_item_id r \<and> wi_revision i = run_work_item_revision r \<and> wi_state i = ItemCandidateReady"
    and idle: "\<forall>e \<in> set (ag_runs ag). run_work_item_id e = run_work_item_id r \<longrightarrow> \<not> active_run e"
    and w: "next_revision_of r = Some w" and moved: "transition_item_state ag (run_work_item_id r) ItemDone = Inr moved"
    by (auto simp: complete_candidate_def rbind_def ok_or_def list_ex_iff split: sum.splits option.splits if_splits)
  from find have r: "r \<in> set (ag_runs ag)" "run_id r = x" "run_state r = RunCandidateReady" by (auto simp: find_Some_iff)
  let ?ag' = "ag\<lparr>ag_items := set_item (run_work_item_id r) ItemDone (ag_items ag),
               ag_runs := settle_run (run_id r) RunSettled (run_revision r + 1) (ag_runs ag)\<rparr>"
  have fin: "candidate_done ag r ItemDone ?ag'"
    using r idle next_revision_Some [OF w] by (auto simp: candidate_done_def)
  have "update_first (\<lambda>r. run_id r = x \<and> run_state r = RunCandidateReady) f (ag_runs ag)
      = map (\<lambda>r. if run_id r = x then f r else r) (ag_runs ag)" for f
    using r dist(2,3) by (simp add: update_first_only)
  note changed = this
  have valid: "validate_aggregate cal ag = Inr ()" "validate_aggregate cal ?ag' = Inr ()"
    using ok candidate_done_ok [OF ok fin] by simp_all
  have "moved = ag\<lparr>ag_items := set_item (run_work_item_id r) ItemDone (ag_items ag)\<rparr>"
    using moved by (simp add: transition_iff [OF dist(1)])
  then have "moved\<lparr>ag_runs := update_first (\<lambda>r. run_id r = x \<and> run_state r = RunCandidateReady)
      (\<lambda>r. r\<lparr>run_state := RunSettled, run_revision := w\<rparr>) (ag_runs moved)\<rparr> = ?ag'"
    using changed next_revision_Some [OF w] r(2) by (simp add: settle_run_def)
  then have "complete_candidate cal ag x = (Inr (), ?ag')"
    using i idle unfolding complete_candidate_def valid find ok_or_simps rbind_simps w moved list_ex_iff
    by (auto simp: valid)
  with ok r fin i show ?thesis by blast
qed

lemma rework_does:
  assumes ok: "aggregate_ok cal ag" and x: "candidate_work_item_id ag p = Inr x" and "dispatch_aggregate cal ag x p = Inr ag'"
  shows "aggregate_ok cal ag' \<and> (\<exists>r. run_id r = p \<and> candidate_done ag r ItemReady ag')"
proof -
  note dist = ok_distinct [OF ok]
  from x obtain r where r: "r \<in> set (ag_runs ag)" "run_id r = p" "run_work_item_id r = x"
    by (auto simp: candidate_work_item_id_def rbind_Inr_iff ok_or_Inr_iff dest!: find_mem)
  with assms(3) obtain w start where st: "run_state r = RunCandidateReady"
    and idle: "\<forall>e \<in> set (ag_runs ag). run_work_item_id e = x \<longrightarrow> \<not> active_run e"
    and w: "i64_checked_add (run_revision r) 1 = Some w"
    and moved: "transition_item_state (set_run ag p RunSettled w) x ItemReady = Inr ag'" and start: "start_item cal ag' x = Inr start"
    by (auto simp: dispatch_aggregate_def rbind_Inr_iff ok_or_Inr_iff map_err_Inr_iff list_ex_iff find_id [OF dist(2)] dest: dist(3) split: if_splits)
  have ag': "ag' = ag\<lparr>ag_items := set_item x ItemReady (ag_items ag), ag_runs := settle_run p RunSettled w (ag_runs ag)\<rparr>"
    using moved dist(1) by (simp add: set_run_map [OF dist(2)] transition_iff)
  have ok': "aggregate_ok cal ag'" using start by (auto simp: start_item_def rbind_Inr_iff)
  have "r\<lparr>run_state := RunSettled, run_revision := w\<rparr> \<in> set (ag_runs ag')" using r ag' by (auto simp: mem_settle_run)
  from ok_revision [OF ok' this] have "valid_revision w" by simp
  moreover have "w = run_revision r + 1" using w by (auto simp: i64_checked_add_def split: if_splits)
  ultimately have "candidate_done ag r ItemReady ag'" using r st idle ag' by (auto simp: candidate_done_def)
  with r(2) ok' show ?thesis by blast
qed

section \<open>Runs of the machine\<close>

datatype work_error = Scheduling scheduling_error | Reworking rework_error

datatype work_op =
    AppendRunOp work_run
  | AppendVerificationOp work_run
  | SettleOp verified_terminal_outcome
  | SettleVerificationOp verified_terminal_outcome
  | CompleteOp string
  | ReworkOp string

fun work_step :: "calendar \<Rightarrow> work_run_aggregate \<Rightarrow> work_op \<Rightarrow> work_error + work_run_aggregate" where
  "work_step cal ag (AppendRunOp r) = map_err Scheduling (append_run cal ag r)"
| "work_step cal ag (AppendVerificationOp r) = map_err Scheduling (append_verification_run cal ag r)"
| "work_step cal ag (SettleOp v) = map_err Scheduling (settle_verified_outcome cal ag v)"
| "work_step cal ag (SettleVerificationOp v) = map_err Scheduling (settle_verification_outcome cal ag v)"
| "work_step cal ag (CompleteOp x) =
     (case complete_candidate cal ag x of (Inl e, _) \<Rightarrow> Inl (Scheduling e) | (Inr _, ag) \<Rightarrow> Inr ag)"
| "work_step cal ag (ReworkOp p) =
     map_err Reworking (rbind (candidate_work_item_id ag p) (\<lambda>x. dispatch_aggregate cal ag x p))"

text \<open>What a successful step is, in terms of the changes above.\<close>

lemma work_step_cases:
  assumes "work_step cal ag op = Inr ag'" and "aggregate_ok cal ag"
  obtains (append) r where "writer_appended ag r ag'" "aggregate_ok cal ag'"
  | (verify) r where "verifier_appended ag r ag'" "aggregate_ok cal ag'"
  | (settle) r st t where "writer_settled ag r st t ag'"
  | (verified) r st where "verifier_settled ag r st ag'"
  | (finish) r t where "candidate_done ag r t ag'" "t \<in> {ItemDone, ItemReady}"
proof (cases op)
  case (AppendRunOp r)
  with assms append_run_does show thesis by (intro append [of r]) (auto simp: map_err_Inr_iff)
next
  case (AppendVerificationOp r)
  with assms append_verification_run_does show thesis by (intro verify [of r]) (auto simp: map_err_Inr_iff)
next
  case (SettleOp v)
  with assms have "settle_verified_outcome cal ag v = Inr ag'" by (simp add: map_err_Inr_iff)
  from settle_verified_outcome_does [OF this] show thesis by (blast intro: settle)
next
  case (SettleVerificationOp v)
  with assms have "settle_verification_outcome cal ag v = Inr ag'" by (simp add: map_err_Inr_iff)
  from settle_verification_outcome_does [OF this] show thesis by (blast intro: verified)
next
  case (CompleteOp x)
  with assms(1) complete_candidate_does [of cal ag x] show thesis by (auto intro: finish)
next
  case (ReworkOp p)
  with assms obtain x where "candidate_work_item_id ag p = Inr x" "dispatch_aggregate cal ag x p = Inr ag'"
    by (auto simp: map_err_Inr_iff rbind_Inr_iff)
  from rework_does [OF assms(2) this] show thesis by (blast intro: finish)
qed

text \<open>Item and run states agree.\<close>

definition item_coherent :: "work_run list \<Rightarrow> work_item \<Rightarrow> bool" where
  "item_coherent runs i \<longleftrightarrow>
     (\<forall>r \<in> set runs. run_work_item_id r = wi_id i \<and> active_run r \<longrightarrow> wi_state i \<in> {ItemInProgress, ItemCandidateReady})
     \<and> (\<forall>r \<in> set runs. run_work_item_id r = wi_id i \<and> run_state r = RunCandidateReady \<longrightarrow> wi_state i = ItemCandidateReady)
     \<and> (wi_state i = ItemInProgress \<longrightarrow> (\<exists>r \<in> set runs. run_work_item_id r = wi_id i \<and> active_run r))
     \<and> (wi_state i = ItemCandidateReady \<longrightarrow> (\<exists>r \<in> set runs. run_work_item_id r = wi_id i \<and> run_state r = RunCandidateReady))"

definition work_inv :: "calendar \<Rightarrow> work_run_aggregate \<Rightarrow> bool" where
  "work_inv cal ag \<longleftrightarrow> aggregate_ok cal ag \<and> (\<forall>i \<in> set (ag_items ag). item_coherent (ag_runs ag) i)"

lemma settle_kinds:
  assumes "writer_settled ag r st t ag'"
  shows "\<not> active_run (s\<lparr>run_state := st, run_revision := v\<rparr>)" "t \<noteq> ItemInProgress" "t = ItemCandidateReady \<longleftrightarrow> st = RunCandidateReady"
  using assms by (auto simp: writer_settled_def active_run_def)

lemma work_step_ok:
  assumes inv: "work_inv cal ag" and step: "work_step cal ag op = Inr ag'"
  shows "aggregate_ok cal ag'"
proof -
  have ok: "aggregate_ok cal ag" and coh: "\<And>i. i \<in> set (ag_items ag) \<Longrightarrow> item_coherent (ag_runs ag) i"
    using inv by (simp_all add: work_inv_def)
  from step ok show ?thesis
  proof (cases rule: work_step_cases)
    case (settle r st t)
    let ?ag = "ag\<lparr>ag_items := set_item (run_work_item_id r) t (ag_items ag)\<rparr>"
    obtain i where i: "i \<in> set (ag_items ag)" "wi_id i = run_work_item_id r" "wi_state i = ItemInProgress"
      using settle by (auto simp: writer_settled_def)
    have "aggregate_ok cal (?ag\<lparr>ag_runs := settle_run (run_id r) st (run_revision r + 1) (ag_runs ?ag)\<rparr>)"
      using settle coh [OF i(1)] i(2,3) by (intro settle_run_ok [of cal ?ag r] set_item_ok ok) (auto simp: writer_settled_def item_coherent_def)
    then show ?thesis using settle by (auto simp: writer_settled_def)
  next
    case (verified r st)
    have "aggregate_ok cal (ag\<lparr>ag_runs := settle_run (run_id r) st (run_revision r + 1) (ag_runs ag)\<rparr>)"
      using verified by (intro settle_run_ok [of cal ag r] ok) (auto simp: verifier_settled_def)
    then show ?thesis using verified by (auto simp: verifier_settled_def)
  next
    case (finish r t)
    then show ?thesis using candidate_done_ok [OF ok] by blast
  qed
qed

lemma coherent_other:
  assumes "item_coherent runs i" and "\<And>r. run_work_item_id r = wi_id i \<Longrightarrow> r \<in> set runs' \<longleftrightarrow> r \<in> set runs"
  shows "item_coherent runs' i"
  using assms unfolding item_coherent_def by meson

lemma settle_run_cases:
  assumes "s \<in> set (settle_run x st v runs)"
  obtains (other) "s \<in> set runs" "run_id s \<noteq> x"
  | (here) s0 where "s0 \<in> set runs" "run_id s0 = x" "s = s0\<lparr>run_state := st, run_revision := v\<rparr>"
proof -
  from assms obtain s0 where s0: "s0 \<in> set runs" "s = (if run_id s0 = x then s0\<lparr>run_state := st, run_revision := v\<rparr> else s0)"
    by (auto simp: mem_settle_run)
  then show thesis using that by (cases "run_id s0 = x") auto
qed

lemma settle_run_other:
  assumes "r \<in> set runs" and "distinct (map run_id runs)" and "run_work_item_id s \<noteq> run_work_item_id r"
  shows "s \<in> set (settle_run (run_id r) st v runs) \<longleftrightarrow> s \<in> set runs"
proof -
  have "t = r" if "t \<in> set runs" "run_id t = run_id r" for t
    using that assms(1,2) by (simp add: distinct_map inj_on_def)
  note only = this
  show ?thesis
  proof
    assume "s \<in> set (settle_run (run_id r) st v runs)"
    then obtain t where t: "t \<in> set runs" "s = (if run_id t = run_id r then t\<lparr>run_state := st, run_revision := v\<rparr> else t)"
      by (auto simp: mem_settle_run)
    have "run_id t \<noteq> run_id r"
    proof
      assume "run_id t = run_id r"
      with only [OF t(1)] t(2) have "run_work_item_id s = run_work_item_id r" by simp
      with assms(3) show False ..
    qed
    with t show "s \<in> set runs" by simp
  next
    assume s: "s \<in> set runs"
    with only assms(3) have "run_id s \<noteq> run_id r" by auto
    with s show "s \<in> set (settle_run (run_id r) st v runs)" unfolding mem_settle_run by (intro bexI [of _ s]) simp_all
  qed
qed

lemma coherent_item:
  assumes "\<And>i. i \<in> set (ag_items ag) \<Longrightarrow> item_coherent (ag_runs ag) i" and "i \<in> set (set_item x t (ag_items ag))"
    and "\<And>r. run_work_item_id r \<noteq> x \<Longrightarrow> r \<in> set runs \<longleftrightarrow> r \<in> set (ag_runs ag)"
    and "\<And>k. k \<in> set (ag_items ag) \<Longrightarrow> wi_id k = x \<Longrightarrow> item_coherent (ag_runs ag) k \<Longrightarrow> item_coherent runs (k\<lparr>wi_state := t\<rparr>)"
  shows "item_coherent runs i"
proof -
  from assms(2) obtain k where k: "k \<in> set (ag_items ag)" "i = (if wi_id k = x then k\<lparr>wi_state := t\<rparr> else k)"
    by (auto simp: mem_set_item)
  show ?thesis
  proof (cases "wi_id k = x")
    case True
    with assms(1,4) k show ?thesis by simp
  next
    case False
    then show ?thesis using k coherent_other [OF assms(1) [OF k(1)], of runs] assms(3) by simp
  qed
qed

lemma item_state_of:
  assumes "aggregate_ok cal ag" and "i \<in> set (ag_items ag)" and "\<exists>k \<in> set (ag_items ag). wi_id k = wi_id i \<and> wi_state k = st"
  shows "wi_state i = st"
  using assms ok_distinct(4) [OF assms(1)] by metis

lemma only_one:
  assumes "aggregate_ok cal ag" and "r \<in> set (ag_runs ag)" "s \<in> set (ag_runs ag)" "run_work_item_id r = run_work_item_id s"
  shows "active_run r \<Longrightarrow> active_run s \<Longrightarrow> r = s"
    and "run_state r = RunCandidateReady \<Longrightarrow> run_state s = RunCandidateReady \<Longrightarrow> r = s"
  using assms by (auto simp: aggregate_ok_def runs_valid_def filter_distinct_inj inj_on_def)

lemma work_step_coherent:
  assumes inv: "work_inv cal ag" and step: "work_step cal ag op = Inr ag'" and i: "i \<in> set (ag_items ag')"
  shows "item_coherent (ag_runs ag') i"
proof -
  have ok: "aggregate_ok cal ag" and coh: "\<And>i. i \<in> set (ag_items ag) \<Longrightarrow> item_coherent (ag_runs ag) i"
    using inv by (simp_all add: work_inv_def)
  note ids = ok_distinct(2) [OF ok]
  note one = ok_distinct(3) [OF ok]
  from step ok show ?thesis
  proof (cases rule: work_step_cases)
    case (append r)
    then have "ag_items ag' = set_item (run_work_item_id r) ItemInProgress (ag_items ag)" "ag_runs ag' = ag_runs ag @ [r]"
      by (simp_all add: writer_appended_def)
    note new = this
    show ?thesis unfolding new(2)
    proof (rule coherent_item [OF coh i [unfolded new(1)]])
      fix k assume "k \<in> set (ag_items ag)" "wi_id k = run_work_item_id r"
      then show "item_coherent (ag_runs ag @ [r]) (k\<lparr>wi_state := ItemInProgress\<rparr>)"
        using append(1) by (auto simp: writer_appended_def item_coherent_def held_run_def active_run_def)
    qed auto
  next
    case (verify r)
    then have "ag_items ag' = ag_items ag" "ag_runs ag' = ag_runs ag @ [r]" by (simp_all add: verifier_appended_def)
    moreover have "\<exists>k \<in> set (ag_items ag). wi_id k = run_work_item_id r \<and> wi_state k = ItemCandidateReady"
      using verify(1) by (simp add: verifier_appended_def)
    then have "wi_state i = ItemCandidateReady" if "wi_id i = run_work_item_id r"
      using item_state_of [OF ok] that i calculation(1) by metis
    ultimately show ?thesis using coh [of i] i verify by (auto simp: item_coherent_def active_run_def)
  next
    case (settle r st t)
    then have new: "ag_items ag' = set_item (run_work_item_id r) t (ag_items ag)"
      "ag_runs ag' = settle_run (run_id r) st (run_revision r + 1) (ag_runs ag)" by (simp_all add: writer_settled_def)
    have r: "r \<in> set (ag_runs ag)" "active_run r" using settle by (simp_all add: writer_settled_def)
    show ?thesis unfolding new(2)
    proof (rule coherent_item [OF coh i [unfolded new(1)]])
      fix k assume k: "k \<in> set (ag_items ag)" "wi_id k = run_work_item_id r" "item_coherent (ag_runs ag) k"
      have "\<exists>i \<in> set (ag_items ag). wi_id i = run_work_item_id r \<and> wi_state i = ItemInProgress"
        using settle by (simp add: writer_settled_def)
      then have "wi_state k = ItemInProgress" using item_state_of [OF ok k(1)] k(2) by metis
      then have none: "run_state s \<noteq> RunCandidateReady" if "s \<in> set (ag_runs ag)" "run_work_item_id s = run_work_item_id r" for s
        using k that by (auto simp: item_coherent_def)
      have idle: "\<not> active_run s" if "s \<in> set (ag_runs ag')" "run_work_item_id s = run_work_item_id r" for s
        using that(1) unfolding new(2)
      proof (cases rule: settle_run_cases)
        case other
        with only_one(1) [OF ok r(1) other(1)] r(2) that(2) show ?thesis by metis
      qed (use settle_kinds(1) [OF settle] in simp)
      have cand: "run_state s = RunCandidateReady \<Longrightarrow> t = ItemCandidateReady" if "s \<in> set (ag_runs ag')" "run_work_item_id s = run_work_item_id r" for s
        using that(1) unfolding new(2)
        by (cases rule: settle_run_cases) (use that(2) none settle_kinds(3) [OF settle] in auto)
      have here: "r\<lparr>run_state := st, run_revision := run_revision r + 1\<rparr> \<in> set (ag_runs ag')"
        unfolding new(2) mem_settle_run using r(1) by (intro bexI [of _ r]) simp_all
      have "\<exists>s \<in> set (ag_runs ag'). run_work_item_id s = run_work_item_id r \<and> run_state s = RunCandidateReady" if "t = ItemCandidateReady"
        using that settle_kinds(3) [OF settle] by (intro bexI [OF _ here]) simp
      with idle cand settle_kinds(2) [OF settle] k(2) have "item_coherent (ag_runs ag') (k\<lparr>wi_state := t\<rparr>)"
        unfolding item_coherent_def by (intro conjI ballI impI) auto
      then show "item_coherent (settle_run (run_id r) st (run_revision r + 1) (ag_runs ag)) (k\<lparr>wi_state := t\<rparr>)" by (simp only: new(2))
    qed (use settle_run_other [OF r(1) ids] in auto)
  next
    case (verified r st)
    then have new: "ag_items ag' = ag_items ag" "ag_runs ag' = settle_run (run_id r) st (run_revision r + 1) (ag_runs ag)"
      and r: "r \<in> set (ag_runs ag)" "active_run r" by (simp_all add: verifier_settled_def)
    have ended: "\<not> active_run (s\<lparr>run_state := st, run_revision := v\<rparr>)" "st \<noteq> RunCandidateReady" for s v
      using verified by (auto simp: verifier_settled_def active_run_def)
    have "\<exists>k \<in> set (ag_items ag). wi_id k = run_work_item_id r \<and> wi_state k = ItemCandidateReady"
      using verified by (simp add: verifier_settled_def)
    then have here: "wi_state i = ItemCandidateReady" if "wi_id i = run_work_item_id r"
      using item_state_of [OF ok] that i new(1) by metis
    have old: "s \<in> set (ag_runs ag)" if "s \<in> set (ag_runs ag')" "active_run s \<or> run_state s = RunCandidateReady" for s
      using that(1) unfolding new(2) by (cases rule: settle_run_cases) (use that(2) ended in auto)
    have kept: "s \<in> set (ag_runs ag')" if "s \<in> set (ag_runs ag)" "s \<noteq> r" for s
      using that one [OF _ r(1)] unfolding new(2) mem_settle_run by (intro bexI [of _ s]) auto
    have c: "item_coherent (ag_runs ag) i" using coh i new(1) by simp
    have "\<exists>s \<in> set (ag_runs ag'). run_work_item_id s = wi_id i \<and> active_run s" if "wi_state i = ItemInProgress"
    proof -
      from c that obtain s where s: "s \<in> set (ag_runs ag)" "run_work_item_id s = wi_id i" "active_run s" by (auto simp: item_coherent_def)
      with here that have "s \<noteq> r" by auto
      with kept s show ?thesis by blast
    qed
    moreover have "\<exists>s \<in> set (ag_runs ag'). run_work_item_id s = wi_id i \<and> run_state s = RunCandidateReady"
      if "wi_state i = ItemCandidateReady"
    proof -
      from c that obtain s where s: "s \<in> set (ag_runs ag)" "run_work_item_id s = wi_id i" "run_state s = RunCandidateReady"
        by (auto simp: item_coherent_def)
      with r(2) have "s \<noteq> r" by (auto simp: active_run_def)
      with kept s show ?thesis by blast
    qed
    ultimately show ?thesis using c old unfolding item_coherent_def by (intro conjI ballI impI) blast+
  next
    case (finish r t)
    then have new: "ag_items ag' = set_item (run_work_item_id r) t (ag_items ag)"
      "ag_runs ag' = settle_run (run_id r) RunSettled (run_revision r + 1) (ag_runs ag)"
      and r: "r \<in> set (ag_runs ag)" "run_state r = RunCandidateReady" by (simp_all add: candidate_done_def)
    show ?thesis unfolding new(2)
    proof (rule coherent_item [OF coh i [unfolded new(1)]])
      fix k assume k: "k \<in> set (ag_items ag)" "wi_id k = run_work_item_id r" "item_coherent (ag_runs ag) k"
      have "\<not> active_run s \<and> run_state s \<noteq> RunCandidateReady"
        if "s \<in> set (ag_runs ag')" "run_work_item_id s = run_work_item_id r" for s
        using that(1) unfolding new(2)
      proof (cases rule: settle_run_cases)
        case other
        have "\<not> active_run s" using finish(1) other(1) that(2) by (auto simp: candidate_done_def)
        with only_one(2) [OF ok r(1) other(1)] r(2) other that(2) show ?thesis by metis
      qed (simp add: active_run_def)
      then show "item_coherent (settle_run (run_id r) RunSettled (run_revision r + 1) (ag_runs ag)) (k\<lparr>wi_state := t\<rparr>)"
        using finish(2) k(2) unfolding item_coherent_def new(2) [symmetric] by auto
    qed (use settle_run_other [OF r(1) ids] in auto)
  qed
qed

end
