(* ===== verification/Work_Promises.thy ===== *)
theory Work_Promises
  imports Work_Machine
begin

text \<open>What the users of the work aggregate can rely on, whatever operations were made on it.\<close>

section \<open>Finished work stays finished\<close>

text \<open>Nothing is forgotten: runs keep their identity and, once ended, stay ended; items that are done stay done.\<close>

definition work_kept :: "work_run_aggregate \<Rightarrow> work_run_aggregate \<Rightarrow> bool" where
  "work_kept ag ag' \<longleftrightarrow>
     (\<forall>r \<in> set (ag_runs ag). \<exists>r' \<in> set (ag_runs ag'). run_id r' = run_id r \<and> run_work_item_id r' = run_work_item_id r
        \<and> (\<not> active_run r \<longrightarrow> \<not> active_run r'))
     \<and> (\<forall>i \<in> set (ag_items ag). \<exists>i' \<in> set (ag_items ag'). item_core i' = item_core i \<and> (wi_state i = ItemDone \<longrightarrow> wi_state i' = ItemDone))"

lemma work_kept_refl: "work_kept ag ag"
  unfolding work_kept_def by blast

lemma work_kept_trans: "work_kept a b \<Longrightarrow> work_kept b c \<Longrightarrow> work_kept a c"
  unfolding work_kept_def by (intro conjI ballI; metis)

lemma item_core_set: "item_core (i\<lparr>wi_state := t\<rparr>) = item_core i"
  by (simp add: item_core_def)

lemma set_item_kept:
  assumes "i \<in> set items" and "\<And>k. k \<in> set items \<Longrightarrow> wi_id k = x \<Longrightarrow> wi_state k \<noteq> ItemDone"
  shows "\<exists>i' \<in> set (set_item x t items). item_core i' = item_core i \<and> (wi_state i = ItemDone \<longrightarrow> wi_state i' = ItemDone)"
proof (cases "wi_id i = x")
  case True
  then have "i\<lparr>wi_state := t\<rparr> \<in> set (set_item x t items)" using assms(1) by (auto simp: mem_set_item)
  then show ?thesis using assms True item_core_set by metis
next
  case False
  then have "i \<in> set (set_item x t items)" using assms(1) by (auto simp: mem_set_item)
  then show ?thesis by blast
qed

lemma settle_run_kept:
  assumes "r \<in> set runs" and "st \<notin> {RunLeased, RunRunning}"
  shows "\<exists>r' \<in> set (settle_run x st v runs). run_id r' = run_id r \<and> run_work_item_id r' = run_work_item_id r
    \<and> (\<not> active_run r \<longrightarrow> \<not> active_run r')"
proof -
  let ?r = "if run_id r = x then r\<lparr>run_state := st, run_revision := v\<rparr> else r"
  have "?r \<in> set (settle_run x st v runs)" using assms(1) by (auto simp: mem_settle_run)
  then show ?thesis using assms(2) by (intro bexI [of _ ?r]) (auto simp: active_run_def)
qed

text \<open>The item a step works on is not done.\<close>

lemma worked_item:
  assumes inv: "work_inv cal ag" and step: "work_step cal ag op = Inr ag'"
  obtains x t where "ag_items ag' = set_item x t (ag_items ag)" "\<forall>k \<in> set (ag_items ag). wi_id k = x \<longrightarrow> wi_state k \<noteq> ItemDone"
  | "ag_items ag' = ag_items ag"
proof -
  have ok: "aggregate_ok cal ag" and coh: "\<And>i. i \<in> set (ag_items ag) \<Longrightarrow> item_coherent (ag_runs ag) i"
    using inv by (simp_all add: work_inv_def)
  note unique = ok_distinct(4) [OF ok]
  from step ok show thesis
  proof (cases rule: work_step_cases)
    case (append r)
    then have "ag_items ag' = set_item (run_work_item_id r) ItemInProgress (ag_items ag)" by (simp add: writer_appended_def)
    moreover have "\<exists>i \<in> set (ag_items ag). wi_id i = run_work_item_id r \<and> wi_state i \<noteq> ItemDone"
      using append(1) by (auto simp: writer_appended_def runnable_iff)
    ultimately show thesis using unique by (intro that(1)) (auto, metis)
  next
    case (settle r st t)
    then have "ag_items ag' = set_item (run_work_item_id r) t (ag_items ag)" by (simp add: writer_settled_def)
    moreover have "\<exists>i \<in> set (ag_items ag). wi_id i = run_work_item_id r \<and> wi_state i \<noteq> ItemDone"
      using settle by (auto simp: writer_settled_def)
    ultimately show thesis using unique by (intro that(1)) (auto, metis)
  next
    case (finish r t)
    then have "ag_items ag' = set_item (run_work_item_id r) t (ag_items ag)" "r \<in> set (ag_runs ag)" "run_state r = RunCandidateReady"
      by (simp_all add: candidate_done_def)
    moreover from this(2,3) have "wi_state k = ItemCandidateReady" if "k \<in> set (ag_items ag)" "wi_id k = run_work_item_id r" for k
      using coh [OF that(1)] that(2) by (auto simp: item_coherent_def)
    ultimately show thesis by (intro that(1)) auto
  qed (auto simp: verifier_appended_def verifier_settled_def intro: that(2))
qed

lemma work_step_kept:
  assumes inv: "work_inv cal ag" and step: "work_step cal ag op = Inr ag'"
  shows "work_kept ag ag'"
proof -
  have ok: "aggregate_ok cal ag" using inv by (simp add: work_inv_def)
  have "\<exists>i' \<in> set (ag_items ag'). item_core i' = item_core i \<and> (wi_state i = ItemDone \<longrightarrow> wi_state i' = ItemDone)"
    if "i \<in> set (ag_items ag)" for i
    using inv step by (cases rule: worked_item) (use set_item_kept [OF that] that in auto)
  moreover have "\<exists>r' \<in> set (ag_runs ag'). run_id r' = run_id r \<and> run_work_item_id r' = run_work_item_id r
      \<and> (\<not> active_run r \<longrightarrow> \<not> active_run r')" if r: "r \<in> set (ag_runs ag)" for r
    using step ok
  proof (cases rule: work_step_cases)
    case (settle s st t)
    then have "ag_runs ag' = settle_run (run_id s) st (run_revision s + 1) (ag_runs ag)" "st \<notin> {RunLeased, RunRunning}"
      by (auto simp: writer_settled_def)
    then show ?thesis using settle_run_kept [OF r] by simp
  next
    case (verified s st)
    then have "ag_runs ag' = settle_run (run_id s) st (run_revision s + 1) (ag_runs ag)" "st \<notin> {RunLeased, RunRunning}"
      by (auto simp: verifier_settled_def)
    then show ?thesis using settle_run_kept [OF r] by simp
  next
    case (finish s t)
    then have "ag_runs ag' = settle_run (run_id s) RunSettled (run_revision s + 1) (ag_runs ag)" by (simp add: candidate_done_def)
    then show ?thesis using settle_run_kept [OF r] by simp
  qed (use r in \<open>auto simp: writer_appended_def verifier_appended_def\<close>)
  ultimately show ?thesis by (simp add: work_kept_def)
qed

interpretation work: preordered_machine "work_step cal" "work_inv cal" work_kept for cal
proof
  fix s t u op
  show "work_kept s s" by (rule work_kept_refl)
  show "work_kept s t \<Longrightarrow> work_kept t u \<Longrightarrow> work_kept s u" by (rule work_kept_trans)
  assume inv: "work_inv cal s" and step: "work_step cal s op = Inr t"
  show "work_inv cal t" using work_step_ok [OF inv step] work_step_coherent [OF inv step] by (simp add: work_inv_def)
  show "work_kept s t" by (rule work_step_kept [OF inv step])
qed

section \<open>Dependencies and attempts\<close>

definition started_ok :: "work_run_aggregate \<Rightarrow> bool" where
  "started_ok ag \<longleftrightarrow> (\<forall>r \<in> set (ag_runs ag). \<forall>i \<in> set (ag_items ag). wi_id i = run_work_item_id r \<longrightarrow>
     (\<forall>d \<in> set (wi_depends_on i). dependency_done (ag_items ag) d))"

definition attempts_of :: "work_run_aggregate \<Rightarrow> string \<Rightarrow> int list" where
  "attempts_of ag job = map run_attempt (filter (\<lambda>r. run_execution_job_id r = job) (ag_runs ag))"

definition attempts_ok :: "work_run_aggregate \<Rightarrow> bool" where
  "attempts_ok ag \<longleftrightarrow> (\<forall>job. attempts_of ag job = map int [1 ..< Suc (length (attempts_of ag job))])"

lemma done_kept:
  assumes "work_kept ag ag'" and "dependency_done (ag_items ag) d"
  shows "dependency_done (ag_items ag') d"
proof -
  from assms(2) obtain i where i: "i \<in> set (ag_items ag)" "wi_id i = d" "wi_state i = ItemDone"
    by (auto simp: dependency_done_def list_ex_iff)
  with assms(1) obtain i' where "i' \<in> set (ag_items ag')" "item_core i' = item_core i" "wi_state i' = ItemDone"
    unfolding work_kept_def by blast
  with i(2) item_core_fields(1) show ?thesis unfolding dependency_done_def list_ex_iff by metis
qed

lemma step_items:
  assumes "work_inv cal ag" and "work_step cal ag op = Inr ag'" and "i' \<in> set (ag_items ag')"
  shows "\<exists>i \<in> set (ag_items ag). item_core i' = item_core i"
  using assms(1,2)
  by (cases rule: worked_item) (use assms(3) core_map(3) [OF set_item_core] in auto)

lemma step_runs:
  assumes "aggregate_ok cal ag" and "work_step cal ag op = Inr ag'"
  obtains r where "ag_runs ag' = ag_runs ag @ [r]"
      "(\<exists>i \<in> set (ag_items ag). wi_id i = run_work_item_id r \<and> work_item_is_runnable i (ag_items ag))
        \<or> (\<exists>e \<in> set (ag_runs ag). run_work_item_id e = run_work_item_id r)"
      "run_attempt r = last_attempt (ag_runs ag) (run_execution_job_id r) + 1"
  | x st v where "ag_runs ag' = settle_run x st v (ag_runs ag)"
  using assms(2,1)
proof (cases rule: work_step_cases)
  case (append r)
  then show thesis by (intro that(1) [of r]) (auto simp: writer_appended_def)
next
  case (verify r)
  then have "filter (\<lambda>e. run_execution_job_id e = run_execution_job_id r) (ag_runs ag) = []"
    by (auto simp: verifier_appended_def filter_empty_conv)
  with verify show thesis by (intro that(1) [of r]) (auto simp: verifier_appended_def last_attempt_def)
next
  case (settle r st t)
  then show thesis by (intro that(2)) (simp add: writer_settled_def)
next
  case (verified r st)
  then show thesis by (intro that(2)) (simp add: verifier_settled_def)
next
  case (finish r t)
  then show thesis by (intro that(2)) (simp add: candidate_done_def)
qed

lemma work_step_started:
  assumes inv: "work_inv cal ag" and started: "started_ok ag" and step: "work_step cal ag op = Inr ag'"
  shows "started_ok ag'"
  unfolding started_ok_def
proof (intro ballI impI)
  fix r' i' d
  assume r': "r' \<in> set (ag_runs ag')" and i': "i' \<in> set (ag_items ag')" "wi_id i' = run_work_item_id r'"
    and d: "d \<in> set (wi_depends_on i')"
  have ok: "aggregate_ok cal ag" using inv by (simp add: work_inv_def)
  obtain i where i: "i \<in> set (ag_items ag)" "item_core i' = item_core i" using step_items [OF inv step i'(1)] by blast
  note same = item_core_fields(1,3) [OF i(2)]
  from ok step have "(\<exists>r \<in> set (ag_runs ag). run_work_item_id r = run_work_item_id r')
      \<or> (\<exists>k \<in> set (ag_items ag). wi_id k = run_work_item_id r' \<and> work_item_is_runnable k (ag_items ag))"
  proof (cases rule: step_runs)
    case (1 r)
    with r' show ?thesis by auto
  next
    case (2 x st v)
    from r' 2 obtain r where "r \<in> set (ag_runs ag)" "r' = (if run_id r = x then r\<lparr>run_state := st, run_revision := v\<rparr> else r)"
      by (auto simp: mem_settle_run)
    then show ?thesis by (intro disjI1 bexI [of _ r]) simp_all
  qed
  then have "dependency_done (ag_items ag) d"
  proof
    assume "\<exists>r \<in> set (ag_runs ag). run_work_item_id r = run_work_item_id r'"
    with started i(1) same i'(2) d show ?thesis unfolding started_ok_def by metis
  next
    assume "\<exists>k \<in> set (ag_items ag). wi_id k = run_work_item_id r' \<and> work_item_is_runnable k (ag_items ag)"
    then obtain k where k: "k \<in> set (ag_items ag)" "wi_id k = run_work_item_id r'" "work_item_is_runnable k (ag_items ag)" by blast
    with ok_distinct(4) [OF ok k(1) i(1)] same(1) i'(2) have "k = i" by simp
    with k(3) same(2) d show ?thesis by (simp add: runnable_iff)
  qed
  then show "dependency_done (ag_items ag') d" by (rule done_kept [OF work_step_kept [OF inv step]])
qed

lemma Max_attempts: "0 < n \<Longrightarrow> Max (set (map int [1 ..< Suc n])) = int n"
proof -
  assume "0 < n"
  then have "int n \<in> set (map int [1 ..< Suc n])" and "\<And>x. x \<in> set (map int [1 ..< Suc n]) \<Longrightarrow> x \<le> int n" by auto
  then show ?thesis by (intro Max_eqI) auto
qed

lemma settle_run_attempts:
  "map run_attempt (filter (\<lambda>r. run_execution_job_id r = job) (settle_run x st v runs))
     = map run_attempt (filter (\<lambda>r. run_execution_job_id r = job) runs)"
  by (induction runs) (auto simp: settle_run_def)

lemma work_step_attempts:
  assumes ok: "aggregate_ok cal ag" and attempts: "attempts_ok ag" and step: "work_step cal ag op = Inr ag'"
  shows "attempts_ok ag'"
  using ok step
proof (cases rule: step_runs)
  case (1 r)
  let ?job = "run_execution_job_id r"
  have now: "attempts_of ag ?job = map int [1 ..< Suc (length (attempts_of ag ?job))]" using attempts by (simp add: attempts_ok_def)
  have "last_attempt (ag_runs ag) ?job = int (length (attempts_of ag ?job))"
  proof (cases "attempts_of ag ?job = []")
    case False
    then have "Max (set (attempts_of ag ?job)) = int (length (attempts_of ag ?job))"
      using Max_attempts [of "length (attempts_of ag ?job)"] now by (metis length_greater_0_conv)
    with False show ?thesis by (simp add: last_attempt_def attempts_of_def)
  qed (simp add: last_attempt_def attempts_of_def)
  define n where "n = length (attempts_of ag ?job)"
  have "attempts_of ag' ?job = attempts_of ag ?job @ [run_attempt r]" using 1(1) by (simp add: attempts_of_def)
  also have "attempts_of ag ?job = map int [1 ..< Suc n]" using now unfolding n_def .
  also have "run_attempt r = int (Suc n)"
    using 1(3) \<open>last_attempt (ag_runs ag) ?job = int (length (attempts_of ag ?job))\<close> by (simp add: n_def)
  finally have "attempts_of ag' ?job = map int [1 ..< Suc (Suc n)]" by simp
  moreover from this have "length (attempts_of ag' ?job) = Suc n" by simp
  moreover have "attempts_of ag' job = attempts_of ag job" if "job \<noteq> ?job" for job using 1(1) that by (simp add: attempts_of_def)
  ultimately show ?thesis using attempts unfolding attempts_ok_def by metis
next
  case (2 x st v)
  have "attempts_of ag' job = attempts_of ag job" for job
    unfolding attempts_of_def 2 by (rule settle_run_attempts)
  with attempts show ?thesis by (simp add: attempts_ok_def)
qed

definition work_ready :: "calendar \<Rightarrow> work_run_aggregate \<Rightarrow> bool" where
  "work_ready cal ag \<longleftrightarrow> work_inv cal ag \<and> started_ok ag \<and> attempts_ok ag"

interpretation ready: fallible_machine "work_step cal" "work_ready cal" for cal
proof
  fix s op t
  assume "work_ready cal s" and step: "work_step cal s op = Inr t"
  then have s: "work_inv cal s" "started_ok s" "attempts_ok s" "aggregate_ok cal s" by (simp_all add: work_ready_def work_inv_def)
  show "work_ready cal t"
    using work.step_inv [OF s(1) step] work_step_started [OF s(1,2) step] work_step_attempts [OF s(4,3) step]
    by (simp add: work_ready_def)
qed

lemma fresh_ready:
  assumes "validate_aggregate cal ag = Inr ()" and "ag_runs ag = []"
    and "\<forall>i \<in> set (ag_items ag). wi_state i \<notin> {ItemInProgress, ItemCandidateReady}"
  shows "work_ready cal ag"
  using assms by (auto simp: work_ready_def work_inv_def item_coherent_def started_ok_def attempts_ok_def attempts_of_def)

section \<open>Theorems\<close>

text \<open>
  C30. The dependency check of the aggregate decides what it means to: for items with distinct identities, the
  loop of \<^verbatim>\<open>acyclic_items\<close> ends, and answers true exactly when every dependency names an item and no item
  depends on itself through any chain of others.
\<close>

theorem acyclic_items_spec:
  assumes "distinct (map wi_id items)"
  shows "acyclic_items items
    \<longleftrightarrow> (\<forall>i \<in> set items. set (wi_depends_on i) \<subseteq> wi_id ` set items) \<and> acyclic (dep_rel items)"
  using acyclic_items_iff [OF assms] .



text \<open>
  The attempts of a job are numbered from one without gaps, in the order in which they were appended.
\<close>

theorem attempts_consecutive:
  assumes "validate_aggregate cal ag0 = Inr ()" and "ag_runs ag0 = []"
    and "\<forall>i \<in> set (ag_items ag0). wi_state i \<notin> {ItemInProgress, ItemCandidateReady}"
    and "ag = run_ops (work_step cal) ag0 ops"
  shows "attempts_of ag job = map int [1 ..< Suc (length (attempts_of ag job))]"
  using ready.run_inv [OF fresh_ready [OF assms(1-3)]] assms(4) by (simp add: work_ready_def attempts_ok_def)

text \<open>
  C23. An outcome is settled once. After a terminal outcome has been settled, on either path, the same outcome is
  refused on both, whatever has happened to the aggregate in between.
\<close>

theorem settled_once:
  assumes "validate_aggregate cal ag0 = Inr ()" and "ag_runs ag0 = []"
    and "\<forall>i \<in> set (ag_items ag0). wi_state i \<notin> {ItemInProgress, ItemCandidateReady}"
    and "ag = run_ops (work_step cal) ag0 ops"
    and settled: "settle_verified_outcome cal ag v = Inr ag' \<or> settle_verification_outcome cal ag v = Inr ag'"
    and "later = run_ops (work_step cal) ag' ops'"
  shows "settle_verified_outcome cal later v = Inl StaleWorkItem \<and> settle_verification_outcome cal later v = Inl StaleWorkItem"
proof -
  have inv: "work_inv cal ag" using ready.run_inv [OF fresh_ready [OF assms(1-3)]] assms(4) by (simp add: work_ready_def)
  obtain op where step: "work_step cal ag op = Inr ag'"
    using settled by (metis map_err_Inr_iff work_step.simps(3,4))
  have inv': "work_inv cal ag'" by (rule work.step_inv [OF inv step])
  from settled obtain r st v' where r: "r \<in> set (ag_runs ag)" "run_id r = vt_work_run_id v"
    and ag': "ag_runs ag' = settle_run (run_id r) st v' (ag_runs ag)" and st: "st \<notin> {RunLeased, RunRunning}"
  proof
    assume "settle_verified_outcome cal ag v = Inr ag'"
    from settle_verified_outcome_does [OF this] obtain r st t where "run_id r = vt_work_run_id v" "writer_settled ag r st t ag'" by blast
    then show thesis by (intro that [of r st "run_revision r + 1"]) (auto simp: writer_settled_def)
  next
    assume "settle_verification_outcome cal ag v = Inr ag'"
    from settle_verification_outcome_does [OF this] obtain r st where "run_id r = vt_work_run_id v" "verifier_settled ag r st ag'" by blast
    then show thesis by (intro that [of r st "run_revision r + 1"]) (auto simp: verifier_settled_def)
  qed
  let ?r = "r\<lparr>run_state := st, run_revision := v'\<rparr>"
  have "?r \<in> set (ag_runs ag')" unfolding ag' mem_settle_run using r(1) by (intro bexI [of _ r]) simp_all
  moreover have "\<not> active_run ?r" using st by (simp add: active_run_def)
  moreover have kept: "work_kept ag' later" using work.run_le [OF inv'] assms(6) by simp
  ultimately obtain s where s: "s \<in> set (ag_runs later)" "run_id s = vt_work_run_id v" "\<not> active_run s"
    using r(2) unfolding work_kept_def by force
  have ok: "aggregate_ok cal later" using work.run_inv [OF inv'] assms(6) by (simp add: work_inv_def)
  have valid: "validate_aggregate cal later = Inr ()" using ok by simp
  have find: "find (\<lambda>r. run_id r = vt_work_run_id v) (ag_runs later) = Some s" using s ok_find(2) [OF ok] by simp
  have "rbind (from_verified s v) (settle_fact later) = Inl StaleWorkItem"
    using s find by (auto simp: from_verified_def Let_def settle_fact_def)
  moreover have "from_verified s v = Inl StaleWorkItem \<or> (\<exists>tf. from_verified s v = Inr tf)"
    by (auto simp: from_verified_def Let_def)
  ultimately show ?thesis
    using s(3) unfolding settle_verified_outcome_def settle_verification_outcome_def valid find by auto
qed

text \<open>
  Completing a candidate is all or nothing: when it reports an error, the aggregate is as it was, although the
  code changes it in place before the last validation.
\<close>

theorem complete_candidate_atomic:
  "case complete_candidate cal ag x of
     (Inl _, ag') \<Rightarrow> ag' = ag
   | (Inr _, ag') \<Rightarrow> validate_aggregate cal ag' = Inr ()
       \<and> (\<exists>r. r \<in> set (ag_runs ag) \<and> run_id r = x \<and> run_state r = RunCandidateReady
            \<and> dependency_done (ag_items ag') (run_work_item_id r))"
proof -
  note cases = complete_candidate_does [of cal ag x]
  have "validate_aggregate cal ag' = Inr () \<and> (\<exists>r. r \<in> set (ag_runs ag) \<and> run_id r = x \<and> run_state r = RunCandidateReady
            \<and> dependency_done (ag_items ag') (run_work_item_id r))"
    if ok: "aggregate_ok cal ag" and r: "run_id r = x" "candidate_done ag r ItemDone ag'" and i: "i \<in> set (ag_items ag)" "wi_id i = run_work_item_id r"
    for r ag' i
  proof -
    have "i\<lparr>wi_state := ItemDone\<rparr> \<in> set (ag_items ag')" using r(2) i by (auto simp: candidate_done_def mem_set_item)
    then have "dependency_done (ag_items ag') (run_work_item_id r)" using i(2) unfolding dependency_done_def list_ex_iff by (intro bexI) simp_all
    with candidate_done_ok [OF ok r(2)] r show ?thesis by (auto simp: candidate_done_def)
  qed
  with cases show ?thesis by auto
qed

lemma runnable_exists:
  assumes ok: "aggregate_ok cal ag" and states: "\<And>i. i \<in> set (ag_items ag) \<Longrightarrow> wi_state i \<in> {ItemDone, ItemReady, ItemWaitingDependency}"
    and k: "k \<in> set (ag_items ag)" "wi_state k \<noteq> ItemDone"
  shows "\<exists>i \<in> set (ag_items ag). work_item_is_runnable i (ag_items ag)"
proof -
  let ?open = "wi_id ` {i \<in> set (ag_items ag). wi_state i \<noteq> ItemDone}"
  have acyclic: "acyclic (dep_rel (ag_items ag))" and closed: "\<forall>i \<in> set (ag_items ag). set (wi_depends_on i) \<subseteq> wi_id ` set (ag_items ag)"
    using ok acyclic_items_iff [OF ok_distinct(1) [OF ok]] by (simp_all add: aggregate_ok_def)
  have "wf (dep_rel (ag_items ag))" using finite_dep_rel acyclic by (rule finite_acyclic_wf)
  then obtain z where z: "z \<in> ?open" and least: "\<And>y. (y, z) \<in> dep_rel (ag_items ag) \<Longrightarrow> y \<notin> ?open"
    using wfE_min [of _ "wi_id k" ?open] k by blast
  then obtain i where i: "i \<in> set (ag_items ag)" "wi_id i = z" "wi_state i \<noteq> ItemDone" by auto
  have "dependency_done (ag_items ag) d" if d: "d \<in> set (wi_depends_on i)" for d
  proof -
    have "(d, z) \<in> dep_rel (ag_items ag)" using i d by (auto simp: dep_rel_def)
    then have "d \<notin> ?open" by (rule least)
    moreover have "d \<in> wi_id ` set (ag_items ag)" using closed i(1) d by blast
    ultimately show ?thesis by (auto simp: dependency_done_def list_ex_iff)
  qed
  then have "work_item_is_runnable i (ag_items ag)" using states [OF i(1)] i(3) by (auto simp: runnable_iff)
  with i(1) show ?thesis by blast
qed

lemma find_exists: "x \<in> set xs \<Longrightarrow> P x \<Longrightarrow> \<exists>y. find P xs = Some y"
  by (induction xs) auto


section \<open>Witnesses\<close>

text \<open>A contract of two items, the second after the first, which is done; and a run on the second.\<close>

definition sample_id :: "string \<Rightarrow> char \<Rightarrow> string" where
  "sample_id prefix c = prefix @ replicate 25 (CHR ''0'') @ [c]"

definition any_calendar :: calendar where
  "any_calendar = \<lparr>cal_date = (\<lambda>_ _ _. True), cal_time = (\<lambda>_ _ _ _. True)\<rparr>"

definition sample_contract :: work_contract where
  "sample_contract = \<lparr>ct_constraints = [], ct_created_at = ''2026-01-01T00:00:00.000Z'',
     ct_criteria = [\<lparr>wc_description = ''d'', wc_id = sample_id ''crt_'' (CHR ''1''), wc_required = True,
       wc_required_evidence_class = ''machine'', wc_verification_method = None\<rparr>],
     ct_id = sample_id ''wct_'' (CHR ''1''), ct_objective = ''o'', ct_protected_scope = [],
     ct_required_human_authority = ''none'', ct_revision = 1, ct_schema_version = 1, ct_scope = []\<rparr>"

definition sample_item :: "char \<Rightarrow> string list \<Rightarrow> work_item_state \<Rightarrow> work_item" where
  "sample_item c deps st = \<lparr>wi_criterion_ids = [sample_id ''crt_'' (CHR ''1'')], wi_depends_on = deps, wi_goal = ''g'',
     wi_id = sample_id ''wit_'' c, wi_revision = 1, wi_schema_version = 1, wi_state = st, wi_title = ''t'',
     wi_work_contract_id = sample_id ''wct_'' (CHR ''1''), wi_work_contract_revision = 1\<rparr>"

definition sample_run :: "work_run_state \<Rightarrow> int \<Rightarrow> work_run" where
  "sample_run st v = \<lparr>run_attempt = 1, run_candidate_digest = None, run_codex_thread_id = None, run_contract_revision = 1,
     run_execution_job_id = sample_id ''job_'' (CHR ''1''), run_fencing_token = ''1'', run_id = sample_id ''wrn_'' (CHR ''1''),
     run_lease_id = sample_id ''lse_'' (CHR ''1''), run_product_session_id = None, run_revision = v, run_schema_version = 1,
     run_state = st, run_work_contract_id = sample_id ''wct_'' (CHR ''1''), run_worker_id = sample_id ''wrk_'' (CHR ''1''),
     run_worker_instance_id = sample_id ''wki_'' (CHR ''1''), run_worker_session_id = sample_id ''wsn_'' (CHR ''1''),
     run_work_item_id = sample_id ''wit_'' (CHR ''2''), run_work_item_revision = 1\<rparr>"

definition sample_aggregate :: "work_item_state \<Rightarrow> work_run list \<Rightarrow> work_run_aggregate" where
  "sample_aggregate st runs = \<lparr>ag_schema_version = 1, ag_contract = sample_contract,
     ag_items = [sample_item (CHR ''1'') [] ItemDone, sample_item (CHR ''2'') [sample_id ''wit_'' (CHR ''1'')] st],
     ag_runs = runs\<rparr>"

definition sample_outcome :: verified_terminal_outcome where
  "sample_outcome = \<lparr>vt_work_run_id = sample_id ''wrn_'' (CHR ''1''),
     vt_lease_identity = \<lparr>al_execution_job_id = sample_id ''job_'' (CHR ''1''), al_attempt = 1,
       al_lease_id = sample_id ''lse_'' (CHR ''1''), al_fencing_token = ''1'', al_worker_id = sample_id ''wrk_'' (CHR ''1''),
       al_worker_instance_id = sample_id ''wki_'' (CHR ''1''), al_worker_session_id = sample_id ''wsn_'' (CHR ''1'')\<rparr>,
     vt_status = OutcomeOk,
     vt_metadata = \<lparr>tm_codex_thread_id = None, tm_finished_at_millis = 1, tm_last_event_sequence = 0, tm_artifacts = []\<rparr>\<rparr>"

lemma sample_id_canonical [simp]:
  "is_canonical_prefixed_id (sample_id p (CHR ''1'')) p" "is_canonical_prefixed_id (sample_id p (CHR ''2'')) p"
  by (simp_all add: is_canonical_prefixed_id_def sample_id_def strip_prefix_def list_all_iff crockford_byte_def is_ascii_digit_def byte_def)

lemma sample_id_eq [simp]: "sample_id p c = sample_id p d \<longleftrightarrow> c = d"
  by (simp add: sample_id_def)

lemma bounded_short [simp]: "chars_count v \<noteq> 0 \<Longrightarrow> length v \<le> n \<Longrightarrow> bounded_chars v (Suc 0) n"
  using chars_count_le_length [of v] by (simp add: bounded_chars_def)

lemma sample_contract_ok: "\<not> invalid_contract any_calendar sample_contract"
  by (simp add: invalid_contract_def sample_contract_def valid_revision_def chars_count_def is_continuation_byte_def byte_def
      valid_text_list_def valid_created_at_def number_at_def is_ascii_digit_def any_calendar_def)

lemma sample_items_ok:
  "acyclic_items (ag_items (sample_aggregate st runs))"
  "distinct (map wi_id (ag_items (sample_aggregate st runs)))"
  "list_all (\<lambda>i. \<not> invalid_item sample_contract (ag_items (sample_aggregate st runs)) i) (ag_items (sample_aggregate st runs))"
  by (simp_all add: sample_aggregate_def sample_item_def acyclic_items_def invalid_item_def sample_contract_def valid_revision_def
    chars_count_def is_continuation_byte_def byte_def)

lemma sample_run_ok: "valid_revision v \<Longrightarrow> run_valid (sample_aggregate st runs) (sample_run rst v)"
  by (simp add: run_valid_def invalid_run_def sample_aggregate_def sample_run_def sample_item_def
        sample_contract_def invalid_run_fields_def is_ascii_digit_def byte_def valid_revision_def)

lemma sample_ok:
  assumes "runs = [] \<or> runs = [sample_run rst v]" and "valid_revision v"
  shows "validate_aggregate any_calendar (sample_aggregate st runs) = Inr ()"
proof -
  have "ag_runs (sample_aggregate st runs) = runs" "ag_contract (sample_aggregate st runs) = sample_contract"
    "length (ag_items (sample_aggregate st runs)) = 2" "distinct (map wc_id (ct_criteria sample_contract))"
    by (simp_all add: sample_aggregate_def sample_contract_def)
  moreover have "runs_valid (sample_aggregate st runs)"
    using assms sample_run_ok [of v st runs rst] \<open>ag_runs (sample_aggregate st runs) = runs\<close> by (auto simp: runs_valid_def)
  ultimately show ?thesis
    using sample_items_ok [of st runs] sample_contract_ok assms(1)
    by (auto simp: aggregate_ok_def list_all_iff)
qed

lemma sample_append:
  "append_run any_calendar (sample_aggregate ItemReady []) (sample_run RunRunning 1)
     = Inr (sample_aggregate ItemInProgress [sample_run RunRunning 1])"
proof -
  have "validate_aggregate any_calendar (sample_aggregate ItemReady []) = Inr ()"
    "validate_aggregate any_calendar (sample_aggregate ItemInProgress [sample_run RunRunning 1]) = Inr ()"
    by (rule sample_ok [of _ RunRunning 1]; simp add: valid_revision_def)+
  then show ?thesis
    unfolding append_run_def append_run_mode_def
    by (simp add: sample_aggregate_def sample_item_def sample_contract_def sample_run_def active_run_def ensure_def
        work_item_is_runnable_def effective_work_item_state_def dependency_done_def last_attempt_def i64_checked_add_def
        transition_item_state_def Let_def del: validate_iff)
qed

lemma sample_settle:
  "settle_verified_outcome any_calendar (sample_aggregate ItemInProgress [sample_run RunRunning 1]) sample_outcome
     = Inr (sample_aggregate ItemCandidateReady [sample_run RunCandidateReady 2])"
proof -
  have "validate_aggregate any_calendar (sample_aggregate ItemInProgress [sample_run RunRunning 1]) = Inr ()"
    by (rule sample_ok [of _ RunRunning 1]) (simp_all add: valid_revision_def)
  then show ?thesis
    unfolding settle_verified_outcome_def
    by (simp add: sample_aggregate_def sample_item_def sample_run_def sample_outcome_def active_run_def from_verified_def
        settle_fact_def transition_item_state_def set_run_def u64_try_from_def i64_checked_add_def Let_def del: validate_iff)
qed

lemma sample_fresh:
  "validate_aggregate any_calendar (sample_aggregate ItemReady []) = Inr ()"
  "ag_runs (sample_aggregate ItemReady []) = []"
  "\<forall>i \<in> set (ag_items (sample_aggregate ItemReady [])). wi_state i \<notin> {ItemInProgress, ItemCandidateReady}"
proof -
  show "validate_aggregate any_calendar (sample_aggregate ItemReady []) = Inr ()"
    by (rule sample_ok [of _ RunRunning 1]) (simp_all add: valid_revision_def)
qed (simp_all add: sample_aggregate_def sample_item_def)

definition sample_ops :: "work_op list" where
  "sample_ops = [AppendRunOp (sample_run RunRunning 1)]"

lemma sample_started:
  "sample_aggregate ItemInProgress [sample_run RunRunning 1]
     = run_ops (work_step any_calendar) (sample_aggregate ItemReady []) sample_ops"
  by (simp add: sample_ops_def sample_append map_err_def)

lemma sample_mem:
  "sample_item (CHR ''2'') [sample_id ''wit_'' (CHR ''1'')] st \<in> set (ag_items (sample_aggregate st runs))"
  "sample_run rst v \<in> set (ag_runs (sample_aggregate st [sample_run rst v]))"
  "wi_id (sample_item (CHR ''2'') deps st) = run_work_item_id (sample_run rst v)"
  by (simp_all add: sample_aggregate_def sample_item_def sample_run_def)



theorem settled_once_witness:
  "settle_verified_outcome any_calendar
     (run_ops (work_step any_calendar) (sample_aggregate ItemCandidateReady [sample_run RunCandidateReady 2])
       [CompleteOp (sample_id ''wrn_'' (CHR ''1''))]) sample_outcome = Inl StaleWorkItem"
  using settled_once [OF sample_fresh sample_started disjI1 [OF sample_settle] refl] by blast


theorem acyclic_items_spec_witness:
  "acyclic (dep_rel (ag_items (sample_aggregate ItemReady [])))"
  using acyclic_items_spec [OF sample_items_ok(2) [of ItemReady "[]"]] sample_items_ok(1) [of ItemReady "[]"] by blast

end
