(* ===== verification/Delivery_Sample.thy ===== *)
theory Delivery_Sample
  imports Delivery_Support Work_Promises
begin

text \<open>
  A small delivery on which the promises of deliveries are evaluated: it is accepted, and its verdict is computed.
\<close>

section \<open>A sample delivery\<close>

text \<open>One criterion, one finished run that is both the producer and the reviewer of the candidate, one test.\<close>

definition sample_env :: verdict_env where
  "sample_env = \<lparr>de_calendar = any_calendar, de_sha256 = (\<lambda>_. replicate 32 (CHR 0x00)), de_identities_json = (\<lambda>_. Some []),
     ce_code_json = (\<lambda>_. Inr []), ce_identity_json = (\<lambda>_. Inr []), ve_delivery_json = (\<lambda>_. Inr []),
     ve_result_json = (\<lambda>_. Inr []), ve_verdict_json = (\<lambda>_. Inr [])\<rparr>"

definition sample_work_run :: work_run where
  "sample_work_run = (sample_run RunSettled 1)\<lparr>run_product_session_id := Some (sample_id ''psn_'' (CHR ''1'')),
     run_codex_thread_id := Some (sample_id ''cdx_'' (CHR ''1''))\<rparr>"

definition sample_binding :: delivery_binding where
  "sample_binding = \<lparr>db_schema_version = 3, db_id = ''b'', db_delivery_id = sample_id ''dlv_'' (CHR ''1''),
     db_work_contract_id = sample_id ''wct_'' (CHR ''1''), db_work_contract_revision = 1,
     db_work_item_id = sample_id ''wit_'' (CHR ''2''), db_work_item_revision = 1, db_work_run_id = sample_id ''wrn_'' (CHR ''1''),
     db_product_session_id = sample_id ''psn_'' (CHR ''1''), db_execution_job_id = sample_id ''job_'' (CHR ''1''),
     db_execution_profile = Some ''executor'',
     db_runtime_context = Some \<lparr>sr_agent_identity = \<lparr>sa_id = ''agt_1'', sa_worker_id = sample_id ''wrk_'' (CHR ''1''),
         sa_name = ''n'', sa_role = ''executor''\<rparr>, sr_provider = ''p'', sr_model = ''m'',
       sr_workspace = \<lparr>sw_repository_id = ''r'', sw_revision = ''git-tree:1'', sw_write_mode = ''candidate''\<rparr>\<rparr>,
     db_worker_session_id = Some (sample_id ''wsn_'' (CHR ''1'')), db_codex_thread_id = Some (sample_id ''cdx_'' (CHR ''1'')),
     db_worker_id = Some (sample_id ''wrk_'' (CHR ''1'')), db_worker_instance_id = Some (sample_id ''wki_'' (CHR ''1'')),
     db_lease_id = Some (sample_id ''lse_'' (CHR ''1'')), db_attempt = 1, db_fencing_token = Some ''1'',
     db_source_provenance = \<lparr>so_kind = FromExecutionPort, so_reference = ''m''\<rparr>, db_bound_at_millis = 0\<rparr>"

definition sample_criterion :: "string option \<Rightarrow> acceptance_criterion" where
  "sample_criterion method = \<lparr>ac_schema_version = 3, ac_id = ''k'', ac_description = ''d'', ac_verification_method = method,
     ac_required = True\<rparr>"

definition sample_spec :: "string option \<Rightarrow> delivery_spec" where
  "sample_spec method = \<lparr>sp_schema_version = 3, sp_id = ''s'', sp_delivery_id = sample_id ''dlv_'' (CHR ''1''), sp_revision = 1,
     sp_title = ''t'', sp_goal = ''g'', sp_scope = [''s''], sp_out_of_scope = [], sp_constraints = [],
     sp_acceptance_criteria = [sample_criterion method], sp_source_product_session_id = None, sp_source_ref = None,
     sp_publication_target = None, sp_repository = \<lparr>rr_schema_version = 3, rr_kind = LocalGit, rr_locator = ''l''\<rparr>,
     sp_base_revision = ''b'', sp_max_rework_attempts = 0, sp_created_at_millis = 0\<rparr>"

definition sample_delivery :: "delivery_status \<Rightarrow> evidence_ref list \<Rightarrow> delivery_verdict option \<Rightarrow> delivery_snapshot" where
  "sample_delivery status evidence verdict = \<lparr>ds_schema_version = 3, ds_id = sample_id ''dlv_'' (CHR ''1''), ds_revision = 1,
     ds_status = status, ds_spec = sample_spec (Some ''t''), ds_session_bindings = [sample_binding],
     ds_same_candidate_reverification = None, ds_attention_items = [], ds_evidence = evidence, ds_verdict = verdict,
     ds_created_at_millis = 0, ds_updated_at_millis = 0,
     ds_work_run_aggregate = sample_aggregate ItemDone [sample_work_run]\<rparr>"

definition sample_candidate :: frozen_candidate where
  "sample_candidate = \<lparr>fc_candidate_id = sample_id ''cnd_'' (CHR ''1''), fc_candidate_digest = digest_text (replicate 32 (CHR 0x00)),
     fc_validation_seal = digest_text (replicate 32 (CHR 0x00)), fc_candidate_ref = ''refs/winwincode/candidates/c'',
     fc_delivery_id = sample_id ''dlv_'' (CHR ''1''), fc_delivery_spec_id = ''s'', fc_delivery_spec_revision = 1,
     fc_repository = \<lparr>rr_schema_version = 3, rr_kind = LocalGit, rr_locator = ''l''\<rparr>, fc_base_revision = ''b'',
     fc_producer_work_item_id = None, fc_producer_work_run_id = sample_id ''wrn_'' (CHR ''1''), fc_producer_attempt = 1,
     fc_producer_session_binding_id = ''b'', fc_producer_product_session_id = sample_id ''psn_'' (CHR ''1''),
     fc_producer_execution_job_id = sample_id ''job_'' (CHR ''1''), fc_producer_worker_session_id = sample_id ''wsn_'' (CHR ''1''),
     fc_producer_codex_thread_id = sample_id ''cdx_'' (CHR ''1''), fc_producer_lease_id = sample_id ''lse_'' (CHR ''1''),
     fc_producer_fencing_token = ''1'', fc_producer_worker_id = sample_id ''wrk_'' (CHR ''1''),
     fc_producer_worker_instance_id = sample_id ''wki_'' (CHR ''1''), fc_producer_artifact_ref = [],
     fc_producer_artifact_digest = [], fc_producer_last_event_sequence = 1, fc_producer_finished_at_millis = 0,
     fc_base_commit_id = [], fc_base_tree_id = [], fc_candidate_commit_id = ''c'', fc_candidate_tree_id = [],
     fc_diff_sha256 = [], fc_changed_paths = [], fc_changed_hunks = []\<rparr>"

definition sample_terminal :: accepted_job_outcome where
  "sample_terminal = \<lparr>jo_snapshot_id = sample_id ''snap_'' (CHR ''1''), jo_product_session_id = sample_id ''psn_'' (CHR ''1''),
     jo_work_run_id = sample_id ''wrn_'' (CHR ''1''), jo_role_id = ''reviewer'', jo_execution_job_id = sample_id ''job_'' (CHR ''1''),
     jo_attempt = 1, jo_lease_id = sample_id ''lse_'' (CHR ''1''), jo_fencing_token = ''1'', jo_worker_id = sample_id ''wrk_'' (CHR ''1''),
     jo_worker_instance_id = sample_id ''wki_'' (CHR ''1''), jo_worker_session_id = sample_id ''wsn_'' (CHR ''1''),
     jo_codex_thread_id = sample_id ''cdx_'' (CHR ''1''), jo_last_event_sequence = 1, jo_finished_at_millis = 0,
     jo_status = JobSucceeded, jo_terminal_candidate_tree_id = [], jo_artifacts = []\<rparr>"

definition sample_assignment :: verification_assignment where
  "sample_assignment = \<lparr>va_snapshot_id = sample_id ''snap_'' (CHR ''1''), va_role = RoleReviewer,
     va_work_run_id = sample_id ''wrn_'' (CHR ''1''), va_session_binding_id = ''b'',
     va_product_session_id = sample_id ''psn_'' (CHR ''1''), va_execution_job_id = sample_id ''job_'' (CHR ''1''),
     va_worker_session_id = sample_id ''wsn_'' (CHR ''1''), va_codex_thread_id = sample_id ''cdx_'' (CHR ''1''),
     va_repository = \<lparr>rr_schema_version = 3, rr_kind = LocalGit, rr_locator = ''l''\<rparr>, va_checkout_revision = ''c''\<rparr>"

definition sample_finding :: verification_finding where
  "sample_finding = \<lparr>vf_role = RoleReviewer, vf_finding_ref = ''f'', vf_criterion_id = ''k'', vf_conclusion = FindingPass,
     vf_source_refs = [''e''], vf_result_sequence = 1, vf_source_sequences = [1], vf_explanation = ''x'',
     vf_candidate_ref = ''refs/winwincode/candidates/c''\<rparr>"

definition sample_settlement :: role_settlement where
  "sample_settlement = \<lparr>rs_role = RoleReviewer, rs_state = SessionSettled, rs_assignment = Some sample_assignment,
     rs_findings = [sample_finding], rs_terminal_job_outcome = Some sample_terminal,
     rs_terminal_settlement = Some TerminalIsSettled\<rparr>"

definition sample_verification :: independent_verification where
  "sample_verification = \<lparr>iv_snapshot = (sample_snapshot 0)\<lparr>sn_snapshot_id := sample_id ''snap_'' (CHR ''1'')\<rparr>, iv_candidate_ref = ''refs/winwincode/candidates/c'',
     iv_settlements = [sample_settlement], iv_source_delivery_seal = replicate 32 (CHR 0x00)\<rparr>"

definition sample_reference :: evidence_ref where
  "sample_reference = \<lparr>er_schema_version = 3, er_id = ''v'', er_delivery_id = sample_id ''dlv_'' (CHR ''1''),
     er_delivery_spec_id = ''s'', er_delivery_spec_revision = 1, er_work_run_id = sample_id ''wrn_'' (CHR ''1''),
     er_session_binding_id = ''b'', er_snapshot_id = sample_id ''snap_'' (CHR ''1''), er_candidate_id = sample_id ''cnd_'' (CHR ''1''),
     er_evidence_type = EvidenceTest, er_source_ref = ''e'', er_created_at_millis = 0\<rparr>"

definition sample_resolved :: "evidence_outcome_kind \<Rightarrow> resolved_evidence" where
  "sample_resolved k = \<lparr>re_evidence = sample_reference, re_outcome = k,
     re_source_identity = RuntimeSource \<lparr>ri_execution = terminal_identity sample_terminal, ri_source_sequence = 1,
       ri_terminal_last_event_sequence = 1, ri_candidate_ref = [], ri_checkout_commit_id = [], ri_checkout_tree_id = [],
       ri_command_digest = digest_text (replicate 32 (CHR 0x00))\<rparr>\<rparr>"

definition sample_result :: criterion_result where
  "sample_result = \<lparr>cr_schema_version = 3, cr_id = ''criterion-result:sha256:'' @ hex_text (replicate 32 (CHR 0x00)),
     cr_delivery_id = sample_id ''dlv_'' (CHR ''1''), cr_delivery_spec_id = ''s'', cr_criterion_id = ''k'',
     cr_candidate_ref = ''refs/winwincode/candidates/c'', cr_verdict = VerdictPass, cr_evidence_refs = [''v''],
     cr_explanation = ''reviewer: pass is supported by current direct Evidence'', cr_evaluated_at_millis = 0\<rparr>"

definition sample_verdict :: delivery_verdict where
  "sample_verdict = \<lparr>vd_snapshot_id = sample_id ''snap_'' (CHR ''1''), vd_candidate_id = sample_id ''cnd_'' (CHR ''1''),
     vd_candidate_digest = digest_text (replicate 32 (CHR 0x00)), vd_schema_version = 3,
     vd_id = ''delivery-verdict:sha256:'' @ hex_text (replicate 32 (CHR 0x00)), vd_delivery_id = sample_id ''dlv_'' (CHR ''1''),
     vd_delivery_spec_id = ''s'', vd_candidate_ref = ''refs/winwincode/candidates/c'', vd_status = VerdictPass,
     vd_criteria = [sample_result], vd_unresolved_findings = [], vd_produced_at_millis = 0\<rparr>"

section \<open>Its parts are valid\<close>

lemma plain_not_space:
  assumes "is_ascii_alphanumeric a"
  shows "\<not> ascii_space a" "\<not> space2 a b" "\<not> space2 b a" "\<not> space3 a b c" "\<not> space3 b a c" "\<not> space3 b c a"
  using assms by (auto simp: ascii_space_def space2_def space3_def is_ascii_alphanumeric_def is_ascii_alphabetic_def is_ascii_digit_def)

lemma trim_start_keeps: "a \<in> set s \<Longrightarrow> is_ascii_alphanumeric a \<Longrightarrow> a \<in> set (trim_start s)"
proof (induction s rule: trim_start.induct)
  case (1 s)
  show ?case
  proof (cases "space_len s = 0")
    case False
    have "a \<in> set (drop (space_len s) s)"
      using 1(2) plain_not_space [OF 1(3)] False by (auto simp: space_len_def split: list.splits if_splits)
    with 1 False show ?thesis by (subst trim_start.simps) simp
  qed (use 1 in \<open>simp add: trim_start.simps\<close>)
qed

lemma trim_end_keeps: "a \<in> set s \<Longrightarrow> is_ascii_alphanumeric a \<Longrightarrow> a \<in> set (trim_end s)"
proof (induction s rule: trim_end.induct)
  case (1 s)
  show ?case
  proof (cases "space_end_len s = 0")
    case False
    have "a \<in> set (drop (space_end_len s) s)"
      using 1(2) plain_not_space [OF 1(3)] False by (auto simp: space_end_len_def split: list.splits if_splits)
    with 1 False show ?thesis by (subst trim_end.simps) simp
  qed (use 1 in \<open>simp add: trim_end.simps\<close>)
qed

lemma trim_plain: "is_ascii_alphanumeric (hd s) \<Longrightarrow> s \<noteq> [] \<Longrightarrow> trim s \<noteq> []"
  using trim_end_keeps [of "hd s" "rev (trim_start s)"] trim_start_keeps [of "hd s" s] by (auto simp: trim_def)

lemma bounded_plain:
  assumes "s \<noteq> []" and "is_ascii_alphanumeric (hd s)" and "list_all (\<lambda>c. 32 \<le> byte c \<and> byte c < 127) s" and "length s \<le> n"
  shows "bounded_text s path n = Inr ()"
proof -
  have "filter (\<lambda>c. 240 \<le> byte c) s = []" using assms(3) by (auto simp: list_all_iff filter_empty_conv)
  then have "utf16_count s \<le> n" using chars_count_le_length [of s] assms(4) by (simp add: utf16_count_def)
  moreover have "\<not> list_ex invalid_control s" using assms(3) by (force simp: list_all_iff list_ex_iff invalid_control_def)
  ultimately show ?thesis using trim_plain [OF assms(2,1)] by (simp add: bounded_text_def ensure_def)
qed

lemma byte_zero: "char_of (48 :: nat) = CHR ''0''"
  by code_simp

lemma hex_zeros: "hex_text (replicate n (CHR 0x00)) = replicate (2 * n) (CHR ''0'')"
  by (induction n) (simp_all add: hex_text_def hex_nibble_def byte_def byte_zero)

lemmas plain_bytes = is_ascii_alphanumeric_def is_ascii_alphabetic_def is_ascii_digit_def portable_byte_def byte_def

lemma list_all_replicate [simp]: "list_all P (replicate n x) \<longleftrightarrow> n = 0 \<or> P x"
  by (auto simp: list_all_iff)

lemma sample_id_portable [simp]:
  assumes "is_ascii_alphanumeric x" "list_all portable_byte p" "portable_byte c" "length p \<le> 100"
  shows "portable_text 200 (sample_id (x # p) c)"
  using assms by (simp add: portable_text_def sample_id_def list_all_iff) (simp add: plain_bytes)

lemmas checks_of = check_all_Inr_iff ensure_Inr_iff check_some_iff schema_version_def DELIVERY_SCHEMA_VERSION_def
  portable_identifier_def positive_def safe_non_negative_def MAX_SAFE_INTEGER_def collection_length_def
  MAX_COLLECTION_LENGTH_def duplicate_ids_def canonical_delivery_id_def

lemma sample_aggregate_ok: "validate_aggregate any_calendar (sample_aggregate ItemDone [sample_work_run]) = Inr ()"
proof -
  let ?a = "sample_aggregate ItemDone [sample_work_run]"
  have parts: "ag_runs ?a = [sample_work_run]" "ag_contract ?a = sample_contract" "length (ag_items ?a) = 2"
    "distinct (map wc_id (ct_criteria sample_contract))"
    by (simp_all add: sample_aggregate_def sample_contract_def)
  have "run_valid ?a sample_work_run"
    by (simp add: run_valid_def invalid_run_def sample_aggregate_def sample_work_run_def sample_run_def sample_item_def
        sample_contract_def invalid_run_fields_def is_ascii_digit_def byte_def valid_revision_def)
  then have "runs_valid ?a" using parts(1) by (simp add: runs_valid_def)
  with parts show ?thesis
    using sample_items_ok [of ItemDone "[sample_work_run]"] sample_contract_ok by (simp add: aggregate_ok_def list_all_iff)
qed

lemma sample_binding_ok: "validate_binding sample_binding path = Inr ()"
  by (simp add: validate_binding_def sample_binding_def checks_of bounded_plain codex_thread_check_def
    validate_execution_authority_def provenance_check_def validate_runtime_context_def invalid_fencing_token_def Let_def
    portable_text_def plain_bytes sample_id_def)

lemmas sample_checks = checks_of bounded_plain check_each_def portable_text_def plain_bytes

lemma sample_spec_ok: "validate_spec sha256 (sample_spec (Some ''t'')) path = Inr (sample_spec (Some ''t''))"
proof -
  have "spec_checks (sample_spec (Some ''t'')) path = Inr ()"
    by (simp add: spec_checks_def sample_spec_def sample_criterion_def validate_criterion_def validate_unique_texts_def
      validate_repository_def is_canonical_delivery_id_def MAX_TEXT_LENGTH_def MAX_REFERENCE_LENGTH_def
      MAX_DELIVERY_REWORK_ATTEMPTS_def sample_checks)
  then show ?thesis by (simp add: validate_spec_def sample_spec_def)
qed

lemma sample_evidence_ok: "validate_evidence sample_reference path = Inr ()"
  by (simp add: validate_evidence_def sample_reference_def sample_id_def MAX_REFERENCE_LENGTH_def sample_checks
      is_canonical_prefixed_id_def strip_prefix_def crockford_byte_def)

lemma sample_verdict_ok: "validate_verdict sample_verdict path = Inr ()"
  by (simp add: validate_verdict_def sample_verdict_def validate_result_def sample_result_def sample_id_def hex_zeros
      MAX_TEXT_LENGTH_def MAX_REFERENCE_LENGTH_def unique_texts_def sample_checks)

section \<open>The delivery is accepted\<close>

definition sample_ready :: delivery_snapshot where
  "sample_ready = sample_delivery StatusReadyToDeliver [sample_reference] (Some sample_verdict)"

lemma sample_delivery_simps [simp]:
  "ds_schema_version (sample_delivery st es v) = 3" "ds_id (sample_delivery st es v) = sample_id ''dlv_'' (CHR ''1'')"
  "ds_revision (sample_delivery st es v) = 1" "ds_status (sample_delivery st es v) = st"
  "ds_spec (sample_delivery st es v) = sample_spec (Some ''t'')" "ds_session_bindings (sample_delivery st es v) = [sample_binding]"
  "ds_same_candidate_reverification (sample_delivery st es v) = None" "ds_attention_items (sample_delivery st es v) = []"
  "ds_evidence (sample_delivery st es v) = es" "ds_verdict (sample_delivery st es v) = v"
  "ds_created_at_millis (sample_delivery st es v) = 0" "ds_updated_at_millis (sample_delivery st es v) = 0"
  "ds_work_run_aggregate (sample_delivery st es v) = sample_aggregate ItemDone [sample_work_run]"
  "sample_delivery st es v\<lparr>ds_spec := sample_spec (Some ''t'')\<rparr> = sample_delivery st es v"
  "sample_delivery st es v\<lparr>ds_status := st', ds_evidence := es', ds_verdict := v', ds_updated_at_millis := 0\<rparr> = sample_delivery st' es' v'"
  by (simp_all add: sample_delivery_def)

lemma sample_relation_ok:
  "binding_relation (sample_delivery st [sample_reference] (Some sample_verdict)) sample_binding path = Inr ()"
  "evidence_relation (sample_delivery st [sample_reference] (Some sample_verdict)) sample_reference path = Inr ()"
  "validate_verdict_relationships (sample_delivery st [sample_reference] (Some sample_verdict)) sample_verdict = Inr ()"
  subgoal
    by (simp add: binding_relation_def checks_of by_key_def sample_binding_def sample_aggregate_def sample_work_run_def
      sample_run_def binding_matches_run_def u64_as_i64_def)
  subgoal
    by (simp add: evidence_relation_def checks_of by_key_def sample_binding_def sample_aggregate_def sample_work_run_def
      sample_run_def sample_reference_def sample_spec_def)
  subgoal
    by (simp add: validate_verdict_relationships_def checks_of check_each_def Let_def by_key_def result_relation_def
      expected_status_def map_filter_def sample_verdict_def sample_result_def sample_reference_def sample_spec_def sample_criterion_def)
  done

lemma sample_rework: "rework_count (sample_delivery st es v) = 0"
  by (simp add: rework_count_def sample_binding_def sample_aggregate_def)

lemma sample_judged_ok:
  assumes "st \<in> {StatusReady, StatusReadyToDeliver}"
  shows "try_from_snapshot sample_env (sample_delivery st [sample_reference] (Some sample_verdict))
    = Inr (sample_delivery st [sample_reference] (Some sample_verdict))" (is "_ = Inr ?d")
proof -
  have "header_checks ?d = Inr ()" by (simp add: header_checks_def sample_checks is_canonical_delivery_id_def)
  moreover have "parts_checks ?d = Inr ()"
    by (simp add: parts_checks_def checks_of check_each_def sample_binding_ok sample_evidence_ok sample_verdict_ok)
      (simp add: sample_spec_def)
  moreover have "identity_checks ?d = Inr ()"
    by (simp add: identity_checks_def checks_of sample_binding_def map_filter_def Let_def)
  moreover have "relation_checks ?d = Inr ()"
    using assms unfolding relation_checks_def check_all_Inr_iff
    by (auto simp: sample_relation_ok checks_of check_each_def sample_rework)
  moreover have "completion_checks ?d = Inr ()"
    by (simp add: completion_checks_def checks_of sample_verdict_def sample_aggregate_def sample_item_def)
  moreover have "validate_fact sample_env ?d = Inr ()" by (simp add: validate_fact_def)
  ultimately show ?thesis
    unfolding try_from_snapshot_iff using sample_aggregate_ok sample_spec_ok by (auto simp: sample_env_def)
qed

section \<open>The verdict that is computed for it\<close>

lemma sample_method_digest:
  "verification_method_digest (\<lambda>x. hex_text (replicate 32 (CHR 0x00))) ''t'' = Some (digest_text (replicate 32 (CHR 0x00)))"
proof -
  have "trim ''t'' \<noteq> []" by (rule trim_plain) (simp_all add: plain_bytes)
  then show ?thesis
    by (simp add: verification_method_digest_def digest_text_def command_digest_def canonical_command_def Let_def)
qed

lemma sample_cites: "cites_source sample_assignment sample_terminal ''e'' (sample_resolved k)"
  by (simp add: cites_source_def sample_assignment_def sample_terminal_def sample_resolved_def sample_reference_def)

lemma sample_matches: "matches_finding_source (sample_resolved k) sample_terminal 1 = Some True"
  by (simp add: matches_finding_source_def sample_resolved_def accepted_terminal_sequence_def sample_terminal_def u64_try_from_def)

lemma sample_resolves:
  "resolve_sources sample_assignment sample_terminal [sample_resolved k] mismatch [] [(''e'', 1)] = Some (Inr [sample_resolved k])"
  by (simp add: sample_cites sample_matches u64_try_from_def)

lemma sample_sources:
  "evaluate_sources (\<lambda>_. replicate 32 (CHR 0x00)) (sample_criterion (Some ''t'')) RoleReviewer mismatch ProductPass
     [sample_resolved OutcomeSucceeded]
    = Some \<lparr>ro_role = RoleReviewer, ro_outcome = RoleProduct ProductPass, ro_evidence_ids = [''v''],
        ro_explanation = ''reviewer: pass is supported by current direct Evidence'', ro_unresolved_finding = None, ro_action = None\<rparr>"
  by (simp add: evaluate_sources_def sample_criterion_def sample_resolved_def sample_reference_def environment_failure_def
      direct_evidence_type_def matches_verification_method_def sample_method_digest observed_outcome_def source_evidence_ids_def
      sorted_ids_def Let_def)

lemma sample_evaluation:
  "evaluate_role (\<lambda>_. replicate 32 (CHR 0x00)) (sample_criterion (Some ''t'')) sample_settlement [sample_resolved OutcomeSucceeded]
    = Some \<lparr>ro_role = RoleReviewer, ro_outcome = RoleProduct ProductPass, ro_evidence_ids = [''v''],
        ro_explanation = ''reviewer: pass is supported by current direct Evidence'', ro_unresolved_finding = None, ro_action = None\<rparr>"
proof -
  have finding: "vf_criterion_id sample_finding = ''k''" "vf_source_refs sample_finding = [''e'']" "vf_source_sequences sample_finding = [1]"
    "vf_conclusion sample_finding = FindingPass" "ac_id (sample_criterion m) = ''k''" for m
    by (simp_all add: sample_finding_def sample_criterion_def)
  show ?thesis
    by (simp add: evaluate_role_def sample_settlement_def evaluate_settled_role_def Let_def finding sample_resolves claimed_outcome_def
      sample_sources del: resolve_sources.simps)
qed

lemma sample_current:
  assumes "st = StatusReady"
  shows "assert_frozen_candidate_current sample_env (sample_delivery st es v) sample_candidate = Inr ()"
  by (simp add: assert_frozen_candidate_current_def sample_candidate_def sample_spec_def ensure_def current_writer_def
      sample_aggregate_def sample_work_run_def sample_run_def exact_producer_binding_def sample_binding_def same_writer_def
      u64_as_i64_def candidate_code_digest_def candidate_identity_digest_def sample_env_def)

lemma sample_settlement_current: "settlement_is_current (sample_delivery st es v) sample_candidate sample_settlement = Inr ()"
  by (simp add: settlement_is_current_def sample_settlement_def sample_assignment_def sample_aggregate_def sample_work_run_def
      sample_run_def sample_binding_def ensure_def sample_candidate_def terminal_work_run_is_current_def
      sample_terminal_def u64_try_from_def terminal_status_is_current_def check_all_Inr_iff)

lemma sample_checked:
  "verdict_checks sample_env (sample_delivery StatusReady [] None) sample_candidate sample_verification
     [sample_resolved OutcomeSucceeded] 0 = Inr ()"
proof -
  have "validate_verification_is_current sample_env (sample_delivery StatusReady [] None) sample_candidate sample_verification = Inr ()"
    by (simp add: validate_verification_is_current_def validate_source_delivery_def seal_source_delivery_def sample_verification_def
        sample_env_def ensure_def sample_settlement_current check_all_Inr_iff)
  moreover have "validate_resolved_evidence (sample_delivery StatusReady [] None) sample_candidate [sample_resolved OutcomeSucceeded] 0 = Inr ()"
    by (simp add: validate_resolved_evidence_def checks_of sample_resolved_def sample_reference_def sample_candidate_def sample_spec_def Let_def)
  moreover have "validate_verification_time sample_verification 0 = Inr ()"
    by (simp add: validate_verification_time_def sample_verification_def sample_settlement_def sample_terminal_def ensure_def)
  ultimately show ?thesis
    by (simp add: verdict_checks_def check_all_Inr_iff sample_current)
      (simp add: checks_of sample_verification_def sample_candidate_def sample_resolved_def sample_reference_def)
qed

lemma sample_judged:
  "judge_criteria sample_env (sample_delivery StatusReady [] None) sample_candidate sample_verification [sample_resolved OutcomeSucceeded] 0
     [sample_criterion (Some ''t'')]
   = Some (Inr [(sample_criterion (Some ''t''), \<lparr>cc_verdict = VerdictPass, cc_evidence_ids = [''v''],
       cc_explanation = ''reviewer: pass is supported by current direct Evidence'', cc_unresolved_findings = [], cc_actions = []\<rparr>,
       sample_result)])"
proof -
  have "compute_criterion (de_sha256 sample_env) (sample_criterion (Some ''t'')) sample_verification [sample_resolved OutcomeSucceeded]
    = Some \<lparr>cc_verdict = VerdictPass, cc_evidence_ids = [''v''],
       cc_explanation = ''reviewer: pass is supported by current direct Evidence'', cc_unresolved_findings = [], cc_actions = []\<rparr>"
    by (simp add: compute_criterion_def sample_verification_def sample_env_def sample_evaluation judge_roles_def Let_def roles_verdict_def
      roles_contradict_def role_products_def map_filter_def sorted_ids_def) (simp add: sample_criterion_def)
  then show ?thesis
    by (simp add: result_of_def deterministic_id_def sample_env_def sample_result_def DELIVERY_SCHEMA_VERSION_def)
      (simp add: sample_spec_def sample_candidate_def sample_criterion_def)
qed

lemma sample_computed:
  "compute_delivery_verdict sample_env (sample_delivery StatusReady [] None) sample_candidate sample_verification
     [sample_resolved OutcomeSucceeded] 0 = Some (Inr \<lparr>cv_evidence = [sample_reference], cv_verdict = sample_verdict\<rparr>)"
proof -
  have criteria: "sp_acceptance_criteria (sample_spec m) = [sample_criterion m]" for m by (simp add: sample_spec_def)
  have "attention_findings (sample_delivery StatusReady [] None) = []" by (simp add: attention_findings_def)
  moreover have "fold_delivery_status (sample_delivery StatusReady [] None) [sample_result] [] = VerdictPass"
    by (simp add: fold_delivery_status_def criteria sample_criterion_def sample_result_def Let_def)
  moreover have "er_id (re_evidence (sample_resolved OutcomeSucceeded)) = ''v''" "re_evidence (sample_resolved OutcomeSucceeded) = sample_reference"
    by (simp_all add: sample_resolved_def sample_reference_def)
  moreover have "deterministic_id sample_env ''delivery-verdict:sha256'' (ve_verdict_json sample_env x)
      = Inr (''delivery-verdict:sha256:'' @ hex_text (replicate 32 (CHR 0x00)))" for x
    by (simp add: deterministic_id_def sample_env_def)
  moreover have "sample_verdict = \<lparr>vd_snapshot_id = sn_snapshot_id (iv_snapshot sample_verification), vd_candidate_id = fc_candidate_id sample_candidate,
     vd_candidate_digest = fc_candidate_digest sample_candidate, vd_schema_version = 3,
     vd_id = ''delivery-verdict:sha256:'' @ hex_text (replicate 32 (CHR 0x00)), vd_delivery_id = sample_id ''dlv_'' (CHR ''1''),
     vd_delivery_spec_id = sp_id (sample_spec (Some ''t'')), vd_candidate_ref = fc_candidate_ref sample_candidate, vd_status = VerdictPass,
     vd_criteria = [sample_result], vd_unresolved_findings = [], vd_produced_at_millis = 0\<rparr>"
    by (simp add: sample_verdict_def sample_verification_def sample_candidate_def sample_spec_def)
  ultimately have "verdict_from sample_env (sample_delivery StatusReady [] None) sample_candidate sample_verification
     [sample_resolved OutcomeSucceeded] 0 [(sample_criterion (Some ''t''), \<lparr>cc_verdict = VerdictPass, cc_evidence_ids = [''v''],
       cc_explanation = ''reviewer: pass is supported by current direct Evidence'', cc_unresolved_findings = [], cc_actions = []\<rparr>,
       sample_result)] = Inr \<lparr>cv_evidence = [sample_reference], cv_verdict = sample_verdict\<rparr>"
    by (simp add: verdict_from_def Let_def validate_computed_facts_def sample_judged_ok DELIVERY_SCHEMA_VERSION_def)
  then show ?thesis by (simp add: compute_delivery_verdict_def sample_checked criteria sample_judged del: judge_criteria.simps)
qed

end
