(* ===== verification/Delivery_Verification.thy ===== *)
theory Delivery_Verification
  imports Delivery_Judgement
begin

text \<open>
  \<^verbatim>\<open>domain/verification.rs\<close>: how the facts of the verification sessions are projected into an independent
  verification. Each role must be bound to one current run of its own, apart from the writer of the candidate and from
  the other roles; must have read the frozen candidate without changing it; and its findings must lie within
  what its accepted outcome covers.
\<close>

section \<open>Facts\<close>

datatype verification_workspace_mode = CandidateReadOnly | CandidateWrite | SourceReadOnly

datatype verification_permission_profile = CandidateReadOnlyRestricted | Unrestricted

datatype verification_mutation_kind = FileWrite | PatchApply

record worker_mutation_record =
  mr_execution_job_id :: string
  mr_attempt :: u64
  mr_lease_id :: string
  mr_fencing_token :: string
  mr_worker_id :: string
  mr_worker_instance_id :: string
  mr_worker_session_id :: string
  mr_sequence :: int
  mr_kind :: verification_mutation_kind
  mr_succeeded :: bool
  mr_resulting_candidate_tree_id :: string

record verification_finding_fact =
  ff_finding_ref :: string
  ff_criterion_id :: string
  ff_conclusion :: verification_finding_conclusion
  ff_result_sequence :: int
  ff_source_refs :: "string list"
  ff_source_sequences :: "int list"
  ff_explanation :: string

record verification_session_facts =
  sf_role :: verification_role
  sf_work_run_id :: string
  sf_session_binding_id :: string
  sf_workspace_mode :: verification_workspace_mode
  sf_permission_profile :: verification_permission_profile
  sf_pre_candidate_snapshot :: "canonical_snapshot option"
  sf_post_candidate_snapshot :: "canonical_snapshot option"
  sf_accepted_job_outcome :: "accepted_job_outcome option"
  sf_codex_turn_completed :: bool
  sf_mutation_records :: "worker_mutation_record list"
  sf_findings :: "verification_finding_fact list"

record verification_facts =
  vn_snapshot :: canonical_snapshot
  vn_required_roles :: "verification_role list"
  vn_sessions :: "verification_session_facts list"

definition MAX_EXECUTION_ATTEMPT :: u64 where "MAX_EXECUTION_ATTEMPT = 1000"

definition invalid_verification :: "string \<Rightarrow> string \<Rightarrow> delivery_validation_error" where
  "invalid_verification path message = validation_error DvInvalidValue path message"

definition relationship_mismatch :: "string \<Rightarrow> string \<Rightarrow> delivery_validation_error" where
  "relationship_mismatch path message = validation_error DvRelationshipMismatch path message"

text \<open>\<^verbatim>\<open>u64::try_from(attempt).unwrap_or(0)\<close>\<close>

definition attempt_or_zero :: "work_run \<Rightarrow> u64" where
  "attempt_or_zero run = (case u64_try_from (run_attempt run) of None \<Rightarrow> 0 | Some n \<Rightarrow> n)"

definition created_after :: "canonical_snapshot \<Rightarrow> u64 \<Rightarrow> bool" where
  "created_after s finished \<longleftrightarrow>
     sn_created_at_millis s < 0
     \<or> (case u64_try_from (sn_created_at_millis s) of None \<Rightarrow> True | Some created \<Rightarrow> created > finished)"

section \<open>Accepted outcomes\<close>

definition job_status_of :: "terminal_outcome_status \<Rightarrow> verification_job_outcome_status" where
  "job_status_of status = (case status of OutcomeOk \<Rightarrow> JobSucceeded | OutcomeFail \<Rightarrow> JobFailed
     | OutcomeInfrastructureError \<Rightarrow> JobInfrastructureError | OutcomeCancel \<Rightarrow> JobCancelled)"

definition outcome_matches_assignment ::
    "(string \<Rightarrow> string) \<Rightarrow> verified_terminal_outcome \<Rightarrow> delivery_binding \<Rightarrow> canonical_snapshot \<Rightarrow> string \<Rightarrow> string \<Rightarrow> bool" where
  "outcome_matches_assignment sha256 outcome binding snapshot role thread \<longleftrightarrow>
     (let lease = vt_lease_identity outcome in
      \<not> (\<not> verify_snapshot_seal sha256 snapshot
         \<or> vt_work_run_id outcome \<noteq> db_work_run_id binding
         \<or> al_execution_job_id lease \<noteq> db_execution_job_id binding
         \<or> al_attempt lease \<noteq> db_attempt binding
         \<or> db_lease_id binding \<noteq> Some (al_lease_id lease)
         \<or> db_fencing_token binding \<noteq> Some (al_fencing_token lease)
         \<or> db_worker_id binding \<noteq> Some (al_worker_id lease)
         \<or> db_worker_instance_id binding \<noteq> Some (al_worker_instance_id lease)
         \<or> db_worker_session_id binding \<noteq> Some (al_worker_session_id lease)
         \<or> db_codex_thread_id binding \<noteq> Some thread
         \<or> db_execution_profile binding \<noteq> Some role
         \<or> created_after snapshot (tm_finished_at_millis (vt_metadata outcome))))"

definition from_verified_outcome ::
    "(string \<Rightarrow> string) \<Rightarrow> verified_terminal_outcome \<Rightarrow> delivery_binding \<Rightarrow> canonical_snapshot \<Rightarrow> string
     \<Rightarrow> delivery_validation_error + accepted_job_outcome" where
  "from_verified_outcome sha256 outcome binding snapshot role =
     rbind (portable_identifier role ''verification.terminal.roleId'') (\<lambda>_.
     rbind (ok_or (tm_codex_thread_id (vt_metadata outcome))
       (invalid_verification ''verification.terminal'' ''CodexThread is missing'')) (\<lambda>thread.
     rbind (ensure (outcome_matches_assignment sha256 outcome binding snapshot role thread)
       (relationship_mismatch ''verification.terminal'' ''terminal does not match its current Snapshot assignment'')) (\<lambda>_.
     let lease = vt_lease_identity outcome; metadata = vt_metadata outcome in
     Inr \<lparr>jo_snapshot_id = sn_snapshot_id snapshot, jo_product_session_id = db_product_session_id binding,
       jo_work_run_id = vt_work_run_id outcome, jo_role_id = role, jo_execution_job_id = al_execution_job_id lease,
       jo_attempt = al_attempt lease, jo_lease_id = al_lease_id lease, jo_fencing_token = al_fencing_token lease,
       jo_worker_id = al_worker_id lease, jo_worker_instance_id = al_worker_instance_id lease,
       jo_worker_session_id = al_worker_session_id lease, jo_codex_thread_id = thread,
       jo_last_event_sequence = tm_last_event_sequence metadata, jo_finished_at_millis = tm_finished_at_millis metadata,
       jo_status = job_status_of (vt_status outcome), jo_terminal_candidate_tree_id = sn_candidate_tree_id snapshot,
       jo_artifacts = tm_artifacts metadata\<rparr>)))"

definition mutation_from_terminal_outcome ::
    "accepted_job_outcome \<Rightarrow> int \<Rightarrow> verification_mutation_kind \<Rightarrow> bool \<Rightarrow> string \<Rightarrow> worker_mutation_record" where
  "mutation_from_terminal_outcome t position kind succeeded tree =
     \<lparr>mr_execution_job_id = jo_execution_job_id t, mr_attempt = jo_attempt t, mr_lease_id = jo_lease_id t,
      mr_fencing_token = jo_fencing_token t, mr_worker_id = jo_worker_id t, mr_worker_instance_id = jo_worker_instance_id t,
      mr_worker_session_id = jo_worker_session_id t, mr_sequence = position, mr_kind = kind, mr_succeeded = succeeded,
      mr_resulting_candidate_tree_id = tree\<rparr>"

definition valid_fencing_token :: "string \<Rightarrow> bool" where
  "valid_fencing_token value \<longleftrightarrow>
     length value \<le> 20
     \<and> (case value of [] \<Rightarrow> False | c # _ \<Rightarrow> 49 \<le> byte c \<and> byte c \<le> 57)
     \<and> list_all is_ascii_digit value"

definition validate_outcome_shape :: "accepted_job_outcome \<Rightarrow> string \<Rightarrow> delivery_check" where
  "validate_outcome_shape t path =
     check_all
       [portable_identifier (jo_product_session_id t) (path @ ''.acceptedJobOutcome.productSessionId''),
        portable_identifier (jo_work_run_id t) (path @ ''.acceptedJobOutcome.workRunId''),
        portable_identifier (jo_role_id t) (path @ ''.acceptedJobOutcome.roleId''),
        portable_identifier (jo_execution_job_id t) (path @ ''.acceptedJobOutcome.executionJobId''),
        portable_identifier (jo_lease_id t) (path @ ''.acceptedJobOutcome.leaseId''),
        portable_identifier (jo_worker_id t) (path @ ''.acceptedJobOutcome.workerId''),
        portable_identifier (jo_worker_instance_id t) (path @ ''.acceptedJobOutcome.workerInstanceId''),
        portable_identifier (jo_worker_session_id t) (path @ ''.acceptedJobOutcome.workerSessionId''),
        portable_identifier (jo_codex_thread_id t) (path @ ''.acceptedJobOutcome.codexThreadId''),
        ensure (1 \<le> jo_attempt t \<and> jo_attempt t \<le> MAX_EXECUTION_ATTEMPT)
          (invalid_verification (path @ ''.acceptedJobOutcome.attempt'') ''execution attempt must be between 1 and 1000''),
        ensure (valid_fencing_token (jo_fencing_token t))
          (invalid_verification (path @ ''.acceptedJobOutcome.fencingToken'')
             ''fencing token must be a positive decimal string of at most 20 digits''),
        ensure (0 \<le> jo_last_event_sequence t \<and> jo_last_event_sequence t \<le> uint MAX_SAFE_INTEGER)
          (invalid_verification (path @ ''.acceptedJobOutcome.lastEventSequence'')
             ''last event sequence must be a non-negative safe integer''),
        ensure (\<not> jo_finished_at_millis t > MAX_SAFE_INTEGER)
          (invalid_verification (path @ ''.acceptedJobOutcome.finishedAtMillis'')
             ''terminal finish time must be a non-negative safe integer''),
        ensure (git_object (jo_terminal_candidate_tree_id t))
          (invalid_verification (path @ ''.acceptedJobOutcome.terminalCandidateTreeId'')
             ''terminal candidate tree must be a lowercase Git object identity'')]"

definition mutation_matches_outcome :: "worker_mutation_record \<Rightarrow> accepted_job_outcome \<Rightarrow> bool" where
  "mutation_matches_outcome r t \<longleftrightarrow>
     mr_execution_job_id r = jo_execution_job_id t \<and> mr_attempt r = jo_attempt t \<and> mr_lease_id r = jo_lease_id t
     \<and> mr_fencing_token r = jo_fencing_token t \<and> mr_worker_id r = jo_worker_id t
     \<and> mr_worker_instance_id r = jo_worker_instance_id t \<and> mr_worker_session_id r = jo_worker_session_id t"

fun mutation_records_from ::
    "accepted_job_outcome \<Rightarrow> string \<Rightarrow> nat \<Rightarrow> int set \<Rightarrow> worker_mutation_record list \<Rightarrow> delivery_check" where
  "mutation_records_from t path index seen [] = Inr ()"
| "mutation_records_from t path index seen (r # rs) =
     (let record_path = at_index (path @ ''.mutationRecords'') index in
      if \<not> mutation_matches_outcome r t
      then Inl (relationship_mismatch record_path
        ''Worker mutation record does not match the accepted job, attempt, lease, fence, Worker, or WorkerSession'')
      else if mr_sequence r \<le> 0 \<or> mr_sequence r > jo_last_event_sequence t \<or> mr_sequence r \<in> seen
      then Inl (relationship_mismatch (record_path @ ''.sequence'')
        ''Worker mutation sequence must be unique and covered by the accepted terminal outcome'')
      else if mr_resulting_candidate_tree_id r \<noteq> jo_terminal_candidate_tree_id t
      then Inl (relationship_mismatch (record_path @ ''.resultingCandidateTreeId'')
        ''Worker mutation record must reconcile with the terminal candidate tree'')
      else if mr_succeeded r
      then Inl (invalid_verification record_path ''a successful verification file write or patch invalidates the result'')
      else mutation_records_from t path (index + 1) (insert (mr_sequence r) seen) rs)"

definition validate_mutation_records ::
    "worker_mutation_record list \<Rightarrow> accepted_job_outcome \<Rightarrow> string \<Rightarrow> delivery_check" where
  "validate_mutation_records records t path =
     check_all [collection_length (length records) (path @ ''.mutationRecords''), mutation_records_from t path 0 {} records]"

definition snapshot_matches_candidate :: "canonical_snapshot \<Rightarrow> frozen_candidate \<Rightarrow> bool" where
  "snapshot_matches_candidate s c \<longleftrightarrow>
     sn_candidate_id s = fc_candidate_id c \<and> sn_work_run_id s = fc_producer_work_run_id c
     \<and> sn_base_commit_id s = fc_base_commit_id c \<and> sn_base_tree_id s = fc_base_tree_id c
     \<and> sn_candidate_commit_id s = fc_candidate_commit_id c \<and> sn_candidate_tree_id s = fc_candidate_tree_id c
     \<and> strip_prefix ''sha256:'' (sn_diff_sha256 s) = Some (fc_diff_sha256 c)"

definition validate_snapshot_pair ::
    "(string \<Rightarrow> string) \<Rightarrow> verification_session_facts \<Rightarrow> accepted_job_outcome \<Rightarrow> frozen_candidate \<Rightarrow> string \<Rightarrow> delivery_check" where
  "validate_snapshot_pair sha256 session t c path =
     (case (sf_pre_candidate_snapshot session, sf_post_candidate_snapshot session) of
        (Some before, Some after) \<Rightarrow>
          ensure (\<not> (before \<noteq> after
              \<or> \<not> verify_snapshot_seal sha256 before
              \<or> sn_snapshot_id before \<noteq> jo_snapshot_id t
              \<or> \<not> snapshot_matches_candidate before c
              \<or> created_after before (jo_finished_at_millis t)))
            (relationship_mismatch path ''verification result must resolve to the same immutable Snapshot and candidate'')
      | _ \<Rightarrow> Inl (relationship_mismatch path ''settlement requires its canonical Snapshot''))"

section \<open>Roles\<close>

definition validate_required_roles :: "verification_role list \<Rightarrow> delivery_check" where
  "validate_required_roles roles =
     ensure (roles = [RoleReviewer, RoleVerifier] \<or> roles = [RoleReviewer, RoleVerifier, RoleAdversarialVerifier])
       (invalid_verification ''verification.requiredRoles''
          ''required roles must be reviewer, verifier, with an optional appended adversarial-verifier'')"

definition missing_settlement :: "verification_role \<Rightarrow> role_settlement" where
  "missing_settlement role = \<lparr>rs_role = role, rs_state = SessionMissing, rs_assignment = None, rs_findings = [],
     rs_terminal_job_outcome = None, rs_terminal_settlement = None\<rparr>"

definition current_role_run :: "delivery_snapshot \<Rightarrow> string \<Rightarrow> string \<Rightarrow> delivery_validation_error + work_run" where
  "current_role_run d work_run_id path =
     ok_or (find (\<lambda>r. run_id r = work_run_id) (ag_runs (ds_work_run_aggregate d)))
       (relationship_mismatch path ''verification role has no current WorkRun'')"

definition current_role_binding ::
    "delivery_snapshot \<Rightarrow> work_run \<Rightarrow> string \<Rightarrow> delivery_validation_error + delivery_binding" where
  "current_role_binding d run path =
     (case filter (\<lambda>b. db_delivery_id b = ds_id d \<and> db_work_run_id b = run_id run) (ds_session_bindings d) of
        [binding] \<Rightarrow>
          if db_attempt binding \<noteq> attempt_or_zero run
          then Inl (relationship_mismatch path ''verification WorkRun and SessionBinding attempts differ'')
          else Inr binding
      | _ \<Rightarrow> Inl (relationship_mismatch path ''current verification WorkRun must have exactly one SessionBinding''))"

definition validate_role_consumes_candidate ::
    "delivery_snapshot \<Rightarrow> work_run \<Rightarrow> frozen_candidate \<Rightarrow> string \<Rightarrow> delivery_check" where
  "validate_role_consumes_candidate d run c path =
     rbind (ok_or (find (\<lambda>r. run_id r = fc_producer_work_run_id c) (ag_runs (ds_work_run_aggregate d)))
       (relationship_mismatch path ''candidate producer WorkRun is missing'')) (\<lambda>producer.
     ensure (\<not> (run_work_contract_id run \<noteq> run_work_contract_id producer
         \<or> run_contract_revision run \<noteq> run_contract_revision producer
         \<or> run_id run = run_id producer))
       (relationship_mismatch path ''verification must independently consume the same candidate contract revision''))"

text \<open>The identities that are taken: those of the writer, and of the roles that came before.\<close>

record taken_identities =
  ti_work_runs :: "string set"
  ti_bindings :: "string set"
  ti_product_sessions :: "string set"
  ti_execution_jobs :: "string set"
  ti_worker_sessions :: "string set"
  ti_codex_threads :: "string set"

definition ensure_distinct_assignment ::
    "work_run \<Rightarrow> delivery_binding \<Rightarrow> string \<Rightarrow> taken_identities \<Rightarrow> delivery_validation_error + taken_identities" where
  "ensure_distinct_assignment run binding path taken =
     (if run_id run \<notin> ti_work_runs taken
         \<and> db_id binding \<notin> ti_bindings taken
         \<and> db_product_session_id binding \<notin> ti_product_sessions taken
         \<and> db_execution_job_id binding \<notin> ti_execution_jobs taken
         \<and> set_option (db_worker_session_id binding) \<inter> ti_worker_sessions taken = {}
         \<and> set_option (db_codex_thread_id binding) \<inter> ti_codex_threads taken = {}
      then Inr \<lparr>ti_work_runs = insert (run_id run) (ti_work_runs taken),
        ti_bindings = insert (db_id binding) (ti_bindings taken),
        ti_product_sessions = insert (db_product_session_id binding) (ti_product_sessions taken),
        ti_execution_jobs = insert (db_execution_job_id binding) (ti_execution_jobs taken),
        ti_worker_sessions = set_option (db_worker_session_id binding) \<union> ti_worker_sessions taken,
        ti_codex_threads = set_option (db_codex_thread_id binding) \<union> ti_codex_threads taken\<rparr>
      else Inl (relationship_mismatch path
        ''candidate writer and verification roles must use pairwise-distinct WorkRun, SessionBinding, ProductSession, ExecutionJob, WorkerSession, and CodexThread identities''))"

definition validate_assignment ::
    "(string \<Rightarrow> string) \<Rightarrow> delivery_binding \<Rightarrow> work_run \<Rightarrow> verification_session_facts \<Rightarrow> frozen_candidate \<Rightarrow> string
     \<Rightarrow> delivery_validation_error + verification_assignment option" where
  "validate_assignment sha256 binding run session c path =
     (case (db_worker_session_id binding, db_codex_thread_id binding, sf_pre_candidate_snapshot session) of
        (Some worker_session_id, Some codex_thread_id, Some checkout) \<Rightarrow>
          if \<not> verify_snapshot_seal sha256 checkout \<or> \<not> snapshot_matches_candidate checkout c
          then Inl (relationship_mismatch (path @ ''.candidateCheckout'')
            ''checkout must bind the complete current assignment to every frozen candidate Git fact'')
          else Inr (Some \<lparr>va_snapshot_id = sn_snapshot_id checkout, va_role = sf_role session, va_work_run_id = run_id run,
            va_session_binding_id = db_id binding, va_product_session_id = db_product_session_id binding,
            va_execution_job_id = db_execution_job_id binding, va_worker_session_id = worker_session_id,
            va_codex_thread_id = codex_thread_id, va_repository = fc_repository c,
            va_checkout_revision = sn_candidate_commit_id checkout\<rparr>)
      | _ \<Rightarrow> Inr None)"

definition outcome_matches_role ::
    "accepted_job_outcome \<Rightarrow> verification_assignment \<Rightarrow> delivery_binding \<Rightarrow> verification_session_facts \<Rightarrow> work_run \<Rightarrow> bool" where
  "outcome_matches_role t assignment binding session run \<longleftrightarrow>
     jo_snapshot_id t = va_snapshot_id assignment
     \<and> jo_work_run_id t = db_work_run_id binding
     \<and> jo_product_session_id t = db_product_session_id binding
     \<and> jo_role_id t = role_id (sf_role session)
     \<and> jo_execution_job_id t = db_execution_job_id binding
     \<and> jo_attempt t = attempt_or_zero run
     \<and> jo_worker_session_id t = va_worker_session_id assignment
     \<and> jo_codex_thread_id t = va_codex_thread_id assignment"

definition validate_terminal_job_outcome ::
    "(string \<Rightarrow> string) \<Rightarrow> work_run \<Rightarrow> delivery_binding \<Rightarrow> verification_assignment option \<Rightarrow> verification_session_facts
     \<Rightarrow> frozen_candidate \<Rightarrow> string \<Rightarrow> delivery_validation_error + accepted_job_outcome option" where
  "validate_terminal_job_outcome sha256 run binding assignment session c path =
     (case sf_accepted_job_outcome session of
        None \<Rightarrow>
          if sf_mutation_records session = [] \<and> sf_post_candidate_snapshot session = None then Inr None
          else Inl (relationship_mismatch (path @ ''.mutationRecords'')
            ''post-run snapshots and Worker mutation records require an accepted terminal JobOutcome'')
      | Some t \<Rightarrow>
          (case assignment of
             None \<Rightarrow> Inl (relationship_mismatch (path @ ''.acceptedJobOutcome'')
               ''accepted JobOutcome requires a complete assignment and candidate checkout'')
           | Some assignment \<Rightarrow>
               rbind (check_all
                 [validate_outcome_shape t path,
                  ensure (outcome_matches_role t assignment binding session run)
                    (relationship_mismatch (path @ ''.acceptedJobOutcome'')
                       ''accepted JobOutcome does not match its role, WorkRun, ProductSession, ExecutionJob, attempt, WorkerSession, or CodexThread assignment''),
                  ensure (\<not> jo_finished_at_millis t < db_bound_at_millis binding)
                    (relationship_mismatch (path @ ''.acceptedJobOutcome.finishedAtMillis'')
                       ''accepted JobOutcome finish time must be after its WorkRun binding''),
                  ensure (jo_terminal_candidate_tree_id t = fc_candidate_tree_id c)
                    (invalid_verification (path @ ''.acceptedJobOutcome.terminalCandidateTreeId'')
                       ''verification terminal tree must equal the frozen candidate tree''),
                  validate_snapshot_pair sha256 session t c path,
                  validate_mutation_records (sf_mutation_records session) t path]) (\<lambda>_.
               Inr (Some t))))"

section \<open>Findings\<close>

fun finding_sources_from ::
    "string \<Rightarrow> int \<Rightarrow> nat \<Rightarrow> string set \<Rightarrow> (string \<times> int) list \<Rightarrow> delivery_check" where
  "finding_sources_from path result_sequence index seen [] = Inr ()"
| "finding_sources_from path result_sequence index seen ((source_ref, source_sequence) # sources) =
     rbind (bounded_text source_ref (at_index (path @ ''.sourceRefs'') index) MAX_REFERENCE_LENGTH) (\<lambda>_.
     if source_ref \<in> seen
     then Inl (relationship_mismatch (path @ ''.sourceRefs'') ''verification finding source references must be unique'')
     else if source_sequence \<le> 0 \<or> source_sequence \<ge> result_sequence
     then Inl (relationship_mismatch (at_index (path @ ''.sourceSequences'') index)
       ''finding sources must precede the structured result sequence'')
     else finding_sources_from path result_sequence (index + 1) (insert source_ref seen) sources)"

definition finding_checks ::
    "delivery_snapshot \<Rightarrow> accepted_job_outcome \<Rightarrow> string \<Rightarrow> string \<Rightarrow> string set \<Rightarrow> verification_finding_fact \<Rightarrow> delivery_check" where
  "finding_checks d t path finding_path seen finding =
     check_all
       [bounded_text (ff_finding_ref finding) (finding_path @ ''.findingRef'') MAX_REFERENCE_LENGTH,
        ensure (ff_finding_ref finding \<notin> seen)
          (relationship_mismatch (path @ ''.findings'') ''verification finding identities must be unique per role''),
        ensure (ff_criterion_id finding \<in> set (map ac_id (sp_acceptance_criteria (ds_spec d))))
          (relationship_mismatch (finding_path @ ''.criterionId'') ''verification finding criterion is not current''),
        ensure (\<not> (ff_result_sequence finding \<le> 0
            \<or> ff_result_sequence finding > jo_last_event_sequence t
            \<or> length (ff_source_sequences finding) \<noteq> length (ff_source_refs finding)))
          (relationship_mismatch (finding_path @ ''.resultSequence'')
             ''finding result and source sequences must be covered by the terminal Worker outcome''),
        collection_length (length (ff_source_refs finding)) (finding_path @ ''.sourceRefs''),
        ensure (ff_source_refs finding \<noteq> [])
          (invalid_verification (finding_path @ ''.sourceRefs'')
             ''verification finding must cite at least one direct source''),
        finding_sources_from finding_path (ff_result_sequence finding) 0 {}
          (zip (ff_source_refs finding) (ff_source_sequences finding)),
        bounded_text (ff_explanation finding) (finding_path @ ''.explanation'') MAX_TEXT_LENGTH]"

definition finding_of :: "frozen_candidate \<Rightarrow> verification_session_facts \<Rightarrow> verification_finding_fact \<Rightarrow> verification_finding" where
  "finding_of c session finding =
     \<lparr>vf_role = sf_role session, vf_finding_ref = ff_finding_ref finding, vf_criterion_id = ff_criterion_id finding,
      vf_conclusion = ff_conclusion finding, vf_source_refs = ff_source_refs finding,
      vf_result_sequence = ff_result_sequence finding, vf_source_sequences = ff_source_sequences finding,
      vf_explanation = ff_explanation finding, vf_candidate_ref = fc_candidate_ref c\<rparr>"

fun findings_from ::
    "delivery_snapshot \<Rightarrow> frozen_candidate \<Rightarrow> verification_session_facts \<Rightarrow> accepted_job_outcome \<Rightarrow> string \<Rightarrow> nat \<Rightarrow> string set
     \<Rightarrow> verification_finding_fact list \<Rightarrow> delivery_validation_error + verification_finding list" where
  "findings_from d c session t path index seen [] = Inr []"
| "findings_from d c session t path index seen (finding # findings) =
     rbind (finding_checks d t path (at_index (path @ ''.findings'') index) seen finding) (\<lambda>_.
     rbind (findings_from d c session t path (index + 1) (insert (ff_finding_ref finding) seen) findings) (\<lambda>rest.
     Inr (finding_of c session finding # rest)))"

definition validate_findings ::
    "delivery_snapshot \<Rightarrow> frozen_candidate \<Rightarrow> verification_session_facts \<Rightarrow> accepted_job_outcome option \<Rightarrow> string
     \<Rightarrow> delivery_validation_error + verification_finding list" where
  "validate_findings d c session terminal path =
     (case terminal of
        None \<Rightarrow> Inr []
      | Some t \<Rightarrow>
          rbind (collection_length (length (sf_findings session)) (path @ ''.findings'')) (\<lambda>_.
          findings_from d c session t path 0 {} (sf_findings session)))"

definition derive_session_state ::
    "work_run \<Rightarrow> verification_assignment option \<Rightarrow> accepted_job_outcome option \<Rightarrow> verification_finding list \<Rightarrow> string
     \<Rightarrow> delivery_validation_error + (verification_session_state \<times> verification_terminal_settlement option)" where
  "derive_session_state run assignment terminal findings path =
     (let run_is = (\<lambda>states. run_state run \<in> states) in
      case map_option jo_status terminal of
        None \<Rightarrow>
          if run_is {RunLeased, RunRunning} then Inr (SessionRunning, None)
          else if run_is {RunCandidateReady, RunSettled, RunFailed, RunCancelled} then Inr (SessionIncomplete, None)
          else Inl (relationship_mismatch (path @ ''.acceptedJobOutcome.status'')
            ''accepted terminal JobOutcome status does not match the terminal WorkRun'')
      | Some status \<Rightarrow>
          if run_is {RunLeased}
          then Inl (relationship_mismatch (path @ ''.acceptedJobOutcome'')
            ''an active WorkRun cannot have an accepted terminal JobOutcome'')
          else if run_is {RunRunning, RunCandidateReady, RunSettled} \<and> status = JobSucceeded
          then (if assignment \<noteq> None \<and> findings \<noteq> [] then Inr (SessionSettled, Some TerminalIsSettled)
                else Inr (SessionIncomplete, Some TerminalIsSettled))
          else if run_is {RunFailed} \<and> status = JobFailed then Inr (SessionFailed, Some TerminalIsFailed)
          else if run_is {RunFailed} \<and> status = JobInfrastructureError
          then Inr (SessionFailed, Some TerminalIsInfrastructureError)
          else if run_is {RunCancelled} \<and> status = JobCancelled then Inr (SessionCancelled, Some TerminalIsCancelled)
          else Inl (relationship_mismatch (path @ ''.acceptedJobOutcome.status'')
            ''accepted terminal JobOutcome status does not match the terminal WorkRun''))"

section \<open>The projection\<close>

text \<open>\<^verbatim>\<open>max_by_key\<close> keeps the last of equal elements.\<close>

definition latest_binding :: "delivery_binding list \<Rightarrow> delivery_binding option" where
  "latest_binding bindings =
     foldl (\<lambda>best b. case best of
         None \<Rightarrow> Some b
       | Some a \<Rightarrow>
           if db_bound_at_millis b < db_bound_at_millis a
              \<or> db_bound_at_millis b = db_bound_at_millis a \<and> db_attempt b < db_attempt a
           then Some a else Some b)
       None bindings"

definition same_work :: "delivery_binding \<Rightarrow> delivery_binding \<Rightarrow> bool" where
  "same_work a b \<longleftrightarrow>
     db_work_contract_id a = db_work_contract_id b \<and> db_work_contract_revision a = db_work_contract_revision b
     \<and> db_work_item_id a = db_work_item_id b \<and> db_work_item_revision a = db_work_item_revision b"

definition round_bindings :: "delivery_snapshot \<Rightarrow> delivery_binding list" where
  "round_bindings d = drop (verification_round_floor d) (ds_session_bindings d)"

definition session_checks :: "delivery_binding \<Rightarrow> verification_session_facts \<Rightarrow> string \<Rightarrow> delivery_check" where
  "session_checks binding session path =
     check_all
       [ensure (\<not> (sf_workspace_mode session \<noteq> CandidateReadOnly \<or> sf_permission_profile session \<noteq> CandidateReadOnlyRestricted))
          (invalid_verification (path @ ''.workspacePolicy'')
             ''verification workspace must use candidate-read-only mode and its restricted permission profile''),
        ensure (db_work_run_id binding = sf_work_run_id session)
          (relationship_mismatch path ''verification Session does not reference the role's current WorkRun''),
        ensure (db_id binding = sf_session_binding_id session)
          (relationship_mismatch path
             ''current verification WorkRun does not match the referenced SessionBinding'')]"

definition settle_session ::
    "(string \<Rightarrow> string) \<Rightarrow> delivery_snapshot \<Rightarrow> frozen_candidate \<Rightarrow> string \<Rightarrow> verification_role \<Rightarrow> work_run \<Rightarrow> delivery_binding
     \<Rightarrow> verification_session_facts \<Rightarrow> delivery_validation_error + role_settlement" where
  "settle_session sha256 d c path role run binding session =
     rbind (session_checks binding session path) (\<lambda>_.
     rbind (validate_assignment sha256 binding run session c path) (\<lambda>assignment.
     rbind (validate_terminal_job_outcome sha256 run binding assignment session c path) (\<lambda>terminal.
     rbind (validate_findings d c session terminal path) (\<lambda>findings.
     rbind (derive_session_state run assignment terminal findings path) (\<lambda>(state, settlement).
     Inr \<lparr>rs_role = role, rs_state = state, rs_assignment = assignment, rs_findings = findings,
       rs_terminal_job_outcome = terminal, rs_terminal_settlement = settlement\<rparr>)))))"

text \<open>The body of the loop over the required roles.\<close>

definition settle_role ::
    "(string \<Rightarrow> string) \<Rightarrow> delivery_snapshot \<Rightarrow> frozen_candidate \<Rightarrow> verification_facts \<Rightarrow> delivery_binding \<Rightarrow> string
     \<Rightarrow> taken_identities \<Rightarrow> verification_role \<Rightarrow> delivery_validation_error + (role_settlement \<times> taken_identities)" where
  "settle_role sha256 d c facts writer path taken role =
     (let matching = filter (\<lambda>s. sf_role s = role) (vn_sessions facts) in
      if length matching > 1
      then Inl (relationship_mismatch path ''verification role must have exactly one current Session fact'')
      else case latest_binding (filter (\<lambda>b. db_execution_profile b = Some (role_id role) \<and> same_work b writer) (round_bindings d)) of
        None \<Rightarrow>
          if matching = [] then Inr (missing_settlement role, taken)
          else Inl (relationship_mismatch path ''verification role has no accepted assignment'')
      | Some current \<Rightarrow>
          if length (filter (\<lambda>b. db_execution_profile b = db_execution_profile current \<and> same_work b current
               \<and> db_bound_at_millis b = db_bound_at_millis current \<and> db_attempt b = db_attempt current) (round_bindings d)) \<noteq> 1
          then Inl (relationship_mismatch path ''verification role assignment is ambiguous'')
          else
            rbind (current_role_run d (db_work_run_id current) path) (\<lambda>run.
            rbind (validate_role_consumes_candidate d run c path) (\<lambda>_.
            rbind (current_role_binding d run path) (\<lambda>binding.
            rbind (ensure_distinct_assignment run binding path taken) (\<lambda>taken.
            case matching of
              [] \<Rightarrow> Inr (missing_settlement role, taken)
            | session # _ \<Rightarrow>
                rbind (settle_session sha256 d c path role run binding session) (\<lambda>settlement. Inr (settlement, taken)))))))"

fun settle_roles ::
    "(string \<Rightarrow> string) \<Rightarrow> delivery_snapshot \<Rightarrow> frozen_candidate \<Rightarrow> verification_facts \<Rightarrow> delivery_binding \<Rightarrow> nat
     \<Rightarrow> taken_identities \<Rightarrow> verification_role list \<Rightarrow> delivery_validation_error + role_settlement list" where
  "settle_roles sha256 d c facts writer index taken [] = Inr []"
| "settle_roles sha256 d c facts writer index taken (role # roles) =
     rbind (settle_role sha256 d c facts writer (at_index ''verification.sessions'' index) taken role) (\<lambda>(settlement, taken).
     rbind (settle_roles sha256 d c facts writer (index + 1) taken roles) (\<lambda>rest.
     Inr (settlement # rest)))"

definition writer_identities ::
    "frozen_candidate \<Rightarrow> delivery_binding \<Rightarrow> string \<Rightarrow> string \<Rightarrow> taken_identities" where
  "writer_identities c writer worker_session thread =
     \<lparr>ti_work_runs = {fc_producer_work_run_id c}, ti_bindings = {fc_producer_session_binding_id c},
      ti_product_sessions = {db_product_session_id writer}, ti_execution_jobs = {db_execution_job_id writer},
      ti_worker_sessions = {worker_session}, ti_codex_threads = {thread}\<rparr>"

definition snapshot_checks ::
    "(string \<Rightarrow> string) \<Rightarrow> frozen_candidate \<Rightarrow> verification_facts \<Rightarrow> role_settlement list \<Rightarrow> delivery_check" where
  "snapshot_checks sha256 c facts settlements =
     (let snapshots = List.map_filter sf_pre_candidate_snapshot (vn_sessions facts) in
      check_all
        [ensure (\<not> list_ex (\<lambda>(a, b). a \<noteq> b) (zip snapshots (tl snapshots)))
           (relationship_mismatch ''verification.snapshotId''
              ''verification roles disagree about their canonical Snapshot product''),
         ensure (\<not> (\<not> verify_snapshot_seal sha256 (vn_snapshot facts)
             \<or> \<not> snapshot_matches_candidate (vn_snapshot facts) c
             \<or> list_ex (\<lambda>s. s \<noteq> vn_snapshot facts) snapshots))
           (relationship_mismatch ''verification.snapshotId''
              ''verification must resolve to its canonical Candidate and Snapshot''),
         ensure (\<not> card (set (map va_snapshot_id (List.map_filter rs_assignment settlements))) > 1)
           (relationship_mismatch ''verification.snapshotId''
              ''all verification roles must consume the same canonical Snapshot'')])"

definition validate_independent_verification ::
    "'z verdict_env_scheme \<Rightarrow> delivery_snapshot \<Rightarrow> frozen_candidate \<Rightarrow> verification_facts
     \<Rightarrow> delivery_validation_error + independent_verification" where
  "validate_independent_verification env d c facts =
     rbind (check_all
       [assert_frozen_candidate_current env d c,
        validate_required_roles (vn_required_roles facts),
        ensure (\<not> list_ex (\<lambda>s. sf_role s \<notin> set (vn_required_roles facts)) (vn_sessions facts))
          (invalid_verification ''verification.sessions'' ''verification Session role was not requested'')]) (\<lambda>_.
     rbind (ok_or (find (\<lambda>b. db_id b = fc_producer_session_binding_id c) (ds_session_bindings d))
       (relationship_mismatch ''verification.sessions'' ''candidate writer SessionBinding is missing'')) (\<lambda>writer.
     rbind (ok_or (db_worker_session_id writer)
       (relationship_mismatch ''verification.sessions'' ''candidate writer WorkerSession is missing'')) (\<lambda>worker_session.
     rbind (ok_or (db_codex_thread_id writer)
       (relationship_mismatch ''verification.sessions'' ''candidate writer CodexThread is missing'')) (\<lambda>thread.
     rbind (settle_roles (de_sha256 env) d c facts writer 0 (writer_identities c writer worker_session thread)
       (vn_required_roles facts)) (\<lambda>settlements.
     rbind (snapshot_checks (de_sha256 env) c facts settlements) (\<lambda>_.
     rbind (seal_source_delivery env d) (\<lambda>seal.
     Inr \<lparr>iv_snapshot = vn_snapshot facts, iv_candidate_ref = fc_candidate_ref c, iv_settlements = settlements,
       iv_source_delivery_seal = seal\<rparr>)))))))"

end
