(* ===== verification/Delivery_Evidence.thy ===== *)
theory Delivery_Evidence
  imports Delivery_Verification
begin

text \<open>
  \<^verbatim>\<open>domain/evidence.rs\<close>: how evidence is resolved. What a worker ran is evidence when exactly one accepted source fact has
  its event, that fact comes from the fenced execution whose terminal outcome was accepted, the checkout was the
  frozen candidate, and the times fit. Facts of the candidate itself are evidence of its producer. The outer option
  is \<open>None\<close> where the code panics.
\<close>

section \<open>Facts and errors\<close>

datatype evidence_resolution_error_code =
    EvInvalidEvidence
  | EvCandidateStale
  | EvSessionMismatch
  | EvSourceMissing
  | EvSourceAmbiguous
  | EvTypeMismatch
  | EvCandidateMismatch
  | EvSourceTimeMismatch

record evidence_resolution_error =
  ee_code :: evidence_resolution_error_code
  ee_message :: string

text \<open>
  The identity of the fenced execution, whose fields \<^verbatim>\<open>checkout_identity\<close> and \<^verbatim>\<open>runtime_source_identity\<close> pick out of a
  fact, is one field of the fact here.
\<close>

record checkout_attestation =
  ck_execution :: fenced_execution_identity
  ck_repository :: repository_ref
  ck_commit_id :: string
  ck_tree_id :: string

record accepted_runtime_source =
  ar_execution :: fenced_execution_identity
  ar_source_event_id :: string
  ar_evidence_type :: evidence_ref_type
  ar_source_sequence :: u64
  ar_candidate_ref :: string
  ar_occurred_at_millis :: u64
  ar_outcome :: evidence_outcome_kind
  ar_command_digest :: string

datatype evidence_source =
    RuntimeEvidence evidence_ref_type string "accepted_runtime_source list" accepted_job_outcome checkout_attestation
  | CandidateCommit
  | CandidateDiff
  | CandidateFile string

record resolve_evidence_input =
  ei_snapshot :: canonical_snapshot
  ei_work_run_id :: string
  ei_session_binding_id :: string
  ei_source :: evidence_source
  ei_created_at_millis :: u64

record resolved_evidence_source =
  rv_evidence_type :: evidence_ref_type
  rv_source_ref :: string
  rv_outcome :: evidence_outcome_kind
  rv_identity :: evidence_source_identity

definition resolution_error :: "evidence_resolution_error_code \<Rightarrow> string \<Rightarrow> evidence_resolution_error" where
  "resolution_error code message = \<lparr>ee_code = code, ee_message = message\<rparr>"

text \<open>\<^verbatim>\<open>Display\<close> of a validation error.\<close>

definition validation_error_text :: "delivery_validation_error \<Rightarrow> string" where
  "validation_error_text e = dv_path e @ '': '' @ dv_message e"

text \<open>\<^verbatim>\<open>?\<close> on a result of a call that may panic.\<close>

definition pbind :: "('e + 'a) option \<Rightarrow> ('a \<Rightarrow> ('e + 'b) option) \<Rightarrow> ('e + 'b) option" where
  "pbind r f = (case r of None \<Rightarrow> None | Some (Inl e) \<Rightarrow> Some (Inl e) | Some (Inr a) \<Rightarrow> f a)"

lemma pbind_Inr_iff: "pbind r f = Some (Inr b) \<longleftrightarrow> (\<exists>a. r = Some (Inr a) \<and> f a = Some (Inr b))"
  by (auto simp: pbind_def split: option.splits sum.splits)

definition checkout_attestation_from_snapshot ::
    "accepted_job_outcome \<Rightarrow> canonical_snapshot \<Rightarrow> repository_ref \<Rightarrow> checkout_attestation" where
  "checkout_attestation_from_snapshot t s repository =
     \<lparr>ck_execution = (terminal_identity t)\<lparr>fe_snapshot_id := sn_snapshot_id s\<rparr>, ck_repository = repository,
      ck_commit_id = sn_candidate_commit_id s, ck_tree_id = sn_candidate_tree_id s\<rparr>"

definition accepted_runtime_source_of ::
    "accepted_job_outcome \<Rightarrow> frozen_candidate \<Rightarrow> string \<Rightarrow> evidence_ref_type \<Rightarrow> u64 \<Rightarrow> u64 \<Rightarrow> evidence_outcome_kind \<Rightarrow> string
     \<Rightarrow> accepted_runtime_source" where
  "accepted_runtime_source_of t c source_event_id evidence_type source_sequence occurred_at outcome digest =
     \<lparr>ar_execution = terminal_identity t, ar_source_event_id = source_event_id, ar_evidence_type = evidence_type,
      ar_source_sequence = source_sequence, ar_candidate_ref = fc_candidate_ref c, ar_occurred_at_millis = occurred_at,
      ar_outcome = outcome, ar_command_digest = digest\<rparr>"

section \<open>Sources in the candidate\<close>

definition assert_direct_candidate_producer ::
    "frozen_candidate \<Rightarrow> work_run \<Rightarrow> delivery_binding \<Rightarrow> work_run \<Rightarrow> u64 \<Rightarrow> evidence_resolution_error + unit" where
  "assert_direct_candidate_producer c run binding producer created_at =
     check_all
       [ensure (\<not> (run_id run \<noteq> run_id producer \<or> run_id run \<noteq> fc_producer_work_run_id c
             \<or> db_id binding \<noteq> fc_producer_session_binding_id c))
          (resolution_error EvSessionMismatch
             ''direct candidate evidence must retain its producer WorkRun and SessionBinding''),
        ensure (run_state producer \<in> {RunCandidateReady, RunSettled})
          (resolution_error EvSourceTimeMismatch ''direct candidate evidence requires a settled producer WorkRun''),
        ensure (\<not> created_at < fc_producer_finished_at_millis c)
          (resolution_error EvSourceTimeMismatch
             ''direct candidate evidence must follow the producer WorkRun terminal time'')]"

definition upper_hex_nibble :: "nat \<Rightarrow> char" where
  "upper_hex_nibble n = (if n < 10 then char_of (48 + n) else char_of (55 + n))"

definition uri_plain :: "char \<Rightarrow> bool" where
  "uri_plain c \<longleftrightarrow> is_ascii_alphanumeric c \<or> c \<in> set ''-_.!~*()'' \<or> c = CHR 0x27"

definition encode_uri_component :: "string \<Rightarrow> string" where
  "encode_uri_component value =
     concat (map (\<lambda>c. if uri_plain c then [c]
       else [CHR ''%'', upper_hex_nibble (byte c div 16), upper_hex_nibble (byte c mod 16)]) value)"

definition resolve_direct_candidate_file ::
    "frozen_candidate \<Rightarrow> string \<Rightarrow> evidence_resolution_error + resolved_evidence_source" where
  "resolve_direct_candidate_file c path =
     (let missing = resolution_error EvSourceMissing ''candidate file is absent from the frozen changed-path facts'' in
      case find (\<lambda>f. pf_path f = path) (fc_changed_paths c) of
        None \<Rightarrow> Inl missing
      | Some f \<Rightarrow>
          if pf_state f \<noteq> PathPresent then Inl missing
          else case pf_object_id f of
            None \<Rightarrow> Inl missing
          | Some object_id \<Rightarrow>
              Inr \<lparr>rv_evidence_type = EvidenceFile,
                rv_source_ref = ''git_file:'' @ fc_candidate_tree_id c @ '':'' @ encode_uri_component (pf_path f) @ ''@'' @ object_id,
                rv_outcome = OutcomeObserved,
                rv_identity = CandidateFileSource (fc_candidate_ref c) (fc_candidate_tree_id c) (pf_path f) object_id\<rparr>)"

definition resolve_direct_candidate_source ::
    "frozen_candidate \<Rightarrow> work_run \<Rightarrow> delivery_binding \<Rightarrow> work_run \<Rightarrow> u64 \<Rightarrow> evidence_source
     \<Rightarrow> evidence_resolution_error + resolved_evidence_source" where
  "resolve_direct_candidate_source c run binding producer created_at source =
     rbind (assert_direct_candidate_producer c run binding producer created_at) (\<lambda>_.
     case source of
       CandidateCommit \<Rightarrow>
         Inr \<lparr>rv_evidence_type = EvidenceCommit, rv_source_ref = ''git_commit:'' @ fc_candidate_commit_id c,
           rv_outcome = OutcomeObserved, rv_identity = CandidateCommitSource (fc_candidate_ref c) (fc_candidate_commit_id c)\<rparr>
     | CandidateDiff \<Rightarrow>
         Inr \<lparr>rv_evidence_type = EvidenceDiff, rv_source_ref = ''git_diff:sha256:'' @ fc_diff_sha256 c,
           rv_outcome = OutcomeObserved, rv_identity = CandidateDiffSource (fc_candidate_ref c) (fc_diff_sha256 c)\<rparr>
     | CandidateFile path \<Rightarrow> resolve_direct_candidate_file c path
     | RuntimeEvidence _ _ _ _ _ \<Rightarrow>
         Inl (resolution_error EvInvalidEvidence ''runtime Evidence must use the accepted runtime-source resolver''))"

section \<open>Sources that were run\<close>

definition terminal_matches_binding :: "accepted_job_outcome \<Rightarrow> work_run \<Rightarrow> delivery_binding \<Rightarrow> string \<Rightarrow> string \<Rightarrow> bool" where
  "terminal_matches_binding t run binding worker_session thread \<longleftrightarrow>
     jo_product_session_id t = db_product_session_id binding
     \<and> jo_execution_job_id t = db_execution_job_id binding
     \<and> jo_worker_session_id t = worker_session
     \<and> jo_codex_thread_id t = thread
     \<and> jo_work_run_id t = run_id run
     \<and> jo_attempt t = attempt_or_zero run"

definition validate_runtime_terminal ::
    "frozen_candidate \<Rightarrow> work_run \<Rightarrow> delivery_binding \<Rightarrow> accepted_job_outcome \<Rightarrow> u64
     \<Rightarrow> (evidence_resolution_error + fenced_execution_identity) option" where
  "validate_runtime_terminal c run binding t created_at =
     (case (db_worker_session_id binding, db_codex_thread_id binding) of
        (Some worker_session, Some thread) \<Rightarrow>
          if \<not> terminal_matches_binding t run binding worker_session thread
          then Some (Inl (resolution_error EvSessionMismatch
            ''runtime terminal result belongs to another product, job, worker, thread, stage, or role''))
          else if jo_terminal_candidate_tree_id t \<noteq> fc_candidate_tree_id c
          then Some (Inl (resolution_error EvCandidateMismatch ''runtime terminal result belongs to another candidate tree''))
          else case accepted_terminal_sequence t of
            None \<Rightarrow> None
          | Some terminal_sequence \<Rightarrow>
              if terminal_sequence = 0 \<or> terminal_sequence > MAX_SAFE_INTEGER
                 \<or> jo_finished_at_millis t > MAX_SAFE_INTEGER
                 \<or> jo_finished_at_millis t < db_bound_at_millis binding
                 \<or> created_at < jo_finished_at_millis t
              then Some (Inl (resolution_error EvSourceTimeMismatch
                ''runtime terminal result must close this WorkRun before Evidence is created''))
              else Some (Inr (terminal_identity t))
      | _ \<Rightarrow> None)"

definition validate_checkout_attestation ::
    "frozen_candidate \<Rightarrow> checkout_attestation \<Rightarrow> fenced_execution_identity \<Rightarrow> evidence_resolution_error + unit" where
  "validate_checkout_attestation c checkout expected =
     check_all
       [ensure (ck_execution checkout = expected)
          (resolution_error EvSessionMismatch ''checkout attestation belongs to another fenced execution''),
        ensure (\<not> (ck_repository checkout \<noteq> fc_repository c \<or> ck_commit_id checkout \<noteq> fc_candidate_commit_id c
             \<or> ck_tree_id checkout \<noteq> fc_candidate_tree_id c))
          (resolution_error EvCandidateMismatch ''runtime source did not execute from the frozen candidate checkout'')]"

definition validate_runtime_source_position ::
    "accepted_runtime_source \<Rightarrow> delivery_binding \<Rightarrow> accepted_job_outcome \<Rightarrow> u64
     \<Rightarrow> (evidence_resolution_error + unit) option" where
  "validate_runtime_source_position source binding t created_at =
     (let failed = Some (Inl (resolution_error EvSourceTimeMismatch
            ''runtime source must follow its binding and strictly precede Evidence'')) in
      if ar_source_sequence source \<noteq> 0 \<and> ar_source_sequence source \<le> MAX_SAFE_INTEGER
         \<and> ar_occurred_at_millis source \<le> MAX_SAFE_INTEGER
         \<and> ar_occurred_at_millis source \<ge> db_bound_at_millis binding
      then (case accepted_terminal_sequence t of
              None \<Rightarrow> None
            | Some terminal_sequence \<Rightarrow>
                if ar_source_sequence source \<le> terminal_sequence
                   \<and> ar_occurred_at_millis source \<le> jo_finished_at_millis t
                   \<and> ar_occurred_at_millis source < created_at
                then Some (Inr ()) else failed)
      else failed)"

definition resolve_runtime_source ::
    "frozen_candidate \<Rightarrow> work_run \<Rightarrow> delivery_binding \<Rightarrow> evidence_ref_type \<Rightarrow> string \<Rightarrow> accepted_runtime_source list
     \<Rightarrow> accepted_job_outcome \<Rightarrow> checkout_attestation \<Rightarrow> u64 \<Rightarrow> (evidence_resolution_error + resolved_evidence_source) option" where
  "resolve_runtime_source c run binding evidence_type source_event_id accepted_sources t checkout created_at =
     (if evidence_type = EvidencePullRequest
      then Some (Inl (resolution_error EvInvalidEvidence ''runtime evidence type is unsupported''))
      else
      pbind (Some (map_err (\<lambda>e. resolution_error EvInvalidEvidence
          (''runtime source position is invalid: '' @ validation_error_text e))
        (portable_identifier source_event_id ''evidence.sourceEventId''))) (\<lambda>_.
      pbind (validate_runtime_terminal c run binding t created_at) (\<lambda>expected.
      pbind (Some (validate_checkout_attestation c checkout expected)) (\<lambda>_.
      case filter (\<lambda>f. ar_source_event_id f = source_event_id) accepted_sources of
        [] \<Rightarrow> Some (Inl (resolution_error EvSourceMissing ''accepted runtime evidence source position is missing''))
      | [source] \<Rightarrow>
          pbind (Some (check_all
            [ensure (ar_execution source = expected)
               (resolution_error EvSessionMismatch
                  ''runtime source belongs to another product, job, worker, thread, stage, or role''),
             ensure (ar_evidence_type source = evidence_type)
               (resolution_error EvTypeMismatch ''runtime source type does not match the requested Evidence type''),
             ensure (ar_candidate_ref source = fc_candidate_ref c)
               (resolution_error EvCandidateMismatch ''runtime source belongs to another frozen candidate'')])) (\<lambda>_.
          pbind (validate_runtime_source_position source binding t created_at) (\<lambda>_.
          let source_ref = ''runtime_event:'' @ source_event_id in
          pbind (Some (map_err (\<lambda>e. resolution_error EvInvalidEvidence
              (''runtime source reference is invalid: '' @ validation_error_text e))
            (bounded_text source_ref ''evidence.sourceRef'' MAX_REFERENCE_LENGTH))) (\<lambda>_.
          case accepted_terminal_sequence t of
            None \<Rightarrow> None
          | Some terminal_sequence \<Rightarrow>
              Some (Inr \<lparr>rv_evidence_type = evidence_type, rv_source_ref = source_ref, rv_outcome = ar_outcome source,
                rv_identity = RuntimeSource \<lparr>ri_execution = expected, ri_source_sequence = ar_source_sequence source,
                  ri_terminal_last_event_sequence = terminal_sequence, ri_candidate_ref = ar_candidate_ref source,
                  ri_checkout_commit_id = ck_commit_id checkout, ri_checkout_tree_id = ck_tree_id checkout,
                  ri_command_digest = ar_command_digest source\<rparr>\<rparr>))))
      | _ \<Rightarrow> Some (Inl (resolution_error EvSourceAmbiguous
          ''accepted runtime evidence source position occurs more than once''))))))"

section \<open>Resolution\<close>

definition is_runtime :: "evidence_source \<Rightarrow> bool" where
  "is_runtime source = (case source of RuntimeEvidence _ _ _ _ _ \<Rightarrow> True | _ \<Rightarrow> False)"

definition evidence_work_run_and_binding ::
    "delivery_snapshot \<Rightarrow> frozen_candidate \<Rightarrow> resolve_evidence_input
     \<Rightarrow> evidence_resolution_error + (work_run \<times> delivery_binding \<times> work_run)" where
  "evidence_work_run_and_binding d c input =
     rbind (ok_or (find (\<lambda>r. run_id r = ei_work_run_id input) (ag_runs (ds_work_run_aggregate d)))
       (resolution_error EvSessionMismatch ''evidence WorkRun is missing'')) (\<lambda>run.
     rbind (ok_or (find (\<lambda>b. db_id b = ei_session_binding_id input) (ds_session_bindings d))
       (resolution_error EvSessionMismatch ''evidence SessionBinding is missing'')) (\<lambda>binding.
     rbind (ensure (\<not> (db_delivery_id binding \<noteq> ds_id d
         \<or> db_work_run_id binding \<noteq> run_id run
         \<or> db_attempt binding \<noteq> attempt_or_zero run
         \<or> db_worker_session_id binding = None
         \<or> db_codex_thread_id binding = None
         \<or> ei_created_at_millis input < db_bound_at_millis binding))
       (resolution_error EvSessionMismatch ''evidence does not match one complete current WorkRun SessionBinding'')) (\<lambda>_.
     rbind (ok_or (find (\<lambda>r. run_id r = fc_producer_work_run_id c) (ag_runs (ds_work_run_aggregate d)))
       (resolution_error EvCandidateStale ''candidate producer WorkRun is missing'')) (\<lambda>producer.
     let independent_reader = is_runtime (ei_source input)
           \<and> db_execution_profile binding \<in> {Some ''reviewer'', Some ''verifier'', Some ''adversarial-verifier''}
           \<and> run_work_contract_id run = run_work_contract_id producer
           \<and> run_contract_revision run = run_contract_revision producer
     in rbind (ensure (\<not> (run_id run \<noteq> run_id producer \<and> run_work_item_id run \<noteq> run_work_item_id producer \<and> \<not> independent_reader))
       (resolution_error EvCandidateMismatch ''evidence WorkRun does not consume the current candidate task scope'')) (\<lambda>_.
     Inr (run, binding, producer))))))"

type_synonym evidence_identity =
  "string \<times> string \<times> u64 \<times> string \<times> string \<times> string \<times> string \<times> evidence_ref_type \<times> string \<times> evidence_source_identity"

definition canonical_evidence_id :: "string \<Rightarrow> string" where
  "canonical_evidence_id digest = ''evd_'' @ base32_digits 26 (foldl (\<lambda>v c. v * 256 + byte c) 0 (take 16 digest))"

definition deterministic_evidence_id :: "(string \<Rightarrow> string) \<Rightarrow> string + string \<Rightarrow> evidence_resolution_error + string" where
  "deterministic_evidence_id sha256 encoded =
     rbind (map_err (\<lambda>e. resolution_error EvInvalidEvidence (''failed to encode the canonical Evidence identity: '' @ e)) encoded)
       (\<lambda>bytes. Inr (canonical_evidence_id (sha256 bytes)))"

text \<open>The encoding of an evidence's identity is one more parameter.\<close>

definition resolve_delivery_evidence ::
    "'z verdict_env_scheme \<Rightarrow> (evidence_identity \<Rightarrow> string + string) \<Rightarrow> delivery_snapshot \<Rightarrow> frozen_candidate
     \<Rightarrow> resolve_evidence_input \<Rightarrow> (evidence_resolution_error + resolved_evidence) option" where
  "resolve_delivery_evidence env identity_json d c input =
     pbind (Some (map_err (\<lambda>e. resolution_error EvCandidateStale (''frozen candidate is not current: '' @ validation_error_text e))
       (assert_frozen_candidate_current env d c))) (\<lambda>_.
     pbind (Some (check_all
       [ensure (\<not> (\<not> verify_snapshot_seal (de_sha256 env) (ei_snapshot input) \<or> \<not> snapshot_matches_candidate (ei_snapshot input) c))
          (resolution_error EvCandidateMismatch ''Evidence requires the canonical Snapshot of its exact Candidate''),
        (case ei_source input of
           RuntimeEvidence _ _ _ t _ \<Rightarrow>
             ensure (jo_snapshot_id t = sn_snapshot_id (ei_snapshot input))
               (resolution_error EvCandidateMismatch ''runtime Evidence has a foreign Snapshot binding'')
         | _ \<Rightarrow> Inr ())])) (\<lambda>_.
     pbind (Some (evidence_work_run_and_binding d c input)) (\<lambda>(run, binding, producer).
     pbind (case ei_source input of
         RuntimeEvidence evidence_type source_event_id accepted_sources t checkout \<Rightarrow>
           resolve_runtime_source c run binding evidence_type source_event_id accepted_sources t checkout (ei_created_at_millis input)
       | direct \<Rightarrow> Some (resolve_direct_candidate_source c run binding producer (ei_created_at_millis input) direct)) (\<lambda>source.
     pbind (Some (deterministic_evidence_id (de_sha256 env) (identity_json (ds_id d, sp_id (ds_spec d), sp_revision (ds_spec d),
         sn_snapshot_id (ei_snapshot input), fc_candidate_id c, run_id run, db_id binding, rv_evidence_type source,
         rv_source_ref source, rv_identity source)))) (\<lambda>evidence_id.
     let reference = \<lparr>er_schema_version = DELIVERY_SCHEMA_VERSION, er_id = evidence_id, er_delivery_id = ds_id d,
           er_delivery_spec_id = sp_id (ds_spec d), er_delivery_spec_revision = sp_revision (ds_spec d),
           er_work_run_id = run_id run, er_session_binding_id = db_id binding,
           er_snapshot_id = sn_snapshot_id (ei_snapshot input), er_candidate_id = fc_candidate_id c,
           er_evidence_type = rv_evidence_type source, er_source_ref = rv_source_ref source,
           er_created_at_millis = ei_created_at_millis input\<rparr>
     in pbind (Some (map_err (\<lambda>e. resolution_error EvInvalidEvidence (''resolved EvidenceRef is invalid: '' @ validation_error_text e))
       (validate_evidence reference ''evidence''))) (\<lambda>_.
     Some (Inr \<lparr>re_evidence = reference, re_outcome = rv_outcome source, re_source_identity = rv_identity source\<rparr>)))))))"

end
