(* ===== verification/Delivery_Team.thy ===== *)
theory Delivery_Team
  imports Delivery_Sample Delivery_Evidence
begin

text \<open>
  A delivery with independent verifiers, from its facts to a passing verdict: the example on which the promises of
  \<open>Delivery_Chain\<close> are evaluated.
\<close>

section \<open>A delivery with a writer, a reviewer and a verifier\<close>

text \<open>The digest tells the identity of the reviewer's evidence from every other text.\<close>

definition team_sha256 :: "string \<Rightarrow> string" where
  "team_sha256 x = (if x = ''2'' then replicate 15 (CHR 0x00) @ CHR 0x01 # replicate 16 (CHR 0x00) else replicate 32 (CHR 0x00))"

definition team_env :: verdict_env where
  "team_env = sample_env\<lparr>de_sha256 := team_sha256\<rparr>"

definition team_profile :: "char \<Rightarrow> string" where
  "team_profile n = (if n = CHR ''1'' then ''executor'' else if n = CHR ''2'' then ''reviewer'' else ''verifier'')"

definition team_role :: "char \<Rightarrow> verification_role" where
  "team_role n = (if n = CHR ''2'' then RoleReviewer else RoleVerifier)"

definition team_run :: "char \<Rightarrow> work_run" where
  "team_run n = \<lparr>run_attempt = 1, run_candidate_digest = None, run_codex_thread_id = Some (sample_id ''cdx_'' n), run_contract_revision = 1,
     run_execution_job_id = sample_id ''job_'' n, run_fencing_token = ''1'', run_id = sample_id ''wrn_'' n,
     run_lease_id = sample_id ''lse_'' n, run_product_session_id = Some (sample_id ''psn_'' n), run_revision = 1, run_schema_version = 1,
     run_state = RunSettled, run_work_contract_id = sample_id ''wct_'' (CHR ''1''), run_worker_id = sample_id ''wrk_'' (CHR ''1''),
     run_worker_instance_id = sample_id ''wki_'' (CHR ''1''), run_worker_session_id = sample_id ''wsn_'' n,
     run_work_item_id = sample_id ''wit_'' (CHR ''2''), run_work_item_revision = 1\<rparr>"

definition team_binding :: "char \<Rightarrow> delivery_binding" where
  "team_binding n = \<lparr>db_schema_version = 3, db_id = sample_id ''b'' n, db_delivery_id = sample_id ''dlv_'' (CHR ''1''),
     db_work_contract_id = sample_id ''wct_'' (CHR ''1''), db_work_contract_revision = 1,
     db_work_item_id = sample_id ''wit_'' (CHR ''2''), db_work_item_revision = 1, db_work_run_id = sample_id ''wrn_'' n,
     db_product_session_id = sample_id ''psn_'' n, db_execution_job_id = sample_id ''job_'' n,
     db_execution_profile = Some (team_profile n),
     db_runtime_context = Some \<lparr>sr_agent_identity = \<lparr>sa_id = ''agt_1'', sa_worker_id = sample_id ''wrk_'' (CHR ''1''),
         sa_name = ''n'', sa_role = team_profile n\<rparr>, sr_provider = ''p'', sr_model = ''m'',
       sr_workspace = \<lparr>sw_repository_id = ''r'', sw_revision = ''git-tree:1'', sw_write_mode = ''candidate''\<rparr>\<rparr>,
     db_worker_session_id = Some (sample_id ''wsn_'' n), db_codex_thread_id = Some (sample_id ''cdx_'' n),
     db_worker_id = Some (sample_id ''wrk_'' (CHR ''1'')), db_worker_instance_id = Some (sample_id ''wki_'' (CHR ''1'')),
     db_lease_id = Some (sample_id ''lse_'' n), db_attempt = 1, db_fencing_token = Some ''1'',
     db_source_provenance = \<lparr>so_kind = FromExecutionPort, so_reference = ''m''\<rparr>, db_bound_at_millis = 0\<rparr>"

definition team_delivery :: "evidence_ref list \<Rightarrow> delivery_verdict option \<Rightarrow> u64 \<Rightarrow> delivery_snapshot" where
  "team_delivery evidence verdict updated = \<lparr>ds_schema_version = 3, ds_id = sample_id ''dlv_'' (CHR ''1''), ds_revision = 1,
     ds_status = StatusReady, ds_spec = sample_spec (Some ''t''), ds_session_bindings = map team_binding ''123'',
     ds_same_candidate_reverification = None, ds_attention_items = [], ds_evidence = evidence, ds_verdict = verdict,
     ds_created_at_millis = 0, ds_updated_at_millis = updated,
     ds_work_run_aggregate = sample_aggregate ItemDone (map team_run ''123'')\<rparr>"

definition team_commit :: string where "team_commit = replicate 40 (CHR ''c'')"

definition team_candidate :: frozen_candidate where
  "team_candidate = sample_candidate\<lparr>fc_producer_session_binding_id := sample_id ''b'' (CHR ''1''),
     fc_candidate_ref := ''refs/winwincode/candidates/'' @ team_commit, fc_candidate_commit_id := team_commit,
     fc_candidate_tree_id := replicate 40 (CHR ''d''), fc_diff_sha256 := replicate 64 (CHR ''1'')\<rparr>"

definition team_snapshot :: canonical_snapshot where
  "team_snapshot = (sample_snapshot 0)\<lparr>sn_snapshot_id := sample_id ''snap_'' (CHR ''1''), sn_candidate_id := sample_id ''cnd_'' (CHR ''1''),
     sn_work_run_id := sample_id ''wrn_'' (CHR ''1''), sn_base_commit_id := [], sn_base_tree_id := [],
     sn_candidate_commit_id := team_commit, sn_candidate_tree_id := replicate 40 (CHR ''d''),
     sn_validation_seal := digest_text (replicate 32 (CHR 0x00))\<rparr>"

definition team_terminal :: "char \<Rightarrow> accepted_job_outcome" where
  "team_terminal n = \<lparr>jo_snapshot_id = sample_id ''snap_'' (CHR ''1''), jo_product_session_id = sample_id ''psn_'' n,
     jo_work_run_id = sample_id ''wrn_'' n, jo_role_id = team_profile n, jo_execution_job_id = sample_id ''job_'' n,
     jo_attempt = 1, jo_lease_id = sample_id ''lse_'' n, jo_fencing_token = ''1'', jo_worker_id = sample_id ''wrk_'' (CHR ''1''),
     jo_worker_instance_id = sample_id ''wki_'' (CHR ''1''), jo_worker_session_id = sample_id ''wsn_'' n,
     jo_codex_thread_id = sample_id ''cdx_'' n, jo_last_event_sequence = 2, jo_finished_at_millis = 0,
     jo_status = JobSucceeded, jo_terminal_candidate_tree_id = replicate 40 (CHR ''d''), jo_artifacts = []\<rparr>"

definition team_session :: "char \<Rightarrow> verification_session_facts" where
  "team_session n = \<lparr>sf_role = team_role n, sf_work_run_id = sample_id ''wrn_'' n, sf_session_binding_id = sample_id ''b'' n,
     sf_workspace_mode = CandidateReadOnly, sf_permission_profile = CandidateReadOnlyRestricted,
     sf_pre_candidate_snapshot = Some team_snapshot, sf_post_candidate_snapshot = Some team_snapshot,
     sf_accepted_job_outcome = Some (team_terminal n), sf_codex_turn_completed = True, sf_mutation_records = [],
     sf_findings = [\<lparr>ff_finding_ref = ''f'', ff_criterion_id = ''k'', ff_conclusion = FindingPass, ff_result_sequence = 2,
       ff_source_refs = [''runtime_event:'' @ [n]], ff_source_sequences = [1], ff_explanation = ''x''\<rparr>]\<rparr>"

definition team_facts :: verification_facts where
  "team_facts = \<lparr>vn_snapshot = team_snapshot, vn_required_roles = [RoleReviewer, RoleVerifier],
     vn_sessions = [team_session (CHR ''2''), team_session (CHR ''3'')]\<rparr>"

definition team_assignment :: "char \<Rightarrow> verification_assignment" where
  "team_assignment n = \<lparr>va_snapshot_id = sample_id ''snap_'' (CHR ''1''), va_role = team_role n,
     va_work_run_id = sample_id ''wrn_'' n, va_session_binding_id = sample_id ''b'' n,
     va_product_session_id = sample_id ''psn_'' n, va_execution_job_id = sample_id ''job_'' n,
     va_worker_session_id = sample_id ''wsn_'' n, va_codex_thread_id = sample_id ''cdx_'' n,
     va_repository = fc_repository team_candidate, va_checkout_revision = team_commit\<rparr>"

definition team_finding :: "char \<Rightarrow> verification_finding" where
  "team_finding n = \<lparr>vf_role = team_role n, vf_finding_ref = ''f'', vf_criterion_id = ''k'', vf_conclusion = FindingPass,
     vf_source_refs = [''runtime_event:'' @ [n]], vf_result_sequence = 2, vf_source_sequences = [1], vf_explanation = ''x'',
     vf_candidate_ref = ''refs/winwincode/candidates/'' @ team_commit\<rparr>"

definition team_settlement :: "char \<Rightarrow> role_settlement" where
  "team_settlement n = \<lparr>rs_role = team_role n, rs_state = SessionSettled, rs_assignment = Some (team_assignment n),
     rs_findings = [team_finding n], rs_terminal_job_outcome = Some (team_terminal n),
     rs_terminal_settlement = Some TerminalIsSettled\<rparr>"

definition team_verification :: independent_verification where
  "team_verification = \<lparr>iv_snapshot = team_snapshot, iv_candidate_ref = ''refs/winwincode/candidates/'' @ team_commit,
     iv_settlements = [team_settlement (CHR ''2''), team_settlement (CHR ''3'')], iv_source_delivery_seal = replicate 32 (CHR 0x00)\<rparr>"

section \<open>It is accepted\<close>

abbreviation team_member :: "char \<Rightarrow> bool" where
  "team_member n \<equiv> n \<in> {CHR ''1'', CHR ''2'', CHR ''3''}"

lemma team_id_canonical [simp]: "is_canonical_prefixed_id (sample_id p (CHR ''3'')) p"
  by (simp add: is_canonical_prefixed_id_def sample_id_def strip_prefix_def list_all_iff crockford_byte_def is_ascii_digit_def byte_def)

lemma team_aggregate_ok: "validate_aggregate any_calendar (sample_aggregate ItemDone (map team_run ''123'')) = Inr ()"
proof -
  let ?a = "sample_aggregate ItemDone (map team_run ''123'')"
  have parts: "ag_runs ?a = map team_run ''123''" "ag_contract ?a = sample_contract" "length (ag_items ?a) = 2"
    "distinct (map wc_id (ct_criteria sample_contract))"
    by (simp_all add: sample_aggregate_def sample_contract_def)
  have "run_valid ?a (team_run n)" if "team_member n" for n
    using that by (elim insertE emptyE) (simp_all add: run_valid_def invalid_run_def sample_aggregate_def team_run_def sample_item_def
        sample_contract_def invalid_run_fields_def is_ascii_digit_def byte_def valid_revision_def)
  then have "runs_valid ?a" unfolding runs_valid_def parts(1) by (simp add: team_run_def active_run_def)
  with parts show ?thesis
    using sample_items_ok [of ItemDone "map team_run ''123''"] sample_contract_ok by (simp add: aggregate_ok_def list_all_iff)
qed

lemma team_binding_ok: "team_member n \<Longrightarrow> validate_binding (team_binding n) path = Inr ()"
  by (elim insertE emptyE) (simp_all add: validate_binding_def team_binding_def checks_of bounded_plain codex_thread_check_def
    validate_execution_authority_def provenance_check_def validate_runtime_context_def invalid_fencing_token_def Let_def
    portable_text_def plain_bytes sample_id_def team_profile_def)

lemma team_delivery_simps [simp]:
  "ds_schema_version (team_delivery es v u) = 3" "ds_id (team_delivery es v u) = sample_id ''dlv_'' (CHR ''1'')"
  "ds_revision (team_delivery es v u) = 1" "ds_status (team_delivery es v u) = StatusReady"
  "ds_spec (team_delivery es v u) = sample_spec (Some ''t'')" "ds_session_bindings (team_delivery es v u) = map team_binding ''123''"
  "ds_same_candidate_reverification (team_delivery es v u) = None" "ds_attention_items (team_delivery es v u) = []"
  "ds_evidence (team_delivery es v u) = es" "ds_verdict (team_delivery es v u) = v"
  "ds_created_at_millis (team_delivery es v u) = 0" "ds_updated_at_millis (team_delivery es v u) = u"
  "ds_work_run_aggregate (team_delivery es v u) = sample_aggregate ItemDone (map team_run ''123'')"
  "team_delivery es v u\<lparr>ds_spec := sample_spec (Some ''t'')\<rparr> = team_delivery es v u"
  "team_delivery es v u\<lparr>ds_status := StatusReady, ds_evidence := es', ds_verdict := v', ds_updated_at_millis := u'\<rparr> = team_delivery es' v' u'"
  by (simp_all add: team_delivery_def)

definition team_evidence_id :: "char \<Rightarrow> string" where
  "team_evidence_id n = sample_id ''evd_'' (if n = CHR ''2'' then CHR ''1'' else CHR ''0'')"

definition team_reference :: "char \<Rightarrow> evidence_ref" where
  "team_reference n = \<lparr>er_schema_version = 3, er_id = team_evidence_id n, er_delivery_id = sample_id ''dlv_'' (CHR ''1''),
     er_delivery_spec_id = ''s'', er_delivery_spec_revision = 1, er_work_run_id = sample_id ''wrn_'' n,
     er_session_binding_id = sample_id ''b'' n, er_snapshot_id = sample_id ''snap_'' (CHR ''1''),
     er_candidate_id = sample_id ''cnd_'' (CHR ''1''), er_evidence_type = EvidenceTest,
     er_source_ref = ''runtime_event:'' @ [n], er_created_at_millis = 1\<rparr>"

definition team_source :: "char \<Rightarrow> accepted_runtime_source" where
  "team_source n = accepted_runtime_source_of (team_terminal n) team_candidate [n] EvidenceTest 1 0 OutcomeSucceeded
     (digest_text (replicate 32 (CHR 0x00)))"

definition team_checkout :: "char \<Rightarrow> checkout_attestation" where
  "team_checkout n = checkout_attestation_from_snapshot (team_terminal n) team_snapshot (fc_repository team_candidate)"

definition team_input :: "char \<Rightarrow> resolve_evidence_input" where
  "team_input n = \<lparr>ei_snapshot = team_snapshot, ei_work_run_id = sample_id ''wrn_'' n, ei_session_binding_id = sample_id ''b'' n,
     ei_source = RuntimeEvidence EvidenceTest [n] [team_source n] (team_terminal n) (team_checkout n), ei_created_at_millis = 1\<rparr>"

definition team_identity_json :: "evidence_identity \<Rightarrow> string + string" where
  "team_identity_json = (\<lambda>(_, _, _, _, _, run, _). Inr (if run = sample_id ''wrn_'' (CHR ''2'') then ''2'' else ''3''))"

definition team_resolved :: "char \<Rightarrow> resolved_evidence" where
  "team_resolved n = \<lparr>re_evidence = team_reference n, re_outcome = OutcomeSucceeded,
     re_source_identity = RuntimeSource \<lparr>ri_execution = terminal_identity (team_terminal n), ri_source_sequence = 1,
       ri_terminal_last_event_sequence = 2, ri_candidate_ref = fc_candidate_ref team_candidate, ri_checkout_commit_id = team_commit,
       ri_checkout_tree_id = replicate 40 (CHR ''d''), ri_command_digest = digest_text (replicate 32 (CHR 0x00))\<rparr>\<rparr>"

definition team_result :: criterion_result where
  "team_result = \<lparr>cr_schema_version = 3, cr_id = ''criterion-result:sha256:'' @ hex_text (replicate 32 (CHR 0x00)),
     cr_delivery_id = sample_id ''dlv_'' (CHR ''1''), cr_delivery_spec_id = ''s'', cr_criterion_id = ''k'',
     cr_candidate_ref = fc_candidate_ref team_candidate, cr_verdict = VerdictPass,
     cr_evidence_refs = [team_evidence_id (CHR ''3''), team_evidence_id (CHR ''2'')],
     cr_explanation = ''reviewer: pass is supported by current direct Evidence | verifier: pass is supported by current direct Evidence'',
     cr_evaluated_at_millis = 1\<rparr>"

definition team_verdict :: delivery_verdict where
  "team_verdict = \<lparr>vd_snapshot_id = sample_id ''snap_'' (CHR ''1''), vd_candidate_id = sample_id ''cnd_'' (CHR ''1''),
     vd_candidate_digest = digest_text (replicate 32 (CHR 0x00)), vd_schema_version = 3,
     vd_id = ''delivery-verdict:sha256:'' @ hex_text (replicate 32 (CHR 0x00)), vd_delivery_id = sample_id ''dlv_'' (CHR ''1''),
     vd_delivery_spec_id = ''s'', vd_candidate_ref = fc_candidate_ref team_candidate, vd_status = VerdictPass,
     vd_criteria = [team_result], vd_unresolved_findings = [], vd_produced_at_millis = 1\<rparr>"

abbreviation team_references :: "evidence_ref list" where
  "team_references \<equiv> [team_reference (CHR ''3''), team_reference (CHR ''2'')]"

lemma team_reference_ok: "n \<in> {CHR ''2'', CHR ''3''} \<Longrightarrow> validate_evidence (team_reference n) path = Inr ()"
  by (elim insertE emptyE) (simp_all add: validate_evidence_def team_reference_def team_evidence_id_def sample_id_def
      MAX_REFERENCE_LENGTH_def sample_checks is_canonical_prefixed_id_def strip_prefix_def crockford_byte_def)

lemma team_candidate_ref: "fc_candidate_ref team_candidate = ''refs/winwincode/candidates/'' @ team_commit"
  by (simp add: team_candidate_def)

lemma team_verdict_ok: "validate_verdict team_verdict path = Inr ()"
  by (simp add: validate_verdict_def team_verdict_def validate_result_def team_result_def team_evidence_id_def team_candidate_ref
      team_commit_def sample_id_def hex_zeros MAX_TEXT_LENGTH_def MAX_REFERENCE_LENGTH_def unique_texts_def sample_checks)

lemma team_env_simps [simp]: "de_sha256 team_env = team_sha256" "de_calendar team_env = any_calendar"
  by (simp_all add: team_env_def sample_env_def)

definition team_judged :: "bool \<Rightarrow> delivery_snapshot" where
  "team_judged judged = (if judged then team_delivery team_references (Some team_verdict) 1 else team_delivery [] None 0)"

lemma team_relations:
  "n \<in> {CHR ''1'', CHR ''2'', CHR ''3''} \<Longrightarrow> binding_relation (team_delivery es v u) (team_binding n) path = Inr ()"
  "n \<in> {CHR ''2'', CHR ''3''} \<Longrightarrow> evidence_relation (team_delivery es v u) (team_reference n) path = Inr ()"
  "validate_verdict_relationships (team_delivery team_references (Some team_verdict) 1) team_verdict = Inr ()"
  subgoal
    by (elim insertE emptyE) (simp_all add: binding_relation_def checks_of by_key_def team_binding_def sample_aggregate_def team_run_def
      binding_matches_run_def u64_as_i64_def)
  subgoal
    by (elim insertE emptyE) (simp_all add: evidence_relation_def checks_of by_key_def team_binding_def sample_aggregate_def team_run_def
      team_reference_def sample_spec_def)
  subgoal
    by (simp add: validate_verdict_relationships_def checks_of check_each_def Let_def by_key_def result_relation_def
      expected_status_def map_filter_def team_verdict_def team_result_def team_reference_def team_evidence_id_def sample_spec_def
      sample_criterion_def)
  done

lemma team_accepted: "try_from_snapshot team_env (team_judged judged) = Inr (team_judged judged)"
proof -
  let ?d = "team_judged judged"
  note bindings = team_binding_ok [of "CHR ''1''"] team_binding_ok [of "CHR ''2''"] team_binding_ok [of "CHR ''3''"]
  note refs = team_reference_ok [of "CHR ''2''"] team_reference_ok [of "CHR ''3''"]
  note relations = team_relations(1) [of "CHR ''1''"] team_relations(1) [of "CHR ''2''"] team_relations(1) [of "CHR ''3''"]
    team_relations(2) [of "CHR ''2''"] team_relations(2) [of "CHR ''3''"] team_relations(3)
  have "header_checks ?d = Inr ()" by (simp add: team_judged_def header_checks_def sample_checks is_canonical_delivery_id_def)
  moreover have "parts_checks ?d = Inr ()"
    by (simp add: team_judged_def parts_checks_def checks_of check_each_def bindings refs team_verdict_ok) (simp add: sample_spec_def)
  moreover have "identity_checks ?d = Inr ()"
    by (simp add: team_judged_def identity_checks_def checks_of team_binding_def map_filter_def Let_def team_reference_def team_evidence_id_def)
  moreover have "rework_count (team_delivery es v u) = 0" for es v u
    by (simp add: rework_count_def team_binding_def team_profile_def sample_aggregate_def)
  then have "relation_checks ?d = Inr ()"
    unfolding relation_checks_def check_all_Inr_iff by (simp add: team_judged_def relations checks_of check_each_def)
  moreover have "completion_checks ?d = Inr ()" by (simp add: team_judged_def completion_checks_def checks_of)
  moreover have "validate_fact team_env ?d = Inr ()" by (simp add: team_judged_def validate_fact_def)
  moreover have "ds_spec ?d = sample_spec (Some ''t'')" "?d\<lparr>ds_spec := sample_spec (Some ''t'')\<rparr> = ?d"
    "ds_work_run_aggregate ?d = sample_aggregate ItemDone (map team_run ''123'')"
    by (simp_all add: team_judged_def)
  ultimately show ?thesis
    unfolding try_from_snapshot_iff using team_aggregate_ok sample_spec_ok by auto
qed

lemma team_zeros: "x \<noteq> ''2'' \<Longrightarrow> team_sha256 x = replicate 32 (CHR 0x00)"
  by (simp add: team_sha256_def)

lemma team_current: "assert_frozen_candidate_current team_env (team_delivery es v u) team_candidate = Inr ()"
  by (simp add: assert_frozen_candidate_current_def team_candidate_def sample_candidate_def sample_spec_def ensure_def current_writer_def
      sample_aggregate_def team_run_def exact_producer_binding_def team_binding_def same_writer_def is_newer_writer_def is_writer_def
      team_profile_def u64_as_i64_def candidate_code_digest_def candidate_identity_digest_def team_env_def sample_env_def team_sha256_def)

lemma team_snapshot_ok:
  "verify_snapshot_seal team_sha256 team_snapshot" "snapshot_matches_candidate team_snapshot team_candidate"
proof -
  have "seal_text s \<noteq> ''2''" for s by (simp add: seal_text_def)
  then show "verify_snapshot_seal team_sha256 team_snapshot"
    by (simp add: verify_snapshot_seal_def seal_snapshot_def team_zeros) (simp add: team_snapshot_def)
  show "snapshot_matches_candidate team_snapshot team_candidate"
    by (simp add: snapshot_matches_candidate_def team_snapshot_def team_candidate_def sample_candidate_def sample_snapshot_def Let_def strip_prefix_def)
qed

lemma team_outcome_ok: "n \<in> {CHR ''2'', CHR ''3''} \<Longrightarrow> validate_outcome_shape (team_terminal n) path = Inr ()"
  by (elim insertE emptyE) (simp_all add: validate_outcome_shape_def team_terminal_def team_profile_def sample_id_def sample_checks
      MAX_EXECUTION_ATTEMPT_def valid_fencing_token_def git_object_def lower_hex_def)

lemma team_snapshot_simps [simp]:
  "sn_snapshot_id team_snapshot = sample_id ''snap_'' (CHR ''1'')" "sn_candidate_commit_id team_snapshot = team_commit"
  "sn_candidate_tree_id team_snapshot = replicate 40 (CHR ''d'')" "sn_created_at_millis team_snapshot = 0"
  by (simp_all add: team_snapshot_def sample_snapshot_def Let_def)

lemma team_settled:
  assumes "n \<in> {CHR ''2'', CHR ''3''}"
  shows "settle_session team_sha256 (team_delivery [] None 0) team_candidate path (team_role n) (team_run n) (team_binding n) (team_session n)
    = Inr (team_settlement n)"
proof -
  have checks: "session_checks (team_binding n) (team_session n) path = Inr ()"
    by (simp add: session_checks_def checks_of team_session_def team_binding_def)
  have assignment: "validate_assignment team_sha256 (team_binding n) (team_run n) (team_session n) team_candidate path = Inr (Some (team_assignment n))"
    by (simp add: validate_assignment_def team_binding_def team_session_def team_snapshot_ok team_assignment_def team_run_def)
  have "jo_terminal_candidate_tree_id (team_terminal n) = fc_candidate_tree_id team_candidate"
    by (simp add: team_terminal_def team_candidate_def)
  moreover have "validate_snapshot_pair team_sha256 (team_session n) (team_terminal n) team_candidate path = Inr ()"
    by (simp add: validate_snapshot_pair_def team_session_def ensure_def team_snapshot_ok team_terminal_def created_after_def u64_try_from_def)
  moreover have "outcome_matches_role (team_terminal n) (team_assignment n) (team_binding n) (team_session n) (team_run n)"
    using assms by (auto simp: outcome_matches_role_def team_terminal_def team_assignment_def team_binding_def team_session_def team_run_def
        attempt_or_zero_def u64_try_from_def team_profile_def team_role_def)
  ultimately have terminal: "validate_terminal_job_outcome team_sha256 (team_run n) (team_binding n) (Some (team_assignment n)) (team_session n)
      team_candidate path = Inr (Some (team_terminal n))"
    using team_outcome_ok [OF assms]
    by (simp add: validate_terminal_job_outcome_def team_session_def rbind_Inr_iff check_all_Inr_iff ensure_Inr_iff
        validate_mutation_records_def collection_length_def MAX_COLLECTION_LENGTH_def)
      (simp add: team_terminal_def team_binding_def)
  have "bounded_text (''runtime_event:'' @ [n]) p MAX_REFERENCE_LENGTH = Inr ()" for p
    using assms by (intro bounded_plain) (auto simp: plain_bytes MAX_REFERENCE_LENGTH_def)
  then have findings: "validate_findings (team_delivery [] None 0) team_candidate (team_session n) (Some (team_terminal n)) path = Inr [team_finding n]"
    using assms
    by (simp add: validate_findings_def team_session_def finding_checks_def sample_checks sample_spec_def sample_criterion_def
        rbind_Inr_iff MAX_TEXT_LENGTH_def MAX_REFERENCE_LENGTH_def finding_of_def team_finding_def team_terminal_def team_candidate_ref)
  show ?thesis
    by (simp add: settle_session_def checks assignment terminal findings)
      (simp add: derive_session_state_def team_run_def team_terminal_def team_settlement_def)
qed

abbreviation team_open :: delivery_snapshot where
  "team_open \<equiv> team_delivery [] None 0"

lemma team_binding_simps [simp]:
  "db_id (team_binding n) = sample_id ''b'' n" "db_delivery_id (team_binding n) = sample_id ''dlv_'' (CHR ''1'')"
  "db_work_run_id (team_binding n) = sample_id ''wrn_'' n" "db_product_session_id (team_binding n) = sample_id ''psn_'' n"
  "db_execution_job_id (team_binding n) = sample_id ''job_'' n" "db_execution_profile (team_binding n) = Some (team_profile n)"
  "db_worker_session_id (team_binding n) = Some (sample_id ''wsn_'' n)" "db_codex_thread_id (team_binding n) = Some (sample_id ''cdx_'' n)"
  "db_attempt (team_binding n) = 1" "db_bound_at_millis (team_binding n) = 0" "same_work (team_binding n) (team_binding m)"
  by (simp_all add: team_binding_def same_work_def)

lemma team_run_simps [simp]:
  "run_id (team_run n) = sample_id ''wrn_'' n" "run_state (team_run n) = RunSettled" "attempt_or_zero (team_run n) = 1"
  by (simp_all add: team_run_def attempt_or_zero_def u64_try_from_def)

lemma team_candidate_simps [simp]:
  "fc_producer_session_binding_id team_candidate = sample_id ''b'' (CHR ''1'')" "fc_candidate_commit_id team_candidate = team_commit"
  "fc_producer_work_run_id team_candidate = sample_id ''wrn_'' (CHR ''1'')" "fc_candidate_id team_candidate = sample_id ''cnd_'' (CHR ''1'')"
  "fc_candidate_tree_id team_candidate = replicate 40 (CHR ''d'')" "fc_candidate_digest team_candidate = digest_text (replicate 32 (CHR 0x00))"
  by (simp_all add: team_candidate_def sample_candidate_def)

lemma team_runs: "ag_runs (sample_aggregate ItemDone runs) = runs" by (simp add: sample_aggregate_def)

lemma team_round: "round_bindings (team_delivery es v u) = [team_binding (CHR ''2''), team_binding (CHR ''3'')]"
proof -
  have "selected_writer (team_delivery es v u) = Some (team_binding (CHR ''1''))"
    by (simp add: selected_writer_def is_writer_def team_profile_def)
  moreover have "enumerate 0 (map team_binding ''123'') = [(0, team_binding (CHR ''1'')), (1, team_binding (CHR ''2'')), (2, team_binding (CHR ''3''))]"
    by simp
  ultimately have "verification_round_floor (team_delivery es v u) = 1"
    by (simp add: verification_round_floor_def Let_def team_profile_def) (simp add: team_binding_def)
  then show ?thesis by (simp add: round_bindings_def)
qed

lemma team_sessions:
  "filter (\<lambda>s. sf_role s = RoleReviewer) (vn_sessions team_facts) = [team_session (CHR ''2'')]"
  "filter (\<lambda>s. sf_role s = RoleVerifier) (vn_sessions team_facts) = [team_session (CHR ''3'')]"
  by (simp_all add: team_facts_def team_session_def team_role_def)

lemma team_consumes: "n \<in> {CHR ''2'', CHR ''3''} \<Longrightarrow> validate_role_consumes_candidate team_open (team_run n) team_candidate path = Inr ()"
  by (elim insertE emptyE) (simp_all add: validate_role_consumes_candidate_def team_runs ensure_def,
      simp_all add: team_run_def)

lemma team_settles:
  "settle_role team_sha256 team_open team_candidate team_facts (team_binding (CHR ''1'')) path taken RoleReviewer
    = rbind (ensure_distinct_assignment (team_run (CHR ''2'')) (team_binding (CHR ''2'')) path taken) (\<lambda>taken. Inr (team_settlement (CHR ''2''), taken))"
  "settle_role team_sha256 team_open team_candidate team_facts (team_binding (CHR ''1'')) path taken RoleVerifier
    = rbind (ensure_distinct_assignment (team_run (CHR ''3'')) (team_binding (CHR ''3'')) path taken) (\<lambda>taken. Inr (team_settlement (CHR ''3''), taken))"
  using team_settled [of "CHR ''2''" path] team_settled [of "CHR ''3''" path] team_consumes [of "CHR ''2''" path] team_consumes [of "CHR ''3''" path]
  by (simp_all add: settle_role_def Let_def team_sessions team_round latest_binding_def current_role_run_def team_runs
      current_role_binding_def team_profile_def team_role_def)

lemma team_verified: "validate_independent_verification team_env team_open team_candidate team_facts = Inr team_verification"
proof -
  let ?ids = "writer_identities team_candidate (team_binding (CHR ''1'')) (sample_id ''wsn_'' (CHR ''1'')) (sample_id ''cdx_'' (CHR ''1''))"
  have "settle_roles team_sha256 team_open team_candidate team_facts (team_binding (CHR ''1'')) 0 ?ids [RoleReviewer, RoleVerifier]
      = Inr [team_settlement (CHR ''2''), team_settlement (CHR ''3'')]"
    by (simp add: team_settles ensure_distinct_assignment_def writer_identities_def)
  moreover have "snapshot_checks team_sha256 team_candidate team_facts [team_settlement (CHR ''2''), team_settlement (CHR ''3'')] = Inr ()"
    by (simp add: snapshot_checks_def Let_def checks_of team_facts_def map_filter_def team_session_def team_settlement_def team_assignment_def
        team_snapshot_ok)
  moreover have "seal_source_delivery team_env team_open = Inr (replicate 32 (CHR 0x00))"
    by (simp add: seal_source_delivery_def team_env_def sample_env_def team_sha256_def)
  moreover have "list_all (\<lambda>s. sf_role s \<in> {RoleReviewer, RoleVerifier}) (vn_sessions team_facts)" "vn_required_roles team_facts = [RoleReviewer, RoleVerifier]"
    "vn_snapshot team_facts = team_snapshot"
    by (simp_all add: team_facts_def team_session_def team_role_def)
  ultimately show ?thesis
    by (simp add: validate_independent_verification_def rbind_Inr_iff check_all_Inr_iff team_current ensure_Inr_iff validate_required_roles_def
        list_ex_iff list_all_iff team_verification_def team_candidate_ref)
qed

section \<open>Its evidence resolves\<close>

lemma base32_zero: "base32_digits n 0 = replicate n (CHR ''0'')"
  by (induction n) (simp_all add: CROCKFORD_BASE32_ALPHABET_def replicate_append_same)

lemma team_evidence_ids:
  "canonical_evidence_id (team_sha256 ''2'') = sample_id ''evd_'' (CHR ''1'')"
  "canonical_evidence_id (team_sha256 ''3'') = sample_id ''evd_'' (CHR ''0'')"
proof -
  have zeros: "foldl (\<lambda>v c. v * 256 + byte c) 0 (replicate n (CHR 0x00)) = (0 :: nat)" for n by (induction n) (simp_all add: byte_def)
  have one: "foldl (\<lambda>v c. v * 256 + byte c) 0 (replicate 15 (CHR 0x00) @ [CHR 0x01]) = (1 :: nat)"
    unfolding foldl_append zeros by (simp add: byte_def)
  have digits: "base32_digits 26 v = base32_digits 25 (v div 32) @ [CROCKFORD_BASE32_ALPHABET ! (v mod 32)]" for v
    using base32_digits.simps(2) [of 25 v] by simp
  have last: "replicate 26 (CHR ''0'') = replicate 25 (CHR ''0'') @ ''0''"
    using replicate_append_same [of 25 "CHR ''0''"] replicate_Suc [of 25 "CHR ''0''"] by simp
  show "canonical_evidence_id (team_sha256 ''2'') = sample_id ''evd_'' (CHR ''1'')"
    using one by (simp add: canonical_evidence_id_def team_sha256_def sample_id_def digits base32_zero CROCKFORD_BASE32_ALPHABET_def)
  show "canonical_evidence_id (team_sha256 ''3'') = sample_id ''evd_'' (CHR ''0'')"
    using zeros [of 16] by (simp add: canonical_evidence_id_def team_sha256_def sample_id_def digits base32_zero CROCKFORD_BASE32_ALPHABET_def)
      (simp add: last)
qed

lemma team_source_simps [simp]:
  "ar_execution (team_source n) = terminal_identity (team_terminal n)" "ar_source_event_id (team_source n) = [n]"
  "ar_evidence_type (team_source n) = EvidenceTest" "ar_source_sequence (team_source n) = 1"
  "ar_candidate_ref (team_source n) = fc_candidate_ref team_candidate" "ar_occurred_at_millis (team_source n) = 0"
  "ar_outcome (team_source n) = OutcomeSucceeded" "ar_command_digest (team_source n) = digest_text (replicate 32 (CHR 0x00))"
  "ck_commit_id (team_checkout n) = team_commit" "ck_tree_id (team_checkout n) = replicate 40 (CHR ''d'')"
  "accepted_terminal_sequence (team_terminal n) = Some 2"
  by (simp_all add: team_source_def accepted_runtime_source_of_def team_checkout_def checkout_attestation_from_snapshot_def
      accepted_terminal_sequence_def team_terminal_def u64_try_from_def)

lemma team_resolves:
  assumes "n \<in> {CHR ''2'', CHR ''3''}"
  shows "resolve_delivery_evidence team_env team_identity_json team_open team_candidate (team_input n) = Some (Inr (team_resolved n))"
proof -
  have placed: "evidence_work_run_and_binding team_open team_candidate (team_input n) = Inr (team_run n, team_binding n, team_run (CHR ''1''))"
    using assms by (elim insertE emptyE) (simp_all add: evidence_work_run_and_binding_def team_input_def team_runs is_runtime_def team_profile_def
        ensure_def Let_def, simp_all add: team_run_def)
  have terminal: "validate_runtime_terminal team_candidate (team_run n) (team_binding n) (team_terminal n) 1 = Some (Inr (terminal_identity (team_terminal n)))"
    by (simp add: validate_runtime_terminal_def terminal_matches_binding_def team_terminal_def accepted_terminal_sequence_def u64_try_from_def
        MAX_SAFE_INTEGER_def)
  have "bounded_text (''runtime_event:'' @ [n]) p MAX_REFERENCE_LENGTH = Inr ()" for p
    using assms by (intro bounded_plain) (auto simp: plain_bytes MAX_REFERENCE_LENGTH_def)
  moreover have "portable_identifier [n] p = Inr ()" for p using assms by (auto simp: sample_checks)
  moreover have "validate_checkout_attestation team_candidate (team_checkout n) (terminal_identity (team_terminal n)) = Inr ()"
    by (simp add: validate_checkout_attestation_def checks_of team_checkout_def checkout_attestation_from_snapshot_def terminal_identity_def team_terminal_def)
  moreover have "validate_runtime_source_position (team_source n) (team_binding n) (team_terminal n) 1 = Some (Inr ())"
    by (simp add: validate_runtime_source_position_def team_source_def accepted_runtime_source_of_def team_terminal_def accepted_terminal_sequence_def
        u64_try_from_def MAX_SAFE_INTEGER_def)
  ultimately have "resolve_runtime_source team_candidate (team_run n) (team_binding n) EvidenceTest [n] [team_source n] (team_terminal n) (team_checkout n) 1
      = Some (Inr \<lparr>rv_evidence_type = EvidenceTest, rv_source_ref = ''runtime_event:'' @ [n], rv_outcome = OutcomeSucceeded,
          rv_identity = re_source_identity (team_resolved n)\<rparr>)"
    using terminal unfolding resolve_runtime_source_def
    by (simp add: pbind_Inr_iff check_all_Inr_iff ensure_Inr_iff Let_def map_err_Inr_iff) (simp add: team_resolved_def)
  moreover have "validate_evidence (team_reference n) p = Inr ()" for p by (rule team_reference_ok [OF assms])
  moreover have "deterministic_evidence_id team_sha256 (team_identity_json (a, b, e, f, g, sample_id ''wrn_'' n, h)) = Inr (team_evidence_id n)"
    for a b e f g h
    using assms by (auto simp: deterministic_evidence_id_def team_identity_json_def team_evidence_ids team_evidence_id_def)
  moreover have "team_reference n = \<lparr>er_schema_version = DELIVERY_SCHEMA_VERSION, er_id = team_evidence_id n, er_delivery_id = ds_id team_open,
      er_delivery_spec_id = sp_id (ds_spec team_open), er_delivery_spec_revision = sp_revision (ds_spec team_open),
      er_work_run_id = run_id (team_run n), er_session_binding_id = db_id (team_binding n),
      er_snapshot_id = sn_snapshot_id team_snapshot, er_candidate_id = fc_candidate_id team_candidate,
      er_evidence_type = EvidenceTest, er_source_ref = ''runtime_event:'' @ [n], er_created_at_millis = 1\<rparr>"
    by (simp add: team_reference_def DELIVERY_SCHEMA_VERSION_def sample_spec_def)
  ultimately show ?thesis
    using placed team_snapshot_ok
    by (simp add: resolve_delivery_evidence_def pbind_Inr_iff check_all_Inr_iff ensure_Inr_iff map_err_Inr_iff team_current team_input_def Let_def)
      (simp add: team_resolved_def team_terminal_def)
qed

section \<open>Its verdict passes\<close>

abbreviation team_evidence :: "resolved_evidence list" where
  "team_evidence \<equiv> [team_resolved (CHR ''2''), team_resolved (CHR ''3'')]"

lemma team_method_digest:
  "verification_method_digest (\<lambda>x. hex_text (team_sha256 x)) ''t'' = Some (digest_text (replicate 32 (CHR 0x00)))"
proof -
  have "team_sha256 (DIGEST_DOMAIN @ x) = replicate 32 (CHR 0x00)" for x by (rule team_zeros) (simp add: DIGEST_DOMAIN_def)
  moreover have "trim ''t'' \<noteq> []" by (rule trim_plain) (simp_all add: plain_bytes)
  ultimately show ?thesis
    by (simp add: verification_method_digest_def digest_text_def command_digest_def canonical_command_def Let_def)
qed

lemma team_evaluation:
  assumes "n \<in> {CHR ''2'', CHR ''3''}"
  shows "evaluate_role team_sha256 (sample_criterion (Some ''t'')) (team_settlement n) team_evidence
    = Some \<lparr>ro_role = team_role n, ro_outcome = RoleProduct ProductPass, ro_evidence_ids = [team_evidence_id n],
        ro_explanation = role_id (team_role n) @ '': pass is supported by current direct Evidence'', ro_unresolved_finding = None, ro_action = None\<rparr>"
proof -
  have "filter (cites_source (team_assignment n) (team_terminal n) (''runtime_event:'' @ [n])) team_evidence = [team_resolved n]"
    using assms by (auto simp: cites_source_def team_assignment_def team_terminal_def team_resolved_def team_reference_def)
  moreover have "matches_finding_source (team_resolved n) (team_terminal n) 1 = Some True"
    by (simp add: matches_finding_source_def team_resolved_def)
  ultimately have resolved: "resolve_sources (team_assignment n) (team_terminal n) team_evidence mismatch [] [(''runtime_event:'' @ [n], 1)]
      = Some (Inr [team_resolved n])" for mismatch
    by (simp add: u64_try_from_def)
  have "evaluate_sources team_sha256 (sample_criterion (Some ''t'')) role mismatch ProductPass [team_resolved n]
    = Some \<lparr>ro_role = role, ro_outcome = RoleProduct ProductPass, ro_evidence_ids = [team_evidence_id n],
        ro_explanation = role_id role @ '': pass is supported by current direct Evidence'', ro_unresolved_finding = None, ro_action = None\<rparr>"
    for role mismatch
    by (simp add: evaluate_sources_def sample_criterion_def team_resolved_def team_reference_def environment_failure_def
      direct_evidence_type_def matches_verification_method_def team_method_digest observed_outcome_def source_evidence_ids_def
      sorted_ids_def Let_def)
  moreover have finding: "vf_criterion_id (team_finding n) = ''k''" "vf_source_refs (team_finding n) = [''runtime_event:'' @ [n]]"
    "vf_source_sequences (team_finding n) = [1]" "vf_conclusion (team_finding n) = FindingPass" "ac_id (sample_criterion m) = ''k''" for m
    by (simp_all add: team_finding_def sample_criterion_def)
  ultimately show ?thesis
    using resolved
    by (simp add: evaluate_role_def team_settlement_def evaluate_settled_role_def Let_def finding claimed_outcome_def
      del: resolve_sources.simps)
qed

lemma team_id_order: "sample_id p (CHR ''0'') < sample_id p (CHR ''1'')"
proof -
  have "(CHR ''0'' :: char) < CHR ''1''" by (simp add: less_char_def)
  then have "p @ replicate 25 (CHR ''0'') @ [CHR ''0''] < p @ replicate 25 (CHR ''0'') @ [CHR ''1'']"
    by (simp add: list_less_def lexord_append_leftI)
  then show ?thesis by (simp add: sample_id_def)
qed

lemma team_sorted:
  "sorted_ids [team_evidence_id (CHR ''2''), team_evidence_id (CHR ''3'')] = [team_evidence_id (CHR ''3''), team_evidence_id (CHR ''2'')]"
  "sort_key er_id [team_reference (CHR ''2''), team_reference (CHR ''3'')] = team_references"
  using team_id_order [of "''evd_''"] by (simp_all add: sorted_ids_def team_evidence_id_def team_reference_def order.strict_implies_order)

definition team_computation :: criterion_computation where
  "team_computation = \<lparr>cc_verdict = VerdictPass, cc_evidence_ids = [team_evidence_id (CHR ''3''), team_evidence_id (CHR ''2'')],
     cc_explanation = ''reviewer: pass is supported by current direct Evidence | verifier: pass is supported by current direct Evidence'',
     cc_unresolved_findings = [], cc_actions = []\<rparr>"

lemma team_criterion:
  "compute_criterion team_sha256 (sample_criterion (Some ''t'')) team_verification team_evidence = Some team_computation"
  using team_evaluation [of "CHR ''2''"] team_evaluation [of "CHR ''3''"]
  by (simp add: compute_criterion_def team_verification_def judge_roles_def Let_def roles_verdict_def roles_contradict_def role_products_def
      map_filter_def team_role_def team_sorted team_computation_def) (simp add: sample_criterion_def)

lemma team_judges:
  "judge_criteria team_env team_open team_candidate team_verification team_evidence 1 [sample_criterion (Some ''t'')]
   = Some (Inr [(sample_criterion (Some ''t''), team_computation, team_result)])"
proof -
  have "ac_id (sample_criterion m) = ''k''" "sp_id (sample_spec m) = ''s''" for m by (simp_all add: sample_criterion_def sample_spec_def)
  then have "result_of team_env team_open team_candidate 1 (sample_criterion (Some ''t'')) team_computation = Inr team_result"
    by (simp add: result_of_def deterministic_id_def team_env_def sample_env_def team_sha256_def team_computation_def team_result_def
      DELIVERY_SCHEMA_VERSION_def)
  then show ?thesis by (simp add: team_criterion)
qed

lemma team_checked: "verdict_checks team_env team_open team_candidate team_verification team_evidence 1 = Inr ()"
proof -
  have "settlement_is_current team_open team_candidate (team_settlement n) = Inr ()" if "n \<in> {CHR ''2'', CHR ''3''}" for n
    using that by (elim insertE emptyE) (simp_all add: settlement_is_current_def team_settlement_def team_assignment_def team_runs
      ensure_def terminal_work_run_is_current_def team_terminal_def terminal_status_is_current_def check_all_Inr_iff,
      simp_all add: team_run_def u64_try_from_def)
  then have "validate_verification_is_current team_env team_open team_candidate team_verification = Inr ()"
    by (simp add: validate_verification_is_current_def validate_source_delivery_def seal_source_delivery_def team_verification_def
        team_env_def sample_env_def team_sha256_def ensure_def check_all_Inr_iff)
  moreover have "validate_resolved_evidence team_open team_candidate team_evidence 1 = Inr ()"
    by (simp add: validate_resolved_evidence_def checks_of team_resolved_def team_reference_def sample_spec_def Let_def team_evidence_id_def)
  moreover have "validate_verification_time team_verification 1 = Inr ()"
    by (simp add: validate_verification_time_def team_verification_def team_settlement_def team_terminal_def ensure_def)
  ultimately show ?thesis
    by (simp add: verdict_checks_def check_all_Inr_iff team_current)
      (simp add: checks_of team_verification_def team_candidate_ref team_resolved_def team_reference_def)
qed

lemma team_computed:
  "compute_delivery_verdict team_env team_open team_candidate team_verification team_evidence 1
    = Some (Inr \<lparr>cv_evidence = team_references, cv_verdict = team_verdict\<rparr>)"
proof -
  have criteria: "sp_acceptance_criteria (sample_spec m) = [sample_criterion m]" for m by (simp add: sample_spec_def)
  have empty_sorted: "sort [] = ([] :: string list)" by simp
  have "attention_findings team_open = []" by (simp add: attention_findings_def)
  moreover have "fold_delivery_status team_open [team_result] [] = VerdictPass"
    by (simp add: fold_delivery_status_def criteria sample_criterion_def team_result_def Let_def)
  moreover have "re_evidence (team_resolved n) = team_reference n" "er_id (team_reference n) = team_evidence_id n" for n
    by (simp_all add: team_resolved_def team_reference_def)
  moreover have "deterministic_id team_env ''delivery-verdict:sha256'' (ve_verdict_json team_env x)
      = Inr (''delivery-verdict:sha256:'' @ hex_text (replicate 32 (CHR 0x00)))" for x
    by (simp add: deterministic_id_def team_env_def sample_env_def team_sha256_def)
  moreover have "team_verdict = \<lparr>vd_snapshot_id = sn_snapshot_id (iv_snapshot team_verification), vd_candidate_id = fc_candidate_id team_candidate,
     vd_candidate_digest = fc_candidate_digest team_candidate, vd_schema_version = 3,
     vd_id = ''delivery-verdict:sha256:'' @ hex_text (replicate 32 (CHR 0x00)), vd_delivery_id = sample_id ''dlv_'' (CHR ''1''),
     vd_delivery_spec_id = sp_id (sample_spec (Some ''t'')), vd_candidate_ref = fc_candidate_ref team_candidate, vd_status = VerdictPass,
     vd_criteria = [team_result], vd_unresolved_findings = [], vd_produced_at_millis = 1\<rparr>"
    by (simp add: team_verdict_def team_verification_def sample_spec_def)
  ultimately have "verdict_from team_env team_open team_candidate team_verification team_evidence 1
      [(sample_criterion (Some ''t''), team_computation, team_result)] = Inr \<lparr>cv_evidence = team_references, cv_verdict = team_verdict\<rparr>"
    using team_accepted [of True]
    by (simp add: verdict_from_def Let_def validate_computed_facts_def DELIVERY_SCHEMA_VERSION_def team_computation_def team_sorted(2) team_judged_def
        empty_sorted del: sort_key_simps)
  then show ?thesis by (simp add: compute_delivery_verdict_def team_checked criteria team_judges del: judge_criteria.simps)
qed

end
