(* ===== verification/Delivery_Independence.thy ===== *)
theory Delivery_Independence
  imports Delivery_Support Delivery_Evidence
begin

text \<open>
  What an accepted verification and resolved evidence establish: the lemmas behind the promises of \<open>Delivery_Chain\<close>.
\<close>

section \<open>Independence\<close>

text \<open>Two assignments that share no identity, and an assignment that shares none with the writer of the candidate.\<close>

definition apart :: "verification_assignment \<Rightarrow> verification_assignment \<Rightarrow> bool" where
  "apart a b \<longleftrightarrow>
     va_work_run_id a \<noteq> va_work_run_id b \<and> va_session_binding_id a \<noteq> va_session_binding_id b
     \<and> va_product_session_id a \<noteq> va_product_session_id b \<and> va_execution_job_id a \<noteq> va_execution_job_id b
     \<and> va_worker_session_id a \<noteq> va_worker_session_id b \<and> va_codex_thread_id a \<noteq> va_codex_thread_id b"

definition apart_from_writer :: "frozen_candidate \<Rightarrow> verification_assignment \<Rightarrow> bool" where
  "apart_from_writer c a \<longleftrightarrow>
     va_work_run_id a \<noteq> fc_producer_work_run_id c \<and> va_session_binding_id a \<noteq> fc_producer_session_binding_id c
     \<and> va_product_session_id a \<noteq> fc_producer_product_session_id c \<and> va_execution_job_id a \<noteq> fc_producer_execution_job_id c
     \<and> va_worker_session_id a \<noteq> fc_producer_worker_session_id c \<and> va_codex_thread_id a \<noteq> fc_producer_codex_thread_id c"

definition identities :: "verification_assignment \<Rightarrow> taken_identities" where
  "identities a = \<lparr>ti_work_runs = {va_work_run_id a}, ti_bindings = {va_session_binding_id a},
     ti_product_sessions = {va_product_session_id a}, ti_execution_jobs = {va_execution_job_id a},
     ti_worker_sessions = {va_worker_session_id a}, ti_codex_threads = {va_codex_thread_id a}\<rparr>"

definition covered :: "taken_identities \<Rightarrow> taken_identities \<Rightarrow> bool" where
  "covered s t \<longleftrightarrow>
     ti_work_runs s \<subseteq> ti_work_runs t \<and> ti_bindings s \<subseteq> ti_bindings t \<and> ti_product_sessions s \<subseteq> ti_product_sessions t
     \<and> ti_execution_jobs s \<subseteq> ti_execution_jobs t \<and> ti_worker_sessions s \<subseteq> ti_worker_sessions t
     \<and> ti_codex_threads s \<subseteq> ti_codex_threads t"

definition disjoint_identities :: "taken_identities \<Rightarrow> taken_identities \<Rightarrow> bool" where
  "disjoint_identities s t \<longleftrightarrow>
     ti_work_runs s \<inter> ti_work_runs t = {} \<and> ti_bindings s \<inter> ti_bindings t = {}
     \<and> ti_product_sessions s \<inter> ti_product_sessions t = {} \<and> ti_execution_jobs s \<inter> ti_execution_jobs t = {}
     \<and> ti_worker_sessions s \<inter> ti_worker_sessions t = {} \<and> ti_codex_threads s \<inter> ti_codex_threads t = {}"

lemma covered_trans: "covered r s \<Longrightarrow> covered s t \<Longrightarrow> covered r t"
  by (auto simp: covered_def)

lemma disjoint_covered: "disjoint_identities r t \<Longrightarrow> covered s t \<Longrightarrow> disjoint_identities r s"
  unfolding disjoint_identities_def covered_def by blast

lemma apart_iff: "apart a b \<longleftrightarrow> disjoint_identities (identities b) (identities a)"
  by (auto simp: apart_def disjoint_identities_def identities_def)

text \<open>What the settlement of a session establishes.\<close>

definition read_candidate :: "frozen_candidate \<Rightarrow> verification_session_facts \<Rightarrow> role_settlement \<Rightarrow> bool" where
  "read_candidate c session s \<longleftrightarrow>
     sf_workspace_mode session = CandidateReadOnly \<and> sf_permission_profile session = CandidateReadOnlyRestricted
     \<and> (\<forall>a. rs_assignment s = Some a \<longrightarrow>
          (\<exists>pre. sf_pre_candidate_snapshot session = Some pre \<and> va_snapshot_id a = sn_snapshot_id pre
             \<and> va_checkout_revision a = fc_candidate_commit_id c \<and> snapshot_matches_candidate pre c))
     \<and> (\<forall>t. rs_terminal_job_outcome s = Some t \<longrightarrow>
          (\<exists>a. rs_assignment s = Some a \<and> jo_worker_session_id t = va_worker_session_id a)
          \<and> sf_accepted_job_outcome session = Some t
          \<and> sf_post_candidate_snapshot session = sf_pre_candidate_snapshot session
          \<and> jo_terminal_candidate_tree_id t = fc_candidate_tree_id c
          \<and> 0 \<le> jo_last_event_sequence t \<and> jo_last_event_sequence t < 2 ^ 63
          \<and> (\<forall>m \<in> set (sf_mutation_records session). \<not> mr_succeeded m))"

lemma mutation_records_failed:
  "mutation_records_from t path index seen records = Inr () \<Longrightarrow> \<forall>m \<in> set records. \<not> mr_succeeded m"
  by (induction records arbitrary: index seen) (auto simp: Let_def split: if_splits)

lemma settle_session_facts:
  assumes "settle_session sha256 d c path role run binding session = Inr s"
  shows "read_candidate c session s" and "rs_role s = role"
    and "rs_assignment s = Some a \<Longrightarrow> va_work_run_id a = run_id run \<and> va_session_binding_id a = db_id binding
      \<and> va_product_session_id a = db_product_session_id binding \<and> va_execution_job_id a = db_execution_job_id binding
      \<and> db_worker_session_id binding = Some (va_worker_session_id a) \<and> db_codex_thread_id binding = Some (va_codex_thread_id a)"
proof -
  from assms obtain assignment terminal findings state settlement where
    checks: "session_checks binding session path = Inr ()" and
    assignment: "validate_assignment sha256 binding run session c path = Inr assignment" and
    terminal: "validate_terminal_job_outcome sha256 run binding assignment session c path = Inr terminal" and
    s: "s = \<lparr>rs_role = role, rs_state = state, rs_assignment = assignment, rs_findings = findings,
       rs_terminal_job_outcome = terminal, rs_terminal_settlement = settlement\<rparr>"
    by (auto simp: settle_session_def rbind_Inr_iff)
  have policy: "sf_workspace_mode session = CandidateReadOnly" "sf_permission_profile session = CandidateReadOnlyRestricted"
    using checks by (auto simp: session_checks_def check_all_Inr_iff ensure_Inr_iff)
  have pre: "\<exists>pre. sf_pre_candidate_snapshot session = Some pre \<and> va_snapshot_id a = sn_snapshot_id pre
             \<and> va_checkout_revision a = fc_candidate_commit_id c \<and> snapshot_matches_candidate pre c" if "assignment = Some a" for a
    using assignment that by (auto simp: validate_assignment_def snapshot_matches_candidate_def split: option.splits if_splits)
  have "(\<exists>a. assignment = Some a \<and> jo_worker_session_id t = va_worker_session_id a)
          \<and> sf_accepted_job_outcome session = Some t
          \<and> sf_post_candidate_snapshot session = sf_pre_candidate_snapshot session
          \<and> jo_terminal_candidate_tree_id t = fc_candidate_tree_id c
          \<and> 0 \<le> jo_last_event_sequence t \<and> jo_last_event_sequence t < 2 ^ 63
          \<and> (\<forall>m \<in> set (sf_mutation_records session). \<not> mr_succeeded m)" if "terminal = Some t" for t
  proof -
    from terminal that have shape: "validate_outcome_shape t path = Inr ()" and pair: "validate_snapshot_pair sha256 session t c path = Inr ()"
      and records: "validate_mutation_records (sf_mutation_records session) t path = Inr ()"
      and rest: "\<exists>a. assignment = Some a \<and> jo_worker_session_id t = va_worker_session_id a" "sf_accepted_job_outcome session = Some t" "jo_terminal_candidate_tree_id t = fc_candidate_tree_id c"
      by (auto simp: validate_terminal_job_outcome_def rbind_Inr_iff check_all_Inr_iff ensure_Inr_iff outcome_matches_role_def split: option.splits if_splits)
    have "0 \<le> jo_last_event_sequence t" "jo_last_event_sequence t \<le> uint MAX_SAFE_INTEGER"
      using shape by (simp_all add: validate_outcome_shape_def check_all_Inr_iff ensure_Inr_iff)
    moreover have "sf_post_candidate_snapshot session = sf_pre_candidate_snapshot session"
      using pair by (auto simp: validate_snapshot_pair_def ensure_Inr_iff split: option.splits)
    moreover have "\<forall>m \<in> set (sf_mutation_records session). \<not> mr_succeeded m"
      using records mutation_records_failed by (auto simp: validate_mutation_records_def check_all_Inr_iff)
    ultimately show ?thesis using rest by (simp add: MAX_SAFE_INTEGER_def)
  qed
  with policy pre show "read_candidate c session s" by (simp add: read_candidate_def s)
  show "rs_role s = role" by (simp add: s)
  assume "rs_assignment s = Some a"
  then show "va_work_run_id a = run_id run \<and> va_session_binding_id a = db_id binding
      \<and> va_product_session_id a = db_product_session_id binding \<and> va_execution_job_id a = db_execution_job_id binding
      \<and> db_worker_session_id binding = Some (va_worker_session_id a) \<and> db_codex_thread_id binding = Some (va_codex_thread_id a)"
    using assignment by (auto simp: s validate_assignment_def split: option.splits if_splits)
qed

lemma ensure_distinct_facts:
  assumes "ensure_distinct_assignment run binding path taken = Inr taken'"
  shows "covered taken taken'"
    and "va_work_run_id a = run_id run \<and> va_session_binding_id a = db_id binding
      \<and> va_product_session_id a = db_product_session_id binding \<and> va_execution_job_id a = db_execution_job_id binding
      \<and> db_worker_session_id binding = Some (va_worker_session_id a) \<and> db_codex_thread_id binding = Some (va_codex_thread_id a)
      \<Longrightarrow> disjoint_identities (identities a) taken \<and> covered (identities a) taken'"
  using assms by (auto simp: ensure_distinct_assignment_def covered_def disjoint_identities_def identities_def split: if_splits)

lemma settle_role_cases:
  assumes "settle_role sha256 d c facts writer path taken role = Inr (s, taken')"
  obtains (missing) "s = missing_settlement role" "covered taken taken'" "filter (\<lambda>x. sf_role x = role) (vn_sessions facts) = []"
  | (settled) session run binding where "filter (\<lambda>x. sf_role x = role) (vn_sessions facts) = [session]"
      "settle_session sha256 d c path role run binding session = Inr s"
      "ensure_distinct_assignment run binding path taken = Inr taken'"
proof -
  let ?matching = "filter (\<lambda>x. sf_role x = role) (vn_sessions facts)"
  consider "?matching = []" | session where "?matching = [session]" | "length ?matching > 1"
    by (cases ?matching; cases "tl ?matching") auto
  then show thesis
  proof cases
    case 1
    with assms have "s = missing_settlement role \<and> covered taken taken'"
      by (auto simp: settle_role_def Let_def rbind_Inr_iff covered_def ensure_distinct_facts(1) [unfolded covered_def]
          dest!: ensure_distinct_facts(1) split: option.splits if_splits)
    with 1 missing show thesis by blast
  next
    case (2 session)
    with assms settled show thesis
      by (auto simp: settle_role_def Let_def rbind_Inr_iff split: option.splits if_splits)
  next
    case 3
    with assms show thesis by (simp add: settle_role_def)
  qed
qed

lemma settle_role_facts:
  assumes "settle_role sha256 d c facts writer path taken role = Inr (s, taken')"
  shows "rs_role s = role \<and> covered taken taken'
    \<and> (\<forall>a. rs_assignment s = Some a \<longrightarrow> disjoint_identities (identities a) taken \<and> covered (identities a) taken')
    \<and> (rs_assignment s = None \<and> rs_terminal_job_outcome s = None
      \<or> (\<exists>x \<in> set (vn_sessions facts). read_candidate c x s))
    \<and> (\<forall>x \<in> set (vn_sessions facts). sf_role x = role \<longrightarrow> read_candidate c x s)"
  using assms
proof (cases rule: settle_role_cases)
  case missing
  then show ?thesis by (auto simp: missing_settlement_def filter_empty_conv)
next
  case (settled session run binding)
  note session = settle_session_facts [OF settled(2)] and taken = ensure_distinct_facts [OF settled(3)]
  have only: "{x \<in> set (vn_sessions facts). sf_role x = role} = {session}" using arg_cong [OF settled(1), of set] by simp
  have "\<forall>x \<in> set (vn_sessions facts). sf_role x = role \<longrightarrow> read_candidate c x s" using only session(1) by (auto simp: set_eq_iff)
  moreover have "session \<in> set (vn_sessions facts)" using only by auto
  moreover have "disjoint_identities (identities a) taken \<and> covered (identities a) taken'" if "rs_assignment s = Some a" for a
    using session(3) [OF that] taken(2) by blast
  ultimately show ?thesis using session(1,2) taken(1) by auto
qed

lemma settle_roles_facts:
  assumes "settle_roles sha256 d c facts writer index taken roles = Inr settlements"
  shows "map rs_role settlements = roles"
    and "a \<in> set (List.map_filter rs_assignment settlements) \<Longrightarrow> disjoint_identities (identities a) taken"
    and "sorted_wrt apart (List.map_filter rs_assignment settlements)"
    and "s \<in> set settlements \<Longrightarrow> rs_assignment s = None \<and> rs_terminal_job_outcome s = None
      \<or> (\<exists>x \<in> set (vn_sessions facts). read_candidate c x s)"
    and "x \<in> set (vn_sessions facts) \<Longrightarrow> sf_role x \<in> set roles \<Longrightarrow> \<exists>s \<in> set settlements. rs_role s = sf_role x \<and> read_candidate c x s"
proof -
  have "map rs_role settlements = roles
    \<and> (\<forall>a \<in> set (List.map_filter rs_assignment settlements). disjoint_identities (identities a) taken)
    \<and> sorted_wrt apart (List.map_filter rs_assignment settlements)
    \<and> (\<forall>s \<in> set settlements. rs_assignment s = None \<and> rs_terminal_job_outcome s = None
      \<or> (\<exists>x \<in> set (vn_sessions facts). read_candidate c x s))
    \<and> (\<forall>x \<in> set (vn_sessions facts). sf_role x \<in> set roles \<longrightarrow> (\<exists>s \<in> set settlements. rs_role s = sf_role x \<and> read_candidate c x s))"
    using assms
  proof (induction roles arbitrary: index taken settlements)
    case (Cons role roles)
    then obtain s taken' rest where role: "settle_role sha256 d c facts writer (at_index ''verification.sessions'' index) taken role = Inr (s, taken')"
      and rest: "settle_roles sha256 d c facts writer (index + 1) taken' roles = Inr rest" "settlements = s # rest"
      by (auto simp: rbind_Inr_iff)
    note head = settle_role_facts [OF role] and tail = Cons.IH [OF rest(1)]
    have "disjoint_identities (identities b) taken" if "b \<in> set (List.map_filter rs_assignment rest)" for b
      using that tail head disjoint_covered by blast
    moreover have "apart a b" if "rs_assignment s = Some a" "b \<in> set (List.map_filter rs_assignment rest)" for a b
      unfolding apart_iff using that tail head disjoint_covered by blast
    ultimately show ?case using tail head rest(2) by (auto simp: map_filter_def split: option.splits)
  qed (simp add: map_filter_def)
  then show "map rs_role settlements = roles"
    "a \<in> set (List.map_filter rs_assignment settlements) \<Longrightarrow> disjoint_identities (identities a) taken"
    "sorted_wrt apart (List.map_filter rs_assignment settlements)"
    "s \<in> set settlements \<Longrightarrow> rs_assignment s = None \<and> rs_terminal_job_outcome s = None
      \<or> (\<exists>x \<in> set (vn_sessions facts). read_candidate c x s)"
    "x \<in> set (vn_sessions facts) \<Longrightarrow> sf_role x \<in> set roles \<Longrightarrow> \<exists>s \<in> set settlements. rs_role s = sf_role x \<and> read_candidate c x s"
    by blast+
qed

lemma current_candidate_writer:
  assumes "assert_frozen_candidate_current env d c = Inr ()" and "distinct (map db_id (ds_session_bindings d))"
    and "find (\<lambda>b. db_id b = fc_producer_session_binding_id c) (ds_session_bindings d) = Some writer"
  shows "db_product_session_id writer = fc_producer_product_session_id c \<and> db_execution_job_id writer = fc_producer_execution_job_id c
    \<and> db_worker_session_id writer = Some (fc_producer_worker_session_id c) \<and> db_codex_thread_id writer = Some (fc_producer_codex_thread_id c)"
proof -
  from assms(1) obtain producer binding where binding: "exact_producer_binding d producer (fc_producer_session_binding_id c) = Inr binding"
    and same: "same_writer c producer binding"
    by (auto simp: assert_frozen_candidate_current_def rbind_Inr_iff map_err_Inr_iff ensure_Inr_iff)
  have "binding \<in> set (ds_session_bindings d)" "db_id binding = fc_producer_session_binding_id c"
    using binding by (auto simp: exact_producer_binding_def filter_eq_Cons_iff split: list.splits if_splits)
  moreover have "writer \<in> set (ds_session_bindings d)" "db_id writer = fc_producer_session_binding_id c"
    using assms(3) by (auto simp: find_Some_iff)
  ultimately have "writer = binding" using assms(2) by (metis distinct_map inj_onD)
  with same show ?thesis by (simp add: same_writer_def)
qed

lemma accepted_binding_ids: "try_from_snapshot env d = Inr d \<Longrightarrow> distinct (map db_id (ds_session_bindings d))"
  by (auto simp: try_from_snapshot_iff identity_checks_def Let_def check_all_Inr_iff duplicate_ids_def ensure_Inr_iff)

lemma apart_from_writerI:
  assumes "assert_frozen_candidate_current env d c = Inr ()" and "try_from_snapshot env d = Inr d"
    and "find (\<lambda>b. db_id b = fc_producer_session_binding_id c) (ds_session_bindings d) = Some writer"
    and "db_worker_session_id writer = Some worker_session" and "db_codex_thread_id writer = Some thread"
    and "disjoint_identities (identities a) (writer_identities c writer worker_session thread)"
  shows "apart_from_writer c a"
  using current_candidate_writer [OF assms(1) accepted_binding_ids [OF assms(2)] assms(3)] assms(4-6)
  by (auto simp: apart_from_writer_def disjoint_identities_def identities_def writer_identities_def)

lemma verification_facts:
  assumes "validate_independent_verification env d c facts = Inr v"
  obtains writer worker_session thread where "assert_frozen_candidate_current env d c = Inr ()"
    "vn_required_roles facts \<in> {[RoleReviewer, RoleVerifier], [RoleReviewer, RoleVerifier, RoleAdversarialVerifier]}"
    "\<forall>x \<in> set (vn_sessions facts). sf_role x \<in> set (vn_required_roles facts)"
    "find (\<lambda>b. db_id b = fc_producer_session_binding_id c) (ds_session_bindings d) = Some writer"
    "db_worker_session_id writer = Some worker_session" "db_codex_thread_id writer = Some thread"
    "settle_roles (de_sha256 env) d c facts writer 0 (writer_identities c writer worker_session thread) (vn_required_roles facts)
       = Inr (iv_settlements v)"
    "snapshot_checks (de_sha256 env) c facts (iv_settlements v) = Inr ()" "iv_snapshot v = vn_snapshot facts"
  using assms
  by (auto simp: validate_independent_verification_def rbind_Inr_iff ok_or_Inr_iff check_all_Inr_iff ensure_Inr_iff
      validate_required_roles_def list_ex_iff)

lemma projected_sequences:
  assumes "validate_independent_verification env d c facts = Inr v" and "s \<in> set (iv_settlements v)"
  shows "sequence_accepted s"
proof -
  from assms(1) obtain writer worker_session thread where
    "settle_roles (de_sha256 env) d c facts writer 0 (writer_identities c writer worker_session thread) (vn_required_roles facts)
       = Inr (iv_settlements v)"
    by (rule verification_facts)
  from settle_roles_facts(4) [OF this assms(2)] show ?thesis
    by (auto simp: sequence_accepted_def read_candidate_def split: option.splits)
qed

section \<open>Evidence that was run\<close>

text \<open>A source that was run by a fenced execution on a checkout of the candidate.\<close>

definition ran_on_candidate :: "frozen_candidate \<Rightarrow> accepted_job_outcome \<Rightarrow> checkout_attestation \<Rightarrow> accepted_runtime_source \<Rightarrow> bool" where
  "ran_on_candidate c t checkout source \<longleftrightarrow>
     ar_execution source = terminal_identity t \<and> ck_execution checkout = terminal_identity t
     \<and> ck_repository checkout = fc_repository c \<and> ck_commit_id checkout = fc_candidate_commit_id c
     \<and> ck_tree_id checkout = fc_candidate_tree_id c \<and> jo_terminal_candidate_tree_id t = fc_candidate_tree_id c
     \<and> ar_candidate_ref source = fc_candidate_ref c \<and> ar_occurred_at_millis source \<le> jo_finished_at_millis t"

lemma runtime_source_facts:
  assumes "resolve_runtime_source c run binding evidence_type event sources t checkout at = Some (Inr r)"
  shows "\<exists>source identity. filter (\<lambda>f. ar_source_event_id f = event) sources = [source] \<and> ran_on_candidate c t checkout source
    \<and> rv_identity r = RuntimeSource identity \<and> ri_execution identity = terminal_identity t
    \<and> rv_outcome r = ar_outcome source \<and> ri_command_digest identity = ar_command_digest source
    \<and> rv_evidence_type r = ar_evidence_type source \<and> ri_source_sequence identity = ar_source_sequence source"
proof -
  from assms obtain expected where
    terminal: "validate_runtime_terminal c run binding t at = Some (Inr expected)" and
    checkout: "validate_checkout_attestation c checkout expected = Inr ()"
    by (auto simp: resolve_runtime_source_def pbind_Inr_iff split: if_splits)
  have expected: "expected = terminal_identity t" "jo_terminal_candidate_tree_id t = fc_candidate_tree_id c"
    using terminal by (auto simp: validate_runtime_terminal_def split: option.splits if_splits)
  from assms terminal obtain source where source: "filter (\<lambda>f. ar_source_event_id f = event) sources = [source]"
    by (auto simp: resolve_runtime_source_def pbind_Inr_iff split: if_splits list.splits)
  with assms terminal obtain n where
    checks: "ar_execution source = expected" "ar_evidence_type source = evidence_type" "ar_candidate_ref source = fc_candidate_ref c" and
    position: "validate_runtime_source_position source binding t at = Some (Inr ())" and
    r: "r = \<lparr>rv_evidence_type = evidence_type, rv_source_ref = ''runtime_event:'' @ event, rv_outcome = ar_outcome source,
                rv_identity = RuntimeSource \<lparr>ri_execution = expected, ri_source_sequence = ar_source_sequence source,
                  ri_terminal_last_event_sequence = n, ri_candidate_ref = ar_candidate_ref source,
                  ri_checkout_commit_id = ck_commit_id checkout, ri_checkout_tree_id = ck_tree_id checkout,
                  ri_command_digest = ar_command_digest source\<rparr>\<rparr>"
    by (auto simp: resolve_runtime_source_def pbind_Inr_iff check_all_Inr_iff ensure_Inr_iff Let_def split: if_splits option.splits)
  have "ar_occurred_at_millis source \<le> jo_finished_at_millis t"
    using position by (auto simp: validate_runtime_source_position_def Let_def split: if_splits option.splits)
  then show ?thesis
    using source checks r expected checkout
    by (auto simp: ran_on_candidate_def validate_checkout_attestation_def check_all_Inr_iff ensure_Inr_iff)
qed

lemma direct_source_is_not_run:
  "resolve_direct_candidate_source c run binding producer at source = Inr r \<Longrightarrow> rv_identity r \<noteq> RuntimeSource identity"
  by (auto simp: resolve_direct_candidate_source_def resolve_direct_candidate_file_def Let_def rbind_Inr_iff
      split: evidence_source.splits option.splits if_splits)

lemma resolved_runtime_evidence:
  assumes "resolve_delivery_evidence env json d c input = Some (Inr e)" and "re_source_identity e = RuntimeSource identity"
  obtains evidence_type event sources t checkout source where
    "ei_source input = RuntimeEvidence evidence_type event sources t checkout"
    "filter (\<lambda>f. ar_source_event_id f = event) sources = [source]" "ran_on_candidate c t checkout source"
    "ri_execution identity = terminal_identity t" "re_outcome e = ar_outcome source" "ri_command_digest identity = ar_command_digest source"
    "er_evidence_type (re_evidence e) = ar_evidence_type source"
proof -
  from assms(1) obtain run binding producer r where
    r: "(case ei_source input of
         RuntimeEvidence evidence_type event sources t checkout \<Rightarrow>
           resolve_runtime_source c run binding evidence_type event sources t checkout (ei_created_at_millis input)
       | direct \<Rightarrow> Some (resolve_direct_candidate_source c run binding producer (ei_created_at_millis input) direct)) = Some (Inr r)" and
    e: "re_outcome e = rv_outcome r" "re_source_identity e = rv_identity r" "er_evidence_type (re_evidence e) = rv_evidence_type r"
    by (auto simp: resolve_delivery_evidence_def pbind_Inr_iff Let_def)
  show thesis
  proof (cases "ei_source input")
    case (RuntimeEvidence evidence_type event sources t checkout)
    with r runtime_source_facts obtain source identity' where
      "filter (\<lambda>f. ar_source_event_id f = event) sources = [source]" "ran_on_candidate c t checkout source"
      "rv_identity r = RuntimeSource identity'" "ri_execution identity' = terminal_identity t" "rv_outcome r = ar_outcome source"
      "ri_command_digest identity' = ar_command_digest source" "rv_evidence_type r = ar_evidence_type source"
      by fastforce
    with e assms(2) RuntimeEvidence show thesis by (intro that) auto
  qed (use r e(2) assms(2) in \<open>auto dest!: direct_source_is_not_run [where identity = identity]\<close>)
qed

end
