(* ===== verification/Delivery_Promises.thy ===== *)
theory Delivery_Promises
  imports Delivery_Sample
begin

text \<open>What the users of a delivery can rely on: verdicts, stored deliveries and decisions.\<close>

section \<open>Theorems\<close>

text \<open>
  C5. A verdict rests on what was run. When the computed verdict passes, every required criterion is supported by every
  role of the verification: each settled on a finding that it passes, with at least one test or command of
  that role's own run that is the approved method and succeeded, and none that failed; the candidate and the
  verification are current, and no attention that blocks is open, other than the approval. When it fails, some
  required criterion is supported in the same way as failing by every role.
\<close>

theorem verdict_is_supported:
  assumes computed: "compute_delivery_verdict env d c verification evidence at = Some (Inr cv)"
  shows "(vd_status (cv_verdict cv) = VerdictPass \<longrightarrow>
      assert_frozen_candidate_current env d c = Inr () \<and> iv_candidate_ref verification = fc_candidate_ref c
      \<and> (\<forall>a \<in> set (ds_attention_items d). blocking_open a \<longrightarrow> at_item_type a = DeliveryApproval)
      \<and> (\<forall>k \<in> set (sp_acceptance_criteria (ds_spec d)). ac_required k \<longrightarrow>
           iv_settlements verification \<noteq> []
           \<and> (\<forall>s \<in> set (iv_settlements verification). role_supports (de_sha256 env) evidence k ProductPass s)))
    \<and> (vd_status (cv_verdict cv) = VerdictFail \<longrightarrow>
      (\<exists>k \<in> set (sp_acceptance_criteria (ds_spec d)). ac_required k
         \<and> iv_settlements verification \<noteq> []
         \<and> (\<forall>s \<in> set (iv_settlements verification). role_supports (de_sha256 env) evidence k ProductFail s)))"
proof -
  from computed obtain judged where checks: "verdict_checks env d c verification evidence at = Inr ()"
    and criteria: "map fst judged = sp_acceptance_criteria (ds_spec d)"
    and each: "\<And>k computed r. (k, computed, r) \<in> set judged \<Longrightarrow>
       compute_criterion (de_sha256 env) k verification evidence = Some computed \<and> cr_criterion_id r = ac_id k \<and> cr_verdict r = cc_verdict computed"
    and status: "vd_status (cv_verdict cv) = fold_delivery_status d (map (\<lambda>p. snd (snd p)) judged) (vd_unresolved_findings (cv_verdict cv))"
    and attention: "set (attention_findings d) \<subseteq> set (vd_unresolved_findings (cv_verdict cv))"
    and ids: "distinct (map ac_id (sp_acceptance_criteria (ds_spec d)))"
    by (rule computed_verdict) blast
  have "iv_settlements verification \<noteq> []
      \<and> (\<forall>s \<in> set (iv_settlements verification). role_supports (de_sha256 env) evidence k ProductPass s)"
    if "vd_status (cv_verdict cv) = VerdictPass" "k \<in> set (sp_acceptance_criteria (ds_spec d))" "ac_required k" for k
    by (rule pass_is_supported [OF computed that])
  moreover have "at_item_type a = DeliveryApproval"
    if "vd_status (cv_verdict cv) = VerdictPass" "a \<in> set (ds_attention_items d)" "blocking_open a" for a
  proof (rule ccontr)
    assume "at_item_type a \<noteq> DeliveryApproval"
    with that have "attention_findings d \<noteq> []" by (auto simp: attention_findings_def filter_empty_conv)
    then have "vd_unresolved_findings (cv_verdict cv) \<noteq> []" using attention by (cases "attention_findings d") auto
    with status that(1) show False by (auto simp: fold_delivery_status_def Let_def split: if_splits)
  qed
  moreover have "\<exists>k \<in> set (sp_acceptance_criteria (ds_spec d)). ac_required k \<and> iv_settlements verification \<noteq> []
      \<and> (\<forall>s \<in> set (iv_settlements verification). role_supports (de_sha256 env) evidence k ProductFail s)"
    if fail: "vd_status (cv_verdict cv) = VerdictFail"
  proof -
    from status fail obtain p k' where p: "p \<in> set judged" "cr_verdict (snd (snd p)) = VerdictFail"
      and k': "k' \<in> set (sp_acceptance_criteria (ds_spec d))" "ac_required k'" "cr_criterion_id (snd (snd p)) = ac_id k'"
      by (auto simp: fold_delivery_status_def Let_def list_ex_iff split: if_splits)
    obtain k comp r where kr: "p = (k, comp, r)" by (cases p)
    note r = each [OF p(1) [unfolded kr]]
    have k: "k \<in> set (sp_acceptance_criteria (ds_spec d))" unfolding criteria [symmetric] using p(1) kr by force
    have "k = k'" using ids k k'(1,3) r kr by (auto simp: distinct_map inj_on_def)
    moreover have "cc_verdict comp = (case ProductFail of ProductPass \<Rightarrow> VerdictPass | ProductFail \<Rightarrow> VerdictFail)" using r p(2) kr by simp
    with compute_criterion_product [of "de_sha256 env" k verification evidence comp ProductFail] r
    have "iv_settlements verification \<noteq> []" "\<forall>s \<in> set (iv_settlements verification). role_supports (de_sha256 env) evidence k ProductFail s"
      by blast+
    ultimately show ?thesis using k' by blast
  qed
  ultimately show ?thesis
    using checks by (auto simp: verdict_checks_def check_all_Inr_iff ensure_Inr_iff)
qed

theorem verdict_is_supported_witness:
  "vd_status sample_verdict = VerdictPass
    \<and> role_supports (\<lambda>_. replicate 32 (CHR 0x00)) [sample_resolved OutcomeSucceeded] (sample_criterion (Some ''t'')) ProductPass sample_settlement"
  using verdict_is_supported [OF sample_computed]
  by (simp add: sample_verdict_def sample_verification_def sample_spec_def sample_env_def) (simp add: sample_criterion_def)





text \<open>
  C31. Validation settles. A delivery that was accepted is accepted again, unchanged: lowering the case of repository
  names and deriving the identity from a lowered issue reference is done once, so storing a delivery and loading it
  gives the same delivery.
\<close>

theorem accepted_delivery_is_stable:
  assumes "try_from_snapshot env s = Inr d"
  shows "try_from_snapshot env d = Inr d"
proof -
  from assms obtain spec where s: "validate_aggregate (de_calendar env) (ds_work_run_aggregate s) = Inr ()"
      "validate_fact env s = Inr ()" "header_checks s = Inr ()"
    and spec: "validate_spec (de_sha256 env) (ds_spec s) ''delivery.spec'' = Inr spec" and d: "d = s\<lparr>ds_spec := spec\<rparr>"
    and checks: "parts_checks d = Inr ()" "identity_checks d = Inr ()" "relation_checks d = Inr ()" "completion_checks d = Inr ()"
    unfolding try_from_snapshot_iff by blast
  have prefix: "binding_prefix env (s\<lparr>ds_spec := spec\<rparr>) n = binding_prefix env s n" for n by (simp add: binding_prefix_def)
  have "validate_fact env d = Inr ()" using s(2) unfolding d validate_fact_def
    by (cases "ds_same_candidate_reverification s") (simp_all add: prefix)
  moreover have "header_checks d = Inr ()" using s(3) unfolding d by (simp add: header_checks_def)
  moreover have "validate_spec (de_sha256 env) (ds_spec d) ''delivery.spec'' = Inr (ds_spec d)"
    using validate_spec_again [OF spec] by (simp add: d)
  moreover have "d = d\<lparr>ds_spec := ds_spec d\<rparr>" by simp
  moreover have "validate_aggregate (de_calendar env) (ds_work_run_aggregate d) = Inr ()" unfolding d using s(1) by simp
  ultimately show ?thesis using checks unfolding try_from_snapshot_iff by blast
qed

theorem accepted_delivery_is_stable_witness:
  "try_from_snapshot sample_env sample_ready = Inr sample_ready"
  using accepted_delivery_is_stable [of sample_env sample_ready sample_ready] sample_judged_ok [of StatusReadyToDeliver]
  by (simp add: sample_ready_def)

text \<open>
  The two ways to reach a status agree. The status that the computation folds from its results is the one that
  the validation of a stored delivery demands, for every verdict that was accepted.
\<close>

theorem stored_status_is_the_fold:
  assumes "try_from_snapshot env s = Inr d" and "ds_verdict d = Some v"
  shows "vd_status v = fold_delivery_status d (vd_criteria v) (vd_unresolved_findings v)"
  by (rule status_is_fold [OF assms])

text \<open>
  C40. The result of one verifier can panic. \<^verbatim>\<open>compute_verifier_result\<close> evaluates a role without the check of the
  method that \<^verbatim>\<open>compute_criterion\<close> makes first: when a required criterion has no approved method and the
  verifier's finding on it cites a test or a command, the call panics, while the verdict for the same facts
  would be inconclusive.
\<close>

theorem missing_method_panics:
  assumes "k \<in> set (sp_acceptance_criteria (ds_spec d))" and "ac_required k" and "ac_verification_method k = None"
    and "rs_state s = SessionSettled" and "rs_terminal_settlement s = Some TerminalIsSettled"
    and "rs_assignment s = Some assignment" and "rs_terminal_job_outcome s = Some t"
    and "filter (\<lambda>f. vf_criterion_id f = ac_id k) (rs_findings s) = [finding]"
    and "length (vf_source_refs finding) = length (vf_source_sequences finding)"
    and "resolve_sources assignment t evidence (role_evidence_mismatch (rs_role s) (ac_id k) (vf_finding_ref finding)) []
           (zip (vf_source_refs finding) (vf_source_sequences finding)) = Some (Inr resolved)"
    and "list_all (\<lambda>e. \<not> environment_failure (re_outcome e)) resolved"
    and "list_ex (\<lambda>e. direct_evidence_type (er_evidence_type (re_evidence e))) resolved"
  shows "compute_verifier_result sha256 d s evidence = None
    \<and> map_option cc_verdict (compute_criterion sha256 k verification evidence) = Some VerdictInconclusive"
proof -
  have "filter (\<lambda>e. direct_evidence_type (er_evidence_type (re_evidence e))) resolved \<noteq> []"
    using assms(12) by (auto simp: list_ex_iff filter_empty_conv)
  then have "evaluate_sources sha256 k role mismatch claimed resolved = None" for role mismatch claimed
    using assms(3,11) by (auto simp: evaluate_sources_def Let_def list_all_iff list_ex_iff)
  then have "evaluate_role sha256 k s evidence = None"
    using assms(4-10) by (simp add: evaluate_role_def evaluate_settled_role_def Let_def)
  then have "None \<in> set (map (\<lambda>k. evaluate_role sha256 k s evidence) (filter ac_required (sp_acceptance_criteria (ds_spec d))))"
    using assms(1,2) by force
  then have "all_some (map (\<lambda>k. evaluate_role sha256 k s evidence) (filter ac_required (sp_acceptance_criteria (ds_spec d)))) = None"
    unfolding all_some_None .
  then show ?thesis using assms(3) by (simp add: compute_verifier_result_def compute_criterion_def)
qed

theorem missing_method_panics_witness:
  "compute_verifier_result (\<lambda>_. []) (sample_delivery StatusReady [] None\<lparr>ds_spec := sample_spec None\<rparr>) sample_settlement
     [sample_resolved OutcomeSucceeded] = None"
proof (rule missing_method_panics [where k = "sample_criterion None" and assignment = sample_assignment and t = sample_terminal
      and finding = sample_finding and resolved = "[sample_resolved OutcomeSucceeded]" and verification = sample_verification, THEN conjunct1])
  show "resolve_sources sample_assignment sample_terminal [sample_resolved OutcomeSucceeded]
      (role_evidence_mismatch (rs_role sample_settlement) (ac_id (sample_criterion None)) (vf_finding_ref sample_finding)) []
      (zip (vf_source_refs sample_finding) (vf_source_sequences sample_finding)) = Some (Inr [sample_resolved OutcomeSucceeded])"
    using sample_resolves [of OutcomeSucceeded] by (simp add: sample_finding_def del: resolve_sources.simps)
qed (simp_all add: sample_spec_def sample_criterion_def sample_settlement_def sample_finding_def sample_resolved_def
    sample_reference_def environment_failure_def direct_evidence_type_def)

end
