(* ===== verification/Delivery_Chain.thy ===== *)
theory Delivery_Chain
  imports Delivery_Team Delivery_Independence Delivery_Promises
begin

text \<open>
  From the facts of verification sessions to the verdict: what holds when verification, evidence and verdict are taken
  together.
\<close>

section \<open>Theorems\<close>

text \<open>
  C9. Verification is independent. In an accepted verification of a delivery's candidate, the roles are the reviewer and
  the verifier, perhaps followed by the adversarial verifier; no two of them, and none of them and the writer, share a
  run, a binding, a product session, a job, a worker session or a thread. All of them read the sealed snapshot of
  that very candidate, in a read-only workspace, and every session that ended left the tree as it was.
\<close>

theorem verifiers_are_independent:
  assumes "try_from_snapshot env d = Inr d" and "validate_independent_verification env d c facts = Inr v"
  shows "map rs_role (iv_settlements v) \<in> {[RoleReviewer, RoleVerifier], [RoleReviewer, RoleVerifier, RoleAdversarialVerifier]}
    \<and> (let assigned = List.map_filter rs_assignment (iv_settlements v) in
         sorted_wrt apart assigned \<and> (\<forall>a \<in> set assigned. apart_from_writer c a
           \<and> va_snapshot_id a = sn_snapshot_id (iv_snapshot v) \<and> va_checkout_revision a = fc_candidate_commit_id c))
    \<and> verify_snapshot_seal (de_sha256 env) (iv_snapshot v) \<and> snapshot_matches_candidate (iv_snapshot v) c
    \<and> (\<forall>x \<in> set (vn_sessions facts). \<exists>s \<in> set (iv_settlements v). rs_role s = sf_role x \<and> read_candidate c x s)"
proof -
  from assms(2) obtain writer worker_session thread where
    current: "assert_frozen_candidate_current env d c = Inr ()" and
    roles: "vn_required_roles facts \<in> {[RoleReviewer, RoleVerifier], [RoleReviewer, RoleVerifier, RoleAdversarialVerifier]}" and
    requested: "\<forall>x \<in> set (vn_sessions facts). sf_role x \<in> set (vn_required_roles facts)" and
    writer: "find (\<lambda>b. db_id b = fc_producer_session_binding_id c) (ds_session_bindings d) = Some writer"
      "db_worker_session_id writer = Some worker_session" "db_codex_thread_id writer = Some thread" and
    settled: "settle_roles (de_sha256 env) d c facts writer 0 (writer_identities c writer worker_session thread) (vn_required_roles facts)
       = Inr (iv_settlements v)" and
    snapshots: "snapshot_checks (de_sha256 env) c facts (iv_settlements v) = Inr ()" "iv_snapshot v = vn_snapshot facts"
    by (rule verification_facts)
  note facts = settle_roles_facts [OF settled]
  have seal: "verify_snapshot_seal (de_sha256 env) (iv_snapshot v)" "snapshot_matches_candidate (iv_snapshot v) c"
    and same: "x \<in> set (vn_sessions facts) \<Longrightarrow> sf_pre_candidate_snapshot x = Some pre \<Longrightarrow> pre = iv_snapshot v" for x pre
    using snapshots by (auto simp: snapshot_checks_def Let_def check_all_Inr_iff ensure_Inr_iff list_ex_iff map_filter_def)
  have "apart_from_writer c a \<and> va_snapshot_id a = sn_snapshot_id (iv_snapshot v) \<and> va_checkout_revision a = fc_candidate_commit_id c"
    if a: "a \<in> set (List.map_filter rs_assignment (iv_settlements v))" for a
  proof -
    have "apart_from_writer c a" by (rule apart_from_writerI [OF current assms(1) writer facts(2) [OF a]])
    moreover obtain s where "s \<in> set (iv_settlements v)" "rs_assignment s = Some a"
      using a by (auto simp: map_filter_def)
    with facts(4) obtain x where "x \<in> set (vn_sessions facts)" "read_candidate c x s" by force
    ultimately show ?thesis using same \<open>rs_assignment s = Some a\<close> unfolding read_candidate_def by blast
  qed
  moreover have "\<exists>s \<in> set (iv_settlements v). rs_role s = sf_role x \<and> read_candidate c x s"
    if "x \<in> set (vn_sessions facts)" for x
    using facts(5) [OF that] requested that by blast
  ultimately show ?thesis using facts(1,3) roles seal unfolding Let_def by auto
qed

theorem verifiers_are_independent_witness:
  "apart (team_assignment (CHR ''2'')) (team_assignment (CHR ''3'')) \<and> apart_from_writer team_candidate (team_assignment (CHR ''2''))
    \<and> map rs_role (iv_settlements team_verification) = [RoleReviewer, RoleVerifier]"
  using verifiers_are_independent [OF _ team_verified] team_accepted [of False]
  by (simp add: team_judged_def Let_def team_verification_def map_filter_def) (simp add: team_settlement_def)

text \<open>
  C4. A pass was earned. Take a delivery, a verification that was accepted for its candidate, and evidence that was
  resolved for it. When the computed verdict passes, then for every required criterion and every required role
  there is a worker session, other than the writer's, in which a command with the digest of the approved
  method was run on a checkout of exactly the candidate's commit and tree, and succeeded.
\<close>

theorem passing_verdict_was_earned:
  assumes "try_from_snapshot env d = Inr d" and verification: "validate_independent_verification env d c facts = Inr v"
    and resolved: "\<forall>e \<in> set evidence. \<exists>input. resolve_delivery_evidence env json d c input = Some (Inr e)"
    and computed: "compute_delivery_verdict env d c v evidence at = Some (Inr cv)" "vd_status (cv_verdict cv) = VerdictPass"
    and k: "k \<in> set (sp_acceptance_criteria (ds_spec d))" "ac_required k" and role: "role \<in> set (vn_required_roles facts)"
  shows "\<exists>s a t. s \<in> set (iv_settlements v) \<and> rs_role s = role \<and> rs_assignment s = Some a \<and> apart_from_writer c a
    \<and> rs_terminal_job_outcome s = Some t \<and> jo_worker_session_id t = va_worker_session_id a
    \<and> (\<exists>e \<in> set evidence. \<exists>input evidence_type event sources terminal checkout source approved.
         resolve_delivery_evidence env json d c input = Some (Inr e)
         \<and> ei_source input = RuntimeEvidence evidence_type event sources terminal checkout \<and> source \<in> set sources
         \<and> terminal_identity terminal = terminal_identity t \<and> ran_on_candidate c terminal checkout source
         \<and> ar_evidence_type source \<in> {EvidenceTest, EvidenceCommand} \<and> ar_outcome source = OutcomeSucceeded
         \<and> ac_verification_method k = Some approved
         \<and> verification_method_digest (\<lambda>x. hex_text (de_sha256 env x)) approved = Some (ar_command_digest source))"
proof -
  from verification obtain writer worker_session thread where
    current: "assert_frozen_candidate_current env d c = Inr ()" and
    writer: "find (\<lambda>b. db_id b = fc_producer_session_binding_id c) (ds_session_bindings d) = Some writer"
      "db_worker_session_id writer = Some worker_session" "db_codex_thread_id writer = Some thread" and
    settled: "settle_roles (de_sha256 env) d c facts writer 0 (writer_identities c writer worker_session thread) (vn_required_roles facts)
       = Inr (iv_settlements v)"
    by (rule verification_facts)
  note roles = settle_roles_facts [OF settled]
  from roles(1) role obtain s where s: "s \<in> set (iv_settlements v)" "rs_role s = role" by (metis image_iff image_set)
  have "role_supports (de_sha256 env) evidence k ProductPass s" using pass_is_supported [OF computed k] s(1) by blast
  then obtain a t finding approved e where support: "rs_assignment s = Some a" "rs_terminal_job_outcome s = Some t"
    "ac_verification_method k = Some approved" and e: "e \<in> set evidence" "re_outcome e = OutcomeSucceeded"
    "direct_evidence_type (er_evidence_type (re_evidence e))" "matches_verification_method (de_sha256 env) e approved"
    "\<exists>identity. re_source_identity e = RuntimeSource identity \<and> ri_execution identity = terminal_identity t"
    by (auto simp: role_supports_def Let_def filter_empty_conv product_evidence_def)
  from e(5) obtain identity where identity: "re_source_identity e = RuntimeSource identity" "ri_execution identity = terminal_identity t" by blast
  from resolved e(1) obtain input where input: "resolve_delivery_evidence env json d c input = Some (Inr e)" by blast
  obtain evidence_type event sources terminal checkout source where source:
    "ei_source input = RuntimeEvidence evidence_type event sources terminal checkout"
    "filter (\<lambda>f. ar_source_event_id f = event) sources = [source]" "ran_on_candidate c terminal checkout source"
    "ri_execution identity = terminal_identity terminal" "re_outcome e = ar_outcome source"
    "ri_command_digest identity = ar_command_digest source" "er_evidence_type (re_evidence e) = ar_evidence_type source"
    by (rule resolved_runtime_evidence [OF input identity(1)])
  have "source \<in> set sources" using arg_cong [OF source(2), of set] by auto
  moreover have "verification_method_digest (\<lambda>x. hex_text (de_sha256 env x)) approved = Some (ar_command_digest source)"
    using e(4) identity(1) source(6) by (auto simp: matches_verification_method_def split: option.splits)
  moreover have "a \<in> set (List.map_filter rs_assignment (iv_settlements v))" using s(1) support(1) by (force simp: map_filter_def)
  then have "apart_from_writer c a" by (rule apart_from_writerI [OF current assms(1) writer roles(2)])
  moreover have "jo_worker_session_id t = va_worker_session_id a"
    using roles(4) [OF s(1)] support(1,2) by (auto simp: read_candidate_def)
  ultimately show ?thesis
    using s support e(1-3) input source identity(2) unfolding direct_evidence_type_def by metis
qed

theorem passing_verdict_was_earned_witness:
  "\<exists>s a t. s \<in> set (iv_settlements team_verification) \<and> rs_role s = RoleReviewer \<and> rs_assignment s = Some a
    \<and> apart_from_writer team_candidate a \<and> rs_terminal_job_outcome s = Some t \<and> jo_worker_session_id t = va_worker_session_id a"
proof -
  have "try_from_snapshot team_env team_open = Inr team_open" using team_accepted [of False] by (simp add: team_judged_def)
  moreover have "\<forall>e \<in> set team_evidence. \<exists>input. resolve_delivery_evidence team_env team_identity_json team_open team_candidate input = Some (Inr e)"
    using team_resolves [of "CHR ''2''"] team_resolves [of "CHR ''3''"] by auto
  moreover have "vd_status (cv_verdict \<lparr>cv_evidence = team_references, cv_verdict = team_verdict\<rparr>) = VerdictPass" by (simp add: team_verdict_def)
  moreover have "sample_criterion (Some ''t'') \<in> set (sp_acceptance_criteria (ds_spec team_open))" "ac_required (sample_criterion (Some ''t''))"
    "RoleReviewer \<in> set (vn_required_roles team_facts)"
    by (simp_all add: sample_spec_def sample_criterion_def team_facts_def)
  ultimately show ?thesis
    using passing_verdict_was_earned [OF _ team_verified _ team_computed] by blast
qed

text \<open>
  C32. Computing a verdict never panics: whatever verification was accepted, for whatever delivery, every call with it ends
  with a verdict or an error.
\<close>

theorem verdict_never_panics:
  assumes "validate_independent_verification env d c facts = Inr v"
  shows "\<exists>result. compute_delivery_verdict env' d' c' v evidence at = Some result"
proof -
  have "\<forall>s \<in> set (iv_settlements v). sequence_accepted s" using projected_sequences [OF assms] by blast
  then show ?thesis
    using judge_criteria_returns [of v env' d' c' evidence at] by (auto simp: compute_delivery_verdict_def split: sum.splits)
qed

theorem verdict_never_panics_witness:
  "\<exists>result. compute_delivery_verdict team_env team_open team_candidate team_verification [] 0 = Some result"
  by (rule verdict_never_panics [OF team_verified])

end
