(* ===== verification/Spec2Isabelle.thy ===== *)
theory Spec2Isabelle
  imports Exchange_Inbound Device_Outbox Device_Workers Device_Fencing Application_Journal Session_Binding Network_Policy
    Storage_Streams Interaction_Finality Occupancy_Exclusion Pool_Durable Delivery_Chain
begin

text \<open>
  A verification library for WinWinCode.

  \<^bold>\<open>The program.\<close> WinWinCode is a delivery system in which people and coding agents work on repositories. A
  \<^emph>\<open>control plane\<close> (\<^verbatim>\<open>crates/winwincode-control-plane\<close>, \<^verbatim>\<open>-storage\<close>, \<^verbatim>\<open>-delivery\<close>, \<^verbatim>\<open>-session\<close>) keeps the truth in
  one SQLite database; \<^emph>\<open>devices\<close> (\<^verbatim>\<open>-device-client\<close>) hold the checkouts, run workers and talk to the control
  plane through a \<^emph>\<open>client exchange\<close> (\<^verbatim>\<open>-client-port\<close>) of sequenced frames; model requests of the agents
  go through a \<^emph>\<open>pool\<close> of the control plane; network failures are retried by one \<^emph>\<open>policy\<close> (\<^verbatim>\<open>-network\<close>).
  The control plane grants a device's user an \<^emph>\<open>occupancy lease\<close> with a fencing token; the device mirrors the
  token and refuses commands that carry an older one. Sessions route human decisions to the work; a
  \<^emph>\<open>delivery\<close> is a contract split into items on which runs are attempted.

  \<^bold>\<open>Theories and sources.\<close> Paths are below \<^verbatim>\<open>src/crates\<close>. A struct is a record, an enum a datatype, a
  \<^verbatim>\<open>Result\<close> a sum with the error on the left, a method that mutates returns the changed record, and a
  SQLite table is the list of its rows (\<open>Sql_Table\<close>); a \<^verbatim>\<open>BTreeMap\<close> is an ordered association list
  (\<open>Ordered_Map\<close>). Definitions carry the names of the functions they model.
    \<^item> \<open>Prelude\<close>: words, checked arithmetic, results, strings as UTF-8 bytes. \<open>Machines\<close>: the interfaces as
      locales, \<open>fallible_machine\<close> (operations that may fail and keep an invariant), \<open>preordered_machine\<close>
      (whose states only grow), \<open>reactive_machine\<close> and \<open>counting_machine\<close> (operations that answer); every
      component below is an interpretation of one of them, and its theorems over all runs are the facts of
      that interpretation.
    \<^item> \<open>Exchange_Sequence\<close>, \<open>Exchange_Frame\<close>, \<open>Exchange_Dedup\<close>, \<open>Exchange_Inbound\<close>, \<open>Exchange_Outbox\<close>:
      \<^verbatim>\<open>winwincode-client-port/src/exchange/*.rs\<close>: allocation and acknowledgement of sequences, the digest
      encoding of frames, the deduplication register, the receiver and the sender. The outbox is a locale
      \<open>outbox_store\<close> (the trait \<^verbatim>\<open>FrameOutbox\<close>), interpreted by the in-memory store here and by the SQLite table
      in \<open>Device_Outbox\<close>. \<open>Exchange_Link\<close> joins both ends with a network that loses, repeats and reorders.
    \<^item> \<open>Device_Store\<close>, \<open>Device_Tables\<close>, \<open>Device_Workers\<close>, \<open>Device_Outbox\<close>, \<open>Device_Fencing\<close>,
      \<open>Application_Journal\<close>: \<^verbatim>\<open>winwincode-device-client/src/store.rs\<close>, \<^verbatim>\<open>fencing.rs\<close>, \<^verbatim>\<open>application_journal.rs\<close>:
      the device's tables with their constraints and triggers, the outbox table, the mirror of the
      occupancy with its guard, and the journal of applied candidates.
    \<^item> \<open>Product_Session\<close>, \<open>Session_Binding\<close>, \<open>Interaction_Routing\<close>, \<open>Interaction_Finality\<close>:
      \<^verbatim>\<open>winwincode-session/src\<close>: the life of a session, what it is bound to, and the routing of decisions
      and cancellations.
    \<^item> \<open>Storage_Keys\<close>, \<open>Storage_Events\<close>, \<open>Storage_Commit\<close>, \<open>Storage_Reads\<close>: \<^verbatim>\<open>winwincode-storage/src/lib.rs\<close>: keys,
      the validation of a commit, its transaction over all tables, and the reads. \<open>Storage_States\<close>,
      \<open>Storage_Replay\<close> and \<open>Storage_Streams\<close> hold what it promises.
    \<^item> \<open>Occupancy_Ledger\<close>, \<open>Occupancy_Exclusion\<close>: \<^verbatim>\<open>winwincode-storage/src/client_occupancy.rs\<close>.
    \<^item> \<open>Model_Pool\<close>, \<open>Pool_Limits\<close>, \<open>Pool_Promises\<close>, \<open>Pool_Durable\<close>:
      \<^verbatim>\<open>winwincode-control-plane/src/model_request_pool.rs\<close> and the form in which it survives a restart.
    \<^item> \<open>Work_Runs\<close>, \<open>Work_Schedule\<close>, \<open>Work_Machine\<close>, \<open>Work_Promises\<close>:
      \<^verbatim>\<open>winwincode-delivery/src/application/workrun.rs\<close> and the aggregate of a rework in \<^verbatim>\<open>domain/rework.rs\<close>.
    \<^item> \<open>Text_Space\<close> (whitespace, counting and hexadecimal text of the standard library), \<open>Verification_Command\<close>:
      \<^verbatim>\<open>winwincode-domain/src/verification_command.rs\<close>, how approved methods and observed commands are compared.
    \<^item> \<open>Delivery_Values\<close>, \<open>Delivery_Parts\<close>, \<open>Delivery_State\<close>: \<^verbatim>\<open>winwincode-delivery/src/domain\<close>, the parts of a delivery
      (\<^verbatim>\<open>spec.rs\<close>, \<^verbatim>\<open>attention.rs\<close>, \<^verbatim>\<open>session_binding.rs\<close>, and the references and verdicts of \<^verbatim>\<open>evidence.rs\<close> and
      \<^verbatim>\<open>verdict.rs\<close>) with their validation, and the validation of the whole (\<^verbatim>\<open>mod.rs\<close>, \<^verbatim>\<open>same_candidate.rs\<close>).
      \<open>Delivery_Candidate\<close>: when a frozen candidate is current (\<^verbatim>\<open>candidate.rs\<close>). \<open>Snapshot_Seal\<close>: canonical snapshots
      and their seals (\<^verbatim>\<open>winwincode-domain/src/snapshot.rs\<close>). \<open>Delivery_Verification\<close>: how the facts of
      verification sessions become an independent verification (\<^verbatim>\<open>verification.rs\<close>). \<open>Delivery_Evidence\<close>: how
      evidence is resolved (\<^verbatim>\<open>evidence.rs\<close>). \<open>Delivery_Verdict\<close>, \<open>Delivery_Judgement\<close>: how verdicts and decisions
      are made (\<^verbatim>\<open>verdict.rs\<close>). An option around a result is \<open>None\<close> where the code panics. \<open>Delivery_Support\<close> and
      \<open>Delivery_Independence\<close> hold their lemmas, \<open>Delivery_Sample\<close> and \<open>Delivery_Team\<close> the examples of the witnesses,
      \<open>Delivery_Promises\<close> and \<open>Delivery_Chain\<close> the theorems.
    \<^item> \<open>Network_Diagnostic\<close>, \<open>Network_Policy\<close>: \<^verbatim>\<open>winwincode-network/src\<close>.

  \<^bold>\<open>What is shown.\<close>
    \<^item> Exchange: what the receiver accepts is a prefix of what was enqueued, nothing unacknowledged is lost,
      and the link can always catch up; this theory states it for the device's SQLite outbox.
    \<^item> Storage: a commit is a compare-and-set over streams; a repeated command is answered from its receipt and
      writes nothing; journals and projection streams have no gaps, so cursors stay valid.
    \<^item> Occupancy: one active lease per device, tokens that only grow, ended leases that stay ended. With
      the device's mirror: once a device knows the newer token, the older lease is obeyed no more.
    \<^item> Device: reports of workers are not lost, receipts of applied candidates are final, a ticket is
      valid exactly while the mirror has not moved.
    \<^item> Sessions: the first decision and the first cancellation are final.
    \<^item> Model pool: its limits hold in every state, no slot is idle while a request waits, accepted frames replay,
      and the exported authority restores the same pool; a cancelled stream with unacknowledged frames is the
      exception (\<open>cancelled_stream_blocks_restart\<close>).
    \<^item> Work: items and runs agree, work follows its dependencies, attempts have no gaps, outcomes settle once, and
      dependencies never deadlock.
    \<^item> Commands: a command has the digest of a method exactly when it means the same, and quoting does not matter.
    \<^item> Snapshots: a seal stands for one snapshot. Verifiers are independent of each other and of the writer, and leave
      the candidate as it was.
    \<^item> Deliveries: a passing verdict was earned: every role ran the approved command on the exact candidate, and it
      succeeded (\<open>passing_verdict_was_earned\<close> takes verification, evidence and verdict together). A delivery that is
      ready is proven and its work is done; models never override facts; what was accepted is accepted again,
      unchanged; a verdict never panics, but the result of one verifier can (\<open>missing_method_panics\<close>).
    \<^item> Network: retries end within their budget, and a request that may have taken effect is not sent again.

  \<^bold>\<open>Parameters.\<close> Code outside the repository is an argument: SHA-256, Base64 and JSON (\<^verbatim>\<open>serde_json\<close>) codecs, the
  calendar of the \<^verbatim>\<open>time\<close> crate, the clock, and \<^verbatim>\<open>Debug\<close> renderings of foreign types. What is assumed of
  one is a hypothesis of the theorem that needs it (a codec reads back what it wrote), and the witness
  instantiates it. Integers keep their width (64-bit words) wherever the code adds or compares them;
  \<^verbatim>\<open>i64\<close> revisions are integers with the checked range written out. No definition uses fuel: loops are
  structural, or end by a measure that is proved (the resolution of dependencies, the retry loop, whose bound is
  the attempt budget).

  \<^bold>\<open>Not modelled.\<close> Opening and migrating databases; the HTTP, WebSocket and process hosts; the worker and the
  embedded agent kernel; the providers; generated wire types beyond those used above; the command
  handlers of the control plane above these components; how candidates are frozen and rework is
  authorized, and the journal of deliveries; and the remaining tables of the storage crate (execution
  queue, device registry, artifacts), which use the same transaction. They are mostly effects, or are
  built from the components above. Two threads meet only in the database, whose transactions are serial, so
  interleavings are sequences of operations.
\<close>

section \<open>The device's exchange\<close>

text \<open>
  C1. The device's exchange is reliable: when the sender's outbox is the SQLite table of the device
  store, for any JSON implementation that reads back what it wrote, and whatever the network loses,
  repeats or reorders, the receiver's accepted frames are a prefix of the frames enqueued, the
  table records no acknowledgement the receiver has not reached, and every frame above its
  acknowledgement is still in the table.
\<close>

theorem device_exchange_delivers_prefix:
  assumes serde: "\<forall>env b. oc_to_vec c env = Inr b \<longrightarrow> oc_from_slice c b = Inr env \<and> b \<noteq> []"
    and "device_inv s" and "device_abs c s = OutboxSnapshot_default"
    and "link_run (device_ops c) inst (link_start s inst) l"
  shows "lk_log l = take (recv_ack l) (lk_sent l) \<and> recv_ack l \<le> length (lk_sent l)
    \<and> unat (ob_ack_sequence (device_abs c (lk_store l))) \<le> length (lk_log l)
    \<and> (\<forall>i \<in> set (drop (unat (ob_ack_sequence (device_abs c (lk_store l)))) (lk_sent l)).
         \<exists>f \<in> set (ob_frames (device_abs c (lk_store l))). stored_frame_identity f = i)"
proof -
  have c: "device_outbox_codec c" by (rule device_outbox_codec.intro) (use serde in blast)
  note run = device_outbox_codec.device_link_run [OF c assms(2,3,4)]
  from run device_outbox_codec.device_link_held [OF c assms(2,3,4)] show ?thesis by blast
qed

theorem device_exchange_delivers_prefix_witness:
  "\<exists>l. link_run (device_ops sample_codec) ''c'' (link_start bound_store ''c'') l
     \<and> lk_sent l = [stored_frame_identity (hello_frame 1 ''m1'')]
     \<and> (\<forall>i \<in> set (drop (unat (ob_ack_sequence (device_abs sample_codec (lk_store l)))) (lk_sent l)).
         \<exists>f \<in> set (ob_frames (device_abs sample_codec (lk_store l))). stored_frame_identity f = i)"
proof -
  let ?l = "link_start bound_store ''c''"
  from bound_store_enqueue obtain s'
    where "enqueue (device_ops sample_codec) (lk_store ?l) 1 (hello_frame 1 ''m1'') = Inr (1, s')"
    by (auto simp: link_start_def)
  from enqueued [OF this, of "''c''"]
  have run: "link_run (device_ops sample_codec) ''c'' ?l
      (?l\<lparr>lk_store := s', lk_sent := lk_sent ?l @ [stored_frame_identity (hello_frame 1 ''m1'')]\<rparr>)" by blast
  have sent: "lk_sent (?l\<lparr>lk_store := s', lk_sent := lk_sent ?l @ [stored_frame_identity (hello_frame 1 ''m1'')]\<rparr>)
      = [stored_frame_identity (hello_frame 1 ''m1'')]" by (simp add: link_start_def)
  from device_exchange_delivers_prefix [OF sample_serde bound_store_inv run] show ?thesis
    by (intro exI conjI) (rule run, rule sent, blast)
qed

section \<open>Fencing from the ledger to the device\<close>

text \<open>
  C7. A device that has learnt of a newer lease obeys no older one. When a lease was claimed, later another one
  was, and the device has accepted the later lease's token into its mirror, every command that carries the
  earlier lease's token is rejected as stale from then on, whatever happened to the ledger in between and
  whatever other mirror updates the device receives, out of order or repeated.
\<close>

theorem newer_claim_fences_older:
  assumes "atomic_claim (run_ops occupancy_step empty_ledger before) c now = Inr (older, db1)"
    and "atomic_claim (run_ops occupancy_step db1 between) c' now' = Inr (newer, db2)"
    and "mirror_step (run_ops mirror_step empty_store earlier) upd = Inr s"
    and "mu_fencing_token upd = ol_fencing_token newer"
    and "from_store (run_ops mirror_step s later) = Inr g"
  shows "authorize_command g kind lease (ol_fencing_token older) = fencing_verdict.Rejected StaleFencingToken"
proof -
  have "ol_fencing_token older < ol_fencing_token newer" by (rule claim_then_claim [OF ledger_reachable assms(1,2)])
  moreover have "mirror_inv (run_ops mirror_step empty_store earlier)"
    by (rule mirror.run_inv) (simp add: mirror_inv_def empty_store_def)
  ultimately show ?thesis using older_token_stale [OF _ assms(3,5)] assms(4) by simp
qed

theorem newer_claim_fences_older_witness:
  "\<exists>older db1 newer db2 s g.
     atomic_claim (run_ops occupancy_step empty_ledger [sample_environment]) (sample_claim CHR ''1'') sample_now
       = Inr (older, db1)
     \<and> atomic_claim (run_ops occupancy_step db1 [RejectOp (sample_lease_id CHR ''1'') 1 ClientRejected sample_now])
         (sample_claim CHR ''2'') sample_now = Inr (newer, db2)
     \<and> mirror_step empty_store (sample_mirror\<lparr>mu_fencing_token := ol_fencing_token newer\<rparr>) = Inr s
     \<and> from_store s = Inr g
     \<and> authorize_command g WorkerStop (ol_occupancy_lease_id older) (ol_fencing_token older) = fencing_verdict.Rejected StaleFencingToken"
proof -
  let ?ops = "[RejectOp (sample_lease_id CHR ''1'') 1 ClientRejected sample_now]"
  from sample_claims obtain older db1 newer db2 where claims:
    "atomic_claim (run_ops occupancy_step empty_ledger [sample_environment]) (sample_claim CHR ''1'') sample_now = Inr (older, db1)"
    "atomic_claim (run_ops occupancy_step db1 ?ops) (sample_claim CHR ''2'') sample_now = Inr (newer, db2)"
    and token: "ol_fencing_token newer = 2" by blast
  obtain s g where s: "mirror_step (run_ops mirror_step empty_store []) (sample_mirror\<lparr>mu_fencing_token := 2\<rparr>) = Inr s"
    and g: "from_store (run_ops mirror_step s []) = Inr g"
    by (simp add: from_store_def occupancy_mirror_def mirror_defs sample_mirror_def empty_store_def row_to_occupancy_mirror_def)
  from newer_claim_fences_older [OF claims s _ g] claims s g token show ?thesis by fastforce
qed

end
